(* ===== verification/Dig_Prelude.thy ===== *)
theory Dig_Prelude
  imports Main "HOL-Library.Char_ord"
begin

text \<open>
  Shared vocabulary of the development: the names of the model's basic types, the string
  functions of the JavaScript standard library that the modelled code calls, generic lemmas
  on lists and association lists, and the collections of simplification rules the component
  theories extend.

  JavaScript strings are modelled as \<open>string\<close>. Every string the modelled code inspects
  (addresses, hashes, day strings, reasons, handles) is ASCII; a character outside ASCII only
  occurs in literals of user-facing copy and is written as its UTF-8 bytes.
\<close>

named_theorems row_simps "projections and updates of database rows"
named_theorems js_simps "evaluation of JavaScript number operations"

type_synonym address = string
type_synonym user_id = string
type_synonym tx_hash = string
type_synonym ms = int \<comment> \<open>an instant: the time value of a Date, milliseconds since the epoch\<close>

section \<open>String functions of the standard library\<close>

definition is_digit :: "char \<Rightarrow> bool" where
  "is_digit c \<longleftrightarrow> 48 \<le> (of_char c :: nat) \<and> (of_char c :: nat) \<le> 57"

definition digit_val :: "char \<Rightarrow> nat" where
  "digit_val c = (of_char c :: nat) - 48"

definition digit_char :: "nat \<Rightarrow> char" where
  "digit_char n = char_of (n + 48)"

text \<open>ASCII case folding, as \<open>toLowerCase\<close> and \<open>toUpperCase\<close> act on ASCII text and
  SQL's \<open>lower\<close> does on the address columns.\<close>

definition lower_char :: "char \<Rightarrow> char" where
  "lower_char c =
     (let n = (of_char c :: nat) in if 65 \<le> n \<and> n \<le> 90 then char_of (n + 32) else c)"

definition upper_char :: "char \<Rightarrow> char" where
  "upper_char c =
     (let n = (of_char c :: nat) in if 97 \<le> n \<and> n \<le> 122 then char_of (n - 32) else c)"

definition toLowerCase :: "string \<Rightarrow> string" where
  "toLowerCase s = List.map lower_char s"

definition toUpperCase :: "string \<Rightarrow> string" where
  "toUpperCase s = List.map upper_char s"

text \<open>\<open>lower(a) = lower(b)\<close>\<close>

definition lower_eq :: "address \<Rightarrow> address \<Rightarrow> bool" where
  "lower_eq a b \<longleftrightarrow> toLowerCase a = toLowerCase b"

lemma lower_eq_sym: "lower_eq a b = lower_eq b a"
  by (auto simp: lower_eq_def)

text \<open>The ASCII part of the white space and line terminators that \<open>trim\<close> removes.\<close>

definition is_space :: "char \<Rightarrow> bool" where
  "is_space c \<longleftrightarrow> (let n = (of_char c :: nat) in n = 32 \<or> (9 \<le> n \<and> n \<le> 13))"

definition trim :: "string \<Rightarrow> string" where
  "trim s = rev (dropWhile is_space (rev (dropWhile is_space s)))"

text \<open>\<open>prefix\<close> as \<open>like 'p%'\<close> and \<open>startsWith\<close> test it.\<close>

fun starts_with :: "string \<Rightarrow> string \<Rightarrow> bool" where
  "starts_with [] s = True"
| "starts_with (p # ps) [] = False"
| "starts_with (p # ps) (c # cs) = (p = c \<and> starts_with ps cs)"

lemma starts_with_append [simp]: "starts_with p (p @ s)"
  by (induction p) auto

lemma starts_with_iff: "starts_with p s \<longleftrightarrow> take (length p) s = p"
  by (induction p s rule: starts_with.induct) auto

lemma of_char_digit_char [simp]: "n \<le> 9 \<Longrightarrow> (of_char (digit_char n) :: nat) = n + 48"
  by (simp add: digit_char_def of_char_of)

lemma is_digit_digit_char [simp]: "n \<le> 9 \<Longrightarrow> is_digit (digit_char n)"
  by (simp add: is_digit_def)

lemma digit_val_digit_char [simp]: "n \<le> 9 \<Longrightarrow> digit_val (digit_char n) = n"
  by (simp add: digit_val_def)

lemma lower_char_idem [simp]: "lower_char (lower_char c) = lower_char c"
  by (auto simp: lower_char_def Let_def of_char_of)

lemma toLowerCase_idem [simp]: "toLowerCase (toLowerCase s) = toLowerCase s"
  by (simp add: toLowerCase_def)

section \<open>Lists\<close>

lemma find_Some_in: "List.find P xs = Some x \<Longrightarrow> x \<in> set xs \<and> P x"
  by (induction xs) (auto split: if_splits)

lemma find_None_iff_all: "List.find P xs = None \<longleftrightarrow> (\<forall>x \<in> set xs. \<not> P x)"
  by (induction xs) auto

lemma sum_list_filter_le:
  fixes f :: "'a \<Rightarrow> int"
  assumes "\<And>x. x \<in> set xs \<Longrightarrow> 0 \<le> f x"
  shows "sum_list (map f (filter P xs)) \<le> sum_list (map f xs)"
  using assms
proof (induction xs)
  case (Cons a xs)
  then have "0 \<le> f a" and "sum_list (map f (filter P xs)) \<le> sum_list (map f xs)" by simp_all
  then show ?case by simp
qed simp

lemma sum_list_int_nonneg:
  fixes f :: "'a \<Rightarrow> int"
  assumes "\<And>x. x \<in> set xs \<Longrightarrow> 0 \<le> f x"
  shows "0 \<le> sum_list (map f xs)"
  using assms by (induction xs) (auto intro: add_nonneg_nonneg)

end
