(* ===== verification/Js_Number.thy ===== *)
theory Js_Number
  imports Complex_Main "HOL-Library.Log_Nat" Dig_Prelude
begin

text \<open>
  JavaScript numbers. A number of the language is an IEEE 754 binary64 value; here it is
  \<open>NaN\<close>, an infinity, or \<open>Num x\<close> for the rational value \<open>x\<close> it denotes. The arithmetic
  operators compute the exact rational result and round it with \<open>fl\<close>, the
  round-to-nearest, ties-to-even rule of the format, gradual underflow and overflow included.

  The sign of zero is the one thing not represented: \<open>-0\<close> and \<open>0\<close> are both \<open>Num 0\<close>. They
  compare equal in the language, and none of the modelled code divides by a zero of
  unknown sign (a zero divisor is either excluded by a guard or treated here as \<open>+0\<close>).
\<close>

datatype jsnum = NaN | PInf | NInf | Num rat

section \<open>Rounding\<close>

text \<open>Round a rational to an integer, to nearest, ties to even.\<close>

definition rne :: "rat \<Rightarrow> int" where
  "rne x = (let f = \<lfloor>x\<rfloor>; r = x - of_int f in
     if r < 1/2 then f else if 1/2 < r then f + 1 else if even f then f else f + 1)"

text \<open>\<open>2\<close> to an integer power, and the binary exponent of a positive rational: the \<open>e\<close> with
  \<open>2^e \<le> x < 2^(e+1)\<close>.\<close>

definition pow2 :: "int \<Rightarrow> rat" where
  "pow2 e = (if 0 \<le> e then of_int (2 ^ nat e) else 1 / of_int (2 ^ nat (- e)))"

definition rexp :: "rat \<Rightarrow> int" where
  "rexp x = (let (n, d) = quotient_of x;
                 k = bitlen n - bitlen d
             in if pow2 k \<le> x then k else k - 1)"

text \<open>The exponent of the unit in the last place: 53 significant bits, never below \<open>-1074\<close>.\<close>

definition ulp_exp :: "rat \<Rightarrow> int" where
  "ulp_exp x = max (rexp \<bar>x\<bar>) (-1022) - 52"

definition rnd :: "rat \<Rightarrow> rat" where
  "rnd x = (if x = 0 then 0
            else of_int (rne (x / pow2 (ulp_exp x))) * pow2 (ulp_exp x))"

definition fl :: "rat \<Rightarrow> jsnum" where
  "fl x = (let v = rnd x in
     if v \<noteq> 0 \<and> 1024 \<le> rexp \<bar>v\<bar> then (if 0 < v then PInf else NInf) else Num v)"

text \<open>The values the format can hold.\<close>

definition representable :: "rat \<Rightarrow> bool" where
  "representable x \<longleftrightarrow> fl x = Num x"

fun wf_jsnum :: "jsnum \<Rightarrow> bool" where
  "wf_jsnum (Num x) = representable x"
| "wf_jsnum _ = True"

section \<open>Operators\<close>

fun isFinite :: "jsnum \<Rightarrow> bool" where
  "isFinite (Num _) = True"
| "isFinite _ = False"

fun js_neg :: "jsnum \<Rightarrow> jsnum" where
  "js_neg NaN = NaN"
| "js_neg PInf = NInf"
| "js_neg NInf = PInf"
| "js_neg (Num x) = Num (- x)"

fun js_abs :: "jsnum \<Rightarrow> jsnum" where
  "js_abs NaN = NaN"
| "js_abs PInf = PInf"
| "js_abs NInf = PInf"
| "js_abs (Num x) = Num \<bar>x\<bar>"

fun js_add :: "jsnum \<Rightarrow> jsnum \<Rightarrow> jsnum" where
  "js_add NaN _ = NaN"
| "js_add _ NaN = NaN"
| "js_add PInf NInf = NaN"
| "js_add NInf PInf = NaN"
| "js_add PInf _ = PInf"
| "js_add _ PInf = PInf"
| "js_add NInf _ = NInf"
| "js_add _ NInf = NInf"
| "js_add (Num x) (Num y) = fl (x + y)"

definition js_sub :: "jsnum \<Rightarrow> jsnum \<Rightarrow> jsnum" where
  "js_sub a b = js_add a (js_neg b)"

definition inf_of_sign :: "rat \<Rightarrow> jsnum" where
  "inf_of_sign s = (if 0 < s then PInf else if s < 0 then NInf else NaN)"

fun js_mul :: "jsnum \<Rightarrow> jsnum \<Rightarrow> jsnum" where
  "js_mul NaN _ = NaN"
| "js_mul _ NaN = NaN"
| "js_mul (Num x) (Num y) = fl (x * y)"
| "js_mul (Num x) PInf = inf_of_sign x"
| "js_mul (Num x) NInf = inf_of_sign (- x)"
| "js_mul PInf (Num y) = inf_of_sign y"
| "js_mul NInf (Num y) = inf_of_sign (- y)"
| "js_mul PInf PInf = PInf"
| "js_mul NInf NInf = PInf"
| "js_mul PInf NInf = NInf"
| "js_mul NInf PInf = NInf"

fun js_div :: "jsnum \<Rightarrow> jsnum \<Rightarrow> jsnum" where
  "js_div NaN _ = NaN"
| "js_div _ NaN = NaN"
| "js_div (Num x) (Num y) = (if y = 0 then inf_of_sign x else fl (x / y))"
| "js_div (Num x) _ = Num 0"
| "js_div PInf (Num y) = (if y < 0 then NInf else PInf)"
| "js_div NInf (Num y) = (if y < 0 then PInf else NInf)"
| "js_div _ _ = NaN"

fun js_lt :: "jsnum \<Rightarrow> jsnum \<Rightarrow> bool" where
  "js_lt NaN _ = False"
| "js_lt _ NaN = False"
| "js_lt (Num x) (Num y) = (x < y)"
| "js_lt NInf NInf = False"
| "js_lt NInf _ = True"
| "js_lt _ NInf = False"
| "js_lt PInf _ = False"
| "js_lt _ PInf = True"

fun js_le :: "jsnum \<Rightarrow> jsnum \<Rightarrow> bool" where
  "js_le NaN _ = False"
| "js_le _ NaN = False"
| "js_le (Num x) (Num y) = (x \<le> y)"
| "js_le NInf _ = True"
| "js_le _ PInf = True"
| "js_le PInf _ = False"
| "js_le _ NInf = False"

abbreviation js_gt :: "jsnum \<Rightarrow> jsnum \<Rightarrow> bool" where
  "js_gt a b \<equiv> js_lt b a"

abbreviation js_ge :: "jsnum \<Rightarrow> jsnum \<Rightarrow> bool" where
  "js_ge a b \<equiv> js_le b a"

text \<open>\<open>Math.round\<close> rounds half up, on the exact value; \<open>Math.floor\<close>, \<open>Math.ceil\<close>.\<close>

fun Math_round :: "jsnum \<Rightarrow> jsnum" where
  "Math_round (Num x) = Num (of_int \<lfloor>x + 1/2\<rfloor>)"
| "Math_round a = a"

fun Math_floor :: "jsnum \<Rightarrow> jsnum" where
  "Math_floor (Num x) = Num (of_int \<lfloor>x\<rfloor>)"
| "Math_floor a = a"

fun Math_ceil :: "jsnum \<Rightarrow> jsnum" where
  "Math_ceil (Num x) = Num (of_int \<lceil>x\<rceil>)"
| "Math_ceil a = a"

definition Math_max :: "jsnum \<Rightarrow> jsnum \<Rightarrow> jsnum" where
  "Math_max a b = (if a = NaN \<or> b = NaN then NaN else if js_lt a b then b else a)"

definition Math_min :: "jsnum \<Rightarrow> jsnum \<Rightarrow> jsnum" where
  "Math_min a b = (if a = NaN \<or> b = NaN then NaN else if js_lt b a then b else a)"

abbreviation jsint :: "int \<Rightarrow> jsnum" where
  "jsint n \<equiv> Num (of_int n)"

section \<open>Rounding is monotone and exact on the integers up to $2^{53}$\<close>

lemma pow2_powi: "pow2 e = 2 powi e"
proof (cases "0 \<le> e")
  case True
  then show ?thesis by (simp add: pow2_def power_int_def)
next
  case False
  then show ?thesis by (simp add: pow2_def power_int_def power_one_over inverse_eq_divide)
qed

lemma pow2_pos [simp]: "0 < pow2 e"
  by (simp add: pow2_def)

lemma pow2_nonneg [simp]: "0 \<le> pow2 e" "\<not> pow2 e < 0"
  using pow2_pos [of e] by linarith+

lemma pow2_nonzero [simp]: "pow2 e \<noteq> 0"
  using pow2_pos [of e] by linarith

lemma pow2_0 [simp]: "pow2 0 = 1"
  by (simp add: pow2_def)

lemma pow2_add: "pow2 (a + b) = pow2 a * pow2 b"
  by (simp add: pow2_powi power_int_add)

lemma pow2_minus: "pow2 (- a) = 1 / pow2 a"
  by (simp add: pow2_powi power_int_minus divide_inverse)

lemma pow2_diff: "pow2 (a - b) = pow2 a / pow2 b"
  by (simp add: pow2_powi power_int_diff)

lemma pow2_of_nat: "pow2 (int n) = 2 ^ n"
  by (simp add: pow2_def)

lemma pow2_mono: "a \<le> b \<Longrightarrow> pow2 a \<le> pow2 b"
  by (simp add: pow2_powi power_int_increasing)

lemma pow2_less_iff [simp]: "pow2 a < pow2 b \<longleftrightarrow> a < b"
  using pow2_mono [of a b] pow2_mono [of b a] 
  by (metis linorder_not_le pow2_powi power_int_strict_increasing rel_simps(28) one_less_numeral_iff semiring_norm(76))

lemma pow2_le_iff [simp]: "pow2 a \<le> pow2 b \<longleftrightarrow> a \<le> b"
  by (metis linorder_not_le pow2_less_iff)

lemma rexp_bounds:
  assumes "0 < x"
  shows "pow2 (rexp x) \<le> x \<and> x < pow2 (rexp x + 1)"
proof -
  obtain n d where q: "quotient_of x = (n, d)" by (cases "quotient_of x")
  then have d: "0 < d" by (rule quotient_of_denom_pos)
  have x: "x = of_int n / of_int d" using q by (rule quotient_of_div)
  with assms d have n: "0 < n" by (simp add: zero_less_divide_iff)
  define a where "a = bitlen n"
  define b where "b = bitlen d"
  have bnd: "pow2 (bitlen m - 1) \<le> of_int m \<and> of_int m < pow2 (bitlen m)"
    if "0 < m" for m :: int
  proof -
    have g: "1 \<le> bitlen m" using that by (simp add: bitlen_ge_iff_power)
    have "2 ^ nat (bitlen m - 1) \<le> m \<and> m < 2 ^ nat (bitlen m)"
      using bitlen_bounds that by simp
    then have "of_int (2 ^ nat (bitlen m - 1)) \<le> (of_int m :: rat) \<and> (of_int m :: rat) < of_int (2 ^ nat (bitlen m))"
      by (simp only: of_int_le_iff of_int_less_iff)
    then show ?thesis using g by (simp add: pow2_def)
  qed
  have bn: "pow2 (a - 1) \<le> of_int n" "of_int n < pow2 a" and
    bd: "pow2 (b - 1) \<le> of_int d" "of_int d < pow2 b"
    using bnd [OF n] bnd [OF d] by (simp_all add: a_def b_def)
  have up: "x < pow2 (a - b + 1)"
  proof -
    have "of_int n < pow2 a" by (rule bn)
    also have "pow2 a = pow2 (a - b + 1) * pow2 (b - 1)" by (simp add: pow2_add [symmetric])
    also have "\<dots> \<le> pow2 (a - b + 1) * of_int d" using bd by simp
    finally show ?thesis using d by (simp add: x divide_less_eq)
  qed
  have lo: "pow2 (a - b - 1) \<le> x"
  proof -
    have "pow2 (a - b - 1) * of_int d \<le> pow2 (a - b - 1) * pow2 b" using bd by simp
    also have "\<dots> = pow2 (a - 1)" by (simp add: pow2_add [symmetric])
    also have "\<dots> \<le> of_int n" by (rule bn)
    finally show ?thesis using d by (simp add: x le_divide_eq)
  qed
  have r: "rexp x = (if pow2 (a - b) \<le> x then a - b else a - b - 1)"
    by (simp add: rexp_def q a_def b_def Let_def)
  show ?thesis
  proof (cases "pow2 (a - b) \<le> x")
    case True
    then show ?thesis using up r by simp
  next
    case False
    then show ?thesis using lo r by simp
  qed
qed

lemma rexp_ge_iff: "0 < x \<Longrightarrow> e \<le> rexp x \<longleftrightarrow> pow2 e \<le> x"
proof
  assume x: "0 < x" and "e \<le> rexp x"
  then have "pow2 e \<le> pow2 (rexp x)" by simp
  then show "pow2 e \<le> x" using rexp_bounds [OF x] by linarith
next
  assume x: "0 < x" and "pow2 e \<le> x"
  then have "pow2 e < pow2 (rexp x + 1)" using rexp_bounds [OF x] by linarith
  then show "e \<le> rexp x" by simp
qed

lemma fl_alt: "fl x = (if pow2 1024 \<le> rnd x then PInf
    else if rnd x \<le> - pow2 1024 then NInf else Num (rnd x))"
proof -
  have p: "0 < pow2 1024" by simp
  consider "rnd x = 0" | "0 < rnd x" | "rnd x < 0" by linarith
  then show ?thesis
  proof cases
    case 1
    then show ?thesis using p by (auto simp: fl_def Let_def not_le)
  next
    case 2
    then show ?thesis using p rexp_ge_iff [of "rnd x" 1024] by (auto simp: fl_def Let_def)
  next
    case 3
    then have "\<not> pow2 1024 \<le> rnd x" using p by linarith
    with 3 show ?thesis using rexp_ge_iff [of "- rnd x" 1024] by (auto simp: fl_def Let_def)
  qed
qed

lemma rexp_mono: "0 < x \<Longrightarrow> x \<le> y \<Longrightarrow> rexp x \<le> rexp y"
proof -
  assume a: "0 < x" "x \<le> y"
  then have "pow2 (rexp x) \<le> x" "y < pow2 (rexp y + 1)"
    using rexp_bounds [of x] rexp_bounds [of y] by auto
  with a have "pow2 (rexp x) < pow2 (rexp y + 1)" by linarith
  then show ?thesis by simp
qed

lemma rne_of_int [simp]: "rne (of_int n) = n"
  by (simp add: rne_def Let_def)

lemma rne_floor_or_succ: "rne x = \<lfloor>x\<rfloor> \<or> rne x = \<lfloor>x\<rfloor> + 1"
  by (auto simp: rne_def Let_def)

lemma rne_near: "\<bar>of_int (rne x) - x\<bar> \<le> 1/2"
proof -
  have "of_int \<lfloor>x\<rfloor> \<le> x" "x < of_int \<lfloor>x\<rfloor> + 1" by linarith+
  then show ?thesis by (auto simp: rne_def Let_def)
qed

lemma rne_mono: "x \<le> y \<Longrightarrow> rne x \<le> rne y"
proof -
  assume le: "x \<le> y"
  then have f: "\<lfloor>x\<rfloor> \<le> \<lfloor>y\<rfloor>" by (rule floor_mono)
  show ?thesis
  proof (cases "\<lfloor>x\<rfloor> = \<lfloor>y\<rfloor>")
    case True
    with le show ?thesis by (auto simp: rne_def Let_def)
  next
    case False
    with f have "\<lfloor>x\<rfloor> + 1 \<le> \<lfloor>y\<rfloor>" by linarith
    then show ?thesis using rne_floor_or_succ [of x] rne_floor_or_succ [of y] by linarith
  qed
qed

lemma rne_minus: "rne (- x) = - rne x"
proof (cases "x = of_int \<lfloor>x\<rfloor>")
  case True
  then have "rne x = \<lfloor>x\<rfloor>" by (metis rne_of_int)
  moreover have "rne (- x) = - \<lfloor>x\<rfloor>" using True by (metis of_int_minus rne_of_int)
  ultimately show ?thesis by simp
next
  case False
  have b: "of_int \<lfloor>x\<rfloor> < x" "x < of_int \<lfloor>x\<rfloor> + 1" using False by linarith+
  have "\<lfloor>- x\<rfloor> = - \<lfloor>x\<rfloor> - 1" using False b by (intro floor_unique) auto
  then show ?thesis using b by (auto simp: rne_def Let_def)
qed

lemma ulp_exp_minus [simp]: "ulp_exp (- x) = ulp_exp x"
  by (simp add: ulp_exp_def)

lemma rnd_0 [simp]: "rnd 0 = 0"
  by (simp add: rnd_def)

lemma rnd_minus: "rnd (- x) = - rnd x"
  by (simp add: rnd_def rne_minus)

lemma rnd_nonneg: "0 \<le> x \<Longrightarrow> 0 \<le> rnd x"
proof -
  assume "0 \<le> x"
  then have "rne 0 \<le> rne (x / pow2 (ulp_exp x))" by (intro rne_mono) simp
  then have "0 \<le> rne (x / pow2 (ulp_exp x))" using rne_of_int [of 0] by simp
  then show ?thesis by (simp add: rnd_def)
qed

lemma rnd_upper: "0 < x \<Longrightarrow> -1022 \<le> rexp x \<Longrightarrow> rnd x \<le> pow2 (rexp x + 1)"
proof -
  assume x: "0 < x" and e: "-1022 \<le> rexp x"
  let ?u = "rexp x - 52"
  have u: "ulp_exp x = ?u" using x e by (simp add: ulp_exp_def)
  have "x / pow2 ?u \<le> pow2 (rexp x + 1) / pow2 ?u"
    using rexp_bounds [OF x] by (simp add: divide_right_mono)
  also have "\<dots> = pow2 53" by (simp add: pow2_diff [symmetric])
  also have "\<dots> = of_int (2 ^ 53)" by (simp add: pow2_def)
  finally have "rne (x / pow2 ?u) \<le> 2 ^ 53" using rne_mono rne_of_int by metis
  then have "of_int (rne (x / pow2 ?u)) * pow2 ?u \<le> of_int (2 ^ 53) * pow2 ?u"
    by (intro mult_right_mono) (simp_all only: of_int_le_iff pow2_pos less_imp_le)
  also have "\<dots> = pow2 53 * pow2 ?u" by (simp add: pow2_def)
  also have "\<dots> = pow2 (rexp x + 1)" by (simp add: pow2_add [symmetric] add.commute)
  finally show ?thesis using x u by (simp add: rnd_def)
qed

lemma rnd_lower: "0 < x \<Longrightarrow> -1022 \<le> rexp x \<Longrightarrow> pow2 (rexp x) \<le> rnd x"
proof -
  assume x: "0 < x" and e: "-1022 \<le> rexp x"
  let ?u = "rexp x - 52"
  have u: "ulp_exp x = ?u" using x e by (simp add: ulp_exp_def)
  have "of_int (2 ^ 52) = pow2 52" by (simp add: pow2_def)
  also have "\<dots> = pow2 (rexp x) / pow2 ?u" by (simp add: pow2_diff [symmetric])
  also have "\<dots> \<le> x / pow2 ?u" using rexp_bounds [OF x] by (simp add: divide_right_mono)
  finally have "2 ^ 52 \<le> rne (x / pow2 ?u)" using rne_mono rne_of_int by metis
  then have "of_int (2 ^ 52) * pow2 ?u \<le> of_int (rne (x / pow2 ?u)) * pow2 ?u"
    by (intro mult_right_mono) (simp_all only: of_int_le_iff pow2_pos less_imp_le)
  moreover have "pow2 (rexp x) = pow2 52 * pow2 ?u" by (simp add: pow2_add [symmetric])
  moreover have "\<dots> = of_int (2 ^ 52) * pow2 ?u" by (simp add: pow2_def)
  ultimately have "pow2 (rexp x) \<le> of_int (rne (x / pow2 ?u)) * pow2 ?u" by linarith
  then show ?thesis using x u by (simp add: rnd_def)
qed

lemma rnd_mono_pos:
  assumes x: "0 < x" and le: "x \<le> y"
  shows "rnd x \<le> rnd y"
proof (cases "ulp_exp x = ulp_exp y")
  case True
  have "x / pow2 (ulp_exp y) \<le> y / pow2 (ulp_exp y)" using le by (simp add: divide_right_mono)
  then have "rne (x / pow2 (ulp_exp y)) \<le> rne (y / pow2 (ulp_exp y))" by (rule rne_mono)
  then show ?thesis using x le True by (simp add: rnd_def)
next
  case False
  have y: "0 < y" using x le by linarith
  have m: "rexp x \<le> rexp y" using rexp_mono [OF x le] .
  with False x y have ey: "-1022 < rexp y" "rexp x < rexp y" by (auto simp: ulp_exp_def max_def split: if_splits)
  have up: "rnd x \<le> pow2 (max (rexp x) (-1022) + 1)"
  proof (cases "-1022 \<le> rexp x")
    case True
    then show ?thesis using rnd_upper [OF x] by simp
  next
    case False
    have "pow2 (rexp x + 1) \<le> pow2 (-1022)" using False by simp
    then have xs: "x \<le> pow2 (-1022)" using rexp_bounds [OF x] by linarith
    have "x / pow2 (-1074) \<le> pow2 (-1022) / pow2 (-1074)" using xs by (simp add: divide_right_mono)
    also have "\<dots> = pow2 52" by (simp add: pow2_diff [symmetric])
    also have "\<dots> = of_int (2 ^ 52)" by (simp add: pow2_def)
    finally have "rne (x / pow2 (-1074)) \<le> 2 ^ 52" using rne_mono rne_of_int by metis
    then have "of_int (rne (x / pow2 (-1074))) * pow2 (-1074) \<le> of_int (2 ^ 52) * pow2 (-1074)"
      by (intro mult_right_mono) (simp_all only: of_int_le_iff pow2_pos less_imp_le)
    also have "\<dots> = pow2 52 * pow2 (-1074)" by (simp add: pow2_def)
    also have "\<dots> = pow2 (-1022)" by (simp add: pow2_add [symmetric])
    also have "\<dots> \<le> pow2 (max (rexp x) (-1022) + 1)" by simp
    finally show ?thesis using x False by (simp add: rnd_def ulp_exp_def)
  qed
  also have "\<dots> \<le> pow2 (rexp y)" using ey by (simp del: pow2_powi)
  also have "\<dots> \<le> rnd y" using rnd_lower [OF y] ey by simp
  finally show ?thesis .
qed

lemma rnd_mono: "x \<le> y \<Longrightarrow> rnd x \<le> rnd y"
proof -
  assume le: "x \<le> y"
  consider "0 < x" | "x \<le> 0" "0 \<le> y" | "y < 0" by linarith
  then show ?thesis
  proof cases
    case 1
    then show ?thesis using le by (rule rnd_mono_pos)
  next
    case 2
    then have "0 \<le> rnd (- x)" "0 \<le> rnd y" by (simp_all add: rnd_nonneg)
    then show ?thesis by (simp add: rnd_minus)
  next
    case 3
    then have "rnd (- y) \<le> rnd (- x)" using le by (intro rnd_mono_pos) simp_all
    then show ?thesis by (simp add: rnd_minus)
  qed
qed

lemma fl_mono: "x \<le> y \<Longrightarrow> js_le (fl x) (fl y)"
  using rnd_mono [of x y] by (auto simp: fl_alt)

lemma pow2_53_mult: "of_int (2 ^ 53) * pow2 j = pow2 (53 + j)"
proof -
  have "of_int (2 ^ 53) = pow2 53" by (simp add: pow2_def)
  then show ?thesis by (simp only: pow2_add)
qed

text \<open>A dyadic value with at most 53 significant bits is not changed by rounding.\<close>

lemma rnd_dyadic:
  assumes m: "\<bar>m\<bar> \<le> 2 ^ 53" and j: "-1074 \<le> j"
  shows "rnd (of_int m * pow2 j) = of_int m * pow2 j"
proof (cases "m = 0")
  case False
  let ?x = "of_int m * pow2 j :: rat"
  let ?u = "ulp_exp ?x"
  have pos: "0 < \<bar>?x\<bar>" using False by simp
  have abs: "\<bar>?x\<bar> = of_int \<bar>m\<bar> * pow2 j" by (simp add: abs_mult)
  have "of_int \<bar>m\<bar> \<le> (of_int (2 ^ 53) :: rat)" using m by (simp only: of_int_le_iff)
  then have "\<bar>?x\<bar> \<le> of_int (2 ^ 53) * pow2 j" unfolding abs by (intro mult_right_mono) simp_all
  also have "\<dots> = pow2 (53 + j)" by (rule pow2_53_mult)
  finally have le: "\<bar>?x\<bar> \<le> pow2 (53 + j)" .
  moreover have "pow2 (rexp \<bar>?x\<bar>) \<le> \<bar>?x\<bar>" using rexp_bounds [OF pos] by simp
  ultimately have "pow2 (rexp \<bar>?x\<bar>) \<le> pow2 (53 + j)" by linarith
  then have e: "rexp \<bar>?x\<bar> \<le> 53 + j" by simp
  have "\<exists>k::int. ?x / pow2 ?u = of_int k"
  proof (cases "?u \<le> j")
    case True
    have "?x / pow2 ?u = of_int m * pow2 (j - ?u)" by (simp add: pow2_diff)
    also have "\<dots> = of_int (m * 2 ^ nat (j - ?u))" using True by (simp add: pow2_def)
    finally show ?thesis by blast
  next
    case False
    with e j have u: "?u = j + 1" "rexp \<bar>?x\<bar> = 53 + j" by (auto simp: ulp_exp_def max_def split: if_splits)
    have "pow2 (53 + j) \<le> \<bar>?x\<bar>" using rexp_bounds [OF pos] u by simp
    with le have "of_int \<bar>m\<bar> * pow2 j = of_int (2 ^ 53) * pow2 j"
      unfolding abs pow2_53_mult by simp
    then have "of_int \<bar>m\<bar> = (of_int (2 ^ 53) :: rat)" by simp
    then have "\<bar>m\<bar> = 2 ^ 53" by (simp only: of_int_eq_iff)
    then have "m = 2 * 2 ^ 52 \<or> m = 2 * - (2 ^ 52)" by (auto simp: abs_if split: if_splits)
    then obtain k where k: "m = 2 * k" by blast
    have p: "pow2 (j + 1) = 2 * pow2 j" by (simp add: pow2_add) (simp add: pow2_def)
    have "?x / pow2 ?u = of_int m * pow2 j / (2 * pow2 j)" using u(1) p by (simp only:)
    also have "\<dots> = of_int k" using k by simp
    finally show ?thesis by blast
  qed
  then obtain k where k: "?x / pow2 ?u = of_int k" by blast
  then have "rnd ?x = of_int k * pow2 ?u" using False by (simp add: rnd_def)
  also have "\<dots> = ?x" unfolding k [symmetric] by simp
  finally show ?thesis .
qed simp

lemma fl_dyadic:
  assumes m: "\<bar>m\<bar> \<le> 2 ^ 53" and j: "-1074 \<le> j" "j \<le> 900"
  shows "fl (of_int m * pow2 j) = Num (of_int m * pow2 j)"
proof -
  have "of_int \<bar>m\<bar> \<le> (of_int (2 ^ 53) :: rat)" using m by (simp only: of_int_le_iff)
  then have "of_int \<bar>m\<bar> * pow2 j \<le> of_int (2 ^ 53) * pow2 j" by (intro mult_right_mono) simp_all
  also have "\<dots> = pow2 (53 + j)" by (rule pow2_53_mult)
  also have "\<dots> < pow2 1024" using j by simp
  finally have "\<bar>of_int m * pow2 j\<bar> < pow2 1024" by (simp add: abs_mult)
  then show ?thesis by (auto simp: fl_alt rnd_dyadic [OF m j(1)])
qed

lemma fl_of_int [js_simps]: "\<bar>n\<bar> \<le> 2 ^ 53 \<Longrightarrow> fl (of_int n) = jsint n"
  using fl_dyadic [of n 0] by simp

lemma rexp_eqI: "0 < x \<Longrightarrow> pow2 e \<le> x \<Longrightarrow> x < pow2 (e + 1) \<Longrightarrow> rexp x = e"
proof -
  assume a: "0 < x" "pow2 e \<le> x" "x < pow2 (e + 1)"
  have "pow2 e < pow2 (rexp x + 1)" "pow2 (rexp x) < pow2 (e + 1)"
    using rexp_bounds [OF a(1)] a by linarith+
  then show ?thesis by simp
qed

lemma fl_eqI:
  assumes "pow2 e \<le> \<bar>x\<bar>" "\<bar>x\<bar> < pow2 (e + 1)" "-1022 \<le> e" "e < 1000"
    and v: "v = of_int (rne (x / pow2 (e - 52))) * pow2 (e - 52)"
  shows "fl x = Num v"
proof -
  have p: "0 < \<bar>x\<bar>" using assms(1) pow2_pos [of e] by linarith
  have e: "rexp \<bar>x\<bar> = e" using p assms by (intro rexp_eqI)
  then have "rnd x = v" using assms p by (auto simp: rnd_def ulp_exp_def)
  moreover have "\<bar>rnd x\<bar> \<le> pow2 (e + 1)"
  proof -
    have "rnd \<bar>x\<bar> \<le> pow2 (e + 1)" using rnd_upper [OF p] e assms by simp
    moreover have "0 \<le> rnd \<bar>x\<bar>" by (simp add: rnd_nonneg)
    moreover have "rnd x = rnd \<bar>x\<bar> \<or> rnd x = - rnd \<bar>x\<bar>" by (auto simp: abs_if rnd_minus)
    ultimately show ?thesis by auto
  qed
  moreover have "pow2 (e + 1) < pow2 1024" using assms by simp
  ultimately show ?thesis by (auto simp: fl_alt abs_le_iff simp del: pow2_less_iff)
qed

lemma floor_rat_numeral [simp, js_simps]:
  "\<lfloor>(numeral a / numeral b :: rat)\<rfloor> = numeral a div numeral b"
  "\<lfloor>(- numeral a / numeral b :: rat)\<rfloor> = (- numeral a) div numeral b"
  "\<lfloor>(1 / numeral b :: rat)\<rfloor> = 1 div numeral b"
  "\<lfloor>(- 1 / numeral b :: rat)\<rfloor> = (- 1) div numeral b"
  using floor_divide_of_int_eq [of "numeral a" "numeral b", where 'a = rat]
    floor_divide_of_int_eq [of "- numeral a" "numeral b", where 'a = rat]
    floor_divide_of_int_eq [of 1 "numeral b", where 'a = rat]
    floor_divide_of_int_eq [of "- 1" "numeral b", where 'a = rat]
  by simp_all

text \<open>The literals \<open>0.1\<close>, \<open>0.2\<close> and \<open>0.3\<close> behave as they do in the language.\<close>

lemma fl_tenth: "fl (1/10) = Num (3602879701896397 / 36028797018963968)"
  by code_simp

lemma fl_tenths_sum:
  "js_add (fl (1/10)) (fl (2/10)) = fl (30000000000000004/100000000000000000)"
  "js_add (fl (1/10)) (fl (2/10)) \<noteq> fl (3/10)"
  by code_simp+

section \<open>Order\<close>

lemma js_le_refl [simp]: "js_le a a \<longleftrightarrow> a \<noteq> NaN"
  by (cases a) auto

lemma js_le_trans [trans]: "js_le a b \<Longrightarrow> js_le b c \<Longrightarrow> js_le a c"
  by (cases a; cases b; cases c) auto

lemma js_lt_le_trans [trans]: "js_lt a b \<Longrightarrow> js_le b c \<Longrightarrow> js_lt a c"
  by (cases a; cases b; cases c) auto

lemma js_le_lt_trans [trans]: "js_le a b \<Longrightarrow> js_lt b c \<Longrightarrow> js_lt a c"
  by (cases a; cases b; cases c) auto

lemma js_lt_irrefl [simp]: "\<not> js_lt a a"
  by (cases a) auto

lemma js_lt_not_le: "js_lt a b \<Longrightarrow> \<not> js_le b a"
  by (cases a; cases b) auto

lemma js_not_le_lt: "\<not> js_le a b \<Longrightarrow> a \<noteq> NaN \<Longrightarrow> b \<noteq> NaN \<Longrightarrow> js_lt b a"
  by (cases a; cases b) auto

lemma js_lt_imp_le: "js_lt a b \<Longrightarrow> js_le a b"
  by (cases a; cases b) auto

text \<open>Adding a non-negative number never falls below the first operand, and subtracting one
  never exceeds it, whatever the rounding does.\<close>

lemma js_add_nonneg_ge:
  assumes "wf_jsnum a" "a \<noteq> NaN" "js_le (Num 0) m"
  shows "js_le a (js_add a m) \<or> js_add a m = NaN"
proof (cases a)
  case (Num x)
  show ?thesis
  proof (cases m)
    case M: (Num y)
    have "js_le (fl x) (fl (x + y))" using assms M by (intro fl_mono) simp
    then show ?thesis using assms Num M by (simp add: representable_def)
  qed (use assms Num in auto)
qed (use assms in \<open>cases m; auto\<close>)+

lemma js_sub_nonneg_le:
  assumes "wf_jsnum a" "a \<noteq> NaN" "js_le (Num 0) m"
  shows "js_le (js_sub a m) a \<or> js_sub a m = NaN"
proof (cases a)
  case (Num x)
  show ?thesis
  proof (cases m)
    case M: (Num y)
    have "js_le (fl (x - y)) (fl x)" using assms M by (intro fl_mono) simp
    then show ?thesis using assms Num M by (simp add: representable_def js_sub_def)
  qed (use assms Num in \<open>auto simp: js_sub_def\<close>)
qed (use assms in \<open>cases m; auto simp: js_sub_def\<close>)+

lemma wf_jsint: "\<bar>n\<bar> \<le> 2 ^ 53 \<Longrightarrow> wf_jsnum (jsint n)"
  by (simp add: representable_def fl_of_int)

text \<open>On integers within the exact range the operators compute the integer operations.\<close>

lemma js_add_jsint [js_simps]: "\<bar>a + b\<bar> \<le> 2 ^ 53 \<Longrightarrow> js_add (jsint a) (jsint b) = jsint (a + b)"
  using fl_of_int [of "a + b"] by simp

lemma js_mul_jsint [js_simps]: "\<bar>a * b\<bar> \<le> 2 ^ 53 \<Longrightarrow> js_mul (jsint a) (jsint b) = jsint (a * b)"
  using fl_of_int [of "a * b"] by simp

lemma Math_max_jsint [js_simps]: "Math_max (jsint a) (jsint b) = jsint (max a b)"
  by (auto simp: Math_max_def max_def)

lemma Math_min_jsint [js_simps]: "Math_min (jsint a) (jsint b) = jsint (min a b)"
  by (auto simp: Math_min_def min_def)

lemma Math_floor_jsint [js_simps]: "Math_floor (jsint a) = jsint a"
  by simp

end
