(* ===== verification/Utc_Day.thy ===== *)
theory Utc_Day
  imports Dig_Prelude
begin

text \<open>
  Calendar dates in UTC, as the Date objects of the language compute them. A day is the number
  of days since 1970-01-01; \<open>iso_day\<close> is its ISO date, the first ten characters of
  \<open>toISOString()\<close> in the years 0000 to 9999, which is also what PostgreSQL's \<open>date::text\<close>
  prints. \<open>parse_iso_day\<close> is the time value of the ISO date followed by
  \<open>T00:00:00.000Z\<close>, \<open>None\<close> for a string the parser rejects (an Invalid Date).
\<close>

definition ms_per_day :: int where
  "ms_per_day = 86400000"

definition day_from_year :: "int \<Rightarrow> int" where
  "day_from_year y =
     365 * (y - 1970) + (y - 1969) div 4 - (y - 1901) div 100 + (y - 1601) div 400"

definition leap_year :: "int \<Rightarrow> bool" where
  "leap_year y \<longleftrightarrow> y mod 4 = 0 \<and> (y mod 100 \<noteq> 0 \<or> y mod 400 = 0)"

text \<open>The year of a day: an estimate from the mean length of the year, corrected by one.\<close>

definition year_of_day :: "int \<Rightarrow> int" where
  "year_of_day d =
     (let y = 1970 + (400 * d) div 146097
      in if day_from_year (y + 1) \<le> d then y + 1
         else if d < day_from_year y then y - 1 else y)"

definition leap_days :: "int \<Rightarrow> int" where
  "leap_days y = (if leap_year y then 1 else 0)"

definition days_in_month :: "int \<Rightarrow> int \<Rightarrow> int" where
  "days_in_month y m =
     (if m = 2 then 28 + leap_days y
      else if m = 4 \<or> m = 6 \<or> m = 9 \<or> m = 11 then 30 else 31)"

definition month_start :: "int \<Rightarrow> int \<Rightarrow> int" where
  "month_start y m =
     (if m \<le> 2 then 31 * (m - 1) else 59 + leap_days y + (153 * (m - 3) + 2) div 5)"

definition month_of :: "int \<Rightarrow> int \<Rightarrow> int" where
  "month_of y doy =
     (if doy < 31 then 1
      else if doy < 59 + leap_days y then 2
      else (5 * (doy - 59 - leap_days y) + 2) div 153 + 3)"

definition civil_of_day :: "int \<Rightarrow> int \<times> int \<times> int" where
  "civil_of_day d =
     (let y = year_of_day d; doy = d - day_from_year y; m = month_of y doy
      in (y, m, doy - month_start y m + 1))"

definition day_of_civil :: "int \<Rightarrow> int \<Rightarrow> int \<Rightarrow> int" where
  "day_of_civil y m dd = day_from_year y + month_start y m + dd - 1"

lemma day_of_civil_of_day:
  "civil_of_day d = (y, m, dd) \<Longrightarrow> day_of_civil y m dd = d"
  by (auto simp: civil_of_day_def day_of_civil_def Let_def)

lemma int_div_bounds: "0 < c \<Longrightarrow> c * (x div c) \<le> x \<and> x < c * (x div c) + c" for x c :: int
  using minus_mod_eq_mult_div [of x c] pos_mod_bound [of c x] pos_mod_sign [of c x] by linarith

lemma int_div_add1:
  "0 < c \<Longrightarrow> (x + 1) div c = x div c + (if (x + 1) mod c = 0 then 1 else 0)" for x c :: int
proof -
  assume c: "0 < c"
  define q r where "q = x div c" and "r = x mod c"
  have x: "x = c * q + r" and r: "0 \<le> r" "r < c" using c by (simp_all add: q_def r_def)
  show ?thesis
  proof (cases "r + 1 = c")
    case True
    then have "x + 1 = c * (q + 1)" using x by (simp add: algebra_simps)
    then show ?thesis using c by (simp add: q_def [symmetric])
  next
    case False
    then have "(x + 1) div c = q" "(x + 1) mod c = r + 1"
      using x r by (auto intro!: int_div_pos_eq [of _ _ _ "r + 1"] int_mod_pos_eq [of _ _ q])
    then show ?thesis using r by (simp add: q_def)
  qed
qed

lemma day_from_year_bounds:
  "146097 * (y - 1970) - 506 \<le> 400 * day_from_year y"
  "400 * day_from_year y \<le> 146097 * (y - 1970) + 589"
proof -
  have "4 * ((y - 1969) div 4) \<le> y - 1969" "y - 1969 < 4 * ((y - 1969) div 4) + 4"
    "100 * ((y - 1901) div 100) \<le> y - 1901" "y - 1901 < 100 * ((y - 1901) div 100) + 100"
    "400 * ((y - 1601) div 400) \<le> y - 1601" "y - 1601 < 400 * ((y - 1601) div 400) + 400"
    using int_div_bounds [of 4 "y - 1969"] int_div_bounds [of 100 "y - 1901"]
      int_div_bounds [of 400 "y - 1601"] by simp_all
  then show "146097 * (y - 1970) - 506 \<le> 400 * day_from_year y"
    and "400 * day_from_year y \<le> 146097 * (y - 1970) + 589"
    unfolding day_from_year_def by (simp_all add: algebra_simps)
qed

lemma year_of_day_bounds:
  "day_from_year (year_of_day d) \<le> d \<and> d < day_from_year (year_of_day d + 1)"
proof -
  define z where "z = (400 * d) div 146097"
  have z: "146097 * z \<le> 400 * d" "400 * d < 146097 * (z + 1)"
    using int_div_bounds [of 146097 "400 * d"] unfolding z_def by simp_all
  have lo: "day_from_year (1970 + z - 1) \<le> d"
    using day_from_year_bounds(2) [of "1970 + z - 1"] z by simp
  have hi: "d < day_from_year (1970 + z + 1 + 1)"
    using day_from_year_bounds(1) [of "1970 + z + 1 + 1"] z by simp
  have y: "year_of_day d = (if day_from_year (1970 + z + 1) \<le> d then 1970 + z + 1
      else if d < day_from_year (1970 + z) then 1970 + z - 1 else 1970 + z)"
    by (simp only: year_of_day_def Let_def z_def)
  show ?thesis unfolding y using lo hi by (auto simp: algebra_simps)
qed

lemma shifted_mod:
  "(y - 1969 + 1) mod 4 = y mod (4::int)"
  "(y - 1901 + 1) mod 100 = y mod (100::int)"
  "(y - 1601 + 1) mod 400 = y mod (400::int)"
proof -
  have "y - 1969 + 1 = y + (- 492) * 4" "y - 1901 + 1 = y + (- 19) * 100"
    "y - 1601 + 1 = y + (- 4) * 400" by simp_all
  then show "(y - 1969 + 1) mod 4 = y mod 4" "(y - 1901 + 1) mod 100 = y mod 100"
    "(y - 1601 + 1) mod 400 = y mod 400" by (simp_all only: mod_mult_self1)
qed

lemma day_from_year_Suc: "day_from_year (y + 1) = day_from_year y + 365 + leap_days y"
proof -
  have s: "y + 1 - 1969 = y - 1969 + 1" "y + 1 - 1901 = y - 1901 + 1" "y + 1 - 1601 = y - 1601 + 1"
    by simp_all
  have d: "(y - 1969 + 1) div 4 = (y - 1969) div 4 + (if y mod 4 = 0 then 1 else 0)"
    "(y - 1901 + 1) div 100 = (y - 1901) div 100 + (if y mod 100 = 0 then 1 else 0)"
    "(y - 1601 + 1) div 400 = (y - 1601) div 400 + (if y mod 400 = 0 then 1 else 0)"
    using int_div_add1 [of 4 "y - 1969", OF zero_less_numeral, unfolded shifted_mod]
      int_div_add1 [of 100 "y - 1901", OF zero_less_numeral, unfolded shifted_mod]
      int_div_add1 [of 400 "y - 1601", OF zero_less_numeral, unfolded shifted_mod] by blast+
  have i: "y mod 100 = 0 \<longrightarrow> y mod 4 = 0" "y mod 400 = 0 \<longrightarrow> y mod 100 = 0" by presburger+
  show ?thesis
    unfolding day_from_year_def leap_days_def leap_year_def s d using i
    by (cases "y mod 4 = 0"; cases "y mod 100 = 0"; cases "y mod 400 = 0") simp_all
qed

lemma civil_of_day_valid:
  assumes c: "civil_of_day d = (y, m, dd)"
  shows "1 \<le> m" "m \<le> 12" "1 \<le> dd" "dd \<le> days_in_month y m"
proof -
  define doy where "doy = d - day_from_year y"
  have y: "y = year_of_day d" and m: "m = month_of y doy" and dd: "dd = doy - month_start y m + 1"
    using c by (auto simp: civil_of_day_def Let_def doy_def)
  have b: "0 \<le> doy" "doy < 365 + leap_days y"
    using year_of_day_bounds [of d] by (simp_all add: doy_def y day_from_year_Suc)
  define k where "k = leap_days y"
  have k: "k = 0 \<or> k = 1" by (auto simp: k_def leap_days_def)
  have "1 \<le> m \<and> m \<le> 12 \<and> 1 \<le> dd \<and> dd \<le> days_in_month y m"
  proof -
    consider "doy < 31" | "31 \<le> doy" "doy < 59 + k" | "59 + k \<le> doy" by linarith
    then show ?thesis
    proof cases
      case 1
      then show ?thesis using b m dd by (simp add: month_of_def month_start_def days_in_month_def)
    next
      case 2
      then show ?thesis using b m dd
        by (simp add: month_of_def month_start_def days_in_month_def k_def)
    next
      case 3
      define r where "r = doy - 59 - k"
      have r: "0 \<le> r" "r < 306" using 3 b by (simp_all add: r_def k_def)
      have m': "m = (5 * r + 2) div 153 + 3" using 3 m k by (auto simp: month_of_def r_def k_def)
      have q: "0 \<le> (5 * r + 2) div 153" "(5 * r + 2) div 153 \<le> 9" using r by auto
      have dd': "dd = r - (153 * ((5 * r + 2) div 153) + 2) div 5 + 1"
        using dd m' q by (simp add: month_start_def r_def k_def)
      define q' where "q' = (5 * r + 2) div 153"
      have qb: "153 * q' \<le> 5 * r + 2" "5 * r + 2 < 153 * q' + 153" using int_div_bounds [of 153 "5 * r + 2"] unfolding q'_def by simp_all
      have "q' = 0 \<or> q' = 1 \<or> q' = 2 \<or> q' = 3 \<or> q' = 4 \<or> q' = 5 \<or> q' = 6 \<or> q' = 7 \<or> q' = 8 \<or> q' = 9"
        using q unfolding q'_def [symmetric] by presburger
      then show ?thesis using qb r m' dd'
        by (fold q'_def) (elim disjE; simp add: days_in_month_def)
    qed
  qed
  then show "1 \<le> m" "m \<le> 12" "1 \<le> dd" "dd \<le> days_in_month y m" by auto
qed

lemma days_in_month_le: "days_in_month y m \<le> 31"
  by (simp add: days_in_month_def leap_days_def)

section \<open>Printing and parsing\<close>

definition digit_of :: "int \<Rightarrow> char" where
  "digit_of n = digit_char (nat (n mod 10))"

definition pad2 :: "int \<Rightarrow> string" where
  "pad2 n = [digit_of (n div 10), digit_of n]"

definition pad4 :: "int \<Rightarrow> string" where
  "pad4 n = [digit_of (n div 1000), digit_of (n div 100), digit_of (n div 10), digit_of n]"

definition iso_day :: "int \<Rightarrow> string" where
  "iso_day d = (case civil_of_day d of (y, m, dd) \<Rightarrow> pad4 y @ ''-'' @ pad2 m @ ''-'' @ pad2 dd)"

fun read_digits :: "string \<Rightarrow> int \<Rightarrow> int option" where
  "read_digits [] acc = Some acc"
| "read_digits (c # cs) acc =
     (if is_digit c then read_digits cs (10 * acc + int (digit_val c)) else None)"

definition parse_iso_day :: "string \<Rightarrow> int option" where
  "parse_iso_day s =
     (if length s = 10 \<and> s ! 4 = CHR ''-'' \<and> s ! 7 = CHR ''-'' then
        (case (read_digits (take 4 s) 0, read_digits (take 2 (drop 5 s)) 0, read_digits (drop 8 s) 0) of
           (Some y, Some m, Some dd) \<Rightarrow>
             (if 1 \<le> m \<and> m \<le> 12 \<and> 1 \<le> dd \<and> dd \<le> days_in_month y m
              then Some (day_of_civil y m dd) else None)
         | _ \<Rightarrow> None)
      else None)"

text \<open>The days whose ISO date has a four-digit year.\<close>

definition four_digit_day :: "int \<Rightarrow> bool" where
  "four_digit_day d \<longleftrightarrow> day_from_year 0 \<le> d \<and> d < day_from_year 10000"

lemma day_from_year_mono: "a \<le> b \<Longrightarrow> day_from_year a \<le> day_from_year b"
proof (induction "nat (b - a)" arbitrary: b)
  case (Suc n)
  then have "n = nat (b - 1 - a)" "a \<le> b - 1" by linarith+
  then have "day_from_year a \<le> day_from_year (b - 1)" using Suc.hyps(1) by blast
  also have "\<dots> \<le> day_from_year b"
    using day_from_year_Suc [of "b - 1"] by (simp add: leap_days_def)
  finally show ?case .
qed simp

lemma four_digit_day_year:
  "four_digit_day d \<Longrightarrow> 0 \<le> year_of_day d \<and> year_of_day d \<le> 9999"
proof -
  assume f: "four_digit_day d"
  have b: "day_from_year (year_of_day d) \<le> d" "d < day_from_year (year_of_day d + 1)"
    using year_of_day_bounds [of d] by auto
  have "\<not> year_of_day d < 0"
    using b f day_from_year_mono [of "year_of_day d + 1" 0] by (auto simp: four_digit_day_def)
  moreover have "\<not> 10000 \<le> year_of_day d"
    using b f day_from_year_mono [of 10000 "year_of_day d"] by (auto simp: four_digit_day_def)
  ultimately show ?thesis by simp
qed

lemma is_digit_digit_of [simp]: "is_digit (digit_of n)"
proof -
  have "nat (n mod 10) \<le> 9" by (simp add: nat_le_iff)
  then show ?thesis unfolding digit_of_def by (rule is_digit_digit_char)
qed

lemma digit_val_digit_of [simp]: "int (digit_val (digit_of n)) = n mod 10"
proof -
  have "nat (n mod 10) \<le> 9" by (simp add: nat_le_iff)
  then show ?thesis unfolding digit_of_def by (simp add: digit_val_digit_char)
qed

lemma read_pad2:
  assumes "0 \<le> n" "n < 100"
  shows "read_digits (pad2 n) 0 = Some n"
proof -
  have "n div 10 mod 10 = n div 10" using assms by (intro mod_pos_pos_trivial) simp_all
  then show ?thesis using mult_div_mod_eq [of 10 n] by (simp add: pad2_def)
qed

lemma read_pad4:
  assumes "0 \<le> n" "n < 10000"
  shows "read_digits (pad4 n) 0 = Some n"
proof -
  have t: "n div 1000 mod 10 = n div 1000" using assms by (intro mod_pos_pos_trivial) simp_all
  have e: "n div 1000 = n div 100 div 10" "n div 100 = n div 10 div 10"
    by (simp_all add: zdiv_zmult2_eq [symmetric])
  have "read_digits (pad4 n) 0
      = Some (10 * (10 * (10 * (n div 1000 mod 10) + n div 100 mod 10) + n div 10 mod 10) + n mod 10)"
    by (simp only: pad4_def read_digits.simps is_digit_digit_of digit_val_digit_of if_True) simp
  also have "10 * (n div 1000 mod 10) + n div 100 mod 10 = n div 100"
    unfolding t unfolding e(1) by (rule mult_div_mod_eq)
  also have "10 * (n div 100) + n div 10 mod 10 = n div 10"
    unfolding e(2) by (rule mult_div_mod_eq)
  also have "10 * (n div 10) + n mod 10 = n" by (rule mult_div_mod_eq)
  finally show ?thesis .
qed

lemma length_iso_day [simp]: "length (iso_day d) = 10"
  by (simp add: iso_day_def pad4_def pad2_def split: prod.split)

text \<open>Printing a day and parsing it back gives the day.\<close>

lemma parse_iso_day_iso_day:
  assumes "four_digit_day d"
  shows "parse_iso_day (iso_day d) = Some d"
proof -
  obtain y m dd where c: "civil_of_day d = (y, m, dd)" by (cases "civil_of_day d")
  note v = civil_of_day_valid [OF c]
  have y: "y = year_of_day d" using c by (simp add: civil_of_day_def Let_def)
  have yb: "0 \<le> y" "y < 10000" using four_digit_day_year [OF assms] y by auto
  have ddb: "dd < 100" using v(4) days_in_month_le [of y m] by linarith
  have s: "iso_day d = pad4 y @ ''-'' @ pad2 m @ ''-'' @ pad2 dd" by (simp add: iso_day_def c)
  have "read_digits (take 4 (iso_day d)) 0 = Some y"
    using read_pad4 yb by (simp add: s pad4_def)
  moreover have "read_digits (take 2 (drop 5 (iso_day d))) 0 = Some m"
    using read_pad2 [of m] v by (simp add: s pad4_def pad2_def)
  moreover have "read_digits (drop 8 (iso_day d)) 0 = Some dd"
    using read_pad2 [of dd] v ddb by (simp add: s pad4_def pad2_def)
  moreover have "iso_day d ! 4 = CHR ''-''" "iso_day d ! 7 = CHR ''-''"
    by (simp_all add: s pad4_def pad2_def nth_append)
  ultimately show ?thesis
    using v by (simp add: parse_iso_day_def day_of_civil_of_day [OF c])
qed

lemma iso_day_inject:
  "four_digit_day a \<Longrightarrow> four_digit_day b \<Longrightarrow> iso_day a = iso_day b \<longleftrightarrow> a = b"
  by (metis option.inject parse_iso_day_iso_day)

lemma iso_day_epoch: "iso_day 0 = ''1970-01-01''" "iso_day 20742 = ''2026-10-16''"
  by code_simp+

end
