(* ===== verification/Campaign_Rules.thy ===== *)
theory Campaign_Rules
  imports Js_Number Utc_Day "HOL-Library.Word"
begin

text \<open>
  The pure campaign rules of \<open>apps/api/src/modules/campaign/campaign-rules.ts\<close>: the points
  table, the UTC day helpers, the streak ramp, the campaign window, and the decision
  procedures for action awards, check-ins, enrolments, social tasks, referrals and perks.

  Points, caps and counts are integers of the language and modelled as \<open>int\<close>; the multiplier
  and the points computed from it are \<open>jsnum\<close>, because their whole point is to survive
  binary64 rounding. A UTC day is its ISO string, as in the source.
\<close>

section \<open>Constants\<close>

definition DISCLAIMER :: string where
  "DISCLAIMER = ''Points unlock perks on Dig as the campaign grows.''"

datatype ActionKind = SdexSwap | BlendDeposit | BlendWithdraw

fun action_key :: "ActionKind \<Rightarrow> string" where
  "action_key SdexSwap = ''sdex-swap''"
| "action_key BlendDeposit = ''blend-deposit''"
| "action_key BlendWithdraw = ''blend-withdraw''"

datatype SocialTaskKey = XFollow | XRepost | CommunityJoin

fun social_key :: "SocialTaskKey \<Rightarrow> string" where
  "social_key XFollow = ''x-follow''"
| "social_key XRepost = ''x-repost''"
| "social_key CommunityJoin = ''community-join''"

text \<open>\<open>LEDGER_REASON_RE\<close>: the closed set of ledger reasons; \<open>adjust:.+\<close> is a non-empty note
  without a line terminator.\<close>

definition is_line_terminator :: "char \<Rightarrow> bool" where
  "is_line_terminator c \<longleftrightarrow> (of_char c :: nat) = 10 \<or> (of_char c :: nat) = 13"

definition ledger_reason_ok :: "string \<Rightarrow> bool" where
  "ledger_reason_ok r \<longleftrightarrow>
     r \<in> {''action:sdex-swap'', ''action:blend-deposit'', ''action:blend-withdraw'', ''streak:daily'',
          ''social:x-follow'', ''social:x-repost'', ''social:community-join'',
          ''referral:referrer'', ''referral:referee''}
     \<or> (starts_with ''adjust:'' r \<and> drop 7 r \<noteq> []
        \<and> list_all (\<lambda>c. \<not> is_line_terminator c) (drop 7 r))"

record ActionRule =
  ar_basePoints :: int
  ar_dailyCap :: int
  ar_requiresMinNotional :: bool

fun ACTION_RULES :: "ActionKind \<Rightarrow> ActionRule" where
  "ACTION_RULES SdexSwap =
     \<lparr>ar_basePoints = 50, ar_dailyCap = 5, ar_requiresMinNotional = True\<rparr>"
| "ACTION_RULES BlendDeposit =
     \<lparr>ar_basePoints = 100, ar_dailyCap = 3, ar_requiresMinNotional = True\<rparr>"
| "ACTION_RULES BlendWithdraw =
     \<lparr>ar_basePoints = 0, ar_dailyCap = 0, ar_requiresMinNotional = False\<rparr>"

definition STREAK_DAILY_POINTS :: int where
  "STREAK_DAILY_POINTS = 5"

definition STREAK_RAMP_stepPerDay :: jsnum where
  "STREAK_RAMP_stepPerDay = fl (5/100)"

definition STREAK_RAMP_cap :: jsnum where
  "STREAK_RAMP_cap = fl (135/100)"

definition RAMP_STEP_HUNDREDTHS :: jsnum where
  "RAMP_STEP_HUNDREDTHS = Math_round (js_mul STREAK_RAMP_stepPerDay (jsint 100))"

definition RAMP_CAP_HUNDREDTHS :: jsnum where
  "RAMP_CAP_HUNDREDTHS = Math_round (js_mul STREAK_RAMP_cap (jsint 100))"

definition STREAK_DAYS_TO_CAP :: jsnum where
  "STREAK_DAYS_TO_CAP =
     Math_ceil (js_div (js_sub RAMP_CAP_HUNDREDTHS (jsint 100)) RAMP_STEP_HUNDREDTHS)"

fun SOCIAL_TASKS :: "SocialTaskKey \<Rightarrow> int" where
  "SOCIAL_TASKS XFollow = 20"
| "SOCIAL_TASKS XRepost = 10"
| "SOCIAL_TASKS CommunityJoin = 20"

text \<open>\<open>hasOwnProperty(SOCIAL_TASKS, task)\<close>: which task, if any, a string names.\<close>

definition social_task_of :: "string \<Rightarrow> SocialTaskKey option" where
  "social_task_of s = List.find (\<lambda>k. social_key k = s) [XFollow, XRepost, CommunityJoin]"

definition SOCIAL_DAILY_CAP :: int where
  "SOCIAL_DAILY_CAP = 50"

definition REFERRAL_POINTS_referrer :: int where
  "REFERRAL_POINTS_referrer = 100"

definition REFERRAL_POINTS_referee :: int where
  "REFERRAL_POINTS_referee = 50"

section \<open>UTC day helpers\<close>

definition utcDay :: "ms \<Rightarrow> string" where
  "utcDay atMs = iso_day (atMs div ms_per_day)"

text \<open>\<open>None\<close> is the RangeError that \<open>toISOString\<close> throws on an Invalid Date.\<close>

definition previousUtcDay :: "string \<Rightarrow> string option" where
  "previousUtcDay day =
     (case parse_iso_day day of
        None \<Rightarrow> None
      | Some d \<Rightarrow> Some (utcDay ((d - 1) * ms_per_day)))"

text \<open>
  The loop of \<open>streakLengthOn\<close>. Every step that goes on has found its cursor in the set, so
  one more step than the set has members is always enough (\<open>streak_walk_iso_day\<close>).
\<close>

fun streak_walk :: "nat \<Rightarrow> string set \<Rightarrow> string \<Rightarrow> nat \<Rightarrow> nat option" where
  "streak_walk 0 checkinDays cursor len = None"
| "streak_walk (Suc fuel) checkinDays cursor len =
     (if cursor \<in> checkinDays then
        (case previousUtcDay cursor of
           None \<Rightarrow> None
         | Some cursor' \<Rightarrow> streak_walk fuel checkinDays cursor' (len + 1))
      else Some len)"

definition streakLengthOn :: "string set \<Rightarrow> string \<Rightarrow> nat option" where
  "streakLengthOn checkinDays day = streak_walk (Suc (card checkinDays)) checkinDays day 0"

definition streakLengthBefore :: "string set \<Rightarrow> string \<Rightarrow> nat option" where
  "streakLengthBefore checkinDays day =
     (case previousUtcDay day of None \<Rightarrow> None | Some p \<Rightarrow> streakLengthOn checkinDays p)"

definition streakMultiplier :: "jsnum \<Rightarrow> jsnum" where
  "streakMultiplier streakDays =
     (let days = Math_max (jsint 0) (Math_floor streakDays);
          hundredths = Math_min (js_add (jsint 100) (js_mul RAMP_STEP_HUNDREDTHS days)) RAMP_CAP_HUNDREDTHS
      in js_div hundredths (jsint 100))"

text \<open>\<open>streakLadder\<close>: the loop counts from 1 while \<open>days <= STREAK_DAYS_TO_CAP\<close>.\<close>

fun ladder_from :: "nat \<Rightarrow> int \<Rightarrow> (int \<times> jsnum) list" where
  "ladder_from 0 days = []"
| "ladder_from (Suc fuel) days =
     (if js_le (jsint days) STREAK_DAYS_TO_CAP
      then (days, streakMultiplier (jsint days)) # ladder_from fuel (days + 1) else [])"

definition streakLadder :: "(int \<times> jsnum) list" where
  "streakLadder = ladder_from 100 1"

definition pointsFor :: "jsnum \<Rightarrow> jsnum \<Rightarrow> jsnum" where
  "pointsFor basePoints multiplier =
     Math_round (js_div (js_mul basePoints (Math_round (js_mul multiplier (jsint 100)))) (jsint 100))"

section \<open>Campaign window\<close>

record CampaignWindow =
  w_enabled :: bool
  w_startsAtMs :: "ms option"
  w_endsAtMs :: "ms option"
  w_nowMs :: ms

datatype CampaignInactiveReason = CampaignDisabled | CampaignNotStarted | CampaignEnded

text \<open>\<open>Inr ()\<close> is \<open>{ active: true }\<close>.\<close>

definition campaignStatus :: "CampaignWindow \<Rightarrow> CampaignInactiveReason + unit" where
  "campaignStatus w =
     (if \<not> w_enabled w then Inl CampaignDisabled
      else case w_startsAtMs w of
        None \<Rightarrow> Inl CampaignNotStarted
      | Some s \<Rightarrow>
          if w_nowMs w < s then Inl CampaignNotStarted
          else case w_endsAtMs w of
            None \<Rightarrow> Inr ()
          | Some e \<Rightarrow> if e \<le> w_nowMs w then Inl CampaignEnded else Inr ())"

definition withinWindow :: "ms option \<Rightarrow> ms option \<Rightarrow> ms \<Rightarrow> bool" where
  "withinWindow startsAtMs endsAtMs atMs =
     (case startsAtMs of
        None \<Rightarrow> False
      | Some s \<Rightarrow>
          if atMs < s then False
          else case endsAtMs of None \<Rightarrow> True | Some e \<Rightarrow> \<not> e \<le> atMs)"

section \<open>Action awards\<close>

record ActionAwardFacts =
  af_kind :: ActionKind
  af_meetsMinNotional :: bool
  af_closedAtMs :: ms
  af_countedSameDayBefore :: int
  af_streakDaysBeforeDay :: int
  af_startsAtMs :: "ms option"
  af_endsAtMs :: "ms option"

datatype ActionAwardSkipReason =
  OutsideWindow | KindNotAwarded | BelowMinNotional | DailyCapReached

record AwardDetail =
  ad_reason :: string
  ad_basePoints :: int
  ad_multiplier :: jsnum
  ad_points :: jsnum
  ad_countedDay :: string

definition action_reason :: "ActionKind \<Rightarrow> string" where
  "action_reason k = ''action:'' @ action_key k"

definition actionAward :: "ActionAwardFacts \<Rightarrow> ActionAwardSkipReason + AwardDetail" where
  "actionAward f =
     (let rule = ACTION_RULES (af_kind f) in
      if \<not> withinWindow (af_startsAtMs f) (af_endsAtMs f) (af_closedAtMs f) then Inl OutsideWindow
      else if ar_basePoints rule \<le> 0 \<or> ar_dailyCap rule \<le> 0 then Inl KindNotAwarded
      else if ar_requiresMinNotional rule \<and> \<not> af_meetsMinNotional f then Inl BelowMinNotional
      else if ar_dailyCap rule \<le> af_countedSameDayBefore f then Inl DailyCapReached
      else let multiplier = streakMultiplier (jsint (af_streakDaysBeforeDay f)) in
        Inr \<lparr>ad_reason = action_reason (af_kind f),
             ad_basePoints = ar_basePoints rule,
             ad_multiplier = multiplier,
             ad_points = pointsFor (jsint (ar_basePoints rule)) multiplier,
             ad_countedDay = utcDay (af_closedAtMs f)\<rparr>)"

section \<open>Check-in, enrolment, social tasks, referrals\<close>

datatype WriteIneligibleReason =
    Inactive CampaignInactiveReason
  | OwnershipProofRequired | NotEnrolled | AlreadyEnrolled | AlreadyCheckedIn
  | InvalidReferralCode | SelfReferral

record CheckinFacts =
  cf_window :: CampaignWindow
  cf_proven :: bool
  cf_enrolled :: bool
  cf_alreadyCheckedInToday :: bool

definition checkinEligibility :: "CheckinFacts \<Rightarrow> WriteIneligibleReason + unit" where
  "checkinEligibility f =
     (case campaignStatus (cf_window f) of
        Inl r \<Rightarrow> Inl (Inactive r)
      | Inr _ \<Rightarrow>
          if \<not> cf_proven f then Inl OwnershipProofRequired
          else if \<not> cf_enrolled f then Inl NotEnrolled
          else if cf_alreadyCheckedInToday f then Inl AlreadyCheckedIn
          else Inr ())"

text \<open>\<open>ef_referral\<close>: \<open>(codeKnown, referrerIsSelf)\<close> when the caller supplied a code.\<close>

record EnrollFacts =
  ef_window :: CampaignWindow
  ef_proven :: bool
  ef_alreadyEnrolled :: bool
  ef_referral :: "(bool \<times> bool) option"

definition enrollEligibility :: "EnrollFacts \<Rightarrow> WriteIneligibleReason + unit" where
  "enrollEligibility f =
     (case campaignStatus (ef_window f) of
        Inl r \<Rightarrow> Inl (Inactive r)
      | Inr _ \<Rightarrow>
          if \<not> ef_proven f then Inl OwnershipProofRequired
          else if ef_alreadyEnrolled f then Inl AlreadyEnrolled
          else case ef_referral f of
            None \<Rightarrow> Inr ()
          | Some (codeKnown, referrerIsSelf) \<Rightarrow>
              if \<not> codeKnown then Inl InvalidReferralCode
              else if referrerIsSelf then Inl SelfReferral
              else Inr ())"

datatype SocialAwardRefusal = UnknownTask | SocialDailyCapReached

record SocialAwardDetail =
  sa_reason :: string
  sa_basePoints :: int
  sa_points :: int

definition social_reason :: "SocialTaskKey \<Rightarrow> string" where
  "social_reason k = ''social:'' @ social_key k"

definition socialAward :: "string \<Rightarrow> int \<Rightarrow> SocialAwardRefusal + SocialAwardDetail" where
  "socialAward task awardedTodayPoints =
     (case social_task_of task of
        None \<Rightarrow> Inl UnknownTask
      | Some key \<Rightarrow>
          let basePoints = SOCIAL_TASKS key in
          if SOCIAL_DAILY_CAP < awardedTodayPoints + basePoints then Inl SocialDailyCapReached
          else Inr \<lparr>sa_reason = social_reason key, sa_basePoints = basePoints, sa_points = basePoints\<rparr>)"

datatype ReferralRefusal = NoVerifiedAction | WitnessBeforeLink | ReferralOutsideWindow

definition referralCredit ::
    "ms \<Rightarrow> ms option \<Rightarrow> ms option \<Rightarrow> ms option \<Rightarrow> ReferralRefusal + (int \<times> int)" where
  "referralCredit linkedAtMs witnessClosedAtMs startsAtMs endsAtMs =
     (case witnessClosedAtMs of
        None \<Rightarrow> Inl NoVerifiedAction
      | Some c \<Rightarrow>
          if c < linkedAtMs then Inl WitnessBeforeLink
          else if \<not> withinWindow startsAtMs endsAtMs c then Inl ReferralOutsideWindow
          else Inr (REFERRAL_POINTS_referrer, REFERRAL_POINTS_referee))"

section \<open>Perks\<close>

datatype PerkKey = EarlyAccess | BetaFeatures | PriorityRwa

definition PERK_TIERS :: "(PerkKey \<times> int) list" where
  "PERK_TIERS = [(EarlyAccess, 100), (BetaFeatures, 500), (PriorityRwa, 1500)]"

definition perksFor :: "int \<Rightarrow> PerkKey list" where
  "perksFor balance = map fst (filter (\<lambda>(k, threshold). threshold \<le> balance) PERK_TIERS)"

record NextPerk =
  np_key :: PerkKey
  np_threshold :: int
  np_pointsRemaining :: int

definition nextPerkFor :: "int \<Rightarrow> PerkKey list \<Rightarrow> NextPerk option" where
  "nextPerkFor balance granted =
     (case List.find (\<lambda>(k, _). k \<notin> set granted) PERK_TIERS of
        None \<Rightarrow> None
      | Some (k, threshold) \<Rightarrow>
          Some \<lparr>np_key = k, np_threshold = threshold, np_pointsRemaining = max 0 (threshold - balance)\<rparr>)"

section \<open>Display helpers\<close>

definition ellipsis :: string where
  "ellipsis = [CHR 0xE2, CHR 0x80, CHR 0xA6]"

definition shortenAddress :: "string \<Rightarrow> string" where
  "shortenAddress a =
     (if length a \<le> 12 then a else take 4 a @ ellipsis @ drop (length a - 4) a)"

definition REFERRAL_ALPHABET :: string where
  "REFERRAL_ALPHABET = ''ABCDEFGHJKLMNPQRSTUVWXYZ23456789''"

text \<open>\<open>None\<close> is the Error thrown on fewer than 8 bytes.\<close>

definition referralCodeFromBytes :: "8 word list \<Rightarrow> string option" where
  "referralCodeFromBytes bytes =
     (if length bytes < 8 then None
      else Some (map (\<lambda>b. REFERRAL_ALPHABET ! (unat b mod length REFERRAL_ALPHABET)) (take 8 bytes)))"

definition referral_code_char :: "char \<Rightarrow> bool" where
  "referral_code_char c \<longleftrightarrow>
     (let n = (of_char c :: nat) in
      (65 \<le> n \<and> n \<le> 72) \<or> (74 \<le> n \<and> n \<le> 78) \<or> (80 \<le> n \<and> n \<le> 90) \<or> (50 \<le> n \<and> n \<le> 57))"

definition REFERRAL_CODE_RE :: "string \<Rightarrow> bool" where
  "REFERRAL_CODE_RE s \<longleftrightarrow> length s = 8 \<and> list_all referral_code_char s"

section \<open>Arithmetic of the ramp\<close>

lemma ramp_hundredths [simp]:
  "RAMP_STEP_HUNDREDTHS = jsint 5" "RAMP_CAP_HUNDREDTHS = jsint 135" "STREAK_DAYS_TO_CAP = jsint 7"
  by code_simp+

definition ramp_hundredths_of :: "int \<Rightarrow> int" where
  "ramp_hundredths_of days = min (100 + 5 * max 0 days) 135"

lemma streakMultiplier_ramp:
  assumes "days \<le> 2 ^ 40"
  shows "streakMultiplier (jsint days) = fl (of_int (ramp_hundredths_of days) / 100)"
proof -
  define n where "n = max 0 days"
  have n: "0 \<le> n" "n \<le> 2 ^ 40" using assms by (simp_all add: n_def)
  have m: "js_mul (jsint 5) (jsint n) = jsint (5 * n)" using n by (intro js_mul_jsint) simp
  have a: "js_add (jsint 100) (jsint (5 * n)) = jsint (100 + 5 * n)" using n by (intro js_add_jsint) simp
  have "streakMultiplier (jsint days) = js_div (jsint (min (100 + 5 * n) 135)) (jsint 100)"
    unfolding streakMultiplier_def Let_def Math_floor_jsint Math_max_jsint ramp_hundredths n_def [symmetric]
      m a Math_min_jsint ..
  then show ?thesis by (simp add: ramp_hundredths_of_def n_def)
qed

lemma ramp_hundredths_of_cases:
  "ramp_hundredths_of days \<in> {100, 105, 110, 115, 120, 125, 130, 135}"
proof -
  define n where "n = max 0 days"
  have "n = 0 \<or> n = 1 \<or> n = 2 \<or> n = 3 \<or> n = 4 \<or> n = 5 \<or> n = 6 \<or> 7 \<le> n"
    unfolding n_def by linarith
  then show ?thesis unfolding ramp_hundredths_of_def n_def [symmetric] by auto
qed

lemma multiplier_hundredths_exact:
  assumes "h \<in> {100, 105, 110, 115, 120, 125, 130, 135}"
  shows "Math_round (js_mul (fl (of_int h / 100)) (jsint 100)) = jsint h"
proof -
  have "Math_round (js_mul (fl (of_int 100 / 100)) (jsint 100)) = jsint 100" by code_simp
  moreover have "Math_round (js_mul (fl (of_int 105 / 100)) (jsint 100)) = jsint 105" by code_simp
  moreover have "Math_round (js_mul (fl (of_int 110 / 100)) (jsint 100)) = jsint 110" by code_simp
  moreover have "Math_round (js_mul (fl (of_int 115 / 100)) (jsint 100)) = jsint 115" by code_simp
  moreover have "Math_round (js_mul (fl (of_int 120 / 100)) (jsint 100)) = jsint 120" by code_simp
  moreover have "Math_round (js_mul (fl (of_int 125 / 100)) (jsint 100)) = jsint 125" by code_simp
  moreover have "Math_round (js_mul (fl (of_int 130 / 100)) (jsint 100)) = jsint 130" by code_simp
  moreover have "Math_round (js_mul (fl (of_int 135 / 100)) (jsint 100)) = jsint 135" by code_simp
  ultimately show ?thesis using assms by blast
qed

text \<open>Rounding a quotient by 100 before rounding it to an integer never changes the integer.\<close>

lemma round_hundredth_exact:
  assumes n: "0 \<le> n" "n \<le> 2 ^ 45"
  shows "Math_round (js_div (jsint n) (jsint 100)) = jsint ((n + 50) div 100)"
proof -
  define k where "k = (n + 50) div 100"
  define q :: rat where "q = of_int n / 100"
  have k: "100 * k \<le> n + 50" "n + 50 < 100 * k + 100" 
    using int_div_bounds [of 100 "n + 50"] by (simp_all add: k_def)
  have kb: "0 \<le> k" "k \<le> 2 ^ 45" using k n by simp_all
  have dy: "fl (of_int m * pow2 (- 7)) = Num (of_int m * pow2 (- 7))" if "\<bar>m\<bar> \<le> 2 ^ 53" for m
    using that by (intro fl_dyadic) simp_all
  have p7: "pow2 (- 7) = 1 / 128" by (simp add: pow2_def)
  have lo: "js_le (Num (of_int k - 1/2)) (fl q)"
  proof -
    have "of_int (100 * k) \<le> (of_int (n + 50) :: rat)" using k by (simp only: of_int_le_iff)
    then have "of_int k - 1/2 \<le> q" by (simp add: q_def field_simps)
    then have "js_le (fl (of_int k - 1/2)) (fl q)" by (rule fl_mono)
    moreover have "fl (of_int k - 1/2) = Num (of_int k - 1/2)"
      using dy [of "128 * k - 64"] kb by (simp add: p7 diff_divide_distrib)
    ultimately show ?thesis by simp
  qed
  have hi: "js_le (fl q) (Num (of_int k + 1/2 - 1/128))"
  proof -
    have "n \<le> 100 * k + 49" using k by simp
    then have "(of_int n :: rat) \<le> of_int (100 * k + 49)" by (simp only: of_int_le_iff)
    then have "q \<le> of_int k + 1/2 - 1/128" by (simp add: q_def field_simps)
    then have "js_le (fl q) (fl (of_int k + 1/2 - 1/128))" by (rule fl_mono)
    moreover have "fl (of_int k + 1/2 - 1/128) = Num (of_int k + 1/2 - 1/128)"
      using dy [of "128 * k + 63"] kb by (simp add: p7 add_divide_distrib add.commute)
    ultimately show ?thesis by simp
  qed
  obtain v where v: "fl q = Num v" using lo hi by (cases "fl q") auto
  have "\<lfloor>v + 1/2\<rfloor> = k" using lo hi v by (intro floor_unique) simp_all
  then show ?thesis by (simp add: q_def [symmetric] v k_def)
qed

lemma pointsFor_exact:
  assumes b: "0 \<le> b" "b \<le> 2 ^ 30" and d: "days \<le> 2 ^ 40"
  shows "pointsFor (jsint b) (streakMultiplier (jsint days))
    = jsint ((b * ramp_hundredths_of days + 50) div 100)"
proof -
  let ?h = "ramp_hundredths_of days"
  have h: "100 \<le> ?h" "?h \<le> 135" using ramp_hundredths_of_cases [of days] by auto
  have bh: "0 \<le> b * ?h" "b * ?h \<le> 2 ^ 45"
  proof -
    have "b * ?h \<le> 2 ^ 30 * 135" using b h by (intro mult_mono) simp_all
    then show "b * ?h \<le> 2 ^ 45" by simp
  qed (use b h in simp)
  have "js_mul (jsint b) (jsint ?h) = jsint (b * ?h)" using bh by (intro js_mul_jsint) simp
  then show ?thesis
    unfolding pointsFor_def streakMultiplier_ramp [OF d]
      multiplier_hundredths_exact [OF ramp_hundredths_of_cases]
    using round_hundredth_exact [OF bh] by (simp only:)
qed

section \<open>Days and streaks\<close>

text \<open>Days of the years 1970 to 9999: the days a check-in can be recorded on.\<close>

definition valid_day :: "int \<Rightarrow> bool" where
  "valid_day d \<longleftrightarrow> 0 \<le> d \<and> d < day_from_year 10000"

lemma valid_day_four_digit: "valid_day d \<Longrightarrow> four_digit_day d" "valid_day d \<Longrightarrow> four_digit_day (d - 1)"
proof -
  have "day_from_year 0 \<le> - 1" by (simp add: day_from_year_def)
  then show "valid_day d \<Longrightarrow> four_digit_day d" "valid_day d \<Longrightarrow> four_digit_day (d - 1)"
    by (simp_all add: valid_day_def four_digit_day_def)
qed

lemma utcDay_of_day: "utcDay (d * ms_per_day) = iso_day d"
  by (simp add: utcDay_def ms_per_day_def)

lemma previousUtcDay_iso_day: "four_digit_day d \<Longrightarrow> previousUtcDay (iso_day d) = Some (iso_day (d - 1))"
  by (simp add: previousUtcDay_def parse_iso_day_iso_day utcDay_of_day)

text \<open>\<open>k\<close> is the number of consecutive days of \<open>D\<close> that end at \<open>d\<close>.\<close>

definition consecutive_days :: "int set \<Rightarrow> int \<Rightarrow> nat \<Rightarrow> bool" where
  "consecutive_days D d k \<longleftrightarrow> (\<forall>i<k. d - int i \<in> D) \<and> d - int k \<notin> D"

lemma consecutive_days_unique:
  "consecutive_days D d k \<Longrightarrow> consecutive_days D d l \<Longrightarrow> k = l"
  by (metis consecutive_days_def linorder_neqE_nat)

lemma consecutive_days_Suc:
  "d \<in> D \<Longrightarrow> consecutive_days D (d - 1) k \<Longrightarrow> consecutive_days D d (Suc k)"
  by (auto simp: consecutive_days_def less_Suc_eq_0_disj algebra_simps)

lemma iso_day_mem_iff:
  assumes "\<And>x. x \<in> D \<Longrightarrow> valid_day x" "four_digit_day d"
  shows "iso_day d \<in> iso_day ` D \<longleftrightarrow> d \<in> D"
  using assms iso_day_inject valid_day_four_digit(1) by (metis imageE imageI)

lemma streak_walk_iso_day:
  assumes D: "finite D" "\<And>x. x \<in> D \<Longrightarrow> valid_day x"
  shows "four_digit_day d \<Longrightarrow> card {x \<in> D. x \<le> d} < fuel \<Longrightarrow>
    \<exists>k. streak_walk fuel (iso_day ` D) (iso_day d) len = Some (len + k) \<and> consecutive_days D d k"
proof (induction fuel arbitrary: d len)
  case (Suc fuel)
  note mem = iso_day_mem_iff [of D, OF D(2) Suc.prems(1)]
  show ?case
  proof (cases "d \<in> D")
    case True
    have "{x \<in> D. x \<le> d} = insert d {x \<in> D. x \<le> d - 1}" using True by auto
    then have "card {x \<in> D. x \<le> d} = Suc (card {x \<in> D. x \<le> d - 1})" using D(1) by simp
    with Suc.prems have "card {x \<in> D. x \<le> d - 1} < fuel" by simp
    then obtain k where "streak_walk fuel (iso_day ` D) (iso_day (d - 1)) (len + 1) = Some (len + 1 + k)"
        "consecutive_days D (d - 1) k"
      using Suc.IH [of "d - 1" "len + 1"] valid_day_four_digit(2) D(2) True by blast
    then show ?thesis
      using True mem previousUtcDay_iso_day [OF Suc.prems(1)] consecutive_days_Suc [of d D k]
      by (intro exI [of _ "Suc k"]) simp
  next
    case False
    then show ?thesis using mem by (intro exI [of _ 0]) (simp add: consecutive_days_def)
  qed
qed simp

lemma inj_on_iso_day: "(\<And>x. x \<in> D \<Longrightarrow> valid_day x) \<Longrightarrow> inj_on iso_day D"
  by (meson inj_onI iso_day_inject valid_day_four_digit(1))

lemma streakLengthOn_iso_day:
  assumes D: "finite D" "\<And>x. x \<in> D \<Longrightarrow> valid_day x" and d: "four_digit_day d"
  shows "\<exists>k. streakLengthOn (iso_day ` D) (iso_day d) = Some k \<and> consecutive_days D d k"
proof -
  have "card {x \<in> D. x \<le> d} \<le> card D" using D(1) by (intro card_mono) auto
  then have "card {x \<in> D. x \<le> d} < Suc (card (iso_day ` D))"
    using card_image [OF inj_on_iso_day, of D] D(2) by simp
  from streak_walk_iso_day [OF D d this, of 0] show ?thesis by (simp add: streakLengthOn_def)
qed

lemma streakLengthBefore_iso_day:
  assumes "finite D" "\<And>x. x \<in> D \<Longrightarrow> valid_day x" "valid_day d"
  shows "\<exists>k. streakLengthBefore (iso_day ` D) (iso_day d) = Some k \<and> consecutive_days D (d - 1) k"
  using streakLengthOn_iso_day [OF assms(1,2), of "d - 1"] valid_day_four_digit [OF assms(3)]
  by (simp add: streakLengthBefore_def previousUtcDay_iso_day)

text \<open>A check-in on the day itself or later does not change the streak before the day.\<close>

lemma streakLengthBefore_insert:
  assumes "finite D" "\<And>x. x \<in> D \<Longrightarrow> valid_day x" "valid_day d" "valid_day e" "d \<le> e"
  shows "streakLengthBefore (insert (iso_day e) (iso_day ` D)) (iso_day d)
    = streakLengthBefore (iso_day ` D) (iso_day d)"
proof -
  obtain k where k: "streakLengthBefore (iso_day ` D) (iso_day d) = Some k" "consecutive_days D (d - 1) k"
    using streakLengthBefore_iso_day [OF assms(1-3)] by blast
  obtain l where l: "streakLengthBefore (iso_day ` insert e D) (iso_day d) = Some l"
      "consecutive_days (insert e D) (d - 1) l"
    using streakLengthBefore_iso_day [of "insert e D" d] assms by (metis finite_insert insert_iff)
  have "d - 1 - int i \<noteq> e" for i using assms(5) by linarith
  then have "consecutive_days D (d - 1) l" using l(2) by (auto simp: consecutive_days_def)
  then have "k = l" using k(2) consecutive_days_unique by blast
  then show ?thesis using k l by simp
qed

section \<open>Decisions\<close>

lemma campaignStatus_active_iff:
  "campaignStatus w = Inr u \<longleftrightarrow>
     w_enabled w \<and> withinWindow (w_startsAtMs w) (w_endsAtMs w) (w_nowMs w)"
  by (auto simp: campaignStatus_def withinWindow_def split: option.splits if_splits)

lemma withinWindow_iff:
  "withinWindow s e t \<longleftrightarrow> (\<exists>a. s = Some a \<and> a \<le> t) \<and> (\<forall>b. e = Some b \<longrightarrow> t < b)"
  by (auto simp: withinWindow_def split: option.splits)

lemma actionAward_Inr_iff:
  "actionAward f = Inr a \<longleftrightarrow>
     withinWindow (af_startsAtMs f) (af_endsAtMs f) (af_closedAtMs f) \<and>
     af_kind f \<noteq> BlendWithdraw \<and> af_meetsMinNotional f \<and>
     af_countedSameDayBefore f < ar_dailyCap (ACTION_RULES (af_kind f)) \<and>
     a = \<lparr>ad_reason = action_reason (af_kind f),
          ad_basePoints = ar_basePoints (ACTION_RULES (af_kind f)),
          ad_multiplier = streakMultiplier (jsint (af_streakDaysBeforeDay f)),
          ad_points = pointsFor (jsint (ar_basePoints (ACTION_RULES (af_kind f))))
            (streakMultiplier (jsint (af_streakDaysBeforeDay f))),
          ad_countedDay = utcDay (af_closedAtMs f)\<rparr>"
  by (cases "af_kind f") (auto simp: actionAward_def Let_def)

lemma social_task_of_key [simp]: "social_task_of (social_key k) = Some k"
  by (cases k) (simp_all add: social_task_of_def)

lemma social_task_of_Some: "social_task_of s = Some k \<longleftrightarrow> s = social_key k"
proof
  assume "social_task_of s = Some k"
  then show "s = social_key k" unfolding social_task_of_def by (blast dest: find_Some_in)
qed (simp only: social_task_of_key)

lemma reasons_in_closed_set:
  "ledger_reason_ok (action_reason k)" "ledger_reason_ok (social_reason t)"
  by (cases k; simp add: action_reason_def ledger_reason_ok_def)
    (cases t; simp add: social_reason_def ledger_reason_ok_def)

lemma perksFor_mono: "a \<le> b \<Longrightarrow> set (perksFor a) \<subseteq> set (perksFor b)"
  by (auto simp: perksFor_def PERK_TIERS_def)

lemma nextPerkFor_None_iff: "nextPerkFor b granted = None \<longleftrightarrow> (\<forall>k. k \<in> set granted)"
proof -
  have "(\<forall>k. k \<in> set granted) \<longleftrightarrow> EarlyAccess \<in> set granted \<and> BetaFeatures \<in> set granted \<and> PriorityRwa \<in> set granted"
    by (metis PerkKey.exhaust)
  then show ?thesis by (auto simp: nextPerkFor_def PERK_TIERS_def split: option.splits)
qed

lemma referral_alphabet_chars: "list_all referral_code_char REFERRAL_ALPHABET" "length REFERRAL_ALPHABET = 32"
  by code_simp+

lemma referralCodeFromBytes_format:
  "referralCodeFromBytes bytes = Some code \<Longrightarrow> REFERRAL_CODE_RE code"
proof -
  assume r: "referralCodeFromBytes bytes = Some code"
  have "referral_code_char (REFERRAL_ALPHABET ! (unat b mod length REFERRAL_ALPHABET))" for b :: "8 word"
    using referral_alphabet_chars by (simp add: list_all_length)
  then show ?thesis
    using r by (auto simp: referralCodeFromBytes_def REFERRAL_CODE_RE_def list_all_iff split: if_splits)
qed

end
