(* ===== verification/Request_Validation.thy ===== *)
theory Request_Validation
  imports Campaign_Rules
begin

text \<open>
  Request-input primitives: \<open>apps/api/src/common/request-validation.ts\<close> and the campaign's own
  \<open>apps/api/src/modules/campaign/request-validation.ts\<close>, with the handle rules of
  \<open>social-claims.ts\<close> they use. A body field or query parameter is a \<open>jsval\<close>; a helper
  returns the accepted string or \<open>BadRequest\<close> with the field it names (the HTTP 400 of a
  BadRequestException). Regular expressions are written out as predicates.
\<close>

datatype jsval =
    JUndefined | JNull | JBool bool | JNumber jsnum | JString string
  | JArray "jsval list" | JObject "(string \<times> jsval) list"

datatype bad_request = BadRequest string

section \<open>Character classes\<close>

definition in_range :: "nat \<Rightarrow> nat \<Rightarrow> char \<Rightarrow> bool" where
  "in_range lo hi c \<longleftrightarrow> lo \<le> (of_char c :: nat) \<and> (of_char c :: nat) \<le> hi"

text \<open>\<open>[A-Z2-7]\<close>, \<open>[0-9a-f]\<close> and \<open>[0-9a-f]\<close> under the \<open>i\<close> flag.\<close>

definition base32_char :: "char \<Rightarrow> bool" where
  "base32_char c \<longleftrightarrow> in_range 65 90 c \<or> in_range 50 55 c"

definition lower_hex_char :: "char \<Rightarrow> bool" where
  "lower_hex_char c \<longleftrightarrow> is_digit c \<or> in_range 97 102 c"

definition hex_char :: "char \<Rightarrow> bool" where
  "hex_char c \<longleftrightarrow> lower_hex_char c \<or> in_range 65 70 c"

definition STELLAR_PUBKEY_RE :: "string \<Rightarrow> bool" where
  "STELLAR_PUBKEY_RE s \<longleftrightarrow>
     (case s of [] \<Rightarrow> False | c # cs \<Rightarrow> c = CHR ''G'' \<and> length cs = 55 \<and> list_all base32_char cs)"

definition NONCE_RE :: "string \<Rightarrow> bool" where
  "NONCE_RE s \<longleftrightarrow> length s = 32 \<and> list_all lower_hex_char s"

text \<open>8-4-4-4-12 hexadecimal groups, version digit 1 to 5, variant 8, 9, a or b.\<close>

definition UUID_RE :: "string \<Rightarrow> bool" where
  "UUID_RE s \<longleftrightarrow>
     length s = 36
     \<and> s ! 8 = CHR ''-'' \<and> s ! 13 = CHR ''-'' \<and> s ! 18 = CHR ''-'' \<and> s ! 23 = CHR ''-''
     \<and> list_all hex_char (take 8 s) \<and> list_all hex_char (take 4 (drop 9 s))
     \<and> list_all hex_char (take 4 (drop 14 s)) \<and> list_all hex_char (take 4 (drop 19 s))
     \<and> list_all hex_char (drop 24 s)
     \<and> in_range 49 53 (s ! 14)
     \<and> (s ! 19 = CHR ''8'' \<or> s ! 19 = CHR ''9'' \<or> lower_char (s ! 19) = CHR ''a''
        \<or> lower_char (s ! 19) = CHR ''b'')"

definition MAX_SIGNATURE_CHARS :: nat where
  "MAX_SIGNATURE_CHARS = 512"

section \<open>common/request-validation.ts\<close>

definition asTrimmedString :: "jsval \<Rightarrow> string" where
  "asTrimmedString value = (case value of JString s \<Rightarrow> trim s | _ \<Rightarrow> [])"

definition requireAddress :: "jsval \<Rightarrow> string \<Rightarrow> bad_request + string" where
  "requireAddress value fld =
     (let v = asTrimmedString value in if \<not> STELLAR_PUBKEY_RE v then Inl (BadRequest fld) else Inr v)"

definition requireNonce :: "jsval \<Rightarrow> bad_request + string" where
  "requireNonce value =
     (let v = asTrimmedString value in if \<not> NONCE_RE v then Inl (BadRequest ''nonce'') else Inr v)"

definition requireSignedMessage :: "jsval \<Rightarrow> bad_request + string" where
  "requireSignedMessage value =
     (let v = asTrimmedString value in
      if v = [] \<or> MAX_SIGNATURE_CHARS < length v then Inl (BadRequest ''signedMessage'') else Inr v)"

definition requireUserId :: "jsval \<Rightarrow> string \<Rightarrow> bad_request + string" where
  "requireUserId value fld =
     (let v = asTrimmedString value in if \<not> UUID_RE v then Inl (BadRequest fld) else Inr v)"

definition is_nullish :: "jsval \<Rightarrow> bool" where
  "is_nullish value \<longleftrightarrow> value = JUndefined \<or> value = JNull"

definition optionalUserId :: "jsval \<Rightarrow> string \<Rightarrow> bad_request + string option" where
  "optionalUserId value fld =
     (if is_nullish value \<or> value = JString [] then Inr None
      else map_sum id Some (requireUserId value fld))"

definition requireUuid :: "jsval \<Rightarrow> string \<Rightarrow> bad_request + string" where
  "requireUuid value fld =
     (let v = asTrimmedString value in if \<not> UUID_RE v then Inl (BadRequest fld) else Inr v)"

definition optionalText :: "jsval \<Rightarrow> string \<Rightarrow> nat \<Rightarrow> bad_request + string option" where
  "optionalText value fld maxChars =
     (if is_nullish value then Inr None
      else case value of
        JString s \<Rightarrow>
          (let v = trim s in
           if v = [] then Inr None
           else if maxChars < length v then Inl (BadRequest fld)
           else Inr (Some v))
      | _ \<Rightarrow> Inl (BadRequest fld))"

definition optionalKeyword :: "jsval \<Rightarrow> string \<Rightarrow> string \<Rightarrow> bad_request + string" where
  "optionalKeyword value fld fallback =
     (if is_nullish value then Inr fallback
      else case value of
        JString s \<Rightarrow> (let v = toLowerCase (trim s) in Inr (if v = [] then fallback else v))
      | _ \<Rightarrow> Inl (BadRequest fld))"

section \<open>campaign/request-validation.ts and the handle rules of social-claims.ts\<close>

definition MAX_PROVIDER_CHARS :: nat where
  "MAX_PROVIDER_CHARS = 64"

definition MAX_TASK_KEY_CHARS :: nat where
  "MAX_TASK_KEY_CHARS = 32"

definition handle_char :: "char \<Rightarrow> bool" where
  "handle_char c \<longleftrightarrow> in_range 97 122 c \<or> is_digit c \<or> c = CHR ''_'' \<or> c = CHR ''.''"

definition HANDLE_RE :: "string \<Rightarrow> bool" where
  "HANDLE_RE s \<longleftrightarrow> 1 \<le> length s \<and> length s \<le> 32 \<and> list_all handle_char s"

definition strip_at :: "string \<Rightarrow> string" where
  "strip_at s = (case s of c # cs \<Rightarrow> if c = CHR ''@'' then cs else s | [] \<Rightarrow> [])"

definition normaliseHandle :: "string \<Rightarrow> string" where
  "normaliseHandle raw = toLowerCase (strip_at (trim raw))"

definition optionalProvider :: "jsval \<Rightarrow> bad_request + string option" where
  "optionalProvider value =
     (case optionalText value ''provider'' MAX_PROVIDER_CHARS of
        Inl _ \<Rightarrow> Inl (BadRequest ''provider'') | Inr p \<Rightarrow> Inr p)"

definition optionalReferralCode :: "jsval \<Rightarrow> bad_request + string option" where
  "optionalReferralCode value =
     (if is_nullish value \<or> value = JString [] then Inr None
      else
        let v = (case value of JString s \<Rightarrow> toUpperCase (trim s) | _ \<Rightarrow> []) in
        if \<not> REFERRAL_CODE_RE v then Inl (BadRequest ''referralCode'') else Inr (Some v))"

definition requireTaskKey :: "jsval \<Rightarrow> bad_request + string" where
  "requireTaskKey value =
     (let v = asTrimmedString value in
      if v = [] \<or> MAX_TASK_KEY_CHARS < length v then Inl (BadRequest ''task'') else Inr v)"

definition requireHandle :: "jsval \<Rightarrow> bad_request + string" where
  "requireHandle value =
     (let v = (case value of JString s \<Rightarrow> normaliseHandle s | _ \<Rightarrow> []) in
      if \<not> HANDLE_RE v then Inl (BadRequest ''handle'') else Inr v)"

definition requireClaimId :: "jsval \<Rightarrow> bad_request + string" where
  "requireClaimId value =
     (let v = asTrimmedString value in if \<not> UUID_RE v then Inl (BadRequest ''id'') else Inr v)"

section \<open>What an accepted input looks like\<close>

lemma requireAddress_Inr: "requireAddress v f = Inr a \<Longrightarrow> STELLAR_PUBKEY_RE a"
  by (auto simp: requireAddress_def Let_def split: if_splits)

lemma requireUserId_Inr: "requireUserId v f = Inr u \<Longrightarrow> UUID_RE u"
  by (auto simp: requireUserId_def Let_def split: if_splits)

lemma requireHandle_Inr: "requireHandle v = Inr h \<Longrightarrow> HANDLE_RE h"
  by (auto simp: requireHandle_def Let_def split: if_splits)

lemma requireHandle_non_string: "(\<And>s. v \<noteq> JString s) \<Longrightarrow> requireHandle v = Inl (BadRequest ''handle'')"
  by (cases v) (auto simp: requireHandle_def HANDLE_RE_def)

lemma upper_ranges_fixed:
  "in_range 65 90 c \<Longrightarrow> upper_char c = c" "in_range 50 57 c \<Longrightarrow> upper_char c = c"
  by (auto simp: in_range_def upper_char_def Let_def)

text \<open>A referral code the server produced is accepted back unchanged.\<close>

lemma referral_code_char_fixed: "referral_code_char c \<Longrightarrow> upper_char c = c \<and> \<not> is_space c"
  by (auto simp: referral_code_char_def upper_char_def is_space_def Let_def)

lemma dropWhile_none: "list_all (\<lambda>c. \<not> P c) s \<Longrightarrow> dropWhile P s = s"
  by (cases s) auto

lemma trim_no_space: "list_all (\<lambda>c. \<not> is_space c) s \<Longrightarrow> trim s = s"
  by (simp add: trim_def dropWhile_none list_all_rev)

lemma optionalReferralCode_roundtrip:
  assumes "referralCodeFromBytes bytes = Some code"
  shows "optionalReferralCode (JString code) = Inr (Some code)"
proof -
  have r: "REFERRAL_CODE_RE code" using assms by (rule referralCodeFromBytes_format)
  then have l: "length code = 8" and c: "list_all referral_code_char code"
    by (simp_all add: REFERRAL_CODE_RE_def)
  have "trim code = code"
    using c by (intro trim_no_space) (auto simp: list_all_iff dest: referral_code_char_fixed)
  moreover have "toUpperCase code = code" unfolding toUpperCase_def
    using c by (intro map_idI) (simp add: list_all_iff referral_code_char_fixed)
  moreover have "code \<noteq> []" using l by auto
  ultimately show ?thesis
    using r by (simp add: optionalReferralCode_def is_nullish_def)
qed

lemma handle_char_lower_fixed: "handle_char c \<Longrightarrow> lower_char c = c \<and> \<not> is_space c"
  by (auto simp: handle_char_def in_range_def is_digit_def lower_char_def is_space_def Let_def)

text \<open>Normalising a valid handle again changes nothing, so it can be compared as stored.\<close>

lemma normaliseHandle_fixed:
  assumes "HANDLE_RE h"
  shows "normaliseHandle h = h"
proof -
  have c: "list_all handle_char h" using assms by (simp add: HANDLE_RE_def)
  have "trim h = h"
    using c by (intro trim_no_space) (auto simp: list_all_iff dest: handle_char_lower_fixed)
  moreover have "strip_at h = h"
    using c by (cases h) (auto simp: strip_at_def handle_char_def in_range_def is_digit_def)
  moreover have "toLowerCase h = h" unfolding toLowerCase_def
    using c by (intro map_idI) (simp add: list_all_iff handle_char_lower_fixed)
  ultimately show ?thesis by (simp add: normaliseHandle_def)
qed

lemma requireHandle_idem:
  assumes "requireHandle v = Inr h"
  shows "requireHandle (JString h) = Inr h"
proof -
  have re: "HANDLE_RE h" using assms by (rule requireHandle_Inr)
  have fixed: "normaliseHandle h = h" using re by (rule normaliseHandle_fixed)
  show ?thesis unfolding requireHandle_def Let_def jsval.case fixed using re by simp
qed

end
