(* ===== verification/Keyed_Table.thy ===== *)
theory Keyed_Table
  imports Dig_Prelude
begin

text \<open>
  (Partial) unique indexes on tables. A table is the list of its rows; an index is a function
  from a row to its key, \<open>None\<close> for a row outside a partial index. The locale \<open>unique_index\<close> is
  the contract between an insert and the index that guards it: what a caller may rely on after
  a successful insert, and what makes one fail. It is interpreted on every insert of the
  campaign and faucet databases.
\<close>

definition conflicts :: "('r \<Rightarrow> 'k option) \<Rightarrow> 'r list \<Rightarrow> 'r \<Rightarrow> bool" where
  "conflicts key rows r \<longleftrightarrow> key r \<noteq> None \<and> list_ex (\<lambda>x. key x = key r) rows"

fun unique_on :: "('r \<Rightarrow> 'k option) \<Rightarrow> 'r list \<Rightarrow> bool" where
  "unique_on key [] = True"
| "unique_on key (r # rs) = (\<not> conflicts key rs r \<and> unique_on key rs)"

lemma conflicts_iff: "conflicts key rows r \<longleftrightarrow> key r \<noteq> None \<and> (\<exists>x \<in> set rows. key x = key r)"
  by (simp add: conflicts_def list_ex_iff)

lemma unique_on_append:
  "unique_on key (xs @ ys) \<longleftrightarrow>
     unique_on key xs \<and> unique_on key ys \<and> (\<forall>x \<in> set xs. \<not> conflicts key ys x)"
  by (induction xs) (auto simp: conflicts_iff)

lemma unique_on_snoc: "unique_on key (xs @ [r]) \<longleftrightarrow> unique_on key xs \<and> \<not> conflicts key xs r"
  by (auto simp: unique_on_append conflicts_iff)

lemma unique_onD:
  assumes "unique_on key rows" "x \<in> set rows" "y \<in> set rows" "key x = Some k" "key y = Some k"
  shows "x = y"
  using assms by (induction rows) (auto simp: conflicts_iff)

lemma unique_on_filter: "unique_on key xs \<Longrightarrow> unique_on key (filter P xs)"
  by (induction xs) (auto simp: conflicts_iff)

text \<open>An update that keeps the keys, or takes rows out of the index, keeps the index.\<close>

lemma unique_on_map:
  assumes "unique_on key xs" "\<And>x. x \<in> set xs \<Longrightarrow> key (f x) = key x \<or> key (f x) = None"
  shows "unique_on key (map f xs)"
  using assms
proof (induction xs)
  case (Cons a xs)
  have "\<not> conflicts key (map f xs) (f a)"
  proof
    assume "conflicts key (map f xs) (f a)"
    then obtain x where x: "x \<in> set xs" "key (f x) = key (f a)" "key (f a) \<noteq> None"
      by (auto simp: conflicts_iff)
    then have "key a = key x" "key a \<noteq> None"
      using Cons.prems(2) [of a] Cons.prems(2) [of x] by auto
    then show False using Cons.prems(1) x(1) by (auto simp: conflicts_iff)
  qed
  then show ?case using Cons by simp
qed simp

lemma unique_on_filter_length:
  assumes "unique_on key xs" "\<And>x. x \<in> set xs \<Longrightarrow> P x \<Longrightarrow> key x = Some k"
  shows "length (filter P xs) \<le> 1"
  using assms
proof (induction xs)
  case (Cons a xs)
  show ?case
  proof (cases "P a")
    case True
    then have "key a = Some k" using Cons.prems(2) by simp
    then have "\<not> P x" if "x \<in> set xs" for x
      using Cons.prems that by (auto simp: conflicts_iff)
    then have "filter P xs = []" by (simp add: filter_empty_conv)
    then show ?thesis by simp
  next
    case False then show ?thesis using Cons by simp
  qed
qed simp

locale unique_index =
  fixes rows :: "'d \<Rightarrow> 'r list"
    and key :: "'r \<Rightarrow> 'k option"
    and row_of :: "'p \<Rightarrow> 'd \<Rightarrow> 'r"
    and ins :: "'p \<Rightarrow> 'd \<Rightarrow> 'e + 'd"
  assumes ins_ok: "ins p d = Inr d' \<Longrightarrow> rows d' = rows d @ [row_of p d]"
    and ins_free: "ins p d = Inr d' \<Longrightarrow> \<not> conflicts key (rows d) (row_of p d)"
begin

lemma keeps_unique: "unique_on key (rows d) \<Longrightarrow> ins p d = Inr d' \<Longrightarrow> unique_on key (rows d')"
  by (simp add: ins_ok ins_free unique_on_snoc)

lemma taken_key_fails:
  "x \<in> set (rows d) \<Longrightarrow> key x = key (row_of p d) \<Longrightarrow> key x \<noteq> None \<Longrightarrow> \<exists>e. ins p d = Inl e"
  by (cases "ins p d") (auto dest!: ins_free simp: conflicts_iff)

lemma ins_mem: "ins p d = Inr d' \<Longrightarrow> row_of p d \<in> set (rows d')"
  by (simp add: ins_ok)

lemma ins_keeps_rows: "ins p d = Inr d' \<Longrightarrow> x \<in> set (rows d) \<Longrightarrow> x \<in> set (rows d')"
  by (simp add: ins_ok)

lemma find_inserted:
  assumes "ins p d = Inr d'" "key (row_of p d) = Some k"
  shows "List.find (\<lambda>r. key r = Some k) (rows d') = Some (row_of p d)"
proof -
  have "\<forall>x \<in> set (rows d). key x \<noteq> Some k"
    using ins_free [OF assms(1)] assms(2) by (auto simp: conflicts_iff)
  moreover have "(\<forall>x \<in> set xs. key x \<noteq> Some k) \<Longrightarrow>
      List.find (\<lambda>r. key r = Some k) (xs @ [row_of p d]) = Some (row_of p d)" for xs
    using assms(2) by (induction xs) auto
  ultimately show ?thesis by (simp add: ins_ok [OF assms(1)])
qed

lemma insert_twice_fails:
  assumes "ins p d = Inr d'" "key (row_of p d) \<noteq> None" "key (row_of q d') = key (row_of p d)"
  shows "\<exists>e. ins q d' = Inl e"
  using taken_key_fails [of "row_of p d" d' q] ins_mem [OF assms(1)] assms by metis

end

text \<open>An insert that also returns the row, seen as an insert.\<close>

definition drop_result :: "'e + 'a \<times> 'd \<Rightarrow> 'e + 'd" where
  "drop_result r = map_sum id snd r"

lemma drop_result_Inr [simp]: "drop_result r = Inr d' \<longleftrightarrow> (\<exists>x. r = Inr (x, d'))"
  by (cases r) (auto simp: drop_result_def)

end
