(* ===== verification/Driver_Errors.thy ===== *)
theory Driver_Errors
  imports Dig_Prelude
begin

text \<open>
  The errors a failed SQL statement raises, as the database driver relays them, and the text the
  services search in them.
\<close>

record JsError =
  e_meta_code :: "string option"
  e_message :: "string option"
  e_meta_message :: "string option"

definition or_empty :: "string option \<Rightarrow> string" where
  "or_empty s = (case s of None \<Rightarrow> [] | Some t \<Rightarrow> t)"

fun str_includes :: "string \<Rightarrow> string \<Rightarrow> bool" where
  "str_includes p [] = (p = [])"
| "str_includes p (c # cs) = (starts_with p (c # cs) \<or> str_includes p cs)"

definition error_text :: "JsError \<Rightarrow> string" where
  "error_text err = or_empty (e_message err) @ '' '' @ or_empty (e_meta_message err)"

text \<open>
  What PostgreSQL reports for a failed statement, as the driver relays it: SQLSTATE 23505 with
  the detail \<open>Key (<columns>)=(<values>) already exists.\<close>, 23514 for a CHECK, 23503 for a
  foreign key. The values of the key are elided: no modelled code reads them.
\<close>

definition unique_violation :: "string \<Rightarrow> JsError" where
  "unique_violation cols =
     \<lparr>e_meta_code = Some ''23505'', e_message = Some ''Raw query failed'',
      e_meta_message = Some (''Key ('' @ cols @ '')=(...) already exists.'')\<rparr>"

definition check_violation :: JsError where
  "check_violation =
     \<lparr>e_meta_code = Some ''23514'', e_message = Some ''Raw query failed'',
      e_meta_message = Some ''violates check constraint''\<rparr>"

definition foreign_key_violation :: JsError where
  "foreign_key_violation =
     \<lparr>e_meta_code = Some ''23503'', e_message = Some ''Raw query failed'',
      e_meta_message = Some ''violates foreign key constraint''\<rparr>"

text \<open>The \<open>::uuid\<close> cast: the canonical text of a uuid is lower case.\<close>

definition uuid_cast :: "string \<Rightarrow> user_id" where
  "uuid_cast s = toLowerCase s"

end
