(* ===== verification/Campaign_Db.thy ===== *)
theory Campaign_Db
  imports Request_Validation Keyed_Table Driver_Errors "HOL-Library.List_Lexorder" "HOL-Library.Product_Lexorder"
begin

text \<open>
  The campaign tables (\<open>db/stellar_v6_campaign.sql\<close>, \<open>v7\<close>, \<open>v8\<close>) and the SQL operations of
  \<open>modules/campaign/campaign.repository.ts\<close> and \<open>social-claims.queries.ts\<close> on them.

  A table is the list of its rows in insertion order, the database a record of tables. A
  statement is a function of the database; a statement that writes returns either the driver's
  error (then the database is unchanged, as PostgreSQL rolls the statement back) or its result
  with the new database. \<open>now()\<close>, the value of \<open>gen_random_uuid()\<close> and the random bytes are
  inputs. CHECK constraints, foreign keys and (partial) unique indexes are the conditions under
  which an insert fails. Days are ISO day strings, instants milliseconds, the column
  \<open>multiplier numeric(4,2)\<close> is its value in hundredths.
\<close>

section \<open>Driver errors\<close>

definition isUniqueViolation :: "JsError \<Rightarrow> bool" where
  "isUniqueViolation err =
     (if e_meta_code err = Some ''23505'' then True
      else str_includes ''23505'' (error_text err)
        \<or> str_includes ''duplicate key value violates unique constraint'' (error_text err))"

text \<open>The capture group of \<open>/Key \(([^=]+?)\)=/\<close> at the first position it matches, and of
  \<open>/unique constraint "([^"]+)"/\<close>.\<close>

fun scan_group :: "string \<Rightarrow> string \<Rightarrow> string option" where
  "scan_group acc [] = None"
| "scan_group acc (c # cs) =
     (if acc \<noteq> [] \<and> starts_with '')='' (c # cs) then Some (rev acc)
      else if c = CHR ''='' then None
      else scan_group (c # acc) cs)"

fun match_key :: "string \<Rightarrow> string option" where
  "match_key [] = None"
| "match_key (c # cs) =
     (case (if starts_with ''Key ('' (c # cs) then scan_group [] (drop 5 (c # cs)) else None) of
        Some g \<Rightarrow> Some g
      | None \<Rightarrow> match_key cs)"

definition quote :: char where
  "quote = CHR 0x22"

fun match_constraint :: "string \<Rightarrow> string option" where
  "match_constraint [] = None"
| "match_constraint (c # cs) =
     (let pat = ''unique constraint '' @ [quote];
          rest = drop (length pat) (c # cs);
          name = takeWhile (\<lambda>x. x \<noteq> quote) rest in
      if starts_with pat (c # cs) \<and> name \<noteq> [] \<and> length name < length rest then Some name
      else match_constraint cs)"

text \<open>\<open>replace(/\s+/g, ' ')\<close>\<close>

fun collapse_spaces :: "string \<Rightarrow> string" where
  "collapse_spaces [] = []"
| "collapse_spaces [c] = [if is_space c then CHR '' '' else c]"
| "collapse_spaces (c # d # s) =
     (if is_space c then (if is_space d then collapse_spaces (d # s) else CHR '' '' # collapse_spaces (d # s))
      else c # collapse_spaces (d # s))"

definition violatedUniqueKey :: "JsError \<Rightarrow> string option" where
  "violatedUniqueKey err =
     (case match_key (error_text err) of
        Some g \<Rightarrow> Some (trim (collapse_spaces g))
      | None \<Rightarrow> match_constraint (error_text err))"

definition ENROLLMENT_CODE_KEY :: string where
  "ENROLLMENT_CODE_KEY = ''campaign, referral_code''"

definition ENROLLMENT_WALLET_KEY :: string where
  "ENROLLMENT_WALLET_KEY = ''campaign, lower(address)''"

definition SOCIAL_CLAIM_TASK_KEY :: string where
  "SOCIAL_CLAIM_TASK_KEY = ''campaign, lower(address), task_key''"

definition SOCIAL_CLAIM_HANDLE_KEY :: string where
  "SOCIAL_CLAIM_HANDLE_KEY = ''campaign, task_key, handle_normalized''"

section \<open>Rows and tables\<close>

record Challenge =
  ch_nonce :: string
  ch_address :: address
  ch_message :: string
  ch_issued_at :: ms
  ch_expires_at :: ms
  ch_used_at :: "ms option"

datatype SignatureVariant = Raw | Sha256 | Sep53

record ProofRow =
  pf_id :: string
  pf_address :: address
  pf_user_id :: "user_id option"
  pf_provider :: "string option"
  pf_nonce :: string
  pf_signature_variant :: SignatureVariant
  pf_verified_at :: ms
  pf_consumed_at :: "ms option"

record EnrollmentRow =
  en_id :: string
  en_campaign :: int
  en_address :: address
  en_user_id :: user_id
  en_referral_code :: string
  en_referred_by_code :: "string option"
  en_enrolled_at :: ms

record ClaimRow =
  cl_id :: string
  cl_campaign :: int
  cl_address :: address
  cl_task_key :: string
  cl_handle_normalized :: string
  cl_claimed_at :: ms
  cl_deleted_at :: "ms option"

record LedgerRow =
  lr_id :: int
  lr_campaign :: int
  lr_address :: address
  lr_user_id :: "user_id option"
  lr_reason :: string
  lr_base_points :: int
  lr_multiplier :: int
  lr_points :: int
  lr_witness_tx_hash :: "tx_hash option"
  lr_social_claim_id :: "string option"
  lr_checkin_day :: "string option"
  lr_referral_referee :: "address option"
  lr_adjusts_id :: "int option"
  lr_counted_day :: "string option"
  lr_created_at :: ms

record CheckinRow =
  ci_campaign :: int
  ci_address :: address
  ci_day :: string
  ci_created_at :: ms

record ReferralRow =
  rf_campaign :: int
  rf_referee_address :: address
  rf_referrer_address :: address
  rf_code :: string
  rf_linked_at :: ms
  rf_credited_at :: "ms option"
  rf_credited_tx_hash :: "tx_hash option"

record PerkRow =
  pk_campaign :: int
  pk_address :: address
  pk_perk_key :: PerkKey
  pk_granted_at :: ms
  pk_points_at_grant :: int

text \<open>\<open>action_witnesses\<close> and \<open>user_wallets\<close>, the columns the campaign reads.\<close>

record WitnessRow =
  wt_tx_hash :: tx_hash
  wt_wallet_address :: address
  wt_kind :: string
  wt_meets_min_notional :: bool
  wt_ledger_closed_at :: ms

record Db =
  db_challenges :: "Challenge list"
  db_proofs :: "ProofRow list"
  db_enrollments :: "EnrollmentRow list"
  db_claims :: "ClaimRow list"
  db_ledger :: "LedgerRow list"
  db_ledger_seq :: int
  db_checkins :: "CheckinRow list"
  db_referrals :: "ReferralRow list"
  db_perks :: "PerkRow list"
  db_witnesses :: "WitnessRow list"
  db_wallets_created :: "ms list"

definition empty_db :: Db where
  "empty_db = \<lparr>db_challenges = [], db_proofs = [], db_enrollments = [], db_claims = [],
     db_ledger = [], db_ledger_seq = 0, db_checkins = [], db_referrals = [], db_perks = [],
     db_witnesses = [], db_wallets_created = []\<rparr>"

section \<open>Challenges\<close>

definition challenge_key :: "Challenge \<Rightarrow> string option" where
  "challenge_key c = Some (ch_nonce c)"

record NewChallenge =
  nc_nonce :: string
  nc_address :: address
  nc_message :: string
  nc_issuedAt :: ms
  nc_expiresAt :: ms

definition challenge_of :: "NewChallenge \<Rightarrow> Challenge" where
  "challenge_of p =
     \<lparr>ch_nonce = nc_nonce p, ch_address = nc_address p, ch_message = nc_message p,
      ch_issued_at = nc_issuedAt p, ch_expires_at = nc_expiresAt p, ch_used_at = None\<rparr>"

definition createChallenge :: "NewChallenge \<Rightarrow> Db \<Rightarrow> JsError + Db" where
  "createChallenge p d =
     (if \<not> STELLAR_PUBKEY_RE (nc_address p) then Inl check_violation
      else if conflicts challenge_key (db_challenges d) (challenge_of p) then Inl (unique_violation ''nonce'')
      else Inr (d\<lparr>db_challenges := db_challenges d @ [challenge_of p]\<rparr>))"

definition deleteStaleChallenges :: "ms \<Rightarrow> Db \<Rightarrow> nat \<times> Db" where
  "deleteStaleChallenges now d =
     (let stale = (\<lambda>c. ch_expires_at c < now - ms_per_day) in
      (length (filter stale (db_challenges d)),
       d\<lparr>db_challenges := filter (\<lambda>c. \<not> stale c) (db_challenges d)\<rparr>))"

definition consumable :: "ms \<Rightarrow> string \<Rightarrow> address \<Rightarrow> Challenge \<Rightarrow> bool" where
  "consumable now nonce a c \<longleftrightarrow>
     ch_nonce c = nonce \<and> ch_address c = a \<and> ch_used_at c = None \<and> now < ch_expires_at c"

definition consumeChallenge :: "ms \<Rightarrow> string \<Rightarrow> address \<Rightarrow> Db \<Rightarrow> string option \<times> Db" where
  "consumeChallenge now nonce a d =
     (map_option ch_message (List.find (consumable now nonce a) (db_challenges d)),
      d\<lparr>db_challenges :=
          map (\<lambda>c. if consumable now nonce a c then c\<lparr>ch_used_at := Some now\<rparr> else c) (db_challenges d)\<rparr>)"

section \<open>Ownership proofs\<close>

definition proof_bound_key :: "ProofRow \<Rightarrow> (string \<times> user_id) option" where
  "proof_bound_key p = map_option (\<lambda>u. (toLowerCase (pf_address p), u)) (pf_user_id p)"

definition proof_nonce_key :: "ProofRow \<Rightarrow> string option" where
  "proof_nonce_key p = Some (pf_nonce p)"

definition proof_id_key :: "ProofRow \<Rightarrow> string option" where
  "proof_id_key p = Some (pf_id p)"

record NewProof =
  np_id :: string
  np_now :: ms
  np_address :: address
  np_user :: "user_id option"
  np_provider :: "string option"
  np_nonce :: string
  np_variant :: SignatureVariant

definition proof_of :: "NewProof \<Rightarrow> ProofRow" where
  "proof_of p =
     \<lparr>pf_id = np_id p, pf_address = np_address p, pf_user_id = map_option uuid_cast (np_user p),
      pf_provider = np_provider p, pf_nonce = np_nonce p, pf_signature_variant = np_variant p,
      pf_verified_at = np_now p, pf_consumed_at = None\<rparr>"

definition insert_proof :: "NewProof \<Rightarrow> Db \<Rightarrow> JsError + ProofRow \<times> Db" where
  "insert_proof p d =
     (let r = proof_of p in
      if \<not> STELLAR_PUBKEY_RE (np_address p) then Inl check_violation
      else if conflicts proof_id_key (db_proofs d) r then Inl (unique_violation ''id'')
      else if conflicts proof_bound_key (db_proofs d) r then Inl (unique_violation ''lower(address), user_id'')
      else if conflicts proof_nonce_key (db_proofs d) r then Inl (unique_violation ''nonce'')
      else Inr (r, d\<lparr>db_proofs := db_proofs d @ [r]\<rparr>))"

text \<open>The unbound insert is \<open>insert_proof\<close> with \<open>user_id\<close> null.\<close>

definition insertUnboundProof :: "NewProof \<Rightarrow> Db \<Rightarrow> JsError + ProofRow \<times> Db" where
  "insertUnboundProof p d = insert_proof (p\<lparr>np_user := None\<rparr>) d"

text \<open>\<open>on conflict (lower(address), user_id) ... do update\<close>: when the pair is bound already, that
  row is refreshed; it keeps its id and address. The refreshed nonce may collide with another
  row's, which fails the statement.\<close>

definition upsertBoundProof :: "NewProof \<Rightarrow> Db \<Rightarrow> JsError + ProofRow \<times> Db" where
  "upsertBoundProof p d =
     (let r = proof_of p;
          same = (\<lambda>x. proof_bound_key x = proof_bound_key r);
          refresh = (\<lambda>x. x\<lparr>pf_verified_at := np_now p, pf_nonce := np_nonce p, pf_provider := np_provider p,
                           pf_signature_variant := np_variant p, pf_consumed_at := None\<rparr>) in
      if \<not> STELLAR_PUBKEY_RE (np_address p) then Inl check_violation
      else case List.find same (db_proofs d) of
        None \<Rightarrow> insert_proof p d
      | Some old \<Rightarrow>
          if list_ex (\<lambda>x. pf_nonce x = np_nonce p) (filter (\<lambda>x. \<not> same x) (db_proofs d))
          then Inl (unique_violation ''nonce'')
          else Inr (refresh old,
                    d\<lparr>db_proofs := map (\<lambda>x. if same x then refresh x else x) (db_proofs d)\<rparr>))"

definition hasBoundProof :: "address \<Rightarrow> string \<Rightarrow> Db \<Rightarrow> bool" where
  "hasBoundProof a userId d \<longleftrightarrow>
     list_ex (\<lambda>x. lower_eq (pf_address x) a \<and> pf_user_id x = Some (uuid_cast userId)) (db_proofs d)"

definition fresh_unbound :: "ms \<Rightarrow> address \<Rightarrow> int \<Rightarrow> ProofRow \<Rightarrow> bool" where
  "fresh_unbound now a maxAgeSeconds x \<longleftrightarrow>
     lower_eq (pf_address x) a \<and> pf_user_id x = None \<and> pf_consumed_at x = None
     \<and> now - maxAgeSeconds * 1000 \<le> pf_verified_at x"

text \<open>Freshest first; the update binds the row, which the partial index on bound proofs may refuse.\<close>

definition consumeUnboundProof ::
    "ms \<Rightarrow> address \<Rightarrow> string \<Rightarrow> int \<Rightarrow> Db \<Rightarrow> JsError + ProofRow option \<times> Db" where
  "consumeUnboundProof now a userId maxAgeSeconds d =
     (case sort_key (\<lambda>x. - pf_verified_at x) (filter (fresh_unbound now a maxAgeSeconds) (db_proofs d)) of
        [] \<Rightarrow> Inr (None, d)
      | x # _ \<Rightarrow>
          let x' = x\<lparr>pf_consumed_at := Some now, pf_user_id := Some (uuid_cast userId)\<rparr> in
          if conflicts proof_bound_key (db_proofs d) x'
          then Inl (unique_violation ''lower(address), user_id'')
          else Inr (Some x', d\<lparr>db_proofs := map (\<lambda>y. if pf_id y = pf_id x then x' else y) (db_proofs d)\<rparr>))"

section \<open>Enrollments\<close>

definition enrollment_wallet_key :: "EnrollmentRow \<Rightarrow> (int \<times> string) option" where
  "enrollment_wallet_key e = Some (en_campaign e, toLowerCase (en_address e))"

definition enrollment_code_key :: "EnrollmentRow \<Rightarrow> (int \<times> string) option" where
  "enrollment_code_key e = Some (en_campaign e, en_referral_code e)"

definition enrollment_id_key :: "EnrollmentRow \<Rightarrow> string option" where
  "enrollment_id_key e = Some (en_id e)"

definition findEnrollment :: "int \<Rightarrow> address \<Rightarrow> Db \<Rightarrow> EnrollmentRow option" where
  "findEnrollment campaign a d =
     List.find (\<lambda>e. en_campaign e = campaign \<and> lower_eq (en_address e) a) (db_enrollments d)"

definition findEnrollmentByCode :: "int \<Rightarrow> string \<Rightarrow> Db \<Rightarrow> EnrollmentRow option" where
  "findEnrollmentByCode campaign code d =
     List.find (\<lambda>e. en_campaign e = campaign \<and> en_referral_code e = code) (db_enrollments d)"

record NewEnrollment =
  ne_id :: string
  ne_now :: ms
  ne_campaign :: int
  ne_address :: address
  ne_userId :: string
  ne_referralCode :: string
  ne_referredByCode :: "string option"

definition enrollment_of :: "NewEnrollment \<Rightarrow> EnrollmentRow" where
  "enrollment_of p =
     \<lparr>en_id = ne_id p, en_campaign = ne_campaign p, en_address = ne_address p,
      en_user_id = uuid_cast (ne_userId p), en_referral_code = ne_referralCode p,
      en_referred_by_code = ne_referredByCode p, en_enrolled_at = ne_now p\<rparr>"

definition insertEnrollment :: "NewEnrollment \<Rightarrow> Db \<Rightarrow> JsError + EnrollmentRow \<times> Db" where
  "insertEnrollment p d =
     (let r = enrollment_of p in
      if \<not> STELLAR_PUBKEY_RE (ne_address p) then Inl check_violation
      else if conflicts enrollment_id_key (db_enrollments d) r then Inl (unique_violation ''id'')
      else if conflicts enrollment_wallet_key (db_enrollments d) r then Inl (unique_violation ENROLLMENT_WALLET_KEY)
      else if conflicts enrollment_code_key (db_enrollments d) r then Inl (unique_violation ENROLLMENT_CODE_KEY)
      else Inr (r, d\<lparr>db_enrollments := db_enrollments d @ [r]\<rparr>))"

text \<open>The loop over \<open>attempt = 0, 1\<close>; the n-th attempt draws the n-th id and code. A failed
  statement is undone by the savepoint, which the statement's \<open>Inl\<close> already is.\<close>

fun enrollment_attempts ::
    "nat \<Rightarrow> nat \<Rightarrow> (nat \<Rightarrow> NewEnrollment) \<Rightarrow> Db \<Rightarrow> JsError + EnrollmentRow \<times> Db" where
  "enrollment_attempts 0 attempt nextRow d =
     Inl \<lparr>e_meta_code = None, e_message = Some ''unreachable'', e_meta_message = None\<rparr>"
| "enrollment_attempts (Suc n) attempt nextRow d =
     (case insertEnrollment (nextRow attempt) d of
        Inr r \<Rightarrow> Inr r
      | Inl err \<Rightarrow>
          let collision = isUniqueViolation err \<and> violatedUniqueKey err = Some ENROLLMENT_CODE_KEY in
          if \<not> collision \<or> attempt = 1 then Inl err
          else enrollment_attempts n (attempt + 1) nextRow d)"

definition insertEnrollmentWithCodeRetry ::
    "NewEnrollment \<Rightarrow> (nat \<Rightarrow> string) \<Rightarrow> (nat \<Rightarrow> string) \<Rightarrow> Db \<Rightarrow> JsError + EnrollmentRow \<times> Db" where
  "insertEnrollmentWithCodeRetry p newId nextCode d =
     enrollment_attempts 2 0 (\<lambda>n. p\<lparr>ne_id := newId n, ne_referralCode := nextCode n\<rparr>) d"

section \<open>Referral links\<close>

definition referral_key :: "ReferralRow \<Rightarrow> (int \<times> address) option" where
  "referral_key r = Some (rf_campaign r, rf_referee_address r)"

record NewReferral =
  nr_now :: ms
  nr_campaign :: int
  nr_referee :: address
  nr_referrer :: address
  nr_code :: string

definition referral_of :: "NewReferral \<Rightarrow> ReferralRow" where
  "referral_of p =
     \<lparr>rf_campaign = nr_campaign p, rf_referee_address = nr_referee p, rf_referrer_address = nr_referrer p,
      rf_code = nr_code p, rf_linked_at = nr_now p, rf_credited_at = None, rf_credited_tx_hash = None\<rparr>"

definition insertReferral :: "NewReferral \<Rightarrow> Db \<Rightarrow> JsError + Db" where
  "insertReferral p d =
     (let r = referral_of p in
      if \<not> STELLAR_PUBKEY_RE (nr_referee p) \<or> \<not> STELLAR_PUBKEY_RE (nr_referrer p) \<or> nr_referee p = nr_referrer p
      then Inl check_violation
      else if conflicts referral_key (db_referrals d) r then Inl (unique_violation ''campaign, referee_address'')
      else Inr (d\<lparr>db_referrals := db_referrals d @ [r]\<rparr>))"

definition referredByCode :: "int \<Rightarrow> address \<Rightarrow> Db \<Rightarrow> string option" where
  "referredByCode campaign a d =
     map_option rf_code
       (List.find (\<lambda>r. rf_campaign r = campaign \<and> rf_referee_address r = a) (db_referrals d))"

section \<open>The inserts honour their unique indexes\<close>

interpretation challenges: unique_index db_challenges challenge_key "\<lambda>p d. challenge_of p" createChallenge
  by unfold_locales (auto simp: createChallenge_def split: if_splits)

interpretation proof_ids: unique_index db_proofs proof_id_key "\<lambda>p d. proof_of p" "\<lambda>p d. drop_result (insert_proof p d)"
  by unfold_locales (auto simp: insert_proof_def Let_def split: if_splits)

interpretation proof_nonces: unique_index db_proofs proof_nonce_key "\<lambda>p d. proof_of p" "\<lambda>p d. drop_result (insert_proof p d)"
  by unfold_locales (auto simp: insert_proof_def Let_def split: if_splits)

interpretation bound_proofs: unique_index db_proofs proof_bound_key "\<lambda>p d. proof_of p" "\<lambda>p d. drop_result (insert_proof p d)"
  by unfold_locales (auto simp: insert_proof_def Let_def split: if_splits)

interpretation enrolled_ids: unique_index db_enrollments enrollment_id_key "\<lambda>p d. enrollment_of p"
    "\<lambda>p d. drop_result (insertEnrollment p d)"
  by unfold_locales (auto simp: insertEnrollment_def Let_def split: if_splits)

interpretation enrolled_wallets: unique_index db_enrollments enrollment_wallet_key "\<lambda>p d. enrollment_of p"
    "\<lambda>p d. drop_result (insertEnrollment p d)"
  by unfold_locales (auto simp: insertEnrollment_def Let_def split: if_splits)

interpretation enrolled_codes: unique_index db_enrollments enrollment_code_key "\<lambda>p d. enrollment_of p"
    "\<lambda>p d. drop_result (insertEnrollment p d)"
  by unfold_locales (auto simp: insertEnrollment_def Let_def split: if_splits)

interpretation referral_links: unique_index db_referrals referral_key "\<lambda>p d. referral_of p" insertReferral
  by unfold_locales (auto simp: insertReferral_def Let_def split: if_splits)

end
