(* ===== verification/Campaign_Ledger.thy ===== *)
theory Campaign_Ledger
  imports Campaign_Db
begin

text \<open>
  The append-only points ledger of \<open>stellar_v6_campaign.sql\<close> with its CHECK constraints, foreign
  keys and four partial unique indexes, and the statements of \<open>campaign.repository.ts\<close> and
  \<open>social-claims.queries.ts\<close> that write it for a request: check-ins, social claims and their soft
  delete. The aggregate reads and the award job's statements are in Campaign_Aggregates.
\<close>

section \<open>The ledger's constraints\<close>

definition witness_key :: "LedgerRow \<Rightarrow> (int \<times> string \<times> tx_hash) option" where
  "witness_key r = map_option (\<lambda>h. (lr_campaign r, lr_reason r, h)) (lr_witness_tx_hash r)"

definition social_claim_key :: "LedgerRow \<Rightarrow> (int \<times> string \<times> string) option" where
  "social_claim_key r = map_option (\<lambda>c. (lr_campaign r, lr_reason r, c)) (lr_social_claim_id r)"

definition checkin_key :: "LedgerRow \<Rightarrow> (int \<times> string \<times> string \<times> string) option" where
  "checkin_key r =
     map_option (\<lambda>day. (lr_campaign r, lr_reason r, toLowerCase (lr_address r), day)) (lr_checkin_day r)"

definition referee_key :: "LedgerRow \<Rightarrow> (int \<times> string \<times> address) option" where
  "referee_key r = map_option (\<lambda>a. (lr_campaign r, lr_reason r, a)) (lr_referral_referee r)"

text \<open>\<open>like 'p%'\<close>\<close>

abbreviation reason_like :: "string \<Rightarrow> LedgerRow \<Rightarrow> bool" where
  "reason_like p r \<equiv> starts_with p (lr_reason r)"

definition num_nonnulls :: "bool list \<Rightarrow> nat" where
  "num_nonnulls bs = length (filter id bs)"

definition reference_check :: "LedgerRow \<Rightarrow> bool" where
  "reference_check r =
     (let w = lr_witness_tx_hash r \<noteq> None; s = lr_social_claim_id r \<noteq> None; c = lr_checkin_day r \<noteq> None;
          f = lr_referral_referee r \<noteq> None; a = lr_adjusts_id r \<noteq> None in
      if reason_like ''action:'' r then w \<and> num_nonnulls [s, c, f, a] = 0
      else if lr_reason r = ''streak:daily'' then c \<and> num_nonnulls [w, s, f, a] = 0
      else if reason_like ''social:'' r then s \<and> num_nonnulls [w, c, f, a] = 0
      else if reason_like ''referral:'' r then f \<and> num_nonnulls [w, s, c, a] = 0
      else if reason_like ''adjust:'' r then num_nonnulls [w, s, c, f] = 0
      else False)"

definition ledger_checks :: "LedgerRow \<Rightarrow> bool" where
  "ledger_checks r \<longleftrightarrow>
     STELLAR_PUBKEY_RE (lr_address r) \<and> ledger_reason_ok (lr_reason r)
     \<and> 0 \<le> lr_base_points r \<and> 100 \<le> lr_multiplier r \<and> lr_multiplier r \<le> 200
     \<and> (0 \<le> lr_points r \<or> reason_like ''adjust:'' r)
     \<and> (case lr_referral_referee r of None \<Rightarrow> True | Some a \<Rightarrow> STELLAR_PUBKEY_RE a)
     \<and> reference_check r"

definition ledger_references :: "LedgerRow \<Rightarrow> Db \<Rightarrow> bool" where
  "ledger_references r d \<longleftrightarrow>
     (case lr_witness_tx_hash r of None \<Rightarrow> True | Some h \<Rightarrow> list_ex (\<lambda>w. wt_tx_hash w = h) (db_witnesses d))
     \<and> (case lr_social_claim_id r of None \<Rightarrow> True | Some c \<Rightarrow> list_ex (\<lambda>x. cl_id x = c) (db_claims d))
     \<and> (case lr_adjusts_id r of None \<Rightarrow> True | Some i \<Rightarrow> list_ex (\<lambda>x. lr_id x = i) (db_ledger d))"

text \<open>The first unique index an insert would violate, by its columns.\<close>

definition ledger_conflict :: "LedgerRow \<Rightarrow> Db \<Rightarrow> string option" where
  "ledger_conflict r d =
     (if conflicts witness_key (db_ledger d) r then Some ''campaign, reason, witness_tx_hash''
      else if conflicts social_claim_key (db_ledger d) r then Some ''campaign, reason, social_claim_id''
      else if conflicts checkin_key (db_ledger d) r then Some ''campaign, reason, lower(address), checkin_day''
      else if conflicts referee_key (db_ledger d) r then Some ''campaign, reason, referral_referee''
      else None)"

text \<open>The identity column: the inserted row gets the next number of the sequence.\<close>

definition ledger_row :: "LedgerRow \<Rightarrow> Db \<Rightarrow> LedgerRow" where
  "ledger_row r d = r\<lparr>lr_id := db_ledger_seq d + 1\<rparr>"

definition append_ledger :: "LedgerRow \<Rightarrow> Db \<Rightarrow> Db" where
  "append_ledger r d =
     d\<lparr>db_ledger := db_ledger d @ [ledger_row r d], db_ledger_seq := db_ledger_seq d + 1\<rparr>"

definition insert_ledger :: "LedgerRow \<Rightarrow> Db \<Rightarrow> JsError + int \<times> Db" where
  "insert_ledger r d =
     (if \<not> ledger_checks r then Inl check_violation
      else case ledger_conflict r d of
        Some cols \<Rightarrow> Inl (unique_violation cols)
      | None \<Rightarrow>
          if \<not> ledger_references r d then Inl foreign_key_violation
          else Inr (db_ledger_seq d + 1, append_ledger r d))"

text \<open>\<open>on conflict do nothing\<close>: a unique conflict is zero affected rows.\<close>

definition insert_ledger_or_nothing :: "LedgerRow \<Rightarrow> Db \<Rightarrow> JsError + int \<times> Db" where
  "insert_ledger_or_nothing r d =
     (if \<not> ledger_checks r then Inl check_violation
      else if ledger_conflict r d \<noteq> None then Inr (0, d)
      else if \<not> ledger_references r d then Inl foreign_key_violation
      else Inr (1, append_ledger r d))"

definition blank_ledger_row :: LedgerRow where
  "blank_ledger_row =
     \<lparr>lr_id = 0, lr_campaign = 0, lr_address = [], lr_user_id = None, lr_reason = [], lr_base_points = 0,
      lr_multiplier = 100, lr_points = 0, lr_witness_tx_hash = None, lr_social_claim_id = None,
      lr_checkin_day = None, lr_referral_referee = None, lr_adjusts_id = None, lr_counted_day = None,
      lr_created_at = 0\<rparr>"

section \<open>Daily check-in\<close>

definition checkin_row_key :: "CheckinRow \<Rightarrow> (int \<times> address \<times> string) option" where
  "checkin_row_key c = Some (ci_campaign c, ci_address c, ci_day c)"

datatype CheckinRefusal = CheckinNotEnrolled | CheckinAlreadyDone

record CheckinDone =
  cd_day :: string
  cd_points :: int
  cd_ledgerId :: int

definition streak_row :: "ms \<Rightarrow> int \<Rightarrow> EnrollmentRow \<Rightarrow> string \<Rightarrow> LedgerRow" where
  "streak_row now campaign e day =
     blank_ledger_row\<lparr>lr_campaign := campaign, lr_address := en_address e, lr_user_id := Some (en_user_id e),
       lr_reason := ''streak:daily'', lr_base_points := STREAK_DAILY_POINTS, lr_points := STREAK_DAILY_POINTS,
       lr_checkin_day := Some day, lr_counted_day := Some day, lr_created_at := now\<rparr>"

definition insert_checkin :: "CheckinRow \<Rightarrow> Db \<Rightarrow> JsError + Db" where
  "insert_checkin r d =
     (if \<not> STELLAR_PUBKEY_RE (ci_address r) then Inl check_violation
      else if conflicts checkin_row_key (db_checkins d) r then Inl (unique_violation ''campaign, address, day'')
      else Inr (d\<lparr>db_checkins := db_checkins d @ [r]\<rparr>))"

text \<open>One transaction: lock the enrollment row, count today's check-ins, insert the check-in and
  its ledger row.\<close>

definition checkinToday :: "ms \<Rightarrow> int \<Rightarrow> address \<Rightarrow> Db \<Rightarrow> JsError + (CheckinRefusal + CheckinDone) \<times> Db" where
  "checkinToday now campaign a d =
     (case findEnrollment campaign a d of
        None \<Rightarrow> Inr (Inl CheckinNotEnrolled, d)
      | Some e \<Rightarrow>
          let day = utcDay now;
              row = \<lparr>ci_campaign = campaign, ci_address = en_address e, ci_day = day, ci_created_at = now\<rparr>;
              existing = length (filter (\<lambda>c. checkin_row_key c = checkin_row_key row) (db_checkins d)) in
          if 0 < existing then Inr (Inl CheckinAlreadyDone, d)
          else case insert_checkin row d of
            Inl err \<Rightarrow> Inl err
          | Inr d1 \<Rightarrow>
              (case insert_ledger (streak_row now campaign e day) d1 of
                 Inl err \<Rightarrow> Inl err
               | Inr (ledgerId, d2) \<Rightarrow>
                   Inr (Inr \<lparr>cd_day = day, cd_points = STREAK_DAILY_POINTS, cd_ledgerId = ledgerId\<rparr>, d2)))"

definition checkinDays :: "int \<Rightarrow> address \<Rightarrow> Db \<Rightarrow> string list" where
  "checkinDays campaign a d =
     rev (sort (map ci_day (filter (\<lambda>c. ci_campaign c = campaign \<and> ci_address c = a) (db_checkins d))))"

definition todayUtc :: "ms \<Rightarrow> string" where
  "todayUtc now = utcDay now"

section \<open>Social claims (social-claims.queries.ts)\<close>

definition claim_task_key :: "ClaimRow \<Rightarrow> (int \<times> string \<times> string) option" where
  "claim_task_key c =
     (if cl_deleted_at c = None then Some (cl_campaign c, toLowerCase (cl_address c), cl_task_key c) else None)"

definition claim_handle_key :: "ClaimRow \<Rightarrow> (int \<times> string \<times> string) option" where
  "claim_handle_key c =
     (if cl_deleted_at c = None then Some (cl_campaign c, cl_task_key c, cl_handle_normalized c) else None)"

definition claim_id_key :: "ClaimRow \<Rightarrow> string option" where
  "claim_id_key c = Some (cl_id c)"

definition lockEnrollment :: "int \<Rightarrow> address \<Rightarrow> Db \<Rightarrow> EnrollmentRow option" where
  "lockEnrollment campaign a d = findEnrollment campaign a d"

definition active_claim_of :: "int \<Rightarrow> address \<Rightarrow> ClaimRow \<Rightarrow> bool" where
  "active_claim_of campaign a c \<longleftrightarrow>
     cl_campaign c = campaign \<and> lower_eq (cl_address c) a \<and> cl_deleted_at c = None"

definition listSocialClaims :: "int \<Rightarrow> address \<Rightarrow> Db \<Rightarrow> ClaimRow list" where
  "listSocialClaims campaign a d = sort_key cl_claimed_at (filter (active_claim_of campaign a) (db_claims d))"

definition socialClaimHandles :: "int \<Rightarrow> address \<Rightarrow> Db \<Rightarrow> (string \<times> string) list" where
  "socialClaimHandles campaign a d =
     map (\<lambda>c. (cl_task_key c, cl_handle_normalized c)) (filter (active_claim_of campaign a) (db_claims d))"

definition handleUsedByOtherWallet :: "int \<Rightarrow> string \<Rightarrow> address \<Rightarrow> Db \<Rightarrow> bool" where
  "handleUsedByOtherWallet campaign handle a d \<longleftrightarrow>
     list_ex (\<lambda>c. cl_campaign c = campaign \<and> cl_handle_normalized c = handle \<and> \<not> lower_eq (cl_address c) a
                  \<and> cl_deleted_at c = None) (db_claims d)"

definition points_where :: "(LedgerRow \<Rightarrow> bool) \<Rightarrow> Db \<Rightarrow> int" where
  "points_where P d = sum_list (map lr_points (filter P (db_ledger d)))"

definition socialPointsAwardedOn :: "int \<Rightarrow> address \<Rightarrow> string \<Rightarrow> Db \<Rightarrow> int" where
  "socialPointsAwardedOn campaign a day d =
     points_where (\<lambda>r. lr_campaign r = campaign \<and> lower_eq (lr_address r) a \<and> reason_like ''social:'' r
                       \<and> lr_counted_day r = Some day) d"

definition insertSocialClaim :: "ClaimRow \<Rightarrow> Db \<Rightarrow> JsError + Db" where
  "insertSocialClaim c d =
     (if \<not> STELLAR_PUBKEY_RE (cl_address c) \<or> social_task_of (cl_task_key c) = None then Inl check_violation
      else if conflicts claim_id_key (db_claims d) c then Inl (unique_violation ''id'')
      else if conflicts claim_task_key (db_claims d) c then Inl (unique_violation SOCIAL_CLAIM_TASK_KEY)
      else if conflicts claim_handle_key (db_claims d) c then Inl (unique_violation SOCIAL_CLAIM_HANDLE_KEY)
      else Inr (d\<lparr>db_claims := db_claims d @ [c]\<rparr>))"

definition social_row ::
    "ms \<Rightarrow> int \<Rightarrow> address \<Rightarrow> user_id option \<Rightarrow> SocialAwardDetail \<Rightarrow> string \<Rightarrow> string \<Rightarrow> LedgerRow" where
  "social_row now campaign a userId award claimId day =
     blank_ledger_row\<lparr>lr_campaign := campaign, lr_address := a, lr_user_id := userId, lr_reason := sa_reason award,
       lr_base_points := sa_basePoints award, lr_points := sa_points award, lr_social_claim_id := Some claimId,
       lr_counted_day := Some day, lr_created_at := now\<rparr>"

definition insertSocialAward ::
    "ms \<Rightarrow> int \<Rightarrow> address \<Rightarrow> user_id option \<Rightarrow> SocialAwardDetail \<Rightarrow> string \<Rightarrow> string \<Rightarrow> Db \<Rightarrow> JsError + int \<times> Db" where
  "insertSocialAward now campaign a userId award claimId day d =
     insert_ledger (social_row now campaign a userId award claimId day) d"

definition findOwnedSocialClaim :: "int \<Rightarrow> string \<Rightarrow> address \<Rightarrow> Db \<Rightarrow> ClaimRow option" where
  "findOwnedSocialClaim campaign claimId a d =
     List.find (\<lambda>c. active_claim_of campaign a c \<and> cl_id c = uuid_cast claimId) (db_claims d)"

definition findSocialLedgerRow :: "int \<Rightarrow> string \<Rightarrow> Db \<Rightarrow> LedgerRow option" where
  "findSocialLedgerRow campaign claimId d =
     List.find (\<lambda>r. lr_campaign r = campaign \<and> lr_social_claim_id r = Some claimId \<and> reason_like ''social:'' r)
       (db_ledger d)"

definition SOCIAL_DELETE_REASON :: string where
  "SOCIAL_DELETE_REASON = ''adjust:social-delete''"

definition DELETED_HANDLE :: string where
  "DELETED_HANDLE = ''deleted''"

definition social_delete_row :: "ms \<Rightarrow> int \<Rightarrow> address \<Rightarrow> user_id option \<Rightarrow> int \<Rightarrow> int \<Rightarrow> LedgerRow" where
  "social_delete_row now campaign a userId adjustsId points =
     blank_ledger_row\<lparr>lr_campaign := campaign, lr_address := a, lr_user_id := userId,
       lr_reason := SOCIAL_DELETE_REASON, lr_base_points := \<bar>points\<bar>, lr_points := - \<bar>points\<bar>,
       lr_adjusts_id := Some adjustsId, lr_created_at := now\<rparr>"

definition insertSocialDeleteAdjust ::
    "ms \<Rightarrow> int \<Rightarrow> address \<Rightarrow> user_id option \<Rightarrow> int \<Rightarrow> int \<Rightarrow> Db \<Rightarrow> JsError + int \<times> Db" where
  "insertSocialDeleteAdjust now campaign a userId adjustsId points d =
     insert_ledger (social_delete_row now campaign a userId adjustsId points) d"

definition softDeleteSocialClaim :: "ms \<Rightarrow> int \<Rightarrow> string \<Rightarrow> Db \<Rightarrow> nat \<times> Db" where
  "softDeleteSocialClaim now campaign claimId d =
     (let hit = (\<lambda>c. cl_campaign c = campaign \<and> cl_id c = claimId \<and> cl_deleted_at c = None) in
      (length (filter hit (db_claims d)),
       d\<lparr>db_claims := map (\<lambda>c. if hit c then c\<lparr>cl_deleted_at := Some now, cl_handle_normalized := DELETED_HANDLE\<rparr>
                             else c) (db_claims d)\<rparr>))"

section \<open>The inserts honour their unique indexes\<close>

interpretation checkin_days: unique_index db_checkins checkin_row_key "\<lambda>r d. r" insert_checkin
  by unfold_locales (auto simp: insert_checkin_def split: if_splits)

interpretation claim_ids: unique_index db_claims claim_id_key "\<lambda>c d. c" insertSocialClaim
  by unfold_locales (auto simp: insertSocialClaim_def split: if_splits)

interpretation claimed_tasks: unique_index db_claims claim_task_key "\<lambda>c d. c" insertSocialClaim
  by unfold_locales (auto simp: insertSocialClaim_def split: if_splits)

interpretation claimed_handles: unique_index db_claims claim_handle_key "\<lambda>c d. c" insertSocialClaim
  by unfold_locales (auto simp: insertSocialClaim_def split: if_splits)

lemma ledger_row_keys [simp]:
  "witness_key (ledger_row r d) = witness_key r" "social_claim_key (ledger_row r d) = social_claim_key r"
  "checkin_key (ledger_row r d) = checkin_key r" "referee_key (ledger_row r d) = referee_key r"
  by (simp_all add: witness_key_def social_claim_key_def checkin_key_def referee_key_def ledger_row_def)

lemma insert_ledger_Inr:
  "insert_ledger r d = Inr (n, d') \<longleftrightarrow>
     ledger_checks r \<and> ledger_conflict r d = None \<and> ledger_references r d
     \<and> n = db_ledger_seq d + 1 \<and> d' = append_ledger r d"
  by (auto simp: insert_ledger_def split: option.splits if_splits)

lemma insert_ledger_or_nothing_Inr:
  "insert_ledger_or_nothing r d = Inr (n, d') \<longleftrightarrow>
     (n = 0 \<and> d' = d \<and> ledger_checks r \<and> ledger_conflict r d \<noteq> None)
     \<or> (n = 1 \<and> insert_ledger r d = Inr (db_ledger_seq d + 1, d'))"
  by (auto simp: insert_ledger_or_nothing_def insert_ledger_Inr split: if_splits)

lemma ledger_conflict_None:
  "ledger_conflict r d = None \<longleftrightarrow>
     \<not> conflicts witness_key (db_ledger d) r \<and> \<not> conflicts social_claim_key (db_ledger d) r
     \<and> \<not> conflicts checkin_key (db_ledger d) r \<and> \<not> conflicts referee_key (db_ledger d) r"
  by (simp add: ledger_conflict_def)

lemma conflicts_ledger_row [simp]:
  "conflicts witness_key t (ledger_row r d) = conflicts witness_key t r"
  "conflicts social_claim_key t (ledger_row r d) = conflicts social_claim_key t r"
  "conflicts checkin_key t (ledger_row r d) = conflicts checkin_key t r"
  "conflicts referee_key t (ledger_row r d) = conflicts referee_key t r"
  by (simp_all add: conflicts_def)

interpretation awarded_witnesses: unique_index db_ledger witness_key ledger_row "\<lambda>r d. drop_result (insert_ledger r d)"
  by unfold_locales (auto simp: insert_ledger_Inr ledger_conflict_None append_ledger_def)

interpretation awarded_claims: unique_index db_ledger social_claim_key ledger_row "\<lambda>r d. drop_result (insert_ledger r d)"
  by unfold_locales (auto simp: insert_ledger_Inr ledger_conflict_None append_ledger_def)

interpretation awarded_checkins: unique_index db_ledger checkin_key ledger_row "\<lambda>r d. drop_result (insert_ledger r d)"
  by unfold_locales (auto simp: insert_ledger_Inr ledger_conflict_None append_ledger_def)

interpretation awarded_referees: unique_index db_ledger referee_key ledger_row "\<lambda>r d. drop_result (insert_ledger r d)"
  by unfold_locales (auto simp: insert_ledger_Inr ledger_conflict_None append_ledger_def)

end
