(* ===== verification/Campaign_Aggregates.thy ===== *)
theory Campaign_Aggregates
  imports Campaign_Ledger
begin

text \<open>
  The aggregate reads of \<open>campaign.repository.ts\<close> (balance, leaderboard, rank, pending
  verification, day counts, activity, metrics) and the statements only the award job runs
  (candidates, counts, referral credit, perks). Everything is derived from the ledger; no
  balance is stored.
\<close>

section \<open>Balance and leaderboard\<close>

definition wallet_row :: "int \<Rightarrow> address \<Rightarrow> LedgerRow \<Rightarrow> bool" where
  "wallet_row campaign a r \<longleftrightarrow> lr_campaign r = campaign \<and> lower_eq (lr_address r) a"

definition balance :: "int \<Rightarrow> address \<Rightarrow> Db \<Rightarrow> int" where
  "balance campaign a d = points_where (wallet_row campaign a) d"

record LeaderboardRow =
  lb_address :: address
  lb_points :: int

text \<open>\<open>group by address having sum(points) > 0 order by sum(points) desc, address asc\<close>\<close>

definition ranked_wallets :: "int \<Rightarrow> Db \<Rightarrow> LeaderboardRow list" where
  "ranked_wallets campaign d =
     (let rows = filter (\<lambda>r. lr_campaign r = campaign) (db_ledger d);
          total = (\<lambda>a. sum_list (map lr_points (filter (\<lambda>r. lr_address r = a) rows)));
          groups = map (\<lambda>a. \<lparr>lb_address = a, lb_points = total a\<rparr>) (remdups (map lr_address rows)) in
      sort_key (\<lambda>g. (- lb_points g, lb_address g)) (filter (\<lambda>g. 0 < lb_points g) groups))"

definition leaderboard :: "int \<Rightarrow> nat \<Rightarrow> Db \<Rightarrow> LeaderboardRow list" where
  "leaderboard campaign limit d = take limit (ranked_wallets campaign d)"

text \<open>\<open>rank() over (order by ...)\<close>: one more than the number of groups ordered strictly before.\<close>

definition rank_in :: "LeaderboardRow list \<Rightarrow> LeaderboardRow \<Rightarrow> nat" where
  "rank_in gs g =
     1 + length (filter (\<lambda>h. (- lb_points h, lb_address h) < (- lb_points g, lb_address g)) gs)"

definition rankOf :: "int \<Rightarrow> address \<Rightarrow> Db \<Rightarrow> (nat \<times> int) option" where
  "rankOf campaign a d =
     (let gs = ranked_wallets campaign d in
      map_option (\<lambda>g. (rank_in gs g, lb_points g)) (List.find (\<lambda>g. lower_eq (lb_address g) a) gs))"

section \<open>Witnesses and day counts\<close>

definition AWARDABLE_KINDS :: "ActionKind list" where
  "AWARDABLE_KINDS = [SdexSwap, BlendDeposit]"

definition awardable :: "WitnessRow \<Rightarrow> bool" where
  "awardable w \<longleftrightarrow> wt_kind w \<in> set (map action_key AWARDABLE_KINDS)"

definition in_sql_window :: "ms \<Rightarrow> ms option \<Rightarrow> ms \<Rightarrow> bool" where
  "in_sql_window startsAt endsAt t \<longleftrightarrow>
     startsAt \<le> t \<and> (case endsAt of None \<Rightarrow> True | Some e \<Rightarrow> t < e)"

record PendingByKind =
  pb_swap :: int
  pb_deposit :: int

text \<open>A \<open>Record\<close> with a zero for each awardable kind, filled from the grouped counts.\<close>

definition count_by_kind :: "(ActionKind \<Rightarrow> int) \<Rightarrow> PendingByKind" where
  "count_by_kind n = \<lparr>pb_swap = n SdexSwap, pb_deposit = n BlendDeposit\<rparr>"

definition pendingVerificationByKind ::
    "int \<Rightarrow> address \<Rightarrow> ms option \<Rightarrow> ms option \<Rightarrow> Db \<Rightarrow> PendingByKind" where
  "pendingVerificationByKind campaign a startsAt endsAt d =
     (case startsAt of
        None \<Rightarrow> count_by_kind (\<lambda>_. 0)
      | Some s \<Rightarrow>
          count_by_kind (\<lambda>k. int (length (filter
            (\<lambda>w. lower_eq (wt_wallet_address w) a \<and> wt_kind w = action_key k \<and> wt_meets_min_notional w
                 \<and> in_sql_window s endsAt (wt_ledger_closed_at w)
                 \<and> \<not> list_ex (\<lambda>l. lr_campaign l = campaign \<and> lr_witness_tx_hash l = Some (wt_tx_hash w))
                      (db_ledger d))
            (db_witnesses d)))))"

definition pendingVerificationCount :: "int \<Rightarrow> address \<Rightarrow> ms option \<Rightarrow> ms option \<Rightarrow> Db \<Rightarrow> int" where
  "pendingVerificationCount campaign a startsAt endsAt d =
     (let p = pendingVerificationByKind campaign a startsAt endsAt d in pb_swap p + pb_deposit p)"

definition pointsOn :: "int \<Rightarrow> address \<Rightarrow> string \<Rightarrow> Db \<Rightarrow> int" where
  "pointsOn campaign a day d =
     points_where (\<lambda>r. wallet_row campaign a r \<and> lr_counted_day r = Some day) d"

definition actionsCountedOn :: "int \<Rightarrow> address \<Rightarrow> string \<Rightarrow> Db \<Rightarrow> PendingByKind" where
  "actionsCountedOn campaign a day d =
     count_by_kind (\<lambda>k. int (length (filter
       (\<lambda>r. wallet_row campaign a r \<and> lr_reason r = action_reason k \<and> lr_counted_day r = Some day)
       (db_ledger d))))"

record LedgerActivityRow =
  la_reason :: string
  la_points :: int
  la_multiplier :: int
  la_counted_day :: "string option"
  la_created_at :: ms
  la_tx_hash_short :: "string option"

definition recentLedger :: "int \<Rightarrow> address \<Rightarrow> nat \<Rightarrow> Db \<Rightarrow> LedgerActivityRow list" where
  "recentLedger campaign a limit d =
     map (\<lambda>r. \<lparr>la_reason = lr_reason r, la_points = lr_points r, la_multiplier = lr_multiplier r,
               la_counted_day = lr_counted_day r, la_created_at = lr_created_at r,
               la_tx_hash_short =
                 (if reason_like ''action:'' r then map_option (take 8) (lr_witness_tx_hash r) else None)\<rparr>)
       (take limit (sort_key (\<lambda>r. (- lr_created_at r, - lr_id r)) (filter (wallet_row campaign a) (db_ledger d))))"

section \<open>Statements of the award job\<close>

text \<open>The witness and the enrollment it joins. The same enrollment can only join once, because
  \<open>(campaign, lower(address))\<close> is unique.\<close>

definition findActionCandidates ::
    "int \<Rightarrow> ms \<Rightarrow> ms option \<Rightarrow> Db \<Rightarrow> (WitnessRow \<times> EnrollmentRow) list" where
  "findActionCandidates campaign startsAt endsAt d =
     sort_key (\<lambda>(w, e). (wt_ledger_closed_at w, wt_tx_hash w))
       (filter (\<lambda>(w, e).
            en_campaign e = campaign \<and> lower_eq (en_address e) (wt_wallet_address w)
            \<and> awardable w \<and> in_sql_window startsAt endsAt (wt_ledger_closed_at w)
            \<and> \<not> list_ex (\<lambda>l. lr_campaign l = campaign \<and> lr_reason l = ''action:'' @ wt_kind w
                             \<and> lr_witness_tx_hash l = Some (wt_tx_hash w)) (db_ledger d))
          (List.product (db_witnesses d) (db_enrollments d)))"

record CountedRow =
  co_address :: address
  co_reason :: string
  co_day :: string
  co_n :: int

definition countedActionsByDay :: "int \<Rightarrow> Db \<Rightarrow> CountedRow list" where
  "countedActionsByDay campaign d =
     (let rows = filter (\<lambda>r. lr_campaign r = campaign \<and> reason_like ''action:'' r \<and> lr_counted_day r \<noteq> None)
                   (db_ledger d);
          group = (\<lambda>r. (lr_address r, lr_reason r, or_empty (lr_counted_day r))) in
      map (\<lambda>g. \<lparr>co_address = fst g, co_reason = fst (snd g), co_day = snd (snd g),
                co_n = int (length (filter (\<lambda>r. group r = g) rows))\<rparr>)
        (remdups (map group rows)))"

definition checkinDaysByWallet :: "int \<Rightarrow> Db \<Rightarrow> (address \<times> string) list" where
  "checkinDaysByWallet campaign d =
     map (\<lambda>c. (ci_address c, ci_day c)) (filter (\<lambda>c. ci_campaign c = campaign) (db_checkins d))"

text \<open>The parameter \<open>multiplier\<close> as \<open>numeric(4,2)\<close> and \<open>points\<close> as \<open>int\<close>: rounding to two
  decimals, and failing on a value that does not fit the column.\<close>

definition numeric_4_2 :: "jsnum \<Rightarrow> int option" where
  "numeric_4_2 x =
     (case x of
        Num q \<Rightarrow> (let h = \<lfloor>q * 100 + 1/2\<rfloor> in if \<bar>h\<bar> < 10000 then Some h else None)
      | _ \<Rightarrow> None)"

definition pg_int4 :: "jsnum \<Rightarrow> int option" where
  "pg_int4 x =
     (case x of
        Num q \<Rightarrow> (if of_int \<lfloor>q\<rfloor> = q \<and> - (2 ^ 31) \<le> \<lfloor>q\<rfloor> \<and> \<lfloor>q\<rfloor> < 2 ^ 31 then Some \<lfloor>q\<rfloor> else None)
      | _ \<Rightarrow> None)"

record PlannedAward =
  pa_txHash :: tx_hash
  pa_address :: address
  pa_userId :: "user_id option"
  pa_reason :: string
  pa_basePoints :: int
  pa_multiplier :: jsnum
  pa_points :: jsnum
  pa_countedDay :: string

definition numeric_out_of_range :: JsError where
  "numeric_out_of_range =
     \<lparr>e_meta_code = Some ''22003'', e_message = Some ''Raw query failed'',
      e_meta_message = Some ''numeric value out of range''\<rparr>"

definition action_row :: "ms \<Rightarrow> int \<Rightarrow> PlannedAward \<Rightarrow> int \<Rightarrow> int \<Rightarrow> LedgerRow" where
  "action_row now campaign p mult points =
     blank_ledger_row\<lparr>lr_campaign := campaign, lr_address := pa_address p, lr_user_id := pa_userId p,
       lr_reason := pa_reason p, lr_base_points := pa_basePoints p, lr_multiplier := mult, lr_points := points,
       lr_witness_tx_hash := Some (pa_txHash p), lr_counted_day := Some (pa_countedDay p), lr_created_at := now\<rparr>"

definition insertActionAward :: "ms \<Rightarrow> int \<Rightarrow> PlannedAward \<Rightarrow> Db \<Rightarrow> JsError + int \<times> Db" where
  "insertActionAward now campaign p d =
     (case (numeric_4_2 (pa_multiplier p), pg_int4 (pa_points p)) of
        (Some mult, Some points) \<Rightarrow> insert_ledger_or_nothing (action_row now campaign p mult points) d
      | _ \<Rightarrow> Inl numeric_out_of_range)"

definition findUncreditedReferrals :: "int \<Rightarrow> Db \<Rightarrow> ReferralRow list" where
  "findUncreditedReferrals campaign d =
     sort_key rf_linked_at
       (filter (\<lambda>r. rf_campaign r = campaign \<and> rf_credited_at r = None) (db_referrals d))"

definition findRefereeFirstQualifyingWitness :: "address \<Rightarrow> ms \<Rightarrow> Db \<Rightarrow> WitnessRow option" where
  "findRefereeFirstQualifyingWitness referee linkedAt d =
     (case sort_key (\<lambda>w. (wt_ledger_closed_at w, wt_tx_hash w))
             (filter (\<lambda>w. lower_eq (wt_wallet_address w) referee \<and> awardable w \<and> wt_meets_min_notional w
                          \<and> linkedAt \<le> wt_ledger_closed_at w) (db_witnesses d)) of
        [] \<Rightarrow> None
      | w # _ \<Rightarrow> Some w)"

record CreditReferral =
  cr_campaign :: int
  cr_refereeAddress :: address
  cr_referrerAddress :: address
  cr_txHash :: tx_hash
  cr_countedDay :: string
  cr_referrerPoints :: int
  cr_refereePoints :: int

definition referral_row ::
    "ms \<Rightarrow> CreditReferral \<Rightarrow> address \<Rightarrow> user_id option \<Rightarrow> string \<Rightarrow> int \<Rightarrow> LedgerRow" where
  "referral_row now p a userId reason points =
     blank_ledger_row\<lparr>lr_campaign := cr_campaign p, lr_address := a, lr_user_id := userId, lr_reason := reason,
       lr_base_points := points, lr_points := points, lr_referral_referee := Some (cr_refereeAddress p),
       lr_counted_day := Some (cr_countedDay p), lr_created_at := now\<rparr>"

text \<open>The \<open>update referrals\<close> of the transaction; \<open>credited_tx_hash\<close> references a witness.\<close>

definition mark_credited :: "ms \<Rightarrow> CreditReferral \<Rightarrow> Db \<Rightarrow> JsError + Db" where
  "mark_credited now p d =
     (let hit = (\<lambda>r. rf_campaign r = cr_campaign p \<and> rf_referee_address r = cr_refereeAddress p
                     \<and> rf_credited_at r = None) in
      if list_ex hit (db_referrals d) \<and> \<not> list_ex (\<lambda>w. wt_tx_hash w = cr_txHash p) (db_witnesses d)
      then Inl foreign_key_violation
      else Inr (d\<lparr>db_referrals := map (\<lambda>r. if hit r
                    then r\<lparr>rf_credited_at := Some now, rf_credited_tx_hash := Some (cr_txHash p)\<rparr> else r)
                  (db_referrals d)\<rparr>))"

definition creditReferral :: "ms \<Rightarrow> CreditReferral \<Rightarrow> Db \<Rightarrow> JsError + Db" where
  "creditReferral now p d =
     (let referee = findEnrollment (cr_campaign p) (cr_refereeAddress p) d;
          referrer = findEnrollment (cr_campaign p) (cr_referrerAddress p) d in
      case insert_ledger_or_nothing
             (referral_row now p (cr_referrerAddress p) (map_option en_user_id referrer) ''referral:referrer''
                (cr_referrerPoints p)) d of
        Inl err \<Rightarrow> Inl err
      | Inr (_, d1) \<Rightarrow>
          (case insert_ledger_or_nothing
                  (referral_row now p (cr_refereeAddress p) (map_option en_user_id referee) ''referral:referee''
                     (cr_refereePoints p)) d1 of
             Inl err \<Rightarrow> Inl err
           | Inr (_, d2) \<Rightarrow> mark_credited now p d2))"

section \<open>Perks\<close>

text \<open>\<open>left join ... group by e.address order by e.address asc\<close>\<close>

definition balancesOfEnrolled :: "int \<Rightarrow> Db \<Rightarrow> (address \<times> int) list" where
  "balancesOfEnrolled campaign d =
     map (\<lambda>a. (a, balance campaign a d))
       (sort (remdups (map en_address (filter (\<lambda>e. en_campaign e = campaign) (db_enrollments d)))))"

definition perk_key :: "PerkRow \<Rightarrow> (int \<times> address \<times> PerkKey) option" where
  "perk_key p = Some (pk_campaign p, pk_address p, pk_perk_key p)"

definition insertPerk :: "PerkRow \<Rightarrow> Db \<Rightarrow> JsError + int \<times> Db" where
  "insertPerk p d =
     (if \<not> STELLAR_PUBKEY_RE (pk_address p) \<or> pk_points_at_grant p < 0 then Inl check_violation
      else if conflicts perk_key (db_perks d) p then Inr (0, d)
      else Inr (1, d\<lparr>db_perks := db_perks d @ [p]\<rparr>))"

fun perk_name :: "PerkKey \<Rightarrow> string" where
  "perk_name EarlyAccess = ''early-access''"
| "perk_name BetaFeatures = ''beta-features''"
| "perk_name PriorityRwa = ''priority-rwa''"

definition listPerks :: "int \<Rightarrow> address \<Rightarrow> Db \<Rightarrow> PerkRow list" where
  "listPerks campaign a d =
     sort_key (\<lambda>p. (pk_granted_at p, perk_name (pk_perk_key p)))
       (filter (\<lambda>p. pk_campaign p = campaign \<and> lower_eq (pk_address p) a) (db_perks d))"

section \<open>Metrics\<close>

record MetricsFacts =
  mf_walletsRegisteredInWindow :: int
  mf_walletsProvenInWindow :: int
  mf_walletsEnrolled :: int
  mf_walletsWithVerifiedActionInWindow :: int
  mf_verifiedActionsByKind :: "ActionKind \<Rightarrow> int"
  mf_referralsCredited :: int
  mf_socialClaimsActive :: int
  mf_pointsIssued :: int
  mf_perksGranted :: "PerkKey \<Rightarrow> int"

definition count :: "('a \<Rightarrow> bool) \<Rightarrow> 'a list \<Rightarrow> int" where
  "count P xs = int (length (filter P xs))"

definition count_distinct :: "('a \<Rightarrow> 'b) \<Rightarrow> ('a \<Rightarrow> bool) \<Rightarrow> 'a list \<Rightarrow> int" where
  "count_distinct f P xs = int (length (remdups (map f (filter P xs))))"

definition metricsFacts :: "int \<Rightarrow> ms \<Rightarrow> ms option \<Rightarrow> Db \<Rightarrow> MetricsFacts" where
  "metricsFacts campaign startsAt endsAt d =
     (let in_w = in_sql_window startsAt endsAt in
      \<lparr>mf_walletsRegisteredInWindow = count in_w (db_wallets_created d),
       mf_walletsProvenInWindow =
         count_distinct (\<lambda>p. toLowerCase (pf_address p)) (\<lambda>p. in_w (pf_verified_at p)) (db_proofs d),
       mf_walletsEnrolled = count (\<lambda>e. en_campaign e = campaign) (db_enrollments d),
       mf_walletsWithVerifiedActionInWindow =
         count_distinct (\<lambda>w. toLowerCase (wt_wallet_address w))
           (\<lambda>w. awardable w \<and> in_w (wt_ledger_closed_at w)) (db_witnesses d),
       mf_verifiedActionsByKind =
         (\<lambda>k. count (\<lambda>w. in_w (wt_ledger_closed_at w) \<and> wt_kind w = action_key k) (db_witnesses d)),
       mf_referralsCredited =
         count (\<lambda>r. rf_campaign r = campaign \<and> rf_credited_at r \<noteq> None) (db_referrals d),
       mf_socialClaimsActive = count (\<lambda>c. cl_campaign c = campaign \<and> cl_deleted_at c = None) (db_claims d),
       mf_pointsIssued = points_where (\<lambda>r. lr_campaign r = campaign \<and> 0 < lr_points r) d,
       mf_perksGranted = (\<lambda>k. count (\<lambda>p. pk_campaign p = campaign \<and> pk_perk_key p = k) (db_perks d))\<rparr>)"

end
