(* ===== verification/Process_Env.thy ===== *)
theory Process_Env
  imports Utc_Day
begin

text \<open>
  What the services take from the runtime: the environment variables, the parsers of dates and
  URLs, and the ISO text of an instant.
\<close>

section \<open>Date.prototype.toISOString\<close>

definition pad3 :: "int \<Rightarrow> string" where
  "pad3 n = [digit_of (n div 100), digit_of (n div 10), digit_of n]"

definition toISOString :: "ms \<Rightarrow> string" where
  "toISOString t =
     (let r = t mod ms_per_day in
      iso_day (t div ms_per_day) @ ''T'' @ pad2 (r div 3600000) @ '':'' @ pad2 (r div 60000 mod 60) @ '':''
      @ pad2 (r div 1000 mod 60) @ ''.'' @ pad3 (r mod 1000) @ ''Z'')"

section \<open>The environment\<close>

text \<open>The process environment, \<open>Date.parse\<close> (implementation-defined outside ISO strings) and the
  URL parser (protocol and serialisation; \<open>None\<close> when it throws).\<close>

record Env =
  env_var :: "string \<Rightarrow> string option"
  env_date :: "string \<Rightarrow> ms option"
  env_url :: "string \<Rightarrow> (string \<times> string) option"

definition env_trimmed :: "Env \<Rightarrow> string \<Rightarrow> string option" where
  "env_trimmed env name =
     (case map_option trim (env_var env name) of
        None \<Rightarrow> None | Some raw \<Rightarrow> if raw = [] then None else Some raw)"

end
