(* ===== verification/Campaign_Challenge.thy ===== *)
theory Campaign_Challenge
  imports Campaign_Aggregates Process_Env "HOL-Library.Word"
begin

text \<open>
  The ownership proof: \<open>challenge-message.ts\<close> (the text a wallet signs),
  \<open>verify-wallet-signature.ts\<close> (the only signature check) and \<open>campaign-config.ts\<close> (the lazily
  read environment). Ed25519, SHA-256 and the StrKey checksum are code of packages that are not
  in the repository: they are fields of the parameter \<open>Crypto\<close>.
\<close>

section \<open>campaign-config.ts\<close>

definition CAMPAIGN_ID :: int where
  "CAMPAIGN_ID = 1"

definition CAMPAIGN_SITE_NAME :: string where
  "CAMPAIGN_SITE_NAME = ''Dig Stellar''"

definition CHALLENGE_TTL_SECONDS :: int where
  "CHALLENGE_TTL_SECONDS = 300"

definition RECOVERY_PROOF_MAX_AGE_SECONDS :: int where
  "RECOVERY_PROOF_MAX_AGE_SECONDS = 600"

definition LEADERBOARD_LIMIT :: nat where
  "LEADERBOARD_LIMIT = 50"

definition LEADERBOARD_CACHE_MS :: int where
  "LEADERBOARD_CACHE_MS = 60000"

definition METRICS_CACHE_MS :: int where
  "METRICS_CACHE_MS = 60000"

definition isCampaignEnabled :: "Env \<Rightarrow> bool" where
  "isCampaignEnabled env \<longleftrightarrow> env_var env ''CAMPAIGN_ENABLED'' = Some ''true''"

definition campaignStartsAt :: "Env \<Rightarrow> ms option" where
  "campaignStartsAt env =
     (case env_trimmed env ''CAMPAIGN_STARTS_AT'' of None \<Rightarrow> None | Some raw \<Rightarrow> env_date env raw)"

definition campaignEndsAt :: "Env \<Rightarrow> ms option" where
  "campaignEndsAt env =
     (case env_trimmed env ''CAMPAIGN_ENDS_AT'' of None \<Rightarrow> None | Some raw \<Rightarrow> env_date env raw)"

definition xRepostUrl :: "Env \<Rightarrow> string option" where
  "xRepostUrl env =
     (case env_trimmed env ''CAMPAIGN_X_REPOST_URL'' of
        None \<Rightarrow> None
      | Some raw \<Rightarrow>
          (case env_url env raw of
             None \<Rightarrow> None
           | Some (protocol, text) \<Rightarrow> if protocol = ''https:'' then Some text else None))"

section \<open>challenge-message.ts\<close>

definition CHALLENGE_SITE_NAME :: string where
  "CHALLENGE_SITE_NAME = ''Dig Stellar''"

definition CHALLENGE_MESSAGE_TEMPLATE :: string where
  "CHALLENGE_MESSAGE_TEMPLATE =
     ''Dig Stellar wants to verify that you own this wallet.'' @ [CHR 0x0A, CHR 0x0A]
     @ ''This is NOT a transaction. Signing moves no funds and costs nothing.'' @ [CHR 0x0A, CHR 0x0A]
     @ ''Wallet: <address>'' @ [CHR 0x0A] @ ''Nonce: <nonce>'' @ [CHR 0x0A] @ ''Issued: <issuedAt>''
     @ [CHR 0x0A] @ ''Site: <site>''"

text \<open>\<open>String.prototype.replace\<close> with a string pattern: the first occurrence. No replacement here
  contains \<open>$\<close>, the only character with a meaning in it.\<close>

fun replace_first :: "string \<Rightarrow> string \<Rightarrow> string \<Rightarrow> string" where
  "replace_first pat rep [] = (if pat = [] then rep else [])"
| "replace_first pat rep (c # cs) =
     (if starts_with pat (c # cs) then rep @ drop (length pat) (c # cs) else c # replace_first pat rep cs)"

definition buildChallengeMessage :: "address \<Rightarrow> string \<Rightarrow> string \<Rightarrow> string" where
  "buildChallengeMessage a nonce issuedAtIso =
     replace_first ''<site>'' CHALLENGE_SITE_NAME
       (replace_first ''<issuedAt>'' issuedAtIso
         (replace_first ''<nonce>'' nonce
           (replace_first ''<address>'' a CHALLENGE_MESSAGE_TEMPLATE)))"

section \<open>verify-wallet-signature.ts\<close>

type_synonym byte = "8 word"

record Crypto =
  isValidEd25519PublicKey :: "string \<Rightarrow> bool"
  ed25519_verify :: "string \<Rightarrow> byte list \<Rightarrow> byte list \<Rightarrow> bool option"
  sha256 :: "byte list \<Rightarrow> byte list"

definition SIGNATURE_BYTES :: nat where
  "SIGNATURE_BYTES = 64"

definition SEP53_PREFIX :: string where
  "SEP53_PREFIX = ''Stellar Signed Message:'' @ [CHR 0x0A]"

definition hex_value :: "char \<Rightarrow> nat" where
  "hex_value c =
     (if is_digit c then digit_val c
      else if in_range 97 102 c then of_char c - 87 else of_char c - 55)"

fun hex_decode :: "string \<Rightarrow> byte list" where
  "hex_decode (a # b # s) = of_nat (16 * hex_value a + hex_value b) # hex_decode s"
| "hex_decode _ = []"

definition base64_char :: "char \<Rightarrow> bool" where
  "base64_char c \<longleftrightarrow>
     in_range 65 90 c \<or> in_range 97 122 c \<or> is_digit c \<or> c = CHR ''+'' \<or> c = CHR 0x2F"

definition base64_value :: "char \<Rightarrow> nat" where
  "base64_value c =
     (if in_range 65 90 c then of_char c - 65
      else if in_range 97 122 c then of_char c - 71
      else if is_digit c then digit_val c + 52
      else if c = CHR ''+'' then 62 else 63)"

text \<open>\<open>Buffer.from(s, 'base64')\<close> on a string \<open>BASE64_RE\<close> accepted, padding removed.\<close>

fun base64_decode :: "nat list \<Rightarrow> byte list" where
  "base64_decode (a # b # c # d # s) =
     of_nat (4 * a + b div 16) # of_nat (16 * (b mod 16) + c div 4) # of_nat (64 * (c mod 4) + d)
       # base64_decode s"
| "base64_decode [a, b, c] = [of_nat (4 * a + b div 16), of_nat (16 * (b mod 16) + c div 4)]"
| "base64_decode [a, b] = [of_nat (4 * a + b div 16)]"
| "base64_decode _ = []"

definition HEX_RE :: "string \<Rightarrow> bool" where
  "HEX_RE s \<longleftrightarrow> s \<noteq> [] \<and> list_all hex_char s"

definition BASE64_RE :: "string \<Rightarrow> bool" where
  "BASE64_RE s \<longleftrightarrow>
     (let body = takeWhile base64_char s; pad = dropWhile base64_char s in
      body \<noteq> [] \<and> length pad \<le> 2 \<and> list_all (\<lambda>c. c = CHR ''='') pad)"

definition decodeSignature :: "string \<Rightarrow> byte list option" where
  "decodeSignature signedMessage =
     (let trimmed = trim signedMessage in
      if trimmed = [] then None
      else if HEX_RE trimmed \<and> length trimmed = SIGNATURE_BYTES * 2 then Some (hex_decode trimmed)
      else if BASE64_RE trimmed then
        (let decoded = base64_decode (map base64_value (takeWhile base64_char trimmed)) in
         if length decoded = SIGNATURE_BYTES then Some decoded else None)
      else None)"

text \<open>\<open>safeVerify\<close>: an exception of the key parser or the verifier is a mismatch.\<close>

definition safeVerify :: "Crypto \<Rightarrow> address \<Rightarrow> byte list \<Rightarrow> byte list \<Rightarrow> bool" where
  "safeVerify cr a data signature = (ed25519_verify cr a data signature = Some True)"

definition utf8 :: "string \<Rightarrow> byte list" where
  "utf8 s = map (\<lambda>c. of_nat (of_char c)) s"

datatype VerifyFailureReason = InvalidAddress | InvalidSignatureEncoding | SignatureMismatch

definition verifyWalletSignature ::
    "Crypto \<Rightarrow> address \<Rightarrow> string \<Rightarrow> string \<Rightarrow> VerifyFailureReason + SignatureVariant" where
  "verifyWalletSignature cr a message signedMessage =
     (if \<not> isValidEd25519PublicKey cr a then Inl InvalidAddress
      else case decodeSignature signedMessage of
        None \<Rightarrow> Inl InvalidSignatureEncoding
      | Some signature \<Rightarrow>
          let raw = utf8 message in
          if safeVerify cr a raw signature then Inr Raw
          else if safeVerify cr a (sha256 cr raw) signature then Inr Sha256
          else if safeVerify cr a (sha256 cr (utf8 (SEP53_PREFIX @ message))) signature then Inr Sep53
          else Inl SignatureMismatch)"

section \<open>What the challenge text and the check guarantee\<close>

text \<open>No challenge text is shared by two wallets, two nonces or two issue times.\<close>

definition plain_text :: "string \<Rightarrow> bool" where
  "plain_text s \<longleftrightarrow> list_all (\<lambda>c. c \<noteq> CHR ''<'' \<and> c \<noteq> CHR 0x0A) s"

lemma buildChallengeMessage_eq:
  assumes "plain_text a" "plain_text n" "plain_text t"
  shows "buildChallengeMessage a n t =
     ''Dig Stellar wants to verify that you own this wallet.'' @ [CHR 0x0A, CHR 0x0A]
     @ ''This is NOT a transaction. Signing moves no funds and costs nothing.'' @ [CHR 0x0A, CHR 0x0A]
     @ ''Wallet: '' @ a @ CHR 0x0A # ''Nonce: '' @ n @ CHR 0x0A # ''Issued: '' @ t
     @ CHR 0x0A # ''Site: Dig Stellar''"
proof -
  have skip: "replace_first (CHR ''<'' # pat) rep (s @ rest) = s @ replace_first (CHR ''<'' # pat) rep rest"
    if "plain_text s" for pat rep s rest
    using that by (induction s) (auto simp: plain_text_def)
  show ?thesis
    using assms
    by (simp add: buildChallengeMessage_def CHALLENGE_MESSAGE_TEMPLATE_def CHALLENGE_SITE_NAME_def skip)
qed

lemma append_sep_inject:
  assumes "c \<notin> set a" "c \<notin> set b" "a @ c # u = b @ c # v"
  shows "a = b \<and> u = v"
  using assms
proof (induction a arbitrary: b)
  case Nil then show ?case by (cases b) auto
next
  case (Cons x a) then show ?case by (cases b) auto
qed

lemma buildChallengeMessage_inject:
  assumes "plain_text a" "plain_text n" "plain_text t" "plain_text a'" "plain_text n'" "plain_text t'"
    and eq: "buildChallengeMessage a n t = buildChallengeMessage a' n' t'"
  shows "a = a' \<and> n = n' \<and> t = t'"
proof -
  have p: "CHR 0x0A \<notin> set x" if "plain_text x" for x
    using that by (auto simp: plain_text_def list_all_iff)
  have "a @ CHR 0x0A # ''Nonce: '' @ n @ CHR 0x0A # ''Issued: '' @ t @ CHR 0x0A # ''Site: Dig Stellar''
    = a' @ CHR 0x0A # ''Nonce: '' @ n' @ CHR 0x0A # ''Issued: '' @ t' @ CHR 0x0A # ''Site: Dig Stellar''"
    using eq unfolding buildChallengeMessage_eq [OF assms(1-3)] buildChallengeMessage_eq [OF assms(4-6)]
    by (simp only: append_same_eq same_append_eq)
  from append_sep_inject [OF p [OF assms(1)] p [OF assms(4)] this]
  have 1: "a = a'"
    and "n @ CHR 0x0A # ''Issued: '' @ t @ CHR 0x0A # ''Site: Dig Stellar''
      = n' @ CHR 0x0A # ''Issued: '' @ t' @ CHR 0x0A # ''Site: Dig Stellar''" by simp_all
  from append_sep_inject [OF p [OF assms(2)] p [OF assms(5)] this(2)]
  have "n = n'" and "t = t'" by simp_all
  with 1 show ?thesis by simp
qed

lemma verifyWalletSignature_Inr:
  "verifyWalletSignature cr a m s = Inr v \<Longrightarrow>
     isValidEd25519PublicKey cr a \<and>
     (\<exists>sig. decodeSignature s = Some sig \<and>
        safeVerify cr a
          (case v of Raw \<Rightarrow> utf8 m | Sha256 \<Rightarrow> sha256 cr (utf8 m) | Sep53 \<Rightarrow> sha256 cr (utf8 (SEP53_PREFIX @ m))) sig)"
  by (auto simp: verifyWalletSignature_def Let_def split: if_splits option.splits)

lemma length_hex_decode: "length (hex_decode s) = length s div 2"
  by (induction s rule: hex_decode.induct) auto

lemma decodeSignature_length: "decodeSignature s = Some sig \<Longrightarrow> length sig = SIGNATURE_BYTES"
  by (auto simp: decodeSignature_def Let_def length_hex_decode SIGNATURE_BYTES_def split: if_splits)

end
