(* ===== verification/Campaign_Service.thy ===== *)
theory Campaign_Service
  imports Campaign_Challenge
begin

text \<open>
  \<open>campaign.service.ts\<close> and \<open>campaign-social.service.ts\<close> with the decision of
  \<open>social-claims.ts\<close>: facts from the database, the pure rule, the writes. A handler returns its
  payload or the driver's error it rethrows, and the new database; an error inside a transaction
  leaves the database as it was.

  Transactions run at PostgreSQL's default isolation: a read of a row the transaction has not
  locked may be out of date when it writes. The two handlers where that matters take the
  database such reads saw as a separate argument \<open>snap\<close>; run alone, \<open>snap\<close> is the database itself.
\<close>

section \<open>Ownership proof\<close>

definition campaign_window :: "Env \<Rightarrow> ms \<Rightarrow> CampaignWindow" where
  "campaign_window env now =
     \<lparr>w_enabled = isCampaignEnabled env, w_startsAtMs = campaignStartsAt env,
      w_endsAtMs = campaignEndsAt env, w_nowMs = now\<rparr>"

record ChallengePayload =
  cp_address :: address
  cp_nonce :: string
  cp_message :: string
  cp_expiresAt :: string

definition issueChallenge :: "ms \<Rightarrow> string \<Rightarrow> address \<Rightarrow> Db \<Rightarrow> (JsError + ChallengePayload) \<times> Db" where
  "issueChallenge now nonce a d =
     (let expiresAt = now + CHALLENGE_TTL_SECONDS * 1000;
          message = buildChallengeMessage a nonce (toISOString now) in
      case createChallenge \<lparr>nc_nonce = nonce, nc_address = a, nc_message = message, nc_issuedAt = now,
                            nc_expiresAt = expiresAt\<rparr> d of
        Inl err \<Rightarrow> (Inl err, d)
      | Inr d1 \<Rightarrow>
          (Inr \<lparr>cp_address = a, cp_nonce = nonce, cp_message = message, cp_expiresAt = toISOString expiresAt\<rparr>,
           snd (deleteStaleChallenges now d1)))"

datatype VerifyRefusal = ChallengeInvalidOrExpired | SignatureInvalid

record VerifyOk =
  vo_address :: address
  vo_userId :: "user_id option"
  vo_verifiedAt :: string
  vo_signatureVariant :: SignatureVariant

record VerifyParams =
  vp_address :: address
  vp_nonce :: string
  vp_signedMessage :: string
  vp_provider :: "string option"
  vp_userId :: "string option"

definition truthy :: "string option \<Rightarrow> bool" where
  "truthy s \<longleftrightarrow> (case s of None \<Rightarrow> False | Some t \<Rightarrow> t \<noteq> [])"

definition verifyChallenge ::
    "Crypto \<Rightarrow> ms \<Rightarrow> string \<Rightarrow> VerifyParams \<Rightarrow> Db \<Rightarrow> (JsError + VerifyRefusal + VerifyOk) \<times> Db" where
  "verifyChallenge cr now newId p d =
     (case consumeChallenge now (vp_nonce p) (vp_address p) d of
        (None, d1) \<Rightarrow> (Inr (Inl ChallengeInvalidOrExpired), d1)
      | (Some message, d1) \<Rightarrow>
          (case verifyWalletSignature cr (vp_address p) message (vp_signedMessage p) of
             Inl _ \<Rightarrow> (Inr (Inl SignatureInvalid), d1)
           | Inr variant \<Rightarrow>
               let np = \<lparr>np_id = newId, np_now = now, np_address = vp_address p, np_user = vp_userId p,
                         np_provider = vp_provider p, np_nonce = vp_nonce p, np_variant = variant\<rparr> in
               case (if truthy (vp_userId p) then upsertBoundProof np d1 else insertUnboundProof np d1) of
                 Inl err \<Rightarrow> (Inl err, d1)
               | Inr (row, d2) \<Rightarrow>
                   (Inr (Inr \<lparr>vo_address = vp_address p, vo_userId = pf_user_id row,
                              vo_verifiedAt = toISOString (pf_verified_at row), vo_signatureVariant = variant\<rparr>),
                    d2)))"

section \<open>Public campaign state\<close>

record SocialTaskEntry =
  st_points :: int
  st_url :: "string option"
  st_available :: bool

definition socialTaskCatalogue :: "Env \<Rightarrow> SocialTaskKey \<Rightarrow> SocialTaskEntry" where
  "socialTaskCatalogue env k =
     (case k of
        XRepost \<Rightarrow> \<lparr>st_points = SOCIAL_TASKS XRepost, st_url = xRepostUrl env, st_available = xRepostUrl env \<noteq> None\<rparr>
      | _ \<Rightarrow> \<lparr>st_points = SOCIAL_TASKS k, st_url = None, st_available = True\<rparr>)"

record CampaignPayload =
  py_campaign :: int
  py_status :: "CampaignInactiveReason + unit"
  py_startsAt :: "string option"
  py_endsAt :: "string option"
  py_actions :: "ActionKind \<Rightarrow> ActionRule"
  py_streakDailyPoints :: int
  py_stepPerDay :: jsnum
  py_cap :: jsnum
  py_daysToCap :: jsnum
  py_ladder :: "(int \<times> jsnum) list"
  py_socialTasks :: "SocialTaskKey \<Rightarrow> SocialTaskEntry"
  py_socialDailyCap :: int
  py_referral :: "int \<times> int"
  py_perks :: "(PerkKey \<times> int) list"
  py_disclaimer :: string

definition getCampaign :: "Env \<Rightarrow> ms \<Rightarrow> CampaignPayload" where
  "getCampaign env now =
     (let w = campaign_window env now in
      \<lparr>py_campaign = CAMPAIGN_ID, py_status = campaignStatus w,
       py_startsAt = map_option toISOString (w_startsAtMs w), py_endsAt = map_option toISOString (w_endsAtMs w),
       py_actions = ACTION_RULES, py_streakDailyPoints = STREAK_DAILY_POINTS,
       py_stepPerDay = STREAK_RAMP_stepPerDay, py_cap = STREAK_RAMP_cap, py_daysToCap = STREAK_DAYS_TO_CAP,
       py_ladder = streakLadder, py_socialTasks = socialTaskCatalogue env, py_socialDailyCap = SOCIAL_DAILY_CAP,
       py_referral = (REFERRAL_POINTS_referrer, REFERRAL_POINTS_referee), py_perks = PERK_TIERS,
       py_disclaimer = DISCLAIMER\<rparr>)"

section \<open>Enrolment and check-in\<close>

record EnrollParams =
  ep_address :: address
  ep_userId :: string
  ep_referralCode :: "string option"

record EnrollOk =
  eo_address :: address
  eo_referralCode :: string
  eo_referredBy :: "string option"

text \<open>The facts and the decision, from the database the transaction's reads saw.\<close>

definition enroll_referrer :: "EnrollParams \<Rightarrow> Db \<Rightarrow> EnrollmentRow option" where
  "enroll_referrer p snap =
     (if truthy (ep_referralCode p) then findEnrollmentByCode CAMPAIGN_ID (or_empty (ep_referralCode p)) snap
      else None)"

definition enroll_decision :: "CampaignWindow \<Rightarrow> EnrollParams \<Rightarrow> Db \<Rightarrow> WriteIneligibleReason + unit" where
  "enroll_decision w p snap =
     (let referrer = enroll_referrer p snap in
      enrollEligibility
        \<lparr>ef_window = w, ef_proven = hasBoundProof (ep_address p) (ep_userId p) snap,
         ef_alreadyEnrolled = findEnrollment CAMPAIGN_ID (ep_address p) snap \<noteq> None,
         ef_referral = (if truthy (ep_referralCode p)
            then Some (referrer \<noteq> None, (case referrer of None \<Rightarrow> False | Some e \<Rightarrow> lower_eq (en_address e) (ep_address p)))
            else None)\<rparr>)"

text \<open>The transaction: insert with the code retry, then the referral link.\<close>

definition enroll_write ::
    "ms \<Rightarrow> (nat \<Rightarrow> string) \<Rightarrow> (nat \<Rightarrow> string) \<Rightarrow> EnrollParams \<Rightarrow> EnrollmentRow option \<Rightarrow> Db \<Rightarrow> JsError + EnrollOk \<times> Db" where
  "enroll_write now newId nextCode p referrer d =
     (case insertEnrollmentWithCodeRetry
             \<lparr>ne_id = [], ne_now = now, ne_campaign = CAMPAIGN_ID, ne_address = ep_address p, ne_userId = ep_userId p,
              ne_referralCode = [], ne_referredByCode = map_option en_referral_code referrer\<rparr>
             newId nextCode d of
        Inl err \<Rightarrow> Inl err
      | Inr (row, d1) \<Rightarrow>
          let payload = \<lparr>eo_address = ep_address p, eo_referralCode = en_referral_code row,
                         eo_referredBy = map_option en_referral_code referrer\<rparr> in
          case referrer of
            None \<Rightarrow> Inr (payload, d1)
          | Some e \<Rightarrow>
              (case insertReferral \<lparr>nr_now = now, nr_campaign = CAMPAIGN_ID, nr_referee = ep_address p,
                                    nr_referrer = en_address e, nr_code = en_referral_code e\<rparr> d1 of
                 Inl err \<Rightarrow> Inl err
               | Inr d2 \<Rightarrow> Inr (payload, d2)))"

definition enroll ::
    "Env \<Rightarrow> ms \<Rightarrow> (nat \<Rightarrow> string) \<Rightarrow> (nat \<Rightarrow> string) \<Rightarrow> EnrollParams \<Rightarrow> Db \<Rightarrow> Db
     \<Rightarrow> (JsError + WriteIneligibleReason + EnrollOk) \<times> Db" where
  "enroll env now newId nextCode p snap d =
     (let w = campaign_window env now in
      case campaignStatus w of
        Inl r \<Rightarrow> (Inr (Inl (Inactive r)), d)
      | Inr _ \<Rightarrow>
          (case enroll_decision w p snap of
             Inl r \<Rightarrow> (Inr (Inl r), d)
           | Inr _ \<Rightarrow>
               (case enroll_write now newId nextCode p (enroll_referrer p snap) d of
                  Inr (payload, d') \<Rightarrow> (Inr (Inr payload), d')
                | Inl err \<Rightarrow>
                    if isUniqueViolation err \<and> violatedUniqueKey err = Some ENROLLMENT_WALLET_KEY
                    then (Inr (Inl AlreadyEnrolled), d)
                    else (Inl err, d))))"

fun checkin_refusal :: "CheckinRefusal \<Rightarrow> WriteIneligibleReason" where
  "checkin_refusal CheckinNotEnrolled = NotEnrolled"
| "checkin_refusal CheckinAlreadyDone = AlreadyCheckedIn"

definition checkin ::
    "Env \<Rightarrow> ms \<Rightarrow> address \<Rightarrow> string \<Rightarrow> Db \<Rightarrow> (JsError + WriteIneligibleReason + (string \<times> int)) \<times> Db" where
  "checkin env now a userId d =
     (case checkinEligibility \<lparr>cf_window = campaign_window env now, cf_proven = hasBoundProof a userId d,
                               cf_enrolled = True, cf_alreadyCheckedInToday = False\<rparr> of
        Inl r \<Rightarrow> (Inr (Inl r), d)
      | Inr _ \<Rightarrow>
          (case checkinToday now CAMPAIGN_ID a d of
             Inl err \<Rightarrow> (Inl err, d)
           | Inr (Inl r, d') \<Rightarrow> (Inr (Inl (checkin_refusal r)), d')
           | Inr (Inr r, d') \<Rightarrow> (Inr (Inr (cd_day r, cd_points r)), d')))"

section \<open>Social tasks\<close>

datatype SocialClaimReason =
    WriteReason WriteIneligibleReason
  | ClaimUnknownTask | TaskUnavailable | AlreadyClaimed | HandleMismatch | HandleAlreadyUsed
  | ClaimDailyCapReached

record SocialClaimFacts =
  sf_window :: CampaignWindow
  sf_proven :: bool
  sf_enrolled :: bool
  sf_task :: string
  sf_taskAvailable :: bool
  sf_handle :: string
  sf_existingClaims :: "(string \<times> string) list"
  sf_handleUsedByOtherWallet :: bool
  sf_awardedTodayPoints :: int

fun refusal_reason :: "SocialAwardRefusal \<Rightarrow> SocialClaimReason" where
  "refusal_reason UnknownTask = ClaimUnknownTask"
| "refusal_reason SocialDailyCapReached = ClaimDailyCapReached"

definition socialClaimEligibility :: "SocialClaimFacts \<Rightarrow> SocialClaimReason + SocialAwardDetail" where
  "socialClaimEligibility f =
     (case campaignStatus (sf_window f) of
        Inl r \<Rightarrow> Inl (WriteReason (Inactive r))
      | Inr _ \<Rightarrow>
          if \<not> sf_proven f then Inl (WriteReason OwnershipProofRequired)
          else if \<not> sf_enrolled f then Inl (WriteReason NotEnrolled)
          else if social_task_of (sf_task f) = None then Inl ClaimUnknownTask
          else if \<not> sf_taskAvailable f then Inl TaskUnavailable
          else if list_ex (\<lambda>c. fst c = sf_task f) (sf_existingClaims f) then Inl AlreadyClaimed
          else if list_ex (\<lambda>c. snd c \<noteq> sf_handle f) (sf_existingClaims f) then Inl HandleMismatch
          else if sf_handleUsedByOtherWallet f then Inl HandleAlreadyUsed
          else map_sum refusal_reason id (socialAward (sf_task f) (sf_awardedTodayPoints f)))"

definition socialUniqueViolationReason :: "string option \<Rightarrow> SocialClaimReason option" where
  "socialUniqueViolationReason key =
     (if key = Some SOCIAL_CLAIM_TASK_KEY then Some AlreadyClaimed
      else if key = Some SOCIAL_CLAIM_HANDLE_KEY then Some HandleAlreadyUsed
      else None)"

definition taskAvailable :: "Env \<Rightarrow> string \<Rightarrow> bool" where
  "taskAvailable env task = (if task = ''x-repost'' then xRepostUrl env \<noteq> None else True)"

record ClaimParams =
  sp_address :: address
  sp_userId :: string
  sp_task :: string
  sp_handle :: string

record ClaimOk =
  so_id :: string
  so_task :: string
  so_points :: int

text \<open>The transaction of \<open>claim\<close>. The enrollment row lock keeps the wallet's own claims and points
  current; only the read across wallets may be out of date.\<close>

definition claim_transaction ::
    "Env \<Rightarrow> ms \<Rightarrow> string \<Rightarrow> bool \<Rightarrow> ClaimParams \<Rightarrow> Db \<Rightarrow> Db \<Rightarrow> JsError + (SocialClaimReason + ClaimOk) \<times> Db" where
  "claim_transaction env now newId proven p snap d =
     (case lockEnrollment CAMPAIGN_ID (sp_address p) d of
        None \<Rightarrow> Inr (Inl (WriteReason NotEnrolled), d)
      | Some e \<Rightarrow>
          let day = todayUtc now;
              facts = \<lparr>sf_window = campaign_window env now, sf_proven = proven, sf_enrolled = True, sf_task = sp_task p,
                 sf_taskAvailable = taskAvailable env (sp_task p), sf_handle = sp_handle p,
                 sf_existingClaims = socialClaimHandles CAMPAIGN_ID (en_address e) d,
                 sf_handleUsedByOtherWallet = handleUsedByOtherWallet CAMPAIGN_ID (sp_handle p) (en_address e) snap,
                 sf_awardedTodayPoints = socialPointsAwardedOn CAMPAIGN_ID (en_address e) day d\<rparr> in
          case socialClaimEligibility facts of
            Inl r \<Rightarrow> Inr (Inl r, d)
          | Inr award \<Rightarrow>
              (case insertSocialClaim \<lparr>cl_id = newId, cl_campaign = CAMPAIGN_ID, cl_address = en_address e,
                      cl_task_key = sp_task p, cl_handle_normalized = sp_handle p, cl_claimed_at = now,
                      cl_deleted_at = None\<rparr> d of
                 Inl err \<Rightarrow> Inl err
               | Inr d1 \<Rightarrow>
                   (case insertSocialAward now CAMPAIGN_ID (en_address e) (Some (en_user_id e)) award newId day d1 of
                      Inl err \<Rightarrow> Inl err
                    | Inr (_, d2) \<Rightarrow>
                        Inr (Inr \<lparr>so_id = newId, so_task = sp_task p, so_points = sa_points award\<rparr>, d2))))"

definition social_claim ::
    "Env \<Rightarrow> ms \<Rightarrow> string \<Rightarrow> ClaimParams \<Rightarrow> Db \<Rightarrow> Db \<Rightarrow> (JsError + SocialClaimReason + ClaimOk) \<times> Db" where
  "social_claim env now newId p snap d =
     (let proven = hasBoundProof (sp_address p) (sp_userId p) d in
      case socialClaimEligibility \<lparr>sf_window = campaign_window env now, sf_proven = proven, sf_enrolled = True,
             sf_task = sp_task p, sf_taskAvailable = taskAvailable env (sp_task p), sf_handle = sp_handle p,
             sf_existingClaims = [], sf_handleUsedByOtherWallet = False, sf_awardedTodayPoints = 0\<rparr> of
        Inl r \<Rightarrow> (Inr (Inl r), d)
      | Inr _ \<Rightarrow>
          (case claim_transaction env now newId proven p snap d of
             Inr (r, d') \<Rightarrow> (Inr r, d')
           | Inl err \<Rightarrow>
               (case (if isUniqueViolation err then socialUniqueViolationReason (violatedUniqueKey err) else None) of
                  Some reason \<Rightarrow> (Inr (Inl reason), d)
                | None \<Rightarrow> (Inl err, d))))"

datatype SocialDeleteReason = DeleteProofRequired | DeleteNotFound

definition remove_transaction ::
    "ms \<Rightarrow> address \<Rightarrow> string \<Rightarrow> Db \<Rightarrow> JsError + (SocialDeleteReason + string \<times> int) \<times> Db" where
  "remove_transaction now a claimId d =
     (case lockEnrollment CAMPAIGN_ID a d of
        None \<Rightarrow> Inr (Inl DeleteNotFound, d)
      | Some e \<Rightarrow>
          (case findOwnedSocialClaim CAMPAIGN_ID claimId (en_address e) d of
             None \<Rightarrow> Inr (Inl DeleteNotFound, d)
           | Some c \<Rightarrow>
               let credited = findSocialLedgerRow CAMPAIGN_ID (cl_id c) d in
               case (case credited of
                       Some l \<Rightarrow>
                         if lr_points l \<noteq> 0
                         then map_sum id snd (insertSocialDeleteAdjust now CAMPAIGN_ID (en_address e)
                                (Some (en_user_id e)) (lr_id l) (lr_points l) d)
                         else Inr d
                     | None \<Rightarrow> Inr d) of
                 Inl err \<Rightarrow> Inl err
               | Inr d1 \<Rightarrow>
                   Inr (Inr (cl_id c, case credited of Some l \<Rightarrow> lr_points l | None \<Rightarrow> 0),
                        snd (softDeleteSocialClaim now CAMPAIGN_ID (cl_id c) d1))))"

definition social_remove ::
    "ms \<Rightarrow> address \<Rightarrow> string \<Rightarrow> string \<Rightarrow> Db \<Rightarrow> (JsError + SocialDeleteReason + (string \<times> int)) \<times> Db" where
  "social_remove now a userId claimId d =
     (if \<not> hasBoundProof a userId d then (Inr (Inl DeleteProofRequired), d)
      else case remove_transaction now a claimId d of
        Inl err \<Rightarrow> (Inl err, d)
      | Inr (r, d') \<Rightarrow> (Inr r, d'))"

end
