(* ===== verification/Campaign_Points.thy ===== *)
theory Campaign_Points
  imports Campaign_Service
begin

text \<open>
  The invariant of the points tables: unique keys, CHECK constraints, the link from a social award
  to its claim, and the equation that makes balances meaningful: a balance is the sum of the awards
  that still count, because a delete writes exactly the correction of what its claim was credited.
\<close>

section \<open>Sums over the ledger\<close>

definition ledger_id_key :: "LedgerRow \<Rightarrow> int option" where
  "ledger_id_key r = Some (lr_id r)"

lemma filter_unique:
  assumes "unique_on key xs" "x \<in> set xs" "P x" "\<And>y. y \<in> set xs \<Longrightarrow> P y \<Longrightarrow> key y = Some k"
  shows "filter P xs = [x]"
  using assms
proof (induction xs)
  case (Cons y ys)
  show ?case
  proof (cases "x = y")
    case True
    have "\<not> P z" if "z \<in> set ys" for z
      using Cons.prems that True by (auto simp: conflicts_iff)
    then show ?thesis using True Cons.prems(3) by simp
  next
    case False
    then have x: "x \<in> set ys" using Cons.prems(2) by simp
    then have "key x = Some k" using Cons.prems by simp
    then have "\<not> P y" using Cons.prems x by (auto simp: conflicts_iff)
    then show ?thesis using Cons x by simp
  qed
qed simp

lemma sum_split_filter:
  fixes f :: "'a \<Rightarrow> int"
  shows "sum_list (map f (filter P xs)) =
    sum_list (map f (filter (\<lambda>x. P x \<and> Q x) xs)) + sum_list (map f (filter (\<lambda>x. P x \<and> \<not> Q x) xs))"
  by (induction xs) auto

lemma points_where_split:
  "points_where P d = points_where (\<lambda>r. P r \<and> Q r) d + points_where (\<lambda>r. P r \<and> \<not> Q r) d"
  unfolding points_where_def by (rule sum_split_filter)

lemma points_where_cong:
  "db_ledger d = db_ledger d' \<Longrightarrow> (\<And>r. r \<in> set (db_ledger d') \<Longrightarrow> P r = Q r) \<Longrightarrow> points_where P d = points_where Q d'"
  unfolding points_where_def by (metis (mono_tags, lifting) filter_cong)

lemma append_ledger_simps [simp]:
  "db_ledger (append_ledger r d) = db_ledger d @ [ledger_row r d]"
  "db_ledger_seq (append_ledger r d) = db_ledger_seq d + 1"
  "db_claims (append_ledger r d) = db_claims d" "db_witnesses (append_ledger r d) = db_witnesses d"
  "db_checkins (append_ledger r d) = db_checkins d" "db_enrollments (append_ledger r d) = db_enrollments d"
  "db_referrals (append_ledger r d) = db_referrals d" "db_perks (append_ledger r d) = db_perks d"
  "db_proofs (append_ledger r d) = db_proofs d" "db_challenges (append_ledger r d) = db_challenges d"
  by (simp_all add: append_ledger_def)

lemma ledger_row_simps [simp]:
  "lr_campaign (ledger_row r d) = lr_campaign r" "lr_address (ledger_row r d) = lr_address r"
  "lr_reason (ledger_row r d) = lr_reason r" "lr_points (ledger_row r d) = lr_points r"
  "lr_social_claim_id (ledger_row r d) = lr_social_claim_id r" "lr_counted_day (ledger_row r d) = lr_counted_day r"
  "lr_adjusts_id (ledger_row r d) = lr_adjusts_id r" "lr_witness_tx_hash (ledger_row r d) = lr_witness_tx_hash r"
  "lr_id (ledger_row r d) = db_ledger_seq d + 1" "wallet_row c a (ledger_row r d) = wallet_row c a r"
  "ledger_checks (ledger_row r d) = ledger_checks r"
  by (simp_all add: ledger_row_def wallet_row_def ledger_checks_def reference_check_def Let_def)

lemma points_where_append_ledger:
  "points_where P (append_ledger r d) = points_where P d + (if P (ledger_row r d) then lr_points r else 0)"
  by (simp add: points_where_def)

section \<open>The points invariant\<close>

definition claim_active :: "Db \<Rightarrow> string \<Rightarrow> bool" where
  "claim_active d i \<longleftrightarrow> (\<exists>c \<in> set (db_claims d). cl_id c = i \<and> cl_deleted_at c = None)"

text \<open>The rows that still count: no correction, and no social award whose claim was deleted.\<close>

definition effective :: "Db \<Rightarrow> LedgerRow \<Rightarrow> bool" where
  "effective d r \<longleftrightarrow>
     \<not> reason_like ''adjust:'' r \<and> (\<forall>i. lr_social_claim_id r = Some i \<longrightarrow> claim_active d i)"

definition balance_ok :: "Db \<Rightarrow> bool" where
  "balance_ok d \<longleftrightarrow> (\<forall>campaign a. balance campaign a d = points_where (\<lambda>r. wallet_row campaign a r \<and> effective d r) d)"

text \<open>A social award belongs to the wallet, campaign and task of its claim.\<close>

definition row_claim :: "LedgerRow \<Rightarrow> ClaimRow \<Rightarrow> bool" where
  "row_claim r c \<longleftrightarrow>
     lr_campaign r = cl_campaign c \<and> lower_eq (lr_address r) (cl_address c) \<and> lr_reason r = ''social:'' @ cl_task_key c"

definition social_linked :: "Db \<Rightarrow> bool" where
  "social_linked d \<longleftrightarrow>
     (\<forall>r \<in> set (db_ledger d). \<forall>i. lr_social_claim_id r = Some i \<longrightarrow>
        (\<exists>c \<in> set (db_claims d). cl_id c = i \<and> row_claim r c))"

definition points_struct :: "Db \<Rightarrow> bool" where
  "points_struct d \<longleftrightarrow>
     unique_on claim_id_key (db_claims d) \<and> unique_on claim_task_key (db_claims d)
     \<and> unique_on claim_handle_key (db_claims d)
     \<and> unique_on witness_key (db_ledger d) \<and> unique_on social_claim_key (db_ledger d)
     \<and> unique_on checkin_key (db_ledger d) \<and> unique_on referee_key (db_ledger d)
     \<and> unique_on ledger_id_key (db_ledger d) \<and> (\<forall>r \<in> set (db_ledger d). lr_id r \<le> db_ledger_seq d)
     \<and> (\<forall>r \<in> set (db_ledger d). ledger_checks r)
     \<and> unique_on checkin_row_key (db_checkins d) \<and> unique_on perk_key (db_perks d)
     \<and> social_linked d"

definition points_inv :: "Db \<Rightarrow> bool" where
  "points_inv d \<longleftrightarrow> points_struct d \<and> balance_ok d"

lemma effective_cong: "db_claims d = db_claims d' \<Longrightarrow> effective d = effective d'"
  by (simp add: effective_def claim_active_def fun_eq_iff)

lemma action_not_adjust: "starts_with ''action:'' s \<Longrightarrow> \<not> starts_with ''adjust:'' s"
  "starts_with ''action:'' s \<Longrightarrow> \<not> starts_with ''social:'' s"
  by (auto simp: starts_with_iff)

text \<open>Appending a row that is no social award and no correction.\<close>

definition plain_row :: "LedgerRow \<Rightarrow> bool" where
  "plain_row r \<longleftrightarrow> lr_social_claim_id r = None \<and> \<not> reason_like ''adjust:'' r"

lemma points_struct_insert_ledger:
  assumes inv: "points_struct d" and ins: "insert_ledger r d = Inr (n, d')"
    and link: "\<And>i. lr_social_claim_id r = Some i \<Longrightarrow> \<exists>c \<in> set (db_claims d). cl_id c = i \<and> row_claim r c"
  shows "points_struct d'"
proof -
  have d': "d' = append_ledger r d" and chk: "ledger_checks r" using ins by (simp_all add: insert_ledger_Inr)
  have ins': "drop_result (insert_ledger r d) = Inr d'" using ins by simp
  note keep = awarded_witnesses.keeps_unique [OF _ ins'] awarded_claims.keeps_unique [OF _ ins']
    awarded_checkins.keeps_unique [OF _ ins'] awarded_referees.keeps_unique [OF _ ins']
  have ids: "\<forall>x \<in> set (db_ledger d). lr_id x \<le> db_ledger_seq d" using inv by (simp add: points_struct_def)
  have "\<not> conflicts ledger_id_key (db_ledger d) (ledger_row r d)"
    using ids by (fastforce simp: conflicts_iff ledger_id_key_def)
  then have "unique_on ledger_id_key (db_ledger d')"
    using inv d' by (simp add: points_struct_def unique_on_snoc)
  moreover have "social_linked d'" using inv link d' by (auto simp: points_struct_def social_linked_def row_claim_def)
  ultimately show ?thesis
    using inv keep chk ids d' unfolding points_struct_def by fastforce
qed

lemma balance_ok_append:
  assumes "balance_ok d" "effective d r \<or> lr_points r = 0"
  shows "balance_ok (append_ledger r d)"
proof -
  have "effective (append_ledger r d) = effective d" by (intro effective_cong) simp
  moreover have "effective d (ledger_row r d) = effective d r" by (simp add: effective_def)
  ultimately show ?thesis using assms
    unfolding balance_ok_def balance_def points_where_append_ledger by auto
qed

lemma points_inv_insert_ledger:
  assumes "points_inv d" "insert_ledger r d = Inr (n, d')"
    and "\<And>i. lr_social_claim_id r = Some i \<Longrightarrow> \<exists>c \<in> set (db_claims d). cl_id c = i \<and> row_claim r c"
    and "effective d r \<or> lr_points r = 0"
  shows "points_inv d'"
  using assms points_struct_insert_ledger [OF _ assms(2,3)] balance_ok_append
  by (auto simp: points_inv_def insert_ledger_Inr)

lemma points_inv_plain:
  "points_inv d \<Longrightarrow> insert_ledger r d = Inr (n, d') \<Longrightarrow> plain_row r \<Longrightarrow> points_inv d'"
  by (rule points_inv_insert_ledger) (auto simp: plain_row_def effective_def)

lemma plain_rows:
  "plain_row (streak_row now c e day)"
  "reason \<in> {''referral:referrer'', ''referral:referee''} \<Longrightarrow> plain_row (referral_row now cp a u reason pts)"
  by (auto simp: plain_row_def streak_row_def referral_row_def blank_ledger_row_def)

lemma plain_action_row:
  assumes "ledger_checks (action_row now c p m pts)"
  shows "plain_row (action_row now c p m pts)" "reason_like ''action:'' (action_row now c p m pts)"
proof -
  have "reason_like ''action:'' (action_row now c p m pts)"
    using assms unfolding ledger_checks_def reference_check_def Let_def
    by (auto simp: action_row_def blank_ledger_row_def num_nonnulls_def split: if_splits)
  then show "reason_like ''action:'' (action_row now c p m pts)" and "plain_row (action_row now c p m pts)"
    by (auto simp: plain_row_def action_not_adjust) (simp add: action_row_def blank_ledger_row_def)
qed

section \<open>Claims\<close>

lemma insertSocialClaim_Inr:
  "insertSocialClaim c d = Inr d' \<Longrightarrow>
     d' = d\<lparr>db_claims := db_claims d @ [c]\<rparr> \<and> STELLAR_PUBKEY_RE (cl_address c) \<and> social_task_of (cl_task_key c) \<noteq> None"
  by (auto simp: insertSocialClaim_def split: if_splits)

lemma points_inv_insert_claim:
  assumes inv: "points_inv d" and ins: "insertSocialClaim c d = Inr d'"
  shows "points_inv d'"
proof -
  have d': "d' = d\<lparr>db_claims := db_claims d @ [c]\<rparr>" using insertSocialClaim_Inr [OF ins] by simp
  note keep = claim_ids.keeps_unique [OF _ ins] claimed_tasks.keeps_unique [OF _ ins] claimed_handles.keeps_unique [OF _ ins]
  have new: "\<forall>x \<in> set (db_claims d). cl_id x \<noteq> cl_id c"
    using claim_ids.ins_free [OF ins] by (auto simp: conflicts_iff claim_id_key_def)
  have linked: "social_linked d'" using inv d' by (auto simp: points_inv_def points_struct_def social_linked_def)
  have "effective d' r = effective d r" if "r \<in> set (db_ledger d)" for r
    using inv that new unfolding d' points_inv_def points_struct_def social_linked_def effective_def claim_active_def by fastforce
  then have "points_where (\<lambda>r. wallet_row campaign a r \<and> effective d' r) d'
      = points_where (\<lambda>r. wallet_row campaign a r \<and> effective d r) d" for campaign a
    using d' by (intro points_where_cong) auto
  moreover have "balance campaign a d' = balance campaign a d" for campaign a
    unfolding balance_def using d' by (intro points_where_cong) simp_all
  ultimately have "balance_ok d'" using inv by (simp add: points_inv_def points_struct_def balance_ok_def)
  then show ?thesis using inv keep linked d' by (simp add: points_inv_def points_struct_def)
qed

section \<open>Soft delete\<close>

lemma reason_social_iff:
  "ledger_checks r \<Longrightarrow> lr_social_claim_id r \<noteq> None \<longleftrightarrow> reason_like ''social:'' r"
  unfolding ledger_checks_def reference_check_def Let_def num_nonnulls_def
  by (auto simp: action_not_adjust starts_with_iff split: if_splits)

lemma claim_by_id:
  "points_struct d \<Longrightarrow> x \<in> set (db_claims d) \<Longrightarrow> y \<in> set (db_claims d) \<Longrightarrow> cl_id x = cl_id y \<Longrightarrow> x = y"
  by (rule unique_onD [of claim_id_key]) (auto simp: points_struct_def claim_id_key_def)

text \<open>The row that credited a claim: the only one with its id.\<close>

lemma credited_row:
  assumes inv: "points_struct d" and c: "c \<in> set (db_claims d)"
  shows "filter (\<lambda>r. lr_social_claim_id r = Some (cl_id c)) (db_ledger d)
    = (case findSocialLedgerRow (cl_campaign c) (cl_id c) d of None \<Rightarrow> [] | Some l \<Rightarrow> [l])"
proof -
  have link: "row_claim r c" if "r \<in> set (db_ledger d)" "lr_social_claim_id r = Some (cl_id c)" for r
    using inv that claim_by_id [OF inv _ c] unfolding points_struct_def social_linked_def by blast
  have key: "social_claim_key r = Some (cl_campaign c, ''social:'' @ cl_task_key c, cl_id c)"
    if "r \<in> set (db_ledger d)" "lr_social_claim_id r = Some (cl_id c)" for r
    using link [OF that] that by (simp add: social_claim_key_def row_claim_def)
  show ?thesis
  proof (cases "findSocialLedgerRow (cl_campaign c) (cl_id c) d")
    case None
    then have "\<forall>r \<in> set (db_ledger d). \<not> (lr_campaign r = cl_campaign c \<and> lr_social_claim_id r = Some (cl_id c)
        \<and> reason_like ''social:'' r)"
      by (simp add: findSocialLedgerRow_def find_None_iff_all)
    then have "\<forall>r \<in> set (db_ledger d). lr_social_claim_id r \<noteq> Some (cl_id c)"
      using link by (auto simp: row_claim_def)
    then show ?thesis using None by (simp add: filter_empty_conv)
  next
    case (Some l)
    then have l: "l \<in> set (db_ledger d)" "lr_social_claim_id l = Some (cl_id c)"
      by (auto simp: findSocialLedgerRow_def dest: find_Some_in)
    have "filter (\<lambda>r. lr_social_claim_id r = Some (cl_id c)) (db_ledger d) = [l]"
      by (rule filter_unique [of social_claim_key]) (use inv l key in \<open>auto simp: points_struct_def\<close>)
    then show ?thesis using Some by simp
  qed
qed

definition credited_points :: "Db \<Rightarrow> ClaimRow \<Rightarrow> int" where
  "credited_points d c =
     (case findSocialLedgerRow (cl_campaign c) (cl_id c) d of None \<Rightarrow> 0 | Some l \<Rightarrow> lr_points l)"

lemma findSocialLedgerRow_mem: "findSocialLedgerRow ca i d = Some l \<Longrightarrow>
    l \<in> set (db_ledger d) \<and> lr_campaign l = ca \<and> lr_social_claim_id l = Some i"
  by (auto simp: findSocialLedgerRow_def dest: find_Some_in)

lemma credited_points_nonneg: "points_struct d \<Longrightarrow> 0 \<le> credited_points d c"
proof (cases "findSocialLedgerRow (cl_campaign c) (cl_id c) d")
  case (Some l)
  assume inv: "points_struct d"
  have l: "l \<in> set (db_ledger d)" "lr_social_claim_id l = Some (cl_id c)" using findSocialLedgerRow_mem [OF Some] by simp_all
  then have chk: "ledger_checks l" using inv by (simp add: points_struct_def)
  then have "reason_like ''social:'' l" using reason_social_iff l(2) by blast
  then have "\<not> reason_like ''adjust:'' l" by (auto simp: starts_with_iff)
  then have "0 \<le> lr_points l" using chk by (simp add: ledger_checks_def)
  then show ?thesis by (simp add: credited_points_def Some)
qed (simp add: credited_points_def)

text \<open>What a wallet's effective points lose when one of its active claims is deleted.\<close>

lemma softDelete_effect:
  assumes inv: "points_struct d" and c: "c \<in> set (db_claims d)" "cl_deleted_at c = None"
    and del: "db_claims d' = db_claims (snd (softDeleteSocialClaim now (cl_campaign c) (cl_id c) d))"
    and led: "db_ledger d' = db_ledger d @ adj" "\<forall>r \<in> set adj. reason_like ''adjust:'' r"
  shows "points_where (\<lambda>r. wallet_row ca a r \<and> effective d' r) d'
    = points_where (\<lambda>r. wallet_row ca a r \<and> effective d r) d
      - (if ca = cl_campaign c \<and> lower_eq (cl_address c) a then credited_points d c else 0)"
proof -
  let ?hit = "\<lambda>x. cl_campaign x = cl_campaign c \<and> cl_id x = cl_id c \<and> cl_deleted_at x = None"
  let ?mine = "\<lambda>r. lr_social_claim_id r = Some (cl_id c)"
  have claims: "db_claims d' = map (\<lambda>x. if ?hit x
      then x\<lparr>cl_deleted_at := Some now, cl_handle_normalized := DELETED_HANDLE\<rparr> else x) (db_claims d)"
    by (simp add: del softDeleteSocialClaim_def Let_def)
  have active: "claim_active d' i \<longleftrightarrow> claim_active d i \<and> i \<noteq> cl_id c" for i
    unfolding claim_active_def claims using claim_by_id [OF inv] c(1) by (auto split: if_splits)
  have eff: "effective d' r \<longleftrightarrow> effective d r \<and> \<not> ?mine r" for r
    unfolding effective_def active by auto
  have this_eff: "?mine r \<Longrightarrow> r \<in> set (db_ledger d) \<Longrightarrow> effective d r" for r
  proof -
    assume r: "?mine r" "r \<in> set (db_ledger d)"
    then have "reason_like ''social:'' r" using inv reason_social_iff by (auto simp: points_struct_def)
    then have "\<not> reason_like ''adjust:'' r" by (auto simp: starts_with_iff)
    then show ?thesis using r c by (auto simp: effective_def claim_active_def)
  qed
  have "points_where (\<lambda>r. wallet_row ca a r \<and> effective d' r) d' = points_where (\<lambda>r. wallet_row ca a r \<and> effective d' r) d"
    using led by (simp add: points_where_def effective_def)
  moreover have "points_where (\<lambda>r. wallet_row ca a r \<and> effective d r) d
      = points_where (\<lambda>r. (wallet_row ca a r \<and> effective d r) \<and> ?mine r) d
        + points_where (\<lambda>r. (wallet_row ca a r \<and> effective d r) \<and> \<not> ?mine r) d"
    by (rule points_where_split)
  moreover have "points_where (\<lambda>r. wallet_row ca a r \<and> effective d' r) d
      = points_where (\<lambda>r. (wallet_row ca a r \<and> effective d r) \<and> \<not> ?mine r) d"
    by (intro points_where_cong) (simp_all add: eff)
  moreover have "points_where (\<lambda>r. (wallet_row ca a r \<and> effective d r) \<and> ?mine r) d
      = (if ca = cl_campaign c \<and> lower_eq (cl_address c) a then credited_points d c else 0)"
  proof -
    have "points_where (\<lambda>r. (wallet_row ca a r \<and> effective d r) \<and> ?mine r) d
        = sum_list (map lr_points (filter (wallet_row ca a) (filter ?mine (db_ledger d))))"
      unfolding points_where_def filter_filter using this_eff by (intro arg_cong [where f = "\<lambda>x. sum_list (map lr_points x)"] filter_cong) auto
    moreover have "wallet_row ca a l \<longleftrightarrow> ca = cl_campaign c \<and> lower_eq (cl_address c) a"
      if "findSocialLedgerRow (cl_campaign c) (cl_id c) d = Some l" for l
    proof -
      have l: "l \<in> set (db_ledger d)" "lr_social_claim_id l = Some (cl_id c)"
        using findSocialLedgerRow_mem [OF that] by simp_all
      then have "row_claim l c" using inv claim_by_id [OF inv _ c(1)] unfolding points_struct_def social_linked_def by blast
      then show ?thesis by (auto simp: row_claim_def wallet_row_def lower_eq_def)
    qed
    ultimately show ?thesis unfolding credited_row [OF inv c(1)] credited_points_def by (auto split: option.split)
  qed
  ultimately show ?thesis by simp
qed


lemma points_struct_soft_delete:
  assumes inv: "points_struct d" and c: "c \<in> set (db_claims d)"
  shows "points_struct (snd (softDeleteSocialClaim now (cl_campaign c) (cl_id c) d))"
proof -
  let ?f = "\<lambda>x. if cl_campaign x = cl_campaign c \<and> cl_id x = cl_id c \<and> cl_deleted_at x = None
      then x\<lparr>cl_deleted_at := Some now, cl_handle_normalized := DELETED_HANDLE\<rparr> else x"
  let ?d' = "d\<lparr>db_claims := map ?f (db_claims d)\<rparr>"
  have d': "snd (softDeleteSocialClaim now (cl_campaign c) (cl_id c) d) = ?d'"
    by (simp add: softDeleteSocialClaim_def Let_def)
  have keys: "claim_id_key (?f x) = claim_id_key x" "claim_task_key (?f x) = claim_task_key x \<or> claim_task_key (?f x) = None"
      "claim_handle_key (?f x) = claim_handle_key x \<or> claim_handle_key (?f x) = None" for x
    by (simp_all add: claim_id_key_def claim_task_key_def claim_handle_key_def)
  have keep: "unique_on claim_id_key (map ?f (db_claims d))" "unique_on claim_task_key (map ?f (db_claims d))"
      "unique_on claim_handle_key (map ?f (db_claims d))"
    using inv keys by (intro unique_on_map; simp add: points_struct_def)+
  have row: "row_claim r (?f x) = row_claim r x" "cl_id (?f x) = cl_id x" for r x by (simp_all add: row_claim_def)
  have linked: "social_linked ?d'"
  proof (unfold social_linked_def, intro ballI allI impI)
    fix r i assume r: "r \<in> set (db_ledger ?d')" and i: "lr_social_claim_id r = Some i"
    have "r \<in> set (db_ledger d)" using r by simp
    moreover have "social_linked d" using inv by (simp add: points_struct_def)
    ultimately obtain x where "x \<in> set (db_claims d)" "cl_id x = i" "row_claim r x"
      using i unfolding social_linked_def by blast
    then show "\<exists>x \<in> set (db_claims ?d'). cl_id x = i \<and> row_claim r x"
      by (intro bexI [of _ "?f x"]) (auto simp: row_claim_def)
  qed
  show ?thesis using inv keep linked unfolding d' by (simp add: points_struct_def)
qed

text \<open>Delete as the code runs it: the correction of the credited points, then the soft delete.\<close>

lemma points_inv_remove:
  assumes inv: "points_inv d" and c: "c \<in> set (db_claims d)" "cl_deleted_at c = None"
    and d1: "(credited_points d c = 0 \<and> d1 = d) \<or>
      (\<exists>r n. insert_ledger r d = Inr (n, d1) \<and> lr_reason r = SOCIAL_DELETE_REASON \<and> lr_social_claim_id r = None
         \<and> lr_campaign r = cl_campaign c \<and> lower_eq (lr_address r) (cl_address c)
         \<and> lr_points r = - credited_points d c)"
  shows "points_inv (snd (softDeleteSocialClaim now (cl_campaign c) (cl_id c) d1))" (is "points_inv ?d'")
proof -
  have struct: "points_struct d" and bal: "balance_ok d" using inv by (simp_all add: points_inv_def)
  have claims: "db_claims d1 = db_claims d" using d1 by (auto simp: insert_ledger_Inr)
  have "points_struct d1" using d1 struct by (auto intro: points_struct_insert_ledger)
  then have struct': "points_struct ?d'" using c claims by (intro points_struct_soft_delete) simp_all
  have led: "db_ledger ?d' = db_ledger d1" "db_claims ?d' = db_claims (snd (softDeleteSocialClaim now (cl_campaign c) (cl_id c) d))"
    by (simp_all add: softDeleteSocialClaim_def Let_def claims)
  have bal': "balance ca a ?d' = balance ca a d1" for ca a
    unfolding balance_def by (intro points_where_cong) (simp_all add: led)
  have adj: "SOCIAL_DELETE_REASON = ''adjust:social-delete''" by (simp add: SOCIAL_DELETE_REASON_def)
  note effect = softDelete_effect [OF struct c led(2)]
  have "balance ca a ?d' = points_where (\<lambda>r. wallet_row ca a r \<and> effective ?d' r) ?d'" for ca a
  proof (cases "d1 = d \<and> credited_points d c = 0")
    case True
    then show ?thesis using effect [of "[]" ca a] bal led bal' by (simp add: balance_ok_def)
  next
    case False
    then obtain r n where r: "insert_ledger r d = Inr (n, d1)" "lr_reason r = SOCIAL_DELETE_REASON"
        "lr_campaign r = cl_campaign c" "lower_eq (lr_address r) (cl_address c)" "lr_points r = - credited_points d c"
      using d1 by blast
    have d1: "d1 = append_ledger r d" using r(1) by (simp add: insert_ledger_Inr)
    have "wallet_row ca a (ledger_row r d) \<longleftrightarrow> ca = cl_campaign c \<and> lower_eq (cl_address c) a"
      using r(3,4) by (auto simp: wallet_row_def lower_eq_def)
    then show ?thesis
      using effect [of "[ledger_row r d]" ca a] bal led bal' r(2,5)
      by (simp add: d1 balance_ok_def balance_def points_where_append_ledger adj)
  qed
  then show ?thesis using struct' by (simp add: points_inv_def balance_ok_def)
qed

end
