(* ===== verification/Campaign_Award.thy ===== *)
theory Campaign_Award
  imports Campaign_Service
begin

text \<open>
  The periodic award job: \<open>scripts/84-campaign-award.lib.ts\<close> (the pure plan) and
  \<open>scripts/84-campaign-award.ts\<close> (\<open>runCampaignAward\<close>). The job is serialised by the cron lock, so
  it runs as one sequence of statements on the database; a statement that fails ends the run with
  the driver's error and leaves what was written before.
\<close>

section \<open>The plan\<close>

record AwardCandidate =
  ac_txHash :: tx_hash
  ac_address :: address
  ac_userId :: "user_id option"
  ac_kind :: ActionKind
  ac_meetsMinNotional :: bool
  ac_closedAtMs :: ms

record SkipCounts =
  sk_outsideWindow :: int
  sk_kindNotAwarded :: int
  sk_belowMinNotional :: int
  sk_dailyCapReached :: int

definition EMPTY_SKIPS :: SkipCounts where
  "EMPTY_SKIPS = \<lparr>sk_outsideWindow = 0, sk_kindNotAwarded = 0, sk_belowMinNotional = 0, sk_dailyCapReached = 0\<rparr>"

fun skip :: "ActionAwardSkipReason \<Rightarrow> SkipCounts \<Rightarrow> SkipCounts" where
  "skip OutsideWindow s = s\<lparr>sk_outsideWindow := sk_outsideWindow s + 1\<rparr>"
| "skip KindNotAwarded s = s\<lparr>sk_kindNotAwarded := sk_kindNotAwarded s + 1\<rparr>"
| "skip BelowMinNotional s = s\<lparr>sk_belowMinNotional := sk_belowMinNotional s + 1\<rparr>"
| "skip DailyCapReached s = s\<lparr>sk_dailyCapReached := sk_dailyCapReached s + 1\<rparr>"

record AwardPlan =
  ap_awards :: "PlannedAward list"
  ap_skipped :: SkipCounts

text \<open>A \<open>Map\<close> keyed by \<open>countKey\<close>.\<close>

definition countKey :: "address \<Rightarrow> string \<Rightarrow> string \<Rightarrow> string" where
  "countKey a reason day = toLowerCase a @ ''|'' @ reason @ ''|'' @ day"

type_synonym counts = "string \<Rightarrow> int option"

definition count_of :: "counts \<Rightarrow> string \<Rightarrow> int" where
  "count_of m k = (case m k of None \<Rightarrow> 0 | Some n \<Rightarrow> n)"

definition countsFromRows :: "CountedRow list \<Rightarrow> counts" where
  "countsFromRows rows =
     fold (\<lambda>r m. let k = countKey (co_address r) (co_reason r) (co_day r) in m(k \<mapsto> count_of m k + co_n r))
       rows Map.empty"

definition checkinSetsFromRows :: "(address \<times> string) list \<Rightarrow> string \<Rightarrow> string set option" where
  "checkinSetsFromRows rows =
     fold (\<lambda>(a, day) m. let key = toLowerCase a in
        m(key \<mapsto> insert day (case m key of None \<Rightarrow> {} | Some s \<Rightarrow> s))) rows Map.empty"

definition checkins_of :: "(string \<Rightarrow> string set option) \<Rightarrow> address \<Rightarrow> string set" where
  "checkins_of daySets a = (case daySets (toLowerCase a) of None \<Rightarrow> {} | Some s \<Rightarrow> s)"

text \<open>One turn of the loop; \<open>None\<close> when the streak computation throws.\<close>

definition plan_step ::
    "ms option \<Rightarrow> ms option \<Rightarrow> (string \<Rightarrow> string set option) \<Rightarrow> AwardCandidate \<Rightarrow> counts \<times> AwardPlan
     \<Rightarrow> (counts \<times> AwardPlan) option" where
  "plan_step startsAt endsAt daySets c st =
     (let reason = action_reason (ac_kind c);
          day = utcDay (ac_closedAtMs c);
          key = countKey (ac_address c) reason day;
          cnts = fst st; plan = snd st in
      case streakLengthBefore (checkins_of daySets (ac_address c)) day of
        None \<Rightarrow> None
      | Some streak \<Rightarrow>
          (case actionAward \<lparr>af_kind = ac_kind c, af_meetsMinNotional = ac_meetsMinNotional c,
                 af_closedAtMs = ac_closedAtMs c, af_countedSameDayBefore = count_of cnts key,
                 af_streakDaysBeforeDay = int streak, af_startsAtMs = startsAt, af_endsAtMs = endsAt\<rparr> of
             Inl r \<Rightarrow> Some (cnts, plan\<lparr>ap_skipped := skip r (ap_skipped plan)\<rparr>)
           | Inr a \<Rightarrow>
               Some (cnts(key \<mapsto> count_of cnts key + 1),
                     plan\<lparr>ap_awards := ap_awards plan @
                       [\<lparr>pa_txHash = ac_txHash c, pa_address = ac_address c, pa_userId = ac_userId c,
                         pa_reason = ad_reason a, pa_basePoints = ad_basePoints a, pa_multiplier = ad_multiplier a,
                         pa_points = ad_points a, pa_countedDay = ad_countedDay a\<rparr>]\<rparr>)))"

fun plan_loop ::
    "ms option \<Rightarrow> ms option \<Rightarrow> (string \<Rightarrow> string set option) \<Rightarrow> AwardCandidate list \<Rightarrow> counts \<times> AwardPlan
     \<Rightarrow> (counts \<times> AwardPlan) option" where
  "plan_loop startsAt endsAt daySets [] st = Some st"
| "plan_loop startsAt endsAt daySets (c # cs) st =
     (case plan_step startsAt endsAt daySets c st of
        None \<Rightarrow> None
      | Some st' \<Rightarrow> plan_loop startsAt endsAt daySets cs st')"

definition planActionAwards ::
    "AwardCandidate list \<Rightarrow> counts \<Rightarrow> (string \<Rightarrow> string set option) \<Rightarrow> ms option \<Rightarrow> ms option \<Rightarrow> AwardPlan option" where
  "planActionAwards candidates countedBefore daySets startsAt endsAt =
     map_option snd
       (plan_loop startsAt endsAt daySets candidates
          (countedBefore, \<lparr>ap_awards = [], ap_skipped = EMPTY_SKIPS\<rparr>))"

section \<open>runCampaignAward\<close>

record AwardSummary =
  as_dark :: bool
  as_awardedActions :: int
  as_skippedByReason :: SkipCounts
  as_referralsCredited :: int
  as_referralsPending :: int
  as_perksGranted :: int

definition empty_summary :: AwardSummary where
  "empty_summary = \<lparr>as_dark = False, as_awardedActions = 0, as_skippedByReason = EMPTY_SKIPS,
     as_referralsCredited = 0, as_referralsPending = 0, as_perksGranted = 0\<rparr>"

definition kind_of :: "string \<Rightarrow> ActionKind option" where
  "kind_of s = List.find (\<lambda>k. action_key k = s) [SdexSwap, BlendDeposit, BlendWithdraw]"

text \<open>The candidates as the job maps them; the query only returns awardable kinds.\<close>

definition candidate_of :: "WitnessRow \<times> EnrollmentRow \<Rightarrow> AwardCandidate option" where
  "candidate_of = (\<lambda>(w, e). map_option (\<lambda>k. \<lparr>ac_txHash = wt_tx_hash w, ac_address = en_address e,
     ac_userId = Some (en_user_id e), ac_kind = k, ac_meetsMinNotional = wt_meets_min_notional w,
     ac_closedAtMs = wt_ledger_closed_at w\<rparr>) (kind_of (wt_kind w)))"

text \<open>A run's state: the database and the result so far; \<open>Inl\<close> stops the run.\<close>

fun insert_awards :: "ms \<Rightarrow> PlannedAward list \<Rightarrow> int \<Rightarrow> Db \<Rightarrow> (JsError + int) \<times> Db" where
  "insert_awards now [] n d = (Inr n, d)"
| "insert_awards now (p # ps) n d =
     (case insertActionAward now CAMPAIGN_ID p d of
        Inl err \<Rightarrow> (Inl err, d)
      | Inr (k, d') \<Rightarrow> insert_awards now ps (n + k) d')"

fun credit_loop ::
    "ms \<Rightarrow> ms option \<Rightarrow> ms option \<Rightarrow> ReferralRow list \<Rightarrow> int \<times> int \<Rightarrow> Db \<Rightarrow> (JsError + int \<times> int) \<times> Db" where
  "credit_loop now startsAt endsAt [] acc d = (Inr acc, d)"
| "credit_loop now startsAt endsAt (link # links) acc d =
     (let witness = findRefereeFirstQualifyingWitness (rf_referee_address link) (rf_linked_at link) d in
      case (referralCredit (rf_linked_at link) (map_option wt_ledger_closed_at witness) startsAt endsAt, witness) of
        (Inr (referrerPoints, refereePoints), Some w) \<Rightarrow>
          (case creditReferral now
                  \<lparr>cr_campaign = CAMPAIGN_ID, cr_refereeAddress = rf_referee_address link,
                   cr_referrerAddress = rf_referrer_address link, cr_txHash = wt_tx_hash w,
                   cr_countedDay = utcDay (wt_ledger_closed_at w), cr_referrerPoints = referrerPoints,
                   cr_refereePoints = refereePoints\<rparr> d of
             Inl err \<Rightarrow> (Inl err, d)
           | Inr d' \<Rightarrow> credit_loop now startsAt endsAt links (fst acc + 1, snd acc) d')
      | _ \<Rightarrow> credit_loop now startsAt endsAt links (fst acc, snd acc + 1) d)"

fun grant_loop :: "ms \<Rightarrow> (address \<times> int \<times> PerkKey) list \<Rightarrow> int \<Rightarrow> Db \<Rightarrow> (JsError + int) \<times> Db" where
  "grant_loop now [] n d = (Inr n, d)"
| "grant_loop now ((a, bal, k) # gs) n d =
     (case insertPerk \<lparr>pk_campaign = CAMPAIGN_ID, pk_address = a, pk_perk_key = k, pk_granted_at = now,
                       pk_points_at_grant = bal\<rparr> d of
        Inl err \<Rightarrow> (Inl err, d)
      | Inr (m, d') \<Rightarrow> grant_loop now gs (n + m) d')"

definition grants_due :: "(address \<times> int) list \<Rightarrow> (address \<times> int \<times> PerkKey) list" where
  "grants_due balances = concat (map (\<lambda>(a, bal). map (\<lambda>k. (a, bal, k)) (perksFor bal)) balances)"

datatype AwardFailure = DbFailure JsError | RangeFailure

definition award_plan :: "ms \<Rightarrow> ms option \<Rightarrow> Db \<Rightarrow> AwardPlan option" where
  "award_plan startsAt endsAt d =
     planActionAwards (List.map_filter candidate_of (findActionCandidates CAMPAIGN_ID startsAt endsAt d))
       (countsFromRows (countedActionsByDay CAMPAIGN_ID d))
       (checkinSetsFromRows (checkinDaysByWallet CAMPAIGN_ID d)) (Some startsAt) endsAt"

definition runCampaignAward :: "Env \<Rightarrow> ms \<Rightarrow> Db \<Rightarrow> (AwardFailure + AwardSummary) \<times> Db" where
  "runCampaignAward env now d =
     (case (if isCampaignEnabled env then campaignStartsAt env else None) of
        None \<Rightarrow> (Inr (empty_summary\<lparr>as_dark := True\<rparr>), d)
      | Some startsAt \<Rightarrow>
          let endsAt = campaignEndsAt env in
          (case award_plan startsAt endsAt d of
             None \<Rightarrow> (Inl RangeFailure, d)
           | Some plan \<Rightarrow>
               (case insert_awards now (ap_awards plan) 0 d of
                  (Inl err, d1) \<Rightarrow> (Inl (DbFailure err), d1)
                | (Inr awarded, d1) \<Rightarrow>
                    (case credit_loop now (Some startsAt) endsAt (findUncreditedReferrals CAMPAIGN_ID d1) (0, 0) d1 of
                       (Inl err, d2) \<Rightarrow> (Inl (DbFailure err), d2)
                     | (Inr (credited, pending), d2) \<Rightarrow>
                         (case grant_loop now (grants_due (balancesOfEnrolled CAMPAIGN_ID d2)) 0 d2 of
                            (Inl err, d3) \<Rightarrow> (Inl (DbFailure err), d3)
                          | (Inr granted, d3) \<Rightarrow>
                              (Inr \<lparr>as_dark = False, as_awardedActions = awarded, as_skippedByReason = ap_skipped plan,
                                    as_referralsCredited = credited, as_referralsPending = pending,
                                    as_perksGranted = granted\<rparr>, d3))))))"

end
