(* ===== verification/Campaign_Steps.thy ===== *)
theory Campaign_Steps
  imports Campaign_Points Campaign_Award
begin

text \<open>
  The campaign as a transition system: what each handler and the award job write, the step
  relation, and the points invariant in every reachable database.
\<close>

section \<open>What each operation can do to the tables\<close>

lemma consumeChallenge_frame:
  "consumeChallenge now nonce a d = (r, d') \<Longrightarrow>
     d' = d\<lparr>db_challenges :=
       map (\<lambda>c. if consumable now nonce a c then c\<lparr>ch_used_at := Some now\<rparr> else c) (db_challenges d)\<rparr>"
  by (simp add: consumeChallenge_def)

lemma issueChallenge_frame:
  "snd (issueChallenge now nonce a d) = d\<lparr>db_challenges := db_challenges (snd (issueChallenge now nonce a d))\<rparr>"
  by (auto simp: issueChallenge_def createChallenge_def deleteStaleChallenges_def Let_def)

lemma insert_proof_frame: "insert_proof p d = Inr (r, d') \<Longrightarrow> d' = d\<lparr>db_proofs := db_proofs d'\<rparr>"
  by (auto simp: insert_proof_def Let_def split: if_splits)

lemma upsertBoundProof_frame: "upsertBoundProof p d = Inr (r, d') \<Longrightarrow> d' = d\<lparr>db_proofs := db_proofs d'\<rparr>"
  by (auto simp: upsertBoundProof_def Let_def dest: insert_proof_frame split: if_splits option.splits)

lemma consumeUnboundProof_frame:
  "consumeUnboundProof now a u m d = Inr (r, d') \<Longrightarrow> d' = d\<lparr>db_proofs := db_proofs d'\<rparr>"
  by (auto simp: consumeUnboundProof_def Let_def split: if_splits list.splits)

lemma verifyChallenge_frame:
  "snd (verifyChallenge cr now i p d)
     = d\<lparr>db_challenges := db_challenges (snd (verifyChallenge cr now i p d)),
         db_proofs := db_proofs (snd (verifyChallenge cr now i p d))\<rparr>"
proof -
  obtain r d1 where c: "consumeChallenge now (vp_nonce p) (vp_address p) d = (r, d1)" by fastforce
  have d1: "d1 = d\<lparr>db_challenges := db_challenges d1\<rparr>" using consumeChallenge_frame [OF c] by simp
  have "d2 = d\<lparr>db_challenges := db_challenges d2, db_proofs := db_proofs d2\<rparr>"
    if "upsertBoundProof q d1 = Inr (row, d2) \<or> insertUnboundProof q d1 = Inr (row, d2)" for q row d2
  proof -
    have "d2 = d1\<lparr>db_proofs := db_proofs d2\<rparr>"
      using that upsertBoundProof_frame insert_proof_frame unfolding insertUnboundProof_def by blast
    then have "d2 = (d\<lparr>db_challenges := db_challenges d1\<rparr>)\<lparr>db_proofs := db_proofs d2\<rparr>" using d1 by simp
    moreover from this have "db_challenges d2 = db_challenges d1" by (metis Db.select_convs(1) Db.surjective Db.update_convs(1,2))
    ultimately show ?thesis by simp
  qed
  moreover have "d1 = d\<lparr>db_challenges := db_challenges d1, db_proofs := db_proofs d1\<rparr>"
    by (subst (1 2) d1) simp
  ultimately show ?thesis
    by (auto simp: verifyChallenge_def c Let_def split: option.splits sum.splits prod.splits)
qed

section \<open>The points invariant over every handler\<close>

lemma points_inv_other_tables:
  "db_ledger d' = db_ledger d \<Longrightarrow> db_ledger_seq d' = db_ledger_seq d \<Longrightarrow> db_claims d' = db_claims d \<Longrightarrow>
   db_checkins d' = db_checkins d \<Longrightarrow> db_perks d' = db_perks d \<Longrightarrow> points_inv d' = points_inv d"
  by (simp add: points_inv_def points_struct_def social_linked_def balance_ok_def balance_def points_where_def
      effective_def claim_active_def)

lemma checkinToday_writes:
  assumes "checkinToday now campaign a d = Inr (r, d')"
  shows "d' = d \<or> (\<exists>e d1 n. findEnrollment campaign a d = Some e
    \<and> insert_checkin \<lparr>ci_campaign = campaign, ci_address = en_address e, ci_day = utcDay now, ci_created_at = now\<rparr> d
        = Inr d1
    \<and> insert_ledger (streak_row now campaign e (utcDay now)) d1 = Inr (n, d'))"
  using assms by (auto simp: checkinToday_def Let_def split: option.splits sum.splits if_splits prod.splits)

lemma points_inv_insert_checkin: "points_inv d \<Longrightarrow> insert_checkin r d = Inr d' \<Longrightarrow> points_inv d'"
proof -
  assume inv: "points_inv d" and ins: "insert_checkin r d = Inr d'"
  have d': "d' = d\<lparr>db_checkins := db_checkins d @ [r]\<rparr>" using ins by (auto simp: insert_checkin_def split: if_splits)
  have "unique_on checkin_row_key (db_checkins d')"
    using inv by (intro checkin_days.keeps_unique [OF _ ins]) (simp add: points_inv_def points_struct_def)
  then show ?thesis using inv unfolding d'
    by (simp add: points_inv_def points_struct_def social_linked_def balance_ok_def balance_def points_where_def
      effective_def claim_active_def)
qed

lemma points_inv_checkinToday:
  "points_inv d \<Longrightarrow> checkinToday now campaign a d = Inr (r, d') \<Longrightarrow> points_inv d'"
  using checkinToday_writes points_inv_insert_checkin points_inv_plain plain_rows(1) by metis

lemma points_inv_checkin: "points_inv d \<Longrightarrow> points_inv (snd (checkin env now a u d))"
  by (auto simp: checkin_def dest: points_inv_checkinToday split: sum.splits prod.splits)

lemma socialClaimEligibility_Inr:
  "socialClaimEligibility f = Inr aw \<Longrightarrow>
     campaignStatus (sf_window f) = Inr () \<and> sf_proven f \<and> sf_enrolled f \<and> sf_taskAvailable f
     \<and> (\<exists>k. sf_task f = social_key k \<and> aw = \<lparr>sa_reason = social_reason k, sa_basePoints = SOCIAL_TASKS k, sa_points = SOCIAL_TASKS k\<rparr>
            \<and> sf_awardedTodayPoints f + SOCIAL_TASKS k \<le> SOCIAL_DAILY_CAP)
     \<and> list_all (\<lambda>c. fst c \<noteq> sf_task f \<and> snd c = sf_handle f) (sf_existingClaims f)
     \<and> \<not> sf_handleUsedByOtherWallet f"
  by (auto simp: socialClaimEligibility_def socialAward_def Let_def list_ex_iff list_all_iff social_task_of_Some
      split: sum.splits if_splits option.splits)

lemma claim_transaction_writes:
  assumes "claim_transaction env now i proven p snap d = Inr (r, d')"
  shows "(d' = d \<and> (\<exists>x. r = Inl x)) \<or>
    (\<exists>e aw c d1 n. r = Inr \<lparr>so_id = i, so_task = sp_task p, so_points = sa_points aw\<rparr>
     \<and> findEnrollment CAMPAIGN_ID (sp_address p) d = Some e
     \<and> c = \<lparr>cl_id = i, cl_campaign = CAMPAIGN_ID, cl_address = en_address e, cl_task_key = sp_task p,
            cl_handle_normalized = sp_handle p, cl_claimed_at = now, cl_deleted_at = None\<rparr>
     \<and> socialClaimEligibility \<lparr>sf_window = campaign_window env now, sf_proven = proven, sf_enrolled = True, sf_task = sp_task p,
         sf_taskAvailable = taskAvailable env (sp_task p), sf_handle = sp_handle p,
         sf_existingClaims = socialClaimHandles CAMPAIGN_ID (en_address e) d,
         sf_handleUsedByOtherWallet = handleUsedByOtherWallet CAMPAIGN_ID (sp_handle p) (en_address e) snap,
         sf_awardedTodayPoints = socialPointsAwardedOn CAMPAIGN_ID (en_address e) (utcDay now) d\<rparr> = Inr aw
     \<and> insertSocialClaim c d = Inr d1
     \<and> insert_ledger (social_row now CAMPAIGN_ID (en_address e) (Some (en_user_id e)) aw i (utcDay now)) d1 = Inr (n, d'))"
  using assms
  by (auto simp: claim_transaction_def lockEnrollment_def Let_def insertSocialAward_def todayUtc_def
      split: option.splits sum.splits prod.splits)

lemma social_row_simps [simp]:
  "lr_campaign (social_row now ca a u aw i day) = ca" "lr_address (social_row now ca a u aw i day) = a"
  "lr_reason (social_row now ca a u aw i day) = sa_reason aw" "lr_points (social_row now ca a u aw i day) = sa_points aw"
  "lr_social_claim_id (social_row now ca a u aw i day) = Some i"
  "lr_counted_day (social_row now ca a u aw i day) = Some day"
  by (simp_all add: social_row_def blank_ledger_row_def)

lemma points_inv_claim_transaction:
  assumes "points_inv d" "claim_transaction env now i proven p snap d = Inr (r, d')"
  shows "points_inv d'"
  using claim_transaction_writes [OF assms(2)]
proof (elim disjE exE conjE)
  fix e aw c d1 n
  assume c: "c = \<lparr>cl_id = i, cl_campaign = CAMPAIGN_ID, cl_address = en_address e, cl_task_key = sp_task p,
      cl_handle_normalized = sp_handle p, cl_claimed_at = now, cl_deleted_at = None\<rparr>"
    and el: "socialClaimEligibility \<lparr>sf_window = campaign_window env now, sf_proven = proven, sf_enrolled = True, sf_task = sp_task p,
         sf_taskAvailable = taskAvailable env (sp_task p), sf_handle = sp_handle p,
         sf_existingClaims = socialClaimHandles CAMPAIGN_ID (en_address e) d,
         sf_handleUsedByOtherWallet = handleUsedByOtherWallet CAMPAIGN_ID (sp_handle p) (en_address e) snap,
         sf_awardedTodayPoints = socialPointsAwardedOn CAMPAIGN_ID (en_address e) (utcDay now) d\<rparr> = Inr aw"
    and ins: "insertSocialClaim c d = Inr d1"
    and row: "insert_ledger (social_row now CAMPAIGN_ID (en_address e) (Some (en_user_id e)) aw i (utcDay now)) d1 = Inr (n, d')"
  obtain k where k: "sp_task p = social_key k" "sa_reason aw = social_reason k"
    using socialClaimEligibility_Inr [OF el] by auto
  have "c \<in> set (db_claims d1)" using insertSocialClaim_Inr [OF ins] by simp
  moreover have "cl_id c = i" "cl_deleted_at c = None" "\<And>u. row_claim (social_row now CAMPAIGN_ID (en_address e) u aw i (utcDay now)) c"
    using c k by (simp_all add: row_claim_def social_reason_def lower_eq_def)
  moreover have "points_inv d1" using assms(1) ins by (rule points_inv_insert_claim)
  moreover have "\<not> starts_with ''adjust:'' (social_reason k)" by (simp add: social_reason_def)
  ultimately show ?thesis using k
    by (intro points_inv_insert_ledger [OF _ row]) (auto simp: effective_def claim_active_def)
qed (use assms in simp)

lemma points_inv_social_claim: "points_inv d \<Longrightarrow> points_inv (snd (social_claim env now i p snap d))"
  by (auto simp: social_claim_def Let_def dest: points_inv_claim_transaction split: sum.splits prod.splits option.splits)

lemma social_delete_row_simps [simp]:
  "lr_campaign (social_delete_row now ca a u x pts) = ca" "lr_address (social_delete_row now ca a u x pts) = a"
  "lr_reason (social_delete_row now ca a u x pts) = SOCIAL_DELETE_REASON"
  "lr_points (social_delete_row now ca a u x pts) = - \<bar>pts\<bar>"
  "lr_social_claim_id (social_delete_row now ca a u x pts) = None"
  "lr_counted_day (social_delete_row now ca a u x pts) = None"
  by (simp_all add: social_delete_row_def blank_ledger_row_def)

text \<open>The correction row of a delete, unless nothing was credited.\<close>

definition correction_written :: "ms \<Rightarrow> EnrollmentRow \<Rightarrow> ClaimRow \<Rightarrow> Db \<Rightarrow> Db \<Rightarrow> bool" where
  "correction_written now e c d d1 \<longleftrightarrow>
     (credited_points d c = 0 \<and> d1 = d) \<or>
     (\<exists>l n. insert_ledger (social_delete_row now CAMPAIGN_ID (en_address e) (Some (en_user_id e)) l (credited_points d c)) d
        = Inr (n, d1))"

lemma remove_transaction_writes:
  assumes "remove_transaction now a i d = Inr (r, d')"
  shows "d' = d \<or> (\<exists>e c d1. findEnrollment CAMPAIGN_ID a d = Some e \<and> c \<in> set (db_claims d)
    \<and> active_claim_of CAMPAIGN_ID (en_address e) c
    \<and> r = Inr (cl_id c, credited_points d c)
    \<and> correction_written now e c d d1
    \<and> d' = snd (softDeleteSocialClaim now (cl_campaign c) (cl_id c) d1))"
proof (cases "findEnrollment CAMPAIGN_ID a d")
  case (Some e)
  show ?thesis
  proof (cases "findOwnedSocialClaim CAMPAIGN_ID i (en_address e) d")
    case None then show ?thesis using assms Some by (simp add: remove_transaction_def lockEnrollment_def)
  next
    case c: (Some c)
    then have own: "c \<in> set (db_claims d)" "active_claim_of CAMPAIGN_ID (en_address e) c"
      by (auto simp: findOwnedSocialClaim_def dest: find_Some_in)
    then have camp: "cl_campaign c = CAMPAIGN_ID" by (simp add: active_claim_of_def)
    have "(\<exists>d1. r = Inr (cl_id c, credited_points d c) \<and> correction_written now e c d d1 \<and> d' = snd (softDeleteSocialClaim now (cl_campaign c) (cl_id c) d1))"
      using assms Some c camp
      by (auto simp: correction_written_def remove_transaction_def lockEnrollment_def Let_def credited_points_def insertSocialDeleteAdjust_def
          map_sum_def id_def split: option.splits sum.splits if_splits prod.splits) blast
    then show ?thesis using Some own by blast
  qed
qed (use assms in \<open>simp add: remove_transaction_def lockEnrollment_def\<close>)

lemma points_inv_remove_transaction:
  assumes inv: "points_inv d" and "remove_transaction now a i d = Inr (r, d')"
  shows "points_inv d'"
proof (cases "d' = d")
  case False
  then obtain e c d1 where c: "c \<in> set (db_claims d)" and own: "active_claim_of CAMPAIGN_ID (en_address e) c"
    and d': "d' = snd (softDeleteSocialClaim now (cl_campaign c) (cl_id c) d1)"
    and w: "correction_written now e c d d1"
    using remove_transaction_writes [OF assms(2)] by blast
  have pos: "0 \<le> credited_points d c" using inv credited_points_nonneg by (simp add: points_inv_def)
  have own': "cl_deleted_at c = None" "cl_campaign c = CAMPAIGN_ID" "lower_eq (en_address e) (cl_address c)"
    using own by (simp_all add: active_claim_of_def lower_eq_def)
  have "(credited_points d c = 0 \<and> d1 = d) \<or> (\<exists>r n. insert_ledger r d = Inr (n, d1)
        \<and> lr_reason r = SOCIAL_DELETE_REASON \<and> lr_social_claim_id r = None \<and> lr_campaign r = cl_campaign c
        \<and> lower_eq (lr_address r) (cl_address c) \<and> lr_points r = - credited_points d c)"
  proof (cases "credited_points d c = 0 \<and> d1 = d")
    case False
    then obtain l n where "insert_ledger (social_delete_row now CAMPAIGN_ID (en_address e) (Some (en_user_id e)) l
        (credited_points d c)) d = Inr (n, d1)" using w by (auto simp: correction_written_def)
    then show ?thesis
      using pos own'(2,3)
      by (intro disjI2 exI [of _ "social_delete_row now CAMPAIGN_ID (en_address e) (Some (en_user_id e)) l (credited_points d c)"]
          exI [of _ n]) simp
  qed simp
  then show ?thesis unfolding d' by (rule points_inv_remove [OF inv c own'(1)])
qed (use inv in simp)

lemma points_inv_social_remove: "points_inv d \<Longrightarrow> points_inv (snd (social_remove now a u i d))"
  by (auto simp: social_remove_def dest: points_inv_remove_transaction split: sum.splits prod.splits)

lemma points_inv_updates [simp]:
  "points_inv (d\<lparr>db_proofs := x1\<rparr>) = points_inv d" "points_inv (d\<lparr>db_challenges := x2\<rparr>) = points_inv d"
  "points_inv (d\<lparr>db_enrollments := x3\<rparr>) = points_inv d" "points_inv (d\<lparr>db_referrals := x4\<rparr>) = points_inv d"
  "points_inv (d\<lparr>db_witnesses := x5\<rparr>) = points_inv d" "points_inv (d\<lparr>db_wallets_created := x6\<rparr>) = points_inv d"
  by (rule points_inv_other_tables; simp)+

section \<open>Invariants of the award job's loops\<close>

lemma insertActionAward_Inr:
  "insertActionAward now ca p d = Inr (k, d') \<Longrightarrow>
     (k = 0 \<and> d' = d \<and> (\<exists>m pts. ledger_checks (action_row now ca p m pts) \<and> ledger_conflict (action_row now ca p m pts) d \<noteq> None)) \<or>
     (k = 1 \<and> (\<exists>m pts n. numeric_4_2 (pa_multiplier p) = Some m \<and> pg_int4 (pa_points p) = Some pts
        \<and> insert_ledger (action_row now ca p m pts) d = Inr (n, d')))"
  by (auto simp: insertActionAward_def insert_ledger_or_nothing_Inr split: option.splits)

lemma insert_awards_inv:
  assumes "P d" and step: "\<And>p d k d'. p \<in> set ps \<Longrightarrow> P d \<Longrightarrow> insertActionAward now CAMPAIGN_ID p d = Inr (k, d') \<Longrightarrow> P d'"
  shows "P (snd (insert_awards now ps n d))"
  using assms
proof (induction ps arbitrary: n d)
  case (Cons p ps)
  show ?case
  proof (cases "insertActionAward now CAMPAIGN_ID p d")
    case (Inr x)
    then obtain k d' where x: "insertActionAward now CAMPAIGN_ID p d = Inr (k, d')" by (cases x) simp
    have "P d'" using Cons.prems(1) x by (rule Cons.prems(2) [rotated]) simp
    then have "P (snd (insert_awards now ps (n + k) d'))"
      by (rule Cons.IH) (rule Cons.prems(2), auto)
    then show ?thesis using x by simp
  qed (use Cons.prems in simp)
qed simp

lemma credit_loop_inv:
  assumes "P d" and step: "\<And>cr d d'. P d \<Longrightarrow> creditReferral now cr d = Inr d' \<Longrightarrow> P d'"
  shows "P (snd (credit_loop now s e ls acc d))"
  using assms(1)
proof (induction ls arbitrary: acc d)
  case (Cons l ls)
  then show ?case using step by (auto simp: Let_def split: sum.splits option.splits prod.splits)
qed simp

lemma grant_loop_inv:
  assumes "P d" and step: "\<And>p d m d'. P d \<Longrightarrow> insertPerk p d = Inr (m, d') \<Longrightarrow> P d'"
  shows "P (snd (grant_loop now gs n d))"
  using assms(1)
proof (induction gs arbitrary: n d)
  case (Cons g gs)
  then show ?case using step by (cases g) (auto split: sum.splits prod.splits)
qed simp

lemma runCampaignAward_inv:
  assumes "P d"
    and "\<And>p d k d'. P d \<Longrightarrow> insertActionAward now CAMPAIGN_ID p d = Inr (k, d') \<Longrightarrow> P d'"
    and "\<And>cr d d'. P d \<Longrightarrow> creditReferral now cr d = Inr d' \<Longrightarrow> P d'"
    and "\<And>p d m d'. P d \<Longrightarrow> insertPerk p d = Inr (m, d') \<Longrightarrow> P d'"
  shows "P (snd (runCampaignAward env now d))"
proof -
  have a: "P d1" if "insert_awards now ps n d = (r, d1)" for ps n r d1
    using insert_awards_inv [of P d ps now n, OF assms(1,2)] that by simp
  have b: "P d2" if "credit_loop now s e ls acc d1 = (r, d2)" "P d1" for s e ls acc d1 r d2
    using credit_loop_inv [of P d1 now s e ls acc, OF that(2) assms(3)] that(1) by simp
  have c: "P d3" if "grant_loop now gs n d2 = (r, d3)" "P d2" for gs n d2 r d3
    using grant_loop_inv [of P d2 now gs n, OF that(2) assms(4)] that(1) by simp
  show ?thesis using assms(1) a b c
    by (auto simp: runCampaignAward_def Let_def split: option.splits prod.splits sum.splits)
qed

lemma points_inv_insertActionAward:
  "points_inv d \<Longrightarrow> insertActionAward now ca p d = Inr (k, d') \<Longrightarrow> points_inv d'"
  using plain_action_row(1) points_inv_plain by (auto dest!: insertActionAward_Inr simp: insert_ledger_Inr)

lemma creditReferral_writes:
  assumes "creditReferral now p d = Inr d'"
  shows "\<exists>u v n m d1 d2.
     insert_ledger_or_nothing (referral_row now p (cr_referrerAddress p) u ''referral:referrer'' (cr_referrerPoints p)) d = Inr (n, d1)
   \<and> insert_ledger_or_nothing (referral_row now p (cr_refereeAddress p) v ''referral:referee'' (cr_refereePoints p)) d1 = Inr (m, d2)
   \<and> mark_credited now p d2 = Inr d'"
  using assms by (auto simp: creditReferral_def Let_def split: sum.splits prod.splits) blast

lemma points_inv_or_nothing:
  "points_inv d \<Longrightarrow> insert_ledger_or_nothing r d = Inr (n, d') \<Longrightarrow> plain_row r \<Longrightarrow> points_inv d'"
  using points_inv_plain by (auto simp: insert_ledger_or_nothing_Inr)

lemma mark_credited_frame: "mark_credited now p d = Inr d' \<Longrightarrow> d' = d\<lparr>db_referrals := db_referrals d'\<rparr>"
  by (auto simp: mark_credited_def Let_def split: if_splits)

lemma points_inv_mark_credited: "points_inv d \<Longrightarrow> mark_credited now p d = Inr d' \<Longrightarrow> points_inv d'"
  using points_inv_other_tables [of d' d] by (auto simp: mark_credited_def Let_def split: if_splits)

lemma points_inv_creditReferral: "points_inv d \<Longrightarrow> creditReferral now p d = Inr d' \<Longrightarrow> points_inv d'"
  by (drule creditReferral_writes) (meson points_inv_or_nothing points_inv_mark_credited plain_rows(2) insertI1 insertI2)

lemma insertPerk_Inr:
  "insertPerk p d = Inr (m, d') \<Longrightarrow>
     (m = 0 \<and> d' = d \<and> conflicts perk_key (db_perks d) p) \<or>
     (m = 1 \<and> d' = d\<lparr>db_perks := db_perks d @ [p]\<rparr> \<and> \<not> conflicts perk_key (db_perks d) p)"
  by (auto simp: insertPerk_def split: if_splits)

lemma points_inv_insertPerk: "points_inv d \<Longrightarrow> insertPerk p d = Inr (m, d') \<Longrightarrow> points_inv d'"
  using points_inv_other_tables
  by (auto dest!: insertPerk_Inr simp: points_inv_def points_struct_def social_linked_def balance_ok_def balance_def
      points_where_def effective_def claim_active_def unique_on_snoc)

lemma points_inv_award: "points_inv d \<Longrightarrow> points_inv (snd (runCampaignAward env now d))"
  by (rule runCampaignAward_inv [of points_inv])
    (blast intro: points_inv_insertActionAward points_inv_creditReferral points_inv_insertPerk)+

section \<open>The campaign as a transition system\<close>

text \<open>
  One step is one API request, one run of the award job, or a write of another module: a verified
  witness, a registered wallet, a wallet-recovery that consumes an unbound proof. \<open>snap\<close> in the
  two racy handlers is any database.
\<close>

inductive campaign_step :: "Db \<Rightarrow> Db \<Rightarrow> bool" where
  challenge: "campaign_step d (snd (issueChallenge now nonce a d))"
| verify: "campaign_step d (snd (verifyChallenge cr now newId p d))"
| enroll: "campaign_step d (snd (enroll env now newIds nextCode ep snap d))"
| checkin: "campaign_step d (snd (checkin env now a userId d))"
| claim: "campaign_step d (snd (social_claim env now newId cp snap d))"
| remove: "campaign_step d (snd (social_remove now a userId claimId d))"
| award: "campaign_step d (snd (runCampaignAward env now d))"
| recover: "consumeUnboundProof now a userId maxAge d = Inr (r, d') \<Longrightarrow> campaign_step d d'"
| witness: "\<forall>x \<in> set (db_witnesses d). wt_tx_hash x \<noteq> wt_tx_hash w \<Longrightarrow>
    campaign_step d (d\<lparr>db_witnesses := db_witnesses d @ [w]\<rparr>)"
| register: "campaign_step d (d\<lparr>db_wallets_created := db_wallets_created d @ [t]\<rparr>)"

inductive campaign_reachable :: "Db \<Rightarrow> bool" where
  start: "campaign_reachable empty_db"
| step: "campaign_reachable d \<Longrightarrow> campaign_step d d' \<Longrightarrow> campaign_reachable d'"

lemma insertEnrollment_frame: "insertEnrollment p d = Inr (r, d') \<Longrightarrow> d' = d\<lparr>db_enrollments := db_enrollments d'\<rparr>"
  by (auto simp: insertEnrollment_def Let_def split: if_splits)

lemma enrollment_attempts_insert:
  "enrollment_attempts n k f d = Inr (r, d') \<Longrightarrow> \<exists>j. insertEnrollment (f j) d = Inr (r, d')"
  by (induction n k f d rule: enrollment_attempts.induct) (auto simp: Let_def split: sum.splits if_splits)

lemma insertEnrollmentWithCodeRetry_insert:
  "insertEnrollmentWithCodeRetry p newId nextCode d = Inr (r, d') \<Longrightarrow>
     \<exists>j. insertEnrollment (p\<lparr>ne_id := newId j, ne_referralCode := nextCode j\<rparr>) d = Inr (r, d')"
  unfolding insertEnrollmentWithCodeRetry_def by (drule enrollment_attempts_insert)

lemma enroll_write_writes:
  assumes "enroll_write now newId nextCode p referrer d = Inr (payload, d')"
  shows "\<exists>q row d1. insertEnrollment q d = Inr (row, d1) \<and> ne_address q = ep_address p \<and> ne_campaign q = CAMPAIGN_ID
    \<and> eo_referralCode payload = en_referral_code row \<and> ne_userId q = ep_userId p
    \<and> (case referrer of None \<Rightarrow> d' = d1
       | Some e \<Rightarrow> insertReferral \<lparr>nr_now = now, nr_campaign = CAMPAIGN_ID, nr_referee = ep_address p,
                     nr_referrer = en_address e, nr_code = en_referral_code e\<rparr> d1 = Inr d')"
  using assms
  by (fastforce simp: enroll_write_def Let_def dest!: insertEnrollmentWithCodeRetry_insert
      split: sum.splits prod.splits option.splits)

lemma enroll_frame:
  "snd (enroll env now i c p snap d) = d \<or>
   (\<exists>referrer payload. enroll_write now i c p referrer d = Inr (payload, snd (enroll env now i c p snap d)))"
  by (auto simp: enroll_def Let_def split: sum.splits prod.splits if_splits)

lemma insertReferral_frame: "insertReferral p d = Inr d' \<Longrightarrow> d' = d\<lparr>db_referrals := db_referrals d @ [referral_of p]\<rparr>"
  by (auto simp: insertReferral_def Let_def split: if_splits)

lemma enroll_write_frame:
  assumes "enroll_write now i c p referrer d = Inr (payload, d')"
  shows "d' = d\<lparr>db_enrollments := db_enrollments d', db_referrals := db_referrals d'\<rparr>"
  using enroll_write_writes [OF assms]
  by (auto dest!: insertReferral_frame simp: insertEnrollment_def Let_def split: option.splits if_splits)

lemma points_inv_step: "campaign_step d d' \<Longrightarrow> points_inv d \<Longrightarrow> points_inv d'"
proof (induction rule: campaign_step.induct)
  case (challenge d now nonce a)
  show ?case using challenge by (subst issueChallenge_frame) simp
next
  case (verify d cr now newId p)
  show ?case using verify by (subst verifyChallenge_frame) simp
next
  case (enroll d env now newIds nextCode ep snap)
  show ?case
  proof (cases "snd (enroll env now newIds nextCode ep snap d) = d")
    case False
    then obtain referrer payload
      where "enroll_write now newIds nextCode ep referrer d = Inr (payload, snd (enroll env now newIds nextCode ep snap d))"
      using enroll_frame by blast
    from enroll_write_frame [OF this] obtain x y where "snd (enroll env now newIds nextCode ep snap d)
        = d\<lparr>db_enrollments := x, db_referrals := y\<rparr>" by blast
    then show ?thesis using enroll by simp
  qed (use enroll in simp)
next
  case (recover now a userId maxAge d r d')
  then obtain x where "d' = d\<lparr>db_proofs := x\<rparr>" using consumeUnboundProof_frame by blast
  then show ?case using recover by simp
next
  case (witness d w)
  then show ?case by simp
next
  case (register d t)
  then show ?case by simp
qed (simp_all add: points_inv_checkin points_inv_social_claim points_inv_social_remove points_inv_award)

lemma points_inv_empty: "points_inv empty_db"
  by (simp add: points_inv_def points_struct_def empty_db_def social_linked_def balance_ok_def balance_def points_where_def)

lemma points_inv_reachable: "campaign_reachable d \<Longrightarrow> points_inv d"
  by (induction rule: campaign_reachable.induct) (auto intro: points_inv_empty points_inv_step)

text \<open>A balance is the sum of the awards that still count; it is never negative.\<close>

lemma effective_nonneg: "points_inv d \<Longrightarrow> r \<in> set (db_ledger d) \<Longrightarrow> effective d r \<Longrightarrow> 0 \<le> lr_points r"
  by (auto simp: points_inv_def points_struct_def ledger_checks_def effective_def)

lemma balance_nonneg:
  assumes "points_inv d"
  shows "0 \<le> balance campaign a d"
proof -
  have "0 \<le> points_where (\<lambda>r. wallet_row campaign a r \<and> effective d r) d"
    unfolding points_where_def using effective_nonneg [OF assms] by (intro sum_list_int_nonneg) auto
  then show ?thesis using assms by (simp add: points_inv_def balance_ok_def)
qed

end
