(* ===== verification/Campaign_Caps.thy ===== *)
theory Campaign_Caps
  imports Campaign_Steps
begin

text \<open>
  Enrollments stay unique, the ledger and the perks only grow, and the daily caps on social points
  and on awarded actions hold in every reachable database.
\<close>

section \<open>Enrollments and links\<close>

definition enrollments_inv :: "Db \<Rightarrow> bool" where
  "enrollments_inv d \<longleftrightarrow>
     unique_on enrollment_id_key (db_enrollments d) \<and> unique_on enrollment_wallet_key (db_enrollments d)
     \<and> unique_on enrollment_code_key (db_enrollments d) \<and> unique_on referral_key (db_referrals d)
     \<and> (\<forall>e \<in> set (db_enrollments d). STELLAR_PUBKEY_RE (en_address e))
     \<and> (\<forall>r \<in> set (db_referrals d). rf_referee_address r \<noteq> rf_referrer_address r)"

lemma enrollments_inv_updates [simp]:
  "enrollments_inv (d\<lparr>db_proofs := x1\<rparr>) = enrollments_inv d" "enrollments_inv (d\<lparr>db_challenges := x2\<rparr>) = enrollments_inv d"
  "enrollments_inv (d\<lparr>db_ledger := x3\<rparr>) = enrollments_inv d" "enrollments_inv (d\<lparr>db_claims := x4\<rparr>) = enrollments_inv d"
  "enrollments_inv (d\<lparr>db_witnesses := x5\<rparr>) = enrollments_inv d" "enrollments_inv (d\<lparr>db_wallets_created := x6\<rparr>) = enrollments_inv d"
  "enrollments_inv (d\<lparr>db_perks := x7\<rparr>) = enrollments_inv d" "enrollments_inv (d\<lparr>db_checkins := x8\<rparr>) = enrollments_inv d"
  "enrollments_inv (append_ledger r d) = enrollments_inv d"
  by (simp_all add: enrollments_inv_def)

lemma enrollments_inv_insert:
  assumes "enrollments_inv d" "insertEnrollment p d = Inr (r, d')"
  shows "enrollments_inv d'"
proof -
  have ins: "drop_result (insertEnrollment p d) = Inr d'" using assms(2) by simp
  have u: "unique_on enrollment_id_key (db_enrollments d)" "unique_on enrollment_wallet_key (db_enrollments d)"
      "unique_on enrollment_code_key (db_enrollments d)" using assms(1) by (simp_all add: enrollments_inv_def)
  note keep = enrolled_ids.keeps_unique [OF u(1) ins] enrolled_wallets.keeps_unique [OF u(2) ins]
    enrolled_codes.keeps_unique [OF u(3) ins]
  have "db_referrals d' = db_referrals d" "db_enrollments d' = db_enrollments d @ [enrollment_of p]" "STELLAR_PUBKEY_RE (ne_address p)"
    using assms(2) by (auto simp: insertEnrollment_def Let_def split: if_splits)
  then show ?thesis using keep assms(1) by (auto simp: enrollments_inv_def enrollment_of_def)
qed

lemma enrollments_inv_referral:
  assumes "enrollments_inv d" "insertReferral p d = Inr d'"
  shows "enrollments_inv d'"
proof -
  have "unique_on referral_key (db_referrals d')"
    using assms(1) by (intro referral_links.keeps_unique [OF _ assms(2)]) (simp add: enrollments_inv_def)
  then show ?thesis using assms by (auto simp: enrollments_inv_def insertReferral_def referral_of_def Let_def split: if_splits)
qed

lemma enrollments_inv_enroll: "enrollments_inv d \<Longrightarrow> enrollments_inv (snd (enroll env now i c p snap d))"
proof (cases "snd (enroll env now i c p snap d) = d")
  case False
  assume inv: "enrollments_inv d"
  obtain referrer payload where w: "enroll_write now i c p referrer d = Inr (payload, snd (enroll env now i c p snap d))"
    using enroll_frame False by blast
  obtain q row d1 where q: "insertEnrollment q d = Inr (row, d1)"
      "case referrer of None \<Rightarrow> snd (enroll env now i c p snap d) = d1
       | Some e \<Rightarrow> insertReferral \<lparr>nr_now = now, nr_campaign = CAMPAIGN_ID, nr_referee = ep_address p,
                     nr_referrer = en_address e, nr_code = en_referral_code e\<rparr> d1 = Inr (snd (enroll env now i c p snap d))"
    using enroll_write_writes [OF w] by blast
  have "enrollments_inv d1" using inv q(1) by (rule enrollments_inv_insert)
  then show ?thesis using q(2) enrollments_inv_referral by (auto split: option.splits)
qed simp

lemma enrollments_inv_mark: "enrollments_inv d \<Longrightarrow> mark_credited now p d = Inr d' \<Longrightarrow> enrollments_inv d'"
  unfolding mark_credited_def Let_def
  by (auto simp: enrollments_inv_def referral_key_def intro!: unique_on_map split: if_splits)

lemma enrollments_inv_insert_ledger: "enrollments_inv d \<Longrightarrow> insert_ledger r d = Inr (n, d') \<Longrightarrow> enrollments_inv d'"
  by (simp add: insert_ledger_Inr)

lemma enrollments_inv_insert_ledger_or_nothing:
  "enrollments_inv d \<Longrightarrow> insert_ledger_or_nothing r d = Inr (n, d') \<Longrightarrow> enrollments_inv d'"
  by (auto simp: insert_ledger_or_nothing_Inr insert_ledger_Inr)

lemma enrollments_inv_checkin: "enrollments_inv d \<Longrightarrow> enrollments_inv (snd (checkin env now a u d))"
  by (auto simp: checkin_def insert_checkin_def insert_ledger_Inr dest!: checkinToday_writes
      split: sum.splits prod.splits if_splits)

lemma enrollments_inv_claim: "enrollments_inv d \<Longrightarrow> enrollments_inv (snd (social_claim env now i p snap d))"
  by (auto simp: social_claim_def Let_def insert_ledger_Inr dest!: claim_transaction_writes insertSocialClaim_Inr
      split: sum.splits prod.splits option.splits)

lemma enrollments_inv_remove: "enrollments_inv d \<Longrightarrow> enrollments_inv (snd (social_remove now a u i d))"
  by (auto simp: social_remove_def softDeleteSocialClaim_def Let_def correction_written_def insert_ledger_Inr
      dest!: remove_transaction_writes split: sum.splits prod.splits)

lemma enrollments_inv_award: "enrollments_inv d \<Longrightarrow> enrollments_inv (snd (runCampaignAward env now d))"
proof (rule runCampaignAward_inv [of enrollments_inv])
  show "enrollments_inv d'" if "enrollments_inv d" "creditReferral now cr d = Inr d'" for cr d d'
    using creditReferral_writes [OF that(2)] that(1) enrollments_inv_insert_ledger_or_nothing enrollments_inv_mark by blast
qed (auto dest!: insertActionAward_Inr insertPerk_Inr simp: insert_ledger_Inr)

lemma enrollments_inv_step: "campaign_step d d' \<Longrightarrow> enrollments_inv d \<Longrightarrow> enrollments_inv d'"
proof (induction rule: campaign_step.induct)
  case (challenge d now nonce a)
  show ?case using challenge by (subst issueChallenge_frame) simp
next
  case (verify d cr now newId p)
  show ?case using verify by (subst verifyChallenge_frame) simp
next
  case (recover now a userId maxAge d r d')
  then obtain x where "d' = d\<lparr>db_proofs := x\<rparr>" using consumeUnboundProof_frame by blast
  then show ?case using recover by simp
qed (simp_all add: enrollments_inv_checkin enrollments_inv_claim enrollments_inv_remove enrollments_inv_award enrollments_inv_enroll)

lemma enrollments_inv_empty: "enrollments_inv empty_db"
  by (simp add: enrollments_inv_def empty_db_def)

lemma enrollments_inv_reachable: "campaign_reachable d \<Longrightarrow> enrollments_inv d"
  by (induction rule: campaign_reachable.induct) (simp_all add: enrollments_inv_empty enrollments_inv_step)

section \<open>The ledger and the perks only grow\<close>

definition extends :: "Db \<Rightarrow> Db \<Rightarrow> bool" where
  "extends d d' \<longleftrightarrow> (\<exists>rows. db_ledger d' = db_ledger d @ rows) \<and> (\<exists>ps. db_perks d' = db_perks d @ ps)
     \<and> (\<exists>ws. db_witnesses d' = db_witnesses d @ ws)"

lemma extends_refl [simp]: "extends d d"
  by (simp add: extends_def)

lemma extends_trans: "extends d d' \<Longrightarrow> extends d' d'' \<Longrightarrow> extends d d''"
  by (auto simp: extends_def)

lemma extends_append_ledger [simp]: "extends d (append_ledger r d)"
  by (simp add: extends_def)

lemma extends_updates [simp]:
  "extends e (d\<lparr>db_proofs := x1\<rparr>) = extends e d" "extends e (d\<lparr>db_challenges := x2\<rparr>) = extends e d"
  "extends e (d\<lparr>db_enrollments := x3\<rparr>) = extends e d" "extends e (d\<lparr>db_claims := x4\<rparr>) = extends e d"
  "extends e (d\<lparr>db_referrals := x5\<rparr>) = extends e d" "extends e (d\<lparr>db_wallets_created := x6\<rparr>) = extends e d"
  "extends e (d\<lparr>db_checkins := x8\<rparr>) = extends e d"
  by (simp_all add: extends_def)

lemma extends_insert_ledger: "insert_ledger r d = Inr (n, d') \<Longrightarrow> extends d d'"
  by (simp add: insert_ledger_Inr)

lemma extends_checkin: "extends d (snd (checkin env now a u d))"
  by (auto simp: checkin_def insert_checkin_def insert_ledger_Inr extends_def dest!: checkinToday_writes
      split: sum.splits prod.splits if_splits)

lemma extends_claim: "extends d (snd (social_claim env now i p snap d))"
  by (auto simp: social_claim_def Let_def insert_ledger_Inr extends_def dest!: claim_transaction_writes insertSocialClaim_Inr
      split: sum.splits prod.splits option.splits)

lemma extends_remove: "extends d (snd (social_remove now a u i d))"
  by (auto simp: social_remove_def softDeleteSocialClaim_def Let_def correction_written_def insert_ledger_Inr
      dest!: remove_transaction_writes split: sum.splits prod.splits)

lemma extends_insert_ledger_or_nothing: "insert_ledger_or_nothing r d = Inr (n, d') \<Longrightarrow> extends d d'"
  by (auto simp: insert_ledger_or_nothing_Inr insert_ledger_Inr)

lemma extends_creditReferral:
  assumes "creditReferral now p d = Inr d'"
  shows "extends d d'"
proof -
  obtain u v n m d1 d2
    where "insert_ledger_or_nothing (referral_row now p (cr_referrerAddress p) u ''referral:referrer'' (cr_referrerPoints p)) d = Inr (n, d1)"
      and "insert_ledger_or_nothing (referral_row now p (cr_refereeAddress p) v ''referral:referee'' (cr_refereePoints p)) d1 = Inr (m, d2)"
      and m: "mark_credited now p d2 = Inr d'"
    using creditReferral_writes [OF assms] by blast
  then have "extends d d2" using extends_insert_ledger_or_nothing extends_trans by blast
  moreover obtain x where "d' = d2\<lparr>db_referrals := x\<rparr>" using mark_credited_frame [OF m] by blast
  ultimately show ?thesis by simp
qed

lemma extends_insertActionAward: "insertActionAward now ca p d = Inr (k, d') \<Longrightarrow> extends d d'"
  by (auto dest!: insertActionAward_Inr simp: insert_ledger_Inr)

lemma extends_insertPerk: "insertPerk p d = Inr (m, d') \<Longrightarrow> extends d d'"
  by (auto dest!: insertPerk_Inr simp: extends_def)

lemma extends_award: "extends d (snd (runCampaignAward env now d))"
  by (rule runCampaignAward_inv [of "extends d"])
    (blast intro: extends_refl extends_trans extends_insertActionAward extends_creditReferral extends_insertPerk)+

lemma extends_witness [simp]: "extends d (d\<lparr>db_witnesses := db_witnesses d @ [w]\<rparr>)"
  by (simp add: extends_def)

lemma extends_step: "campaign_step d d' \<Longrightarrow> extends d d'"
proof (induction rule: campaign_step.induct)
  case (challenge d now nonce a)
  show ?case by (subst issueChallenge_frame) simp
next
  case (verify d cr now newId p)
  show ?case by (subst verifyChallenge_frame) simp
next
  case (enroll d env now newIds nextCode ep snap)
  show ?case
  proof (cases "snd (enroll env now newIds nextCode ep snap d) = d")
    case False
    then obtain referrer payload
      where "enroll_write now newIds nextCode ep referrer d = Inr (payload, snd (enroll env now newIds nextCode ep snap d))"
      using enroll_frame by blast
    from enroll_write_frame [OF this] obtain x y where "snd (enroll env now newIds nextCode ep snap d)
        = d\<lparr>db_enrollments := x, db_referrals := y\<rparr>" by blast
    then show ?thesis by simp
  qed simp
next
  case (recover now a userId maxAge d r d')
  then obtain x where "d' = d\<lparr>db_proofs := x\<rparr>" using consumeUnboundProof_frame by blast
  then show ?case by simp
qed (simp_all add: extends_checkin extends_claim extends_remove extends_award)

section \<open>Daily caps\<close>

definition action_row_of :: "address \<Rightarrow> ActionKind \<Rightarrow> string \<Rightarrow> LedgerRow \<Rightarrow> bool" where
  "action_row_of a k day r \<longleftrightarrow>
     wallet_row CAMPAIGN_ID a r \<and> lr_reason r = action_reason k \<and> lr_counted_day r = Some day"

definition n_actions :: "address \<Rightarrow> ActionKind \<Rightarrow> string \<Rightarrow> Db \<Rightarrow> int" where
  "n_actions a k day d = int (length (filter (action_row_of a k day) (db_ledger d)))"

definition caps_ok :: "Db \<Rightarrow> bool" where
  "caps_ok d \<longleftrightarrow>
     (\<forall>a day. socialPointsAwardedOn CAMPAIGN_ID a day d \<le> SOCIAL_DAILY_CAP)
     \<and> (\<forall>a k day. n_actions a k day d \<le> ar_dailyCap (ACTION_RULES k))"

lemma caps_ok_same_ledger: "db_ledger d' = db_ledger d \<Longrightarrow> caps_ok d' = caps_ok d"
  by (simp add: caps_ok_def socialPointsAwardedOn_def points_where_def n_actions_def)

lemma caps_ok_updates [simp]:
  "caps_ok (d\<lparr>db_proofs := x1\<rparr>) = caps_ok d" "caps_ok (d\<lparr>db_challenges := x2\<rparr>) = caps_ok d"
  "caps_ok (d\<lparr>db_enrollments := x3\<rparr>) = caps_ok d" "caps_ok (d\<lparr>db_referrals := x4\<rparr>) = caps_ok d"
  "caps_ok (d\<lparr>db_witnesses := x5\<rparr>) = caps_ok d" "caps_ok (d\<lparr>db_wallets_created := x6\<rparr>) = caps_ok d"
  by (rule caps_ok_same_ledger; simp)+

lemma n_actions_append: "n_actions a k day (append_ledger r d) =
    n_actions a k day d + (if action_row_of a k day (ledger_row r d) then 1 else 0)"
  by (simp add: n_actions_def)

lemma action_row_of_ledger_row [simp]: "action_row_of a k day (ledger_row r d) = action_row_of a k day r"
  by (simp add: action_row_of_def)

lemma caps_ok_insert_other:
  assumes "caps_ok d" "insert_ledger r d = Inr (n, d')" "\<not> reason_like ''social:'' r" "\<not> reason_like ''action:'' r"
  shows "caps_ok d'"
proof -
  have d': "d' = append_ledger r d" using assms(2) by (simp add: insert_ledger_Inr)
  have "\<not> action_row_of a k day r" for a k day
    using assms(4) by (auto simp: action_row_of_def action_reason_def)
  then show ?thesis using assms(1,3)
    by (simp add: caps_ok_def d' socialPointsAwardedOn_def points_where_append_ledger n_actions_append)
qed

lemma caps_ok_checkin: "caps_ok d \<Longrightarrow> caps_ok (snd (checkin env now a u d))"
proof -
  assume ok: "caps_ok d"
  have "caps_ok d'" if ct: "checkinToday now CAMPAIGN_ID a d = Inr (r, d')" for r d'
  proof (cases "d' = d")
    case False
    then obtain e d1 n
      where ins: "insert_checkin \<lparr>ci_campaign = CAMPAIGN_ID, ci_address = en_address e, ci_day = utcDay now, ci_created_at = now\<rparr> d = Inr d1"
        and row: "insert_ledger (streak_row now CAMPAIGN_ID e (utcDay now)) d1 = Inr (n, d')"
      using checkinToday_writes [OF ct] by blast
    have "caps_ok d1" using ok caps_ok_same_ledger [of d1 d] ins by (auto simp: insert_checkin_def split: if_splits)
    then show ?thesis using row by (rule caps_ok_insert_other) (simp_all add: streak_row_def)
  qed (use ok in simp)
  then show ?thesis using ok by (auto simp: checkin_def split: sum.splits prod.splits)
qed

lemma caps_ok_claim_transaction:
  assumes ok: "caps_ok d" and cl: "claim_transaction env now i proven p snap d = Inr (r, d')"
  shows "caps_ok d'"
  using claim_transaction_writes [OF cl]
proof (elim disjE exE conjE)
  fix e aw c d1 n
  assume el: "socialClaimEligibility \<lparr>sf_window = campaign_window env now, sf_proven = proven, sf_enrolled = True, sf_task = sp_task p,
         sf_taskAvailable = taskAvailable env (sp_task p), sf_handle = sp_handle p,
         sf_existingClaims = socialClaimHandles CAMPAIGN_ID (en_address e) d,
         sf_handleUsedByOtherWallet = handleUsedByOtherWallet CAMPAIGN_ID (sp_handle p) (en_address e) snap,
         sf_awardedTodayPoints = socialPointsAwardedOn CAMPAIGN_ID (en_address e) (utcDay now) d\<rparr> = Inr aw"
    and ins: "insertSocialClaim c d = Inr d1"
    and row: "insert_ledger (social_row now CAMPAIGN_ID (en_address e) (Some (en_user_id e)) aw i (utcDay now)) d1 = Inr (n, d')"
  have led: "db_ledger d1 = db_ledger d" using insertSocialClaim_Inr [OF ins] by simp
  have d': "d' = append_ledger (social_row now CAMPAIGN_ID (en_address e) (Some (en_user_id e)) aw i (utcDay now)) d1"
    using row by (simp add: insert_ledger_Inr)
  obtain k where k: "aw = \<lparr>sa_reason = social_reason k, sa_basePoints = SOCIAL_TASKS k, sa_points = SOCIAL_TASKS k\<rparr>"
    and cap: "socialPointsAwardedOn CAMPAIGN_ID (en_address e) (utcDay now) d + SOCIAL_TASKS k \<le> SOCIAL_DAILY_CAP"
    using socialClaimEligibility_Inr [OF el] by auto
  have "socialPointsAwardedOn CAMPAIGN_ID a day d' \<le> SOCIAL_DAILY_CAP" for a day
  proof -
    have "socialPointsAwardedOn CAMPAIGN_ID a day d1 = socialPointsAwardedOn CAMPAIGN_ID a day d"
      using led by (simp add: socialPointsAwardedOn_def points_where_def)
    moreover have "socialPointsAwardedOn CAMPAIGN_ID a day d = socialPointsAwardedOn CAMPAIGN_ID (en_address e) day d"
      if "lower_eq (en_address e) a"
      using that by (simp add: socialPointsAwardedOn_def lower_eq_def)
    ultimately show ?thesis using ok cap
      by (auto simp: d' socialPointsAwardedOn_def points_where_append_ledger k caps_ok_def)
  qed
  moreover have "n_actions a k day d' \<le> ar_dailyCap (ACTION_RULES k)" for a k day
  proof -
    have "\<not> action_row_of a k day (social_row now CAMPAIGN_ID (en_address e) (Some (en_user_id e)) aw i (utcDay now))"
      using k by (simp add: action_row_of_def action_reason_def social_reason_def)
    then show ?thesis using ok led by (simp add: d' n_actions_append caps_ok_def) (simp add: n_actions_def)
  qed
  ultimately show ?thesis by (simp add: caps_ok_def)
qed (use ok in simp)

lemma caps_ok_claim: "caps_ok d \<Longrightarrow> caps_ok (snd (social_claim env now i p snap d))"
  by (auto simp: social_claim_def Let_def dest: caps_ok_claim_transaction split: sum.splits prod.splits option.splits)

lemma caps_ok_remove: "caps_ok d \<Longrightarrow> caps_ok (snd (social_remove now a u i d))"
proof -
  assume ok: "caps_ok d"
  have "caps_ok d'" if rt: "remove_transaction now a i d = Inr (r, d')" for r d'
  proof (cases "d' = d")
    case False
    then obtain e c d1 where w: "correction_written now e c d d1"
        and d': "d' = snd (softDeleteSocialClaim now (cl_campaign c) (cl_id c) d1)"
      using remove_transaction_writes [OF rt] by blast
    have "caps_ok d1" using w ok caps_ok_insert_other
      by (auto simp: correction_written_def SOCIAL_DELETE_REASON_def)
    then show ?thesis using caps_ok_same_ledger [of d' d1] d' by (simp add: softDeleteSocialClaim_def Let_def)
  qed (use ok in simp)
  then show ?thesis using ok by (auto simp: social_remove_def split: sum.splits prod.splits)
qed

section \<open>The award plan respects the action caps\<close>

lemma sum_indicator: "distinct gs \<Longrightarrow> sum_list (map (\<lambda>g. if x = g then 1 else 0 :: int) gs) = (if x \<in> set gs then 1 else 0)"
  by (induction gs) auto

lemma sum_of_group_counts:
  assumes "distinct gs"
  shows "sum_list (map (\<lambda>g. int (length (filter (\<lambda>r. f r = g) rs))) gs) = int (length (filter (\<lambda>r. f r \<in> set gs) rs))"
proof (induction rs)
  case (Cons r rs)
  have "sum_list (map (\<lambda>g. int (length (filter (\<lambda>r. f r = g) (r # rs)))) gs)
      = sum_list (map (\<lambda>g. (if f r = g then 1 else 0) + int (length (filter (\<lambda>r. f r = g) rs))) gs)"
    by (intro arg_cong [where f = sum_list] map_cong) auto
  also have "\<dots> = (if f r \<in> set gs then 1 else 0) + int (length (filter (\<lambda>r. f r \<in> set gs) rs))"
    using Cons by (simp add: sum_list_addf sum_indicator assms)
  finally show ?case by simp
qed simp

lemma count_of_countsFromRows:
  "count_of (countsFromRows rows) key =
     sum_list (map co_n (filter (\<lambda>r. countKey (co_address r) (co_reason r) (co_day r) = key) rows))"
proof -
  have "count_of (fold (\<lambda>r m. let k = countKey (co_address r) (co_reason r) (co_day r) in m(k \<mapsto> count_of m k + co_n r)) rows m) key
      = count_of m key + sum_list (map co_n (filter (\<lambda>r. countKey (co_address r) (co_reason r) (co_day r) = key) rows))" for m
    by (induction rows arbitrary: m) (auto simp: Let_def count_of_def)
  from this [of Map.empty] show ?thesis by (simp add: countsFromRows_def count_of_def)
qed

text \<open>The baseline of a key is the number of action rows in the ledger with that key.\<close>

lemma baseline_count:
  "count_of (countsFromRows (countedActionsByDay campaign d)) key =
     int (length (filter (\<lambda>r. (lr_campaign r = campaign \<and> reason_like ''action:'' r \<and> lr_counted_day r \<noteq> None)
        \<and> countKey (lr_address r) (lr_reason r) (or_empty (lr_counted_day r)) = key) (db_ledger d)))"
proof -
  define rows where "rows = filter (\<lambda>r. lr_campaign r = campaign \<and> reason_like ''action:'' r \<and> lr_counted_day r \<noteq> None) (db_ledger d)"
  define group where "group = (\<lambda>r :: LedgerRow. (lr_address r, lr_reason r, or_empty (lr_counted_day r)))"
  define Q where "Q = (\<lambda>g. countKey (fst g) (fst (snd g)) (snd (snd g)) = key)"
  have "count_of (countsFromRows (countedActionsByDay campaign d)) key
      = sum_list (map (\<lambda>g. int (length (filter (\<lambda>r. group r = g) rows))) (filter Q (remdups (map group rows))))"
    unfolding count_of_countsFromRows countedActionsByDay_def Let_def rows_def [symmetric] group_def [symmetric]
    by (simp add: filter_map o_def Q_def)
  also have "\<dots> = int (length (filter (\<lambda>r. group r \<in> set (filter Q (remdups (map group rows)))) rows))"
    by (rule sum_of_group_counts) simp
  also have "filter (\<lambda>r. group r \<in> set (filter Q (remdups (map group rows)))) rows = filter (\<lambda>r. Q (group r)) rows"
    by (rule filter_cong) auto
  also have "\<dots> = filter (\<lambda>r. (lr_campaign r = campaign \<and> reason_like ''action:'' r \<and> lr_counted_day r \<noteq> None)
        \<and> countKey (lr_address r) (lr_reason r) (or_empty (lr_counted_day r)) = key) (db_ledger d)"
    unfolding rows_def filter_filter by (rule filter_cong) (auto simp: Q_def group_def)
  finally show ?thesis .
qed

lemma n_actions_le_baseline:
  "n_actions a k day d \<le> count_of (countsFromRows (countedActionsByDay CAMPAIGN_ID d)) (countKey a (action_reason k) day)"
proof -
  have sub: "action_row_of a k day r \<Longrightarrow> (lr_campaign r = CAMPAIGN_ID \<and> reason_like ''action:'' r \<and> lr_counted_day r \<noteq> None)
        \<and> countKey (lr_address r) (lr_reason r) (or_empty (lr_counted_day r)) = countKey a (action_reason k) day" for r
    by (auto simp: action_row_of_def wallet_row_def lower_eq_def countKey_def or_empty_def action_reason_def)
  have "length (filter P xs) \<le> length (filter Q xs)" if "\<And>x. P x \<Longrightarrow> Q x" for P Q :: "LedgerRow \<Rightarrow> bool" and xs
    using that by (induction xs) auto
  from this [OF sub] show ?thesis unfolding n_actions_def baseline_count by simp
qed

definition planned_for :: "address \<Rightarrow> ActionKind \<Rightarrow> string \<Rightarrow> PlannedAward \<Rightarrow> bool" where
  "planned_for a k day p \<longleftrightarrow> lower_eq (pa_address p) a \<and> pa_reason p = action_reason k \<and> pa_countedDay p = day"

definition n_planned :: "address \<Rightarrow> ActionKind \<Rightarrow> string \<Rightarrow> PlannedAward list \<Rightarrow> int" where
  "n_planned a k day ps = int (length (filter (planned_for a k day) ps))"

lemma action_reason_inject: "action_reason k = action_reason k' \<longleftrightarrow> k = k'"
  by (cases k; cases k') (simp_all add: action_reason_def)

definition plan_ok :: "Db \<Rightarrow> counts \<times> AwardPlan \<Rightarrow> bool" where
  "plan_ok d st \<longleftrightarrow> (\<forall>a k day.
     n_actions a k day d + n_planned a k day (ap_awards (snd st)) \<le> count_of (fst st) (countKey a (action_reason k) day)
     \<and> n_actions a k day d + n_planned a k day (ap_awards (snd st)) \<le> ar_dailyCap (ACTION_RULES k))"

lemma plan_ok_step:
  assumes ok: "plan_ok d st" and st: "plan_step s e ci c st = Some st'"
  shows "plan_ok d st'"
proof -
  define key where "key = countKey (ac_address c) (action_reason (ac_kind c)) (utcDay (ac_closedAtMs c))"
  obtain streak where streak: "streakLengthBefore (checkins_of ci (ac_address c)) (utcDay (ac_closedAtMs c)) = Some streak"
    using st by (auto simp: plan_step_def Let_def split: option.splits)
  define f where "f = \<lparr>af_kind = ac_kind c, af_meetsMinNotional = ac_meetsMinNotional c,
                 af_closedAtMs = ac_closedAtMs c, af_countedSameDayBefore = count_of (fst st) key,
                 af_streakDaysBeforeDay = int streak, af_startsAtMs = s, af_endsAtMs = e\<rparr>"
  show ?thesis
  proof (cases "actionAward f")
    case (Inl r)
    then have "st' = (fst st, (snd st)\<lparr>ap_skipped := skip r (ap_skipped (snd st))\<rparr>)"
      using st streak by (simp add: plan_step_def Let_def f_def key_def)
    then show ?thesis using ok by (simp add: plan_ok_def)
  next
    case (Inr aw)
    have facts: "count_of (fst st) key < ar_dailyCap (ACTION_RULES (ac_kind c))"
        "ad_reason aw = action_reason (ac_kind c)" "ad_countedDay aw = utcDay (ac_closedAtMs c)"
      using Inr actionAward_Inr_iff [of f aw] by (simp_all add: f_def)
    define pl where "pl = \<lparr>pa_txHash = ac_txHash c, pa_address = ac_address c, pa_userId = ac_userId c,
                         pa_reason = ad_reason aw, pa_basePoints = ad_basePoints aw, pa_multiplier = ad_multiplier aw,
                         pa_points = ad_points aw, pa_countedDay = ad_countedDay aw\<rparr>"
    have st': "st' = ((fst st)(key \<mapsto> count_of (fst st) key + 1), (snd st)\<lparr>ap_awards := ap_awards (snd st) @ [pl]\<rparr>)"
      using st streak Inr by (simp add: plan_step_def Let_def f_def key_def pl_def)
    have pf: "planned_for a k day pl \<longleftrightarrow> lower_eq (ac_address c) a \<and> k = ac_kind c \<and> day = utcDay (ac_closedAtMs c)" for a k day
      using facts by (auto simp: planned_for_def pl_def action_reason_inject)
    have hit: "planned_for a k day pl \<Longrightarrow> countKey a (action_reason k) day = key" for a k day
      by (auto simp: pf key_def countKey_def lower_eq_def)
    have np: "n_planned a k day (ap_awards (snd st')) = n_planned a k day (ap_awards (snd st))
        + (if planned_for a k day pl then 1 else 0)" for a k day
      by (simp add: st' n_planned_def)
    have cnt: "count_of (fst st') K = count_of (fst st) K + (if K = key then 1 else 0)" for K
      by (simp add: st' count_of_def)
    show ?thesis unfolding plan_ok_def
    proof (intro allI)
      fix a k day
      have old: "n_actions a k day d + n_planned a k day (ap_awards (snd st)) \<le> count_of (fst st) (countKey a (action_reason k) day)"
          "n_actions a k day d + n_planned a k day (ap_awards (snd st)) \<le> ar_dailyCap (ACTION_RULES k)"
        using ok by (simp_all add: plan_ok_def)
      show "n_actions a k day d + n_planned a k day (ap_awards (snd st')) \<le> count_of (fst st') (countKey a (action_reason k) day)
          \<and> n_actions a k day d + n_planned a k day (ap_awards (snd st')) \<le> ar_dailyCap (ACTION_RULES k)"
      proof (cases "planned_for a k day pl")
        case True
        then have "k = ac_kind c" "countKey a (action_reason k) day = key" using pf hit by blast+
        then show ?thesis using old facts(1) True by (simp add: np cnt)
      next
        case False
        then show ?thesis using old by (auto simp: np cnt)
      qed
    qed
  qed
qed

lemma plan_ok_loop: "plan_ok d st \<Longrightarrow> plan_loop s e ci cs st = Some st' \<Longrightarrow> plan_ok d st'"
  by (induction cs arbitrary: st) (auto split: option.splits dest: plan_ok_step)

lemma award_plan_caps:
  assumes "caps_ok d" "award_plan s e d = Some plan"
  shows "n_actions a k day d + n_planned a k day (ap_awards plan) \<le> ar_dailyCap (ACTION_RULES k)"
proof -
  have init: "plan_ok d (countsFromRows (countedActionsByDay CAMPAIGN_ID d), \<lparr>ap_awards = [], ap_skipped = EMPTY_SKIPS\<rparr>)"
    using assms(1) n_actions_le_baseline by (simp add: plan_ok_def n_planned_def caps_ok_def)
  obtain st where "plan_loop (Some s) e (checkinSetsFromRows (checkinDaysByWallet CAMPAIGN_ID d))
      (List.map_filter candidate_of (findActionCandidates CAMPAIGN_ID s e d))
      (countsFromRows (countedActionsByDay CAMPAIGN_ID d), \<lparr>ap_awards = [], ap_skipped = EMPTY_SKIPS\<rparr>) = Some st" "plan = snd st"
    using assms(2) by (auto simp: award_plan_def planActionAwards_def)
  with plan_ok_loop [OF init this(1)] show ?thesis by (simp add: plan_ok_def)
qed

lemma n_actions_insert_awards:
  "n_actions a k day (snd (insert_awards now ps n d)) \<le> n_actions a k day d + n_planned a k day ps"
proof (induction ps arbitrary: n d)
  case (Cons p ps)
  have np: "n_planned a k day (p # ps) = (if planned_for a k day p then 1 else 0) + n_planned a k day ps"
    by (simp add: n_planned_def)
  have nn: "0 \<le> n_planned a k day ps" by (simp add: n_planned_def)
  show ?case
  proof (cases "insertActionAward now CAMPAIGN_ID p d")
    case (Inl err) then show ?thesis using nn by (simp add: np)
  next
    case (Inr x)
    then obtain j d' where x: "insertActionAward now CAMPAIGN_ID p d = Inr (j, d')" by (cases x) simp
    have row: "action_row_of a k day (action_row now CAMPAIGN_ID p m pts) = planned_for a k day p" for m pts
      by (simp add: action_row_of_def planned_for_def wallet_row_def action_row_def blank_ledger_row_def)
    have "n_actions a k day d' \<le> n_actions a k day d + (if planned_for a k day p then 1 else 0)"
      using insertActionAward_Inr [OF x] by (auto simp: insert_ledger_Inr n_actions_append row)
    then show ?thesis using Cons [of "n + j" d'] x by (simp add: np)
  qed
qed (simp add: n_planned_def)


lemma caps_ok_append_other_actions:
  assumes "\<forall>a day. socialPointsAwardedOn CAMPAIGN_ID a day d' = socialPointsAwardedOn CAMPAIGN_ID a day d"
    "caps_ok d" "\<forall>a k day. n_actions a k day d' \<le> ar_dailyCap (ACTION_RULES k)"
  shows "caps_ok d'"
  using assms by (simp add: caps_ok_def)

lemma socialPoints_insert_action:
  assumes "insertActionAward now ca p d = Inr (n, d')"
  shows "socialPointsAwardedOn c a day d' = socialPointsAwardedOn c a day d"
  using insertActionAward_Inr [OF assms] plain_action_row(2) action_not_adjust(2)
  by (fastforce simp: insert_ledger_Inr socialPointsAwardedOn_def points_where_append_ledger)

lemma socialPoints_insert_awards:
  "socialPointsAwardedOn c a day (snd (insert_awards now ps n d)) = socialPointsAwardedOn c a day d"
  by (rule insert_awards_inv [of "\<lambda>e. socialPointsAwardedOn c a day e = socialPointsAwardedOn c a day d"])
    (simp_all add: socialPoints_insert_action)

lemma caps_ok_or_nothing_other:
  "caps_ok d \<Longrightarrow> insert_ledger_or_nothing r d = Inr (n, d') \<Longrightarrow> \<not> reason_like ''social:'' r \<Longrightarrow> \<not> reason_like ''action:'' r
    \<Longrightarrow> caps_ok d'"
  using caps_ok_insert_other by (auto simp: insert_ledger_or_nothing_Inr)

lemma caps_ok_creditReferral:
  assumes "caps_ok d" "creditReferral now p d = Inr d'"
  shows "caps_ok d'"
proof -
  obtain u v n m d1 d2
    where 1: "insert_ledger_or_nothing (referral_row now p (cr_referrerAddress p) u ''referral:referrer'' (cr_referrerPoints p)) d = Inr (n, d1)"
      and 2: "insert_ledger_or_nothing (referral_row now p (cr_refereeAddress p) v ''referral:referee'' (cr_refereePoints p)) d1 = Inr (m, d2)"
      and m: "mark_credited now p d2 = Inr d'"
    using creditReferral_writes [OF assms(2)] by blast
  have "caps_ok d1" using assms(1) 1 by (rule caps_ok_or_nothing_other) (simp_all add: referral_row_def)
  then have "caps_ok d2" using 2 by (rule caps_ok_or_nothing_other) (simp_all add: referral_row_def)
  moreover obtain x where "d' = d2\<lparr>db_referrals := x\<rparr>" using mark_credited_frame [OF m] by blast
  ultimately show ?thesis using caps_ok_same_ledger [of d' d2] by simp
qed

lemma caps_ok_insertPerk: "caps_ok d \<Longrightarrow> insertPerk p d = Inr (m, d') \<Longrightarrow> caps_ok d'"
  using caps_ok_same_ledger [of d' d] by (auto dest!: insertPerk_Inr)

lemma caps_ok_award: "caps_ok d \<Longrightarrow> caps_ok (snd (runCampaignAward env now d))"
proof -
  assume ok: "caps_ok d"
  have "caps_ok d1" if "award_plan s e d = Some plan" "insert_awards now (ap_awards plan) 0 d = (r, d1)" for s e plan r d1
  proof -
    have "n_actions a k day d1 \<le> ar_dailyCap (ACTION_RULES k)" for a k day
      using n_actions_insert_awards [of a k day now "ap_awards plan" 0 d] award_plan_caps [OF ok that(1), of a k day] that(2)
      by simp
    moreover have "socialPointsAwardedOn CAMPAIGN_ID a day d1 = socialPointsAwardedOn CAMPAIGN_ID a day d" for a day
      using socialPoints_insert_awards [of CAMPAIGN_ID a day now "ap_awards plan" 0 d] that(2) by simp
    ultimately show ?thesis using ok by (simp add: caps_ok_def)
  qed
  moreover have "caps_ok d2" if "credit_loop now s e ls acc d1 = (r, d2)" "caps_ok d1" for s e ls acc d1 r d2
    using credit_loop_inv [of caps_ok d1 now s e ls acc, OF that(2) caps_ok_creditReferral] that(1) by simp
  moreover have "caps_ok d3" if "grant_loop now gs n d2 = (r, d3)" "caps_ok d2" for gs n d2 r d3
    using grant_loop_inv [of caps_ok d2 now gs n, OF that(2) caps_ok_insertPerk] that(1) by simp
  ultimately show ?thesis using ok
    by (auto simp: runCampaignAward_def Let_def split: option.splits prod.splits sum.splits)
qed

lemma caps_ok_step: "campaign_step d d' \<Longrightarrow> caps_ok d \<Longrightarrow> caps_ok d'"
proof (induction rule: campaign_step.induct)
  case (challenge d now nonce a)
  show ?case using challenge by (subst issueChallenge_frame) simp
next
  case (verify d cr now newId p)
  show ?case using verify by (subst verifyChallenge_frame) simp
next
  case (enroll d env now newIds nextCode ep snap)
  show ?case
  proof (cases "snd (enroll env now newIds nextCode ep snap d) = d")
    case False
    then obtain referrer payload
      where "enroll_write now newIds nextCode ep referrer d = Inr (payload, snd (enroll env now newIds nextCode ep snap d))"
      using enroll_frame by blast
    from enroll_write_frame [OF this] obtain x y where "snd (enroll env now newIds nextCode ep snap d)
        = d\<lparr>db_enrollments := x, db_referrals := y\<rparr>" by blast
    then show ?thesis using enroll by simp
  qed (use enroll in simp)
next
  case (recover now a userId maxAge d r d')
  then obtain x where "d' = d\<lparr>db_proofs := x\<rparr>" using consumeUnboundProof_frame by blast
  then show ?case using recover by simp
qed (simp_all add: caps_ok_checkin caps_ok_claim caps_ok_remove caps_ok_award)

lemma caps_ok_reachable: "campaign_reachable d \<Longrightarrow> caps_ok d"
proof (induction rule: campaign_reachable.induct)
  case start
  have "ar_dailyCap (ACTION_RULES k) \<ge> 0" for k by (cases k) simp_all
  then show ?case by (simp add: caps_ok_def empty_db_def socialPointsAwardedOn_def points_where_def n_actions_def SOCIAL_DAILY_CAP_def)
qed (simp add: caps_ok_step)

end
