(* ===== verification/Campaign_Ownership.thy ===== *)
theory Campaign_Ownership
  imports Campaign_Caps
begin

text \<open>
  The ownership proof: every stored challenge holds the text built for its wallet and nonce, a
  challenge is consumed once, and a bound proof comes from a verified signature.
\<close>

section \<open>Challenges\<close>

definition challenges_inv :: "Db \<Rightarrow> bool" where
  "challenges_inv d \<longleftrightarrow>
     unique_on challenge_key (db_challenges d)
     \<and> (\<forall>c \<in> set (db_challenges d).
          ch_message c = buildChallengeMessage (ch_address c) (ch_nonce c) (toISOString (ch_issued_at c))
          \<and> ch_expires_at c = ch_issued_at c + CHALLENGE_TTL_SECONDS * 1000)"

definition burnt :: "string \<Rightarrow> Db \<Rightarrow> bool" where
  "burnt nonce d \<longleftrightarrow> (\<forall>c \<in> set (db_challenges d). ch_nonce c = nonce \<longrightarrow> ch_used_at c \<noteq> None)"

lemma challenges_cong:
  "db_challenges d' = db_challenges d \<Longrightarrow> challenges_inv d' = challenges_inv d"
  "db_challenges d' = db_challenges d \<Longrightarrow> burnt n d' = burnt n d"
  by (simp_all add: challenges_inv_def burnt_def)

lemma issueChallenge_challenges:
  "db_challenges (snd (issueChallenge now nonce a d)) = db_challenges d \<or>
   (\<exists>c. \<not> conflicts challenge_key (db_challenges d) c \<and> ch_nonce c = nonce \<and> ch_address c = a
     \<and> ch_message c = buildChallengeMessage a nonce (toISOString now) \<and> ch_issued_at c = now
     \<and> ch_expires_at c = now + CHALLENGE_TTL_SECONDS * 1000
     \<and> db_challenges (snd (issueChallenge now nonce a d))
         = filter (\<lambda>c. \<not> ch_expires_at c < now - ms_per_day) (db_challenges d) @ [c])"
proof -
  let ?p = "\<lparr>nc_nonce = nonce, nc_address = a, nc_message = buildChallengeMessage a nonce (toISOString now),
      nc_issuedAt = now, nc_expiresAt = now + CHALLENGE_TTL_SECONDS * 1000\<rparr>"
  show ?thesis
  proof (cases "createChallenge ?p d")
    case (Inl e) then show ?thesis by (simp add: issueChallenge_def Let_def)
  next
    case (Inr d1)
    then have d1: "\<not> conflicts challenge_key (db_challenges d) (challenge_of ?p)"
        "db_challenges d1 = db_challenges d @ [challenge_of ?p]"
      by (auto simp: createChallenge_def split: if_splits)
    then show ?thesis using Inr
      by (intro disjI2 exI [of _ "challenge_of ?p"])
        (simp add: issueChallenge_def deleteStaleChallenges_def Let_def challenge_of_def CHALLENGE_TTL_SECONDS_def ms_per_day_def)
  qed
qed

lemma challenges_inv_issue: "challenges_inv d \<Longrightarrow> challenges_inv (snd (issueChallenge now nonce a d))"
proof -
  assume inv: "challenges_inv d"
  from issueChallenge_challenges [of now nonce a d] show ?thesis
  proof (elim disjE exE conjE)
    fix c assume c: "\<not> conflicts challenge_key (db_challenges d) c" "ch_nonce c = nonce" "ch_address c = a"
      "ch_message c = buildChallengeMessage a nonce (toISOString now)" "ch_issued_at c = now"
      "ch_expires_at c = now + CHALLENGE_TTL_SECONDS * 1000"
      "db_challenges (snd (issueChallenge now nonce a d)) = filter (\<lambda>c. \<not> ch_expires_at c < now - ms_per_day) (db_challenges d) @ [c]"
    have "unique_on challenge_key (filter (\<lambda>c. \<not> ch_expires_at c < now - ms_per_day) (db_challenges d) @ [c])"
      using inv c(1) by (auto simp: challenges_inv_def unique_on_snoc unique_on_filter conflicts_iff)
    then show ?thesis using inv c(2-6) by (auto simp: challenges_inv_def c(7))
  qed (use inv challenges_cong in blast)
qed

lemma verifyChallenge_challenges:
  "db_challenges (snd (verifyChallenge cr now i p d)) =
     map (\<lambda>c. if consumable now (vp_nonce p) (vp_address p) c then c\<lparr>ch_used_at := Some now\<rparr> else c) (db_challenges d)"
proof -
  have 1: "db_challenges d2 = db_challenges d1" if "upsertBoundProof q d1 = Inr (row, d2) \<or> insertUnboundProof q d1 = Inr (row, d2)" for q d1 row d2
  proof -
    have "d2 = d1\<lparr>db_proofs := db_proofs d2\<rparr>"
      using that upsertBoundProof_frame insert_proof_frame unfolding insertUnboundProof_def by blast
    then obtain x where "d2 = d1\<lparr>db_proofs := x\<rparr>" by blast
    then show ?thesis by simp
  qed
  show ?thesis
    by (auto simp: verifyChallenge_def consumeChallenge_def Let_def dest!: 1 [OF disjI1] 1 [OF disjI2]
        split: option.splits sum.splits prod.splits if_splits)
qed

lemma challenges_inv_verify: "challenges_inv d \<Longrightarrow> challenges_inv (snd (verifyChallenge cr now i p d))"
  unfolding challenges_inv_def verifyChallenge_challenges
  by (auto simp: challenge_key_def intro!: unique_on_map)

lemma burnt_verify: "burnt n d \<Longrightarrow> burnt n (snd (verifyChallenge cr now i p d))"
  unfolding burnt_def verifyChallenge_challenges by auto

lemma burnt_issue: "burnt n d \<Longrightarrow> nonce \<noteq> n \<Longrightarrow> burnt n (snd (issueChallenge now nonce a d))"
  using issueChallenge_challenges [of now nonce a d] unfolding burnt_def by auto

lemma other_steps_challenges:
  "db_challenges (snd (checkin env now a u d)) = db_challenges d"
  "db_challenges (snd (social_claim env now i cp snap d)) = db_challenges d"
  "db_challenges (snd (social_remove now a u ci d)) = db_challenges d"
  "db_challenges (snd (enroll env now is cs ep snap d)) = db_challenges d"
proof -
  show "db_challenges (snd (checkin env now a u d)) = db_challenges d"
    by (auto simp: checkin_def insert_checkin_def insert_ledger_Inr dest!: checkinToday_writes
      split: sum.splits prod.splits if_splits)
  show "db_challenges (snd (social_claim env now i cp snap d)) = db_challenges d"
    by (auto simp: social_claim_def Let_def insert_ledger_Inr dest!: claim_transaction_writes insertSocialClaim_Inr
      split: sum.splits prod.splits option.splits)
  show "db_challenges (snd (social_remove now a u ci d)) = db_challenges d"
    by (auto simp: social_remove_def softDeleteSocialClaim_def Let_def correction_written_def insert_ledger_Inr
      dest!: remove_transaction_writes split: sum.splits prod.splits)
  show "db_challenges (snd (enroll env now is cs ep snap d)) = db_challenges d"
  proof (cases "snd (enroll env now is cs ep snap d) = d")
    case False
    then obtain referrer payload where "enroll_write now is cs ep referrer d = Inr (payload, snd (enroll env now is cs ep snap d))"
      using enroll_frame by blast
    from enroll_write_frame [OF this] obtain x y where "snd (enroll env now is cs ep snap d)
        = d\<lparr>db_enrollments := x, db_referrals := y\<rparr>" by blast
    then show ?thesis by simp
  qed simp
qed

lemma award_challenges: "db_challenges (snd (runCampaignAward env now d)) = db_challenges d"
proof (rule runCampaignAward_inv [of "\<lambda>e. db_challenges e = db_challenges d"])
  fix cr e e' assume e: "db_challenges e = db_challenges d" and c: "creditReferral now cr e = Inr e'"
  obtain u v n m d1 d2
    where 1: "insert_ledger_or_nothing (referral_row now cr (cr_referrerAddress cr) u ''referral:referrer'' (cr_referrerPoints cr)) e = Inr (n, d1)"
      and 2: "insert_ledger_or_nothing (referral_row now cr (cr_refereeAddress cr) v ''referral:referee'' (cr_refereePoints cr)) d1 = Inr (m, d2)"
      and m: "mark_credited now cr d2 = Inr e'"
    using creditReferral_writes [OF c] by blast
  obtain x where "e' = d2\<lparr>db_referrals := x\<rparr>" using mark_credited_frame [OF m] by blast
  then show "db_challenges e' = db_challenges d"
    using 1 2 e by (auto simp: insert_ledger_or_nothing_Inr insert_ledger_Inr)
qed (auto dest!: insertActionAward_Inr insertPerk_Inr simp: insert_ledger_Inr)

lemma challenges_inv_step: "campaign_step d d' \<Longrightarrow> challenges_inv d \<Longrightarrow> challenges_inv d'"
proof (induction rule: campaign_step.induct)
  case (recover now a userId maxAge d r d')
  then obtain x where "d' = d\<lparr>db_proofs := x\<rparr>" using consumeUnboundProof_frame by blast
  then show ?case using recover by (simp add: challenges_inv_def)
qed (simp_all add: challenges_inv_issue challenges_inv_verify, simp_all add: challenges_inv_def other_steps_challenges award_challenges)

lemma challenges_inv_reachable: "campaign_reachable d \<Longrightarrow> challenges_inv d"
  by (induction rule: campaign_reachable.induct) (simp add: challenges_inv_def empty_db_def, simp add: challenges_inv_step)

lemma burnt_step: "campaign_step d d' \<Longrightarrow> burnt n d \<Longrightarrow> burnt n d' \<or> (\<exists>now a. d' = snd (issueChallenge now n a d))"
proof (induction rule: campaign_step.induct)
  case (challenge d now nonce a)
  then show ?case by (cases "nonce = n") (auto dest: burnt_issue)
next
  case (recover now a userId maxAge d r d')
  then obtain x where "d' = d\<lparr>db_proofs := x\<rparr>" using consumeUnboundProof_frame by blast
  then show ?case using recover by (simp add: burnt_def)
qed (simp_all add: burnt_verify, simp_all add: burnt_def other_steps_challenges award_challenges)

lemma burnt_steps:
  assumes "(\<lambda>d d'. campaign_step d d' \<and> (\<nexists>now a. d' = snd (issueChallenge now n a d)))\<^sup>*\<^sup>* d d'" "burnt n d"
  shows "burnt n d'"
  using assms by (induction rule: rtranclp_induct) (auto dest: burnt_step)

lemma verify_burns:
  assumes inv: "challenges_inv d" and v: "verifyChallenge cr now i p d = (r, d')"
    and r: "r \<noteq> Inr (Inl ChallengeInvalidOrExpired)"
  shows "burnt (vp_nonce p) d'"
proof -
  obtain c where c: "c \<in> set (db_challenges d)" "consumable now (vp_nonce p) (vp_address p) c"
    using v r by (fastforce simp: verifyChallenge_def consumeChallenge_def find_None_iff_all split: option.splits dest: find_Some_in)
  have same: "x = c" if "x \<in> set (db_challenges d)" "ch_nonce x = vp_nonce p" for x
    using inv c that by (intro unique_onD [of challenge_key]) (auto simp: challenges_inv_def challenge_key_def consumable_def)
  have "db_challenges d' = map (\<lambda>c. if consumable now (vp_nonce p) (vp_address p) c then c\<lparr>ch_used_at := Some now\<rparr> else c) (db_challenges d)"
    using verifyChallenge_challenges [of cr now i p d] v by simp
  then show ?thesis using same c(2) by (auto simp: burnt_def)
qed

lemma burnt_refuses:
  assumes "burnt (vp_nonce p) d"
  shows "verifyChallenge cr now i p d = (Inr (Inl ChallengeInvalidOrExpired), d)"
proof -
  have n: "\<not> consumable now (vp_nonce p) (vp_address p) c" if "c \<in> set (db_challenges d)" for c
    using assms that by (auto simp: burnt_def consumable_def)
  then have "List.find (consumable now (vp_nonce p) (vp_address p)) (db_challenges d) = None"
    by (simp add: find_None_iff_all)
  moreover have "map (\<lambda>c. if consumable now (vp_nonce p) (vp_address p) c then c\<lparr>ch_used_at := Some now\<rparr> else c) (db_challenges d) = db_challenges d"
    using n by (simp cong: map_cong)
  ultimately show ?thesis by (simp add: verifyChallenge_def consumeChallenge_def)
qed

lemma upsert_binds:
  assumes "upsertBoundProof q d = Inr (row, d')" "np_user q = Some u"
  shows "hasBoundProof (np_address q) u d' \<and> pf_user_id row = Some (uuid_cast u)"
proof (cases "List.find (\<lambda>x. proof_bound_key x = proof_bound_key (proof_of q)) (db_proofs d)")
  case None
  then have "d' = d\<lparr>db_proofs := db_proofs d @ [proof_of q]\<rparr>" "row = proof_of q"
    using assms by (auto simp: upsertBoundProof_def insert_proof_def Let_def split: if_splits)
  then show ?thesis using assms(2) by (simp add: hasBoundProof_def proof_of_def lower_eq_def)
next
  case (Some old)
  let ?same = "\<lambda>x. proof_bound_key x = proof_bound_key (proof_of q)"
  let ?refresh = "\<lambda>x. x\<lparr>pf_verified_at := np_now q, pf_nonce := np_nonce q, pf_provider := np_provider q,
                           pf_signature_variant := np_variant q, pf_consumed_at := None\<rparr>"
  have old: "old \<in> set (db_proofs d)" "?same old" using find_Some_in [OF Some] by simp_all
  then have u: "pf_user_id old = Some (uuid_cast u)" "lower_eq (pf_address old) (np_address q)"
    using assms(2) by (auto simp: proof_bound_key_def proof_of_def lower_eq_def)
  have d': "d' = d\<lparr>db_proofs := map (\<lambda>x. if ?same x then ?refresh x else x) (db_proofs d)\<rparr>" "row = ?refresh old"
    using assms Some by (auto simp: upsertBoundProof_def Let_def split: if_splits)
  have mem: "?refresh old \<in> set (db_proofs d')"
  proof -
    have "(\<lambda>x. if ?same x then ?refresh x else x) old \<in> set (map (\<lambda>x. if ?same x then ?refresh x else x) (db_proofs d))"
      by (subst set_map) (rule imageI [OF old(1)])
    then show ?thesis unfolding d' using old(2) by (simp del: set_map)
  qed
  have "pf_address (?refresh old) = pf_address old" "pf_user_id (?refresh old) = pf_user_id old" by simp_all
  then show ?thesis using u mem d'(2) unfolding hasBoundProof_def list_ex_iff by metis
qed

end
