(* ===== verification/Campaign_Rerun.thy ===== *)
theory Campaign_Rerun
  imports Campaign_Ownership
begin

text \<open>
  The award job is idempotent: a second run on the database the first one left awards nothing,
  credits nothing, grants nothing and changes nothing; and its plan for a day does not depend on
  check-ins of that day or later.
\<close>

section \<open>The plan\<close>

definition cand_key :: "AwardCandidate \<Rightarrow> string" where
  "cand_key c = countKey (ac_address c) (action_reason (ac_kind c)) (utcDay (ac_closedAtMs c))"

definition planned_key :: "PlannedAward \<Rightarrow> string" where
  "planned_key p = countKey (pa_address p) (pa_reason p) (pa_countedDay p)"

definition cand_facts :: "ms option \<Rightarrow> ms option \<Rightarrow> AwardCandidate \<Rightarrow> nat \<Rightarrow> int \<Rightarrow> ActionAwardFacts" where
  "cand_facts s e c streak n =
     \<lparr>af_kind = ac_kind c, af_meetsMinNotional = ac_meetsMinNotional c, af_closedAtMs = ac_closedAtMs c,
      af_countedSameDayBefore = n, af_streakDaysBeforeDay = int streak, af_startsAtMs = s, af_endsAtMs = e\<rparr>"

definition cand_streak :: "(string \<Rightarrow> string set option) \<Rightarrow> AwardCandidate \<Rightarrow> nat option" where
  "cand_streak ci c = streakLengthBefore (checkins_of ci (ac_address c)) (utcDay (ac_closedAtMs c))"

lemma plan_step_cases:
  assumes "plan_step s e ci c st = Some st'"
  obtains streak r where "cand_streak ci c = Some streak"
      "actionAward (cand_facts s e c streak (count_of (fst st) (cand_key c))) = Inl r"
      "fst st' = fst st" "ap_awards (snd st') = ap_awards (snd st)"
  | streak a p where "cand_streak ci c = Some streak"
      "actionAward (cand_facts s e c streak (count_of (fst st) (cand_key c))) = Inr a"
      "fst st' = (fst st)(cand_key c \<mapsto> count_of (fst st) (cand_key c) + 1)"
      "ap_awards (snd st') = ap_awards (snd st) @ [p]"
      "pa_txHash p = ac_txHash c" "pa_address p = ac_address c" "pa_reason p = action_reason (ac_kind c)"
      "planned_key p = cand_key c"
proof -
  obtain streak where streak: "cand_streak ci c = Some streak"
    using assms by (auto simp: plan_step_def cand_streak_def Let_def split: option.splits)
  show ?thesis
  proof (cases "actionAward (cand_facts s e c streak (count_of (fst st) (cand_key c)))")
    case (Inl r)
    then show ?thesis using assms streak that(1) [OF streak Inl]
      by (auto simp: plan_step_def cand_streak_def cand_facts_def cand_key_def Let_def)
  next
    case (Inr a)
    have a: "ad_reason a = action_reason (ac_kind c)" "ad_countedDay a = utcDay (ac_closedAtMs c)"
      using Inr by (simp_all add: actionAward_Inr_iff cand_facts_def)
    show ?thesis using assms streak Inr a
      by (intro that(2) [OF streak Inr])
        (auto simp: plan_step_def cand_streak_def cand_facts_def cand_key_def planned_key_def Let_def)
  qed
qed

lemma actionAward_refused_mono:
  "actionAward (cand_facts s e c k n) = Inl r \<Longrightarrow> n \<le> m \<Longrightarrow> \<exists>r'. actionAward (cand_facts s e c k m) = Inl r'"
  by (auto simp: actionAward_def cand_facts_def Let_def split: if_splits)

text \<open>What a plan is: its awards are for its candidates, the counts advance with them, and every
  candidate left out is refused at the final counts.\<close>

definition plan_covers ::
    "ms option \<Rightarrow> ms option \<Rightarrow> (string \<Rightarrow> string set option) \<Rightarrow> AwardCandidate list \<Rightarrow> counts \<Rightarrow> counts \<Rightarrow> PlannedAward list \<Rightarrow> bool" where
  "plan_covers s e ci cs cnts cnts' ps \<longleftrightarrow>
     (\<forall>K. count_of cnts' K = count_of cnts K + int (length (filter (\<lambda>p. planned_key p = K) ps)))
     \<and> (\<forall>p \<in> set ps. \<exists>c \<in> set cs. pa_txHash p = ac_txHash c \<and> pa_reason p = action_reason (ac_kind c))
     \<and> (distinct (map ac_txHash cs) \<longrightarrow> distinct (map pa_txHash ps))
     \<and> (\<forall>c \<in> set cs.
          (\<exists>p \<in> set ps. pa_txHash p = ac_txHash c \<and> pa_reason p = action_reason (ac_kind c))
          \<or> (\<exists>k r. cand_streak ci c = Some k \<and> actionAward (cand_facts s e c k (count_of cnts' (cand_key c))) = Inl r))"

lemma plan_loop_covers:
  assumes "plan_loop s e ci cs st = Some st'"
  shows "\<exists>ps. ap_awards (snd st') = ap_awards (snd st) @ ps \<and> plan_covers s e ci cs (fst st) (fst st') ps"
  using assms
proof (induction cs arbitrary: st)
  case Nil then show ?case by (simp add: plan_covers_def)
next
  case (Cons c cs)
  then obtain st1 where st1: "plan_step s e ci c st = Some st1" "plan_loop s e ci cs st1 = Some st'"
    by (auto split: option.splits)
  obtain ps where ps: "ap_awards (snd st') = ap_awards (snd st1) @ ps" "plan_covers s e ci cs (fst st1) (fst st') ps"
    using Cons.IH [OF st1(2)] by blast
  from st1(1) show ?case
  proof (cases rule: plan_step_cases)
    case (1 k r)
    have "count_of (fst st) (cand_key c) \<le> count_of (fst st') (cand_key c)"
      using ps(2) 1(3) by (simp add: plan_covers_def)
    from actionAward_refused_mono [OF 1(2) this] have ref: "\<exists>r. actionAward (cand_facts s e c k (count_of (fst st') (cand_key c))) = Inl r" .
    have "plan_covers s e ci (c # cs) (fst st) (fst st') ps"
      using ps(2) 1(1,3) ref unfolding plan_covers_def by (auto simp del: split_paired_Ex)
    then show ?thesis using ps(1) 1(4) by auto
  next
    case (2 k a p)
    have cnt: "count_of (fst st1) K = count_of (fst st) K + (if planned_key p = K then 1 else 0)" for K
      using 2(3,8) by (simp add: count_of_def)
    have mem: "\<forall>q \<in> set ps. \<exists>c \<in> set cs. pa_txHash q = ac_txHash c" using ps(2) by (auto simp: plan_covers_def)
    have "plan_covers s e ci (c # cs) (fst st) (fst st') (p # ps)"
      using ps(2) 2(5,7) mem unfolding plan_covers_def cnt by (auto; fastforce)
    then show ?thesis using ps(1) 2(4) by auto
  qed
qed

section \<open>The inserts\<close>

definition rows_with_key :: "string \<Rightarrow> Db \<Rightarrow> int" where
  "rows_with_key K d = count_of (countsFromRows (countedActionsByDay CAMPAIGN_ID d)) K"

definition awarded_row :: "string \<Rightarrow> tx_hash \<Rightarrow> LedgerRow \<Rightarrow> bool" where
  "awarded_row reason h r \<longleftrightarrow> lr_campaign r = CAMPAIGN_ID \<and> lr_reason r = reason \<and> lr_witness_tx_hash r = Some h"

lemma action_row_fields [simp]:
  "lr_campaign (action_row now ca p m pts) = ca" "lr_address (action_row now ca p m pts) = pa_address p"
  "lr_reason (action_row now ca p m pts) = pa_reason p" "lr_witness_tx_hash (action_row now ca p m pts) = Some (pa_txHash p)"
  "lr_counted_day (action_row now ca p m pts) = Some (pa_countedDay p)"
  "lr_social_claim_id (action_row now ca p m pts) = None" "lr_checkin_day (action_row now ca p m pts) = None"
  "lr_referral_referee (action_row now ca p m pts) = None"
  by (simp_all add: action_row_def blank_ledger_row_def)

lemma action_conflict:
  "ledger_conflict (action_row now CAMPAIGN_ID p m pts) d \<noteq> None \<longleftrightarrow>
     (\<exists>r \<in> set (db_ledger d). awarded_row (pa_reason p) (pa_txHash p) r)"
  by (auto simp: ledger_conflict_def conflicts_iff witness_key_def social_claim_key_def checkin_key_def referee_key_def
      awarded_row_def)

lemma rows_with_key_append:
  assumes "insert_ledger (action_row now CAMPAIGN_ID p m pts) d = Inr (n, d')"
  shows "rows_with_key K d' = rows_with_key K d + (if planned_key p = K then 1 else 0)"
proof -
  have "reason_like ''action:'' (action_row now CAMPAIGN_ID p m pts)"
    using assms by (intro plain_action_row(2)) (simp add: insert_ledger_Inr)
  then show ?thesis using assms
    by (simp add: rows_with_key_def baseline_count insert_ledger_Inr planned_key_def or_empty_def)
qed

lemma insert_awards_fresh:
  assumes "insert_awards now ps n d = (Inr m, d')"
    and "distinct (map pa_txHash ps)"
    and "\<forall>p \<in> set ps. \<forall>r \<in> set (db_ledger d). \<not> awarded_row (pa_reason p) (pa_txHash p) r"
  shows "(\<forall>K. rows_with_key K d' = rows_with_key K d + int (length (filter (\<lambda>p. planned_key p = K) ps)))
    \<and> (\<forall>p \<in> set ps. \<exists>r \<in> set (db_ledger d'). awarded_row (pa_reason p) (pa_txHash p) r)
    \<and> extends d d'"
  using assms
proof (induction ps arbitrary: n d)
  case (Cons p ps)
  then obtain j d1 where x: "insertActionAward now CAMPAIGN_ID p d = Inr (j, d1)"
      and rest: "insert_awards now ps (n + j) d1 = (Inr m, d')"
    by (auto split: sum.splits prod.splits)
  have fresh: "\<not> (\<exists>r \<in> set (db_ledger d). awarded_row (pa_reason p) (pa_txHash p) r)" using Cons.prems(3) by simp
  obtain mu pts k where ins: "insert_ledger (action_row now CAMPAIGN_ID p mu pts) d = Inr (k, d1)"
    using insertActionAward_Inr [OF x] action_conflict fresh by blast
  have d1: "db_ledger d1 = db_ledger d @ [ledger_row (action_row now CAMPAIGN_ID p mu pts) d]"
    using ins by (simp add: insert_ledger_Inr)
  have "\<forall>q \<in> set ps. \<forall>r \<in> set (db_ledger d1). \<not> awarded_row (pa_reason q) (pa_txHash q) r"
    using Cons.prems(2,3) by (auto simp: d1 awarded_row_def image_iff)
  from Cons.IH [OF rest _ this] have IH: "\<forall>K. rows_with_key K d' = rows_with_key K d1 + int (length (filter (\<lambda>p. planned_key p = K) ps))"
      "\<forall>p \<in> set ps. \<exists>r \<in> set (db_ledger d'). awarded_row (pa_reason p) (pa_txHash p) r" "extends d1 d'"
    using Cons.prems(2) by simp_all
  have "\<exists>r \<in> set (db_ledger d1). awarded_row (pa_reason p) (pa_txHash p) r" by (simp add: d1 awarded_row_def)
  then have "\<exists>r \<in> set (db_ledger d'). awarded_row (pa_reason p) (pa_txHash p) r" using IH(3) by (auto simp: extends_def)
  moreover have "extends d d'" using IH(3) extends_insert_ledger [OF ins] extends_trans by blast
  ultimately show ?case using IH rows_with_key_append [OF ins] by simp
qed simp

section \<open>The candidates\<close>

definition joined :: "ms \<Rightarrow> ms option \<Rightarrow> Db \<Rightarrow> WitnessRow \<times> EnrollmentRow \<Rightarrow> bool" where
  "joined s e d = (\<lambda>(w, en). en_campaign en = CAMPAIGN_ID \<and> lower_eq (en_address en) (wt_wallet_address w)
     \<and> awardable w \<and> in_sql_window s e (wt_ledger_closed_at w))"

definition paid :: "Db \<Rightarrow> WitnessRow \<times> EnrollmentRow \<Rightarrow> bool" where
  "paid d = (\<lambda>(w, en). \<exists>l \<in> set (db_ledger d). awarded_row (''action:'' @ wt_kind w) (wt_tx_hash w) l)"

definition witness_hash_key :: "WitnessRow \<Rightarrow> tx_hash option" where
  "witness_hash_key w = Some (wt_tx_hash w)"

lemma findActionCandidates_eq:
  "findActionCandidates CAMPAIGN_ID s e d =
     filter (\<lambda>x. \<not> paid d x) (sort_key (\<lambda>(w, e). (wt_ledger_closed_at w, wt_tx_hash w))
       (filter (joined s e d) (List.product (db_witnesses d) (db_enrollments d))))"
  unfolding findActionCandidates_def filter_sort filter_filter joined_def paid_def awarded_row_def
  by (intro arg_cong [where f = "sort_key _"] filter_cong) (auto simp: list_ex_iff)

lemma candidate_of_pair:
  assumes "awardable (fst x)"
  shows "\<exists>c. candidate_of x = Some c \<and> ac_txHash c = wt_tx_hash (fst x) \<and> action_reason (ac_kind c) = ''action:'' @ wt_kind (fst x)"
  using assms by (cases x) (auto simp: candidate_of_def awardable_def AWARDABLE_KINDS_def kind_of_def action_reason_def)

lemma map_filter_all: "(\<And>x. x \<in> set xs \<Longrightarrow> f x \<noteq> None) \<Longrightarrow> List.map_filter f xs = map (\<lambda>x. the (f x)) xs"
  by (induction xs) (auto simp: List.map_filter_simps split: option.split)

lemma mem_map_filter: "y \<in> set (List.map_filter f xs) \<longleftrightarrow> (\<exists>x \<in> set xs. f x = Some y)"
  by (induction xs) (auto simp: List.map_filter_simps split: option.splits)

definition award_candidates :: "ms \<Rightarrow> ms option \<Rightarrow> Db \<Rightarrow> AwardCandidate list" where
  "award_candidates s e d = List.map_filter candidate_of (findActionCandidates CAMPAIGN_ID s e d)"

lemma award_candidates_mem:
  "c \<in> set (award_candidates s e d) \<longleftrightarrow>
     (\<exists>w \<in> set (db_witnesses d). \<exists>en \<in> set (db_enrollments d). joined s e d (w, en) \<and> \<not> paid d (w, en)
        \<and> candidate_of (w, en) = Some c)"
  unfolding award_candidates_def findActionCandidates_eq mem_map_filter by auto

lemma distinct_product_filter:
  assumes "unique_on witness_hash_key ws" "unique_on enrollment_wallet_key es"
  shows "distinct (map (\<lambda>x. wt_tx_hash (fst x)) (filter (joined s e d) (List.product ws es)))"
proof -
  have one: "length (filter (\<lambda>en. joined s e d (w, en)) es) \<le> 1" for w
    by (rule unique_on_filter_length [OF assms(2), of _ "(CAMPAIGN_ID, toLowerCase (wt_wallet_address w))"])
      (auto simp: joined_def enrollment_wallet_key_def lower_eq_def)
  have "filter (joined s e d) (map (Pair w) es) = map (Pair w) (filter (\<lambda>en. joined s e d (w, en)) es)" for w
    by (simp add: filter_map o_def)
  then have "distinct (map (\<lambda>x. wt_tx_hash (fst x)) (filter (joined s e d) (map (Pair w) es)))" for w
    using one [of w] by (cases "filter (\<lambda>en. joined s e d (w, en)) es"; cases "tl (filter (\<lambda>en. joined s e d (w, en)) es)") auto
  then show ?thesis using assms(1)
  proof (induction ws)
    case (Cons w ws)
    have "wt_tx_hash w \<noteq> wt_tx_hash x" if "x \<in> set ws" for x
      using Cons.prems(2) that by (auto simp: conflicts_iff witness_hash_key_def)
    then show ?case using Cons by (fastforce simp: image_iff)
  qed simp
qed

lemma award_candidates_distinct:
  assumes "unique_on witness_hash_key (db_witnesses d)" "unique_on enrollment_wallet_key (db_enrollments d)"
  shows "distinct (map ac_txHash (award_candidates s e d))"
proof -
  let ?xs = "findActionCandidates CAMPAIGN_ID s e d"
  have aw: "awardable (fst x)" if "x \<in> set ?xs" for x
    using that by (auto simp: findActionCandidates_eq joined_def)
  have "award_candidates s e d = map (\<lambda>x. the (candidate_of x)) ?xs"
    unfolding award_candidates_def using candidate_of_pair [OF aw] by (intro map_filter_all) fastforce
  then have "map ac_txHash (award_candidates s e d) = map (\<lambda>x. wt_tx_hash (fst x)) ?xs"
    using candidate_of_pair [OF aw] by fastforce
  also have "distinct \<dots>"
  proof -
    let ?ys = "filter (joined s e d) (List.product (db_witnesses d) (db_enrollments d))"
    have "distinct (map (\<lambda>x. wt_tx_hash (fst x)) (sort_key (\<lambda>(w, e). (wt_ledger_closed_at w, wt_tx_hash w)) ?ys))"
      using distinct_product_filter [OF assms, of s e d] unfolding distinct_map by (simp add: distinct_sort)
    then show ?thesis unfolding findActionCandidates_eq by (rule distinct_map_filter)
  qed
  finally show ?thesis .
qed

section \<open>What a run leaves as it was\<close>

definition same_inputs :: "Db \<Rightarrow> Db \<Rightarrow> bool" where
  "same_inputs d d' \<longleftrightarrow> db_witnesses d' = db_witnesses d \<and> db_enrollments d' = db_enrollments d \<and> db_checkins d' = db_checkins d"

lemma same_inputs_refl [simp]: "same_inputs d d"
  by (simp add: same_inputs_def)

lemma same_inputs_trans: "same_inputs d d' \<Longrightarrow> same_inputs d' d'' \<Longrightarrow> same_inputs d d''"
  by (simp add: same_inputs_def)

lemma same_inputs_insertActionAward: "insertActionAward now ca p d = Inr (k, d') \<Longrightarrow> same_inputs d d'"
  by (auto dest!: insertActionAward_Inr simp: insert_ledger_Inr same_inputs_def)

lemma same_inputs_or_nothing: "insert_ledger_or_nothing r d = Inr (k, d') \<Longrightarrow> same_inputs d d'"
  by (auto simp: insert_ledger_or_nothing_Inr insert_ledger_Inr same_inputs_def)

text \<open>A credit: two appends that are no action rows, and the mark on the link.\<close>

lemma creditReferral_effect:
  assumes "creditReferral now p d = Inr d'"
  shows "same_inputs d d' \<and> extends d d' \<and> rows_with_key K d' = rows_with_key K d
    \<and> (\<forall>r \<in> set (db_referrals d'). rf_credited_at r = None \<longrightarrow>
          r \<in> set (db_referrals d) \<and> \<not> (rf_campaign r = cr_campaign p \<and> rf_referee_address r = cr_refereeAddress p))"
proof -
  obtain u v n m d1 d2
    where 1: "insert_ledger_or_nothing (referral_row now p (cr_referrerAddress p) u ''referral:referrer'' (cr_referrerPoints p)) d = Inr (n, d1)"
      and 2: "insert_ledger_or_nothing (referral_row now p (cr_refereeAddress p) v ''referral:referee'' (cr_refereePoints p)) d1 = Inr (m, d2)"
      and m: "mark_credited now p d2 = Inr d'"
    using creditReferral_writes [OF assms] by blast
  have key: "rows_with_key K e' = rows_with_key K e"
    if ins: "insert_ledger_or_nothing (referral_row now p a u' reason pts) e = Inr (j, e')"
      and "reason = ''referral:referrer'' \<or> reason = ''referral:referee''" for a u' reason pts e j e'
    using that by (auto simp: insert_ledger_or_nothing_Inr insert_ledger_Inr rows_with_key_def baseline_count referral_row_def)
  obtain x where x: "d' = d2\<lparr>db_referrals := x\<rparr>" using mark_credited_frame [OF m] by blast
  have "rows_with_key K d' = rows_with_key K d2" by (simp add: x rows_with_key_def baseline_count)
  moreover have "rows_with_key K d2 = rows_with_key K d" using key [OF 1] key [OF 2] by simp
  moreover have "same_inputs d d'"
    using same_inputs_or_nothing [OF 1] same_inputs_or_nothing [OF 2] x by (simp add: same_inputs_def)
  moreover have "db_referrals d2 = db_referrals d"
    using 1 2 by (auto simp: insert_ledger_or_nothing_Inr insert_ledger_Inr)
  then have "\<forall>r \<in> set (db_referrals d'). rf_credited_at r = None \<longrightarrow>
      r \<in> set (db_referrals d) \<and> \<not> (rf_campaign r = cr_campaign p \<and> rf_referee_address r = cr_refereeAddress p)"
    using m by (auto simp: mark_credited_def Let_def split: if_splits)
  ultimately show ?thesis using extends_creditReferral [OF assms] by simp
qed

text \<open>Whether the loop credits a link depends on the witnesses only.\<close>

definition creditable :: "ms option \<Rightarrow> ms option \<Rightarrow> Db \<Rightarrow> ReferralRow \<Rightarrow> bool" where
  "creditable s e d link \<longleftrightarrow>
     (case findRefereeFirstQualifyingWitness (rf_referee_address link) (rf_linked_at link) d of
        None \<Rightarrow> False
      | Some w \<Rightarrow> \<exists>x. referralCredit (rf_linked_at link) (Some (wt_ledger_closed_at w)) s e = Inr x)"

lemma creditable_cong: "same_inputs d d' \<Longrightarrow> creditable s e d' = creditable s e d"
  by (simp add: creditable_def findRefereeFirstQualifyingWitness_def same_inputs_def fun_eq_iff)

lemma referralCredit_None: "referralCredit l None s e = Inl NoVerifiedAction"
  by (simp add: referralCredit_def)

lemma credit_loop_Cons_refused:
  "\<not> creditable s e d link \<Longrightarrow> credit_loop now s e (link # ls) acc d = credit_loop now s e ls (fst acc, snd acc + 1) d"
  by (auto simp: creditable_def referralCredit_None Let_def split: option.splits sum.splits)

lemma credit_loop_all_refused:
  "\<forall>l \<in> set ls. \<not> creditable s e d l \<Longrightarrow> credit_loop now s e ls acc d = (Inr (fst acc, snd acc + int (length ls)), d)"
proof (induction ls arbitrary: acc)
  case (Cons l ls)
  then have "credit_loop now s e (l # ls) acc d = credit_loop now s e ls (fst acc, snd acc + 1) d"
    by (intro credit_loop_Cons_refused) simp
  then show ?case using Cons by simp
qed simp

lemma credit_loop_Cons_credited:
  assumes "creditable s e d link" "credit_loop now s e (link # ls) acc d = (Inr acc', d')"
  shows "\<exists>p d1. creditReferral now p d = Inr d1 \<and> cr_campaign p = CAMPAIGN_ID \<and> cr_refereeAddress p = rf_referee_address link
    \<and> credit_loop now s e ls (fst acc + 1, snd acc) d1 = (Inr acc', d')"
  using assms by (fastforce simp: creditable_def Let_def split: option.splits sum.splits prod.splits)

lemma credit_loop_effect:
  assumes "credit_loop now s e ls acc d = (Inr acc', d')"
  shows "same_inputs d d' \<and> extends d d' \<and> (\<forall>K. rows_with_key K d' = rows_with_key K d)
    \<and> (\<forall>r \<in> set (db_referrals d'). rf_credited_at r = None \<longrightarrow> r \<in> set (db_referrals d)
        \<and> (\<forall>l \<in> set ls. rf_campaign r = CAMPAIGN_ID \<longrightarrow> rf_referee_address r = rf_referee_address l \<longrightarrow> \<not> creditable s e d l))"
  using assms
proof (induction ls arbitrary: acc d)
  case (Cons l ls)
  show ?case
  proof (cases "creditable s e d l")
    case False
    then have "credit_loop now s e ls (fst acc, snd acc + 1) d = (Inr acc', d')"
      using Cons.prems credit_loop_Cons_refused by metis
    from Cons.IH [OF this] show ?thesis using False by auto
  next
    case True
    obtain p d1 where p: "creditReferral now p d = Inr d1" "cr_campaign p = CAMPAIGN_ID" "cr_refereeAddress p = rf_referee_address l"
        and rest: "credit_loop now s e ls (fst acc + 1, snd acc) d1 = (Inr acc', d')"
      using credit_loop_Cons_credited [OF True Cons.prems] by blast
    have eff: "same_inputs d d1" "extends d d1" "\<forall>K. rows_with_key K d1 = rows_with_key K d"
        "\<forall>r \<in> set (db_referrals d1). rf_credited_at r = None \<longrightarrow>
          r \<in> set (db_referrals d) \<and> \<not> (rf_campaign r = CAMPAIGN_ID \<and> rf_referee_address r = rf_referee_address l)"
      using creditReferral_effect [OF p(1)] p(2,3) by auto
    show ?thesis
      using Cons.IH [OF rest] eff same_inputs_trans extends_trans creditable_cong [OF eff(1), of s e] by auto
  qed
qed simp

lemma grant_loop_effect:
  assumes "grant_loop now gs n d = (Inr m, d')"
  shows "same_inputs d d' \<and> db_ledger d' = db_ledger d \<and> db_referrals d' = db_referrals d
    \<and> (\<exists>ps. db_perks d' = db_perks d @ ps)
    \<and> (\<forall>(a, bal, k) \<in> set gs. STELLAR_PUBKEY_RE a \<and> 0 \<le> bal
         \<and> (\<exists>x \<in> set (db_perks d'). perk_key x = Some (CAMPAIGN_ID, a, k)))"
  using assms
proof (induction gs arbitrary: n d)
  case (Cons g gs)
  obtain a bal k where g: "g = (a, bal, k)" by (cases g)
  let ?p = "\<lparr>pk_campaign = CAMPAIGN_ID, pk_address = a, pk_perk_key = k, pk_granted_at = now, pk_points_at_grant = bal\<rparr>"
  obtain j d1 where x: "insertPerk ?p d = Inr (j, d1)" and rest: "grant_loop now gs (n + j) d1 = (Inr m, d')"
    using Cons.prems g by (auto split: sum.splits prod.splits)
  have ok: "STELLAR_PUBKEY_RE a" "0 \<le> bal" using x by (auto simp: insertPerk_def split: if_splits)
  have 1: "same_inputs d d1 \<and> db_ledger d1 = db_ledger d \<and> db_referrals d1 = db_referrals d \<and> (\<exists>ps. db_perks d1 = db_perks d @ ps)"
    using insertPerk_Inr [OF x] by (auto simp: same_inputs_def)
  have "\<exists>x \<in> set (db_perks d1). perk_key x = Some (CAMPAIGN_ID, a, k)"
    using insertPerk_Inr [OF x] by (auto simp: conflicts_iff perk_key_def)
  then have "\<exists>x \<in> set (db_perks d'). perk_key x = Some (CAMPAIGN_ID, a, k)" using Cons.IH [OF rest] by auto
  then show ?case using Cons.IH [OF rest] 1 ok g same_inputs_trans by auto
qed simp

lemma grant_loop_again:
  assumes "\<forall>(a, bal, k) \<in> set gs. STELLAR_PUBKEY_RE a \<and> 0 \<le> bal
         \<and> (\<exists>x \<in> set (db_perks d). perk_key x = Some (CAMPAIGN_ID, a, k))"
  shows "grant_loop now gs n d = (Inr n, d)"
  using assms
proof (induction gs arbitrary: n)
  case (Cons g gs)
  obtain a bal k where g: "g = (a, bal, k)" by (cases g)
  have "insertPerk \<lparr>pk_campaign = CAMPAIGN_ID, pk_address = a, pk_perk_key = k, pk_granted_at = now, pk_points_at_grant = bal\<rparr> d
      = Inr (0, d)"
    using Cons.prems g by (auto simp: insertPerk_def conflicts_iff perk_key_def)
  then show ?case using Cons g by simp
qed simp

section \<open>The second run\<close>

lemma plan_loop_all_refused:
  assumes "\<forall>c \<in> set cs. \<exists>k r. cand_streak ci c = Some k \<and> actionAward (cand_facts s e c k (count_of cnts (cand_key c))) = Inl r"
  shows "\<exists>sk. plan_loop s e ci cs (cnts, plan) = Some (cnts, plan\<lparr>ap_skipped := sk\<rparr>)"
  using assms
proof (induction cs arbitrary: plan)
  case Nil
  have "plan = plan\<lparr>ap_skipped := ap_skipped plan\<rparr>" by simp
  then show ?case by (metis plan_loop.simps(1))
next
  case (Cons c cs)
  then obtain k r where "cand_streak ci c = Some k" "actionAward (cand_facts s e c k (count_of cnts (cand_key c))) = Inl r"
    by auto
  then have "plan_step s e ci c (cnts, plan) = Some (cnts, plan\<lparr>ap_skipped := skip r (ap_skipped plan)\<rparr>)"
    by (simp add: plan_step_def cand_streak_def cand_facts_def cand_key_def Let_def)
  moreover obtain sk where "plan_loop s e ci cs (cnts, plan\<lparr>ap_skipped := skip r (ap_skipped plan)\<rparr>)
      = Some (cnts, plan\<lparr>ap_skipped := skip r (ap_skipped plan)\<rparr>\<lparr>ap_skipped := sk\<rparr>)"
    using Cons.IH [of "plan\<lparr>ap_skipped := skip r (ap_skipped plan)\<rparr>"] Cons.prems by auto
  ultimately show ?case by auto
qed

abbreviation empty_plan :: AwardPlan where
  "empty_plan \<equiv> \<lparr>ap_awards = [], ap_skipped = EMPTY_SKIPS\<rparr>"

lemma award_plan_eq:
  "award_plan s e d = map_option snd (plan_loop (Some s) e (checkinSetsFromRows (checkinDaysByWallet CAMPAIGN_ID d))
     (award_candidates s e d) (countsFromRows (countedActionsByDay CAMPAIGN_ID d), empty_plan))"
  by (simp add: award_plan_def planActionAwards_def award_candidates_def)

lemma award_plan_again:
  assumes u: "unique_on witness_hash_key (db_witnesses d)" "unique_on enrollment_wallet_key (db_enrollments d)"
    and plan: "award_plan s e d = Some plan"
    and ins: "insert_awards now (ap_awards plan) 0 d = (Inr m, d1)"
    and later: "same_inputs d d3" "extends d1 d3" "\<forall>K. rows_with_key K d3 = rows_with_key K d1"
  shows "\<exists>sk. award_plan s e d3 = Some \<lparr>ap_awards = [], ap_skipped = sk\<rparr>"
proof -
  define ci where "ci = checkinSetsFromRows (checkinDaysByWallet CAMPAIGN_ID d)"
  have ci3: "checkinSetsFromRows (checkinDaysByWallet CAMPAIGN_ID d3) = ci"
    using later(1) by (simp add: ci_def checkinDaysByWallet_def same_inputs_def)
  obtain st where st: "plan_loop (Some s) e ci (award_candidates s e d) (countsFromRows (countedActionsByDay CAMPAIGN_ID d), empty_plan)
      = Some st" "plan = snd st"
    using plan unfolding award_plan_eq ci_def by auto
  have cov: "plan_covers (Some s) e ci (award_candidates s e d) (countsFromRows (countedActionsByDay CAMPAIGN_ID d)) (fst st)
      (ap_awards plan)"
    using plan_loop_covers [OF st(1)] st(2) by auto
  have fresh: "\<forall>p \<in> set (ap_awards plan). \<forall>r \<in> set (db_ledger d). \<not> awarded_row (pa_reason p) (pa_txHash p) r"
  proof (intro ballI)
    fix p r assume "p \<in> set (ap_awards plan)" and r: "r \<in> set (db_ledger d)"
    then obtain c where c: "c \<in> set (award_candidates s e d)" "pa_txHash p = ac_txHash c" "pa_reason p = action_reason (ac_kind c)"
      using cov by (auto simp: plan_covers_def)
    then obtain w en where we: "joined s e d (w, en)" "\<not> paid d (w, en)" "candidate_of (w, en) = Some c"
      by (auto simp: award_candidates_mem)
    then have "ac_txHash c = wt_tx_hash w" "action_reason (ac_kind c) = ''action:'' @ wt_kind w"
      using candidate_of_pair [of "(w, en)"] by (auto simp: joined_def)
    then show "\<not> awarded_row (pa_reason p) (pa_txHash p) r" using we(2) c(2,3) r by (auto simp: paid_def)
  qed
  have "distinct (map pa_txHash (ap_awards plan))"
    using cov award_candidates_distinct [OF u] by (simp add: plan_covers_def)
  from insert_awards_fresh [OF ins this fresh]
  have keys: "\<forall>K. rows_with_key K d1 = rows_with_key K d + int (length (filter (\<lambda>p. planned_key p = K) (ap_awards plan)))"
    and rows: "\<forall>p \<in> set (ap_awards plan). \<exists>r \<in> set (db_ledger d1). awarded_row (pa_reason p) (pa_txHash p) r"
    and ext: "extends d d1" by simp_all
  have final: "count_of (fst st) K = rows_with_key K d3" for K
    using cov keys later(3) by (simp add: plan_covers_def rows_with_key_def)
  have "\<exists>k r. cand_streak ci c = Some k \<and> actionAward (cand_facts (Some s) e c k (rows_with_key (cand_key c) d3)) = Inl r"
    if c: "c \<in> set (award_candidates s e d3)" for c
  proof -
    obtain w en where we: "w \<in> set (db_witnesses d3)" "en \<in> set (db_enrollments d3)" "joined s e d3 (w, en)" "\<not> paid d3 (w, en)"
        "candidate_of (w, en) = Some c"
      using c by (auto simp: award_candidates_mem)
    have "\<not> paid d (w, en)" using we(4) ext later(2) by (auto simp: paid_def extends_def)
    then have "c \<in> set (award_candidates s e d)"
      using we later(1) by (auto simp: award_candidates_mem same_inputs_def joined_def)
    moreover have hash: "ac_txHash c = wt_tx_hash w" "action_reason (ac_kind c) = ''action:'' @ wt_kind w"
      using candidate_of_pair [of "(w, en)"] we(3,5) by (auto simp: joined_def)
    have "\<not> (\<exists>p \<in> set (ap_awards plan). pa_txHash p = ac_txHash c \<and> pa_reason p = action_reason (ac_kind c))"
      using rows we(4) later(2) hash by (fastforce simp: paid_def extends_def)
    ultimately show ?thesis using cov final by (fastforce simp: plan_covers_def)
  qed
  then have all: "\<forall>c \<in> set (award_candidates s e d3). \<exists>k r. cand_streak ci c = Some k
      \<and> actionAward (cand_facts (Some s) e c k (count_of (countsFromRows (countedActionsByDay CAMPAIGN_ID d3)) (cand_key c))) = Inl r"
    by (simp add: rows_with_key_def)
  obtain sk where "plan_loop (Some s) e ci (award_candidates s e d3) (countsFromRows (countedActionsByDay CAMPAIGN_ID d3), empty_plan)
      = Some (countsFromRows (countedActionsByDay CAMPAIGN_ID d3), empty_plan\<lparr>ap_skipped := sk\<rparr>)"
    using plan_loop_all_refused [OF all, of empty_plan] by blast
  then show ?thesis by (auto simp: award_plan_eq ci3)
qed

lemma uncredited_mem: "r \<in> set (findUncreditedReferrals CAMPAIGN_ID d) \<longleftrightarrow>
    r \<in> set (db_referrals d) \<and> rf_campaign r = CAMPAIGN_ID \<and> rf_credited_at r = None"
  by (auto simp: findUncreditedReferrals_def)

lemma run_again:
  assumes u: "unique_on witness_hash_key (db_witnesses d)" "unique_on enrollment_wallet_key (db_enrollments d)"
    and run: "runCampaignAward env now d = (Inr s1, d3)"
  shows "\<exists>s2. runCampaignAward env now' d3 = (Inr s2, d3)
    \<and> as_awardedActions s2 = 0 \<and> as_referralsCredited s2 = 0 \<and> as_perksGranted s2 = 0"
proof (cases "if isCampaignEnabled env then campaignStartsAt env else None")
  case None
  then show ?thesis using run by (auto simp: runCampaignAward_def empty_summary_def)
next
  case (Some s)
  define e where "e = campaignEndsAt env"
  obtain plan where plan: "award_plan s e d = Some plan"
    using run Some by (auto simp: runCampaignAward_def Let_def e_def split: option.splits)
  obtain m d1 where ins: "insert_awards now (ap_awards plan) 0 d = (Inr m, d1)"
    using run Some plan by (auto simp: runCampaignAward_def Let_def e_def split: prod.splits sum.splits)
  obtain acc d2 where cr: "credit_loop now (Some s) e (findUncreditedReferrals CAMPAIGN_ID d1) (0, 0) d1 = (Inr acc, d2)"
    using run Some plan ins by (auto simp: runCampaignAward_def Let_def e_def split: prod.splits sum.splits)
  obtain g where gr: "grant_loop now (grants_due (balancesOfEnrolled CAMPAIGN_ID d2)) 0 d2 = (Inr g, d3)"
    using run Some plan ins cr by (auto simp: runCampaignAward_def Let_def e_def split: prod.splits sum.splits)
  note c = credit_loop_effect [OF cr] and g = grant_loop_effect [OF gr]
  have s1: "same_inputs d d1"
    using insert_awards_inv [of "same_inputs d" d "ap_awards plan" now 0] ins same_inputs_insertActionAward same_inputs_trans
    by (metis same_inputs_refl snd_conv)
  have s2: "same_inputs d1 d2" "same_inputs d2 d3" using c g by simp_all
  have same: "same_inputs d d3" using s1 s2 same_inputs_trans by blast
  have keys: "\<forall>K. rows_with_key K d3 = rows_with_key K d1"
    using c g by (simp add: rows_with_key_def baseline_count)
  have ext: "extends d1 d3" using c g s2 by (auto simp: extends_def same_inputs_def)
  obtain sk where p3: "award_plan s e d3 = Some \<lparr>ap_awards = [], ap_skipped = sk\<rparr>"
    using award_plan_again [OF u plan ins same ext keys] by blast
  have ref: "\<forall>l \<in> set (findUncreditedReferrals CAMPAIGN_ID d3). \<not> creditable (Some s) e d3 l"
  proof
    fix l assume "l \<in> set (findUncreditedReferrals CAMPAIGN_ID d3)"
    then have l: "l \<in> set (db_referrals d2)" "rf_campaign l = CAMPAIGN_ID" "rf_credited_at l = None"
      using g by (auto simp: uncredited_mem)
    then have "l \<in> set (findUncreditedReferrals CAMPAIGN_ID d1)" using c by (auto simp: uncredited_mem)
    then have "\<not> creditable (Some s) e d1 l" using c l by blast
    then show "\<not> creditable (Some s) e d3 l" using creditable_cong s2 same_inputs_trans by metis
  qed
  note cr3 = credit_loop_all_refused [OF ref, of now' "(0, 0)"]
  have bal: "balancesOfEnrolled CAMPAIGN_ID d3 = balancesOfEnrolled CAMPAIGN_ID d2"
    using g by (simp add: balancesOfEnrolled_def balance_def points_where_def same_inputs_def)
  have gr3: "grant_loop now' (grants_due (balancesOfEnrolled CAMPAIGN_ID d3)) 0 d3 = (Inr 0, d3)"
    unfolding bal using g by (intro grant_loop_again) blast
  show ?thesis using Some p3 cr3 gr3 by (simp add: runCampaignAward_def Let_def e_def)
qed

end
