(* ===== verification/Campaign_Checkin.thy ===== *)
theory Campaign_Checkin
  imports Campaign_Rerun
begin

text \<open>
  The check-in endpoint in every reachable database: its two-phase decision is one decision over
  the facts, it never fails on a constraint, and the streak the profile shows is the run of
  consecutive days. Also the award plan's independence of same-day check-ins.
\<close>

section \<open>Addresses compare by case folding only\<close>

lemma of_char_lower_base32:
  "base32_char x \<Longrightarrow> (of_char (lower_char x) :: nat) = (if 65 \<le> (of_char x :: nat) then of_char x + 32 else of_char x)"
  by (auto simp: base32_char_def in_range_def lower_char_def Let_def of_char_of)

lemma base32_lower_inj: "inj_on lower_char {c. base32_char c}"
proof (rule inj_onI)
  fix c d assume b: "c \<in> {c. base32_char c}" "d \<in> {c. base32_char c}" and eq: "lower_char c = lower_char d"
  define m n :: nat where "m = of_char c" and "n = of_char d"
  have c: "(of_char (lower_char c) :: nat) = (if 65 \<le> m then m + 32 else m)"
    unfolding m_def using b(1) by (intro of_char_lower_base32) simp
  have d: "(of_char (lower_char d) :: nat) = (if 65 \<le> n then n + 32 else n)"
    unfolding n_def using b(2) by (intro of_char_lower_base32) simp
  have e: "(if 65 \<le> m then m + 32 else m) = (if 65 \<le> n then n + 32 else n)"
    unfolding c [symmetric] d [symmetric] eq ..
  have "(50 \<le> m \<and> m \<le> 55) \<or> (65 \<le> m \<and> m \<le> 90)" "(50 \<le> n \<and> n \<le> 55) \<or> (65 \<le> n \<and> n \<le> 90)"
    using b unfolding m_def n_def mem_Collect_eq base32_char_def in_range_def by blast+
  then have "m = n" using e by (simp split: if_split_asm)
  then show "c = d" unfolding m_def n_def by (metis char_of_char)
qed

lemma lower_eq_valid: "STELLAR_PUBKEY_RE a \<Longrightarrow> STELLAR_PUBKEY_RE b \<Longrightarrow> lower_eq a b \<Longrightarrow> a = b"
proof -
  assume v: "STELLAR_PUBKEY_RE a" "STELLAR_PUBKEY_RE b" and l: "lower_eq a b"
  obtain x y where xy: "a = CHR ''G'' # x" "b = CHR ''G'' # y" "list_all base32_char x" "list_all base32_char y"
    using v by (auto simp: STELLAR_PUBKEY_RE_def split: list.splits)
  then have "map lower_char x = map lower_char y" using l by (simp add: lower_eq_def toLowerCase_def)
  moreover have "inj_on lower_char (set x \<union> set y)"
    using xy(3,4) by (intro inj_on_subset [OF base32_lower_inj]) (auto simp: list_all_iff)
  ultimately show ?thesis using xy map_inj_on by blast
qed

section \<open>A streak row has its check-in\<close>

definition streaks_linked :: "Db \<Rightarrow> bool" where
  "streaks_linked d \<longleftrightarrow>
     (\<forall>r \<in> set (db_ledger d). \<forall>day. lr_checkin_day r = Some day \<longrightarrow>
        (\<exists>c \<in> set (db_checkins d). ci_campaign c = lr_campaign r \<and> ci_address c = lr_address r \<and> ci_day c = day))"

lemma streaks_linked_updates [simp]:
  "streaks_linked (d\<lparr>db_proofs := x1\<rparr>) = streaks_linked d" "streaks_linked (d\<lparr>db_challenges := x2\<rparr>) = streaks_linked d"
  "streaks_linked (d\<lparr>db_enrollments := x3\<rparr>) = streaks_linked d" "streaks_linked (d\<lparr>db_referrals := x4\<rparr>) = streaks_linked d"
  "streaks_linked (d\<lparr>db_witnesses := x5\<rparr>) = streaks_linked d" "streaks_linked (d\<lparr>db_wallets_created := x6\<rparr>) = streaks_linked d"
  "streaks_linked (d\<lparr>db_claims := x7\<rparr>) = streaks_linked d" "streaks_linked (d\<lparr>db_perks := x8\<rparr>) = streaks_linked d"
  by (simp_all add: streaks_linked_def)

lemma streaks_linked_plain:
  "streaks_linked d \<Longrightarrow> insert_ledger r d = Inr (n, d') \<Longrightarrow> lr_checkin_day r = None \<Longrightarrow> streaks_linked d'"
  by (auto simp: insert_ledger_Inr streaks_linked_def ledger_row_def)

lemma streaks_linked_or_nothing:
  "streaks_linked d \<Longrightarrow> insert_ledger_or_nothing r d = Inr (n, d') \<Longrightarrow> lr_checkin_day r = None \<Longrightarrow> streaks_linked d'"
  using streaks_linked_plain by (auto simp: insert_ledger_or_nothing_Inr)

lemma streak_row_fields [simp]:
  "lr_checkin_day (streak_row now ca e day) = Some day" "lr_campaign (streak_row now ca e day) = ca"
  "lr_address (streak_row now ca e day) = en_address e" "lr_points (streak_row now ca e day) = STREAK_DAILY_POINTS"
  "lr_reason (streak_row now ca e day) = ''streak:daily''"
  by (simp_all add: streak_row_def)

lemma streaks_linked_checkin: "streaks_linked d \<Longrightarrow> streaks_linked (snd (checkin env now a u d))"
proof -
  assume inv: "streaks_linked d"
  have "streaks_linked d'" if ct: "checkinToday now CAMPAIGN_ID a d = Inr (r, d')" for r d'
  proof (cases "d' = d")
    case False
    then obtain e d1 n
      where ins: "insert_checkin \<lparr>ci_campaign = CAMPAIGN_ID, ci_address = en_address e, ci_day = utcDay now, ci_created_at = now\<rparr> d = Inr d1"
        and row: "insert_ledger (streak_row now CAMPAIGN_ID e (utcDay now)) d1 = Inr (n, d')"
      using checkinToday_writes [OF ct] by blast
    have "db_checkins d1 = db_checkins d @ [\<lparr>ci_campaign = CAMPAIGN_ID, ci_address = en_address e, ci_day = utcDay now, ci_created_at = now\<rparr>]"
        "db_ledger d1 = db_ledger d" using ins by (auto simp: insert_checkin_def split: if_splits)
    then show ?thesis using inv row by (auto simp: insert_ledger_Inr streaks_linked_def ledger_row_def)
  qed (use inv in simp)
  then show ?thesis using inv by (auto simp: checkin_def split: sum.splits prod.splits)
qed

lemma social_row_checkin [simp]: "lr_checkin_day (social_row now ca a u aw i day) = None"
  "lr_checkin_day (social_delete_row now ca a u x pts) = None" "lr_checkin_day (referral_row now cp a u reason pts) = None"
  by (simp_all add: social_row_def social_delete_row_def referral_row_def blank_ledger_row_def)

lemma streaks_linked_claim: "streaks_linked d \<Longrightarrow> streaks_linked (snd (social_claim env now i p snap d))"
proof -
  assume inv: "streaks_linked d"
  have "streaks_linked d'" if "claim_transaction env now i proven p snap d = Inr (r, d')" for proven r d'
    using claim_transaction_writes [OF that] inv
    by (auto dest!: insertSocialClaim_Inr elim!: streaks_linked_plain [rotated])
  then show ?thesis using inv by (auto simp: social_claim_def Let_def split: sum.splits prod.splits option.splits)
qed

lemma streaks_linked_remove: "streaks_linked d \<Longrightarrow> streaks_linked (snd (social_remove now a u i d))"
proof -
  assume inv: "streaks_linked d"
  have "streaks_linked d'" if "remove_transaction now a i d = Inr (r, d')" for r d'
    using remove_transaction_writes [OF that] inv
    by (auto simp: correction_written_def softDeleteSocialClaim_def Let_def elim!: streaks_linked_plain [rotated])
  then show ?thesis using inv by (auto simp: social_remove_def split: sum.splits prod.splits)
qed

lemma streaks_linked_award: "streaks_linked d \<Longrightarrow> streaks_linked (snd (runCampaignAward env now d))"
proof (rule runCampaignAward_inv [of streaks_linked])
  show "streaks_linked d'" if "streaks_linked d" "insertActionAward now CAMPAIGN_ID p d = Inr (k, d')" for p d k d'
    using insertActionAward_Inr [OF that(2)] that(1) streaks_linked_plain by auto
  show "streaks_linked d'" if inv: "streaks_linked d" and c: "creditReferral now cr d = Inr d'" for cr d d'
  proof -
    obtain u v n m d1 d2
      where 1: "insert_ledger_or_nothing (referral_row now cr (cr_referrerAddress cr) u ''referral:referrer'' (cr_referrerPoints cr)) d = Inr (n, d1)"
        and 2: "insert_ledger_or_nothing (referral_row now cr (cr_refereeAddress cr) v ''referral:referee'' (cr_refereePoints cr)) d1 = Inr (m, d2)"
        and m: "mark_credited now cr d2 = Inr d'"
      using creditReferral_writes [OF c] by blast
    obtain x where "d' = d2\<lparr>db_referrals := x\<rparr>" using mark_credited_frame [OF m] by blast
    then show ?thesis using streaks_linked_or_nothing [OF streaks_linked_or_nothing [OF inv 1] 2] by simp
  qed
qed (auto dest!: insertPerk_Inr)

lemma streaks_linked_step: "campaign_step d d' \<Longrightarrow> streaks_linked d \<Longrightarrow> streaks_linked d'"
proof (induction rule: campaign_step.induct)
  case (challenge d now nonce a)
  show ?case using challenge by (subst issueChallenge_frame) simp
next
  case (verify d cr now newId p)
  show ?case using verify by (subst verifyChallenge_frame) simp
next
  case (enroll d env now newIds nextCode ep snap)
  show ?case
  proof (cases "snd (enroll env now newIds nextCode ep snap d) = d")
    case False
    then obtain referrer payload
      where "enroll_write now newIds nextCode ep referrer d = Inr (payload, snd (enroll env now newIds nextCode ep snap d))"
      using enroll_frame by blast
    from enroll_write_frame [OF this] obtain x y where "snd (enroll env now newIds nextCode ep snap d)
        = d\<lparr>db_enrollments := x, db_referrals := y\<rparr>" by blast
    then show ?thesis using enroll by simp
  qed (use enroll in simp)
next
  case (recover now a userId maxAge d r d')
  then obtain x where "d' = d\<lparr>db_proofs := x\<rparr>" using consumeUnboundProof_frame by blast
  then show ?case using recover by simp
qed (simp_all add: streaks_linked_checkin streaks_linked_claim streaks_linked_remove streaks_linked_award)

lemma streaks_linked_reachable: "campaign_reachable d \<Longrightarrow> streaks_linked d"
  by (induction rule: campaign_reachable.induct) (simp add: streaks_linked_def empty_db_def, simp add: streaks_linked_step)

section \<open>Check-in as one decision\<close>

definition checked_in :: "address \<Rightarrow> string \<Rightarrow> Db \<Rightarrow> bool" where
  "checked_in a day d \<longleftrightarrow>
     (\<exists>e. findEnrollment CAMPAIGN_ID a d = Some e \<and>
        (\<exists>c \<in> set (db_checkins d). ci_campaign c = CAMPAIGN_ID \<and> ci_address c = en_address e \<and> ci_day c = day))"

lemma findEnrollment_mem: "findEnrollment ca a d = Some e \<Longrightarrow>
    e \<in> set (db_enrollments d) \<and> en_campaign e = ca \<and> lower_eq (en_address e) a"
  by (auto simp: findEnrollment_def dest: find_Some_in)

lemma streak_row_checks: "STELLAR_PUBKEY_RE (en_address e) \<Longrightarrow> ledger_checks (streak_row now ca e day)"
  by (simp add: ledger_checks_def reference_check_def streak_row_def blank_ledger_row_def ledger_reason_ok_def
      num_nonnulls_def STREAK_DAILY_POINTS_def Let_def)

lemma checkinToday_spec:
  assumes inv: "points_inv d" "enrollments_inv d" "streaks_linked d"
    and e: "findEnrollment CAMPAIGN_ID a d = Some e"
  shows "checkinToday now CAMPAIGN_ID a d =
    (if checked_in a (utcDay now) d then Inr (Inl CheckinAlreadyDone, d)
     else Inr (Inr \<lparr>cd_day = utcDay now, cd_points = STREAK_DAILY_POINTS, cd_ledgerId = db_ledger_seq d + 1\<rparr>,
       append_ledger (streak_row now CAMPAIGN_ID e (utcDay now))
         (d\<lparr>db_checkins := db_checkins d @ [\<lparr>ci_campaign = CAMPAIGN_ID, ci_address = en_address e,
             ci_day = utcDay now, ci_created_at = now\<rparr>]\<rparr>)))"
proof -
  let ?row = "\<lparr>ci_campaign = CAMPAIGN_ID, ci_address = en_address e, ci_day = utcDay now, ci_created_at = now\<rparr>"
  let ?d1 = "d\<lparr>db_checkins := db_checkins d @ [?row]\<rparr>"
  have seen: "(0 < length (filter (\<lambda>c. checkin_row_key c = checkin_row_key ?row) (db_checkins d))) = checked_in a (utcDay now) d"
    using e by (auto simp: checked_in_def checkin_row_key_def filter_empty_conv)
  have val: "STELLAR_PUBKEY_RE (en_address e)"
    using findEnrollment_mem [OF e] inv(2) by (simp add: enrollments_inv_def)
  show ?thesis
  proof (cases "checked_in a (utcDay now) d")
    case True then show ?thesis using seen e by (simp add: checkinToday_def Let_def)
  next
    case False
    then have no: "\<forall>c \<in> set (db_checkins d). checkin_row_key c \<noteq> checkin_row_key ?row"
      using seen by (simp add: filter_empty_conv)
    then have "insert_checkin ?row d = Inr ?d1" using val by (simp add: insert_checkin_def conflicts_iff)
    moreover have "\<not> conflicts checkin_key (db_ledger d) (streak_row now CAMPAIGN_ID e (utcDay now))"
    proof
      assume "conflicts checkin_key (db_ledger d) (streak_row now CAMPAIGN_ID e (utcDay now))"
      then obtain r where r: "r \<in> set (db_ledger d)" "lr_checkin_day r = Some (utcDay now)" "lr_campaign r = CAMPAIGN_ID"
          "lower_eq (lr_address r) (en_address e)"
        by (auto simp: conflicts_iff checkin_key_def lower_eq_def)
      have "STELLAR_PUBKEY_RE (lr_address r)"
        using inv(1) r(1) by (auto simp: points_inv_def points_struct_def ledger_checks_def)
      then have "lr_address r = en_address e" using val r(4) by (intro lower_eq_valid)
      then show False using inv(3) r no by (fastforce simp: streaks_linked_def checkin_row_key_def)
    qed
    then have "insert_ledger (streak_row now CAMPAIGN_ID e (utcDay now)) ?d1
        = Inr (db_ledger_seq d + 1, append_ledger (streak_row now CAMPAIGN_ID e (utcDay now)) ?d1)"
      using streak_row_checks [OF val]
      by (simp add: insert_ledger_Inr ledger_conflict_None ledger_references_def)
        (simp add: conflicts_def witness_key_def social_claim_key_def referee_key_def streak_row_def blank_ledger_row_def)
    ultimately show ?thesis using False seen e by (simp add: checkinToday_def Let_def)
  qed
qed

lemma checkin_spec:
  assumes inv: "points_inv d" "enrollments_inv d" "streaks_linked d"
  shows "fst (checkin env now a u d) = Inr
    (map_sum id (\<lambda>_. (utcDay now, STREAK_DAILY_POINTS))
      (checkinEligibility \<lparr>cf_window = campaign_window env now, cf_proven = hasBoundProof a u d,
         cf_enrolled = (findEnrollment CAMPAIGN_ID a d \<noteq> None), cf_alreadyCheckedInToday = checked_in a (utcDay now) d\<rparr>))"
proof (cases "findEnrollment CAMPAIGN_ID a d")
  case None
  then show ?thesis
    by (auto simp: checkin_def checkinEligibility_def checkinToday_def split: sum.split)
next
  case (Some e)
  show ?thesis
    using checkinToday_spec [OF inv Some, of now] Some
    by (auto simp: checkin_def checkinEligibility_def split: sum.split)
qed

lemma checkin_success_effect:
  assumes inv: "points_inv d" "enrollments_inv d" "streaks_linked d"
    and ok: "checkin env now a u d = (Inr (Inr (day, pts)), d')"
  shows "day = utcDay now \<and> pts = STREAK_DAILY_POINTS \<and> checked_in a day d'
    \<and> balance CAMPAIGN_ID a d' = balance CAMPAIGN_ID a d + STREAK_DAILY_POINTS"
proof -
  obtain e where e: "findEnrollment CAMPAIGN_ID a d = Some e"
    using ok by (cases "findEnrollment CAMPAIGN_ID a d") (auto simp: checkin_def checkinToday_def split: sum.splits)
  have el: "lower_eq (en_address e) a" using findEnrollment_mem [OF e] by simp
  have "\<not> checked_in a (utcDay now) d" "day = utcDay now" "pts = STREAK_DAILY_POINTS"
    and d': "d' = append_ledger (streak_row now CAMPAIGN_ID e (utcDay now))
         (d\<lparr>db_checkins := db_checkins d @ [\<lparr>ci_campaign = CAMPAIGN_ID, ci_address = en_address e,
             ci_day = utcDay now, ci_created_at = now\<rparr>]\<rparr>)"
    using ok checkinToday_spec [OF inv e, of now] by (auto simp: checkin_def split: sum.splits if_splits)
  moreover have "findEnrollment CAMPAIGN_ID a d' = Some e" using e by (simp add: d' findEnrollment_def)
  ultimately show ?thesis using el
    by (simp add: checked_in_def balance_def points_where_append_ledger)
      (auto simp: points_where_def wallet_row_def)
qed

end
