(* ===== verification/Campaign_Streaks.thy ===== *)
theory Campaign_Streaks
  imports Campaign_Checkin Campaign_Reads
begin

text \<open>
  Streaks as the profile and the award job compute them from the check-in rows: the profile never
  throws and shows the run of consecutive days, and the award plan for the past does not move
  when today's check-in arrives.
\<close>

section \<open>The profile's streak\<close>

definition checkin_day_set :: "address \<Rightarrow> Db \<Rightarrow> string set" where
  "checkin_day_set a d = {ci_day c | c. c \<in> set (db_checkins d) \<and> ci_campaign c = CAMPAIGN_ID \<and> ci_address c = a}"

lemma set_checkinDays: "set (checkinDays CAMPAIGN_ID a d) = checkin_day_set a d"
  by (auto simp: checkinDays_def checkin_day_set_def)

definition box :: "int set \<Rightarrow> int \<Rightarrow> DayBox" where
  "box D x = \<lparr>dy_day = iso_day x, dy_checkedIn = (x \<in> D),
     dy_multiplier = streakMultiplier (jsint (int (the (streakLengthBefore (iso_day ` D) (iso_day x)))))\<rparr>"

lemma strip_loop_boxes:
  assumes "finite D" "\<And>x. x \<in> D \<Longrightarrow> valid_day x" "valid_day t" "valid_day (t - int n)"
  shows "strip_loop n (iso_day ` D) (iso_day t) acc = Some (map (box D) [t - int n + 1..t] @ acc)"
  using assms(3,4)
proof (induction n arbitrary: t acc)
  case (Suc n)
  obtain k where k: "streakLengthBefore (iso_day ` D) (iso_day t) = Some k"
    using streakLengthBefore_iso_day [OF assms(1,2) Suc.prems(1)] by blast
  have mem: "iso_day t \<in> iso_day ` D \<longleftrightarrow> t \<in> D" using iso_day_mem_iff assms(2) Suc.prems(1) valid_day_four_digit(1) by blast
  have prev: "previousUtcDay (iso_day t) = Some (iso_day (t - 1))"
    using Suc.prems(1) by (intro previousUtcDay_iso_day valid_day_four_digit)
  have v: "valid_day (t - 1)" "valid_day (t - 1 - int n)" using Suc.prems by (simp_all add: valid_day_def)
  have "[t - int (Suc n) + 1..t] = [t - 1 - int n + 1..t - 1] @ [t]" by (simp add: upto_rec2)
  then show ?case using Suc.IH [OF v] k mem prev by (simp add: box_def)
qed simp

text \<open>The days of a wallet as day numbers.\<close>

definition day_numbers :: "address \<Rightarrow> Db \<Rightarrow> int set" where
  "day_numbers a d = {n. valid_day n \<and> iso_day n \<in> checkin_day_set a d}"

definition days_valid :: "Db \<Rightarrow> bool" where
  "days_valid d \<longleftrightarrow> (\<forall>c \<in> set (db_checkins d). \<exists>n. valid_day n \<and> ci_day c = iso_day n)"

lemma checkin_day_set_image:
  assumes "days_valid d"
  shows "checkin_day_set a d = iso_day ` day_numbers a d"
proof
  show "checkin_day_set a d \<subseteq> iso_day ` day_numbers a d"
  proof
    fix x assume x: "x \<in> checkin_day_set a d"
    then obtain n where "valid_day n" "x = iso_day n" using assms by (auto simp: checkin_day_set_def days_valid_def)
    then show "x \<in> iso_day ` day_numbers a d" using x by (simp add: day_numbers_def)
  qed
qed (auto simp: day_numbers_def)

lemma finite_checkin_day_set: "finite (checkin_day_set a d)"
proof -
  have "checkin_day_set a d \<subseteq> ci_day ` set (db_checkins d)" by (auto simp: checkin_day_set_def)
  then show ?thesis by (rule finite_subset) simp
qed

lemma finite_day_numbers: "finite (day_numbers a d)"
proof -
  have "iso_day ` day_numbers a d \<subseteq> checkin_day_set a d" by (auto simp: day_numbers_def)
  then have "finite (iso_day ` day_numbers a d)" using finite_checkin_day_set finite_subset by blast
  then show ?thesis by (rule finite_imageD) (rule inj_on_iso_day, simp add: day_numbers_def)
qed

lemma me_parts:
  assumes "current_streak (set (checkinDays CAMPAIGN_ID a d)) (todayUtc now) = Some c"
    and "strip_loop 7 (set (checkinDays CAMPAIGN_ID a d)) (todayUtc now) [] = Some boxes"
    and "streakLengthBefore (set (checkinDays CAMPAIGN_ID a d)) (todayUtc now) = Some k"
  shows "\<exists>p. me env now a u d = Some p \<and> me_streakCurrent p = int c
    \<and> me_checkedInToday p = (todayUtc now \<in> set (checkinDays CAMPAIGN_ID a d))
    \<and> me_multiplierForToday p = streakMultiplier (jsint (int k)) \<and> me_last7 p = boxes"
  unfolding me_def Let_def assms option.case prod.case
  by (intro exI conjI, rule refl) (simp_all only: MePayload.select_convs)

lemma me_streak:
  fixes a :: address and d :: Db and now :: ms
  assumes days: "days_valid d" and now: "valid_day (now div ms_per_day)" "valid_day (now div ms_per_day - 7)"
  defines "D \<equiv> day_numbers a d" and "t \<equiv> now div ms_per_day"
  shows "\<exists>p k. me env now a u d = Some p
    \<and> consecutive_days D (if t \<in> D then t else t - 1) (nat (me_streakCurrent p)) \<and> 0 \<le> me_streakCurrent p
    \<and> me_checkedInToday p = (t \<in> D)
    \<and> consecutive_days D (t - 1) k \<and> me_multiplierForToday p = streakMultiplier (jsint (int k))
    \<and> me_last7 p = map (box D) [t - 6..t]"
proof -
  have D: "checkin_day_set a d = iso_day ` D" "finite D" "\<And>x. x \<in> D \<Longrightarrow> valid_day x"
    unfolding D_def by (rule checkin_day_set_image [OF days], rule finite_day_numbers, simp add: day_numbers_def)
  have t: "valid_day t" "valid_day (t - 1)" "valid_day (t - 7)" using now by (simp_all add: t_def valid_day_def)
  have today: "todayUtc now = iso_day t" by (simp add: todayUtc_def utcDay_def t_def)
  have mem: "iso_day t \<in> iso_day ` D \<longleftrightarrow> t \<in> D" using iso_day_mem_iff D(3) t(1) valid_day_four_digit(1) by blast
  have "\<exists>c. current_streak (iso_day ` D) (iso_day t) = Some c \<and> consecutive_days D (if t \<in> D then t else t - 1) c"
  proof (cases "t \<in> D")
    case True
    then show ?thesis using streakLengthOn_iso_day [OF D(2,3) valid_day_four_digit(1) [OF t(1)]] mem
      by (simp add: current_streak_def)
  next
    case False
    then show ?thesis using streakLengthOn_iso_day [OF D(2,3) valid_day_four_digit(1) [OF t(2)]] mem
        previousUtcDay_iso_day [OF valid_day_four_digit(1) [OF t(1)]]
      by (simp add: current_streak_def)
  qed
  then obtain c where c: "current_streak (iso_day ` D) (iso_day t) = Some c" "consecutive_days D (if t \<in> D then t else t - 1) c"
    by blast
  obtain k where k: "streakLengthBefore (iso_day ` D) (iso_day t) = Some k" "consecutive_days D (t - 1) k"
    using streakLengthBefore_iso_day [OF D(2,3) t(1)] by blast
  have s: "strip_loop 7 (iso_day ` D) (iso_day t) [] = Some (map (box D) [t - 6..t])"
    using strip_loop_boxes [OF D(2,3) t(1), of 7 "[]"] t(3) by simp
  have days': "set (checkinDays CAMPAIGN_ID a d) = iso_day ` D" by (simp only: set_checkinDays D(1))
  obtain p where p: "me env now a u d = Some p" "me_streakCurrent p = int c" "me_checkedInToday p = (iso_day t \<in> iso_day ` D)"
      "me_multiplierForToday p = streakMultiplier (jsint (int k))" "me_last7 p = map (box D) [t - 6..t]"
    using me_parts [of a d now c "map (box D) [t - 6..t]" k env u] c(1) s k(1) unfolding days' today by blast
  show ?thesis using p c(2) k(2) mem by (intro exI [of _ p] exI [of _ k]) (simp only: nat_int of_nat_0_le_iff simp_thms)
qed

section \<open>The award plan and later check-ins\<close>

lemma checkins_of_insert:
  "checkins_of (m(toLowerCase b \<mapsto> insert day (case m (toLowerCase b) of None \<Rightarrow> {} | Some s \<Rightarrow> s))) a
    = checkins_of m a \<union> (if lower_eq b a then {day} else {})"
  by (auto simp: checkins_of_def lower_eq_def split: option.split)

lemma checkins_of_rows:
  "checkins_of (checkinSetsFromRows rows) a = {day. \<exists>b. (b, day) \<in> set rows \<and> lower_eq b a}"
proof -
  have "checkins_of (fold (\<lambda>(a, day) m. let key = toLowerCase a in
        m(key \<mapsto> insert day (case m key of None \<Rightarrow> {} | Some s \<Rightarrow> s))) rows m) a
      = checkins_of m a \<union> {day. \<exists>b. (b, day) \<in> set rows \<and> lower_eq b a}" for m
  proof (induction rows arbitrary: m)
    case (Cons r rows)
    obtain b day where r: "r = (b, day)" by (cases r)
    show ?case unfolding r fold_Cons o_apply Let_def split_conv Cons [unfolded Let_def] checkins_of_insert by auto
  qed simp
  from this [of Map.empty] show ?thesis by (simp add: checkinSetsFromRows_def checkins_of_def)
qed

lemma plan_loop_cong:
  "(\<And>c. c \<in> set cs \<Longrightarrow> cand_streak ci c = cand_streak ci' c) \<Longrightarrow> plan_loop s e ci cs st = plan_loop s e ci' cs st"
proof (induction cs arbitrary: st)
  case (Cons c cs)
  have "cand_streak ci c = cand_streak ci' c" by (rule Cons.prems) simp
  then have "plan_step s e ci c st = plan_step s e ci' c st" by (simp add: plan_step_def cand_streak_def Let_def)
  then show ?case using Cons by (simp split: option.split)
qed simp

definition wallet_days :: "address \<Rightarrow> Db \<Rightarrow> int set" where
  "wallet_days a d = {n. valid_day n \<and> (\<exists>c \<in> set (db_checkins d). ci_campaign c = CAMPAIGN_ID \<and> lower_eq (ci_address c) a \<and> ci_day c = iso_day n)}"

lemma checkins_of_wallet:
  assumes "days_valid d"
  shows "checkins_of (checkinSetsFromRows (checkinDaysByWallet CAMPAIGN_ID d)) a = iso_day ` wallet_days a d"
proof
  show "checkins_of (checkinSetsFromRows (checkinDaysByWallet CAMPAIGN_ID d)) a \<subseteq> iso_day ` wallet_days a d"
  proof
    fix x assume "x \<in> checkins_of (checkinSetsFromRows (checkinDaysByWallet CAMPAIGN_ID d)) a"
    then obtain c where c: "c \<in> set (db_checkins d)" "ci_campaign c = CAMPAIGN_ID" "lower_eq (ci_address c) a" "ci_day c = x"
      unfolding checkins_of_rows checkinDaysByWallet_def by auto
    moreover obtain n where "valid_day n" "x = iso_day n" using assms c(1,4) by (auto simp: days_valid_def)
    ultimately show "x \<in> iso_day ` wallet_days a d" unfolding wallet_days_def by blast
  qed
  show "iso_day ` wallet_days a d \<subseteq> checkins_of (checkinSetsFromRows (checkinDaysByWallet CAMPAIGN_ID d)) a"
    unfolding checkins_of_rows checkinDaysByWallet_def wallet_days_def by force
qed

lemma finite_wallet_days: "finite (wallet_days a d)"
proof -
  have "iso_day ` wallet_days a d \<subseteq> ci_day ` set (db_checkins d)" by (force simp: wallet_days_def)
  then have "finite (iso_day ` wallet_days a d)" by (rule finite_subset) simp
  then show ?thesis by (rule finite_imageD) (rule inj_on_iso_day, simp add: wallet_days_def)
qed

lemma award_plan_later_checkin:
  assumes days: "days_valid d" and t: "valid_day t"
    and wit: "\<forall>w \<in> set (db_witnesses d). 0 \<le> wt_ledger_closed_at w \<and> wt_ledger_closed_at w div ms_per_day \<le> t"
  shows "award_plan s e (d\<lparr>db_checkins := db_checkins d @ [\<lparr>ci_campaign = CAMPAIGN_ID, ci_address = a, ci_day = iso_day t, ci_created_at = now\<rparr>]\<rparr>)
    = award_plan s e d"
proof -
  let ?c = "\<lparr>ci_campaign = CAMPAIGN_ID, ci_address = a, ci_day = iso_day t, ci_created_at = now\<rparr>"
  let ?d = "d\<lparr>db_checkins := db_checkins d @ [?c]\<rparr>"
  have days': "days_valid ?d" using days t by (auto simp: days_valid_def)
  have cands: "award_candidates s e ?d = award_candidates s e d"
    by (simp add: award_candidates_def findActionCandidates_def)
  have counts: "countedActionsByDay CAMPAIGN_ID ?d = countedActionsByDay CAMPAIGN_ID d"
    by (simp add: countedActionsByDay_def)
  have "cand_streak (checkinSetsFromRows (checkinDaysByWallet CAMPAIGN_ID ?d)) c
      = cand_streak (checkinSetsFromRows (checkinDaysByWallet CAMPAIGN_ID d)) c" if c: "c \<in> set (award_candidates s e d)" for c
  proof -
    obtain w en where "w \<in> set (db_witnesses d)" "candidate_of (w, en) = Some c"
      using c by (auto simp: award_candidates_mem)
    then have at: "0 \<le> ac_closedAtMs c" "ac_closedAtMs c div ms_per_day \<le> t" using wit by (auto simp: candidate_of_def)
    define x where "x = ac_closedAtMs c div ms_per_day"
    have x: "valid_day x" "x \<le> t" using at t by (auto simp: x_def valid_day_def ms_per_day_def pos_imp_zdiv_nonneg_iff)
    have day: "utcDay (ac_closedAtMs c) = iso_day x" by (simp add: utcDay_def x_def)
    have inj: "valid_day n \<and> iso_day t = iso_day n \<longleftrightarrow> n = t" for n
      using t iso_day_inject valid_day_four_digit(1) by blast
    have "n \<in> wallet_days (ac_address c) ?d \<longleftrightarrow> n \<in> wallet_days (ac_address c) d \<or> (lower_eq a (ac_address c) \<and> n = t)" for n
      unfolding wallet_days_def using inj [of n] by simp blast
    then have "wallet_days (ac_address c) ?d = wallet_days (ac_address c) d
        \<or> wallet_days (ac_address c) ?d = insert t (wallet_days (ac_address c) d)"
      by (cases "lower_eq a (ac_address c)") auto
    moreover have "streakLengthBefore (insert (iso_day t) (iso_day ` wallet_days (ac_address c) d)) (iso_day x)
        = streakLengthBefore (iso_day ` wallet_days (ac_address c) d) (iso_day x)"
      by (rule streakLengthBefore_insert [OF finite_wallet_days _ x(1) t x(2)]) (simp add: wallet_days_def)
    ultimately show ?thesis unfolding cand_streak_def checkins_of_wallet [OF days] checkins_of_wallet [OF days'] day
      by (elim disjE) (simp_all only: image_insert)
  qed
  then show ?thesis unfolding award_plan_eq cands counts by (subst plan_loop_cong) auto
qed

end
