(* ===== verification/Campaign_Board.thy ===== *)
theory Campaign_Board
  imports Campaign_Streaks
begin

text \<open>
  The leaderboard and a wallet's own rank agree; an enrolment that loses a race is reported as
  what it is; a deleted claim gives back exactly its points; handles stay one per wallet when
  requests do not overlap.
\<close>

section \<open>Ranks\<close>

lemma filter_less_nth:
  fixes f :: "'a \<Rightarrow> 'b :: linorder"
  assumes "sorted_wrt (<) (map f xs)" "i < length xs"
  shows "length (filter (\<lambda>y. f y < f (xs ! i)) xs) = i"
  using assms
proof (induction xs arbitrary: i)
  case (Cons x xs)
  show ?case
  proof (cases i)
    case 0
    have "\<not> f y < f x" if "y \<in> set xs" for y using Cons.prems(1) that by (auto simp: less_not_sym)
    then show ?thesis using 0 by (simp add: filter_empty_conv)
  next
    case (Suc j)
    then have j: "j < length xs" using Cons.prems(2) by simp
    then have "f x < f (xs ! j)" using Cons.prems(1) nth_mem by auto
    then show ?thesis using Suc Cons.IH [of j] Cons.prems(1) j by simp
  qed
qed simp

abbreviation board_key :: "LeaderboardRow \<Rightarrow> int \<times> address" where
  "board_key g \<equiv> (- lb_points g, lb_address g)"

lemma ranked_wallets_props:
  "sorted_wrt (<) (map board_key (ranked_wallets c d)) \<and> distinct (map lb_address (ranked_wallets c d))
    \<and> (\<forall>g \<in> set (ranked_wallets c d). 0 < lb_points g
        \<and> lb_points g = sum_list (map lr_points (filter (\<lambda>r. lr_address r = lb_address g) (filter (\<lambda>r. lr_campaign r = c) (db_ledger d)))))"
proof -
  define rows where "rows = filter (\<lambda>r. lr_campaign r = c) (db_ledger d)"
  define total where "total = (\<lambda>a. sum_list (map lr_points (filter (\<lambda>r. lr_address r = a) rows)))"
  define gs where "gs = filter (\<lambda>g. 0 < lb_points g) (map (\<lambda>a. \<lparr>lb_address = a, lb_points = total a\<rparr>) (remdups (map lr_address rows)))"
  have eq: "ranked_wallets c d = sort_key board_key gs"
    by (simp add: ranked_wallets_def gs_def total_def rows_def Let_def)
  have "map lb_address (map (\<lambda>a. \<lparr>lb_address = a, lb_points = total a\<rparr>) (remdups (map lr_address rows))) = remdups (map lr_address rows)"
    by (simp add: o_def)
  then have "distinct (map lb_address gs)" unfolding gs_def by (intro distinct_map_filter) simp
  then have dist: "distinct (map lb_address (sort_key board_key gs))" unfolding distinct_map by (simp add: distinct_sort)
  have "distinct (map board_key (sort_key board_key gs))"
    using dist by (auto simp: distinct_map inj_on_def)
  then have "sorted_wrt (<) (map board_key (sort_key board_key gs))"
    using strict_sorted_iff sorted_sort_key by blast
  moreover have "\<forall>g \<in> set (sort_key board_key gs). 0 < lb_points g \<and> lb_points g = total (lb_address g)"
    by (auto simp: gs_def)
  ultimately show ?thesis using dist unfolding eq total_def rows_def by blast
qed

lemma rank_in_position:
  assumes "i < length (ranked_wallets c d)"
  shows "rank_in (ranked_wallets c d) (ranked_wallets c d ! i) = i + 1"
  unfolding rank_in_def using filter_less_nth [of board_key "ranked_wallets c d" i] ranked_wallets_props [of c d] assms by simp

lemma rankOf_position:
  assumes "rankOf c a d = Some (r, pts)"
  shows "\<exists>i < length (ranked_wallets c d). r = i + 1 \<and> lower_eq (lb_address (ranked_wallets c d ! i)) a
    \<and> lb_points (ranked_wallets c d ! i) = pts"
proof -
  obtain g where g: "List.find (\<lambda>g. lower_eq (lb_address g) a) (ranked_wallets c d) = Some g"
      "r = rank_in (ranked_wallets c d) g" "pts = lb_points g"
    using assms by (auto simp: rankOf_def Let_def)
  then obtain i where "i < length (ranked_wallets c d)" "ranked_wallets c d ! i = g" "lower_eq (lb_address g) a"
    using find_Some_in in_set_conv_nth by metis
  then show ?thesis using g rank_in_position by blast
qed

lemma ranked_wallets_valid:
  assumes "points_struct d" "g \<in> set (ranked_wallets c d)"
  shows "STELLAR_PUBKEY_RE (lb_address g)"
proof -
  have "lb_address g \<in> lr_address ` set (db_ledger d)"
    using assms(2) by (auto simp: ranked_wallets_def Let_def)
  then show ?thesis using assms(1) by (auto simp: points_struct_def ledger_checks_def)
qed

lemma ranked_wallets_balance:
  assumes "points_struct d" "g \<in> set (ranked_wallets c d)"
  shows "lb_points g = balance c (lb_address g) d"
proof -
  have "lr_address r = lb_address g \<longleftrightarrow> lower_eq (lr_address r) (lb_address g)" if "r \<in> set (db_ledger d)" for r
    using lower_eq_valid [OF _ ranked_wallets_valid [OF assms]] that assms(1)
    by (auto simp: points_struct_def ledger_checks_def lower_eq_def)
  then have "filter (\<lambda>r. lr_address r = lb_address g) (filter (\<lambda>r. lr_campaign r = c) (db_ledger d))
      = filter (wallet_row c (lb_address g)) (db_ledger d)"
    by (auto simp: wallet_row_def intro!: filter_cong)
  then show ?thesis using ranked_wallets_props [of c d] assms(2) by (simp add: balance_def points_where_def)
qed

lemma rankOf_board:
  assumes s: "points_struct d" and i: "i < length (ranked_wallets c d)"
  shows "rankOf c (lb_address (ranked_wallets c d ! i)) d = Some (i + 1, lb_points (ranked_wallets c d ! i))"
proof -
  let ?g = "ranked_wallets c d ! i"
  have g: "?g \<in> set (ranked_wallets c d)" using i by simp
  have "h = ?g" if h: "h \<in> set (ranked_wallets c d)" "lower_eq (lb_address h) (lb_address ?g)" for h
  proof -
    have "lb_address h = lb_address ?g"
      using lower_eq_valid ranked_wallets_valid [OF s h(1)] ranked_wallets_valid [OF s g] h(2) by blast
    then show ?thesis using ranked_wallets_props [of c d] h(1) g by (auto simp: distinct_map inj_on_def)
  qed
  moreover have "lower_eq (lb_address ?g) (lb_address ?g)" by (simp add: lower_eq_def)
  ultimately have "List.find (\<lambda>g. lower_eq (lb_address g) (lb_address ?g)) (ranked_wallets c d) = Some ?g"
    using g by (cases "List.find (\<lambda>g. lower_eq (lb_address g) (lb_address ?g)) (ranked_wallets c d)")
       (auto simp: find_None_iff_all dest: find_Some_in)
  then show ?thesis using rank_in_position [OF i] by (simp add: rankOf_def Let_def)
qed

section \<open>Enrolment races\<close>

lemma unique_violation_key:
  "isUniqueViolation (unique_violation ENROLLMENT_WALLET_KEY)"
  "violatedUniqueKey (unique_violation ENROLLMENT_WALLET_KEY) = Some ENROLLMENT_WALLET_KEY"
  "isUniqueViolation (unique_violation ENROLLMENT_CODE_KEY)"
  "violatedUniqueKey (unique_violation ENROLLMENT_CODE_KEY) = Some ENROLLMENT_CODE_KEY"
  "ENROLLMENT_WALLET_KEY \<noteq> ENROLLMENT_CODE_KEY"
  "isUniqueViolation (unique_violation SOCIAL_CLAIM_TASK_KEY)"
  "violatedUniqueKey (unique_violation SOCIAL_CLAIM_TASK_KEY) = Some SOCIAL_CLAIM_TASK_KEY"
  "isUniqueViolation (unique_violation SOCIAL_CLAIM_HANDLE_KEY)"
  "violatedUniqueKey (unique_violation SOCIAL_CLAIM_HANDLE_KEY) = Some SOCIAL_CLAIM_HANDLE_KEY"
  by code_simp+

lemma insertEnrollment_taken:
  assumes "findEnrollment (ne_campaign p) (ne_address p) d = Some e" "STELLAR_PUBKEY_RE (ne_address p)"
    and "\<forall>x \<in> set (db_enrollments d). en_id x \<noteq> ne_id p"
  shows "insertEnrollment p d = Inl (unique_violation ENROLLMENT_WALLET_KEY)"
proof -
  have "e \<in> set (db_enrollments d)" "en_campaign e = ne_campaign p" "lower_eq (en_address e) (ne_address p)"
    using findEnrollment_mem [OF assms(1)] by simp_all
  then have "conflicts enrollment_wallet_key (db_enrollments d) (enrollment_of p)"
    by (auto simp: conflicts_iff enrollment_wallet_key_def enrollment_of_def lower_eq_def)
  moreover have "\<not> conflicts enrollment_id_key (db_enrollments d) (enrollment_of p)"
    using assms(3) by (auto simp: conflicts_iff enrollment_id_key_def enrollment_of_def)
  ultimately show ?thesis using assms(2) by (simp add: insertEnrollment_def Let_def)
qed

text \<open>Whatever the transaction read, a wallet that is enrolled by the time it writes is refused as
  already enrolled and nothing is written.\<close>

lemma enroll_race_lost:
  assumes act: "campaignStatus (campaign_window env now) = Inr ()" and dec: "enroll_decision (campaign_window env now) p snap = Inr ()"
    and taken: "findEnrollment CAMPAIGN_ID (ep_address p) d = Some e" and val: "STELLAR_PUBKEY_RE (ep_address p)"
    and ids: "\<forall>x \<in> set (db_enrollments d). en_id x \<noteq> newId 0"
  shows "enroll env now newId nextCode p snap d = (Inr (Inl AlreadyEnrolled), d)"
proof -
  have "insertEnrollment \<lparr>ne_id = newId 0, ne_now = now, ne_campaign = CAMPAIGN_ID, ne_address = ep_address p, ne_userId = ep_userId p,
      ne_referralCode = nextCode 0, ne_referredByCode = map_option en_referral_code (enroll_referrer p snap)\<rparr> d
      = Inl (unique_violation ENROLLMENT_WALLET_KEY)"
    using taken val ids by (intro insertEnrollment_taken) simp_all
  then show ?thesis using act dec unique_violation_key
    by (simp add: enroll_def enroll_write_def insertEnrollmentWithCodeRetry_def numeral_2_eq_2)
qed

text \<open>Two wallets drawing the same referral code: the second attempt draws another one.\<close>

lemma code_retry:
  assumes val: "STELLAR_PUBKEY_RE (ne_address p)"
    and free: "findEnrollment (ne_campaign p) (ne_address p) d = None"
    and ids: "\<forall>x \<in> set (db_enrollments d). en_id x \<noteq> newId 0 \<and> en_id x \<noteq> newId 1"
    and taken: "\<exists>x \<in> set (db_enrollments d). en_campaign x = ne_campaign p \<and> en_referral_code x = nextCode 0"
    and fresh: "\<forall>x \<in> set (db_enrollments d). en_campaign x = ne_campaign p \<longrightarrow> en_referral_code x \<noteq> nextCode 1"
  shows "\<exists>row d'. insertEnrollmentWithCodeRetry p newId nextCode d = Inr (row, d') \<and> en_referral_code row = nextCode 1
    \<and> d' = d\<lparr>db_enrollments := db_enrollments d @ [row]\<rparr>"
proof -
  let ?q = "\<lambda>n. p\<lparr>ne_id := newId n, ne_referralCode := nextCode n\<rparr>"
  have w: "\<not> conflicts enrollment_wallet_key (db_enrollments d) (enrollment_of (?q n))" for n
    using free by (auto simp: conflicts_iff enrollment_wallet_key_def enrollment_of_def findEnrollment_def find_None_iff_all lower_eq_def)
  have i: "\<not> conflicts enrollment_id_key (db_enrollments d) (enrollment_of (?q 0))"
      "\<not> conflicts enrollment_id_key (db_enrollments d) (enrollment_of (?q 1))"
    using ids by (auto simp: conflicts_iff enrollment_id_key_def enrollment_of_def)
  have c: "conflicts enrollment_code_key (db_enrollments d) (enrollment_of (?q 0))"
      "\<not> conflicts enrollment_code_key (db_enrollments d) (enrollment_of (?q 1))"
    using taken fresh by (auto simp: conflicts_iff enrollment_code_key_def enrollment_of_def)
  have "insertEnrollment (?q 0) d = Inl (unique_violation ENROLLMENT_CODE_KEY)"
    using w [of 0] i(1) c(1) val by (simp add: insertEnrollment_def Let_def)
  moreover have "insertEnrollment (?q 1) d = Inr (enrollment_of (?q 1), d\<lparr>db_enrollments := db_enrollments d @ [enrollment_of (?q 1)]\<rparr>)"
    using w [of 1] i(2) c(2) val by (simp add: insertEnrollment_def Let_def)
  ultimately show ?thesis using unique_violation_key(3,4)
    by (simp add: insertEnrollmentWithCodeRetry_def numeral_2_eq_2) (simp add: enrollment_of_def)
qed

section \<open>Deleting a claim\<close>

lemma social_remove_effect:
  assumes inv: "points_inv d" and rm: "social_remove now a u i d = (Inr (Inr (cid, pts)), d')"
  shows "0 \<le> pts \<and> balance CAMPAIGN_ID a d' = balance CAMPAIGN_ID a d - pts
    \<and> (\<forall>c \<in> set (db_claims d'). cl_id c = cid \<longrightarrow> cl_deleted_at c \<noteq> None \<and> cl_handle_normalized c = DELETED_HANDLE)
    \<and> \<not> claim_active d' cid"
proof -
  have rt: "remove_transaction now a i d = Inr (Inr (cid, pts), d')"
    using rm by (auto simp: social_remove_def split: if_splits sum.splits prod.splits)
  obtain e where e: "findEnrollment CAMPAIGN_ID a d = Some e"
    using rt by (cases "findEnrollment CAMPAIGN_ID a d") (auto simp: remove_transaction_def lockEnrollment_def)
  obtain c where own: "findOwnedSocialClaim CAMPAIGN_ID i (en_address e) d = Some c"
    using rt e by (cases "findOwnedSocialClaim CAMPAIGN_ID i (en_address e) d") (auto simp: remove_transaction_def lockEnrollment_def)
  have c: "c \<in> set (db_claims d)" "active_claim_of CAMPAIGN_ID (en_address e) c"
    using own by (auto simp: findOwnedSocialClaim_def dest: find_Some_in)
  then have camp: "cl_campaign c = CAMPAIGN_ID" by (simp add: active_claim_of_def)
  obtain d1 where d1: "cid = cl_id c" "pts = credited_points d c" "correction_written now e c d d1"
      "d' = snd (softDeleteSocialClaim now CAMPAIGN_ID (cl_id c) d1)"
    using rt e own camp
    by (auto simp: correction_written_def remove_transaction_def lockEnrollment_def Let_def credited_points_def insertSocialDeleteAdjust_def
          map_sum_def id_def split: option.splits sum.splits if_splits prod.splits) blast
  have struct: "points_struct d" using inv by (simp add: points_inv_def)
  have pos: "0 \<le> pts" using credited_points_nonneg [OF struct] d1(2) by simp
  have claims: "db_claims d1 = db_claims d" using d1(3) by (auto simp: correction_written_def insert_ledger_Inr)
  have rows: "\<forall>x \<in> set (db_claims d'). cl_id x = cid \<longrightarrow> cl_deleted_at x \<noteq> None \<and> cl_handle_normalized x = DELETED_HANDLE"
  proof (intro ballI impI)
    fix y assume y: "y \<in> set (db_claims d')" "cl_id y = cid"
    let ?g = "\<lambda>x. cl_id x = cl_id c \<and> cl_campaign x = CAMPAIGN_ID \<and> cl_deleted_at x = None"
    obtain x where x: "x \<in> set (db_claims d)"
        "y = (if ?g x then x\<lparr>cl_deleted_at := Some now, cl_handle_normalized := DELETED_HANDLE\<rparr> else x)"
      using y(1) unfolding d1(4) softDeleteSocialClaim_def Let_def by (auto simp: claims)
    then have "cl_id x = cl_id c" using y(2) d1(1) by (simp split: if_splits)
    then have "x = c" using claim_by_id [OF struct x(1) c(1)] by simp
    then show "cl_deleted_at y \<noteq> None \<and> cl_handle_normalized y = DELETED_HANDLE"
      using x(2) c(2) camp by (simp add: active_claim_of_def)
  qed
  have "balance CAMPAIGN_ID a d' = balance CAMPAIGN_ID a d1"
    unfolding balance_def d1(4) by (intro points_where_cong) (simp_all add: softDeleteSocialClaim_def Let_def)
  moreover have "balance CAMPAIGN_ID a d1 = balance CAMPAIGN_ID a d - pts"
    using d1(2,3) pos findEnrollment_mem [OF e]
    by (auto simp: correction_written_def insert_ledger_Inr balance_def points_where_append_ledger wallet_row_def)
  ultimately show ?thesis using pos rows by (auto simp: claim_active_def)
qed

section \<open>One handle per wallet\<close>

definition handles_ok :: "Db \<Rightarrow> bool" where
  "handles_ok d \<longleftrightarrow> (\<forall>x \<in> set (db_claims d). \<forall>y \<in> set (db_claims d).
     cl_campaign x = CAMPAIGN_ID \<longrightarrow> cl_campaign y = CAMPAIGN_ID \<longrightarrow> cl_deleted_at x = None \<longrightarrow> cl_deleted_at y = None \<longrightarrow>
     (lower_eq (cl_address x) (cl_address y) \<longleftrightarrow> cl_handle_normalized x = cl_handle_normalized y))"

lemma handles_ok_claim:
  assumes ok: "handles_ok d"
  shows "handles_ok (snd (social_claim env now i p d d))"
proof -
  have "handles_ok d'" if ct: "claim_transaction env now i proven p d d = Inr (r, d')" for proven r d'
    using claim_transaction_writes [OF ct]
  proof (elim disjE exE conjE)
    fix e aw c d1 n
    assume c: "c = \<lparr>cl_id = i, cl_campaign = CAMPAIGN_ID, cl_address = en_address e, cl_task_key = sp_task p,
            cl_handle_normalized = sp_handle p, cl_claimed_at = now, cl_deleted_at = None\<rparr>"
      and el: "socialClaimEligibility \<lparr>sf_window = campaign_window env now, sf_proven = proven, sf_enrolled = True, sf_task = sp_task p,
         sf_taskAvailable = taskAvailable env (sp_task p), sf_handle = sp_handle p,
         sf_existingClaims = socialClaimHandles CAMPAIGN_ID (en_address e) d,
         sf_handleUsedByOtherWallet = handleUsedByOtherWallet CAMPAIGN_ID (sp_handle p) (en_address e) d,
         sf_awardedTodayPoints = socialPointsAwardedOn CAMPAIGN_ID (en_address e) (utcDay now) d\<rparr> = Inr aw"
      and ins: "insertSocialClaim c d = Inr d1"
      and row: "insert_ledger (social_row now CAMPAIGN_ID (en_address e) (Some (en_user_id e)) aw i (utcDay now)) d1 = Inr (n, d')"
    have claims: "db_claims d' = db_claims d @ [c]" using insertSocialClaim_Inr [OF ins] row by (simp add: insert_ledger_Inr)
    have own: "\<forall>x \<in> set (db_claims d). active_claim_of CAMPAIGN_ID (en_address e) x \<longrightarrow> cl_handle_normalized x = sp_handle p"
      using socialClaimEligibility_Inr [OF el] by (auto simp: socialClaimHandles_def list_all_iff)
    have other: "\<forall>x \<in> set (db_claims d). cl_campaign x = CAMPAIGN_ID \<and> cl_handle_normalized x = sp_handle p \<and> cl_deleted_at x = None
        \<longrightarrow> lower_eq (cl_address x) (en_address e)"
      using socialClaimEligibility_Inr [OF el] by (auto simp: handleUsedByOtherWallet_def list_ex_iff)
    have new: "lower_eq (cl_address x) (en_address e) \<longleftrightarrow> cl_handle_normalized x = sp_handle p"
      if "x \<in> set (db_claims d)" "cl_campaign x = CAMPAIGN_ID" "cl_deleted_at x = None" for x
      using that own other by (auto simp: active_claim_of_def)
    have new': "lower_eq (en_address e) (cl_address x) \<longleftrightarrow> sp_handle p = cl_handle_normalized x"
      if "x \<in> set (db_claims d)" "cl_campaign x = CAMPAIGN_ID" "cl_deleted_at x = None" for x
      using new [OF that] lower_eq_sym [of "en_address e"] by auto
    have set: "set (db_claims d') = insert c (set (db_claims d))" by (simp add: claims)
    have self: "lower_eq (en_address e) (en_address e)" by (simp add: lower_eq_def)
    show ?thesis using ok unfolding handles_ok_def set
      by (simp add: c new new' self del: lower_eq_def)
  qed (use ok in simp)
  then show ?thesis using ok by (auto simp: social_claim_def Let_def split: sum.splits prod.splits option.splits)
qed

section \<open>Witnesses are recorded once\<close>

lemma checkin_witnesses: "db_witnesses (snd (checkin env now a u d)) = db_witnesses d"
  by (auto simp: checkin_def insert_checkin_def insert_ledger_Inr dest!: checkinToday_writes
      split: sum.splits prod.splits if_splits)

lemma social_claim_witnesses: "db_witnesses (snd (social_claim env now i p snap d)) = db_witnesses d"
  by (auto simp: social_claim_def Let_def insert_ledger_Inr dest!: claim_transaction_writes insertSocialClaim_Inr
      split: sum.splits prod.splits option.splits)

lemma social_remove_witnesses: "db_witnesses (snd (social_remove now a u i d)) = db_witnesses d"
  by (auto simp: social_remove_def softDeleteSocialClaim_def Let_def correction_written_def insert_ledger_Inr
      dest!: remove_transaction_writes split: sum.splits prod.splits)

lemma award_witnesses: "db_witnesses (snd (runCampaignAward env now d)) = db_witnesses d"
  by (rule runCampaignAward_inv [where P = "\<lambda>x. db_witnesses x = db_witnesses d"])
     (auto dest: same_inputs_insertActionAward creditReferral_effect insertPerk_Inr simp: same_inputs_def)

lemma enroll_witnesses: "db_witnesses (snd (enroll env now i c p snap d)) = db_witnesses d"
proof (cases "snd (enroll env now i c p snap d) = d")
  case False
  then obtain referrer payload
    where "enroll_write now i c p referrer d = Inr (payload, snd (enroll env now i c p snap d))"
    using enroll_frame by blast
  from enroll_write_frame [OF this] obtain x y where "snd (enroll env now i c p snap d)
      = d\<lparr>db_enrollments := x, db_referrals := y\<rparr>" by blast
  then show ?thesis by simp
qed simp

lemma witness_hashes_step:
  "campaign_step d d' \<Longrightarrow> unique_on witness_hash_key (db_witnesses d) \<Longrightarrow> unique_on witness_hash_key (db_witnesses d')"
proof (induction rule: campaign_step.induct)
  case (challenge d now n a)
  then show ?case by (subst issueChallenge_frame) simp
next
  case (verify d cr now i p)
  then show ?case by (subst verifyChallenge_frame) simp
next
  case (recover now a userId maxAge d r d')
  then obtain x where "d' = d\<lparr>db_proofs := x\<rparr>" using consumeUnboundProof_frame by blast
  then show ?case using recover by simp
next
  case (witness d w)
  then show ?case by (simp add: unique_on_snoc conflicts_iff witness_hash_key_def)
qed (simp_all add: checkin_witnesses social_claim_witnesses social_remove_witnesses award_witnesses enroll_witnesses)

lemma witness_hashes_reachable: "campaign_reachable d \<Longrightarrow> unique_on witness_hash_key (db_witnesses d)"
  by (induction rule: campaign_reachable.induct) (auto simp: empty_db_def intro: witness_hashes_step)

end
