(* ===== verification/Campaign_Example.thy ===== *)
theory Campaign_Example
  imports Campaign_Board
begin

text \<open>
  A concrete run of the campaign on which the properties' hypotheses are discharged: an ownership
  proof, an enrolment, a check-in, a social claim, a witnessed swap and an award run.
\<close>

section \<open>A concrete run\<close>

definition ex_a :: address where
  "ex_a = CHR ''G'' # replicate 55 (CHR ''A'')"

definition ex_b :: address where
  "ex_b = CHR ''G'' # replicate 55 (CHR ''B'')"

definition ex_user :: string where
  "ex_user = ''00000000-0000-4000-8000-000000000001''"

text \<open>2026-10-16T12:00:00Z\<close>

definition ex_now :: ms where
  "ex_now = 20742 * ms_per_day + 43200000"

definition ex_env :: Env where
  "ex_env = \<lparr>env_var = (\<lambda>v. if v = ''CAMPAIGN_ENABLED'' then Some ''true''
                        else if v = ''CAMPAIGN_STARTS_AT'' then Some ''2026-10-16'' else None),
            env_date = (\<lambda>s. if s = ''2026-10-16'' then Some (20742 * ms_per_day) else None),
            env_url = (\<lambda>s. None)\<rparr>"

definition ex_crypto :: Crypto where
  "ex_crypto = \<lparr>isValidEd25519PublicKey = STELLAR_PUBKEY_RE, ed25519_verify = (\<lambda>a data sig. Some (length sig = 64)),
               sha256 = (\<lambda>bs. bs)\<rparr>"

definition ex_sig :: string where
  "ex_sig = replicate 128 (CHR ''0'')"

definition ex_nonce :: string where
  "ex_nonce = replicate 32 (CHR ''7'')"

definition ex_verify :: VerifyParams where
  "ex_verify = \<lparr>vp_address = ex_a, vp_nonce = ex_nonce, vp_signedMessage = ex_sig, vp_provider = None, vp_userId = Some ex_user\<rparr>"

definition ex_message :: string where
  "ex_message = buildChallengeMessage ex_a ex_nonce (toISOString ex_now)"

definition ex_challenge :: Challenge where
  "ex_challenge = \<lparr>ch_nonce = ex_nonce, ch_address = ex_a, ch_message = ex_message, ch_issued_at = ex_now,
     ch_expires_at = ex_now + 300000, ch_used_at = None\<rparr>"

definition ex_db1 :: Db where
  "ex_db1 = empty_db\<lparr>db_challenges := [ex_challenge]\<rparr>"

definition ex_proof :: ProofRow where
  "ex_proof = \<lparr>pf_id = ''p1'', pf_address = ex_a, pf_user_id = Some ex_user, pf_provider = None, pf_nonce = ex_nonce,
     pf_signature_variant = Raw, pf_verified_at = ex_now + 1000, pf_consumed_at = None\<rparr>"

definition ex_db2 :: Db where
  "ex_db2 = empty_db\<lparr>db_challenges := [ex_challenge\<lparr>ch_used_at := Some (ex_now + 1000)\<rparr>], db_proofs := [ex_proof]\<rparr>"

definition ex_enroll :: EnrollParams where
  "ex_enroll = \<lparr>ep_address = ex_a, ep_userId = ex_user, ep_referralCode = None\<rparr>"

definition ex_enrollment :: EnrollmentRow where
  "ex_enrollment = \<lparr>en_id = ''e1'', en_campaign = 1, en_address = ex_a, en_user_id = ex_user,
     en_referral_code = ''AAAAAAAA'', en_referred_by_code = None, en_enrolled_at = ex_now + 2000\<rparr>"

definition ex_db3 :: Db where
  "ex_db3 = ex_db2\<lparr>db_enrollments := [ex_enrollment]\<rparr>"

definition ex_streak_row :: LedgerRow where
  "ex_streak_row = blank_ledger_row\<lparr>lr_id := 1, lr_campaign := 1, lr_address := ex_a, lr_user_id := Some ex_user,
     lr_reason := ''streak:daily'', lr_base_points := 5, lr_points := 5, lr_checkin_day := Some ''2026-10-16'',
     lr_counted_day := Some ''2026-10-16'', lr_created_at := ex_now + 3000\<rparr>"

definition ex_db4 :: Db where
  "ex_db4 = ex_db3\<lparr>db_ledger := [ex_streak_row], db_ledger_seq := 1,
     db_checkins := [\<lparr>ci_campaign = 1, ci_address = ex_a, ci_day = ''2026-10-16'', ci_created_at = ex_now + 3000\<rparr>]\<rparr>"

definition ex_claim :: ClaimParams where
  "ex_claim = \<lparr>sp_address = ex_a, sp_userId = ex_user, sp_task = ''x-follow'', sp_handle = ''alice''\<rparr>"

definition ex_claim_row :: ClaimRow where
  "ex_claim_row = \<lparr>cl_id = ''c1'', cl_campaign = 1, cl_address = ex_a, cl_task_key = ''x-follow'',
     cl_handle_normalized = ''alice'', cl_claimed_at = ex_now + 4000, cl_deleted_at = None\<rparr>"

definition ex_social_row :: LedgerRow where
  "ex_social_row = blank_ledger_row\<lparr>lr_id := 2, lr_campaign := 1, lr_address := ex_a, lr_user_id := Some ex_user,
     lr_reason := ''social:x-follow'', lr_base_points := 20, lr_points := 20, lr_social_claim_id := Some ''c1'',
     lr_counted_day := Some ''2026-10-16'', lr_created_at := ex_now + 4000\<rparr>"

definition ex_db5 :: Db where
  "ex_db5 = ex_db4\<lparr>db_claims := [ex_claim_row], db_ledger := [ex_streak_row, ex_social_row], db_ledger_seq := 2\<rparr>"

definition ex_witness :: WitnessRow where
  "ex_witness = \<lparr>wt_tx_hash = ''h1'', wt_wallet_address = ex_a, wt_kind = ''sdex-swap'', wt_meets_min_notional = True,
     wt_ledger_closed_at = ex_now + 5000\<rparr>"

definition ex_db6 :: Db where
  "ex_db6 = ex_db5\<lparr>db_witnesses := [ex_witness]\<rparr>"

definition ex_action_row :: LedgerRow where
  "ex_action_row = blank_ledger_row\<lparr>lr_id := 3, lr_campaign := 1, lr_address := ex_a, lr_user_id := Some ex_user,
     lr_reason := ''action:sdex-swap'', lr_base_points := 50, lr_points := 50, lr_witness_tx_hash := Some ''h1'',
     lr_counted_day := Some ''2026-10-16'', lr_created_at := ex_now + 6000\<rparr>"

definition ex_db7 :: Db where
  "ex_db7 = ex_db6\<lparr>db_ledger := [ex_streak_row, ex_social_row, ex_action_row], db_ledger_seq := 3\<rparr>"

lemma ex_a_valid: "STELLAR_PUBKEY_RE ex_a"
  by code_simp

lemma ex_step1: "snd (issueChallenge ex_now ex_nonce ex_a empty_db) = ex_db1"
  using ex_a_valid
  by (simp add: issueChallenge_def createChallenge_def deleteStaleChallenges_def challenge_of_def empty_db_def ex_db1_def
      ex_challenge_def ex_message_def conflicts_def Let_def CHALLENGE_TTL_SECONDS_def ms_per_day_def)

lemma ex_sig_decodes: "\<exists>sig. decodeSignature ex_sig = Some sig"
proof -
  have "decodeSignature ex_sig \<noteq> None" by code_simp
  then show ?thesis by auto
qed

lemma ex_user_cast: "uuid_cast ex_user = ex_user" "ex_user \<noteq> []"
  by code_simp+

lemma ex_step2: "verifyChallenge ex_crypto (ex_now + 1000) ''p1'' ex_verify ex_db1 =
    (Inr (Inr \<lparr>vo_address = ex_a, vo_userId = Some ex_user, vo_verifiedAt = toISOString (ex_now + 1000),
              vo_signatureVariant = Raw\<rparr>), ex_db2)"
proof -
  obtain sig where sig: "decodeSignature ex_sig = Some sig" using ex_sig_decodes by blast
  then have "length sig = 64" using decodeSignature_length by (simp add: SIGNATURE_BYTES_def)
  then have "verifyWalletSignature ex_crypto ex_a ex_message ex_sig = Inr Raw"
    using sig ex_a_valid by (simp add: verifyWalletSignature_def ex_crypto_def safeVerify_def)
  then show ?thesis using ex_a_valid ex_user_cast
    by (simp add: verifyChallenge_def consumeChallenge_def consumable_def ex_db1_def ex_challenge_def ex_verify_def empty_db_def
        upsertBoundProof_def insert_proof_def proof_of_def conflicts_def truthy_def ex_db2_def ex_proof_def Let_def)
qed

lemma ex_window: "0 \<le> t \<Longrightarrow> campaignStatus (campaign_window ex_env (ex_now + t)) = Inr ()"
proof -
  have "isCampaignEnabled ex_env \<and> campaignStartsAt ex_env = Some (20742 * ms_per_day) \<and> campaignEndsAt ex_env = None"
    by code_simp
  then show "0 \<le> t \<Longrightarrow> campaignStatus (campaign_window ex_env (ex_now + t)) = Inr ()"
    by (simp add: campaignStatus_def campaign_window_def ex_now_def)
qed

lemma ex_day: "utcDay (ex_now + 3000) = ''2026-10-16''" "utcDay (ex_now + 4000) = ''2026-10-16''"
  by code_simp+

lemmas ex_rows = ex_db2_def ex_db3_def ex_db4_def ex_db5_def empty_db_def ex_proof_def ex_enrollment_def ex_streak_row_def
  ex_claim_row_def ex_social_row_def ex_user_cast ex_a_valid CAMPAIGN_ID_def lower_eq_def

lemma ex_step3: "snd (enroll ex_env (ex_now + 2000) (\<lambda>_. ''e1'') (\<lambda>_. ''AAAAAAAA'') ex_enroll ex_db2 ex_db2) = ex_db3"
  by (simp add: enroll_def ex_window enroll_decision_def enrollEligibility_def enroll_referrer_def ex_enroll_def truthy_def
      hasBoundProof_def findEnrollment_def enroll_write_def insertEnrollmentWithCodeRetry_def numeral_2_eq_2
      insertEnrollment_def enrollment_of_def conflicts_def Let_def ex_rows)

lemma ex_row_checks: "ledger_checks (streak_row (ex_now + 3000) 1 ex_enrollment ''2026-10-16'')"
  "ledger_checks ex_social_row"
  by code_simp+

lemma ex_step4: "snd (checkin ex_env (ex_now + 3000) ex_a ex_user ex_db3) = ex_db4"
  using ex_row_checks(1)
  by (simp add: checkin_def ex_window checkinEligibility_def hasBoundProof_def checkinToday_def findEnrollment_def
      insert_checkin_def insert_ledger_def ledger_conflict_def ledger_references_def append_ledger_def ledger_row_def
      streak_row_def blank_ledger_row_def conflicts_def Let_def ex_day STREAK_DAILY_POINTS_def ex_rows)

lemma ex_step5: "snd (social_claim ex_env (ex_now + 4000) ''c1'' ex_claim ex_db4 ex_db4) = ex_db5"
proof -
  have task: "social_task_of ''x-follow'' = Some XFollow" by code_simp
  have row: "social_row (ex_now + 4000) 1 ex_a (Some ex_user) \<lparr>sa_reason = social_reason XFollow, sa_basePoints = 20, sa_points = 20\<rparr>
      ''c1'' ''2026-10-16'' = ex_social_row\<lparr>lr_id := 0\<rparr>"
    by (simp add: social_row_def ex_social_row_def blank_ledger_row_def social_reason_def)
  have chk: "ledger_checks (ex_social_row\<lparr>lr_id := 0\<rparr>)"
    using ex_row_checks(2) by (simp add: ledger_checks_def reference_check_def ex_social_row_def blank_ledger_row_def)
  show ?thesis using task row chk
    by (simp add: social_claim_def socialClaimEligibility_def ex_window ex_claim_def hasBoundProof_def taskAvailable_def socialAward_def
        SOCIAL_DAILY_CAP_def claim_transaction_def lockEnrollment_def findEnrollment_def todayUtc_def ex_day socialClaimHandles_def
        handleUsedByOtherWallet_def socialPointsAwardedOn_def points_where_def insertSocialClaim_def conflicts_def
        insertSocialAward_def insert_ledger_def ledger_conflict_def ledger_references_def append_ledger_def ledger_row_def
        blank_ledger_row_def social_claim_key_def witness_key_def checkin_key_def referee_key_def Let_def ex_rows)
qed

lemma ex_reachable:
  "campaign_reachable ex_db1" "campaign_reachable ex_db2" "campaign_reachable ex_db3" "campaign_reachable ex_db4"
  "campaign_reachable ex_db5" "campaign_reachable ex_db6"
proof -
  note go = campaign_reachable.step
  show 1: "campaign_reachable ex_db1"
    using go [OF campaign_reachable.start campaign_step.challenge [of _ ex_now ex_nonce ex_a]] by (simp only: ex_step1)
  show 2: "campaign_reachable ex_db2"
    using go [OF 1 campaign_step.verify [of _ ex_crypto "ex_now + 1000" "''p1''" ex_verify]] by (simp only: ex_step2 snd_conv)
  show 3: "campaign_reachable ex_db3"
    using go [OF 2 campaign_step.enroll [of _ ex_env "ex_now + 2000" "\<lambda>_. ''e1''" "\<lambda>_. ''AAAAAAAA''" ex_enroll ex_db2]]
    by (simp only: ex_step3)
  show 4: "campaign_reachable ex_db4"
    using go [OF 3 campaign_step.checkin [of _ ex_env "ex_now + 3000" ex_a ex_user]] by (simp only: ex_step4)
  show 5: "campaign_reachable ex_db5"
    using go [OF 4 campaign_step.claim [of _ ex_env "ex_now + 4000" "''c1''" ex_claim ex_db4]] by (simp only: ex_step5)
  have "db_witnesses ex_db5 = []" by (simp add: ex_rows)
  then show "campaign_reachable ex_db6"
    using go [OF 5 campaign_step.witness [of ex_db5 ex_witness]] by (simp add: ex_db6_def)
qed

text \<open>The tables the award plan reads, for evaluation.\<close>

definition ex_tables :: Db where
  "ex_tables = empty_db\<lparr>db_enrollments := [ex_enrollment], db_ledger := [ex_streak_row, ex_social_row],
     db_checkins := [\<lparr>ci_campaign = 1, ci_address = ex_a, ci_day = ''2026-10-16'', ci_created_at = ex_now + 3000\<rparr>],
     db_witnesses := [ex_witness]\<rparr>"

lemma ex_tables_same: "db_enrollments ex_db6 = db_enrollments ex_tables" "db_ledger ex_db6 = db_ledger ex_tables"
  "db_checkins ex_db6 = db_checkins ex_tables" "db_witnesses ex_db6 = db_witnesses ex_tables"
  by (simp_all add: ex_db6_def ex_db5_def ex_db4_def ex_db3_def ex_tables_def)

text \<open>The award run: the swap of the day is awarded 50 points, no perk is due yet.\<close>

lemma ex_step7: "runCampaignAward ex_env (ex_now + 6000) ex_db6 =
    (Inr (empty_summary\<lparr>as_awardedActions := 1\<rparr>), ex_db7)"
proof -
  have env: "isCampaignEnabled ex_env" "campaignStartsAt ex_env = Some (20742 * ms_per_day)" "campaignEndsAt ex_env = None"
    by code_simp+
  let ?award = "\<lparr>pa_txHash = ''h1'', pa_address = ex_a, pa_userId = Some ex_user, pa_reason = ''action:sdex-swap'',
      pa_basePoints = 50, pa_multiplier = Num 1, pa_points = Num 50, pa_countedDay = ''2026-10-16''\<rparr>"
  let ?cand = "\<lparr>ac_txHash = ''h1'', ac_address = ex_a, ac_userId = Some ex_user, ac_kind = SdexSwap, ac_meetsMinNotional = True,
      ac_closedAtMs = ex_now + 5000\<rparr>"
  have c: "List.map_filter candidate_of (findActionCandidates CAMPAIGN_ID (20742 * ms_per_day) None ex_tables) = [?cand]"
    by code_simp
  have r: "countedActionsByDay CAMPAIGN_ID ex_tables = []" "checkinDaysByWallet CAMPAIGN_ID ex_tables = [(ex_a, ''2026-10-16'')]"
    by code_simp+
  have "planActionAwards [?cand] (countsFromRows []) (checkinSetsFromRows [(ex_a, ''2026-10-16'')]) (Some (20742 * ms_per_day)) None
      = Some \<lparr>ap_awards = [?award], ap_skipped = EMPTY_SKIPS\<rparr>"
    by code_simp
  then have "award_plan (20742 * ms_per_day) None ex_tables = Some \<lparr>ap_awards = [?award], ap_skipped = EMPTY_SKIPS\<rparr>"
    by (simp only: award_plan_def c r)
  then have "award_plan (20742 * ms_per_day) None ex_db6 = Some \<lparr>ap_awards = [?award], ap_skipped = EMPTY_SKIPS\<rparr>"
    unfolding award_plan_def findActionCandidates_def countedActionsByDay_def checkinDaysByWallet_def ex_tables_same .
  moreover have "insert_awards (ex_now + 6000) [?award] 0 ex_db6 = (Inr 1, ex_db7)"
  proof -
    have "numeric_4_2 (Num 1) = Some 100" "pg_int4 (Num 50) = Some 50" "ledger_checks (action_row (ex_now + 6000) 1 ?award 100 50)"
      by code_simp+
    then show ?thesis
      by (simp add: insertActionAward_def insert_ledger_or_nothing_def ledger_conflict_def ledger_references_def append_ledger_def
          ledger_row_def action_row_def blank_ledger_row_def conflicts_def witness_key_def social_claim_key_def checkin_key_def
          referee_key_def ex_db7_def ex_db6_def ex_action_row_def ex_witness_def ex_rows)
  qed
  moreover have "findUncreditedReferrals 1 ex_db7 = []"
    by (simp add: findUncreditedReferrals_def ex_db7_def ex_db6_def ex_rows)
  moreover have "grants_due (balancesOfEnrolled 1 ex_db7) = []"
    by (simp add: grants_due_def balancesOfEnrolled_def balance_def points_where_def wallet_row_def perksFor_def PERK_TIERS_def
        ex_db7_def ex_db6_def ex_action_row_def blank_ledger_row_def ex_rows)
  ultimately show ?thesis using env by (simp add: runCampaignAward_def CAMPAIGN_ID_def empty_summary_def Let_def)
qed

lemma ex_reachable7: "campaign_reachable ex_db7"
  using campaign_reachable.step [OF ex_reachable(6) campaign_step.award [of _ ex_env "ex_now + 6000"]]
  by (simp only: ex_step7 snd_conv)

end
