(* ===== verification/Campaign_Properties.thy ===== *)
theory Campaign_Properties
  imports Campaign_Example
begin

text \<open>
  The campaign's properties, over every database its requests, its award job and the modules it
  reads can reach, each with the point of the example run where its hypotheses hold.
\<close>

section \<open>Points\<close>





text \<open>C3: the daily caps hold in every reachable database, whatever requests overlapped: at most
  \<open>dailyCap\<close> awards of a kind are counted for a wallet on a day, and at most \<open>SOCIAL_DAILY_CAP\<close>
  social points.\<close>

theorem daily_caps_hold:
  assumes "campaign_reachable d"
  shows "pb_swap (actionsCountedOn CAMPAIGN_ID a day d) \<le> ar_dailyCap (ACTION_RULES SdexSwap)
    \<and> pb_deposit (actionsCountedOn CAMPAIGN_ID a day d) \<le> ar_dailyCap (ACTION_RULES BlendDeposit)
    \<and> socialPointsAwardedOn CAMPAIGN_ID a day d \<le> SOCIAL_DAILY_CAP"
proof -
  have "n_actions a SdexSwap day d \<le> ar_dailyCap (ACTION_RULES SdexSwap)"
      "n_actions a BlendDeposit day d \<le> ar_dailyCap (ACTION_RULES BlendDeposit)"
      "socialPointsAwardedOn CAMPAIGN_ID a day d \<le> SOCIAL_DAILY_CAP"
    using caps_ok_reachable [OF assms] unfolding caps_ok_def by blast+
  moreover have "action_row_of a k day = (\<lambda>r. wallet_row CAMPAIGN_ID a r \<and> lr_reason r = action_reason k \<and> lr_counted_day r = Some day)" for k
    by (simp add: fun_eq_iff action_row_of_def)
  ultimately show ?thesis by (simp add: actionsCountedOn_def count_by_kind_def n_actions_def del: ACTION_RULES.simps)
qed

theorem daily_caps_hold_witness:
  "pb_swap (actionsCountedOn CAMPAIGN_ID ex_a ''2026-10-16'' ex_db7) \<le> ar_dailyCap (ACTION_RULES SdexSwap)
    \<and> pb_deposit (actionsCountedOn CAMPAIGN_ID ex_a ''2026-10-16'' ex_db7) \<le> ar_dailyCap (ACTION_RULES BlendDeposit)
    \<and> socialPointsAwardedOn CAMPAIGN_ID ex_a ''2026-10-16'' ex_db7 \<le> SOCIAL_DAILY_CAP"
  by (rule daily_caps_hold [OF ex_reachable7])

text \<open>An action, a claim, a check-in day and a referee each earn at most one ledger row per
  reason: two rows of the same campaign and reason with the same reference are the same row.\<close>

theorem one_award_per_reference:
  assumes reach: "campaign_reachable d" and mem: "r \<in> set (db_ledger d)" "s \<in> set (db_ledger d)"
    and same: "lr_campaign r = lr_campaign s" "lr_reason r = lr_reason s"
    and ref: "(\<exists>h. lr_witness_tx_hash r = Some h \<and> lr_witness_tx_hash s = Some h)
      \<or> (\<exists>c. lr_social_claim_id r = Some c \<and> lr_social_claim_id s = Some c)
      \<or> (\<exists>day. lr_checkin_day r = Some day \<and> lr_checkin_day s = Some day \<and> lower_eq (lr_address r) (lr_address s))
      \<or> (\<exists>b. lr_referral_referee r = Some b \<and> lr_referral_referee s = Some b)"
  shows "r = s"
proof -
  have "points_struct d" using points_inv_reachable [OF reach] by (simp add: points_inv_def)
  then have u: "unique_on witness_key (db_ledger d)" "unique_on social_claim_key (db_ledger d)"
      "unique_on checkin_key (db_ledger d)" "unique_on referee_key (db_ledger d)"
    by (simp_all add: points_struct_def)
  from ref consider
      h where "lr_witness_tx_hash r = Some h" "lr_witness_tx_hash s = Some h"
    | c where "lr_social_claim_id r = Some c" "lr_social_claim_id s = Some c"
    | day where "lr_checkin_day r = Some day" "lr_checkin_day s = Some day" "lower_eq (lr_address r) (lr_address s)"
    | b where "lr_referral_referee r = Some b" "lr_referral_referee s = Some b"
    by blast
  then show ?thesis
  proof cases
    case 1 then show ?thesis using unique_onD [OF u(1) mem] same by (simp add: witness_key_def)
  next
    case 2 then show ?thesis using unique_onD [OF u(2) mem] same by (simp add: social_claim_key_def)
  next
    case 3 then show ?thesis using unique_onD [OF u(3) mem] same by (simp add: checkin_key_def lower_eq_def)
  next
    case 4 then show ?thesis using unique_onD [OF u(4) mem] same by (simp add: referee_key_def)
  qed
qed

theorem one_award_per_reference_witness: "db_ledger ex_db7 ! 2 = ex_action_row"
  by (rule one_award_per_reference [OF ex_reachable7])
     (simp_all add: ex_db7_def ex_action_row_def blank_ledger_row_def numeral_2_eq_2)

section \<open>Ownership\<close>

text \<open>In every reachable database a wallet is enrolled at most once, a referral code names one
  enrolment, a wallet is referred at most once, and nobody refers themselves.\<close>

theorem enrolled_once:
  assumes reach: "campaign_reachable d"
    and mem: "e \<in> set (db_enrollments d)" "f \<in> set (db_enrollments d)" "en_campaign e = en_campaign f"
  shows "(lower_eq (en_address e) (en_address f) \<longrightarrow> e = f) \<and> (en_referral_code e = en_referral_code f \<longrightarrow> e = f)
    \<and> (\<forall>r \<in> set (db_referrals d). rf_referee_address r \<noteq> rf_referrer_address r
        \<and> (\<forall>s \<in> set (db_referrals d). rf_campaign r = rf_campaign s \<and> rf_referee_address r = rf_referee_address s \<longrightarrow> r = s))"
proof -
  note inv = enrollments_inv_reachable [OF reach, unfolded enrollments_inv_def]
  have "lower_eq (en_address e) (en_address f) \<Longrightarrow> e = f"
    using inv mem by (intro unique_onD [of enrollment_wallet_key]) (auto simp: enrollment_wallet_key_def lower_eq_def)
  moreover have "en_referral_code e = en_referral_code f \<Longrightarrow> e = f"
    using inv mem by (intro unique_onD [of enrollment_code_key]) (auto simp: enrollment_code_key_def)
  moreover have "r = s" if "r \<in> set (db_referrals d)" "s \<in> set (db_referrals d)" "rf_campaign r = rf_campaign s"
      "rf_referee_address r = rf_referee_address s" for r s
    using inv that by (intro unique_onD [of referral_key]) (auto simp: referral_key_def)
  ultimately show ?thesis using inv by blast
qed

theorem enrolled_once_witness: "db_enrollments ex_db3 ! 0 = ex_enrollment"
proof -
  have "db_enrollments ex_db3 ! 0 \<in> set (db_enrollments ex_db3)" "ex_enrollment \<in> set (db_enrollments ex_db3)"
    "en_campaign (db_enrollments ex_db3 ! 0) = en_campaign ex_enrollment"
    "lower_eq (en_address (db_enrollments ex_db3 ! 0)) (en_address ex_enrollment)"
    by (simp_all add: ex_rows)
  then show ?thesis using enrolled_once [OF ex_reachable(3)] by blast
qed

text \<open>C4: an ownership challenge is spent by the first request that presents it in time, whether
  the signature was good or not; as long as the server does not draw the same nonce again, every
  later request with it is refused and changes nothing.\<close>

theorem nonce_single_use:
  assumes reach: "campaign_reachable d" and first: "verifyChallenge cr now i p d = (r, d1)"
    and presented: "r \<noteq> Inr (Inl ChallengeInvalidOrExpired)"
    and steps: "(\<lambda>x y. campaign_step x y \<and> (\<nexists>t a. y = snd (issueChallenge t (vp_nonce p) a x)))\<^sup>*\<^sup>* d1 d2"
    and again: "vp_nonce q = vp_nonce p"
  shows "verifyChallenge cr' now' j q d2 = (Inr (Inl ChallengeInvalidOrExpired), d2)"
proof -
  have "burnt (vp_nonce p) d1" using verify_burns [OF challenges_inv_reachable [OF reach] first presented] .
  then have "burnt (vp_nonce p) d2" using burnt_steps [OF steps] by simp
  then show ?thesis using again burnt_refuses by metis
qed

theorem nonce_single_use_witness:
  "verifyChallenge ex_crypto (ex_now + 2000) ''p2'' ex_verify ex_db2 = (Inr (Inl ChallengeInvalidOrExpired), ex_db2)"
  by (rule nonce_single_use [OF ex_reachable(1) ex_step2]) simp_all





section \<open>Enrolment and check-in\<close>

text \<open>Two enrolments of one wallet that overlap: whatever the slower transaction had read, it
  writes nothing and answers \<open>already-enrolled\<close> instead of a server error.\<close>

theorem enroll_race_already_enrolled:
  assumes "campaignStatus (campaign_window env now) = Inr ()" "enroll_decision (campaign_window env now) p snap = Inr ()"
    and "findEnrollment CAMPAIGN_ID (ep_address p) d = Some e" "STELLAR_PUBKEY_RE (ep_address p)"
    and "\<forall>x \<in> set (db_enrollments d). en_id x \<noteq> newId 0"
  shows "enroll env now newId nextCode p snap d = (Inr (Inl AlreadyEnrolled), d)"
  using assms by (rule enroll_race_lost)

theorem enroll_race_already_enrolled_witness:
  "enroll ex_env (ex_now + 2500) (\<lambda>_. ''e2'') (\<lambda>_. ''BBBBBBBB'') ex_enroll ex_db2 ex_db3 = (Inr (Inl AlreadyEnrolled), ex_db3)"
proof (rule enroll_race_already_enrolled)
  show "campaignStatus (campaign_window ex_env (ex_now + 2500)) = Inr ()" by (rule ex_window) simp
  then show "enroll_decision (campaign_window ex_env (ex_now + 2500)) ex_enroll ex_db2 = Inr ()"
    by (simp add: enroll_decision_def enrollEligibility_def enroll_referrer_def ex_enroll_def truthy_def hasBoundProof_def
        findEnrollment_def ex_rows)
  show "findEnrollment CAMPAIGN_ID (ep_address ex_enroll) ex_db3 = Some ex_enrollment"
    by (simp add: findEnrollment_def ex_enroll_def ex_rows)
qed (simp_all add: ex_enroll_def ex_rows)

text \<open>Two wallets that draw the same referral code: the insert that meets the taken code draws
  another one and enrols with it.\<close>

theorem enroll_code_collision_retried:
  assumes "STELLAR_PUBKEY_RE (ne_address p)" "findEnrollment (ne_campaign p) (ne_address p) d = None"
    and "\<forall>x \<in> set (db_enrollments d). en_id x \<noteq> newId 0 \<and> en_id x \<noteq> newId 1"
    and "\<exists>x \<in> set (db_enrollments d). en_campaign x = ne_campaign p \<and> en_referral_code x = nextCode 0"
    and "\<forall>x \<in> set (db_enrollments d). en_campaign x = ne_campaign p \<longrightarrow> en_referral_code x \<noteq> nextCode 1"
  shows "\<exists>row d'. insertEnrollmentWithCodeRetry p newId nextCode d = Inr (row, d') \<and> en_referral_code row = nextCode 1
    \<and> d' = d\<lparr>db_enrollments := db_enrollments d @ [row]\<rparr>"
  using assms by (rule code_retry)

definition ex_params_b :: NewEnrollment where
  "ex_params_b = \<lparr>ne_id = [], ne_now = ex_now + 2500, ne_campaign = 1, ne_address = ex_b, ne_userId = ex_user,
     ne_referralCode = [], ne_referredByCode = None\<rparr>"

lemma ex_b_valid: "STELLAR_PUBKEY_RE ex_b"
  by code_simp

lemma ex_a_b: "toLowerCase ex_a \<noteq> toLowerCase ex_b"
  by code_simp

theorem enroll_code_collision_retried_witness:
  "\<exists>row d'. insertEnrollmentWithCodeRetry ex_params_b (\<lambda>n. if n = 0 then ''e2'' else ''e3'')
      (\<lambda>n. if n = 0 then ''AAAAAAAA'' else ''BBBBBBBB'') ex_db3 = Inr (row, d') \<and> en_referral_code row = ''BBBBBBBB''
    \<and> d' = ex_db3\<lparr>db_enrollments := db_enrollments ex_db3 @ [row]\<rparr>"
  using enroll_code_collision_retried [of ex_params_b ex_db3 "\<lambda>n. if n = 0 then ''e2'' else ''e3''"
      "\<lambda>n. if n = 0 then ''AAAAAAAA'' else ''BBBBBBBB''"] ex_b_valid ex_a_b
  by (simp add: ex_params_b_def findEnrollment_def ex_rows)

text \<open>In a reachable database a check-in request never ends in a server error and is decided
  exactly by the pure rule of the facts: window, proof, enrolment, and whether the wallet already
  checked in today.\<close>

theorem checkin_decided_by_rule:
  assumes "campaign_reachable d"
  shows "fst (checkin env now a u d) = Inr
    (map_sum id (\<lambda>_. (utcDay now, STREAK_DAILY_POINTS))
      (checkinEligibility \<lparr>cf_window = campaign_window env now, cf_proven = hasBoundProof a u d,
         cf_enrolled = (findEnrollment CAMPAIGN_ID a d \<noteq> None), cf_alreadyCheckedInToday = checked_in a (utcDay now) d\<rparr>))"
  using assms by (intro checkin_spec points_inv_reachable enrollments_inv_reachable streaks_linked_reachable)

theorem checkin_decided_by_rule_witness:
  "fst (checkin ex_env (ex_now + 3000) ex_a ex_user ex_db3) = Inr
    (map_sum id (\<lambda>_. (utcDay (ex_now + 3000), STREAK_DAILY_POINTS))
      (checkinEligibility \<lparr>cf_window = campaign_window ex_env (ex_now + 3000), cf_proven = hasBoundProof ex_a ex_user ex_db3,
         cf_enrolled = (findEnrollment CAMPAIGN_ID ex_a ex_db3 \<noteq> None),
         cf_alreadyCheckedInToday = checked_in ex_a (utcDay (ex_now + 3000)) ex_db3\<rparr>))"
  by (rule checkin_decided_by_rule [OF ex_reachable(3)])

text \<open>A successful check-in credits exactly the daily points, and a second check-in on the same
  UTC day is refused as already done and changes nothing.\<close>

theorem checkin_once_a_day:
  assumes reach: "campaign_reachable d" and ok: "checkin env now a u d = (Inr (Inr (day, pts)), d')"
    and later: "campaignStatus (campaign_window env' now') = Inr ()" "hasBoundProof a u' d'" "utcDay now' = utcDay now"
  shows "balance CAMPAIGN_ID a d' = balance CAMPAIGN_ID a d + STREAK_DAILY_POINTS
    \<and> fst (checkin env' now' a u' d') = Inr (Inl AlreadyCheckedIn)"
proof -
  have inv: "points_inv d" "enrollments_inv d" "streaks_linked d"
    using reach by (simp_all add: points_inv_reachable enrollments_inv_reachable streaks_linked_reachable)
  note eff = checkin_success_effect [OF inv ok]
  have "campaign_reachable d'"
    using campaign_reachable.step [OF reach campaign_step.checkin [of d env now a u]] ok by simp
  then have inv': "points_inv d'" "enrollments_inv d'" "streaks_linked d'"
    by (simp_all add: points_inv_reachable enrollments_inv_reachable streaks_linked_reachable)
  from checkin_spec [OF inv', of env' now' a u'] eff later show ?thesis
    by (auto simp: checkinEligibility_def checked_in_def)
qed

theorem checkin_once_a_day_witness:
  "\<exists>d'. balance CAMPAIGN_ID ex_a d' = balance CAMPAIGN_ID ex_a ex_db3 + STREAK_DAILY_POINTS
    \<and> fst (checkin ex_env (ex_now + 4000) ex_a ex_user d') = Inr (Inl AlreadyCheckedIn)"
proof -
  have "campaignStatus (campaign_window ex_env (ex_now + 3000)) = Inr ()" by (rule ex_window) simp
  then have "fst (checkin ex_env (ex_now + 3000) ex_a ex_user ex_db3) = Inr (Inr (utcDay (ex_now + 3000), STREAK_DAILY_POINTS))"
    using checkin_spec [of ex_db3 ex_env "ex_now + 3000" ex_a ex_user] ex_reachable(3)
    by (simp add: points_inv_reachable enrollments_inv_reachable streaks_linked_reachable checkinEligibility_def hasBoundProof_def
        findEnrollment_def checked_in_def ex_rows)
  then have "checkin ex_env (ex_now + 3000) ex_a ex_user ex_db3 = (Inr (Inr (utcDay (ex_now + 3000), STREAK_DAILY_POINTS)), ex_db4)"
    using ex_step4 by (simp add: prod_eq_iff)
  then show ?thesis
    using checkin_once_a_day [OF ex_reachable(3), of ex_env "ex_now + 3000" ex_a ex_user _ _ ex_db4 ex_env "ex_now + 4000" ex_user]
    by (intro exI [of _ ex_db4]) (simp add: ex_window ex_day hasBoundProof_def ex_rows)
qed

section \<open>Social claims\<close>






text \<open>While claims do not overlap, one handle stays one wallet: over all tasks, two active claims
  carry the same handle exactly when they belong to the same wallet.\<close>

theorem serial_claims_one_handle_per_wallet:
  assumes "handles_ok d"
  shows "handles_ok (snd (social_claim env now i p d d))"
  using assms by (rule handles_ok_claim)

theorem serial_claims_one_handle_per_wallet_witness: "handles_ok (snd (social_claim ex_env (ex_now + 4000) ''c1'' ex_claim ex_db4 ex_db4))"
  by (rule serial_claims_one_handle_per_wallet) (simp add: handles_ok_def ex_rows)

section \<open>The award job\<close>

text \<open>C6: running the award job again, at any later time and with nothing new recorded, awards
  nothing, credits no referral, grants no perk and leaves the database as it is.\<close>

theorem award_run_idempotent:
  assumes "campaign_reachable d" "runCampaignAward env now d = (Inr s1, d')"
  shows "\<exists>s2. runCampaignAward env now' d' = (Inr s2, d')
    \<and> as_awardedActions s2 = 0 \<and> as_referralsCredited s2 = 0 \<and> as_perksGranted s2 = 0"
  using assms run_again witness_hashes_reachable enrollments_inv_reachable unfolding enrollments_inv_def by blast

theorem award_run_idempotent_witness: "\<exists>s2. runCampaignAward ex_env (ex_now + 9000) ex_db7 = (Inr s2, ex_db7)
    \<and> as_awardedActions s2 = 0 \<and> as_referralsCredited s2 = 0 \<and> as_perksGranted s2 = 0"
  by (rule award_run_idempotent [OF ex_reachable(6) ex_step7])

text \<open>A check-in made after the actions' day, or on it, cannot change what the award run plans
  for them: the multiplier only looks at the days before the action.\<close>

theorem award_plan_ignores_later_checkin:
  assumes "days_valid d" "valid_day t"
    and "\<forall>w \<in> set (db_witnesses d). 0 \<le> wt_ledger_closed_at w \<and> wt_ledger_closed_at w div ms_per_day \<le> t"
  shows "award_plan s e (d\<lparr>db_checkins := db_checkins d @ [\<lparr>ci_campaign = CAMPAIGN_ID, ci_address = a, ci_day = iso_day t, ci_created_at = now\<rparr>]\<rparr>)
    = award_plan s e d"
  using assms by (rule award_plan_later_checkin)

lemma ex_valid_days: "valid_day 20742" "valid_day 20743" "valid_day 20735" "ex_now div ms_per_day = 20742"
  by code_simp+

lemma ex_days_valid: "days_valid ex_db6"
proof -
  have "valid_day 20742 \<and> ''2026-10-16'' = iso_day 20742" by (simp add: ex_valid_days iso_day_epoch)
  then show ?thesis unfolding days_valid_def by (auto simp: ex_db6_def ex_rows)
qed

theorem award_plan_ignores_later_checkin_witness:
  "award_plan (20742 * ms_per_day) None (ex_db6\<lparr>db_checkins := db_checkins ex_db6 @ [\<lparr>ci_campaign = CAMPAIGN_ID, ci_address = ex_a, ci_day = iso_day 20743, ci_created_at = ex_now + ms_per_day\<rparr>]\<rparr>)
    = award_plan (20742 * ms_per_day) None ex_db6"
  by (rule award_plan_ignores_later_checkin [OF ex_days_valid])
     (simp_all add: ex_valid_days ex_db6_def ex_witness_def ex_rows ex_now_def ms_per_day_def)





section \<open>Arithmetic and reads\<close>

text \<open>The points of an action, computed in double precision, are the exact rational product of
  the base points and the streak multiplier rounded half up.\<close>

theorem points_computed_exactly:
  assumes "0 \<le> b" "b \<le> 2 ^ 30" "days \<le> 2 ^ 40"
  shows "pointsFor (jsint b) (streakMultiplier (jsint days)) = jsint ((b * ramp_hundredths_of days + 50) div 100)"
  using assms by (rule pointsFor_exact)

theorem points_computed_exactly_witness: "pointsFor (jsint 50) (streakMultiplier (jsint 3)) = jsint 58"
  using points_computed_exactly [of 50 3] by (simp add: ramp_hundredths_of_def)

text \<open>\<open>me\<close> never throws on a date; the streak it reports is the number of consecutive days
  checked in up to today (or up to yesterday while today is open), and the strip is the last seven
  days in order.\<close>

theorem me_reports_streak:
  fixes a :: address and d :: Db and now :: ms
  assumes "days_valid d" "valid_day (now div ms_per_day)" "valid_day (now div ms_per_day - 7)"
  defines "D \<equiv> day_numbers a d" and "t \<equiv> now div ms_per_day"
  shows "\<exists>p k. me env now a u d = Some p
    \<and> consecutive_days D (if t \<in> D then t else t - 1) (nat (me_streakCurrent p)) \<and> 0 \<le> me_streakCurrent p
    \<and> me_checkedInToday p = (t \<in> D)
    \<and> consecutive_days D (t - 1) k \<and> me_multiplierForToday p = streakMultiplier (jsint (int k))
    \<and> me_last7 p = map (box D) [t - 6..t]"
  unfolding D_def t_def using assms(1-3) by (rule me_streak)

theorem me_reports_streak_witness:
  "\<exists>p. me ex_env ex_now ex_a ex_user ex_db6 = Some p \<and> me_last7 p = map (box (day_numbers ex_a ex_db6)) [20736..20742]"
proof -
  have "ex_now div ms_per_day - 7 = 20735" "ex_now div ms_per_day - 6 = 20736" by (simp_all add: ex_valid_days)
  then show ?thesis
    using me_reports_streak [OF ex_days_valid, of ex_now ex_env ex_a ex_user] ex_valid_days by (simp only:) blast
qed

text \<open>The leaderboard and a wallet's own rank agree: the wallet on row \<open>i\<close> has a positive total
  that is its balance, and asking for its rank answers \<open>i + 1\<close> with that total.\<close>

theorem leaderboard_rank_agrees:
  assumes "campaign_reachable d" "i < length (leaderboard CAMPAIGN_ID n d)"
  defines "g \<equiv> leaderboard CAMPAIGN_ID n d ! i"
  shows "rankOf CAMPAIGN_ID (lb_address g) d = Some (i + 1, lb_points g)
    \<and> lb_points g = balance CAMPAIGN_ID (lb_address g) d \<and> 0 < lb_points g"
proof -
  have s: "points_struct d" using points_inv_reachable [OF assms(1)] by (simp add: points_inv_def)
  have i: "i < length (ranked_wallets CAMPAIGN_ID d)" and g: "g = ranked_wallets CAMPAIGN_ID d ! i"
    using assms(2) by (simp_all add: g_def leaderboard_def)
  then have "g \<in> set (ranked_wallets CAMPAIGN_ID d)" by simp
  then show ?thesis
    using rankOf_board [OF s i] ranked_wallets_balance [OF s] ranked_wallets_props [of CAMPAIGN_ID d] unfolding g by blast
qed

theorem leaderboard_rank_agrees_witness: "\<exists>g :: LeaderboardRow. rankOf CAMPAIGN_ID (lb_address g) ex_db7 = Some (1, lb_points g)"
proof -
  have "length (leaderboard CAMPAIGN_ID 10 ex_db7) = 1"
    by (simp add: leaderboard_def ranked_wallets_def Let_def ex_db7_def ex_action_row_def blank_ledger_row_def ex_rows)
  then have "0 < length (leaderboard CAMPAIGN_ID 10 ex_db7)" by simp
  from conjunct1 [OF leaderboard_rank_agrees [OF ex_reachable7 this]] show ?thesis
    by (intro exI [of _ "leaderboard CAMPAIGN_ID 10 ex_db7 ! 0"]) (simp only: add_0)
qed

text \<open>A referral code the server draws is accepted unchanged when it comes back in a request.\<close>

theorem referral_code_roundtrip:
  assumes "referralCodeFromBytes bytes = Some code"
  shows "optionalReferralCode (JString code) = Inr (Some code)"
  using assms by (rule optionalReferralCode_roundtrip)

theorem referral_code_roundtrip_witness:
  "optionalReferralCode (JString (the (referralCodeFromBytes [0, 31, 32, 255, 7, 8, 9, 10]))) = Inr (Some (the (referralCodeFromBytes [0, 31, 32, 255, 7, 8, 9, 10])))"
proof -
  have "referralCodeFromBytes [0, 31, 32, 255, 7, 8, 9, 10] \<noteq> None" by code_simp
  then show ?thesis by (intro referral_code_roundtrip) auto
qed

section \<open>The handle race\<close>

text \<open>Two enrolled, proven wallets that claim different tasks with one handle.\<close>

definition ex_claim_b :: ClaimParams where
  "ex_claim_b = \<lparr>sp_address = ex_b, sp_userId = ex_user, sp_task = ''community-join'', sp_handle = ''alice''\<rparr>"

definition ex_two :: Db where
  "ex_two = ex_db4\<lparr>db_enrollments := [ex_enrollment, ex_enrollment\<lparr>en_id := ''e2'', en_address := ex_b, en_referral_code := ''BBBBBBBB''\<rparr>],
     db_proofs := [ex_proof, ex_proof\<lparr>pf_id := ''p2'', pf_address := ex_b, pf_nonce := replicate 32 (CHR ''8'')\<rparr>]\<rparr>"

lemma ex_two_checks:
  "ledger_checks (social_row (ex_now + 4000) 1 ex_a (Some ex_user) \<lparr>sa_reason = social_reason XFollow, sa_basePoints = 20, sa_points = 20\<rparr> ''c1'' ''2026-10-16'')"
  "ledger_checks (social_row (ex_now + 4000) 1 ex_b (Some ex_user) \<lparr>sa_reason = social_reason CommunityJoin, sa_basePoints = 20, sa_points = 20\<rparr> ''c2'' ''2026-10-16'')"
  by code_simp+

lemmas claim_evaluation = social_claim_def socialClaimEligibility_def hasBoundProof_def taskAvailable_def socialAward_def
  SOCIAL_DAILY_CAP_def claim_transaction_def lockEnrollment_def findEnrollment_def todayUtc_def socialClaimHandles_def
  handleUsedByOtherWallet_def socialPointsAwardedOn_def points_where_def insertSocialClaim_def conflicts_def
  insertSocialAward_def insert_ledger_def ledger_conflict_def ledger_references_def append_ledger_def ledger_row_def
  social_row_def blank_ledger_row_def social_claim_key_def witness_key_def checkin_key_def referee_key_def
  claim_id_key_def claim_task_key_def claim_handle_key_def active_claim_of_def Let_def

text \<open>C30: the rule above does not survive overlapping requests: two wallets that claim different tasks
  with one handle, both having read before the other wrote, are both credited, although after the
  first one the second alone would have been refused as \<open>handle-already-used\<close>.\<close>

theorem concurrent_claims_share_handle:
  "\<exists>d1 d2 o1 o2. social_claim ex_env (ex_now + 4000) ''c1'' ex_claim ex_two ex_two = (Inr (Inr o1), d1)
    \<and> social_claim ex_env (ex_now + 4000) ''c2'' ex_claim_b ex_two d1 = (Inr (Inr o2), d2)
    \<and> fst (social_claim ex_env (ex_now + 4000) ''c2'' ex_claim_b d1 d1) = Inr (Inl HandleAlreadyUsed)
    \<and> handles_ok ex_two \<and> \<not> handles_ok d2"
proof -
  have task: "social_task_of ''x-follow'' = Some XFollow" "social_task_of ''community-join'' = Some CommunityJoin" by code_simp+
  let ?d1 = "ex_two\<lparr>db_claims := [ex_claim_row], db_ledger := [ex_streak_row, ex_social_row], db_ledger_seq := 2\<rparr>"
  have one: "social_claim ex_env (ex_now + 4000) ''c1'' ex_claim ex_two ex_two
      = (Inr (Inr \<lparr>so_id = ''c1'', so_task = ''x-follow'', so_points = 20\<rparr>), ?d1)"
    using task ex_two_checks(1)
    by (simp add: claim_evaluation ex_window ex_day ex_two_def ex_claim_def social_reason_def ex_rows)
  let ?d2 = "snd (social_claim ex_env (ex_now + 4000) ''c2'' ex_claim_b ex_two ?d1)"
  have two: "fst (social_claim ex_env (ex_now + 4000) ''c2'' ex_claim_b ex_two ?d1)
      = Inr (Inr \<lparr>so_id = ''c2'', so_task = ''community-join'', so_points = 20\<rparr>)"
      "db_claims ?d2 = [ex_claim_row, ex_claim_row\<lparr>cl_id := ''c2'', cl_address := ex_b, cl_task_key := ''community-join''\<rparr>]"
    using task ex_two_checks(2) ex_a_b ex_b_valid
    by (simp_all add: claim_evaluation ex_window ex_day ex_two_def ex_claim_b_def social_reason_def ex_rows)
  have serial: "fst (social_claim ex_env (ex_now + 4000) ''c2'' ex_claim_b ?d1 ?d1) = Inr (Inl HandleAlreadyUsed)"
    using task ex_two_checks(2) ex_a_b ex_b_valid
    by (simp add: claim_evaluation ex_window ex_day ex_two_def ex_claim_b_def social_reason_def ex_rows)
  have "handles_ok ex_two" by (simp add: handles_ok_def ex_two_def ex_rows)
  moreover have "\<not> handles_ok ?d2" using ex_a_b unfolding handles_ok_def two(2) by (simp add: ex_rows)
  ultimately show ?thesis using one two(1) serial
    by (intro exI [of _ ?d1] exI [of _ ?d2] exI) (auto simp: prod_eq_iff)
qed

end
