(* ===== verification/Js_Parse.thy ===== *)
theory Js_Parse
  imports Js_Number
begin

text \<open>
  Reading and printing numbers as the language's standard library does: \<open>parseInt\<close> (radix 10),
  \<open>parseFloat\<close>, \<open>Number\<close> on a string, \<open>toFixed\<close> and the decimal text of an integer. A value is
  read exactly and rounded once.
\<close>

section \<open>Digits\<close>

definition digits_value :: "string \<Rightarrow> int" where
  "digits_value s = foldl (\<lambda>acc c. 10 * acc + int (digit_val c)) 0 s"

text \<open>An optional sign: the sign and the rest.\<close>

definition split_sign :: "string \<Rightarrow> int \<times> string" where
  "split_sign s = (case s of [] \<Rightarrow> (1, [])
     | c # cs \<Rightarrow> if c = CHR ''-'' then (-1, cs) else if c = CHR ''+'' then (1, cs) else (1, s))"

definition parseInt10 :: "string \<Rightarrow> jsnum" where
  "parseInt10 s =
     (let (sign, t) = split_sign (dropWhile is_space s); ds = takeWhile is_digit t in
      if ds = [] then NaN else fl (of_int (sign * digits_value ds)))"

section \<open>Decimal literals\<close>

text \<open>The exponent part at the front of a text, if there is one: its value and the rest.\<close>

definition split_exponent :: "string \<Rightarrow> int \<times> string" where
  "split_exponent s =
     (case s of
        [] \<Rightarrow> (0, [])
      | c # cs \<Rightarrow>
          if c = CHR ''e'' \<or> c = CHR ''E'' then
            (let (sign, t) = split_sign cs; ds = takeWhile is_digit t in
             if ds = [] then (0, s) else (sign * digits_value ds, dropWhile is_digit t))
          else (0, s))"

text \<open>The longest unsigned decimal literal at the front of a text: its value and the rest.\<close>

definition split_decimal :: "string \<Rightarrow> (rat \<times> string) option" where
  "split_decimal s =
     (let whole = takeWhile is_digit s; r = dropWhile is_digit s;
          (frac, r') = (case r of c # cs \<Rightarrow> if c = CHR ''.'' then (takeWhile is_digit cs, dropWhile is_digit cs) else ([], r)
                                | [] \<Rightarrow> ([], []));
          dot_only = (whole = [] \<and> frac = []) in
      if dot_only then None
      else let (e, rest) = split_exponent r' in
        Some (of_int (digits_value (whole @ frac)) * 10 powi (e - int (length frac)), rest))"

definition signed_decimal :: "(rat \<times> string) option \<Rightarrow> int \<Rightarrow> jsnum" where
  "signed_decimal v sign = (case v of None \<Rightarrow> NaN | Some (x, _) \<Rightarrow> fl (of_int sign * x))"

definition parseFloat :: "string \<Rightarrow> jsnum" where
  "parseFloat s =
     (let (sign, t) = split_sign (dropWhile is_space s) in
      if starts_with ''Infinity'' t then (if sign = 1 then PInf else NInf)
      else signed_decimal (split_decimal t) sign)"

section \<open>Number\<close>

definition radix_digit :: "nat \<Rightarrow> char \<Rightarrow> nat option" where
  "radix_digit radix c =
     (let n = (of_char (lower_char c) :: nat);
          v = (if 48 \<le> n \<and> n \<le> 57 then n - 48 else if 97 \<le> n \<and> n \<le> 102 then n - 87 else 99) in
      if v < radix then Some v else None)"

fun radix_value :: "nat \<Rightarrow> string \<Rightarrow> int \<Rightarrow> int option" where
  "radix_value radix [] acc = Some acc"
| "radix_value radix (c # cs) acc =
     (case radix_digit radix c of None \<Rightarrow> None | Some v \<Rightarrow> radix_value radix cs (int radix * acc + int v))"

definition radix_of :: "char \<Rightarrow> nat option" where
  "radix_of c = (let l = lower_char c in
     if l = CHR ''x'' then Some 16 else if l = CHR ''o'' then Some 8 else if l = CHR ''b'' then Some 2 else None)"

definition js_Number :: "string \<Rightarrow> jsnum" where
  "js_Number s =
     (let t = trim s in
      case t of
        [] \<Rightarrow> Num 0
      | c # cs \<Rightarrow>
          (case (if c = CHR ''0'' \<and> cs \<noteq> [] then radix_of (hd cs) else None) of
             Some radix \<Rightarrow>
               (case (if tl cs = [] then None else radix_value radix (tl cs) 0) of
                  None \<Rightarrow> NaN | Some v \<Rightarrow> fl (of_int v))
           | None \<Rightarrow>
               (let (sign, u) = split_sign t in
                if u = ''Infinity'' then (if sign = 1 then PInf else NInf)
                else case split_decimal u of
                  Some (x, []) \<Rightarrow> fl (of_int sign * x)
                | _ \<Rightarrow> NaN)))"

section \<open>Printing\<close>

function int_digits :: "int \<Rightarrow> string" where
  "int_digits n = (if n < 10 then [digit_char (nat n)] else int_digits (n div 10) @ [digit_char (nat (n mod 10))])"
  by pat_completeness auto
termination by (relation "measure nat") auto

declare int_digits.simps [simp del]

text \<open>The decimal text of an integer below \<open>10^21\<close>, as a template prints it.\<close>

definition int_text :: "int \<Rightarrow> string" where
  "int_text n = (if n < 0 then CHR ''-'' # int_digits (- n) else int_digits n)"

text \<open>\<open>toFixed\<close> of a finite number below \<open>10^21\<close>: the nearest multiple of \<open>10^-f\<close>, the larger one
  on a tie.\<close>

definition toFixed_unsigned :: "nat \<Rightarrow> rat \<Rightarrow> string" where
  "toFixed_unsigned f x =
     (let m = int_digits \<lfloor>x * 10 ^ f + 1/2\<rfloor>;
          k = (if length m \<le> f then replicate (f + 1 - length m) (CHR ''0'') @ m else m) in
      if f = 0 then m else take (length k - f) k @ ''.'' @ drop (length k - f) k)"

definition toFixed :: "nat \<Rightarrow> rat \<Rightarrow> string" where
  "toFixed f x = (if x < 0 then CHR ''-'' # toFixed_unsigned f (- x) else toFixed_unsigned f x)"

section \<open>What is printed is read back\<close>

lemma digits_value_snoc: "digits_value (s @ [c]) = 10 * digits_value s + int (digit_val c)"
  by (simp add: digits_value_def)

lemma int_digits_value: "0 \<le> n \<Longrightarrow> digits_value (int_digits n) = n"
proof (induction n rule: int_digits.induct)
  case (1 n)
  show ?case
  proof (cases "n < 10")
    case True
    then show ?thesis using 1 by (simp add: int_digits.simps [of n] digits_value_def)
  next
    case False
    have m: "nat (n mod 10) \<le> 9" using pos_mod_bound [of 10 n] by linarith
    have "digits_value (int_digits n) = 10 * digits_value (int_digits (n div 10)) + int (digit_val (digit_char (nat (n mod 10))))"
      using False by (simp add: int_digits.simps [of n] digits_value_snoc)
    also have "\<dots> = 10 * (n div 10) + n mod 10" using 1 False m by simp
    finally show ?thesis by simp
  qed
qed

lemma int_digits_all: "0 \<le> n \<Longrightarrow> list_all is_digit (int_digits n) \<and> int_digits n \<noteq> []"
proof (induction n rule: int_digits.induct)
  case (1 n)
  have "nat (n mod 10) \<le> 9" using pos_mod_bound [of 10 n] by linarith
  then show ?case using 1 by (cases "n < 10") (simp_all add: int_digits.simps [of n])
qed

lemma digit_not_sign: "is_digit c \<Longrightarrow> c \<noteq> CHR ''-'' \<and> c \<noteq> CHR ''+'' \<and> \<not> is_space c"
  by (auto simp: is_digit_def is_space_def Let_def)

lemma split_sign_digit: "is_digit c \<Longrightarrow> split_sign (c # cs) = (1, c # cs)"
  using digit_not_sign by (simp add: split_sign_def)

lemma takeWhile_all_digits: "list_all is_digit s \<Longrightarrow> takeWhile is_digit s = s"
  by (induction s) auto

lemma parseInt10_int_digits:
  assumes "0 \<le> n" "n \<le> 2 ^ 53"
  shows "parseInt10 (int_digits n) = jsint n"
proof -
  obtain c cs where s: "int_digits n = c # cs" using int_digits_all [OF assms(1)] by (cases "int_digits n") auto
  then have all: "list_all is_digit (c # cs)" using int_digits_all [OF assms(1)] by simp
  have dw: "dropWhile is_space (c # cs) = c # cs" using all digit_not_sign by simp
  have sg: "split_sign (c # cs) = (1, c # cs)" using all by (simp add: split_sign_digit)
  have tw: "takeWhile is_digit (c # cs) = c # cs" by (rule takeWhile_all_digits [OF all])
  have "parseInt10 (int_digits n) = fl (of_int (digits_value (c # cs)))"
    by (simp only: parseInt10_def s dw sg tw Let_def prod.case) simp
  also have "\<dots> = fl (of_int n)" using int_digits_value [OF assms(1)] s by simp
  also have "\<dots> = jsint n" using assms by (intro fl_of_int) simp
  finally show ?thesis .
qed

end
