(* ===== verification/Faucet_Rules.thy ===== *)
theory Faucet_Rules
  imports Js_Parse Process_Env Driver_Errors
begin

text \<open>
  The reward faucet's configuration (\<open>modules/faucet/faucet-config.ts\<close>) and its pure eligibility
  rules (\<open>faucet-eligibility.ts\<close>): one decision procedure, run per wallet and action family.
\<close>

section \<open>faucet-config.ts\<close>

datatype FaucetNetwork = FaucetTestnet | FaucetMainnet

fun HORIZON_URLS :: "FaucetNetwork \<Rightarrow> string" where
  "HORIZON_URLS FaucetTestnet = ''https://horizon-testnet.stellar.org''"
| "HORIZON_URLS FaucetMainnet = ''https://horizon.stellar.org''"

text \<open>\<open>Networks.TESTNET\<close> and \<open>Networks.PUBLIC\<close> are constants of the SDK: a parameter.\<close>

definition faucetNetworkPassphrase :: "(FaucetNetwork \<Rightarrow> string) \<Rightarrow> FaucetNetwork \<Rightarrow> string" where
  "faucetNetworkPassphrase passphrases network = passphrases network"

definition faucetHorizonUrl :: "FaucetNetwork \<Rightarrow> string" where
  "faucetHorizonUrl network = HORIZON_URLS network"

definition FAUCET_CAMPAIGN :: int where
  "FAUCET_CAMPAIGN = 2"

definition isFaucetEnabled :: "Env \<Rightarrow> bool" where
  "isFaucetEnabled env \<longleftrightarrow> env_var env ''FAUCET_ENABLED'' = Some ''true''"

definition faucetNetwork :: "Env \<Rightarrow> FaucetNetwork" where
  "faucetNetwork env = (if env_var env ''FAUCET_NETWORK'' = Some ''mainnet'' then FaucetMainnet else FaucetTestnet)"

text \<open>\<open>Number.isFinite(parsed) && parsed > 0 ? parsed : fallback\<close>\<close>

definition positive_or :: "jsnum \<Rightarrow> int \<Rightarrow> jsnum" where
  "positive_or parsed fallback = (if isFinite parsed \<and> js_lt (Num 0) parsed then parsed else jsint fallback)"

definition faucetRewardXlm :: "Env \<Rightarrow> jsnum" where
  "faucetRewardXlm env = positive_or (parseFloat (or_empty (env_var env ''FAUCET_REWARD_XLM''))) 5"

definition faucetMaxClaims :: "Env \<Rightarrow> jsnum" where
  "faucetMaxClaims env = positive_or (parseInt10 (or_empty (env_var env ''FAUCET_MAX_CLAIMS''))) 40"

definition faucetHourlyClaimCap :: "Env \<Rightarrow> jsnum" where
  "faucetHourlyClaimCap env = positive_or (parseInt10 (or_empty (env_var env ''FAUCET_HOURLY_CLAIM_CAP''))) 10"

definition faucetMinNotionalXlm :: "Env \<Rightarrow> jsnum" where
  "faucetMinNotionalXlm env = positive_or (parseFloat (or_empty (env_var env ''FAUCET_MIN_NOTIONAL_XLM''))) 1"

definition faucetEndsAt :: "Env \<Rightarrow> ms option" where
  "faucetEndsAt env =
     (case env_trimmed env ''FAUCET_ENDS_AT'' of None \<Rightarrow> None | Some raw \<Rightarrow> env_date env raw)"

definition faucetStartsAt :: "Env \<Rightarrow> ms option" where
  "faucetStartsAt env =
     (case env_trimmed env ''FAUCET_STARTS_AT'' of None \<Rightarrow> None | Some raw \<Rightarrow> env_date env raw)"

section \<open>faucet-eligibility.ts\<close>

datatype ActionFamily = Swap | BlendSupply

definition FAUCET_FAMILIES :: "ActionFamily list" where
  "FAUCET_FAMILIES = [Swap, BlendSupply]"

definition FAMILY_BY_WITNESS_KIND :: "string \<Rightarrow> ActionFamily option" where
  "FAMILY_BY_WITNESS_KIND k =
     (if k = ''sdex-swap'' then Some Swap else if k = ''blend-deposit'' then Some BlendSupply else None)"

datatype ClaimStatus = Pending | Paid | Failed

record PriorClaim =
  pc_status :: ClaimStatus
  pc_payoutTxHash :: "string option"

datatype WitnessState = NoWitness | BelowMin | WitnessOk

datatype IneligibleReason =
    FaucetDisabled | CampaignNotStarted | CampaignEnded | CampaignExhausted | TemporarilyPaused
  | NoQualifyingWitness | BelowMinNotional | FamilyAlreadyClaimed | ClaimFailedPendingReview
  | TreasuryUnavailable | TreasuryDrained

record CampaignFacts =
  fa_enabled :: bool
  fa_maxClaims :: jsnum
  fa_countedClaims :: int
  fa_claimsLastHour :: int
  fa_hourlyCap :: jsnum
  fa_startsAtMs :: "ms option"
  fa_endsAtMs :: "ms option"
  fa_nowMs :: ms

definition campaignEnded :: "CampaignFacts \<Rightarrow> bool" where
  "campaignEnded f \<longleftrightarrow> (case fa_endsAtMs f of None \<Rightarrow> False | Some e \<Rightarrow> e \<le> fa_nowMs f)"

definition campaignNotStarted :: "CampaignFacts \<Rightarrow> bool" where
  "campaignNotStarted f \<longleftrightarrow> (case fa_startsAtMs f of None \<Rightarrow> True | Some s \<Rightarrow> fa_nowMs f < s)"

record CampaignState =
  cs_active :: bool
  cs_remainingClaims :: jsnum

definition campaignState :: "CampaignFacts \<Rightarrow> CampaignState" where
  "campaignState f =
     (let remaining = Math_max (Num 0) (js_sub (fa_maxClaims f) (jsint (fa_countedClaims f))) in
      \<lparr>cs_active = fa_enabled f \<and> js_lt (Num 0) remaining \<and> \<not> campaignNotStarted f \<and> \<not> campaignEnded f,
       cs_remainingClaims = remaining\<rparr>)"

record WalletFacts =
  wf_campaign :: CampaignFacts
  wf_witnessState :: WitnessState
  wf_priorClaim :: "PriorClaim option"
  wf_treasurySpendableXlm :: "jsnum option"
  wf_rewardXlm :: jsnum

text \<open>The first failing condition, in the order of the checks.\<close>

definition walletEligibility :: "WalletFacts \<Rightarrow> IneligibleReason + unit" where
  "walletEligibility f =
     (let c = wf_campaign f in
      if \<not> fa_enabled c then Inl FaucetDisabled
      else if campaignNotStarted c then Inl CampaignNotStarted
      else if campaignEnded c then Inl CampaignEnded
      else if js_le (cs_remainingClaims (campaignState c)) (Num 0) then Inl CampaignExhausted
      else if js_le (fa_hourlyCap c) (jsint (fa_claimsLastHour c)) then Inl TemporarilyPaused
      else if wf_witnessState f = NoWitness then Inl NoQualifyingWitness
      else if wf_witnessState f = BelowMin then Inl BelowMinNotional
      else if map_option pc_status (wf_priorClaim f) = Some Failed then Inl ClaimFailedPendingReview
      else if wf_priorClaim f \<noteq> None then Inl FamilyAlreadyClaimed
      else (case wf_treasurySpendableXlm f of
          None \<Rightarrow> Inl TreasuryUnavailable
        | Some t \<Rightarrow> if js_lt t (wf_rewardXlm f) then Inl TreasuryDrained else Inr ()))"

section \<open>The rules\<close>

lemma positive_or_cases:
  assumes "0 < fallback"
  obtains x where "positive_or parsed fallback = Num x" "0 < x"
proof (cases "isFinite parsed \<and> js_lt (Num 0) parsed")
  case True
  then obtain x where "parsed = Num x" "0 < x" by (cases parsed) auto
  then show ?thesis using that [of x] by (simp add: positive_or_def)
next
  case False
  then have "positive_or parsed fallback = jsint fallback" unfolding positive_or_def by (rule if_not_P)
  then show ?thesis using that assms by simp
qed

lemma fl_nonpos: "x \<le> 0 \<Longrightarrow> js_le (fl x) (Num 0)"
  using fl_mono [of x 0] by (simp add: fl_def)

text \<open>A positive remainder computed in floating point is a positive remainder.\<close>

lemma remaining_positive:
  assumes "\<not> js_le (Math_max (Num 0) (js_sub (Num m) (jsint n))) (Num 0)"
  shows "of_int n < m"
proof (rule ccontr)
  assume "\<not> of_int n < m"
  then have "js_le (fl (m + - of_int n)) (Num 0)" by (intro fl_nonpos) simp
  then have "js_le (js_sub (Num m) (jsint n)) (Num 0)" by (simp add: js_sub_def)
  then have "Math_max (Num 0) (js_sub (Num m) (jsint n)) \<in> {Num 0, NaN}"
    by (cases "js_sub (Num m) (jsint n)") (auto simp: Math_max_def)
  moreover have "js_sub (Num m) (jsint n) \<noteq> NaN" by (auto simp: js_sub_def fl_def Let_def)
  ultimately show False using assms by (auto simp: Math_max_def split: if_splits)
qed

lemma walletEligibility_Inr:
  assumes "walletEligibility f = Inr u" and m: "fa_maxClaims (wf_campaign f) = Num m"
  shows "fa_enabled (wf_campaign f) \<and> \<not> campaignNotStarted (wf_campaign f) \<and> \<not> campaignEnded (wf_campaign f)
    \<and> of_int (fa_countedClaims (wf_campaign f)) < m
    \<and> \<not> js_le (fa_hourlyCap (wf_campaign f)) (jsint (fa_claimsLastHour (wf_campaign f)))
    \<and> wf_witnessState f = WitnessOk \<and> wf_priorClaim f = None
    \<and> (\<exists>t. wf_treasurySpendableXlm f = Some t \<and> \<not> js_lt t (wf_rewardXlm f))"
proof -
  have "\<not> js_le (cs_remainingClaims (campaignState (wf_campaign f))) (Num 0)"
    using assms by (auto simp: walletEligibility_def Let_def split: if_splits)
  then have "of_int (fa_countedClaims (wf_campaign f)) < m"
    using remaining_positive by (simp add: campaignState_def Let_def m)
  then show ?thesis using assms(1)
    by (cases "wf_witnessState f"; cases "wf_priorClaim f")
       (auto simp: walletEligibility_def Let_def split: if_splits option.splits)
qed

end
