(* ===== verification/Faucet_Service.thy ===== *)
theory Faucet_Service
  imports Faucet_Rules Keyed_Table "HOL-Library.Product_Lexorder"
begin

text \<open>
  \<open>faucet.service.ts\<close> and \<open>faucet-payout.service.ts\<close> over the table \<open>faucet_claims\<close>
  (\<open>stellar_v4_faucet.sql\<close>, \<open>stellar_v5_faucet_campaign2.sql\<close>).

  The state is the table, the witness table it reads, the in-process treasury cache, and the
  transactions handed to the network so far. What the outside answers to one request (Horizon,
  the database's outages) is the record \<open>World\<close>; key handling and the transaction builder are
  code of the SDK and parameters of it. Claims run one at a time, as the in-process promise chain
  runs them.
\<close>

section \<open>State\<close>

record FaucetClaim =
  fc_id :: string
  fc_wallet :: address
  fc_user :: user_id
  fc_witness :: tx_hash
  fc_network :: FaucetNetwork
  fc_status :: ClaimStatus
  fc_reward :: jsnum
  fc_payout_tx :: "string option"
  fc_failure :: "string option"
  fc_created_at :: ms
  fc_paid_at :: "ms option"
  fc_campaign :: int
  fc_family :: string

record FaucetWitness =
  fw_tx_hash :: tx_hash
  fw_network :: FaucetNetwork
  fw_wallet :: address
  fw_user :: user_id
  fw_kind :: string
  fw_meets :: bool
  fw_closed_at :: ms
  fw_verified_at :: ms

record PayoutTx =
  pt_source :: string
  pt_sequence :: string
  pt_fee :: string
  pt_passphrase :: string
  pt_destination :: address
  pt_amount :: string
  pt_memo :: string
  pt_timeout :: int

record FaucetState =
  f_claims :: "FaucetClaim list"
  f_witnesses :: "FaucetWitness list"
  f_cache :: "(ms \<times> jsnum option) option"
  f_submitted :: "PayoutTx list"

datatype SubmitOutcome =
    Submitted string
  | SubmitFailed "nat option" "string option" \<comment> \<open>HTTP status, JSON text of the result codes\<close>

record World =
  w_balances :: "(string \<times> string) list option" \<comment> \<open>loadAccount: asset type and balance\<close>
  w_sequence :: "string option"
  w_tx_built :: bool \<comment> \<open>the transaction builder accepts destination and amount\<close>
  w_submit :: SubmitOutcome
  w_read_error :: "JsError option"
  w_insert_error :: "JsError option"
  w_paid_update_fails :: bool
  w_failed_update_fails :: bool
  w_public_key :: "string \<Rightarrow> string option" \<comment> \<open>Keypair.fromSecret, None when it throws\<close>
  w_passphrases :: "FaucetNetwork \<Rightarrow> string"

section \<open>faucet-payout.service.ts\<close>

definition PAYOUT_MEMO :: string where
  "PAYOUT_MEMO = ''dig-reward''"

definition PAYOUT_FEE_STROOPS :: string where
  "PAYOUT_FEE_STROOPS = ''10000''"

definition PAYOUT_TIMEOUT_SECONDS :: int where
  "PAYOUT_TIMEOUT_SECONDS = 60"

definition TREASURY_RESERVE_BUFFER_XLM :: jsnum where
  "TREASURY_RESERVE_BUFFER_XLM = Num (3/2)"

definition TREASURY_CACHE_MS :: int where
  "TREASURY_CACHE_MS = 30000"

text \<open>\<open>PayoutError\<close> with its reason and \<open>maybePaid\<close>, or any other exception.\<close>

datatype PayFailure = PayoutError string bool | OtherFailure

definition buildSignedPayout :: "string \<Rightarrow> string \<Rightarrow> address \<Rightarrow> string \<Rightarrow> string \<Rightarrow> PayoutTx" where
  "buildSignedPayout source seq destination amountXlm passphrase =
     \<lparr>pt_source = source, pt_sequence = seq, pt_fee = PAYOUT_FEE_STROOPS, pt_passphrase = passphrase,
      pt_destination = destination, pt_amount = amountXlm, pt_memo = PAYOUT_MEMO,
      pt_timeout = PAYOUT_TIMEOUT_SECONDS\<rparr>"

definition treasuryKeypair :: "Env \<Rightarrow> World \<Rightarrow> string option" where
  "treasuryKeypair env w =
     (case env_trimmed env ''FAUCET_SECRET_KEY'' of None \<Rightarrow> None | Some secret \<Rightarrow> w_public_key w secret)"

definition keyAvailable :: "Env \<Rightarrow> World \<Rightarrow> bool" where
  "keyAvailable env w \<longleftrightarrow> treasuryKeypair env w \<noteq> None"

definition fetchTreasurySpendable :: "Env \<Rightarrow> World \<Rightarrow> jsnum option" where
  "fetchTreasurySpendable env w =
     (case treasuryKeypair env w of
        None \<Rightarrow> None
      | Some _ \<Rightarrow>
          (case w_balances w of
             None \<Rightarrow> None
           | Some balances \<Rightarrow>
               (case List.find (\<lambda>b. fst b = ''native'') balances of
                  None \<Rightarrow> None
                | Some b \<Rightarrow> Some (Math_max (Num 0) (js_sub (parseFloat (snd b)) TREASURY_RESERVE_BUFFER_XLM)))))"

definition treasurySpendableXlm :: "Env \<Rightarrow> World \<Rightarrow> ms \<Rightarrow> FaucetState \<Rightarrow> jsnum option \<times> FaucetState" where
  "treasurySpendableXlm env w now st =
     (case f_cache st of
        Some (t, v) \<Rightarrow>
          if now - t < TREASURY_CACHE_MS then (v, st)
          else let v' = fetchTreasurySpendable env w in (v', st\<lparr>f_cache := Some (now, v')\<rparr>)
      | None \<Rightarrow> let v' = fetchTreasurySpendable env w in (v', st\<lparr>f_cache := Some (now, v')\<rparr>))"

definition toPayoutError :: "nat option \<Rightarrow> string option \<Rightarrow> PayFailure" where
  "toPayoutError status codes =
     (if status = Some 400 then
        PayoutError (''horizon-rejected: '' @ (case codes of Some c \<Rightarrow> take 200 c | None \<Rightarrow> ''tx_rejected'')) False
      else PayoutError (''submit-ambiguous (status ''
             @ (case status of Some n \<Rightarrow> int_text (int n) | None \<Rightarrow> ''none'')
             @ ''): MAY have paid, verify payout on explorer before resolving'') True)"

definition pay ::
    "Env \<Rightarrow> World \<Rightarrow> FaucetNetwork \<Rightarrow> address \<Rightarrow> string \<Rightarrow> FaucetState \<Rightarrow> (PayFailure + string) \<times> FaucetState" where
  "pay env w network destination amountXlm st =
     (case treasuryKeypair env w of
        None \<Rightarrow> (Inl (PayoutError ''treasury-key-unavailable'' False), st)
      | Some source \<Rightarrow>
          (case w_sequence w of
             None \<Rightarrow> (Inl (PayoutError ''treasury-account-unavailable'' False), st)
           | Some seq \<Rightarrow>
               if \<not> w_tx_built w then (Inl OtherFailure, st)
               else
                 let tx = buildSignedPayout source seq destination amountXlm (faucetNetworkPassphrase (w_passphrases w) network);
                     st1 = st\<lparr>f_submitted := f_submitted st @ [tx]\<rparr> in
                 case w_submit w of
                   Submitted hash \<Rightarrow> (Inr hash, st1\<lparr>f_cache := None\<rparr>)
                 | SubmitFailed status codes \<Rightarrow> (Inl (toPayoutError status codes), st1)))"

section \<open>Facts\<close>

fun family_key :: "ActionFamily \<Rightarrow> string" where
  "family_key Swap = ''swap''"
| "family_key BlendSupply = ''blend-supply''"

definition isUniqueViolation :: "JsError \<Rightarrow> bool" where
  "isUniqueViolation err =
     (if e_meta_code err = Some ''23505'' then True
      else str_includes ''23505'' (error_text err)
        \<or> str_includes ''duplicate key value violates unique constraint'' (error_text err))"

record Counts =
  n_counted :: int
  n_lastHour :: int
  n_pending :: int
  n_paid :: int
  n_failed :: int
  n_paid24h :: int
  n_allTimePending :: int
  n_allTimePaid :: int
  n_allTimeFailed :: int

definition claimCounts :: "FaucetNetwork \<Rightarrow> ms \<Rightarrow> FaucetState \<Rightarrow> Counts" where
  "claimCounts network now st =
     (let rows = filter (\<lambda>c. fc_network c = network) (f_claims st);
          n = (\<lambda>P. int (length (filter P rows)));
          here = (\<lambda>c. fc_campaign c = FAUCET_CAMPAIGN) in
      \<lparr>n_counted = n here, n_lastHour = n (\<lambda>c. here c \<and> now - 3600000 < fc_created_at c),
       n_pending = n (\<lambda>c. here c \<and> fc_status c = Pending), n_paid = n (\<lambda>c. here c \<and> fc_status c = Paid),
       n_failed = n (\<lambda>c. here c \<and> fc_status c = Failed),
       n_paid24h = n (\<lambda>c. here c \<and> fc_status c = Paid \<and> (case fc_paid_at c of None \<Rightarrow> False | Some t \<Rightarrow> now - 86400000 < t)),
       n_allTimePending = n (\<lambda>c. fc_status c = Pending), n_allTimePaid = n (\<lambda>c. fc_status c = Paid),
       n_allTimeFailed = n (\<lambda>c. fc_status c = Failed)\<rparr>)"

definition campaignFacts :: "Env \<Rightarrow> FaucetNetwork \<Rightarrow> ms \<Rightarrow> FaucetState \<Rightarrow> CampaignFacts" where
  "campaignFacts env network now st =
     (let counts = claimCounts network now st in
      \<lparr>fa_enabled = isFaucetEnabled env, fa_maxClaims = faucetMaxClaims env, fa_countedClaims = n_counted counts,
       fa_claimsLastHour = n_lastHour counts, fa_hourlyCap = faucetHourlyClaimCap env,
       fa_startsAtMs = faucetStartsAt env, fa_endsAtMs = faucetEndsAt env, fa_nowMs = now\<rparr>)"

text \<open>\<open>select distinct on (kind) ... order by kind, meets_min_notional desc, verified_at desc\<close>\<close>

definition qualifying_witnesses :: "address \<Rightarrow> FaucetNetwork \<Rightarrow> ms option \<Rightarrow> FaucetState \<Rightarrow> FaucetWitness list" where
  "qualifying_witnesses wallet network startsAt st =
     (case startsAt of
        None \<Rightarrow> []
      | Some s \<Rightarrow>
          List.map_filter (\<lambda>k.
            (case sort_key (\<lambda>x. (\<not> fw_meets x, - fw_verified_at x))
                (filter (\<lambda>x. lower_eq (fw_wallet x) wallet \<and> fw_network x = network \<and> fw_kind x = k \<and> s \<le> fw_closed_at x)
                  (f_witnesses st)) of
               [] \<Rightarrow> None | x # _ \<Rightarrow> Some x))
            [''blend-deposit'', ''sdex-swap''])"

text \<open>\<open>select distinct on (action_family) ... order by action_family, created_at asc\<close>, one family's row.\<close>

definition prior_claim_row :: "address \<Rightarrow> user_id option \<Rightarrow> string \<Rightarrow> FaucetState \<Rightarrow> FaucetClaim option" where
  "prior_claim_row wallet anyUser family st =
     (case sort_key fc_created_at
        (filter (\<lambda>c. fc_campaign c = FAUCET_CAMPAIGN \<and> fc_family c = family
            \<and> (lower_eq (fc_wallet c) wallet \<or> anyUser = Some (fc_user c))) (f_claims st)) of
        [] \<Rightarrow> None | c # _ \<Rightarrow> Some c)"

record FamilyFacts =
  ff_witness :: "FaucetWitness option"
  ff_witnessState :: WitnessState
  ff_priorClaim :: "PriorClaim option"

definition walletFacts :: "address \<Rightarrow> FaucetNetwork \<Rightarrow> ms option \<Rightarrow> FaucetState \<Rightarrow> ActionFamily \<Rightarrow> FamilyFacts" where
  "walletFacts wallet network startsAt st family =
     (let witnesses = qualifying_witnesses wallet network startsAt st;
          witness = List.find (\<lambda>x. FAMILY_BY_WITNESS_KIND (fw_kind x) = Some family) witnesses;
          anyUser = (case witnesses of [] \<Rightarrow> None | x # _ \<Rightarrow> Some (fw_user x));
          prior = prior_claim_row wallet anyUser (family_key family) st in
      \<lparr>ff_witness = witness,
       ff_witnessState = (case witness of None \<Rightarrow> NoWitness | Some x \<Rightarrow> if fw_meets x then WitnessOk else BelowMin),
       ff_priorClaim = map_option (\<lambda>c. \<lparr>pc_status = fc_status c, pc_payoutTxHash = fc_payout_tx c\<rparr>) prior\<rparr>)"

definition wallet_decision ::
    "Env \<Rightarrow> CampaignFacts \<Rightarrow> FamilyFacts \<Rightarrow> jsnum option \<Rightarrow> IneligibleReason + unit" where
  "wallet_decision env facts ff treasury =
     walletEligibility \<lparr>wf_campaign = facts, wf_witnessState = ff_witnessState ff, wf_priorClaim = ff_priorClaim ff,
       wf_treasurySpendableXlm = treasury, wf_rewardXlm = faucetRewardXlm env\<rparr>"

section \<open>Eligibility\<close>

record FaucetCampaignPayload =
  fp_campaign :: int
  fp_state :: CampaignState
  fp_maxClaims :: jsnum
  fp_rewardXlm :: jsnum
  fp_families :: "ActionFamily list"
  fp_network :: FaucetNetwork
  fp_minNotionalXlm :: jsnum
  fp_endsAt :: "string option"

record FamilyStatus =
  fs_result :: "IneligibleReason + unit"
  fs_claim :: "PriorClaim option"

definition campaign_payload :: "Env \<Rightarrow> CampaignFacts \<Rightarrow> FaucetCampaignPayload" where
  "campaign_payload env facts =
     \<lparr>fp_campaign = FAUCET_CAMPAIGN, fp_state = campaignState facts, fp_maxClaims = fa_maxClaims facts,
      fp_rewardXlm = faucetRewardXlm env, fp_families = FAUCET_FAMILIES, fp_network = faucetNetwork env,
      fp_minNotionalXlm = faucetMinNotionalXlm env, fp_endsAt = map_option toISOString (fa_endsAtMs facts)\<rparr>"

definition is_eligible :: "IneligibleReason + unit \<Rightarrow> bool" where
  "is_eligible r \<longleftrightarrow> (case r of Inl _ \<Rightarrow> False | Inr _ \<Rightarrow> True)"

definition getEligibility ::
    "Env \<Rightarrow> World \<Rightarrow> ms \<Rightarrow> address option \<Rightarrow> FaucetState
     \<Rightarrow> (JsError + FaucetCampaignPayload \<times> (ActionFamily \<Rightarrow> FamilyStatus) option) \<times> FaucetState" where
  "getEligibility env w now wallet st =
     (case w_read_error w of
        Some err \<Rightarrow> (Inl err, st)
      | None \<Rightarrow>
          let network = faucetNetwork env;
              facts = campaignFacts env network now st;
              payload = campaign_payload env facts in
          case wallet of
            None \<Rightarrow> (Inr (payload, None), st)
          | Some a \<Rightarrow>
              let byFamily = walletFacts a network (fa_startsAtMs facts) st;
                  pre = (\<lambda>fam. wallet_decision env facts (byFamily fam) (Some PInf));
                  anyPre = list_ex (\<lambda>fam. is_eligible (pre fam)) FAUCET_FAMILIES;
                  (treasury, st') = (if anyPre then treasurySpendableXlm env w now st else (None, st)) in
              (Inr (payload, Some (\<lambda>fam.
                 \<lparr>fs_result = (if is_eligible (pre fam) then wallet_decision env facts (byFamily fam) treasury else pre fam),
                  fs_claim = ff_priorClaim (byFamily fam)\<rparr>)), st'))"

section \<open>Claim\<close>

datatype ClaimPayload =
    ClaimPaid string jsnum
  | ClaimPayoutFailed
  | ClaimRefused IneligibleReason
  | ClaimError

definition faucet_wallet_key :: "FaucetClaim \<Rightarrow> (string \<times> string \<times> int) option" where
  "faucet_wallet_key c = Some (toLowerCase (fc_wallet c), fc_family c, fc_campaign c)"

definition faucet_user_key :: "FaucetClaim \<Rightarrow> (user_id \<times> string \<times> int) option" where
  "faucet_user_key c = Some (fc_user c, fc_family c, fc_campaign c)"

definition faucet_witness_key :: "FaucetClaim \<Rightarrow> tx_hash option" where
  "faucet_witness_key c = Some (fc_witness c)"

definition faucet_id_key :: "FaucetClaim \<Rightarrow> string option" where
  "faucet_id_key c = Some (fc_id c)"

definition insert_faucet_claim :: "FaucetClaim \<Rightarrow> FaucetState \<Rightarrow> JsError + FaucetState" where
  "insert_faucet_claim c st =
     (if conflicts faucet_id_key (f_claims st) c then Inl (unique_violation ''id'')
      else if conflicts faucet_witness_key (f_claims st) c then Inl (unique_violation ''witness_tx_hash'')
      else if conflicts faucet_wallet_key (f_claims st) c
        then Inl (unique_violation ''lower(wallet_address), action_family, campaign'')
      else if conflicts faucet_user_key (f_claims st) c then Inl (unique_violation ''user_id, action_family, campaign'')
      else if \<not> list_ex (\<lambda>x. fw_tx_hash x = fc_witness c) (f_witnesses st) then Inl foreign_key_violation
      else Inr (st\<lparr>f_claims := f_claims st @ [c]\<rparr>))"

definition set_claim :: "string \<Rightarrow> (FaucetClaim \<Rightarrow> FaucetClaim) \<Rightarrow> FaucetState \<Rightarrow> FaucetState" where
  "set_claim i g st = st\<lparr>f_claims := map (\<lambda>c. if fc_id c = i then g c else c) (f_claims st)\<rparr>"

text \<open>Paying and recording: one attempt, then the row is marked paid, or failed on any exception
  (the update to paid included); \<open>None\<close> when even that update throws.\<close>

definition pay_and_record ::
    "Env \<Rightarrow> World \<Rightarrow> ms \<Rightarrow> string \<Rightarrow> address \<Rightarrow> FaucetState \<Rightarrow> ClaimPayload option \<times> FaucetState" where
  "pay_and_record env w now claimId wallet st =
     (let reward = faucetRewardXlm env;
          amount = (case reward of Num x \<Rightarrow> toFixed 7 x | _ \<Rightarrow> []);
          (res, st1) = pay env w (faucetNetwork env) wallet amount st in
      case (if w_paid_update_fails w then (case res of Inr _ \<Rightarrow> Inl OtherFailure | Inl x \<Rightarrow> Inl x) else res) of
        Inr hash \<Rightarrow>
          (Some (ClaimPaid hash reward),
           set_claim claimId (\<lambda>c. c\<lparr>fc_status := Paid, fc_payout_tx := Some hash, fc_paid_at := Some now\<rparr>) st1)
      | Inl failure \<Rightarrow>
          let reason = (case failure of PayoutError r _ \<Rightarrow> r | OtherFailure \<Rightarrow> ''payout-error'') in
          if w_failed_update_fails w then (None, st1)
          else (Some ClaimPayoutFailed,
                set_claim claimId (\<lambda>c. c\<lparr>fc_status := Failed, fc_failure := Some (take 500 reason)\<rparr>) st1))"

definition claimInner ::
    "Env \<Rightarrow> World \<Rightarrow> ms \<Rightarrow> string \<Rightarrow> address \<Rightarrow> ActionFamily \<Rightarrow> FaucetState
     \<Rightarrow> (JsError option + ClaimPayload) \<times> FaucetState" where
  "claimInner env w now newId wallet family st =
     (case w_read_error w of
        Some err \<Rightarrow> (Inl (Some err), st)
      | None \<Rightarrow>
          let network = faucetNetwork env;
              facts = campaignFacts env network now st;
              ff = walletFacts wallet network (fa_startsAtMs facts) st;
              (treasury, st1) = treasurySpendableXlm env w now st in
          case (wallet_decision env facts (ff family) treasury, ff_witness (ff family)) of
            (Inl r, _) \<Rightarrow> (Inr (ClaimRefused r), st1)
          | (Inr _, None) \<Rightarrow> (Inr (ClaimRefused NoQualifyingWitness), st1)
          | (Inr _, Some x) \<Rightarrow>
              if \<not> keyAvailable env w then (Inr (ClaimRefused TreasuryUnavailable), st1)
              else
                (case (case w_insert_error w of
                         Some err \<Rightarrow> Inl err
                       | None \<Rightarrow> insert_faucet_claim
                           \<lparr>fc_id = newId, fc_wallet = wallet, fc_user = fw_user x, fc_witness = fw_tx_hash x,
                            fc_network = network, fc_status = Pending, fc_reward = faucetRewardXlm env, fc_payout_tx = None,
                            fc_failure = None, fc_created_at = now, fc_paid_at = None, fc_campaign = FAUCET_CAMPAIGN,
                            fc_family = family_key family\<rparr> st1) of
                   Inl err \<Rightarrow>
                     (Inr (if isUniqueViolation err then ClaimRefused FamilyAlreadyClaimed else ClaimError), st1)
                 | Inr st2 \<Rightarrow>
                     (case pay_and_record env w now newId wallet st2 of
                        (None, st3) \<Rightarrow> (Inl None, st3)
                      | (Some payload, st3) \<Rightarrow> (Inr payload, st3))))"

section \<open>Ops snapshot\<close>

record FaucetSnapshot =
  sn_enabled :: bool
  sn_network :: FaucetNetwork
  sn_campaign :: int
  sn_rewardXlm :: jsnum
  sn_claims :: "int \<times> int \<times> int \<times> int \<times> jsnum"
  sn_allTime :: "int \<times> int \<times> int"
  sn_treasury :: "jsnum option"

definition getOpsSnapshot :: "Env \<Rightarrow> World \<Rightarrow> ms \<Rightarrow> FaucetState \<Rightarrow> (JsError + FaucetSnapshot) \<times> FaucetState" where
  "getOpsSnapshot env w now st =
     (case w_read_error w of
        Some err \<Rightarrow> (Inl err, st)
      | None \<Rightarrow>
          let counts = claimCounts (faucetNetwork env) now st;
              (treasury, st') = (if isFaucetEnabled env then treasurySpendableXlm env w now st else (None, st)) in
          (Inr \<lparr>sn_enabled = isFaucetEnabled env, sn_network = faucetNetwork env, sn_campaign = FAUCET_CAMPAIGN,
                sn_rewardXlm = faucetRewardXlm env,
                sn_claims = (n_pending counts, n_paid counts, n_failed counts, n_paid24h counts,
                             Math_max (Num 0) (js_sub (faucetMaxClaims env) (jsint (n_counted counts)))),
                sn_allTime = (n_allTimePending counts, n_allTimePaid counts, n_allTimeFailed counts),
                sn_treasury = treasury\<rparr>, st'))"

section \<open>The insert honours its unique indexes\<close>

interpretation faucet_ids: unique_index f_claims faucet_id_key "\<lambda>c d. c" insert_faucet_claim
  by unfold_locales (auto simp: insert_faucet_claim_def split: if_splits)

interpretation faucet_wallets: unique_index f_claims faucet_wallet_key "\<lambda>c d. c" insert_faucet_claim
  by unfold_locales (auto simp: insert_faucet_claim_def split: if_splits)

interpretation faucet_users: unique_index f_claims faucet_user_key "\<lambda>c d. c" insert_faucet_claim
  by unfold_locales (auto simp: insert_faucet_claim_def split: if_splits)

interpretation faucet_witnesses: unique_index f_claims faucet_witness_key "\<lambda>c d. c" insert_faucet_claim
  by unfold_locales (auto simp: insert_faucet_claim_def split: if_splits)

end
