(* ===== verification/Faucet_Invariants.thy ===== *)
theory Faucet_Invariants
  imports Faucet_Service "HOL-Library.Multiset"
begin

text \<open>
  What every sequence of faucet requests keeps: the claims' unique keys, the campaign's budget,
  and that every payment handed to the network stands for a claim row of its own.
\<close>

section \<open>Steps\<close>

inductive faucet_step :: "Env \<Rightarrow> FaucetState \<Rightarrow> FaucetState \<Rightarrow> bool" for env where
  claim: "faucet_step env st (snd (claimInner env w now newId wallet family st))"
| poll: "faucet_step env st (snd (getEligibility env w now a st))"
| snapshot: "faucet_step env st (snd (getOpsSnapshot env w now st))"
| witness: "faucet_step env st (st\<lparr>f_witnesses := f_witnesses st @ [x]\<rparr>)"

definition faucet_keys :: "FaucetState \<Rightarrow> bool" where
  "faucet_keys st \<longleftrightarrow> unique_on faucet_id_key (f_claims st) \<and> unique_on faucet_witness_key (f_claims st)
     \<and> unique_on faucet_wallet_key (f_claims st) \<and> unique_on faucet_user_key (f_claims st)"

text \<open>The campaign starts with no claim of its own and nothing paid by this process.\<close>

definition faucet_start :: "FaucetState \<Rightarrow> bool" where
  "faucet_start st \<longleftrightarrow> faucet_keys st \<and> f_submitted st = [] \<and> (\<forall>c \<in> set (f_claims st). fc_campaign c \<noteq> FAUCET_CAMPAIGN)"

inductive faucet_reachable :: "Env \<Rightarrow> FaucetState \<Rightarrow> bool" for env where
  start: "faucet_start st \<Longrightarrow> faucet_reachable env st"
| step: "faucet_reachable env st \<Longrightarrow> faucet_step env st st' \<Longrightarrow> faucet_reachable env st'"

section \<open>Effects\<close>

lemma treasury_frame: "treasurySpendableXlm env w now st = (t, st') \<Longrightarrow> st' = st\<lparr>f_cache := f_cache st'\<rparr>"
  by (auto simp: treasurySpendableXlm_def Let_def split: option.splits if_splits prod.splits)

text \<open>A payment submits at most one transaction, the intended one.\<close>

definition payout_tx :: "World \<Rightarrow> FaucetNetwork \<Rightarrow> address \<Rightarrow> string \<Rightarrow> PayoutTx \<Rightarrow> bool" where
  "payout_tx w network a amount tx \<longleftrightarrow> pt_destination tx = a \<and> pt_amount tx = amount
     \<and> pt_passphrase tx = w_passphrases w network \<and> pt_memo tx = PAYOUT_MEMO"

lemma pay_effect:
  assumes "pay env w network a amount st = (res, st')"
  shows "(st' = st \<and> (\<exists>f. res = Inl f)) \<or>
     (\<exists>tx. payout_tx w network a amount tx \<and> st' = st\<lparr>f_submitted := f_submitted st @ [tx], f_cache := f_cache st'\<rparr>
        \<and> (\<forall>h. res = Inr h \<longrightarrow> w_submit w = Submitted h))"
proof (cases "treasuryKeypair env w \<noteq> None \<and> w_sequence w \<noteq> None \<and> w_tx_built w")
  case True
  then obtain source seq where k: "treasuryKeypair env w = Some source" "w_sequence w = Some seq" "w_tx_built w" by auto
  let ?tx = "buildSignedPayout source seq a amount (faucetNetworkPassphrase (w_passphrases w) network)"
  have "payout_tx w network a amount ?tx"
    by (simp add: payout_tx_def buildSignedPayout_def faucetNetworkPassphrase_def)
  moreover have "st' = st\<lparr>f_submitted := f_submitted st @ [?tx], f_cache := f_cache st'\<rparr> \<and> (\<forall>h. res = Inr h \<longrightarrow> w_submit w = Submitted h)"
    using assms k by (cases "w_submit w") (auto simp: pay_def Let_def)
  ultimately show ?thesis by blast
next
  case False
  then show ?thesis using assms by (auto simp: pay_def split: option.splits)
qed

definition same_claim :: "FaucetClaim \<Rightarrow> FaucetClaim \<Rightarrow> bool" where
  "same_claim c c' \<longleftrightarrow> fc_id c' = fc_id c \<and> fc_wallet c' = fc_wallet c \<and> fc_user c' = fc_user c \<and> fc_witness c' = fc_witness c
     \<and> fc_network c' = fc_network c \<and> fc_campaign c' = fc_campaign c \<and> fc_family c' = fc_family c \<and> fc_reward c' = fc_reward c"

lemma set_claim_new:
  assumes "\<forall>c \<in> set cs. fc_id c \<noteq> i" "fc_id c = i"
  shows "f_claims (set_claim i g (st\<lparr>f_claims := cs @ [c]\<rparr>)) = cs @ [g c]"
  using assms by (auto simp: set_claim_def intro!: map_idI)

lemma set_claim_frame: "set_claim i g st = st\<lparr>f_claims := f_claims (set_claim i g st)\<rparr>"
  by (simp add: set_claim_def)

definition amount_text :: "Env \<Rightarrow> string" where
  "amount_text env = (case faucetRewardXlm env of Num x \<Rightarrow> toFixed 7 x | _ \<Rightarrow> [])"

text \<open>The claim row after payment: the inserted row with its outcome; what was submitted for it.\<close>

lemma pay_and_record_effect:
  assumes run: "pay_and_record env w now i a (st\<lparr>f_claims := cs @ [c]\<rparr>) = (r, st')"
    and i: "\<forall>x \<in> set cs. fc_id x \<noteq> i" "fc_id c = i"
  shows "\<exists>c' sub. same_claim c c' \<and> st' = st\<lparr>f_claims := cs @ [c'], f_submitted := f_submitted st @ sub, f_cache := f_cache st'\<rparr>
    \<and> (sub = [] \<or> (\<exists>tx. sub = [tx] \<and> payout_tx w (faucetNetwork env) a (amount_text env) tx))
    \<and> (\<forall>h rew. r = Some (ClaimPaid h rew) \<longrightarrow> fc_status c' = Paid \<and> fc_payout_tx c' = Some h \<and> sub \<noteq> [] \<and> w_submit w = Submitted h)"
proof -
  let ?st = "st\<lparr>f_claims := cs @ [c]\<rparr>"
  obtain res st1 where p: "pay env w (faucetNetwork env) a (amount_text env) ?st = (res, st1)"
    by (cases "pay env w (faucetNetwork env) a (amount_text env) ?st") auto
  have "\<exists>sub. st1 = st\<lparr>f_claims := cs @ [c], f_submitted := f_submitted st @ sub, f_cache := f_cache st1\<rparr>
      \<and> (sub = [] \<or> (\<exists>tx. sub = [tx] \<and> payout_tx w (faucetNetwork env) a (amount_text env) tx))
      \<and> (\<forall>h. res = Inr h \<longrightarrow> sub \<noteq> [] \<and> w_submit w = Submitted h)"
    using pay_effect [OF p]
  proof (elim disjE exE conjE)
    fix f assume "st1 = ?st" "res = Inl f"
    then show ?thesis by (intro exI [of _ "[]"]) simp
  next
    fix tx assume "payout_tx w (faucetNetwork env) a (amount_text env) tx"
      "st1 = ?st\<lparr>f_submitted := f_submitted ?st @ [tx], f_cache := f_cache st1\<rparr>" "\<forall>h. res = Inr h \<longrightarrow> w_submit w = Submitted h"
    then show ?thesis by (intro exI [of _ "[tx]"]) simp
  qed
  then obtain sub where sub: "st1 = st\<lparr>f_claims := cs @ [c], f_submitted := f_submitted st @ sub, f_cache := f_cache st1\<rparr>"
      "sub = [] \<or> (\<exists>tx. sub = [tx] \<and> payout_tx w (faucetNetwork env) a (amount_text env) tx)"
      "\<forall>h. res = Inr h \<longrightarrow> sub \<noteq> [] \<and> w_submit w = Submitted h" by blast
  have upd: "set_claim i g st1 = st\<lparr>f_claims := cs @ [g c], f_submitted := f_submitted st @ sub, f_cache := f_cache st1\<rparr>" for g
  proof -
    have "map (\<lambda>x. if fc_id x = i then g x else x) cs = cs" using i(1) by (intro map_idI) auto
    then show ?thesis using i(2) by (subst sub(1)) (simp add: set_claim_def)
  qed
  have run': "(case (if w_paid_update_fails w then (case res of Inr _ \<Rightarrow> Inl OtherFailure | Inl x \<Rightarrow> Inl x) else res) of
        Inr hash \<Rightarrow>
          (Some (ClaimPaid hash (faucetRewardXlm env)),
           set_claim i (\<lambda>c. c\<lparr>fc_status := Paid, fc_payout_tx := Some hash, fc_paid_at := Some now\<rparr>) st1)
      | Inl failure \<Rightarrow>
          if w_failed_update_fails w then (None, st1)
          else (Some ClaimPayoutFailed,
                set_claim i (\<lambda>c. c\<lparr>fc_status := Failed, fc_failure := Some (take 500 (case failure of PayoutError r _ \<Rightarrow> r | OtherFailure \<Rightarrow> ''payout-error''))\<rparr>) st1))
      = (r, st')"
    using run by (simp only: pay_and_record_def Let_def p [unfolded amount_text_def] prod.case)
  obtain c' where "same_claim c c'" "st' = st\<lparr>f_claims := cs @ [c'], f_submitted := f_submitted st @ sub, f_cache := f_cache st1\<rparr>"
      "\<forall>h rew. r = Some (ClaimPaid h rew) \<longrightarrow> fc_status c' = Paid \<and> fc_payout_tx c' = Some h \<and> res = Inr h"
  proof (cases "if w_paid_update_fails w then (case res of Inr _ \<Rightarrow> Inl OtherFailure | Inl x \<Rightarrow> Inl x) else res")
    case (Inr hash)
    then have "res = Inr hash" by (auto split: if_splits sum.splits)
    moreover have "(r, st') = (Some (ClaimPaid hash (faucetRewardXlm env)),
        set_claim i (\<lambda>c. c\<lparr>fc_status := Paid, fc_payout_tx := Some hash, fc_paid_at := Some now\<rparr>) st1)"
      using run' Inr by simp
    ultimately show ?thesis using that [of "c\<lparr>fc_status := Paid, fc_payout_tx := Some hash, fc_paid_at := Some now\<rparr>"]
      by (simp add: upd same_claim_def)
  next
    case (Inl failure)
    show ?thesis
    proof (cases "w_failed_update_fails w")
      case True
      then show ?thesis using run' Inl that [of c] sub(1) by (simp add: same_claim_def)
    next
      case False
      let ?c = "c\<lparr>fc_status := Failed, fc_failure := Some (take 500 (case failure of PayoutError r _ \<Rightarrow> r | OtherFailure \<Rightarrow> ''payout-error''))\<rparr>"
      have "(r, st') = (Some ClaimPayoutFailed, set_claim i (\<lambda>c. c\<lparr>fc_status := Failed, fc_failure := Some (take 500 (case failure of PayoutError r _ \<Rightarrow> r | OtherFailure \<Rightarrow> ''payout-error''))\<rparr>) st1)"
        using run' Inl False by simp
      then show ?thesis using that [of ?c] by (simp add: upd same_claim_def)
    qed
  qed
  then show ?thesis using sub(2,3) by (intro exI [of _ c'] exI [of _ sub]) auto
qed

text \<open>A claim request: refused with nothing but the cache touched, or one row and at most one payment.\<close>

definition claim_written :: "Env \<Rightarrow> World \<Rightarrow> ms \<Rightarrow> string \<Rightarrow> address \<Rightarrow> ActionFamily \<Rightarrow> FaucetState \<Rightarrow> FaucetClaim \<Rightarrow> bool" where
  "claim_written env w now i a fam st c \<longleftrightarrow>
     (\<exists>treasury x st1. wallet_decision env (campaignFacts env (faucetNetwork env) now st)
          (walletFacts a (faucetNetwork env) (faucetStartsAt env) st fam) treasury = Inr ()
      \<and> ff_witness (walletFacts a (faucetNetwork env) (faucetStartsAt env) st fam) = Some x
      \<and> fc_id c = i \<and> fc_wallet c = a \<and> fc_user c = fw_user x \<and> fc_witness c = fw_tx_hash x \<and> fc_network c = faucetNetwork env
      \<and> fc_campaign c = FAUCET_CAMPAIGN \<and> fc_family c = family_key fam \<and> fc_reward c = faucetRewardXlm env
      \<and> insert_faucet_claim c st = Inr st1)"

lemma insert_faucet_claim_Inr:
  "insert_faucet_claim c st = Inr st' \<longleftrightarrow>
     \<not> conflicts faucet_id_key (f_claims st) c \<and> \<not> conflicts faucet_witness_key (f_claims st) c
     \<and> \<not> conflicts faucet_wallet_key (f_claims st) c \<and> \<not> conflicts faucet_user_key (f_claims st) c
     \<and> list_ex (\<lambda>x. fw_tx_hash x = fc_witness c) (f_witnesses st) \<and> st' = st\<lparr>f_claims := f_claims st @ [c]\<rparr>"
  by (auto simp: insert_faucet_claim_def split: if_splits)

lemma insert_faucet_claim_same:
  assumes "same_claim c c'" "insert_faucet_claim c st = Inr st1"
  shows "\<exists>st2. insert_faucet_claim c' st = Inr st2"
proof -
  have "faucet_id_key c' = faucet_id_key c" "faucet_witness_key c' = faucet_witness_key c"
      "faucet_wallet_key c' = faucet_wallet_key c" "faucet_user_key c' = faucet_user_key c" "fc_witness c' = fc_witness c"
    using assms(1) by (simp_all add: same_claim_def faucet_id_key_def faucet_witness_key_def faucet_wallet_key_def faucet_user_key_def)
  then show ?thesis using assms(2) by (simp add: insert_faucet_claim_Inr conflicts_def)
qed

lemma claimInner_effect:
  assumes run: "claimInner env w now i a fam st = (r, st')"
  shows "(st' = st\<lparr>f_cache := f_cache st'\<rparr> \<and> (\<forall>p. r = Inr p \<longrightarrow> (\<nexists>h rew. p = ClaimPaid h rew) \<and> p \<noteq> ClaimPayoutFailed)) \<or>
    (\<exists>c sub. claim_written env w now i a fam st c
      \<and> st' = st\<lparr>f_claims := f_claims st @ [c], f_submitted := f_submitted st @ sub, f_cache := f_cache st'\<rparr>
      \<and> (sub = [] \<or> (\<exists>tx. sub = [tx] \<and> payout_tx w (faucetNetwork env) a (amount_text env) tx))
      \<and> (\<forall>h rew. r = Inr (ClaimPaid h rew) \<longrightarrow> fc_status c = Paid \<and> fc_payout_tx c = Some h \<and> sub \<noteq> [] \<and> w_submit w = Submitted h))"
proof (cases "w_read_error w")
  case (Some err)
  then show ?thesis using run by (auto simp: claimInner_def)
next
  case None
  let ?facts = "campaignFacts env (faucetNetwork env) now st"
  let ?ff = "walletFacts a (faucetNetwork env) (faucetStartsAt env) st fam"
  have starts: "fa_startsAtMs ?facts = faucetStartsAt env" by (simp add: campaignFacts_def Let_def)
  obtain treasury st1 where t: "treasurySpendableXlm env w now st = (treasury, st1)"
    by (cases "treasurySpendableXlm env w now st") auto
  obtain k where k: "st1 = st\<lparr>f_cache := k\<rparr>" using treasury_frame [OF t] by blast
  have start: "claimInner env w now i a fam st =
      (case (wallet_decision env ?facts ?ff treasury, ff_witness ?ff) of
            (Inl r, _) \<Rightarrow> (Inr (ClaimRefused r), st1)
          | (Inr _, None) \<Rightarrow> (Inr (ClaimRefused NoQualifyingWitness), st1)
          | (Inr _, Some x) \<Rightarrow>
              if \<not> keyAvailable env w then (Inr (ClaimRefused TreasuryUnavailable), st1)
              else
                (case (case w_insert_error w of
                         Some err \<Rightarrow> Inl err
                       | None \<Rightarrow> insert_faucet_claim
                           \<lparr>fc_id = i, fc_wallet = a, fc_user = fw_user x, fc_witness = fw_tx_hash x,
                            fc_network = faucetNetwork env, fc_status = Pending, fc_reward = faucetRewardXlm env, fc_payout_tx = None,
                            fc_failure = None, fc_created_at = now, fc_paid_at = None, fc_campaign = FAUCET_CAMPAIGN,
                            fc_family = family_key fam\<rparr> st1) of
                   Inl err \<Rightarrow>
                     (Inr (if isUniqueViolation err then ClaimRefused FamilyAlreadyClaimed else ClaimError), st1)
                 | Inr st2 \<Rightarrow>
                     (case pay_and_record env w now i a st2 of
                        (None, st3) \<Rightarrow> (Inl None, st3)
                      | (Some payload, st3) \<Rightarrow> (Inr payload, st3))))"
    by (simp only: claimInner_def None option.case Let_def t prod.case starts)
  show ?thesis
  proof (cases "\<exists>x. wallet_decision env ?facts ?ff treasury = Inr () \<and> ff_witness ?ff = Some x \<and> keyAvailable env w")
    case False
    then have "st' = st1 \<and> (\<exists>q. r = Inr (ClaimRefused q))"
      using run unfolding start by (auto split: sum.splits option.splits if_splits)
    then show ?thesis using k by auto
  next
    case True
    then obtain x where x: "wallet_decision env ?facts ?ff treasury = Inr ()" "ff_witness ?ff = Some x" "keyAvailable env w" by blast
    let ?c = "\<lparr>fc_id = i, fc_wallet = a, fc_user = fw_user x, fc_witness = fw_tx_hash x,
        fc_network = faucetNetwork env, fc_status = Pending, fc_reward = faucetRewardXlm env, fc_payout_tx = None,
        fc_failure = None, fc_created_at = now, fc_paid_at = None, fc_campaign = FAUCET_CAMPAIGN, fc_family = family_key fam\<rparr>"
    show ?thesis
    proof (cases "case w_insert_error w of Some err \<Rightarrow> Inl err | None \<Rightarrow> insert_faucet_claim ?c st1")
      case (Inl err)
      then have "st' = st1 \<and> (\<exists>q. r = Inr (ClaimRefused q)) \<or> st' = st1 \<and> r = Inr ClaimError"
        using run x unfolding start by (auto split: if_splits)
      then show ?thesis using k by auto
    next
      case (Inr st2)
      then have ins: "insert_faucet_claim ?c st1 = Inr st2" by (simp split: option.splits)
      then have st2: "st2 = st1\<lparr>f_claims := f_claims st1 @ [?c]\<rparr>" and fresh: "\<forall>y \<in> set (f_claims st1). fc_id y \<noteq> i"
        by (auto simp: insert_faucet_claim_Inr conflicts_iff faucet_id_key_def)
      obtain p where p: "pay_and_record env w now i a st2 = (p, st')" "r = (case p of None \<Rightarrow> Inl None | Some q \<Rightarrow> Inr q)"
        using run x Inr unfolding start
        by (cases "pay_and_record env w now i a st2") (auto split: option.splits)
      obtain c sub where c: "same_claim ?c c" "st' = st1\<lparr>f_claims := f_claims st1 @ [c], f_submitted := f_submitted st1 @ sub, f_cache := f_cache st'\<rparr>"
          "sub = [] \<or> (\<exists>tx. sub = [tx] \<and> payout_tx w (faucetNetwork env) a (amount_text env) tx)"
          "\<forall>h rew. p = Some (ClaimPaid h rew) \<longrightarrow> fc_status c = Paid \<and> fc_payout_tx c = Some h \<and> sub \<noteq> [] \<and> w_submit w = Submitted h"
        using pay_and_record_effect [OF p(1) [unfolded st2] fresh] by auto
      have "\<exists>st3. insert_faucet_claim c st = Inr st3"
        using insert_faucet_claim_same [OF c(1) ins] by (auto simp: insert_faucet_claim_Inr k)
      then have "claim_written env w now i a fam st c"
        using x c(1) by (auto simp: claim_written_def same_claim_def)
      moreover have "st' = st\<lparr>f_claims := f_claims st @ [c], f_submitted := f_submitted st @ sub, f_cache := f_cache st'\<rparr>"
        using c(2) by (simp add: k)
      ultimately show ?thesis using c(3,4) p(2) by (intro disjI2 exI [of _ c] exI [of _ sub]) (auto split: option.splits)
    qed
  qed
qed

section \<open>The invariant\<close>

definition campaign_claims :: "FaucetState \<Rightarrow> FaucetClaim list" where
  "campaign_claims st = filter (\<lambda>c. fc_campaign c = FAUCET_CAMPAIGN) (f_claims st)"

definition faucet_inv :: "Env \<Rightarrow> FaucetState \<Rightarrow> bool" where
  "faucet_inv env st \<longleftrightarrow> faucet_keys st
     \<and> (\<forall>c \<in> set (campaign_claims st). fc_family c \<in> {''swap'', ''blend-supply''} \<and> fc_network c = faucetNetwork env)
     \<and> mset (map pt_destination (f_submitted st)) \<subseteq># mset (map fc_wallet (campaign_claims st))
     \<and> (\<forall>tx \<in> set (f_submitted st). pt_amount tx = amount_text env \<and> pt_memo tx = PAYOUT_MEMO)
     \<and> (\<forall>m. faucetMaxClaims env = Num m \<longrightarrow> campaign_claims st \<noteq> [] \<longrightarrow> of_int (int (length (campaign_claims st))) < m + 1)"

lemma campaign_claims_updates [simp]:
  "campaign_claims (st\<lparr>f_cache := x1\<rparr>) = campaign_claims st" "campaign_claims (st\<lparr>f_submitted := x2\<rparr>) = campaign_claims st"
  "campaign_claims (st\<lparr>f_witnesses := x3\<rparr>) = campaign_claims st"
  by (simp_all add: campaign_claims_def)

lemma faucet_keys_updates [simp]:
  "faucet_keys (st\<lparr>f_cache := x1\<rparr>) = faucet_keys st" "faucet_keys (st\<lparr>f_submitted := x2\<rparr>) = faucet_keys st"
  "faucet_keys (st\<lparr>f_witnesses := x3\<rparr>) = faucet_keys st"
  by (simp_all add: faucet_keys_def)

lemma faucet_inv_updates [simp]:
  "faucet_inv env (st\<lparr>f_cache := x1\<rparr>) = faucet_inv env st" "faucet_inv env (st\<lparr>f_witnesses := x3\<rparr>) = faucet_inv env st"
  by (simp_all add: faucet_inv_def)

lemma counted_claims:
  assumes "\<forall>c \<in> set (campaign_claims st). fc_network c = network"
  shows "n_counted (claimCounts network now st) = int (length (campaign_claims st))"
proof -
  have "filter (\<lambda>c. fc_campaign c = FAUCET_CAMPAIGN) (filter (\<lambda>c. fc_network c = network) (f_claims st)) = campaign_claims st"
    using assms by (auto simp: campaign_claims_def filter_filter intro!: filter_cong)
  then show ?thesis by (simp add: claimCounts_def Let_def)
qed

lemma faucet_inv_claim:
  assumes inv: "faucet_inv env st"
  shows "faucet_inv env (snd (claimInner env w now i a fam st))"
proof -
  obtain r st' where run: "claimInner env w now i a fam st = (r, st')" by (cases "claimInner env w now i a fam st") auto
  from claimInner_effect [OF run] consider
      (refused) k where "st' = st\<lparr>f_cache := k\<rparr>"
    | (written) c sub k where "claim_written env w now i a fam st c"
        "st' = st\<lparr>f_claims := f_claims st @ [c], f_submitted := f_submitted st @ sub, f_cache := k\<rparr>"
        "sub = [] \<or> (\<exists>tx. sub = [tx] \<and> payout_tx w (faucetNetwork env) a (amount_text env) tx)"
    by blast
  then show ?thesis
  proof cases
    case refused
    then show ?thesis using inv run by simp
  next
    case written
    note wr = written(1) and st' = written(2) and sub = written(3)
    obtain treasury x st1 where ok: "wallet_decision env (campaignFacts env (faucetNetwork env) now st)
          (walletFacts a (faucetNetwork env) (faucetStartsAt env) st fam) treasury = Inr ()"
        and ins: "insert_faucet_claim c st = Inr st1"
        and c: "fc_wallet c = a" "fc_network c = faucetNetwork env" "fc_campaign c = FAUCET_CAMPAIGN" "fc_family c = family_key fam"
      using wr by (auto simp: claim_written_def)
    have cc: "campaign_claims st' = campaign_claims st @ [c]" using c(3) by (simp add: st' campaign_claims_def)
    have keys: "faucet_keys st'" using inv ins
      by (auto simp: faucet_inv_def faucet_keys_def st' unique_on_snoc insert_faucet_claim_Inr)
    have fam: "fc_family c \<in> {''swap'', ''blend-supply''}" using c(4) by (cases fam) simp_all
    have dest: "mset (map pt_destination (f_submitted st')) \<subseteq># mset (map fc_wallet (campaign_claims st'))"
    proof -
      have base: "mset (map pt_destination (f_submitted st)) \<subseteq># mset (map fc_wallet (campaign_claims st))"
        using inv by (simp add: faucet_inv_def)
      have fs: "f_submitted st' = f_submitted st @ sub" by (simp add: st')
      have "mset (map pt_destination sub) \<subseteq># {#fc_wallet c#}" using sub c(1) by (auto simp: payout_tx_def)
      then have "mset (map pt_destination (f_submitted st)) + mset (map pt_destination sub)
          \<subseteq># mset (map fc_wallet (campaign_claims st)) + {#fc_wallet c#}"
        using base by (rule subset_mset.add_mono [rotated])
      then show ?thesis by (simp add: fs cc)
    qed
    have amounts: "\<forall>tx \<in> set (f_submitted st'). pt_amount tx = amount_text env \<and> pt_memo tx = PAYOUT_MEMO"
      using inv sub by (auto simp: faucet_inv_def st' payout_tx_def)
    have budget: "of_int (int (length (campaign_claims st'))) < m + 1" if m: "faucetMaxClaims env = Num m" for m
    proof -
      have "of_int (n_counted (claimCounts (faucetNetwork env) now st)) < m"
        using walletEligibility_Inr [OF ok [unfolded wallet_decision_def]] m
        by (simp add: campaignFacts_def Let_def)
      moreover have "n_counted (claimCounts (faucetNetwork env) now st) = int (length (campaign_claims st))"
        using inv by (intro counted_claims) (simp add: faucet_inv_def)
      ultimately show ?thesis by (simp add: cc)
    qed
    have "faucet_inv env st'" using inv keys fam dest amounts budget c(2) by (auto simp: faucet_inv_def cc)
    then show ?thesis using run by simp
  qed
qed

lemma faucet_inv_step: "faucet_step env st st' \<Longrightarrow> faucet_inv env st \<Longrightarrow> faucet_inv env st'"
proof (induction rule: faucet_step.induct)
  case (claim st w now i a fam)
  then show ?case by (rule faucet_inv_claim)
next
  case (poll st w now a)
  obtain t st1 where t: "treasurySpendableXlm env w now st = (t, st1)" by (cases "treasurySpendableXlm env w now st") auto
  obtain k where "st1 = st\<lparr>f_cache := k\<rparr>" using treasury_frame [OF t] by blast
  then have "snd (getEligibility env w now a st) = st \<or> snd (getEligibility env w now a st) = st\<lparr>f_cache := k\<rparr>"
    using t by (cases "w_read_error w"; cases a) (auto simp: getEligibility_def Let_def split: prod.splits if_splits)
  then show ?case using poll by auto
next
  case (snapshot st w now)
  obtain t st1 where t: "treasurySpendableXlm env w now st = (t, st1)" by (cases "treasurySpendableXlm env w now st") auto
  obtain k where "st1 = st\<lparr>f_cache := k\<rparr>" using treasury_frame [OF t] by blast
  then have "snd (getOpsSnapshot env w now st) = st \<or> snd (getOpsSnapshot env w now st) = st\<lparr>f_cache := k\<rparr>"
    using t by (auto simp: getOpsSnapshot_def Let_def split: option.splits if_splits)
  then show ?case using snapshot by auto
qed simp

lemma faucet_inv_reachable: "faucet_reachable env st \<Longrightarrow> faucet_inv env st"
proof (induction rule: faucet_reachable.induct)
  case (start st)
  then have "campaign_claims st = []" by (simp add: faucet_start_def campaign_claims_def filter_empty_conv)
  then show ?case using start by (simp add: faucet_inv_def faucet_start_def)
next
  case (step st st')
  then show ?case using faucet_inv_step by blast
qed

section \<open>The budget is a whole number\<close>

lemma pow2_nat_Ints: "0 \<le> e \<Longrightarrow> pow2 e = of_int (2 ^ nat e)"
  by (simp add: pow2_def)

lemma rnd_of_int_Ints: "rnd (of_int n) \<in> \<int>"
proof (cases "\<bar>n\<bar> \<le> 2 ^ 53")
  case True
  have "rnd (of_int n * pow2 0) = of_int n * pow2 0" using True by (intro rnd_dyadic) simp_all
  then show ?thesis by simp
next
  case False
  let ?x = "of_int n :: rat"
  have pos: "0 < \<bar>?x\<bar>" using False by auto
  have "of_int (2 ^ 53) \<le> (of_int \<bar>n\<bar> :: rat)" using False by (subst of_int_le_iff) simp
  then have "pow2 53 \<le> \<bar>?x\<bar>" by (simp add: pow2_def)
  then have "53 \<le> rexp \<bar>?x\<bar>" using rexp_ge_iff [OF pos] by blast
  then have "0 \<le> ulp_exp ?x" by (simp add: ulp_exp_def)
  then have "rnd ?x = of_int (rne (?x / pow2 (ulp_exp ?x)) * 2 ^ nat (ulp_exp ?x))"
    using pos by (simp add: rnd_def pow2_nat_Ints)
  then show ?thesis by (metis Ints_of_int)
qed

lemma faucetMaxClaims_Ints: "faucetMaxClaims env = Num m \<Longrightarrow> m \<in> \<int>"
proof -
  have "parseInt10 s = Num m \<Longrightarrow> m \<in> \<int>" for s m
  proof -
    have "rnd (of_int a * of_int b) \<in> \<int>" for a b using rnd_of_int_Ints [of "a * b"] by simp
    then show "parseInt10 s = Num m \<Longrightarrow> m \<in> \<int>"
      by (auto simp: parseInt10_def fl_def Let_def split: if_splits prod.splits)
  qed
  then show "faucetMaxClaims env = Num m \<Longrightarrow> m \<in> \<int>"
    by (auto simp: faucetMaxClaims_def positive_or_def split: if_splits)
qed

lemma claims_within_budget:
  assumes "faucet_inv env st" "faucetMaxClaims env = Num m" "0 < m"
  shows "of_int (int (length (campaign_claims st))) \<le> m"
proof (cases "campaign_claims st = []")
  case False
  obtain k where k: "m = of_int k" using faucetMaxClaims_Ints [OF assms(2)] by (auto elim: Ints_cases)
  have "of_int (int (length (campaign_claims st))) < (of_int (k + 1) :: rat)" using assms False by (simp add: faucet_inv_def k)
  then have "int (length (campaign_claims st)) < k + 1" by (subst (asm) of_int_less_iff)
  then show ?thesis unfolding k by (subst of_int_le_iff) simp
qed (use assms in simp)

section \<open>At most one claim per wallet and family\<close>

lemma wallet_claims_at_most_two:
  assumes inv: "faucet_inv env st"
  shows "length (filter (\<lambda>c. lower_eq (fc_wallet c) a) (campaign_claims st)) \<le> 2"
proof -
  let ?cs = "filter (\<lambda>c. lower_eq (fc_wallet c) a) (campaign_claims st)"
  have u: "unique_on faucet_wallet_key (f_claims st)" using inv by (simp add: faucet_inv_def faucet_keys_def)
  have "distinct (map faucet_wallet_key xs)" if "unique_on faucet_wallet_key xs" for xs
    using that by (induction xs) (auto simp: conflicts_iff faucet_wallet_key_def)
  then have "distinct (map faucet_wallet_key (f_claims st))" using u .
  then have d: "distinct (map faucet_wallet_key ?cs)" by (simp add: campaign_claims_def distinct_map_filter)
  let ?k = "\<lambda>fam. Some (toLowerCase a, fam, FAUCET_CAMPAIGN)"
  have "set (map faucet_wallet_key ?cs) \<subseteq> {?k ''swap'', ?k ''blend-supply''}"
  proof (rule subsetI)
    fix k assume "k \<in> set (map faucet_wallet_key ?cs)"
    then obtain c where c: "c \<in> set (campaign_claims st)" "lower_eq (fc_wallet c) a" "k = faucet_wallet_key c" by auto
    have "fc_family c \<in> {''swap'', ''blend-supply''}" using inv c(1) by (simp add: faucet_inv_def)
    then show "k \<in> {?k ''swap'', ?k ''blend-supply''}" using c
      by (auto simp: faucet_wallet_key_def lower_eq_def campaign_claims_def)
  qed
  then have "card (set (map faucet_wallet_key ?cs)) \<le> card {?k ''swap'', ?k ''blend-supply''}" by (intro card_mono) simp_all
  also have "\<dots> \<le> 2" using card_insert_le_m1 [of 2 "{?k ''blend-supply''}" "?k ''swap''"] by simp
  finally have "card (set (map faucet_wallet_key ?cs)) \<le> 2" .
  then show ?thesis using distinct_card [OF d] by simp
qed

lemma submitted_le_claims:
  assumes "faucet_inv env st"
  shows "length (f_submitted st) \<le> length (campaign_claims st)"
    and "length (filter (\<lambda>tx. lower_eq (pt_destination tx) a) (f_submitted st))
      \<le> length (filter (\<lambda>c. lower_eq (fc_wallet c) a) (campaign_claims st))"
proof -
  have sub: "mset (map pt_destination (f_submitted st)) \<subseteq># mset (map fc_wallet (campaign_claims st))"
    using assms by (simp add: faucet_inv_def)
  from size_mset_mono [OF this] show "length (f_submitted st) \<le> length (campaign_claims st)" by simp
  have "size (filter_mset (\<lambda>x. lower_eq x a) (mset (map pt_destination (f_submitted st))))
      \<le> size (filter_mset (\<lambda>x. lower_eq x a) (mset (map fc_wallet (campaign_claims st))))"
    by (intro size_mset_mono multiset_filter_mono sub)
  then show "length (filter (\<lambda>tx. lower_eq (pt_destination tx) a) (f_submitted st))
      \<le> length (filter (\<lambda>c. lower_eq (fc_wallet c) a) (campaign_claims st))"
    by (simp only: mset_filter [symmetric] size_mset filter_map length_map o_def)
qed

text \<open>A written claim rests on a witness of its wallet and family, large enough, inside an open campaign
  with budget left.\<close>

lemma claim_written_witness:
  assumes wr: "claim_written env w now i a fam st c"
  obtains x start where "x \<in> set (f_witnesses st)" "fw_tx_hash x = fc_witness c" "fw_meets x"
    "lower_eq (fw_wallet x) a" "fw_network x = faucetNetwork env" "FAMILY_BY_WITNESS_KIND (fw_kind x) = Some fam"
    "faucetStartsAt env = Some start" "start \<le> fw_closed_at x" "start \<le> now"
    "\<And>m. faucetMaxClaims env = Num m \<Longrightarrow> of_int (n_counted (claimCounts (faucetNetwork env) now st)) < m"
proof -
  let ?facts = "campaignFacts env (faucetNetwork env) now st"
  let ?ff = "walletFacts a (faucetNetwork env) (faucetStartsAt env) st fam"
  obtain treasury x where ok: "wallet_decision env ?facts ?ff treasury = Inr ()" and x: "ff_witness ?ff = Some x" "fc_witness c = fw_tx_hash x"
    using wr by (auto simp: claim_written_def)
  obtain m where m: "faucetMaxClaims env = Num m"
    unfolding faucetMaxClaims_def by (rule positive_or_cases [of 40]) auto
  have "fa_maxClaims ?facts = Num m" by (simp add: campaignFacts_def Let_def m)
  with walletEligibility_Inr [OF ok [unfolded wallet_decision_def]]
  have el: "\<not> campaignNotStarted ?facts" "of_int (fa_countedClaims ?facts) < m" "ff_witnessState ?ff = WitnessOk" by auto
  have budget: "of_int (n_counted (claimCounts (faucetNetwork env) now st)) < m" using el(2) by (simp add: campaignFacts_def Let_def)
  obtain start where start: "faucetStartsAt env = Some start" "start \<le> now"
    using el(1) by (auto simp: campaignNotStarted_def campaignFacts_def Let_def split: option.splits)
  have meets: "fw_meets x" using el(3) x(1) by (auto simp: walletFacts_def Let_def split: if_splits)
  have q: "x \<in> set (qualifying_witnesses a (faucetNetwork env) (faucetStartsAt env) st)"
      and fam: "FAMILY_BY_WITNESS_KIND (fw_kind x) = Some fam"
    using x(1) by (auto simp: walletFacts_def Let_def find_Some_iff)
  from q have "x \<in> set (f_witnesses st) \<and> start \<le> fw_closed_at x \<and> lower_eq (fw_wallet x) a \<and> fw_network x = faucetNetwork env"
    unfolding qualifying_witnesses_def start option.case
    by (auto simp: map_filter_def split: list.splits if_splits dest!: arg_cong [where f = set])
  with that x(2) meets fam start budget m show ?thesis by auto
qed

end
