(* ===== verification/Faucet_Properties.thy ===== *)
theory Faucet_Properties
  imports Faucet_Invariants
begin

text \<open>
  The faucet's properties: how much it can pay, to whom and how often; what an answer means; and
  that the advisory read agrees with the claim. Witnessed on a run that pays one claim.
\<close>

section \<open>A concrete run\<close>

definition fx_a :: address where
  "fx_a = CHR ''G'' # replicate 55 (CHR ''A'')"

definition fx_hash :: tx_hash where
  "fx_hash = replicate 64 (CHR ''a'')"

definition fx_env :: Env where
  "fx_env = \<lparr>env_var = (\<lambda>v. if v = ''FAUCET_ENABLED'' then Some ''true''
                       else if v = ''FAUCET_STARTS_AT'' then Some ''2026-10-16''
                       else if v = ''FAUCET_SECRET_KEY'' then Some ''S'' else None),
             env_date = (\<lambda>s. if s = ''2026-10-16'' then Some 1000000 else None), env_url = (\<lambda>s. None)\<rparr>"

definition fx_world :: World where
  "fx_world = \<lparr>w_balances = Some [(''native'', ''200.0000000'')], w_sequence = Some ''7'', w_tx_built = True,
     w_submit = Submitted ''h1'', w_read_error = None, w_insert_error = None, w_paid_update_fails = False,
     w_failed_update_fails = False, w_public_key = (\<lambda>s. Some ''GT''), w_passphrases = (\<lambda>n. ''Test'')\<rparr>"

definition fx_witness :: FaucetWitness where
  "fx_witness = \<lparr>fw_tx_hash = fx_hash, fw_network = FaucetTestnet, fw_wallet = fx_a, fw_user = ''u1'', fw_kind = ''sdex-swap'',
     fw_meets = True, fw_closed_at = 1500000, fw_verified_at = 1600000\<rparr>"

definition fx_st0 :: FaucetState where
  "fx_st0 = \<lparr>f_claims = [], f_witnesses = [fx_witness], f_cache = None, f_submitted = []\<rparr>"

definition fx_claim :: FaucetClaim where
  "fx_claim = \<lparr>fc_id = ''c1'', fc_wallet = fx_a, fc_user = ''u1'', fc_witness = fx_hash, fc_network = FaucetTestnet,
     fc_status = Paid, fc_reward = Num 5, fc_payout_tx = Some ''h1'', fc_failure = None, fc_created_at = 2000000,
     fc_paid_at = Some 2000000, fc_campaign = 2, fc_family = ''swap''\<rparr>"

definition fx_tx :: PayoutTx where
  "fx_tx = \<lparr>pt_source = ''GT'', pt_sequence = ''7'', pt_fee = ''10000'', pt_passphrase = ''Test'', pt_destination = fx_a,
     pt_amount = ''5.0000000'', pt_memo = ''dig-reward'', pt_timeout = 60\<rparr>"

definition fx_st1 :: FaucetState where
  "fx_st1 = \<lparr>f_claims = [fx_claim], f_witnesses = [fx_witness], f_cache = None, f_submitted = [fx_tx]\<rparr>"

lemma fx_config: "isFaucetEnabled fx_env" "faucetNetwork fx_env = FaucetTestnet" "faucetRewardXlm fx_env = Num 5"
  "faucetMaxClaims fx_env = Num 40" "faucetHourlyClaimCap fx_env = Num 10" "faucetStartsAt fx_env = Some 1000000"
  "faucetEndsAt fx_env = None" "treasuryKeypair fx_env fx_world = Some ''GT''"
  "fetchTreasurySpendable fx_env fx_world = Some (Num (397/2))" "toFixed 7 5 = ''5.0000000''"
  by code_simp+

lemma fx_facts: "campaignFacts fx_env FaucetTestnet 2000000 fx_st0 =
    \<lparr>fa_enabled = True, fa_maxClaims = Num 40, fa_countedClaims = 0, fa_claimsLastHour = 0, fa_hourlyCap = Num 10,
     fa_startsAtMs = Some 1000000, fa_endsAtMs = None, fa_nowMs = 2000000\<rparr>"
  by (simp add: campaignFacts_def claimCounts_def fx_st0_def fx_config Let_def)

lemma fx_wallet: "walletFacts fx_a FaucetTestnet (Some 1000000) fx_st0 Swap =
    \<lparr>ff_witness = Some fx_witness, ff_witnessState = WitnessOk, ff_priorClaim = None\<rparr>"
  by (simp add: walletFacts_def qualifying_witnesses_def fx_st0_def fx_witness_def FAMILY_BY_WITNESS_KIND_def
      prior_claim_row_def map_filter_def Let_def lower_eq_def)

lemma fx_decision: "walletEligibility \<lparr>wf_campaign = \<lparr>fa_enabled = True, fa_maxClaims = Num 40, fa_countedClaims = 0,
     fa_claimsLastHour = 0, fa_hourlyCap = Num 10, fa_startsAtMs = Some 1000000, fa_endsAtMs = None, fa_nowMs = 2000000\<rparr>,
     wf_witnessState = WitnessOk, wf_priorClaim = None, wf_treasurySpendableXlm = Some (Num (397/2)), wf_rewardXlm = Num 5\<rparr> = Inr ()"
  by code_simp

lemma fx_world_fields: "w_sequence fx_world = Some ''7''" "w_tx_built fx_world" "w_submit fx_world = Submitted ''h1''"
  "w_read_error fx_world = None" "w_insert_error fx_world = None" "\<not> w_paid_update_fails fx_world"
  "w_passphrases fx_world = (\<lambda>n. ''Test'')"
  by (simp_all add: fx_world_def)

lemma fx_treasury: "treasurySpendableXlm fx_env fx_world 2000000 fx_st0 = (Some (Num (397/2)), fx_st0\<lparr>f_cache := Some (2000000, Some (Num (397/2)))\<rparr>)"
  by (simp add: treasurySpendableXlm_def fx_config fx_st0_def Let_def)

lemma fx_insert: "insert_faucet_claim (fx_claim\<lparr>fc_status := Pending, fc_payout_tx := None, fc_paid_at := None\<rparr>) (fx_st0\<lparr>f_cache := k\<rparr>)
    = Inr (fx_st0\<lparr>f_cache := k, f_claims := [fx_claim\<lparr>fc_status := Pending, fc_payout_tx := None, fc_paid_at := None\<rparr>]\<rparr>)"
  by (simp add: insert_faucet_claim_def conflicts_def fx_st0_def fx_witness_def fx_claim_def)

lemma fx_pay: "pay_and_record fx_env fx_world 2000000 ''c1'' fx_a
      (fx_st0\<lparr>f_cache := k, f_claims := [fx_claim\<lparr>fc_status := Pending, fc_payout_tx := None, fc_paid_at := None\<rparr>]\<rparr>)
    = (Some (ClaimPaid ''h1'' (Num 5)), fx_st1)"
  by (simp add: pay_and_record_def pay_def fx_config fx_world_fields buildSignedPayout_def faucetNetworkPassphrase_def
      set_claim_def PAYOUT_FEE_STROOPS_def PAYOUT_MEMO_def PAYOUT_TIMEOUT_SECONDS_def Let_def fx_st1_def fx_st0_def fx_claim_def fx_tx_def)

lemma fx_step: "claimInner fx_env fx_world 2000000 ''c1'' fx_a Swap fx_st0 = (Inr (ClaimPaid ''h1'' (Num 5)), fx_st1)"
proof -
  have row: "\<lparr>fc_id = ''c1'', fc_wallet = fx_a, fc_user = fw_user fx_witness, fc_witness = fw_tx_hash fx_witness,
      fc_network = FaucetTestnet, fc_status = Pending, fc_reward = Num 5, fc_payout_tx = None, fc_failure = None,
      fc_created_at = 2000000, fc_paid_at = None, fc_campaign = FAUCET_CAMPAIGN, fc_family = ''swap''\<rparr>
      = fx_claim\<lparr>fc_status := Pending, fc_payout_tx := None, fc_paid_at := None\<rparr>"
    by (simp add: fx_claim_def fx_witness_def FAUCET_CAMPAIGN_def)
  show ?thesis
    by (simp add: claimInner_def fx_world_fields fx_config fx_facts fx_wallet fx_treasury wallet_decision_def fx_decision
        keyAvailable_def row fx_insert fx_pay Let_def)
qed

lemma fx_reachable: "faucet_reachable fx_env fx_st0" "faucet_reachable fx_env fx_st1"
proof -
  show 0: "faucet_reachable fx_env fx_st0"
    by (rule faucet_reachable.start) (simp add: faucet_start_def faucet_keys_def fx_st0_def)
  show "faucet_reachable fx_env fx_st1"
    using faucet_reachable.step [OF 0 faucet_step.claim [of fx_env fx_st0 fx_world 2000000 "''c1''" fx_a Swap]]
    by (simp only: fx_step snd_conv)
qed

section \<open>Safety of the treasury\<close>

text \<open>C7: however claims, polls and witnesses follow each other and whatever Horizon and the database
  answer, the faucet never hands the network more payments than the campaign's budget of claims, at
  most two per wallet, each of exactly the configured reward with the fixed memo.\<close>

theorem faucet_payments_bounded:
  assumes reach: "faucet_reachable env st" and m: "faucetMaxClaims env = Num m"
  shows "of_int (int (length (f_submitted st))) \<le> m
    \<and> length (filter (\<lambda>tx. lower_eq (pt_destination tx) a) (f_submitted st)) \<le> 2
    \<and> (\<forall>tx \<in> set (f_submitted st). pt_amount tx = amount_text env \<and> pt_memo tx = PAYOUT_MEMO)"
proof -
  note inv = faucet_inv_reachable [OF reach]
  obtain x where "faucetMaxClaims env = Num x" "0 < x"
    unfolding faucetMaxClaims_def by (rule positive_or_cases [of 40]) simp_all
  then have "0 < m" using m by simp
  then have "of_int (int (length (campaign_claims st))) \<le> m" by (rule claims_within_budget [OF inv m])
  moreover have "(of_int (int (length (f_submitted st))) :: rat) \<le> of_int (int (length (campaign_claims st)))"
    using submitted_le_claims(1) [OF inv] by (subst of_int_le_iff) simp
  ultimately show ?thesis
    using submitted_le_claims(2) [OF inv, of a] wallet_claims_at_most_two [OF inv, of a] inv by (auto simp: faucet_inv_def)
qed

theorem faucet_payments_bounded_witness:
  "of_int (int (length (f_submitted fx_st1))) \<le> (40 :: rat) \<and> length (filter (\<lambda>tx. lower_eq (pt_destination tx) fx_a) (f_submitted fx_st1)) \<le> 2"
  using faucet_payments_bounded [OF fx_reachable(2) fx_config(4), of fx_a] by blast





section \<open>The read and the claim agree\<close>

lemma treasury_checked_last:
  "\<not> is_eligible (wallet_decision env f ff (Some PInf)) \<Longrightarrow> wallet_decision env f ff t = wallet_decision env f ff (Some PInf)"
proof -
  have "\<not> js_lt PInf x" for x by (cases x) simp_all
  then show "\<not> is_eligible (wallet_decision env f ff (Some PInf)) \<Longrightarrow> wallet_decision env f ff t = wallet_decision env f ff (Some PInf)"
    by (auto simp: wallet_decision_def walletEligibility_def is_eligible_def Let_def split: if_splits sum.splits option.splits)
qed

text \<open>The advisory read and the claim decide alike: although the read asks Horizon only when some
  family passes every other check, the status it reports for a family is the decision with the
  treasury as the claim would read it, and a claim at that moment is refused with the very reason
  reported.\<close>

theorem faucet_read_agrees_with_claim:
  assumes read: "getEligibility env w now (Some a) st = (Inr (payload, Some families), st')"
  shows "fs_result (families fam) = wallet_decision env (campaignFacts env (faucetNetwork env) now st)
      (walletFacts a (faucetNetwork env) (faucetStartsAt env) st fam) (fst (treasurySpendableXlm env w now st))
    \<and> (\<forall>r. fs_result (families fam) = Inl r \<longrightarrow> fst (claimInner env w now i a fam st) = Inr (ClaimRefused r))"
proof -
  let ?d = "wallet_decision env (campaignFacts env (faucetNetwork env) now st) (walletFacts a (faucetNetwork env) (faucetStartsAt env) st fam)"
  have starts: "fa_startsAtMs (campaignFacts env (faucetNetwork env) now st) = faucetStartsAt env" by (simp add: campaignFacts_def Let_def)
  obtain t st1 where t: "treasurySpendableXlm env w now st = (t, st1)" by (cases "treasurySpendableXlm env w now st") auto
  have none: "w_read_error w = None" using read by (cases "w_read_error w") (auto simp: getEligibility_def)
  have result: "fs_result (families fam) = ?d t"
  proof (cases "is_eligible (?d (Some PInf))")
    case True
    then have "list_ex (\<lambda>f. is_eligible (wallet_decision env (campaignFacts env (faucetNetwork env) now st)
        (walletFacts a (faucetNetwork env) (faucetStartsAt env) st f) (Some PInf))) FAUCET_FAMILIES"
      by (cases fam) (auto simp: FAUCET_FAMILIES_def)
    then show ?thesis using read none True t by (auto simp: getEligibility_def starts Let_def)
  next
    case False
    then show ?thesis using read none treasury_checked_last [OF False, of t]
      by (auto simp: getEligibility_def starts Let_def split: prod.splits)
  qed
  moreover have "fst (claimInner env w now i a fam st) = Inr (ClaimRefused r)" if r: "?d t = Inl r" for r
    using none t r by (simp add: claimInner_def starts Let_def)
  ultimately show ?thesis using t by simp
qed

theorem faucet_read_agrees_with_claim_witness:
  "\<exists>families :: ActionFamily \<Rightarrow> FamilyStatus. fs_result (families Swap) = wallet_decision fx_env (campaignFacts fx_env (faucetNetwork fx_env) 2000000 fx_st0)
      (walletFacts fx_a (faucetNetwork fx_env) (faucetStartsAt fx_env) fx_st0 Swap) (fst (treasurySpendableXlm fx_env fx_world 2000000 fx_st0))"
proof -
  have "\<exists>payload families st'. getEligibility fx_env fx_world 2000000 (Some fx_a) fx_st0 = (Inr (payload, Some families), st')"
    by (simp add: getEligibility_def fx_world_fields Let_def split_beta)
  then obtain payload families st'
    where "getEligibility fx_env fx_world 2000000 (Some fx_a) fx_st0 = (Inr (payload, Some families), st')" by blast
  from faucet_read_agrees_with_claim [OF this] show ?thesis by blast
qed

text \<open>C28: the faucet fails closed: disabled, or with no parseable start date, a claim pays nothing,
  writes nothing and is never answered as paid.\<close>

theorem faucet_fails_closed:
  assumes dark: "\<not> isFaucetEnabled env \<or> faucetStartsAt env = None" and run: "claimInner env w now i a fam st = (r, st')"
  shows "f_submitted st' = f_submitted st \<and> f_claims st' = f_claims st \<and> (\<nexists>h rew. r = Inr (ClaimPaid h rew))"
proof -
  have "wallet_decision env (campaignFacts env (faucetNetwork env) now st) ff t \<noteq> Inr ()" for ff t
    using dark by (auto simp: wallet_decision_def walletEligibility_def campaignFacts_def campaignNotStarted_def Let_def)
  then have "\<not> claim_written env w now i a fam st c'" for c' by (simp add: claim_written_def)
  then have "(\<exists>k. st' = st\<lparr>f_cache := k\<rparr>) \<and> (\<forall>p. r = Inr p \<longrightarrow> (\<nexists>h rew. p = ClaimPaid h rew))"
    using claimInner_effect [OF run] by blast
  then show ?thesis by auto
qed

definition fx_dark :: Env where
  "fx_dark = fx_env\<lparr>env_date := (\<lambda>s. None)\<rparr>"

theorem faucet_fails_closed_witness: "f_submitted (snd (claimInner fx_dark fx_world 2000000 ''c1'' fx_a Swap fx_st0)) = f_submitted fx_st0"
proof -
  have "faucetStartsAt fx_dark = None" by code_simp
  then show ?thesis
    using faucet_fails_closed [of fx_dark fx_world 2000000 "''c1''" fx_a Swap fx_st0]
    by (cases "claimInner fx_dark fx_world 2000000 ''c1'' fx_a Swap fx_st0") simp
qed

end
