(* ===== verification/Js_Native.thy ===== *)
theory Js_Native
  imports Js_Parse
begin

text \<open>
  The values the Stellar SDK hands to the browser when it decodes contract data, the coercions of
  the standard library the signing gates apply to them (\<open>String\<close>, \<open>Number\<close>, \<open>BigInt\<close>), and the
  two converters from a decimal amount to an exact integer.
\<close>

section \<open>Values\<close>

text \<open>
  A number produced by the decoder is a 32-bit integer, so \<open>NNumber\<close> carries an integer.
  \<open>NBytes\<close> is a buffer, by the text its \<open>toString\<close> gives.
\<close>

datatype native =
    NUndefined | NNull | NBool bool | NNumber int | NBigInt int | NString string
  | NBytes string | NArray "native list" | NObject "(string \<times> native) list"

definition join_comma :: "string list \<Rightarrow> string" where
  "join_comma ts = (case ts of [] \<Rightarrow> [] | t # us \<Rightarrow> foldl (\<lambda>acc u. acc @ '','' @ u) t us)"

fun nullish_text :: "native \<Rightarrow> bool" where
  "nullish_text NUndefined = True"
| "nullish_text NNull = True"
| "nullish_text _ = False"

text \<open>\<open>String(value)\<close>. An array joins its elements with commas, an absent element as the empty
  text.\<close>

fun js_String :: "native \<Rightarrow> string" where
  "js_String NUndefined = ''undefined''"
| "js_String NNull = ''null''"
| "js_String (NBool b) = (if b then ''true'' else ''false'')"
| "js_String (NNumber n) = int_text n"
| "js_String (NBigInt n) = int_text n"
| "js_String (NString s) = s"
| "js_String (NBytes s) = s"
| "js_String (NArray xs) = join_comma (map (\<lambda>x. if nullish_text x then [] else js_String x) xs)"
| "js_String (NObject fs) = ''[object Object]''"

text \<open>\<open>Number(value)\<close>: an array or a buffer is read through its text.\<close>

fun js_Number_of :: "native \<Rightarrow> jsnum" where
  "js_Number_of NUndefined = NaN"
| "js_Number_of NNull = Num 0"
| "js_Number_of (NBool b) = (if b then Num 1 else Num 0)"
| "js_Number_of (NNumber n) = jsint n"
| "js_Number_of (NBigInt n) = fl (of_int n)"
| "js_Number_of (NObject fs) = NaN"
| "js_Number_of v = js_Number (js_String v)"

text \<open>\<open>BigInt(text)\<close>; \<open>None\<close> when it throws. A sign is allowed on decimal digits only.\<close>

definition BigInt_of_string :: "string \<Rightarrow> int option" where
  "BigInt_of_string s =
     (let t = trim s in
      case t of
        [] \<Rightarrow> Some 0
      | c # cs \<Rightarrow>
          (case (if c = CHR ''0'' \<and> cs \<noteq> [] then radix_of (hd cs) else None) of
             Some radix \<Rightarrow> if tl cs = [] then None else radix_value radix (tl cs) 0
           | None \<Rightarrow>
               (let (sign, ds) = split_sign t in
                if ds \<noteq> [] \<and> list_all is_digit ds then Some (sign * digits_value ds) else None)))"

fun js_BigInt :: "native \<Rightarrow> int option" where
  "js_BigInt NUndefined = None"
| "js_BigInt NNull = None"
| "js_BigInt (NBool b) = Some (if b then 1 else 0)"
| "js_BigInt (NNumber n) = Some n"
| "js_BigInt (NBigInt n) = Some n"
| "js_BigInt v = BigInt_of_string (js_String v)"

text \<open>A property read: an absent one is \<open>undefined\<close>, also on a value that has none.\<close>

fun get_property :: "native \<Rightarrow> string \<Rightarrow> native" where
  "get_property (NObject fs) k = (case map_of fs k of None \<Rightarrow> NUndefined | Some v \<Rightarrow> v)"
| "get_property _ k = NUndefined"

text \<open>\<open>!req || typeof req !== "object"\<close> is false\<close>

fun is_object :: "native \<Rightarrow> bool" where
  "is_object (NObject fs) = True"
| "is_object (NArray xs) = True"
| "is_object (NBytes s) = True"
| "is_object _ = False"

section \<open>Decimal amounts\<close>

text \<open>\<open>/^\d+(\.\d+)?$/\<close>, and the two parts \<open>split('.')\<close> gives, the second one empty by default.\<close>

definition amount_parts :: "string \<Rightarrow> string \<times> string" where
  "amount_parts t = (takeWhile is_digit t, tl (dropWhile is_digit t))"

definition amount_text :: "string \<Rightarrow> bool" where
  "amount_text t \<longleftrightarrow>
     takeWhile is_digit t \<noteq> [] \<and>
     (case dropWhile is_digit t of
        [] \<Rightarrow> True
      | c # cs \<Rightarrow> c = CHR ''.'' \<and> cs \<noteq> [] \<and> list_all is_digit cs)"

definition padEnd0 :: "nat \<Rightarrow> string \<Rightarrow> string" where
  "padEnd0 n s = s @ replicate (n - length s) (CHR ''0'')"

text \<open>\<open>BigInt\<close> of a text of digits, the empty one being \<open>0n\<close>.\<close>

definition scale_amount :: "string \<Rightarrow> nat \<Rightarrow> int option" where
  "scale_amount amount decimals =
     (let trimmed = trim amount in
      if \<not> amount_text trimmed then None
      else let (intPart, fracPart) = amount_parts trimmed in
        if decimals < length fracPart then None
        else Some (digits_value intPart * 10 ^ decimals + digits_value (padEnd0 decimals fracPart)))"

section \<open>What an amount text denotes\<close>

text \<open>The rational number a valid amount text writes: all its digits over a power of ten.\<close>

definition amount_value :: "string \<Rightarrow> rat" where
  "amount_value s =
     (let (w, f) = amount_parts (trim s) in
      of_int (digits_value (w @ f)) / 10 ^ length f)"

lemma digits_value_append: "digits_value (a @ b) = digits_value a * 10 ^ length b + digits_value b"
proof (induction b rule: rev_induct)
  case Nil
  then show ?case by (simp add: digits_value_def)
next
  case (snoc c b)
  have "digits_value (a @ b @ [c]) = 10 * digits_value (a @ b) + int (digit_val c)"
    using digits_value_snoc [of "a @ b" c] by simp
  then show ?case using snoc by (simp add: digits_value_snoc algebra_simps)
qed

lemma digits_value_zeros [simp]: "digits_value (replicate n (CHR ''0'')) = 0"
  by (induction n) (simp_all add: digits_value_def digit_val_def)

lemma digits_value_pad:
  "length f \<le> d \<Longrightarrow> digits_value (padEnd0 d f) = digits_value f * 10 ^ (d - length f)"
  by (simp add: padEnd0_def digits_value_append)

lemma digits_value_nonneg: "0 \<le> digits_value s"
  by (induction s rule: rev_induct) (simp_all add: digits_value_snoc, simp add: digits_value_def)

lemma scale_amount_cases:
  "scale_amount s d =
     (if amount_text (trim s) \<and> length (snd (amount_parts (trim s))) \<le> d
      then Some (digits_value (fst (amount_parts (trim s)) @ snd (amount_parts (trim s)))
                 * 10 ^ (d - length (snd (amount_parts (trim s)))))
      else None)"
proof -
  let ?w = "fst (amount_parts (trim s))" and ?f = "snd (amount_parts (trim s))"
  have "digits_value ?w * 10 ^ d + digits_value (padEnd0 d ?f) = digits_value (?w @ ?f) * 10 ^ (d - length ?f)"
    if "length ?f \<le> d"
  proof -
    have "(10::int) ^ d = 10 ^ length ?f * 10 ^ (d - length ?f)" using that by (simp flip: power_add)
    then show ?thesis using that by (simp add: digits_value_pad digits_value_append algebra_simps)
  qed
  then show ?thesis by (auto simp: scale_amount_def Let_def split: prod.splits)
qed

lemma scale_amount_Some:
  assumes "scale_amount s d = Some n"
  shows "amount_text (trim s)" "0 \<le> n" "of_int n = amount_value s * 10 ^ d"
proof -
  obtain w f where p: "amount_parts (trim s) = (w, f)" by (cases "amount_parts (trim s)")
  have t: "amount_text (trim s)" and l: "length f \<le> d" and n: "n = digits_value (w @ f) * 10 ^ (d - length f)"
    using assms by (simp_all add: scale_amount_cases p split: if_splits)
  show "amount_text (trim s)" by (rule t)
  show "0 \<le> n" by (simp add: n digits_value_nonneg)
  have "(10::rat) ^ d = 10 ^ (d - length f) * 10 ^ length f" using l by (simp flip: power_add)
  then show "of_int n = amount_value s * 10 ^ d" by (simp add: n amount_value_def p)
qed

text \<open>Two texts scale to the same integer exactly when they write the same number.\<close>

lemma scale_amount_eq_iff:
  assumes "scale_amount s d = Some m" "scale_amount t d = Some n"
  shows "m = n \<longleftrightarrow> amount_value s = amount_value t"
proof -
  have "of_int m = amount_value s * 10 ^ d" "of_int n = amount_value t * 10 ^ d"
    using assms scale_amount_Some by blast+
  then have "(of_int m :: rat) = of_int n \<longleftrightarrow> amount_value s = amount_value t" by simp
  then show ?thesis by simp
qed

lemma scale_amount_le_iff:
  assumes "scale_amount s d = Some m" "scale_amount t d = Some n"
  shows "m \<le> n \<longleftrightarrow> amount_value s \<le> amount_value t"
proof -
  have "of_int m = amount_value s * 10 ^ d" "of_int n = amount_value t * 10 ^ d"
    using assms scale_amount_Some by blast+
  then have "(of_int m :: rat) \<le> of_int n \<longleftrightarrow> amount_value s \<le> amount_value t" by simp
  then show ?thesis by simp
qed

end
