(* ===== verification/Decoded_Tx.thy ===== *)
theory Decoded_Tx
  imports Js_Native
begin

text \<open>
  What both signing gates of the web application inspect: the transaction the Stellar SDK decodes
  from an envelope, and the guards \<open>validateSwapXdr.ts\<close> and \<open>validateDepositXdr.ts\<close> share.

  The SDK is a parameter (\<open>Sdk\<close>): \<open>TransactionBuilder.fromXDR\<close> as a function of the envelope text
  and the passphrase, \<open>None\<close> when it throws, and the two network passphrases it exports. The
  operations it may return are those the gates look into; every other kind is \<open>OpOther\<close> with its
  type name. A host function is \<open>Some\<close> contract call, or \<open>None\<close> when reading it as one throws; each
  argument is what \<open>scValToNative\<close> gives for it, \<open>None\<close> when that throws.
\<close>

section \<open>Decoded transactions\<close>

datatype sdk_asset = AssetNative | AssetCredit string string

datatype trust_line = LineAsset sdk_asset | LineOther

record PathPaymentStrictSend =
  p_source :: "string option"
  p_sendAsset :: sdk_asset
  p_sendAmount :: string
  p_destination :: string
  p_destAsset :: sdk_asset
  p_destMin :: string
  p_path :: "sdk_asset list"

record ChangeTrust =
  ct_source :: "string option"
  ct_line :: trust_line
  ct_limit :: string

record ContractCall =
  contractId :: string
  fnName :: string
  call_args :: "native option list"

record InvokeHostFunction =
  ih_source :: "string option"
  ih_func :: "ContractCall option"

datatype operation =
    OpPathPaymentStrictSend PathPaymentStrictSend
  | OpChangeTrust ChangeTrust
  | OpInvokeHostFunction InvokeHostFunction
  | OpOther string

fun op_type :: "operation \<Rightarrow> string" where
  "op_type (OpPathPaymentStrictSend p) = ''pathPaymentStrictSend''"
| "op_type (OpChangeTrust c) = ''changeTrust''"
| "op_type (OpInvokeHostFunction i) = ''invokeHostFunction''"
| "op_type (OpOther t) = t"

record DecodedTx =
  tx_source :: string
  tx_fee :: string
  tx_operations :: "operation list"

datatype envelope = FeeBump | Classic DecodedTx

record Sdk =
  fromXDR :: "string \<Rightarrow> string \<Rightarrow> envelope option"
  Networks_TESTNET :: string
  Networks_PUBLIC :: string

section \<open>Results\<close>

datatype ValidationResult = Ok | Rejected "string list"

definition validation_result :: "string list \<Rightarrow> ValidationResult" where
  "validation_result violations = (if violations = [] then Ok else Rejected violations)"

text \<open>One check of a gate: the violation it pushes when its condition holds.\<close>

definition push_if :: "bool \<Rightarrow> string \<Rightarrow> string list" where
  "push_if b m = (if b then [m] else [])"

lemma push_if_Nil [simp]: "push_if b m = [] \<longleftrightarrow> \<not> b"
  by (simp add: push_if_def)

lemma validation_result_Ok [simp]: "validation_result vs = Ok \<longleftrightarrow> vs = []"
  by (simp add: validation_result_def)

section \<open>Text of the violations\<close>

definition hex_digit :: "nat \<Rightarrow> char" where
  "hex_digit n = (if n < 10 then digit_char n else char_of (n + 87))"

definition json_char :: "char \<Rightarrow> string" where
  "json_char c =
     (let n = (of_char c :: nat) in
      if n = 34 \<or> n = 92 then [CHR 0x5C, c]
      else if n = 8 then CHR 0x5C # ''b'' else if n = 9 then CHR 0x5C # ''t''
      else if n = 10 then CHR 0x5C # ''n'' else if n = 12 then CHR 0x5C # ''f''
      else if n = 13 then CHR 0x5C # ''r''
      else if n < 32 then CHR 0x5C # ''u00'' @ [hex_digit (n div 16), hex_digit (n mod 16)]
      else [c])"

definition json_string :: "string \<Rightarrow> string" where
  "json_string s = CHR 0x22 # concat (map json_char s) @ [CHR 0x22]"

definition types_seen :: "operation list \<Rightarrow> string" where
  "types_seen ops =
     (let seen = (case map op_type ops of [] \<Rightarrow> [] | t # ts \<Rightarrow> foldl (\<lambda>a u. a @ '', '' @ u) t ts) in
      if seen = [] then ''none'' else seen)"

definition count_text :: "nat \<Rightarrow> string" where
  "count_text n = int_text (int n)"

section \<open>Guards shared by the gates\<close>

definition RECOGNIZED_NETWORKS :: "Sdk \<Rightarrow> string list" where
  "RECOGNIZED_NETWORKS sdk = [Networks_TESTNET sdk, Networks_PUBLIC sdk]"

definition network_violations :: "Sdk \<Rightarrow> string \<Rightarrow> string list" where
  "network_violations sdk passphrase =
     push_if (passphrase \<notin> set (RECOGNIZED_NETWORKS sdk))
       (''unrecognized network passphrase: '' @ json_string passphrase)"

definition source_violations :: "string \<Rightarrow> DecodedTx \<Rightarrow> string list" where
  "source_violations user tx =
     push_if (tx_source tx \<noteq> user)
       (''source account mismatch: expected '' @ user @ '', got '' @ tx_source tx)"

text \<open>The total fee against a ceiling; the swap gate's message ends with its ceiling in XLM.\<close>

definition fee_violations :: "int \<Rightarrow> string \<Rightarrow> DecodedTx \<Rightarrow> string list" where
  "fee_violations cap suffix tx =
     (case BigInt_of_string (tx_fee tx) of
        None \<Rightarrow> [''fee is not a valid stroop amount: '' @ tx_fee tx]
      | Some fee \<Rightarrow>
          if fee < 0 then [''fee is not a valid stroop amount: '' @ tx_fee tx]
          else push_if (cap < fee)
            (''fee exceeds cap: '' @ tx_fee tx @ '' stroops > '' @ int_text cap @ '' stroops'' @ suffix))"

text \<open>An operation's own source: unset, or the user's account.\<close>

definition own_source :: "string option \<Rightarrow> string \<Rightarrow> bool" where
  "own_source src user \<longleftrightarrow> src = None \<or> src = Some user"

definition op_source_violations :: "string \<Rightarrow> string option \<Rightarrow> string \<Rightarrow> string list" where
  "op_source_violations what src user =
     (case src of None \<Rightarrow> []
      | Some s \<Rightarrow> push_if (s \<noteq> user)
          (what @ '' source mismatch: expected inherited/'' @ user @ '', got '' @ s))"

lemma op_source_violations_Nil [simp]: "op_source_violations w src user = [] \<longleftrightarrow> own_source src user"
  by (auto simp: op_source_violations_def own_source_def split: option.splits)

text \<open>The first operation of a kind, and the operations before and after it.\<close>

fun split_first :: "(operation \<Rightarrow> 'a option) \<Rightarrow> operation list \<Rightarrow> ('a \<times> operation list) option" where
  "split_first f [] = None"
| "split_first f (op # ops) =
     (case f op of
        Some a \<Rightarrow> Some (a, ops)
      | None \<Rightarrow> (case split_first f ops of None \<Rightarrow> None | Some (a, rest) \<Rightarrow> Some (a, op # rest)))"

lemma split_first_None: "split_first f ops = None \<longleftrightarrow> (\<forall>op \<in> set ops. f op = None)"
  by (induction ops) (auto split: option.splits)

lemma split_first_Some:
  "split_first f ops = Some (a, rest) \<Longrightarrow>
     \<exists>before op after. ops = before @ op # after \<and> f op = Some a \<and> rest = before @ after \<and> (\<forall>o1 \<in> set before. f o1 = None)"
proof (induction ops arbitrary: rest)
  case (Cons op ops)
  show ?case
  proof (cases "f op")
    case None
    then obtain r where r: "split_first f ops = Some (a, r)" "rest = op # r"
      using Cons.prems by (auto split: option.splits)
    then obtain before op' after where
      b: "ops = before @ op' # after" "f op' = Some a" "r = before @ after" "\<forall>o1 \<in> set before. f o1 = None"
      using Cons.IH by blast
    have "op # ops = (op # before) @ op' # after \<and> f op' = Some a \<and> rest = (op # before) @ after
        \<and> (\<forall>o1 \<in> set (op # before). f o1 = None)" using b r None by simp
    then show ?thesis by blast
  next
    case (Some b)
    then have "op # ops = [] @ op # ops \<and> f op = Some a \<and> rest = [] @ ops \<and> (\<forall>o1 \<in> set []. f o1 = None)"
      using Cons.prems by auto
    then show ?thesis by blast
  qed
qed simp

lemma split_first_length: "split_first f ops = Some (a, rest) \<Longrightarrow> length ops = Suc (length rest)"
  by (drule split_first_Some) auto

lemma split_first_sole: "f op = Some a \<Longrightarrow> split_first f [op] = Some (a, [])"
  by simp

lemma split_first_rest_Nil: "split_first f ops = Some (a, []) \<longleftrightarrow> (\<exists>op. ops = [op] \<and> f op = Some a)"
proof
  assume "split_first f ops = Some (a, [])"
  then show "\<exists>op. ops = [op] \<and> f op = Some a" by (auto dest: split_first_Some)
qed auto

text \<open>The fee of an accepted transaction.\<close>

definition fee_within :: "int \<Rightarrow> DecodedTx \<Rightarrow> bool" where
  "fee_within cap tx \<longleftrightarrow> (case BigInt_of_string (tx_fee tx) of None \<Rightarrow> False | Some fee \<Rightarrow> 0 \<le> fee \<and> fee \<le> cap)"

lemma fee_violations_Nil [simp]: "fee_violations cap suffix tx = [] \<longleftrightarrow> fee_within cap tx"
  by (auto simp: fee_violations_def fee_within_def split: option.splits)

lemma source_violations_Nil [simp]: "source_violations user tx = [] \<longleftrightarrow> tx_source tx = user"
  by (simp add: source_violations_def)

lemma network_violations_Nil [simp]:
  "network_violations sdk p = [] \<longleftrightarrow> p \<in> set (RECOGNIZED_NETWORKS sdk)"
  by (simp add: network_violations_def)

section \<open>The contract of a gate\<close>

text \<open>
  A gate decides on a decoded transaction only. \<open>verdict\<close> is the gate on an intent and an envelope
  text, \<open>passphrase\<close> and \<open>account\<close> read the intent, and \<open>intended\<close> says which decoded transactions
  are the one the intent describes.
\<close>

locale signing_gate =
  fixes verdict :: "Sdk \<Rightarrow> string \<Rightarrow> 'i \<Rightarrow> ValidationResult"
    and passphrase :: "'i \<Rightarrow> string"
    and account :: "'i \<Rightarrow> string"
    and intended :: "'i \<Rightarrow> DecodedTx \<Rightarrow> bool"
    and cap :: int
  assumes accepts: "verdict sdk x i = Ok \<longleftrightarrow>
      passphrase i \<in> set (RECOGNIZED_NETWORKS sdk) \<and>
      (\<exists>tx. fromXDR sdk x (passphrase i) = Some (Classic tx) \<and>
        tx_source tx = account i \<and> fee_within cap tx \<and> intended i tx)"
begin

lemma accepted_tx:
  assumes "verdict sdk x i = Ok"
  obtains tx where "fromXDR sdk x (passphrase i) = Some (Classic tx)"
    "tx_source tx = account i" "fee_within cap tx" "intended i tx"
    "passphrase i \<in> set (RECOGNIZED_NETWORKS sdk)"
  using assms accepts by blast

lemma unparseable_rejected: "fromXDR sdk x (passphrase i) = None \<Longrightarrow> verdict sdk x i \<noteq> Ok"
  by (simp add: accepts)

lemma fee_bump_rejected: "fromXDR sdk x (passphrase i) = Some FeeBump \<Longrightarrow> verdict sdk x i \<noteq> Ok"
  by (simp add: accepts)

lemma same_envelope_same_verdict:
  assumes "fromXDR sdk x (passphrase i) = fromXDR sdk y (passphrase i)"
  shows "verdict sdk x i = Ok \<longleftrightarrow> verdict sdk y i = Ok"
  using assms by (simp add: accepts)

lemma accepted_fee:
  assumes "verdict sdk x i = Ok"
  shows "\<exists>tx fee. fromXDR sdk x (passphrase i) = Some (Classic tx) \<and> tx_source tx = account i
    \<and> BigInt_of_string (tx_fee tx) = Some fee \<and> 0 \<le> fee \<and> fee \<le> cap"
  using assms by (auto simp: accepts fee_within_def split: option.splits)

end

text \<open>Two gates whose intended transactions are disjoint never accept the same envelope.\<close>

locale disjoint_gates =
  a: signing_gate verdict_a passphrase account intended_a cap_a +
  b: signing_gate verdict_b passphrase account intended_b cap_b
  for verdict_a verdict_b :: "Sdk \<Rightarrow> string \<Rightarrow> 'i \<Rightarrow> ValidationResult"
    and passphrase account :: "'i \<Rightarrow> string"
    and intended_a intended_b :: "'i \<Rightarrow> DecodedTx \<Rightarrow> bool"
    and cap_a cap_b :: int +
  assumes disjoint: "intended_a i tx \<Longrightarrow> \<not> intended_b j tx"
begin

lemma exclusive:
  assumes "passphrase i = passphrase j" "verdict_a sdk x i = Ok"
  shows "verdict_b sdk x j \<noteq> Ok"
  using assms disjoint by (auto simp: a.accepts b.accepts)

end

end
