(* ===== verification/Swap_Gate.thy ===== *)
theory Swap_Gate
  imports Decoded_Tx
begin

text \<open>
  \<open>apps/web/src/lib/validateSwapXdr.ts\<close>: the check that the envelope the API returned is exactly
  the swap the user asked for. Every violation is collected; only an unreadable envelope, a
  fee-bump wrapper and a missing swap operation end the inspection.
\<close>

datatype AssetId = IdNative | IdCredit string string

record SwapIntent =
  s_sourceAccount :: string
  s_sendAsset :: AssetId
  s_sendAmount :: string
  s_destAsset :: AssetId
  s_destMin :: string
  s_networkPassphrase :: string
  allowTrustlineFor :: "AssetId option"

definition STELLAR_DECIMALS :: nat where
  "STELLAR_DECIMALS = 7"

definition MAX_FEE_STROOPS :: int where
  "MAX_FEE_STROOPS = 100000"

definition toStroops :: "string \<Rightarrow> int option" where
  "toStroops amount = scale_amount amount STELLAR_DECIMALS"

fun assetMatches :: "sdk_asset \<Rightarrow> AssetId \<Rightarrow> bool" where
  "assetMatches asset IdNative = (asset = AssetNative)"
| "assetMatches AssetNative (IdCredit code issuer) = False"
| "assetMatches (AssetCredit c i) (IdCredit code issuer) = (c = code \<and> i = issuer)"

fun assetLabel :: "AssetId \<Rightarrow> string" where
  "assetLabel IdNative = ''native (XLM)''"
| "assetLabel (IdCredit code issuer) = code @ '':'' @ issuer"

fun decodedAssetLabel :: "sdk_asset \<Rightarrow> string" where
  "decodedAssetLabel AssetNative = ''native (XLM)''"
| "decodedAssetLabel (AssetCredit code issuer) = code @ '':'' @ issuer"

fun changeTrustMatches :: "ChangeTrust \<Rightarrow> AssetId \<Rightarrow> bool" where
  "changeTrustMatches op IdNative = False"
| "changeTrustMatches op (IdCredit code issuer) =
     (case ct_line op of
        LineOther \<Rightarrow> False
      | LineAsset AssetNative \<Rightarrow> False
      | LineAsset (AssetCredit c i) \<Rightarrow> c = code \<and> i = issuer)"

fun line_label :: "trust_line \<Rightarrow> string" where
  "line_label (LineAsset a) = decodedAssetLabel a"
| "line_label LineOther = ''non-asset trustline (e.g. liquidity pool)''"

fun swap_op :: "operation \<Rightarrow> PathPaymentStrictSend option" where
  "swap_op (OpPathPaymentStrictSend p) = Some p"
| "swap_op _ = None"

text \<open>The body of the loop over the operations beside the swap.\<close>

definition extra_op_violations :: "string \<Rightarrow> AssetId \<Rightarrow> operation \<Rightarrow> string list" where
  "extra_op_violations user allowed op =
     (case op of
        OpChangeTrust ct \<Rightarrow>
          push_if (\<not> changeTrustMatches ct allowed)
            (''changeTrust asset mismatch: expected '' @ assetLabel allowed @ '', got '' @ line_label (ct_line ct))
          @ op_source_violations ''changeTrust'' (ct_source ct) user
      | _ \<Rightarrow> [''unexpected operation '' @ [CHR 0x22] @ op_type op @ [CHR 0x22] @ '': only a ''
               @ assetLabel allowed @ '' trustline may accompany the swap''])"

definition operation_set_violations :: "SwapIntent \<Rightarrow> operation list \<Rightarrow> operation list \<Rightarrow> string list" where
  "operation_set_violations intent ops extraOps =
     (case allowTrustlineFor intent of
        Some allowed \<Rightarrow>
          concat (map (extra_op_violations (s_sourceAccount intent) allowed) extraOps)
          @ push_if (1 < length extraOps)
              (''expected at most 1 trustline operation, found '' @ count_text (length extraOps))
      | None \<Rightarrow>
          push_if (length ops \<noteq> 1) (''expected exactly 1 operation, found '' @ count_text (length ops)))"

definition send_amount_violations :: "SwapIntent \<Rightarrow> PathPaymentStrictSend \<Rightarrow> string list" where
  "send_amount_violations intent op =
     (case (toStroops (p_sendAmount op), toStroops (s_sendAmount intent)) of
        (Some sendActual, Some sendIntent) \<Rightarrow>
          push_if (sendActual \<noteq> sendIntent)
            (''sendAmount mismatch: expected '' @ s_sendAmount intent @ '', got '' @ p_sendAmount op)
      | _ \<Rightarrow> [''sendAmount not a valid amount: xdr='' @ p_sendAmount op @ '', intent='' @ s_sendAmount intent])"

definition dest_min_violations :: "SwapIntent \<Rightarrow> PathPaymentStrictSend \<Rightarrow> string list" where
  "dest_min_violations intent op =
     (case (toStroops (p_destMin op), toStroops (s_destMin intent)) of
        (Some minActual, Some minIntent) \<Rightarrow>
          push_if (minActual < minIntent)
            (''destMin below accepted minimum: expected >= '' @ s_destMin intent @ '', got '' @ p_destMin op)
      | _ \<Rightarrow> [''destMin not a valid amount: xdr='' @ p_destMin op @ '', intent='' @ s_destMin intent])"

definition payment_violations :: "SwapIntent \<Rightarrow> PathPaymentStrictSend \<Rightarrow> string list" where
  "payment_violations intent op =
     op_source_violations ''operation'' (p_source op) (s_sourceAccount intent)
     @ push_if (\<not> assetMatches (p_sendAsset op) (s_sendAsset intent))
         (''sendAsset mismatch: expected '' @ assetLabel (s_sendAsset intent)
          @ '', got '' @ decodedAssetLabel (p_sendAsset op))
     @ push_if (\<not> assetMatches (p_destAsset op) (s_destAsset intent))
         (''destAsset mismatch: expected '' @ assetLabel (s_destAsset intent)
          @ '', got '' @ decodedAssetLabel (p_destAsset op))
     @ send_amount_violations intent op
     @ dest_min_violations intent op
     @ push_if (p_destination op \<noteq> s_sourceAccount intent)
         (''destination mismatch: expected '' @ s_sourceAccount intent @ '', got '' @ p_destination op)"

definition validateSwapXdr :: "Sdk \<Rightarrow> string \<Rightarrow> SwapIntent \<Rightarrow> ValidationResult" where
  "validateSwapXdr sdk xdr intent =
     (let v0 = network_violations sdk (s_networkPassphrase intent) in
      case fromXDR sdk xdr (s_networkPassphrase intent) of
        None \<Rightarrow> Rejected (v0 @ [''unparseable XDR''])
      | Some FeeBump \<Rightarrow> Rejected (v0 @ [''unexpected fee-bump transaction wrapper''])
      | Some (Classic tx) \<Rightarrow>
          (let v1 = v0 @ source_violations (s_sourceAccount intent) tx
                    @ fee_violations MAX_FEE_STROOPS '' (0.01 XLM)'' tx;
               ops = tx_operations tx in
           case split_first swap_op ops of
             None \<Rightarrow> Rejected (v1 @ [''no pathPaymentStrictSend operation (found: '' @ types_seen ops @ '')''])
           | Some (swapOp, extraOps) \<Rightarrow>
               validation_result (v1 @ operation_set_violations intent ops extraOps
                 @ payment_violations intent swapOp)))"

section \<open>The swap an intent describes\<close>

text \<open>
  The abstract promise: the amounts are compared as the numbers the texts write, and the operation
  list is the swap alone or, when the intent permits a trustline, the swap and one ChangeTrust for
  that asset on either side of it.
\<close>

definition valid_amount :: "nat \<Rightarrow> string \<Rightarrow> bool" where
  "valid_amount d s \<longleftrightarrow> amount_text (trim s) \<and> length (snd (amount_parts (trim s))) \<le> d"

definition payment_intended :: "SwapIntent \<Rightarrow> PathPaymentStrictSend \<Rightarrow> bool" where
  "payment_intended i p \<longleftrightarrow>
     own_source (p_source p) (s_sourceAccount i)
     \<and> p_destination p = s_sourceAccount i
     \<and> assetMatches (p_sendAsset p) (s_sendAsset i)
     \<and> assetMatches (p_destAsset p) (s_destAsset i)
     \<and> valid_amount 7 (p_sendAmount p) \<and> valid_amount 7 (s_sendAmount i)
     \<and> amount_value (p_sendAmount p) = amount_value (s_sendAmount i)
     \<and> valid_amount 7 (p_destMin p) \<and> valid_amount 7 (s_destMin i)
     \<and> amount_value (s_destMin i) \<le> amount_value (p_destMin p)"

definition trustline_permitted :: "SwapIntent \<Rightarrow> ChangeTrust \<Rightarrow> bool" where
  "trustline_permitted i ct \<longleftrightarrow>
     own_source (ct_source ct) (s_sourceAccount i)
     \<and> (\<exists>code issuer. allowTrustlineFor i = Some (IdCredit code issuer)
          \<and> ct_line ct = LineAsset (AssetCredit code issuer))"

definition swap_intended :: "SwapIntent \<Rightarrow> DecodedTx \<Rightarrow> bool" where
  "swap_intended i tx \<longleftrightarrow>
     (\<exists>p. payment_intended i p \<and>
        (tx_operations tx = [OpPathPaymentStrictSend p]
         \<or> (\<exists>ct. trustline_permitted i ct \<and>
              (tx_operations tx = [OpChangeTrust ct, OpPathPaymentStrictSend p]
               \<or> tx_operations tx = [OpPathPaymentStrictSend p, OpChangeTrust ct]))))"

lemma valid_amount_iff: "valid_amount d s \<longleftrightarrow> scale_amount s d \<noteq> None"
  by (simp add: scale_amount_cases valid_amount_def)

lemma send_amount_Nil:
  "send_amount_violations i p = [] \<longleftrightarrow>
     valid_amount 7 (p_sendAmount p) \<and> valid_amount 7 (s_sendAmount i)
     \<and> amount_value (p_sendAmount p) = amount_value (s_sendAmount i)"
  using scale_amount_eq_iff [of "p_sendAmount p" 7 _ "s_sendAmount i"]
  by (auto simp: send_amount_violations_def toStroops_def STELLAR_DECIMALS_def valid_amount_iff
      split: option.splits)

lemma dest_min_Nil:
  "dest_min_violations i p = [] \<longleftrightarrow>
     valid_amount 7 (p_destMin p) \<and> valid_amount 7 (s_destMin i)
     \<and> amount_value (s_destMin i) \<le> amount_value (p_destMin p)"
  using scale_amount_le_iff [of "s_destMin i" 7 _ "p_destMin p"]
  by (auto simp: dest_min_violations_def toStroops_def STELLAR_DECIMALS_def valid_amount_iff not_less
      split: option.splits)

lemma payment_Nil: "payment_violations i p = [] \<longleftrightarrow> payment_intended i p"
  by (auto simp: payment_violations_def payment_intended_def send_amount_Nil dest_min_Nil)

lemma changeTrustMatches_iff:
  "changeTrustMatches ct a \<longleftrightarrow> (\<exists>code issuer. a = IdCredit code issuer \<and> ct_line ct = LineAsset (AssetCredit code issuer))"
  by (cases a) (auto split: trust_line.splits sdk_asset.splits)

lemma extra_op_Nil:
  "allowTrustlineFor i = Some a \<Longrightarrow>
     extra_op_violations (s_sourceAccount i) a op = [] \<longleftrightarrow> (\<exists>ct. op = OpChangeTrust ct \<and> trustline_permitted i ct)"
  by (auto simp: extra_op_violations_def trustline_permitted_def changeTrustMatches_iff split: operation.splits)

lemma operation_set_Nil:
  assumes "length ops = Suc (length extra)"
  shows "operation_set_violations i ops extra = [] \<longleftrightarrow>
    extra = [] \<or> (\<exists>ct. extra = [OpChangeTrust ct] \<and> trustline_permitted i ct)"
proof (cases "allowTrustlineFor i")
  case None
  then show ?thesis using assms by (auto simp: operation_set_violations_def trustline_permitted_def)
next
  case (Some a)
  show ?thesis
    using extra_op_Nil [OF Some]
    by (cases extra rule: remdups_adj.cases) (auto simp: operation_set_violations_def Some)
qed

lemma swap_op_iff: "swap_op op = Some p \<longleftrightarrow> op = OpPathPaymentStrictSend p"
  by (cases op) auto

lemma split_first_swap:
  "split_first swap_op ops = Some (p, [OpChangeTrust ct]) \<longleftrightarrow>
     ops = [OpChangeTrust ct, OpPathPaymentStrictSend p] \<or> ops = [OpPathPaymentStrictSend p, OpChangeTrust ct]"
proof
  assume "split_first swap_op ops = Some (p, [OpChangeTrust ct])"
  from split_first_Some [OF this] obtain before op after where
    o: "ops = before @ op # after" "swap_op op = Some p" "[OpChangeTrust ct] = before @ after" by blast
  then show "ops = [OpChangeTrust ct, OpPathPaymentStrictSend p] \<or> ops = [OpPathPaymentStrictSend p, OpChangeTrust ct]"
    by (cases before) (auto simp: swap_op_iff)
qed auto

text \<open>The gate accepts exactly the intended swap.\<close>

lemma swap_intended_iff:
  "swap_intended i tx \<longleftrightarrow>
     (\<exists>p extra. split_first swap_op (tx_operations tx) = Some (p, extra)
        \<and> payment_intended i p
        \<and> (extra = [] \<or> (\<exists>ct. extra = [OpChangeTrust ct] \<and> trustline_permitted i ct)))"
  by (auto simp: swap_intended_def split_first_swap split_first_rest_Nil swap_op_iff)

lemma validateSwapXdr_Ok:
  "validateSwapXdr sdk xdr i = Ok \<longleftrightarrow>
     s_networkPassphrase i \<in> set (RECOGNIZED_NETWORKS sdk) \<and>
     (\<exists>tx. fromXDR sdk xdr (s_networkPassphrase i) = Some (Classic tx)
        \<and> tx_source tx = s_sourceAccount i \<and> fee_within MAX_FEE_STROOPS tx \<and> swap_intended i tx)"
proof (cases "fromXDR sdk xdr (s_networkPassphrase i)")
  case (Some e)
  show ?thesis
  proof (cases e)
    case (Classic tx)
    show ?thesis
    proof (cases "split_first swap_op (tx_operations tx)")
      case None
      then show ?thesis by (simp add: validateSwapXdr_def Some Classic swap_intended_iff)
    next
      case split: (Some pe)
      obtain p extra where pe: "pe = (p, extra)" by (cases pe)
      have "length (tx_operations tx) = Suc (length extra)" using split pe split_first_length by simp
      from operation_set_Nil [OF this, of i] show ?thesis
        by (auto simp: validateSwapXdr_def Some Classic swap_intended_iff split pe payment_Nil)
    qed
  qed (simp add: validateSwapXdr_def Some)
qed (simp add: validateSwapXdr_def)

interpretation swap: signing_gate validateSwapXdr s_networkPassphrase s_sourceAccount swap_intended MAX_FEE_STROOPS
  by unfold_locales (rule validateSwapXdr_Ok)

end
