(* ===== verification/Submit_Gate.thy ===== *)
theory Submit_Gate
  imports Swap_Gate
begin

text \<open>
  \<open>apps/web/src/lib/validateDepositXdr.ts\<close>: the checks that the envelope the API returned is
  exactly the Blend deposit, the Blend withdraw or the trustline the user asked for. The deposit and
  withdraw gates are one check with the request type as its argument.
\<close>

definition SUPPLY_COLLATERAL :: int where
  "SUPPLY_COLLATERAL = 2"

definition WITHDRAW_COLLATERAL :: int where
  "WITHDRAW_COLLATERAL = 3"

definition MAX_DEPOSIT_FEE_STROOPS :: int where
  "MAX_DEPOSIT_FEE_STROOPS = 20000000"

definition MAX_TRUSTLINE_FEE_STROOPS :: int where
  "MAX_TRUSTLINE_FEE_STROOPS = 100000"

record BlendSubmitIntent =
  b_sourceAccount :: string
  poolId :: string
  assetSac :: string
  b_amount :: string
  b_decimals :: jsnum
  b_networkPassphrase :: string

record TrustlineIntent =
  t_sourceAccount :: string
  t_asset_code :: string
  t_asset_issuer :: string
  t_networkPassphrase :: string

text \<open>\<open>Number.isInteger(decimals) && decimals >= 0\<close>, and the natural number it is.\<close>

fun decimals_nat :: "jsnum \<Rightarrow> nat option" where
  "decimals_nat (Num q) = (if 0 \<le> q \<and> of_int \<lfloor>q\<rfloor> = q then Some (nat \<lfloor>q\<rfloor>) else None)"
| "decimals_nat _ = None"

definition toScaled :: "string \<Rightarrow> jsnum \<Rightarrow> int option" where
  "toScaled amount decimals = (case decimals_nat decimals of None \<Rightarrow> None | Some d \<Rightarrow> scale_amount amount d)"

text \<open>The violations so far and the decoded transaction, if there is one to inspect further.\<close>

definition decodeAndPreflight :: "Sdk \<Rightarrow> string \<Rightarrow> string \<Rightarrow> string \<Rightarrow> int \<Rightarrow> string list \<times> DecodedTx option" where
  "decodeAndPreflight sdk xdr sourceAccount passphrase maxFeeStroops =
     (let v0 = network_violations sdk passphrase in
      case fromXDR sdk xdr passphrase of
        None \<Rightarrow> (v0 @ [''unparseable XDR''], None)
      | Some FeeBump \<Rightarrow> (v0 @ [''unexpected fee-bump transaction wrapper''], None)
      | Some (Classic tx) \<Rightarrow>
          (v0 @ source_violations sourceAccount tx @ fee_violations maxFeeStroops [] tx, Some tx))"

fun invoke_op :: "operation \<Rightarrow> InvokeHostFunction option" where
  "invoke_op (OpInvokeHostFunction i) = Some i"
| "invoke_op _ = None"

definition call_violations :: "BlendSubmitIntent \<Rightarrow> ContractCall \<Rightarrow> string list" where
  "call_violations intent c =
     push_if (contractId c \<noteq> poolId intent)
       (''pool contract mismatch: expected '' @ poolId intent @ '', got '' @ contractId c)
     @ push_if (fnName c \<noteq> ''submit'')
       (''unexpected contract function: expected '' @ [CHR 0x22] @ ''submit'' @ [CHR 0x22] @ '', got ''
        @ [CHR 0x22] @ fnName c @ [CHR 0x22])"

text \<open>The four arguments, when there are four and \<open>scValToNative\<close> reads each of them; arguments
  beyond the fourth are not looked at.\<close>

fun submit_args :: "native option list \<Rightarrow> (native \<times> native \<times> native \<times> native) option" where
  "submit_args (Some a # Some b # Some c # Some d # rest) = Some (a, b, c, d)"
| "submit_args _ = None"

definition party_violations :: "string \<Rightarrow> string \<Rightarrow> native \<Rightarrow> string list" where
  "party_violations label user v =
     push_if (v \<noteq> NString user) (label @ '' mismatch: expected '' @ user @ '', got '' @ js_String v)"

definition request_amount_violations :: "BlendSubmitIntent \<Rightarrow> native \<Rightarrow> string list" where
  "request_amount_violations intent req =
     (case (toScaled (b_amount intent) (b_decimals intent), js_BigInt (get_property req ''amount'')) of
        (Some expected, Some actual) \<Rightarrow>
          push_if (actual \<noteq> expected)
            (''request amount mismatch: expected '' @ int_text expected @ '' (scaled), got '' @ int_text actual)
      | _ \<Rightarrow> [''request amount not a valid amount: xdr='' @ js_String (get_property req ''amount'')
               @ '', intent='' @ b_amount intent])"

definition request_violations :: "BlendSubmitIntent \<Rightarrow> int \<Rightarrow> string \<Rightarrow> native \<Rightarrow> string list" where
  "request_violations intent expectedRequestType requestTypeLabel req =
     push_if (js_Number_of (get_property req ''request_type'') \<noteq> jsint expectedRequestType)
       (''request_type mismatch: expected '' @ requestTypeLabel @ '' ('' @ int_text expectedRequestType
        @ ''), got '' @ js_String (get_property req ''request_type''))
     @ push_if (get_property req ''address'' \<noteq> NString (assetSac intent))
       (''request asset mismatch: expected SAC '' @ assetSac intent @ '', got ''
        @ js_String (get_property req ''address''))
     @ request_amount_violations intent req"

text \<open>From the decoded arguments on: the parties, the request list and its first request.\<close>

definition submit_call_result ::
  "BlendSubmitIntent \<Rightarrow> int \<Rightarrow> string \<Rightarrow> string list \<Rightarrow> native \<times> native \<times> native \<times> native \<Rightarrow> ValidationResult" where
  "submit_call_result intent expectedRequestType requestTypeLabel v args =
     (let (frm, spender, to, requests) = args;
          user = b_sourceAccount intent;
          v1 = v @ party_violations ''from'' user frm @ party_violations ''spender'' user spender
                 @ party_violations ''to'' user to in
      case requests of
        NArray reqs \<Rightarrow>
          (let v2 = v1 @ push_if (length reqs \<noteq> 1)
                          (''expected exactly 1 request, found '' @ count_text (length reqs));
               req = (case reqs of [] \<Rightarrow> NUndefined | r # rs \<Rightarrow> r) in
           if \<not> is_object req then Rejected (v2 @ [''submit request is missing or malformed''])
           else validation_result (v2 @ request_violations intent expectedRequestType requestTypeLabel req))
      | _ \<Rightarrow> Rejected (v1 @ [''submit requests is not a list'']))"

definition validateSubmitXdr ::
  "int \<Rightarrow> string \<Rightarrow> Sdk \<Rightarrow> string \<Rightarrow> BlendSubmitIntent \<Rightarrow> ValidationResult" where
  "validateSubmitXdr expectedRequestType requestTypeLabel sdk xdr intent =
     (let (v0, decoded) = decodeAndPreflight sdk xdr (b_sourceAccount intent) (b_networkPassphrase intent)
                            MAX_DEPOSIT_FEE_STROOPS in
      case decoded of
        None \<Rightarrow> Rejected v0
      | Some tx \<Rightarrow>
          (let ops = tx_operations tx in
           case split_first invoke_op ops of
             None \<Rightarrow> Rejected (v0 @ [''no invokeHostFunction operation (found: '' @ types_seen ops @ '')''])
           | Some (invokeOp, _) \<Rightarrow>
               (let v1 = v0 @ push_if (length ops \<noteq> 1)
                                (''expected exactly 1 operation, found '' @ count_text (length ops))
                            @ op_source_violations ''operation'' (ih_source invokeOp) (b_sourceAccount intent) in
                case ih_func invokeOp of
                  None \<Rightarrow> Rejected (v1 @ [''host function is not a contract call (invokeContract)''])
                | Some c \<Rightarrow>
                    (let v2 = v1 @ call_violations intent c in
                     if length (call_args c) < 4
                     then Rejected (v2 @ [''malformed submit args: expected 4, found '' @ count_text (length (call_args c))])
                     else (case submit_args (call_args c) of
                         None \<Rightarrow> Rejected (v2 @ [''unable to decode submit arguments''])
                       | Some args \<Rightarrow>
                           submit_call_result intent expectedRequestType requestTypeLabel v2 args)))))"

definition validateDepositXdr :: "Sdk \<Rightarrow> string \<Rightarrow> BlendSubmitIntent \<Rightarrow> ValidationResult" where
  "validateDepositXdr = validateSubmitXdr SUPPLY_COLLATERAL ''SupplyCollateral''"

definition validateWithdrawXdr :: "Sdk \<Rightarrow> string \<Rightarrow> BlendSubmitIntent \<Rightarrow> ValidationResult" where
  "validateWithdrawXdr = validateSubmitXdr WITHDRAW_COLLATERAL ''WithdrawCollateral''"

fun change_trust_op :: "operation \<Rightarrow> ChangeTrust option" where
  "change_trust_op (OpChangeTrust c) = Some c"
| "change_trust_op _ = None"

definition trustlineMatches :: "ChangeTrust \<Rightarrow> string \<Rightarrow> string \<Rightarrow> bool" where
  "trustlineMatches op code issuer =
     (case ct_line op of
        LineOther \<Rightarrow> False
      | LineAsset AssetNative \<Rightarrow> False
      | LineAsset (AssetCredit c i) \<Rightarrow> c = code \<and> i = issuer)"

definition validateTrustlineXdr :: "Sdk \<Rightarrow> string \<Rightarrow> TrustlineIntent \<Rightarrow> ValidationResult" where
  "validateTrustlineXdr sdk xdr intent =
     (let (v0, decoded) = decodeAndPreflight sdk xdr (t_sourceAccount intent) (t_networkPassphrase intent)
                            MAX_TRUSTLINE_FEE_STROOPS in
      case decoded of
        None \<Rightarrow> Rejected v0
      | Some tx \<Rightarrow>
          (let ops = tx_operations tx in
           case split_first change_trust_op ops of
             None \<Rightarrow> Rejected (v0 @ [''no changeTrust operation (found: '' @ types_seen ops @ '')''])
           | Some (ctOp, _) \<Rightarrow>
               validation_result (v0
                 @ push_if (length ops \<noteq> 1)
                     (''expected exactly 1 operation, found '' @ count_text (length ops))
                 @ op_source_violations ''operation'' (ct_source ctOp) (t_sourceAccount intent)
                 @ push_if (\<not> trustlineMatches ctOp (t_asset_code intent) (t_asset_issuer intent))
                     (''changeTrust asset mismatch: expected '' @ t_asset_code intent @ '':''
                      @ t_asset_issuer intent @ '', got '' @ line_label (ct_line ctOp)))))"

section \<open>The transactions the intents describe\<close>

definition request_intended :: "int \<Rightarrow> BlendSubmitIntent \<Rightarrow> native \<Rightarrow> bool" where
  "request_intended typ i req \<longleftrightarrow>
     is_object req
     \<and> js_Number_of (get_property req ''request_type'') = jsint typ
     \<and> get_property req ''address'' = NString (assetSac i)
     \<and> (\<exists>d units. decimals_nat (b_decimals i) = Some d \<and> valid_amount d (b_amount i)
          \<and> js_BigInt (get_property req ''amount'') = Some units
          \<and> of_int units = amount_value (b_amount i) * 10 ^ d)"

definition submit_intended :: "int \<Rightarrow> BlendSubmitIntent \<Rightarrow> DecodedTx \<Rightarrow> bool" where
  "submit_intended typ i tx \<longleftrightarrow>
     (\<exists>ih c req.
        tx_operations tx = [OpInvokeHostFunction ih]
        \<and> own_source (ih_source ih) (b_sourceAccount i)
        \<and> ih_func ih = Some c
        \<and> contractId c = poolId i \<and> fnName c = ''submit''
        \<and> take 4 (call_args c) =
            [Some (NString (b_sourceAccount i)), Some (NString (b_sourceAccount i)),
             Some (NString (b_sourceAccount i)), Some (NArray [req])]
        \<and> request_intended typ i req)"

definition trustline_intended :: "TrustlineIntent \<Rightarrow> DecodedTx \<Rightarrow> bool" where
  "trustline_intended i tx \<longleftrightarrow>
     (\<exists>ct. tx_operations tx = [OpChangeTrust ct]
        \<and> own_source (ct_source ct) (t_sourceAccount i)
        \<and> ct_line ct = LineAsset (AssetCredit (t_asset_code i) (t_asset_issuer i)))"

lemma scale_amount_iff:
  "scale_amount a d = Some k \<longleftrightarrow> valid_amount d a \<and> of_int k = amount_value a * 10 ^ d"
proof
  assume "valid_amount d a \<and> of_int k = amount_value a * 10 ^ d"
  then obtain m where m: "scale_amount a d = Some m" and k: "of_int k = amount_value a * 10 ^ d"
    by (auto simp: valid_amount_iff)
  have "(of_int m :: rat) = of_int k" using scale_amount_Some [OF m] k by simp
  then show "scale_amount a d = Some k" using m by simp
qed (simp add: valid_amount_iff scale_amount_Some)

lemma toScaled_units:
  "toScaled a n = Some k \<longleftrightarrow>
     (\<exists>d. decimals_nat n = Some d \<and> valid_amount d a \<and> of_int k = amount_value a * 10 ^ d)"
  by (auto simp: toScaled_def scale_amount_iff split: option.splits)

lemma request_Nil:
  "is_object req \<Longrightarrow> request_violations i typ l req = [] \<longleftrightarrow> request_intended typ i req"
proof -
  assume "is_object req"
  have "request_amount_violations i req = [] \<longleftrightarrow>
      (\<exists>k. js_BigInt (get_property req ''amount'') = Some k \<and> toScaled (b_amount i) (b_decimals i) = Some k)"
    by (auto simp: request_amount_violations_def split: option.splits)
  then show ?thesis using \<open>is_object req\<close>
    by (auto simp: request_violations_def request_intended_def toScaled_units)
qed

lemma party_Nil [simp]: "party_violations l user v = [] \<longleftrightarrow> v = NString user"
  by (simp add: party_violations_def)

lemma call_Nil [simp]: "call_violations i c = [] \<longleftrightarrow> contractId c = poolId i \<and> fnName c = ''submit''"
  by (simp add: call_violations_def)

lemma submit_call_Ok:
  "submit_call_result i typ l v (a, b, c, d) = Ok \<longleftrightarrow>
     v = [] \<and> a = NString (b_sourceAccount i) \<and> b = NString (b_sourceAccount i)
     \<and> c = NString (b_sourceAccount i) \<and> (\<exists>req. d = NArray [req] \<and> request_intended typ i req)"
proof (cases d)
  case (NArray reqs)
  show ?thesis
  proof (cases reqs)
    case (Cons r rs)
    then show ?thesis
      using request_Nil [of r i "typ" l]
      by (cases "is_object r") (auto simp: submit_call_result_def NArray Let_def request_intended_def [of _ _ r])
  qed (auto simp: submit_call_result_def NArray Let_def)
qed (simp_all add: submit_call_result_def Let_def)

lemma submit_args_Some:
  "submit_args as = Some (a, b, c, d) \<longleftrightarrow> take 4 as = [Some a, Some b, Some c, Some d]"
  by (cases "as" rule: submit_args.cases) (auto simp: numeral_eq_Suc)

lemma decodeAndPreflight_Some:
  "decodeAndPreflight sdk x user p cap = (v, Some tx) \<longleftrightarrow>
     fromXDR sdk x p = Some (Classic tx)
     \<and> v = network_violations sdk p @ source_violations user tx @ fee_violations cap [] tx"
  by (auto simp: decodeAndPreflight_def Let_def split: option.splits envelope.splits)

lemma invoke_op_iff: "invoke_op op = Some p \<longleftrightarrow> op = OpInvokeHostFunction p"
  by (cases op) auto

lemma change_trust_op_iff: "change_trust_op op = Some p \<longleftrightarrow> op = OpChangeTrust p"
  by (cases op) auto

lemma sole_operation:
  "split_first f ops = Some (a, rest) \<Longrightarrow> length ops = 1 \<longleftrightarrow> rest = []"
  by (auto dest: split_first_length)

lemma validateSubmitXdr_Ok:
  "validateSubmitXdr typ l sdk x i = Ok \<longleftrightarrow>
     b_networkPassphrase i \<in> set (RECOGNIZED_NETWORKS sdk) \<and>
     (\<exists>tx. fromXDR sdk x (b_networkPassphrase i) = Some (Classic tx)
        \<and> tx_source tx = b_sourceAccount i \<and> fee_within MAX_DEPOSIT_FEE_STROOPS tx \<and> submit_intended typ i tx)"
proof (cases "snd (decodeAndPreflight sdk x (b_sourceAccount i) (b_networkPassphrase i) MAX_DEPOSIT_FEE_STROOPS)")
  case None
  then obtain v where v: "decodeAndPreflight sdk x (b_sourceAccount i) (b_networkPassphrase i) MAX_DEPOSIT_FEE_STROOPS = (v, None)"
    by (metis prod.collapse)
  then have "\<nexists>tx. fromXDR sdk x (b_networkPassphrase i) = Some (Classic tx)"
    by (auto simp: decodeAndPreflight_def Let_def)
  then show ?thesis by (simp add: validateSubmitXdr_def v)
next
  case (Some tx)
  then obtain v where v: "decodeAndPreflight sdk x (b_sourceAccount i) (b_networkPassphrase i) MAX_DEPOSIT_FEE_STROOPS = (v, Some tx)"
    by (metis prod.collapse)
  note pre = this [unfolded decodeAndPreflight_Some]
  have intended: "submit_intended typ i tx \<longleftrightarrow>
      (\<exists>ih c. split_first invoke_op (tx_operations tx) = Some (ih, [])
        \<and> own_source (ih_source ih) (b_sourceAccount i) \<and> ih_func ih = Some c
        \<and> contractId c = poolId i \<and> fnName c = ''submit''
        \<and> (\<exists>req. take 4 (call_args c) =
            [Some (NString (b_sourceAccount i)), Some (NString (b_sourceAccount i)),
             Some (NString (b_sourceAccount i)), Some (NArray [req])] \<and> request_intended typ i req))"
    by (auto simp: submit_intended_def split_first_rest_Nil invoke_op_iff)
  have few: "length as < 4 \<Longrightarrow> submit_args as = None" for as :: "native option list"
    by (cases "as" rule: submit_args.cases) auto
  show ?thesis
  proof (cases "split_first invoke_op (tx_operations tx)")
    case None
    then show ?thesis using pre intended by (simp add: validateSubmitXdr_def v)
  next
    case split: (Some pe)
    obtain ih rest where pe: "pe = (ih, rest)" by (cases pe)
    note sole = sole_operation [OF split [unfolded pe]]
    show ?thesis
    proof (cases "ih_func ih")
      case None
      then show ?thesis using pre intended by (simp add: validateSubmitXdr_def v split pe Let_def)
    next
      case (Some c)
      show ?thesis
      proof (cases "submit_args (call_args c)")
        case None
        then have "take 4 (call_args c) \<noteq> [Some a1, Some a2, Some a3, Some a4]" for a1 a2 a3 a4
          by (simp flip: submit_args_Some)
        then show ?thesis using pre intended None
          by (simp add: validateSubmitXdr_def v split pe Some Let_def)
      next
        case args: (Some q)
        obtain a1 a2 a3 a4 where q: "q = (a1, a2, a3, a4)" by (cases q)
        have enough: "\<not> length (call_args c) < 4" using few args by fastforce
        have t: "take 4 (call_args c) = [Some a1, Some a2, Some a3, Some a4]"
          using args q by (simp add: submit_args_Some)
        show ?thesis using pre intended sole
          by (auto simp: validateSubmitXdr_def v split pe Some args q submit_call_Ok enough t Let_def)
      qed
    qed
  qed
qed

lemma validateTrustlineXdr_Ok:
  "validateTrustlineXdr sdk x i = Ok \<longleftrightarrow>
     t_networkPassphrase i \<in> set (RECOGNIZED_NETWORKS sdk) \<and>
     (\<exists>tx. fromXDR sdk x (t_networkPassphrase i) = Some (Classic tx)
        \<and> tx_source tx = t_sourceAccount i \<and> fee_within MAX_TRUSTLINE_FEE_STROOPS tx \<and> trustline_intended i tx)"
proof -
  let ?pre = "decodeAndPreflight sdk x (t_sourceAccount i) (t_networkPassphrase i) MAX_TRUSTLINE_FEE_STROOPS"
  have m: "trustlineMatches ct c s \<longleftrightarrow> ct_line ct = LineAsset (AssetCredit c s)" for ct c s
    by (auto simp: trustlineMatches_def split: trust_line.splits sdk_asset.splits)
  have intended: "trustline_intended i tx \<longleftrightarrow>
      (\<exists>ct. split_first change_trust_op (tx_operations tx) = Some (ct, [])
        \<and> own_source (ct_source ct) (t_sourceAccount i)
        \<and> ct_line ct = LineAsset (AssetCredit (t_asset_code i) (t_asset_issuer i)))" for tx
    by (auto simp: trustline_intended_def split_first_rest_Nil change_trust_op_iff)
  show ?thesis
  proof (cases "snd ?pre")
    case None
    then obtain v where v: "?pre = (v, None)" by (metis prod.collapse)
    then have "\<nexists>tx. fromXDR sdk x (t_networkPassphrase i) = Some (Classic tx)"
      by (auto simp: decodeAndPreflight_def Let_def)
    then show ?thesis by (simp add: validateTrustlineXdr_def v)
  next
    case (Some tx)
    then obtain v where v: "?pre = (v, Some tx)" by (metis prod.collapse)
    note pre = this [unfolded decodeAndPreflight_Some]
    show ?thesis
    proof (cases "split_first change_trust_op (tx_operations tx)")
      case None
      then show ?thesis using pre intended by (simp add: validateTrustlineXdr_def v)
    next
      case split: (Some pe)
      obtain ct rest where pe: "pe = (ct, rest)" by (cases pe)
      show ?thesis using pre intended sole_operation [OF split [unfolded pe]]
        by (auto simp: validateTrustlineXdr_def v split pe m Let_def)
    qed
  qed
qed

interpretation deposit: signing_gate validateDepositXdr b_networkPassphrase b_sourceAccount
    "submit_intended SUPPLY_COLLATERAL" MAX_DEPOSIT_FEE_STROOPS
  by unfold_locales (simp only: validateDepositXdr_def validateSubmitXdr_Ok)

interpretation withdraw: signing_gate validateWithdrawXdr b_networkPassphrase b_sourceAccount
    "submit_intended WITHDRAW_COLLATERAL" MAX_DEPOSIT_FEE_STROOPS
  by unfold_locales (simp only: validateWithdrawXdr_def validateSubmitXdr_Ok)

interpretation trustline: signing_gate validateTrustlineXdr t_networkPassphrase t_sourceAccount
    trustline_intended MAX_TRUSTLINE_FEE_STROOPS
  by unfold_locales (rule validateTrustlineXdr_Ok)

lemma submit_intended_type:
  "submit_intended t1 i tx \<Longrightarrow> submit_intended t2 j tx \<Longrightarrow> t1 = t2"
  by (auto simp: submit_intended_def request_intended_def)

interpretation submit: disjoint_gates validateDepositXdr validateWithdrawXdr b_networkPassphrase b_sourceAccount
    "submit_intended SUPPLY_COLLATERAL" "submit_intended WITHDRAW_COLLATERAL"
    MAX_DEPOSIT_FEE_STROOPS MAX_DEPOSIT_FEE_STROOPS
proof unfold_locales
  fix i j :: BlendSubmitIntent and tx
  assume a: "submit_intended SUPPLY_COLLATERAL i tx"
  show "\<not> submit_intended WITHDRAW_COLLATERAL j tx"
  proof
    assume "submit_intended WITHDRAW_COLLATERAL j tx"
    from submit_intended_type [OF a this] show False by (simp add: SUPPLY_COLLATERAL_def WITHDRAW_COLLATERAL_def)
  qed
qed

end
