(* ===== verification/Gate_Properties.thy ===== *)
theory Gate_Properties
  imports Submit_Gate
begin

text \<open>
  The properties of the signing gates: what an accepted envelope contains, what no gate accepts,
  and the exactness of the amounts they compare.
\<close>

section \<open>A concrete envelope\<close>

definition gx_user :: string where
  "gx_user = ''GUSER''"

definition gx_payment :: PathPaymentStrictSend where
  "gx_payment =
     \<lparr>p_source = None, p_sendAsset = AssetNative, p_sendAmount = ''10.0000000'', p_destination = gx_user,
      p_destAsset = AssetCredit ''USDC'' ''GISSUER'', p_destMin = ''0.99'', p_path = []\<rparr>"

definition gx_trust :: ChangeTrust where
  "gx_trust = \<lparr>ct_source = None, ct_line = LineAsset (AssetCredit ''USDC'' ''GISSUER''), ct_limit = ''1''\<rparr>"

definition gx_request :: native where
  "gx_request = NObject [(''address'', NString ''CSAC''), (''amount'', NBigInt 15000000), (''request_type'', NNumber 2)]"

definition gx_call :: ContractCall where
  "gx_call = \<lparr>contractId = ''CPOOL'', fnName = ''submit'',
     call_args = [Some (NString gx_user), Some (NString gx_user), Some (NString gx_user), Some (NArray [gx_request])]\<rparr>"

definition gx_tx :: "operation list \<Rightarrow> DecodedTx" where
  "gx_tx ops = \<lparr>tx_source = gx_user, tx_fee = ''200'', tx_operations = ops\<rparr>"

text \<open>An SDK that decodes three envelope texts.\<close>

definition gx_sdk :: Sdk where
  "gx_sdk =
     \<lparr>fromXDR = (\<lambda>x p.
        if x = ''swap'' then Some (Classic (gx_tx [OpChangeTrust gx_trust, OpPathPaymentStrictSend gx_payment]))
        else if x = ''trailing'' then Some (Classic (gx_tx [OpPathPaymentStrictSend gx_payment, OpChangeTrust gx_trust]))
        else if x = ''deposit'' then Some (Classic (gx_tx [OpInvokeHostFunction \<lparr>ih_source = None, ih_func = Some gx_call\<rparr>]))
        else None),
      Networks_TESTNET = ''Test SDF Network ; September 2015'',
      Networks_PUBLIC = ''Public Global Stellar Network ; September 2015''\<rparr>"

definition gx_swap :: SwapIntent where
  "gx_swap =
     \<lparr>s_sourceAccount = gx_user, s_sendAsset = IdNative, s_sendAmount = '' 10'',
      s_destAsset = IdCredit ''USDC'' ''GISSUER'', s_destMin = ''0.99'',
      s_networkPassphrase = Networks_PUBLIC gx_sdk, allowTrustlineFor = Some (IdCredit ''USDC'' ''GISSUER'')\<rparr>"

definition gx_deposit :: BlendSubmitIntent where
  "gx_deposit =
     \<lparr>b_sourceAccount = gx_user, poolId = ''CPOOL'', assetSac = ''CSAC'', b_amount = ''1.5'',
      b_decimals = jsint 7, b_networkPassphrase = Networks_PUBLIC gx_sdk\<rparr>"

lemma gx_trailing_Ok: "validateSwapXdr gx_sdk ''trailing'' gx_swap = Ok"
  by code_simp

lemma gx_deposit_Ok: "validateDepositXdr gx_sdk ''deposit'' gx_deposit = Ok"
  by code_simp

section \<open>What the gates let through\<close>

text \<open>C24: the swap gate accepts an envelope exactly when it decodes, under a passphrase the
  application signs on, to a classic transaction of the user's account with a fee between 0 and
  100000 stroops whose operations are the user's swap (same assets by code and issuer, the sold
  amount equal as a number, a minimum received at least the accepted one, paid to the user), alone
  or with one ChangeTrust for the permitted asset.\<close>

theorem swap_gate_exact:
  "validateSwapXdr sdk xdr i = Ok \<longleftrightarrow>
     s_networkPassphrase i \<in> set (RECOGNIZED_NETWORKS sdk) \<and>
     (\<exists>tx. fromXDR sdk xdr (s_networkPassphrase i) = Some (Classic tx)
        \<and> tx_source tx = s_sourceAccount i \<and> fee_within 100000 tx \<and> swap_intended i tx)"
  using swap.accepts by (simp only: MAX_FEE_STROOPS_def)

text \<open>C25: the deposit and withdraw gates accept an envelope exactly when it decodes to one
  \<open>submit\<close> call on the user's pool with the user as from, spender and to, and one request of the
  gate's own type against the intended asset for the intended amount scaled by the asset's
  decimals.\<close>

theorem submit_gates_exact:
  "(validateDepositXdr sdk xdr i = Ok \<longleftrightarrow>
      b_networkPassphrase i \<in> set (RECOGNIZED_NETWORKS sdk) \<and>
      (\<exists>tx. fromXDR sdk xdr (b_networkPassphrase i) = Some (Classic tx)
         \<and> tx_source tx = b_sourceAccount i \<and> fee_within 20000000 tx \<and> submit_intended 2 i tx))
   \<and> (validateWithdrawXdr sdk xdr i = Ok \<longleftrightarrow>
      b_networkPassphrase i \<in> set (RECOGNIZED_NETWORKS sdk) \<and>
      (\<exists>tx. fromXDR sdk xdr (b_networkPassphrase i) = Some (Classic tx)
         \<and> tx_source tx = b_sourceAccount i \<and> fee_within 20000000 tx \<and> submit_intended 3 i tx))"
  using deposit.accepts withdraw.accepts
  by (simp only: MAX_DEPOSIT_FEE_STROOPS_def SUPPLY_COLLATERAL_def WITHDRAW_COLLATERAL_def)

text \<open>An envelope the deposit gate accepts is refused by the withdraw gate, whatever pool,
  asset and amount the withdraw intent names.\<close>

theorem deposit_withdraw_exclusive:
  assumes "b_networkPassphrase i = b_networkPassphrase j"
    and "validateDepositXdr sdk xdr i = Ok"
  shows "\<exists>vs. validateWithdrawXdr sdk xdr j = Rejected vs \<and> vs \<noteq> []"
proof -
  have no: "validateWithdrawXdr sdk xdr j \<noteq> Ok" by (rule submit.exclusive [OF assms])
  then obtain vs where vs: "validateWithdrawXdr sdk xdr j = Rejected vs"
    by (cases "validateWithdrawXdr sdk xdr j") auto
  have "vs \<noteq> []"
    using vs unfolding validateWithdrawXdr_def validateSubmitXdr_def
    by (auto simp: Let_def submit_call_result_def validation_result_def decodeAndPreflight_def
        split: prod.splits option.splits if_splits native.splits envelope.splits)
  with vs show ?thesis by blast
qed

theorem deposit_withdraw_exclusive_witness:
  "\<exists>vs. validateWithdrawXdr gx_sdk ''deposit'' gx_deposit = Rejected vs \<and> vs \<noteq> []"
  by (rule deposit_withdraw_exclusive [OF refl gx_deposit_Ok])

text \<open>The trustline gate accepts an envelope exactly when it decodes to a classic transaction of
  the user's account, with a fee between 0 and 100000 stroops, whose only operation is a ChangeTrust
  for the intended asset, by code and issuer.\<close>

theorem trustline_gate_exact:
  "validateTrustlineXdr sdk xdr i = Ok \<longleftrightarrow>
     t_networkPassphrase i \<in> set (RECOGNIZED_NETWORKS sdk) \<and>
     (\<exists>tx. fromXDR sdk xdr (t_networkPassphrase i) = Some (Classic tx)
        \<and> tx_source tx = t_sourceAccount i \<and> fee_within 100000 tx \<and> trustline_intended i tx)"
  using trustline.accepts by (simp only: MAX_TRUSTLINE_FEE_STROOPS_def)

text \<open>The two converters of decimal amounts agree at seven decimals, and each is exact: a
  result is the number the text writes times the power of ten, and a whole number printed in
  decimal is read back without loss.\<close>

theorem amounts_read_exactly:
  "toStroops a = toScaled a (jsint 7)
   \<and> (\<forall>k. toScaled a n = Some k \<longleftrightarrow>
        (\<exists>d. decimals_nat n = Some d \<and> valid_amount d a \<and> of_int k = amount_value a * 10 ^ d))
   \<and> toStroops (int_text (int m)) = Some (int m * 10 ^ 7)"
proof -
  let ?s = "int_digits (int m)"
  have ds: "list_all is_digit ?s" "?s \<noteq> []" using int_digits_all [of "int m"] by simp_all
  have nospace: "\<And>c. c \<in> set ?s \<Longrightarrow> \<not> is_space c"
    using ds digit_not_sign by (auto simp: list_all_iff)
  have t: "trim ?s = ?s" unfolding trim_def
    using nospace by (metis dropWhile_eq_self_iff hd_in_set rev_is_Nil_conv rev_rev_ident set_rev)
  have p: "takeWhile is_digit ?s = ?s" "dropWhile is_digit ?s = []"
    using ds by (simp_all add: list_all_iff)
  have "toStroops (int_text (int m)) = Some (int m * 10 ^ 7)"
    using ds(2) by (simp add: int_text_def toStroops_def scale_amount_def t amount_text_def amount_parts_def p
        int_digits_value STELLAR_DECIMALS_def padEnd0_def)
  moreover have "toStroops a = toScaled a (jsint 7)"
    by (simp add: toStroops_def toScaled_def STELLAR_DECIMALS_def)
  ultimately show ?thesis using toScaled_units by blast
qed

text \<open>The position of the accompanying ChangeTrust is not checked: a permitted ChangeTrust that
  follows the swap, where the documentation of the intent asks for a leading one, is accepted as
  well.\<close>

theorem trailing_trustline_accepted:
  "\<exists>sdk xdr i p ct. fromXDR sdk xdr (s_networkPassphrase i) =
       Some (Classic (gx_tx [OpPathPaymentStrictSend p, OpChangeTrust ct]))
     \<and> allowTrustlineFor i = Some (IdCredit ''USDC'' ''GISSUER'')
     \<and> ct_line ct = LineAsset (AssetCredit ''USDC'' ''GISSUER'')
     \<and> validateSwapXdr sdk xdr i = Ok"
proof (intro exI conjI)
  show "fromXDR gx_sdk ''trailing'' (s_networkPassphrase gx_swap) =
      Some (Classic (gx_tx [OpPathPaymentStrictSend gx_payment, OpChangeTrust gx_trust]))" by code_simp
qed (simp_all add: gx_trailing_Ok, simp_all add: gx_swap_def gx_trust_def)

end
