(* ===== verification/Js_Text.thy ===== *)
theory Js_Text
  imports Js_Parse
begin

text \<open>
  The text of a number, as a template prints it: the shortest decimal digits that read back as the
  number, in positional or exponent form, and \<open>toFixed\<close> on any number. Characters outside ASCII that
  occur in the literals of user-facing copy are named here, as their UTF-8 bytes.
\<close>

section \<open>Number.prototype.toString\<close>

text \<open>The decimal exponent of a positive number: \<open>10^(n-1) \<le> q < 10^n\<close>.\<close>

definition dec_exp :: "rat \<Rightarrow> int" where
  "dec_exp q = (if 1 \<le> q then int (length (int_digits \<lfloor>q\<rfloor>)) else 1 - int (length (int_digits (\<lceil>1 / q\<rceil> - 1))))"

text \<open>The integer of \<open>k\<close> digits that reads back as \<open>q\<close>, the nearer neighbour first.\<close>

definition read_back :: "rat \<Rightarrow> int \<Rightarrow> nat \<Rightarrow> int option" where
  "read_back q n k =
     (let unit = 10 powi (n - int k); x = q / unit; lo = \<lfloor>x\<rfloor>;
          cands = (if x - of_int lo \<le> 1/2 then [lo, lo + 1] else [lo + 1, lo]) in
      List.find (\<lambda>s. 0 < s \<and> fl (of_int s * unit) = Num q) cands)"

fun shortest_from :: "rat \<Rightarrow> int \<Rightarrow> nat list \<Rightarrow> int \<times> nat" where
  "shortest_from q n [] = (0, 1)"
| "shortest_from q n (k # ks) = (case read_back q n k of Some s \<Rightarrow> (s, k) | None \<Rightarrow> shortest_from q n ks)"

definition strip_zeros :: "string \<Rightarrow> string" where
  "strip_zeros s = rev (dropWhile (\<lambda>c. c = CHR ''0'') (rev s))"

definition positional :: "string \<Rightarrow> int \<Rightarrow> string" where
  "positional ds n =
     (let k = int (length ds) in
      if k \<le> n \<and> n \<le> 21 then ds @ replicate (nat (n - k)) (CHR ''0'')
      else if 0 < n \<and> n \<le> 21 then take (nat n) ds @ ''.'' @ drop (nat n) ds
      else if -6 < n \<and> n \<le> 0 then ''0.'' @ replicate (nat (- n)) (CHR ''0'') @ ds
      else take 1 ds @ (if k = 1 then [] else ''.'' @ drop 1 ds) @ ''e''
           @ (if n < 1 then ''-'' else ''+'') @ int_digits \<bar>n - 1\<bar>)"

definition positive_text :: "rat \<Rightarrow> string" where
  "positive_text q =
     (let n = dec_exp q; (s, k) = shortest_from q n [1..<18]; ds = int_digits s in
      positional (strip_zeros ds) (n + int (length ds) - int k))"

fun num_text :: "jsnum \<Rightarrow> string" where
  "num_text NaN = ''NaN''"
| "num_text PInf = ''Infinity''"
| "num_text NInf = ''-Infinity''"
| "num_text (Num q) =
     (if q = 0 then ''0'' else if q < 0 then CHR ''-'' # positive_text (- q) else positive_text q)"

text \<open>\<open>value.toFixed(digits)\<close>\<close>

fun toFixed_num :: "nat \<Rightarrow> jsnum \<Rightarrow> string" where
  "toFixed_num f (Num q) = (if 10 ^ 21 \<le> \<bar>q\<bar> then num_text (Num q) else toFixed f q)"
| "toFixed_num f v = num_text v"

section \<open>Characters of the copy outside ASCII\<close>

definition minus_sign :: string where
  "minus_sign = [CHR 0xE2, CHR 0x88, CHR 0x92]"

definition arrow_sign :: string where
  "arrow_sign = [CHR 0xE2, CHR 0x86, CHR 0x92]"

definition le_sign :: string where
  "le_sign = [CHR 0xE2, CHR 0x89, CHR 0xA4]"

definition ge_sign :: string where
  "ge_sign = [CHR 0xE2, CHR 0x89, CHR 0xA5]"

end
