(* ===== verification/Alert_Rules.thy ===== *)
theory Alert_Rules
  imports Js_Text Process_Env
begin

text \<open>
  The pure part of alerting: \<open>apps/api/src/modules/alerts/evaluate.ts\<close> (the edge-triggered state
  machine of one rule on one subject) and \<open>families.ts\<close> (family dispatch, derived values, the copy
  of the notifications). A timestamp read from the database is an instant or absent: the other
  shapes \<open>toMillis\<close> tolerates do not occur.
\<close>

section \<open>Rules and their state\<close>

datatype metric = HealthFactor | Price | TvlDropPct | SupplyApy | BorrowApy | OtherMetric string

datatype operator = OpLt | OpLte | OpGt | OpGte

datatype alert_status = StOk | StBreached

datatype emit_kind = AlertFired | AlertResolved

record AlertRule =
  ar_id :: string
  ar_userId :: user_id
  ar_metric :: metric
  ar_userWalletId :: "string option"
  ar_poolEntityId :: "string option"
  ar_assetId :: "string option"
  ar_operator :: operator
  ar_threshold :: "jsnum option"
  ar_cooldownSeconds :: int
  ar_rearmHysteresis :: "jsnum option"
  ar_enabled :: bool
  ar_createdAt :: ms
  ar_updatedAt :: ms

record AlertRuleState =
  rs_ruleId :: string
  rs_userWalletId :: string
  rs_poolEntityId :: string
  rs_status :: alert_status
  rs_lastValue :: "jsnum option"
  rs_lastEvaluatedAt :: ms
  rs_lastFiredAt :: "ms option"

record RuleEvalOutput =
  nextStatus :: alert_status
  emit :: "emit_kind option"
  nextState :: AlertRuleState

section \<open>evaluate.ts\<close>

fun compare :: "jsnum \<Rightarrow> operator \<Rightarrow> jsnum \<Rightarrow> bool" where
  "compare v OpLt t = js_lt v t"
| "compare v OpLte t = js_le v t"
| "compare v OpGt t = js_gt v t"
| "compare v OpGte t = js_ge v t"

definition isRecovered :: "jsnum \<Rightarrow> operator \<Rightarrow> jsnum \<Rightarrow> jsnum \<Rightarrow> bool" where
  "isRecovered current op threshold margin =
     (if op = OpLt \<or> op = OpLte then js_ge current (js_add threshold margin)
      else js_le current (js_sub threshold margin))"

definition carriedFiredAt :: "AlertRuleState option \<Rightarrow> ms option" where
  "carriedFiredAt prev = (case prev of None \<Rightarrow> None | Some s \<Rightarrow> rs_lastFiredAt s)"

definition prev_breached :: "AlertRuleState option \<Rightarrow> bool" where
  "prev_breached prev \<longleftrightarrow> (case prev of None \<Rightarrow> False | Some s \<Rightarrow> rs_status s = StBreached)"

definition build_output ::
  "AlertRule \<Rightarrow> jsnum option \<Rightarrow> AlertRuleState option \<Rightarrow> ms \<Rightarrow> alert_status \<Rightarrow> emit_kind option \<Rightarrow> ms option
    \<Rightarrow> RuleEvalOutput" where
  "build_output rule current prev now st em lastFiredAt =
     \<lparr>nextStatus = st, emit = em,
      nextState =
        \<lparr>rs_ruleId = ar_id rule,
         rs_userWalletId = (case prev of None \<Rightarrow> [] | Some s \<Rightarrow> rs_userWalletId s),
         rs_poolEntityId = (case prev of None \<Rightarrow> [] | Some s \<Rightarrow> rs_poolEntityId s),
         rs_status = st, rs_lastValue = current, rs_lastEvaluatedAt = now, rs_lastFiredAt = lastFiredAt\<rparr>\<rparr>"

definition evaluate :: "AlertRule \<Rightarrow> jsnum option \<Rightarrow> AlertRuleState option \<Rightarrow> ms \<Rightarrow> RuleEvalOutput" where
  "evaluate rule current prev now =
     (let op = ar_operator rule;
          threshold = (case ar_threshold rule of None \<Rightarrow> NaN | Some t \<Rightarrow> t);
          margin = (case ar_rearmHysteresis rule of None \<Rightarrow> Num 0 | Some m \<Rightarrow> m);
          carried = carriedFiredAt prev;
          build = build_output rule current prev now in
      case current of
        None \<Rightarrow>
          if prev_breached prev then build StOk (Some AlertResolved) carried else build StOk None carried
      | Some v \<Rightarrow>
          if compare v op threshold then
            (if \<not> prev_breached prev then build StBreached (Some AlertFired) (Some now)
             else (let elapsed = (case carried of None \<Rightarrow> True
                                  | Some firedMs \<Rightarrow> ar_cooldownSeconds rule * 1000 \<le> now - firedMs) in
                   if elapsed then build StBreached (Some AlertFired) (Some now)
                   else build StBreached None carried))
          else if prev_breached prev then
            (if isRecovered v op threshold margin then build StOk (Some AlertResolved) carried
             else build StBreached None carried)
          else build StOk None carried)"

section \<open>families.ts: dispatch\<close>

record FamilyPartition =
  healthFactor :: "AlertRule list"
  price :: "AlertRule list"
  tvlDrop :: "AlertRule list"
  apy :: "AlertRule list"
  unknown :: "AlertRule list"

definition partition_step :: "AlertRule \<Rightarrow> FamilyPartition \<Rightarrow> FamilyPartition" where
  "partition_step rule out =
     (case ar_metric rule of
        HealthFactor \<Rightarrow> out\<lparr>healthFactor := healthFactor out @ [rule]\<rparr>
      | Price \<Rightarrow> out\<lparr>price := price out @ [rule]\<rparr>
      | TvlDropPct \<Rightarrow> out\<lparr>tvlDrop := tvlDrop out @ [rule]\<rparr>
      | SupplyApy \<Rightarrow> out\<lparr>apy := apy out @ [rule]\<rparr>
      | BorrowApy \<Rightarrow> out\<lparr>apy := apy out @ [rule]\<rparr>
      | OtherMetric m \<Rightarrow> out\<lparr>unknown := unknown out @ [rule]\<rparr>)"

definition partitionRulesByFamily :: "AlertRule list \<Rightarrow> FamilyPartition" where
  "partitionRulesByFamily rules =
     fold partition_step rules \<lparr>healthFactor = [], price = [], tvlDrop = [], apy = [], unknown = []\<rparr>"

section \<open>families.ts: copy\<close>

definition high_is_breach :: "operator \<Rightarrow> bool" where
  "high_is_breach op \<longleftrightarrow> op = OpGt \<or> op = OpGte"

definition formatUsdPrice :: "jsnum \<Rightarrow> string" where
  "formatUsdPrice v =
     (if \<not> isFinite v then ''n/a''
      else if js_ge (js_abs v) (Num 1) then CHR ''$'' # toFixed_num 2 v else CHR ''$'' # toFixed_num 4 v)"

definition formatAsOf :: "ms \<Rightarrow> ms \<Rightarrow> string" where
  "formatAsOf asOf now =
     (let r = asOf mod ms_per_day;
          hm = pad2 (r div 3600000) @ '':'' @ pad2 (r div 60000 mod 60) @ '' UTC'';
          ageMs = now - asOf;
          (y, m, d) = civil_of_day (asOf div ms_per_day) in
      if 0 \<le> ageMs \<and> ageMs < 24 * 3600 * 1000 then hm
      else int_text y @ ''-'' @ pad2 m @ ''-'' @ pad2 d @ '' '' @ hm)"

record Copy =
  cp_title :: string
  cp_body :: string

definition buildPriceCopy ::
  "emit_kind \<Rightarrow> string \<Rightarrow> operator \<Rightarrow> jsnum \<Rightarrow> jsnum \<Rightarrow> ms \<Rightarrow> ms \<Rightarrow> Copy" where
  "buildPriceCopy em symbol op threshold v asOf now =
     (let highIsBreach = high_is_breach op; t = formatUsdPrice threshold; vt = formatUsdPrice v;
          stamp = formatAsOf asOf now in
      case em of
        AlertFired \<Rightarrow>
          (let dir = (if highIsBreach then ''above'' else ''below'') in
           \<lparr>cp_title = ''Price alert: '' @ symbol @ '' '' @ dir @ '' '' @ t,
            cp_body = symbol @ '' crossed '' @ dir @ '' '' @ t @ '': '' @ vt @ '' at '' @ stamp @ ''.''\<rparr>)
      | AlertResolved \<Rightarrow>
          (let backDir = (if highIsBreach then ''below'' else ''above'') in
           \<lparr>cp_title = ''Price alert resolved: '' @ symbol @ '' back '' @ backDir @ '' '' @ t,
            cp_body = symbol @ '' is back '' @ backDir @ '' '' @ t @ '': '' @ vt @ '' at '' @ stamp @ ''.''\<rparr>))"

definition computeTvlDropPct :: "jsnum \<Rightarrow> jsnum \<Rightarrow> jsnum option" where
  "computeTvlDropPct prevTvlUsd latestTvlUsd =
     (if \<not> isFinite prevTvlUsd \<or> \<not> isFinite latestTvlUsd then None
      else if js_le prevTvlUsd (Num 0) then None
      else Some (js_mul (js_div (js_sub prevTvlUsd latestTvlUsd) prevTvlUsd) (Num 100)))"

definition formatUsdCompact :: "jsnum \<Rightarrow> string" where
  "formatUsdCompact v =
     (if \<not> isFinite v then ''n/a''
      else let a = js_abs v in
        if js_ge a (jsint (10 ^ 9)) then CHR ''$'' # toFixed_num 1 (js_div v (jsint (10 ^ 9))) @ ''B''
        else if js_ge a (jsint (10 ^ 6)) then CHR ''$'' # toFixed_num 1 (js_div v (jsint (10 ^ 6))) @ ''M''
        else if js_ge a (jsint (10 ^ 3)) then CHR ''$'' # toFixed_num 1 (js_div v (jsint (10 ^ 3))) @ ''K''
        else CHR ''$'' # toFixed_num 2 v)"

definition formatDropPct :: "jsnum \<Rightarrow> string" where
  "formatDropPct dropPct =
     (let a = toFixed_num 1 (js_abs dropPct) in
      if js_ge dropPct (Num 0) then minus_sign @ a @ ''%'' else ''+'' @ a @ ''%'')"

definition buildTvlDropCopy ::
  "emit_kind \<Rightarrow> string \<Rightarrow> jsnum \<Rightarrow> jsnum \<Rightarrow> jsnum \<Rightarrow> jsnum \<Rightarrow> jsnum \<Rightarrow> ms \<Rightarrow> ms \<Rightarrow> Copy" where
  "buildTvlDropCopy em poolLabel dropPct prevTvlUsd latestTvlUsd thresholdPct windowHours asOf now =
     (let move = formatDropPct dropPct @ '' over '' @ num_text windowHours @ ''h'';
          rng = formatUsdCompact prevTvlUsd @ '' '' @ arrow_sign @ '' '' @ formatUsdCompact latestTvlUsd;
          stamp = formatAsOf asOf now in
      case em of
        AlertFired \<Rightarrow>
          \<lparr>cp_title = ''TVL drop: '' @ poolLabel @ '' '' @ move,
           cp_body = poolLabel @ '' TVL '' @ move @ '' ('' @ rng @ ''), as of '' @ stamp @ ''.''\<rparr>
      | AlertResolved \<Rightarrow>
          \<lparr>cp_title = ''TVL drop resolved: '' @ poolLabel @ '' back within '' @ num_text thresholdPct @ ''%'',
           cp_body = poolLabel @ '' TVL is back within your '' @ num_text thresholdPct @ ''% threshold: ''
             @ move @ '' ('' @ rng @ ''), as of '' @ stamp @ ''.''\<rparr>)"

datatype apy_side = Supply | Borrow

fun apyRuleSide :: "metric \<Rightarrow> apy_side" where
  "apyRuleSide SupplyApy = Supply"
| "apyRuleSide _ = Borrow"

definition formatApyPct :: "jsnum \<Rightarrow> string" where
  "formatApyPct v = (if \<not> isFinite v then ''n/a'' else toFixed_num 2 v @ ''%'')"

fun op_symbol :: "operator \<Rightarrow> string" where
  "op_symbol OpLt = ''<''"
| "op_symbol OpLte = le_sign"
| "op_symbol OpGt = ''>''"
| "op_symbol OpGte = ge_sign"

definition buildApyCopy ::
  "emit_kind \<Rightarrow> string \<Rightarrow> apy_side \<Rightarrow> operator \<Rightarrow> jsnum \<Rightarrow> jsnum \<Rightarrow> ms \<Rightarrow> ms \<Rightarrow> Copy" where
  "buildApyCopy em poolLabel side op thresholdPct valuePct asOf now =
     (let sideLabel = (if side = Supply then ''supply APY'' else ''borrow APY'');
          Side = (if side = Supply then ''Supply'' else ''Borrow'');
          v = formatApyPct valuePct; stamp = formatAsOf asOf now in
      case em of
        AlertFired \<Rightarrow>
          (let directionWord = (if high_is_breach op then ''rose to'' else ''dropped to'') in
           \<lparr>cp_title = Side @ '' APY alert: '' @ poolLabel @ '' at '' @ v,
            cp_body = poolLabel @ '' '' @ sideLabel @ '' '' @ directionWord @ '' '' @ v @ '' (alert threshold ''
              @ op_symbol op @ '' '' @ num_text thresholdPct @ ''%), as of '' @ stamp @ ''.''\<rparr>)
      | AlertResolved \<Rightarrow>
          \<lparr>cp_title = Side @ '' APY back: '' @ poolLabel @ '' at '' @ v,
           cp_body = poolLabel @ '' '' @ sideLabel @ '' back to '' @ v @ '', as of '' @ stamp @ ''.''\<rparr>)"

section \<open>families.ts: pool status\<close>

datatype PoolStatusOutcome = Seed | Unchanged | Changed | Suppressed

definition diffPoolStatus :: "string option \<Rightarrow> string \<Rightarrow> PoolStatusOutcome" where
  "diffPoolStatus prev current =
     (case prev of
        None \<Rightarrow> Seed
      | Some p \<Rightarrow> if p = current then Unchanged
          else if p = ''Unknown'' \<or> current = ''Unknown'' then Suppressed else Changed)"

definition POOL_STATUS_CONSEQUENCE :: "(string \<times> string) list" where
  "POOL_STATUS_CONSEQUENCE =
     [(''Active'', ''All actions are available again.''),
      (''On-Ice'', ''Borrowing is disabled; supplies and withdrawals remain available.''),
      (''Frozen'', ''Supplies and borrowing are disabled; withdrawals remain available.''),
      (''Setup'', ''The pool is in setup; supplies and borrowing are disabled, withdrawals remain available.'')]"

definition buildPoolStatusCopy :: "string \<Rightarrow> string \<Rightarrow> string \<Rightarrow> emit_kind \<times> Copy" where
  "buildPoolStatusCopy poolLabel frm to =
     (let backToActive = (to = ''Active'');
          consequence = (case map_of POOL_STATUS_CONSEQUENCE to of None \<Rightarrow> [] | Some c \<Rightarrow> c) in
      ((if backToActive then AlertResolved else AlertFired),
       \<lparr>cp_title = (if backToActive then ''Pool status: '' @ poolLabel @ '' is Active again''
                    else ''Pool status: '' @ poolLabel @ '' is now '' @ to),
        cp_body = poolLabel @ '' pool status changed: '' @ frm @ '' '' @ arrow_sign @ '' '' @ to @ ''.''
          @ (if consequence = [] then [] else '' '' @ consequence)\<rparr>))"

definition displaySymbol :: "string option \<Rightarrow> string option \<Rightarrow> string \<Rightarrow> string" where
  "displaySymbol symbol nm assetId =
     (let s = trim (case symbol of None \<Rightarrow> [] | Some t \<Rightarrow> t) in
      if s = ''native'' then ''XLM''
      else if s \<noteq> [] then s
      else let n = trim (case nm of None \<Rightarrow> [] | Some t \<Rightarrow> t) in
        if n \<noteq> [] then n else ''asset '' @ take 8 assetId)"

section \<open>actions.service.ts: the label of a pool's status code\<close>

record BlendPoolStatus =
  bp_code :: jsnum
  bp_label :: string
  supplyBlocked :: bool
  withdrawBlocked :: bool

definition is_integer :: "jsnum \<Rightarrow> bool" where
  "is_integer v \<longleftrightarrow> (case v of Num q \<Rightarrow> of_int \<lfloor>q\<rfloor> = q | _ \<Rightarrow> False)"

definition derivePoolStatus :: "jsnum \<Rightarrow> BlendPoolStatus" where
  "derivePoolStatus code =
     \<lparr>bp_code = code,
      bp_label =
        (if \<not> is_integer code \<or> js_lt code (Num 0) then ''Unknown''
         else if js_le code (Num 1) then ''Active''
         else if js_le code (Num 3) then ''On-Ice''
         else if js_le code (Num 5) then ''Frozen''
         else if code = Num 6 then ''Setup'' else ''Unknown''),
      supplyBlocked = js_lt (Num 3) code, withdrawBlocked = False\<rparr>"

section \<open>The state machine over time\<close>

text \<open>
  One rule on one subject, evaluated at a sequence of instants: what is emitted, and the state that
  is persisted. The persisted fire time is the computed one, or the stored one when that is absent,
  as the upserts combine them.
\<close>

definition persisted :: "AlertRuleState option \<Rightarrow> AlertRuleState \<Rightarrow> AlertRuleState" where
  "persisted prev s = s\<lparr>rs_lastFiredAt := (case rs_lastFiredAt s of Some t \<Rightarrow> Some t | None \<Rightarrow> carriedFiredAt prev)\<rparr>"

fun edge_run ::
  "AlertRule \<Rightarrow> AlertRuleState option \<Rightarrow> (jsnum option \<times> ms) list \<Rightarrow> (ms \<times> emit_kind) list \<times> AlertRuleState option" where
  "edge_run rule prev [] = ([], prev)"
| "edge_run rule prev ((v, t) # obs) =
     (let out = evaluate rule v prev t;
          (es, s) = edge_run rule (Some (persisted prev (nextState out))) obs in
      ((case emit out of None \<Rightarrow> [] | Some k \<Rightarrow> [(t, k)]) @ es, s))"

text \<open>What a well-behaved feed of edges is: a resolve only closes an open alert, and while an alert
  is open its fires are at least the cooldown apart. The first argument is the time of the last
  fire of the open alert, if one is open.\<close>

fun well_paced :: "int \<Rightarrow> ms option \<Rightarrow> (ms \<times> emit_kind) list \<Rightarrow> bool" where
  "well_paced c opened [] = True"
| "well_paced c opened ((t, AlertFired) # es) =
     ((case opened of None \<Rightarrow> True | Some t0 \<Rightarrow> c \<le> t - t0) \<and> well_paced c (Some t) es)"
| "well_paced c opened ((t, AlertResolved) # es) = (opened \<noteq> None \<and> well_paced c None es)"

definition open_alert :: "AlertRuleState option \<Rightarrow> ms option" where
  "open_alert prev = (if prev_breached prev then carriedFiredAt prev else None)"

text \<open>A breached state records when it fired: true of every state the machine itself writes.\<close>

definition fired_recorded :: "AlertRuleState option \<Rightarrow> bool" where
  "fired_recorded prev \<longleftrightarrow> (prev_breached prev \<longrightarrow> carriedFiredAt prev \<noteq> None)"

lemmas state_defs = prev_breached_def carriedFiredAt_def open_alert_def fired_recorded_def

lemma evaluate_cases:
  obtains
    (fires) "emit (evaluate rule v prev t) = Some AlertFired"
      "rs_status (nextState (evaluate rule v prev t)) = StBreached"
      "rs_lastFiredAt (nextState (evaluate rule v prev t)) = Some t"
      "prev_breached prev \<Longrightarrow> carriedFiredAt prev = None
         \<or> (\<exists>t0. carriedFiredAt prev = Some t0 \<and> ar_cooldownSeconds rule * 1000 \<le> t - t0)"
  | (resolves) "emit (evaluate rule v prev t) = Some AlertResolved"
      "rs_status (nextState (evaluate rule v prev t)) = StOk"
      "rs_lastFiredAt (nextState (evaluate rule v prev t)) = carriedFiredAt prev"
      "prev_breached prev"
  | (quiet) "emit (evaluate rule v prev t) = None"
      "rs_status (nextState (evaluate rule v prev t)) = (if prev_breached prev then StBreached else StOk)"
      "rs_lastFiredAt (nextState (evaluate rule v prev t)) = carriedFiredAt prev"
proof -
  have "(emit (evaluate rule v prev t) = Some AlertFired
      \<and> rs_status (nextState (evaluate rule v prev t)) = StBreached
      \<and> rs_lastFiredAt (nextState (evaluate rule v prev t)) = Some t
      \<and> (prev_breached prev \<longrightarrow> carriedFiredAt prev = None
          \<or> (\<exists>t0. carriedFiredAt prev = Some t0 \<and> ar_cooldownSeconds rule * 1000 \<le> t - t0)))
    \<or> (emit (evaluate rule v prev t) = Some AlertResolved
      \<and> rs_status (nextState (evaluate rule v prev t)) = StOk
      \<and> rs_lastFiredAt (nextState (evaluate rule v prev t)) = carriedFiredAt prev \<and> prev_breached prev)
    \<or> (emit (evaluate rule v prev t) = None
      \<and> rs_status (nextState (evaluate rule v prev t)) = (if prev_breached prev then StBreached else StOk)
      \<and> rs_lastFiredAt (nextState (evaluate rule v prev t)) = carriedFiredAt prev)"
    by (auto simp: evaluate_def build_output_def Let_def split: option.splits if_splits)
  then show ?thesis using fires resolves quiet by blast
qed

lemma persisted_simps [simp]:
  "rs_status (persisted prev s) = rs_status s"
  "rs_lastFiredAt (persisted prev s) = (case rs_lastFiredAt s of Some t \<Rightarrow> Some t | None \<Rightarrow> carriedFiredAt prev)"
  "rs_lastValue (persisted prev s) = rs_lastValue s"
  by (simp_all add: persisted_def)

text \<open>One evaluation keeps the bookkeeping and appends at most one well-paced edge.\<close>

lemma evaluate_paced:
  fixes rule :: AlertRule and v :: "jsnum option" and t :: ms
  assumes "fired_recorded prev"
  defines "out \<equiv> evaluate rule v prev t"
  defines "s \<equiv> Some (persisted prev (nextState out))"
  shows "fired_recorded s"
    and "well_paced (ar_cooldownSeconds rule * 1000) (open_alert s) es \<Longrightarrow>
      well_paced (ar_cooldownSeconds rule * 1000) (open_alert prev)
        ((case emit out of None \<Rightarrow> [] | Some k \<Rightarrow> [(t, k)]) @ es)"
proof -
  show "fired_recorded s"
    unfolding s_def out_def using assms(1)
    by (cases rule: evaluate_cases [of rule v prev t])
       (auto simp: fired_recorded_def prev_breached_def carriedFiredAt_def split: option.splits)
  assume w: "well_paced (ar_cooldownSeconds rule * 1000) (open_alert s) es"
  show "well_paced (ar_cooldownSeconds rule * 1000) (open_alert prev)
      ((case emit out of None \<Rightarrow> [] | Some k \<Rightarrow> [(t, k)]) @ es)"
    using w assms(1) unfolding s_def out_def
    by (cases rule: evaluate_cases [of rule v prev t])
       (auto simp: open_alert_def fired_recorded_def prev_breached_def carriedFiredAt_def split: option.splits if_splits)
qed

lemma edge_run_paced:
  "fired_recorded prev \<Longrightarrow>
     well_paced (ar_cooldownSeconds rule * 1000) (open_alert prev) (fst (edge_run rule prev obs))"
proof (induction rule prev obs rule: edge_run.induct)
  case (2 rule prev v t obs)
  from evaluate_paced(1) [OF 2(2), of rule v t] 2(1) show ?case
    using evaluate_paced(2) [OF 2(2), of rule v t] by (simp add: Let_def split: prod.splits) fastforce
qed simp

section \<open>Dispatch\<close>

lemma partition_fold:
  "fold partition_step rules out =
     \<lparr>healthFactor = healthFactor out @ filter (\<lambda>r. ar_metric r = HealthFactor) rules,
      price = price out @ filter (\<lambda>r. ar_metric r = Price) rules,
      tvlDrop = tvlDrop out @ filter (\<lambda>r. ar_metric r = TvlDropPct) rules,
      apy = apy out @ filter (\<lambda>r. ar_metric r = SupplyApy \<or> ar_metric r = BorrowApy) rules,
      unknown = unknown out @ filter (\<lambda>r. case ar_metric r of OtherMetric m \<Rightarrow> True | _ \<Rightarrow> False) rules\<rparr>"
  by (induction rules arbitrary: out) (auto simp: partition_step_def split: metric.splits)

lemma partition_families:
  "healthFactor (partitionRulesByFamily rules) = filter (\<lambda>r. ar_metric r = HealthFactor) rules"
  "price (partitionRulesByFamily rules) = filter (\<lambda>r. ar_metric r = Price) rules"
  "tvlDrop (partitionRulesByFamily rules) = filter (\<lambda>r. ar_metric r = TvlDropPct) rules"
  "apy (partitionRulesByFamily rules) = filter (\<lambda>r. ar_metric r = SupplyApy \<or> ar_metric r = BorrowApy) rules"
  by (simp_all add: partitionRulesByFamily_def partition_fold)

end
