(* ===== verification/Freshness.thy ===== *)
theory Freshness
  imports Js_Parse Process_Env
begin

text \<open>
  \<open>apps/api/src/common/freshness.ts\<close>: the age at which data counts as stale and the oldest price
  that counts as one. Both are read from the environment at each call.
\<close>

definition staleAfterMinutes :: "Env \<Rightarrow> jsnum" where
  "staleAfterMinutes env =
     (let raw = (case env_var env ''FRESHNESS_STALE_AFTER_MINUTES'' of Some s \<Rightarrow> s
                 | None \<Rightarrow> (case env_var env ''STALE_THRESHOLD_MINUTES'' of Some s \<Rightarrow> s | None \<Rightarrow> ''45''));
          n = js_Number raw in
      if isFinite n \<and> js_lt (Num 0) n then n else Num 45)"

definition staleAfterSeconds :: "Env \<Rightarrow> jsnum" where
  "staleAfterSeconds env = Math_round (js_mul (staleAfterMinutes env) (Num 60))"

record Freshness =
  isStale :: "bool option"
  fr_staleAfterSeconds :: jsnum
  ageSeconds :: "jsnum option"

text \<open>\<open>as_of\<close> is an instant, or absent (null, or text that is no date).\<close>

definition computeFreshness :: "Env \<Rightarrow> ms \<Rightarrow> ms option \<Rightarrow> Freshness" where
  "computeFreshness env now asOf =
     (let staleAfter = staleAfterSeconds env in
      case asOf of
        None \<Rightarrow> \<lparr>isStale = None, fr_staleAfterSeconds = staleAfter, ageSeconds = None\<rparr>
      | Some ts \<Rightarrow>
          (let age = Math_max (Num 0) (Math_round (js_div (jsint (now - ts)) (Num 1000))) in
           \<lparr>isStale = Some (js_gt age staleAfter), fr_staleAfterSeconds = staleAfter, ageSeconds = Some age\<rparr>))"

definition priceMaxAgeMinutes :: "Env \<Rightarrow> jsnum" where
  "priceMaxAgeMinutes env =
     (case env_var env ''PRICE_MAX_AGE_MINUTES'' of
        None \<Rightarrow> staleAfterMinutes env
      | Some raw \<Rightarrow>
          (let n = js_Number raw in
           if raw \<noteq> [] \<and> isFinite n \<and> js_lt (Num 0) n then n else staleAfterMinutes env))"

text \<open>The condition \<open>observed_at > now() - interval '... minutes'\<close>; the interval is rounded to whole
  minutes.\<close>

definition freshPriceSql :: "Env \<Rightarrow> ms \<Rightarrow> ms \<Rightarrow> bool" where
  "freshPriceSql env now observed_at =
     (case Math_round (priceMaxAgeMinutes env) of
        Num m \<Rightarrow> of_int now - m * 60000 < (of_int observed_at :: rat)
      | _ \<Rightarrow> False)"

lemma staleAfterMinutes_positive: "isFinite (staleAfterMinutes env) \<and> js_lt (Num 0) (staleAfterMinutes env)"
  by (simp add: staleAfterMinutes_def Let_def)

lemma priceMaxAgeMinutes_positive: "isFinite (priceMaxAgeMinutes env) \<and> js_lt (Num 0) (priceMaxAgeMinutes env)"
  using staleAfterMinutes_positive by (simp add: priceMaxAgeMinutes_def Let_def split: option.split)

end
