(* ===== verification/Alert_Store.thy ===== *)
theory Alert_Store
  imports Alert_Rules Freshness Request_Validation Driver_Errors
    "HOL-Library.List_Lexorder" "HOL-Library.Product_Lexorder"
begin

text \<open>
  The tables alerting reads and writes (\<open>stellar_v3_alerting.sql\<close> and the market tables it consults)
  and the statements of \<open>apps/api/src/modules/alerts/alerts.repository.ts\<close> over them. A statement
  that can fail returns \<open>Inl\<close> of the driver's error. \<open>gen_random_uuid\<close> draws the next element of
  \<open>al_uuids\<close>; \<open>now\<close> is the transaction time of the statement. Where an ordering leaves rows tied, the
  earlier row of the table comes first.
\<close>

section \<open>Tables\<close>

record HealthRow =
  hr_user_wallet_id :: string
  hr_entity_id :: "string option"
  hr_health_factor :: "jsnum option"
  hr_snapshot_at :: ms
  hr_created_at :: ms

record UserWallet =
  uw_id :: string
  uw_user_id :: user_id

record SubjectState =
  ss_ruleId :: string
  ss_subjectKey :: string
  ss_status :: alert_status
  ss_lastValue :: "jsnum option"
  ss_lastEvaluatedAt :: ms
  ss_lastFiredAt :: "ms option"

text \<open>The payload of a notification: what it is about, with the observed value.\<close>

datatype alert_payload =
    HealthPayload string string string "jsnum option" "jsnum option" operator ms
  | PricePayload string string jsnum jsnum operator ms
  | TvlPayload string string jsnum jsnum operator jsnum jsnum jsnum ms "string option"
  | ApyPayload string string apy_side jsnum jsnum operator ms "string option"
  | PoolStatusPayload string string string string BlendPoolStatus ms string

record Notification =
  nt_id :: string
  nt_userId :: user_id
  nt_ruleId :: "string option"
  nt_kind :: emit_kind
  nt_title :: string
  nt_body :: string
  nt_payload :: alert_payload
  nt_readAt :: "ms option"
  nt_createdAt :: ms

record PoolStatusState =
  pss_entityId :: string
  pss_statusCode :: jsnum
  pss_status :: string
  pss_changedAt :: ms
  pss_seenAt :: ms

text \<open>An entity joined with its venue.\<close>

record EntityRow =
  en_id :: string
  en_slug :: "string option"
  en_name :: "string option"
  en_is_active :: bool
  en_venue_type :: string
  en_venue_name :: "string option"
  en_venue_slug :: "string option"

text \<open>A price observation joined with its asset.\<close>

record PriceRow =
  pr_asset_id :: string
  pr_symbol :: "string option"
  pr_name :: "string option"
  pr_price_usd :: "rat option"
  pr_observed_at :: ms

record ReserveRow =
  re_entity_id :: string
  re_asset_id :: string
  re_snapshot_at :: ms
  re_b_supply_scaled :: "rat option"
  re_d_supply_scaled :: "rat option"

record PoolMetricsRow =
  pm_entity_id :: string
  pm_metric_type :: string
  pm_supply_apy :: "rat option"
  pm_borrow_apy :: "rat option"
  pm_as_of :: "ms option"

record AlertsDb =
  al_rules :: "AlertRule list"
  al_rule_state :: "AlertRuleState list"
  al_subject_state :: "SubjectState list"
  al_notifications :: "Notification list"
  al_pool_status :: "PoolStatusState list"
  al_user_wallets :: "UserWallet list"
  al_health :: "HealthRow list"
  al_entities :: "EntityRow list"
  al_prices :: "PriceRow list"
  al_reserves :: "ReserveRow list"
  al_metrics :: "PoolMetricsRow list"
  al_uuids :: "nat \<Rightarrow> string"
  al_drawn :: nat

text \<open>A numeric column, read as a double.\<close>

definition toNumber :: "rat option \<Rightarrow> jsnum option" where
  "toNumber v = (case v of None \<Rightarrow> None | Some q \<Rightarrow> (let n = fl q in if isFinite n then Some n else None))"

definition truthy_distinct :: "string list \<Rightarrow> string list" where
  "truthy_distinct ids = remdups (filter (\<lambda>s. s \<noteq> []) ids)"

section \<open>Health snapshots\<close>

record LatestPoolHealth =
  lh_userWalletId :: string
  lh_poolEntityId :: string
  lh_userId :: user_id
  lh_healthFactor :: "jsnum option"
  lh_snapshotAt :: ms

text \<open>\<open>distinct on\<close>: of the rows with equal key, the first in the order.\<close>

definition distinct_on :: "('r \<Rightarrow> 'k) \<Rightarrow> 'r list \<Rightarrow> 'r list" where
  "distinct_on key rows = rev (fold (\<lambda>r acc. if key r \<in> key ` set acc then acc else r # acc) rows [])"

definition latestPerKey :: "AlertsDb \<Rightarrow> LatestPoolHealth list" where
  "latestPerKey d =
     (let joined = [(h, e, v, uw_user_id w). h \<leftarrow> al_health d, w \<leftarrow> al_user_wallets d,
                      uw_id w = hr_user_wallet_id h,
                      e \<leftarrow> (case hr_entity_id h of None \<Rightarrow> [] | Some e \<Rightarrow> [e]),
                      v \<leftarrow> (case hr_health_factor h of None \<Rightarrow> [] | Some v \<Rightarrow> [v])];
          ordered = sort_key (\<lambda>(h, e, v, u). (hr_user_wallet_id h, e, - hr_snapshot_at h, - hr_created_at h)) joined in
      map (\<lambda>(h, e, v, u). \<lparr>lh_userWalletId = hr_user_wallet_id h, lh_poolEntityId = e, lh_userId = u,
             lh_healthFactor = Some v, lh_snapshotAt = hr_snapshot_at h\<rparr>)
        (distinct_on (\<lambda>(h, e, v, u). (hr_user_wallet_id h, e)) ordered))"

text \<open>Users whose newest snapshot of the pool is less than 24 hours old.\<close>

definition usersWithPositions :: "string \<Rightarrow> ms \<Rightarrow> AlertsDb \<Rightarrow> user_id list" where
  "usersWithPositions entity now d =
     (let latest = distinct_on hr_user_wallet_id
            (sort_key (\<lambda>h. (hr_user_wallet_id h, - hr_snapshot_at h))
              (filter (\<lambda>h. hr_entity_id h = Some entity) (al_health d))) in
      remdups [uw_user_id w. h \<leftarrow> latest, w \<leftarrow> al_user_wallets d, uw_id w = hr_user_wallet_id h,
               now - 24 * 3600 * 1000 < hr_snapshot_at h])"

section \<open>Rules\<close>

definition getEnabledRules :: "AlertsDb \<Rightarrow> AlertRule list" where
  "getEnabledRules d = filter ar_enabled (al_rules d)"

record CreateRuleInput =
  ci_metric :: metric
  ci_operator :: operator
  ci_threshold :: jsnum
  ci_cooldownSeconds :: int
  ci_rearmHysteresis :: "jsnum option"
  ci_userWalletId :: "string option"
  ci_poolEntityId :: "string option"
  ci_assetId :: "string option"
  ci_enabled :: bool

definition wallet_exists :: "string option \<Rightarrow> AlertsDb \<Rightarrow> bool" where
  "wallet_exists w d \<longleftrightarrow> (case w of None \<Rightarrow> True | Some i \<Rightarrow> list_ex (\<lambda>x. uw_id x = i) (al_user_wallets d))"

definition rule_of_input :: "string \<Rightarrow> user_id \<Rightarrow> CreateRuleInput \<Rightarrow> ms \<Rightarrow> AlertRule" where
  "rule_of_input i userId c now =
     \<lparr>ar_id = i, ar_userId = uuid_cast userId, ar_metric = ci_metric c,
      ar_userWalletId = map_option uuid_cast (ci_userWalletId c),
      ar_poolEntityId = map_option uuid_cast (ci_poolEntityId c),
      ar_assetId = map_option uuid_cast (ci_assetId c), ar_operator = ci_operator c,
      ar_threshold = Some (ci_threshold c), ar_cooldownSeconds = ci_cooldownSeconds c,
      ar_rearmHysteresis = ci_rearmHysteresis c, ar_enabled = ci_enabled c,
      ar_createdAt = now, ar_updatedAt = now\<rparr>"

text \<open>\<open>cooldown_seconds\<close> is a 32-bit column.\<close>

definition int4_overflow :: "int \<Rightarrow> bool" where
  "int4_overflow n \<longleftrightarrow> n < - (2 ^ 31) \<or> 2 ^ 31 \<le> n"

definition out_of_range :: JsError where
  "out_of_range = \<lparr>e_meta_code = Some ''22003'', e_message = Some ''Raw query failed'',
     e_meta_message = Some ''integer out of range''\<rparr>"

definition insert_rule :: "user_id \<Rightarrow> CreateRuleInput \<Rightarrow> ms \<Rightarrow> AlertsDb \<Rightarrow> JsError + (AlertRule \<times> AlertsDb)" where
  "insert_rule userId c now d =
     (let r = rule_of_input (al_uuids d (al_drawn d)) userId c now in
      if int4_overflow (ci_cooldownSeconds c) then Inl out_of_range
      else if list_ex (\<lambda>x. ar_id x = ar_id r) (al_rules d) then Inl (unique_violation ''id'')
      else if \<not> wallet_exists (ar_userWalletId r) d then Inl foreign_key_violation
      else Inr (r, d\<lparr>al_rules := al_rules d @ [r], al_drawn := Suc (al_drawn d)\<rparr>))"

definition owned_rule :: "user_id \<Rightarrow> string \<Rightarrow> AlertRule \<Rightarrow> bool" where
  "owned_rule userId i r \<longleftrightarrow> ar_id r = uuid_cast i \<and> ar_userId r = uuid_cast userId"

definition select_rules :: "user_id \<Rightarrow> AlertsDb \<Rightarrow> AlertRule list" where
  "select_rules userId d =
     sort_key (\<lambda>r. - ar_createdAt r) (filter (\<lambda>r. ar_userId r = uuid_cast userId) (al_rules d))"

definition select_rule :: "user_id \<Rightarrow> string \<Rightarrow> AlertsDb \<Rightarrow> AlertRule option" where
  "select_rule userId i d = List.find (owned_rule userId i) (al_rules d)"

text \<open>A patch: an absent key is \<open>None\<close>; the nullable columns have a second option inside.\<close>

record UpdateRuleInput =
  up_operator :: "operator option"
  up_threshold :: "jsnum option"
  up_cooldownSeconds :: "int option"
  up_rearmHysteresis :: "jsnum option option"
  up_userWalletId :: "string option option"
  up_poolEntityId :: "string option option"
  up_assetId :: "string option option"
  up_enabled :: "bool option"

definition set_or :: "'a option \<Rightarrow> 'a \<Rightarrow> 'a" where
  "set_or p old = (case p of None \<Rightarrow> old | Some v \<Rightarrow> v)"

definition empty_patch :: "UpdateRuleInput \<Rightarrow> bool" where
  "empty_patch p \<longleftrightarrow>
     up_operator p = None \<and> up_threshold p = None \<and> up_cooldownSeconds p = None \<and> up_rearmHysteresis p = None
     \<and> up_userWalletId p = None \<and> up_poolEntityId p = None \<and> up_assetId p = None \<and> up_enabled p = None"

definition apply_patch :: "UpdateRuleInput \<Rightarrow> ms \<Rightarrow> AlertRule \<Rightarrow> AlertRule" where
  "apply_patch p now r =
     r\<lparr>ar_operator := set_or (up_operator p) (ar_operator r),
       ar_threshold := set_or (map_option Some (up_threshold p)) (ar_threshold r),
       ar_cooldownSeconds := set_or (up_cooldownSeconds p) (ar_cooldownSeconds r),
       ar_rearmHysteresis := set_or (up_rearmHysteresis p) (ar_rearmHysteresis r),
       ar_userWalletId := set_or (map_option (map_option uuid_cast) (up_userWalletId p)) (ar_userWalletId r),
       ar_poolEntityId := set_or (map_option (map_option uuid_cast) (up_poolEntityId p)) (ar_poolEntityId r),
       ar_assetId := set_or (map_option (map_option uuid_cast) (up_assetId p)) (ar_assetId r),
       ar_enabled := set_or (up_enabled p) (ar_enabled r), ar_updatedAt := now\<rparr>"

definition update_rule ::
  "user_id \<Rightarrow> string \<Rightarrow> UpdateRuleInput \<Rightarrow> ms \<Rightarrow> AlertsDb \<Rightarrow> JsError + (AlertRule option \<times> AlertsDb)" where
  "update_rule userId i p now d =
     (if empty_patch p then Inr (select_rule userId i d, d)
      else case select_rule userId i d of
        None \<Rightarrow> Inr (None, d)
      | Some r \<Rightarrow>
          (let r' = apply_patch p now r in
           if int4_overflow (ar_cooldownSeconds r') then Inl out_of_range
           else if \<not> wallet_exists (ar_userWalletId r') d then Inl foreign_key_violation
           else Inr (Some r', d\<lparr>al_rules := map (\<lambda>x. if owned_rule userId i x then apply_patch p now x else x) (al_rules d)\<rparr>)))"

text \<open>Deleting a rule cascades to its edge state and clears \<open>rule_id\<close> on its notifications.\<close>

definition delete_rule :: "user_id \<Rightarrow> string \<Rightarrow> AlertsDb \<Rightarrow> bool \<times> AlertsDb" where
  "delete_rule userId i d =
     (let gone = map ar_id (filter (owned_rule userId i) (al_rules d)) in
      (gone \<noteq> [],
       d\<lparr>al_rules := filter (\<lambda>r. \<not> owned_rule userId i r) (al_rules d),
         al_rule_state := filter (\<lambda>s. rs_ruleId s \<notin> set gone) (al_rule_state d),
         al_subject_state := filter (\<lambda>s. ss_ruleId s \<notin> set gone) (al_subject_state d),
         al_notifications := map (\<lambda>n. if nt_ruleId n \<in> Some ` set gone then n\<lparr>nt_ruleId := None\<rparr> else n)
           (al_notifications d)\<rparr>))"

definition walletBelongsToUser :: "user_id \<Rightarrow> string \<Rightarrow> AlertsDb \<Rightarrow> bool" where
  "walletBelongsToUser userId walletId d =
     list_ex (\<lambda>w. uw_id w = uuid_cast walletId \<and> uw_user_id w = uuid_cast userId) (al_user_wallets d)"

end
