(* ===== verification/Alert_Market.thy ===== *)
theory Alert_Market
  imports Alert_Store
begin

text \<open>
  The market reads of \<open>alerts.repository.ts\<close>: labels, fresh prices, the two-batch TVL window, APYs and
  the last seen pool statuses. A returned \<open>Map\<close> is a partial function. Sums of numeric columns are
  exact and rounded once when they are read as a double.
\<close>

section \<open>Labels\<close>

record PoolLabel =
  pl_name :: string
  pl_venueLabel :: "string option"
  pl_slug :: "string option"

definition coalesce2 :: "string option \<Rightarrow> string option \<Rightarrow> string" where
  "coalesce2 a b = (case a of Some s \<Rightarrow> s | None \<Rightarrow> (case b of Some s \<Rightarrow> s | None \<Rightarrow> []))"

definition label_of :: "EntityRow \<Rightarrow> PoolLabel option" where
  "label_of e =
     (let nm = trim (coalesce2 (en_name e) (en_slug e));
          venue = trim (coalesce2 (en_venue_name e) (en_venue_slug e)) in
      if nm = [] then None
      else Some \<lparr>pl_name = nm, pl_venueLabel = (if venue = [] then None else Some venue), pl_slug = en_slug e\<rparr>)"

definition getPoolLabels :: "string list \<Rightarrow> AlertsDb \<Rightarrow> string \<rightharpoonup> PoolLabel" where
  "getPoolLabels entityIds d i =
     (if i \<in> set (truthy_distinct entityIds)
      then Option.bind (List.find (\<lambda>e. en_id e = i) (al_entities d)) label_of else None)"

definition formatPoolLabel :: "(string \<rightharpoonup> PoolLabel) \<Rightarrow> string \<Rightarrow> string" where
  "formatPoolLabel labels entityId =
     (case labels entityId of
        None \<Rightarrow> ''pool '' @ take 8 entityId
      | Some p \<Rightarrow> (case pl_venueLabel p of Some v \<Rightarrow> v @ '' '' @ pl_name p | None \<Rightarrow> pl_name p))"

section \<open>Prices\<close>

record LatestAssetPrice =
  ap_assetId :: string
  ap_symbol :: "string option"
  ap_name :: "string option"
  ap_priceUsd :: "jsnum option"
  ap_observedAt :: ms

definition mapAssetPrice :: "PriceRow \<Rightarrow> LatestAssetPrice" where
  "mapAssetPrice p =
     \<lparr>ap_assetId = pr_asset_id p, ap_symbol = pr_symbol p, ap_name = pr_name p,
      ap_priceUsd = toNumber (pr_price_usd p), ap_observedAt = pr_observed_at p\<rparr>"

definition fresh_prices :: "Env \<Rightarrow> ms \<Rightarrow> string \<Rightarrow> AlertsDb \<Rightarrow> PriceRow list" where
  "fresh_prices env now asset d =
     sort_key (\<lambda>p. - pr_observed_at p)
       (filter (\<lambda>p. pr_asset_id p = asset \<and> freshPriceSql env now (pr_observed_at p)) (al_prices d))"

definition latestPricesByAsset :: "Env \<Rightarrow> ms \<Rightarrow> string list \<Rightarrow> AlertsDb \<Rightarrow> string \<rightharpoonup> LatestAssetPrice" where
  "latestPricesByAsset env now assetIds d asset =
     (if asset \<in> set (truthy_distinct assetIds)
      then (case fresh_prices env now asset d of [] \<Rightarrow> None | p # ps \<Rightarrow> Some (mapAssetPrice p)) else None)"

definition listPricedAssets :: "Env \<Rightarrow> ms \<Rightarrow> AlertsDb \<Rightarrow> LatestAssetPrice list" where
  "listPricedAssets env now d =
     map mapAssetPrice
       (sort_key (\<lambda>p. toLowerCase (coalesce2 (pr_symbol p) (pr_name p)))
         [p. asset \<leftarrow> sort (remdups (map pr_asset_id (al_prices d))), p \<leftarrow> take 1 (fresh_prices env now asset d)])"

section \<open>TVL windows\<close>

record PoolTvlWindow =
  tw_entityId :: string
  tw_latestTvlUsd :: "jsnum option"
  tw_prevTvlUsd :: "jsnum option"
  tw_latestAt :: ms
  tw_prevAt :: ms
  tw_latestPricedReserves :: nat
  tw_latestReserves :: nat

definition hours :: "int \<Rightarrow> ms" where
  "hours h = h * 3600000"

definition batches_of :: "string \<Rightarrow> AlertsDb \<Rightarrow> ms list" where
  "batches_of entity d = remdups (map re_snapshot_at (filter (\<lambda>r. re_entity_id r = entity) (al_reserves d)))"

text \<open>The newest batch and the batch nearest to 24 hours before it, 12 to 36 hours behind.\<close>

definition picked_batches :: "string \<Rightarrow> AlertsDb \<Rightarrow> (ms \<times> ms) option" where
  "picked_batches entity d =
     (case batches_of entity d of
        [] \<Rightarrow> None
      | b # bs \<Rightarrow>
          (let latest = foldr max bs b in
           case sort_key (\<lambda>s. \<bar>latest - hours 24 - s\<bar>)
                  (filter (\<lambda>s. s \<le> latest - hours 12 \<and> latest - hours 36 \<le> s) (batches_of entity d)) of
             [] \<Rightarrow> None
           | p # ps \<Rightarrow> Some (latest, p)))"

definition current_price :: "Env \<Rightarrow> ms \<Rightarrow> AlertsDb \<Rightarrow> string \<Rightarrow> rat option" where
  "current_price env now d asset = (case fresh_prices env now asset d of [] \<Rightarrow> None | p # ps \<Rightarrow> pr_price_usd p)"

definition supplied :: "string \<Rightarrow> ReserveRow \<Rightarrow> rat" where
  "supplied venue_type r =
     (case (if venue_type = ''lending'' then re_b_supply_scaled r else re_d_supply_scaled r) of
        None \<Rightarrow> 0 | Some q \<Rightarrow> q)"

record BatchTvl =
  bt_tvl :: "rat option"
  bt_priced :: nat
  bt_count :: nat

definition batch_tvl :: "Env \<Rightarrow> ms \<Rightarrow> EntityRow \<Rightarrow> ms \<Rightarrow> AlertsDb \<Rightarrow> BatchTvl" where
  "batch_tvl env now e snap d =
     (let rows = filter (\<lambda>r. re_entity_id r = en_id e \<and> re_snapshot_at r = snap) (al_reserves d);
          price_of = (\<lambda>r. current_price env now d (re_asset_id r));
          priced = filter (\<lambda>r. price_of r \<noteq> None) rows in
      \<lparr>bt_tvl = (if length priced < length rows then None
                 else Some (sum_list (map (\<lambda>r. supplied (en_venue_type e) r * the (price_of r)) rows))),
       bt_priced = length priced, bt_count = length rows\<rparr>)"

definition getPoolTvlWindows :: "Env \<Rightarrow> ms \<Rightarrow> string list \<Rightarrow> AlertsDb \<Rightarrow> string \<rightharpoonup> PoolTvlWindow" where
  "getPoolTvlWindows env now entityIds d entity =
     (if entity \<notin> set (truthy_distinct entityIds) then None
      else case (picked_batches entity d, List.find (\<lambda>e. en_id e = entity) (al_entities d)) of
        (Some (latest, prev), Some e) \<Rightarrow>
          (let tl = batch_tvl env now e latest d; tp = batch_tvl env now e prev d in
           Some \<lparr>tw_entityId = entity, tw_latestTvlUsd = toNumber (bt_tvl tl), tw_prevTvlUsd = toNumber (bt_tvl tp),
                 tw_latestAt = latest, tw_prevAt = prev,
                 tw_latestPricedReserves = bt_priced tl, tw_latestReserves = bt_count tl\<rparr>)
      | _ \<Rightarrow> None)"

record TargetPool =
  tp_entityId :: string
  tp_slug :: "string option"
  tp_name :: string
  tp_venueName :: "string option"

definition target_pool :: "EntityRow \<Rightarrow> TargetPool" where
  "target_pool e =
     (let nm = trim (coalesce2 (en_name e) (en_slug e)) in
      \<lparr>tp_entityId = en_id e, tp_slug = en_slug e,
       tp_name = (if nm = [] then ''pool '' @ take 8 (en_id e) else nm), tp_venueName = en_venue_name e\<rparr>)"

definition venue_order :: "EntityRow \<Rightarrow> string \<times> string" where
  "venue_order e = (coalesce2 (en_venue_name e) None, coalesce2 (en_name e) None)"

definition listTvlPools :: "ms \<Rightarrow> AlertsDb \<Rightarrow> TargetPool list" where
  "listTvlPools now d =
     map target_pool (sort_key venue_order
       (filter (\<lambda>e. en_is_active e \<and>
          list_ex (\<lambda>r. re_entity_id r = en_id e \<and> now - hours 168 < re_snapshot_at r) (al_reserves d)) (al_entities d)))"

section \<open>APYs\<close>

record PoolApy =
  pa_entityId :: string
  pa_supplyApy :: "jsnum option"
  pa_borrowApy :: "jsnum option"
  pa_asOf :: "ms option"

definition getPoolApys :: "string list \<Rightarrow> AlertsDb \<Rightarrow> string \<rightharpoonup> PoolApy" where
  "getPoolApys entityIds d entity =
     (if entity \<notin> set (truthy_distinct entityIds) then None
      else map_option (\<lambda>m. \<lparr>pa_entityId = entity, pa_supplyApy = toNumber (pm_supply_apy m),
                             pa_borrowApy = toNumber (pm_borrow_apy m), pa_asOf = pm_as_of m\<rparr>)
        (List.find (\<lambda>m. pm_entity_id m = entity \<and> pm_metric_type m = ''latest'') (rev (al_metrics d))))"

definition listApyPools :: "ms \<Rightarrow> AlertsDb \<Rightarrow> (TargetPool \<times> PoolApy) list" where
  "listApyPools now d =
     map (\<lambda>(e, m). (target_pool e,
            \<lparr>pa_entityId = en_id e, pa_supplyApy = toNumber (pm_supply_apy m),
             pa_borrowApy = toNumber (pm_borrow_apy m), pa_asOf = pm_as_of m\<rparr>))
       (sort_key (\<lambda>(e, m). venue_order e)
         [(e, m). m \<leftarrow> al_metrics d, e \<leftarrow> al_entities d,
                  en_id e = pm_entity_id m \<and> pm_metric_type m = ''latest'' \<and> en_venue_type e = ''lending''
                  \<and> en_is_active e \<and> pm_supply_apy m \<noteq> None
                  \<and> (case pm_as_of m of None \<Rightarrow> False | Some t \<Rightarrow> now - hours 168 < t)])"

section \<open>Pool status\<close>

definition getEntityIdsBySlug :: "string list \<Rightarrow> AlertsDb \<Rightarrow> string \<rightharpoonup> string" where
  "getEntityIdsBySlug slugs d slug =
     (if slug \<in> set (truthy_distinct slugs)
      then map_option en_id (List.find (\<lambda>e. en_slug e = Some slug \<and> en_is_active e) (rev (al_entities d))) else None)"

definition getPoolStatusStates :: "AlertsDb \<Rightarrow> string \<rightharpoonup> PoolStatusState" where
  "getPoolStatusStates d entity = List.find (\<lambda>s. pss_entityId s = entity) (al_pool_status d)"

definition upsertPoolStatusState :: "PoolStatusState \<Rightarrow> AlertsDb \<Rightarrow> AlertsDb" where
  "upsertPoolStatusState s d =
     d\<lparr>al_pool_status :=
        (if list_ex (\<lambda>x. pss_entityId x = pss_entityId s) (al_pool_status d)
         then map (\<lambda>x. if pss_entityId x = pss_entityId s then s else x) (al_pool_status d)
         else al_pool_status d @ [s])\<rparr>"

text \<open>A batch with a reserve that has no fresh price has no TVL.\<close>

lemma tvl_needs_every_price:
  assumes "r \<in> set (al_reserves d)" "re_entity_id r = en_id e" "re_snapshot_at r = snap"
    and "current_price env now d (re_asset_id r) = None"
  shows "bt_tvl (batch_tvl env now e snap d) = None"
proof -
  let ?rows = "filter (\<lambda>r. re_entity_id r = en_id e \<and> re_snapshot_at r = snap) (al_reserves d)"
  have "length (filter (\<lambda>r. current_price env now d (re_asset_id r) \<noteq> None) ?rows) < length ?rows"
    using assms by (intro length_filter_less [of r]) auto
  then show ?thesis by (simp add: batch_tvl_def Let_def)
qed

lemma picked_window:
  assumes "picked_batches entity d = Some (latest, prev)"
  shows "prev \<in> set (batches_of entity d)" "latest - hours 36 \<le> prev" "prev \<le> latest - hours 12"
proof -
  let ?c = "filter (\<lambda>s. s \<le> latest - hours 12 \<and> latest - hours 36 \<le> s) (batches_of entity d)"
  obtain ps where "sort_key (\<lambda>s. \<bar>latest - hours 24 - s\<bar>) ?c = prev # ps"
    using assms by (auto simp: picked_batches_def Let_def simp del: filter.simps split: list.splits)
  then have "prev \<in> set (sort_key (\<lambda>s. \<bar>latest - hours 24 - s\<bar>) ?c)" by simp
  then show "prev \<in> set (batches_of entity d)" "latest - hours 36 \<le> prev" "prev \<le> latest - hours 12"
    by simp_all
qed

end
