(* ===== verification/Alert_Edges.thy ===== *)
theory Alert_Edges
  imports Alert_Market
begin

text \<open>
  The edge state of \<open>alerts.repository.ts\<close> (one row per rule and wallet-pool, or per rule and
  subject), the notification feed, and the contract both edge tables give the evaluator: what a read
  returns after an upsert. The locale \<open>edge_store\<close> states it; whatever is proved of the state
  machine over a store of this kind holds of both tables.
\<close>

section \<open>Edge state\<close>

datatype edge_key = WalletPool string string | Subject string

definition getRuleState :: "string \<Rightarrow> AlertsDb \<Rightarrow> AlertRuleState list" where
  "getRuleState ruleId d = filter (\<lambda>s. rs_ruleId s = ruleId) (al_rule_state d)"

definition rule_exists :: "string \<Rightarrow> AlertsDb \<Rightarrow> bool" where
  "rule_exists i d \<longleftrightarrow> list_ex (\<lambda>r. ar_id r = i) (al_rules d)"

definition same_rule_state :: "AlertRuleState \<Rightarrow> AlertRuleState \<Rightarrow> bool" where
  "same_rule_state s x \<longleftrightarrow> rs_ruleId x = rs_ruleId s \<and> rs_userWalletId x = rs_userWalletId s
     \<and> rs_poolEntityId x = rs_poolEntityId s"

definition merge_rule_state :: "AlertRuleState \<Rightarrow> AlertRuleState \<Rightarrow> AlertRuleState" where
  "merge_rule_state s old =
     s\<lparr>rs_lastFiredAt := (case rs_lastFiredAt s of Some t \<Rightarrow> Some t | None \<Rightarrow> rs_lastFiredAt old)\<rparr>"

definition upsertRuleState :: "AlertRuleState \<Rightarrow> AlertsDb \<Rightarrow> JsError + AlertsDb" where
  "upsertRuleState s d =
     (if \<not> rule_exists (rs_ruleId s) d \<or> \<not> wallet_exists (Some (rs_userWalletId s)) d
      then Inl foreign_key_violation
      else Inr (d\<lparr>al_rule_state :=
        (if list_ex (same_rule_state s) (al_rule_state d)
         then map (\<lambda>x. if same_rule_state s x then merge_rule_state s x else x) (al_rule_state d)
         else al_rule_state d @ [s])\<rparr>))"

definition getSubjectState :: "string \<Rightarrow> AlertsDb \<Rightarrow> SubjectState list" where
  "getSubjectState ruleId d = filter (\<lambda>s. ss_ruleId s = ruleId) (al_subject_state d)"

definition same_subject :: "SubjectState \<Rightarrow> SubjectState \<Rightarrow> bool" where
  "same_subject s x \<longleftrightarrow> ss_ruleId x = ss_ruleId s \<and> ss_subjectKey x = ss_subjectKey s"

definition merge_subject :: "SubjectState \<Rightarrow> SubjectState \<Rightarrow> SubjectState" where
  "merge_subject s old =
     s\<lparr>ss_lastFiredAt := (case ss_lastFiredAt s of Some t \<Rightarrow> Some t | None \<Rightarrow> ss_lastFiredAt old)\<rparr>"

definition upsertSubjectState :: "SubjectState \<Rightarrow> AlertsDb \<Rightarrow> JsError + AlertsDb" where
  "upsertSubjectState s d =
     (if \<not> rule_exists (ss_ruleId s) d then Inl foreign_key_violation
      else Inr (d\<lparr>al_subject_state :=
        (if list_ex (same_subject s) (al_subject_state d)
         then map (\<lambda>x. if same_subject s x then merge_subject s x else x) (al_subject_state d)
         else al_subject_state d @ [s])\<rparr>))"

section \<open>The state the evaluator is given\<close>

text \<open>The health family looks the pair up in a \<open>Map\<close> built from the rows (the last row of a key
  wins), the others search the rows; both adapt the row to the evaluator's shape.\<close>

definition prev_of_pair :: "string \<Rightarrow> string \<Rightarrow> string \<Rightarrow> AlertsDb \<Rightarrow> AlertRuleState option" where
  "prev_of_pair ruleId w p d =
     List.find (\<lambda>s. rs_userWalletId s = w \<and> rs_poolEntityId s = p) (rev (getRuleState ruleId d))"

definition adapt_subject :: "SubjectState \<Rightarrow> AlertRuleState" where
  "adapt_subject s =
     \<lparr>rs_ruleId = ss_ruleId s, rs_userWalletId = [], rs_poolEntityId = [], rs_status = ss_status s,
      rs_lastValue = ss_lastValue s, rs_lastEvaluatedAt = ss_lastEvaluatedAt s, rs_lastFiredAt = ss_lastFiredAt s\<rparr>"

definition prev_of_subject :: "string \<Rightarrow> string \<Rightarrow> AlertsDb \<Rightarrow> AlertRuleState option" where
  "prev_of_subject ruleId key d =
     map_option adapt_subject (List.find (\<lambda>s. ss_subjectKey s = key) (getSubjectState ruleId d))"

text \<open>What is written after an evaluation: the evaluator's status, value and fire time under the key
  of the row.\<close>

definition write_pair :: "string \<Rightarrow> string \<Rightarrow> string \<Rightarrow> RuleEvalOutput \<Rightarrow> ms \<Rightarrow> AlertsDb \<Rightarrow> JsError + AlertsDb" where
  "write_pair ruleId w p out now d =
     upsertRuleState
       \<lparr>rs_ruleId = ruleId, rs_userWalletId = w, rs_poolEntityId = p, rs_status = nextStatus out,
        rs_lastValue = rs_lastValue (nextState out), rs_lastEvaluatedAt = now,
        rs_lastFiredAt = rs_lastFiredAt (nextState out)\<rparr> d"

definition write_subject :: "string \<Rightarrow> string \<Rightarrow> RuleEvalOutput \<Rightarrow> ms \<Rightarrow> AlertsDb \<Rightarrow> JsError + AlertsDb" where
  "write_subject ruleId key out now d =
     upsertSubjectState
       \<lparr>ss_ruleId = ruleId, ss_subjectKey = key, ss_status = nextStatus out,
        ss_lastValue = rs_lastValue (nextState out), ss_lastEvaluatedAt = now,
        ss_lastFiredAt = rs_lastFiredAt (nextState out)\<rparr> d"

section \<open>The feed\<close>

definition insertNotification ::
  "user_id \<Rightarrow> string option \<Rightarrow> emit_kind \<Rightarrow> Copy \<Rightarrow> alert_payload \<Rightarrow> ms \<Rightarrow> AlertsDb \<Rightarrow> JsError + AlertsDb" where
  "insertNotification userId ruleId kind copy payload now d =
     (let i = al_uuids d (al_drawn d) in
      if list_ex (\<lambda>n. nt_id n = i) (al_notifications d) then Inl (unique_violation ''id'')
      else if (case ruleId of None \<Rightarrow> False | Some r \<Rightarrow> \<not> rule_exists r d) then Inl foreign_key_violation
      else Inr (d\<lparr>al_notifications := al_notifications d @
          [\<lparr>nt_id = i, nt_userId = userId, nt_ruleId = ruleId, nt_kind = kind, nt_title = cp_title copy,
            nt_body = cp_body copy, nt_payload = payload, nt_readAt = None, nt_createdAt = now\<rparr>],
          al_drawn := Suc (al_drawn d)\<rparr>))"

definition DEFAULT_NOTIFICATION_LIMIT :: int where
  "DEFAULT_NOTIFICATION_LIMIT = 50"

definition MAX_NOTIFICATION_LIMIT :: int where
  "MAX_NOTIFICATION_LIMIT = 200"

definition safe_limit :: "jsnum option \<Rightarrow> int" where
  "safe_limit limit =
     (case limit of
        Some (Num q) \<Rightarrow> if 0 < q then min \<lfloor>q\<rfloor> MAX_NOTIFICATION_LIMIT else DEFAULT_NOTIFICATION_LIMIT
      | _ \<Rightarrow> DEFAULT_NOTIFICATION_LIMIT)"

definition select_notifications :: "user_id \<Rightarrow> jsnum option \<Rightarrow> ms option \<Rightarrow> AlertsDb \<Rightarrow> Notification list" where
  "select_notifications userId limit before d =
     take (nat (safe_limit limit))
       (sort_key (\<lambda>n. - nt_createdAt n)
         (filter (\<lambda>n. nt_userId n = uuid_cast userId
                    \<and> (case before of None \<Rightarrow> True | Some t \<Rightarrow> nt_createdAt n < t)) (al_notifications d)))"

definition countUnread :: "user_id \<Rightarrow> AlertsDb \<Rightarrow> nat" where
  "countUnread userId d =
     length (filter (\<lambda>n. nt_userId n = uuid_cast userId \<and> nt_readAt n = None) (al_notifications d))"

definition unread_owned :: "user_id \<Rightarrow> string \<Rightarrow> Notification \<Rightarrow> bool" where
  "unread_owned userId i n \<longleftrightarrow> nt_id n = uuid_cast i \<and> nt_userId n = uuid_cast userId \<and> nt_readAt n = None"

definition mark_read :: "user_id \<Rightarrow> string \<Rightarrow> ms \<Rightarrow> AlertsDb \<Rightarrow> bool \<times> AlertsDb" where
  "mark_read userId i now d =
     (list_ex (unread_owned userId i) (al_notifications d),
      d\<lparr>al_notifications :=
        map (\<lambda>n. if unread_owned userId i n then n\<lparr>nt_readAt := Some now\<rparr> else n) (al_notifications d)\<rparr>)"

definition notificationExists :: "user_id \<Rightarrow> string \<Rightarrow> AlertsDb \<Rightarrow> bool" where
  "notificationExists userId i d =
     list_ex (\<lambda>n. nt_id n = uuid_cast i \<and> nt_userId n = uuid_cast userId) (al_notifications d)"

definition mark_all_read :: "user_id \<Rightarrow> ms \<Rightarrow> AlertsDb \<Rightarrow> nat \<times> AlertsDb" where
  "mark_all_read userId now d =
     (countUnread userId d,
      d\<lparr>al_notifications :=
        map (\<lambda>n. if nt_userId n = uuid_cast userId \<and> nt_readAt n = None then n\<lparr>nt_readAt := Some now\<rparr> else n)
          (al_notifications d)\<rparr>)"

section \<open>The contract of an edge store\<close>

definition edge_core :: "AlertRuleState \<Rightarrow> alert_status \<times> ms option" where
  "edge_core s = (rs_status s, rs_lastFiredAt s)"

text \<open>What the evaluator decides depends on the previous state through its core only.\<close>

lemma core_reads:
  assumes "map_option edge_core p = map_option edge_core q"
  shows "prev_breached p = prev_breached q" "carriedFiredAt p = carriedFiredAt q"
  using assms by (cases p; cases q; simp add: prev_breached_def carriedFiredAt_def edge_core_def)+

lemma evaluate_core:
  assumes "map_option edge_core p = map_option edge_core q"
  shows "emit (evaluate rule v p t) = emit (evaluate rule v q t)"
    "nextStatus (evaluate rule v p t) = nextStatus (evaluate rule v q t)"
    "edge_core (nextState (evaluate rule v p t)) = edge_core (nextState (evaluate rule v q t))"
  using core_reads [OF assms]
  by (simp_all add: evaluate_def build_output_def edge_core_def Let_def split: option.splits)

lemma nextStatus_nextState: "nextStatus (evaluate rule v p t) = rs_status (nextState (evaluate rule v p t))"
  by (simp add: evaluate_def build_output_def Let_def split: option.splits)

lemma edge_run_core:
  "map_option edge_core p = map_option edge_core q \<Longrightarrow>
     fst (edge_run rule p obs) = fst (edge_run rule q obs)
     \<and> map_option edge_core (snd (edge_run rule p obs)) = map_option edge_core (snd (edge_run rule q obs))"
proof (induction obs arbitrary: p q)
  case (Cons o1 obs)
  obtain v t where o1: "o1 = (v, t)" by (cases o1)
  let ?s = "\<lambda>p. Some (persisted p (nextState (evaluate rule v p t)))"
  have "map_option edge_core (?s p) = map_option edge_core (?s q)"
    using evaluate_core(3) [OF Cons.prems, of rule v t] core_reads(2) [OF Cons.prems]
    by (simp add: edge_core_def split: option.split)
  from Cons.IH [OF this] show ?case
    using evaluate_core(1) [OF Cons.prems, of rule v t] by (simp add: o1 Let_def case_prod_unfold)
qed simp

locale edge_store =
  fixes get :: "'k \<Rightarrow> AlertsDb \<Rightarrow> AlertRuleState option"
    and put :: "'k \<Rightarrow> RuleEvalOutput \<Rightarrow> ms \<Rightarrow> AlertsDb \<Rightarrow> JsError + AlertsDb"
  assumes read_written: "put k out t d = Inr d' \<Longrightarrow> nextStatus out = rs_status (nextState out) \<Longrightarrow>
      map_option edge_core (get k d') = Some (edge_core (persisted (get k d) (nextState out)))"
    and read_other: "put k out t d = Inr d' \<Longrightarrow> k' \<noteq> k \<Longrightarrow> get k' d' = get k' d"
begin

text \<open>One evaluation through the store, and a sequence of evaluations of many keys.\<close>

definition evaluated :: "('k \<Rightarrow> AlertRule) \<Rightarrow> 'k \<Rightarrow> jsnum option \<Rightarrow> ms \<Rightarrow> AlertsDb \<Rightarrow> JsError + emit_kind option \<times> AlertsDb" where
  "evaluated rule_of k v t d =
     (let out = evaluate (rule_of k) v (get k d) t in map_sum id (Pair (emit out)) (put k out t d))"

fun evaluations ::
  "('k \<Rightarrow> AlertRule) \<Rightarrow> ('k \<times> jsnum option \<times> ms) list \<Rightarrow> AlertsDb \<Rightarrow> JsError + ('k \<times> ms \<times> emit_kind) list \<times> AlertsDb" where
  "evaluations rule_of [] d = Inr ([], d)"
| "evaluations rule_of ((k, v, t) # obs) d =
     (case evaluated rule_of k v t d of
        Inl e \<Rightarrow> Inl e
      | Inr (em, d1) \<Rightarrow>
          map_sum id (\<lambda>(es, d2). ((case em of None \<Rightarrow> [] | Some x \<Rightarrow> [(k, t, x)]) @ es, d2))
            (evaluations rule_of obs d1))"

lemma evaluated_Inr:
  assumes "evaluated rule_of k v t d = Inr (em, d')"
  shows "em = emit (evaluate (rule_of k) v (get k d) t)"
    and "map_option edge_core (get k d') =
      Some (edge_core (persisted (get k d) (nextState (evaluate (rule_of k) v (get k d) t))))"
    and "k' \<noteq> k \<Longrightarrow> get k' d' = get k' d"
proof -
  from assms have w: "put k (evaluate (rule_of k) v (get k d) t) t d = Inr d'"
    and em: "em = emit (evaluate (rule_of k) v (get k d) t)"
    by (auto simp: evaluated_def Let_def map_sum_def split: sum.splits)
  show "em = emit (evaluate (rule_of k) v (get k d) t)" by (rule em)
  show "map_option edge_core (get k d') =
      Some (edge_core (persisted (get k d) (nextState (evaluate (rule_of k) v (get k d) t))))"
    by (rule read_written [OF w nextStatus_nextState])
  show "k' \<noteq> k \<Longrightarrow> get k' d' = get k' d" by (rule read_other [OF w])
qed

definition obs_of :: "'k \<Rightarrow> ('k \<times> jsnum option \<times> ms) list \<Rightarrow> (jsnum option \<times> ms) list" where
  "obs_of k obs = map snd (filter (\<lambda>x. fst x = k) obs)"

definition edges_of :: "'k \<Rightarrow> ('k \<times> ms \<times> emit_kind) list \<Rightarrow> (ms \<times> emit_kind) list" where
  "edges_of k es = map snd (filter (\<lambda>x. fst x = k) es)"

text \<open>Whatever other keys are evaluated in between, each key's edges and state are those of the
  state machine run on its own observations.\<close>

lemma evaluations_simulate:
  "evaluations rule_of obs d = Inr (es, d') \<Longrightarrow>
     edges_of k es = fst (edge_run (rule_of k) (get k d) (obs_of k obs))
     \<and> map_option edge_core (get k d') = map_option edge_core (snd (edge_run (rule_of k) (get k d) (obs_of k obs)))"
proof (induction obs arbitrary: d es)
  case Nil
  then show ?case by (simp add: edges_of_def obs_of_def)
next
  case (Cons o1 obs)
  obtain k1 v t where o1: "o1 = (k1, v, t)" by (cases o1)
  from Cons.prems o1 obtain em d1 es1 where
    e: "evaluated rule_of k1 v t d = Inr (em, d1)" and r: "evaluations rule_of obs d1 = Inr (es1, d')"
    and es: "es = (case em of None \<Rightarrow> [] | Some x \<Rightarrow> [(k1, t, x)]) @ es1"
    by (auto simp: map_sum_def split: sum.splits)
  note IH = Cons.IH [OF r]
  show ?case
  proof (cases "k1 = k")
    case True
    let ?p = "Some (persisted (get k d) (nextState (evaluate (rule_of k) v (get k d) t)))"
    have "map_option edge_core (get k d1) = map_option edge_core ?p"
      using evaluated_Inr(2) [OF e] True by simp
    note core = edge_run_core [OF this, of "rule_of k" "obs_of k obs"]
    have em: "em = emit (evaluate (rule_of k) v (get k d) t)" using evaluated_Inr(1) [OF e] True by simp
    have "edges_of k es = (case em of None \<Rightarrow> [] | Some x \<Rightarrow> [(t, x)]) @ edges_of k es1"
      by (simp add: es True edges_of_def split: option.split)
    then show ?thesis using IH core em
      by (simp add: o1 True obs_of_def Let_def split: prod.split)
  next
    case False
    have "edges_of k es = edges_of k es1" using False by (simp add: es edges_of_def split: option.split)
    moreover have "obs_of k (o1 # obs) = obs_of k obs" using False by (simp add: o1 obs_of_def)
    moreover have "get k d1 = get k d" using evaluated_Inr(3) [OF e] False by metis
    ultimately show ?thesis using IH by simp
  qed
qed

text \<open>The edges of every key are well paced.\<close>

lemma evaluations_paced:
  assumes "evaluations rule_of obs d = Inr (es, d')" "fired_recorded (get k d)"
  shows "well_paced (ar_cooldownSeconds (rule_of k) * 1000) (open_alert (get k d)) (edges_of k es)"
  using evaluations_simulate [OF assms(1), of k] edge_run_paced [OF assms(2), of "rule_of k"] by simp

end

section \<open>Both edge tables keep the contract\<close>

lemma find_append: "List.find P (xs @ ys) = (case List.find P xs of Some x \<Rightarrow> Some x | None \<Rightarrow> List.find P ys)"
  by (induction xs) auto

lemma find_map_same:
  "(\<And>x. x \<in> set xs \<Longrightarrow> P (f x) = P x) \<Longrightarrow> List.find P (map f xs) = map_option f (List.find P xs)"
  by (induction xs) auto

lemma find_filter: "List.find P (filter Q xs) = List.find (\<lambda>x. Q x \<and> P x) xs"
  by (induction xs) auto

lemma find_cong_set: "(\<And>x. x \<in> set xs \<Longrightarrow> P x = Q x) \<Longrightarrow> List.find P xs = List.find Q xs"
  by (induction xs) auto

text \<open>An upsert that replaces the rows of a key by their merge, or appends one.\<close>

lemma find_upsert:
  fixes same :: "'a \<Rightarrow> bool" and rows :: "'a list"
  assumes "\<And>x. same x \<Longrightarrow> same (merge x)" "same new"
  defines "rows' \<equiv> (if list_ex same rows then map (\<lambda>x. if same x then merge x else x) rows else rows @ [new])"
  shows "List.find same rows' = Some (case List.find same rows of None \<Rightarrow> new | Some x \<Rightarrow> merge x)"
    and "List.find same (rev rows') = Some (case List.find same (rev rows) of None \<Rightarrow> new | Some x \<Rightarrow> merge x)"
proof -
  let ?f = "\<lambda>x. if same x then merge x else x"
  have keep: "same (?f x) = same x" for x using assms(1) by auto
  have m: "List.find same (map ?f xs) = map_option merge (List.find same xs)" for xs
    using keep by (induction xs) auto
  have ex: "list_ex same xs \<longleftrightarrow> (\<exists>x. List.find same xs = Some x)" for xs
    by (induction xs) auto
  show "List.find same rows' = Some (case List.find same rows of None \<Rightarrow> new | Some x \<Rightarrow> merge x)"
    using ex [of rows] assms(2) by (auto simp: rows'_def m find_append split: option.splits)
  have "list_ex same rows = list_ex same (rev rows)" by (auto simp: list_ex_iff)
  then show "List.find same (rev rows') = Some (case List.find same (rev rows) of None \<Rightarrow> new | Some x \<Rightarrow> merge x)"
    using ex [of "rev rows"] assms(2) by (auto simp: rows'_def m find_append rev_map split: option.splits)
qed

lemma find_upsert_other:
  fixes rows :: "'a list"
  assumes "\<And>x. same x \<Longrightarrow> \<not> P x \<and> \<not> P (merge x)" "\<not> P new"
  defines "rows' \<equiv> (if list_ex same rows then map (\<lambda>x. if same x then merge x else x) rows else rows @ [new])"
  shows "List.find P rows' = List.find P rows" "List.find P (rev rows') = List.find P (rev rows)"
proof -
  have m: "List.find P (map (\<lambda>x. if same x then merge x else x) xs) = List.find P xs" for xs
    using assms(1) by (induction xs) auto
  show "List.find P rows' = List.find P rows" using assms(2) by (auto simp: rows'_def m find_append split: option.splits)
  show "List.find P (rev rows') = List.find P (rev rows)"
    using assms(2) by (auto simp: rows'_def m find_append rev_map)
qed

lemma prev_of_pair_find:
  "prev_of_pair r w p d =
     List.find (\<lambda>s. rs_ruleId s = r \<and> rs_userWalletId s = w \<and> rs_poolEntityId s = p) (rev (al_rule_state d))"
  by (simp add: prev_of_pair_def getRuleState_def rev_filter find_filter)

lemma prev_of_subject_find:
  "prev_of_subject r k d =
     map_option adapt_subject (List.find (\<lambda>s. ss_ruleId s = r \<and> ss_subjectKey s = k) (al_subject_state d))"
  by (simp add: prev_of_subject_def getSubjectState_def find_filter)

lemma upsertRuleState_Inr:
  "upsertRuleState s d = Inr d' \<longleftrightarrow>
     rule_exists (rs_ruleId s) d \<and> wallet_exists (Some (rs_userWalletId s)) d
     \<and> d' = d\<lparr>al_rule_state :=
        (if list_ex (same_rule_state s) (al_rule_state d)
         then map (\<lambda>x. if same_rule_state s x then merge_rule_state s x else x) (al_rule_state d)
         else al_rule_state d @ [s])\<rparr>"
  by (auto simp: upsertRuleState_def)

lemma upsertSubjectState_Inr:
  "upsertSubjectState s d = Inr d' \<longleftrightarrow>
     rule_exists (ss_ruleId s) d
     \<and> d' = d\<lparr>al_subject_state :=
        (if list_ex (same_subject s) (al_subject_state d)
         then map (\<lambda>x. if same_subject s x then merge_subject s x else x) (al_subject_state d)
         else al_subject_state d @ [s])\<rparr>"
  by (auto simp: upsertSubjectState_def)

lemma pair_read_written:
  assumes w: "write_pair r w p out t d = Inr d'" and st: "nextStatus out = rs_status (nextState out)"
  shows "map_option edge_core (prev_of_pair r w p d') =
    Some (edge_core (persisted (prev_of_pair r w p d) (nextState out)))"
proof -
  let ?s = "\<lparr>rs_ruleId = r, rs_userWalletId = w, rs_poolEntityId = p, rs_status = nextStatus out,
        rs_lastValue = rs_lastValue (nextState out), rs_lastEvaluatedAt = t,
        rs_lastFiredAt = rs_lastFiredAt (nextState out)\<rparr>"
  have same: "same_rule_state ?s = (\<lambda>x. rs_ruleId x = r \<and> rs_userWalletId x = w \<and> rs_poolEntityId x = p)"
    by (simp add: same_rule_state_def fun_eq_iff)
  have "prev_of_pair r w p d' = Some (case prev_of_pair r w p d of None \<Rightarrow> ?s | Some x \<Rightarrow> merge_rule_state ?s x)"
    using w find_upsert(2) [of "same_rule_state ?s" "merge_rule_state ?s" ?s "al_rule_state d"]
    by (simp add: write_pair_def upsertRuleState_Inr prev_of_pair_find same merge_rule_state_def)
  then show ?thesis
    by (simp add: edge_core_def st merge_rule_state_def carriedFiredAt_def split: option.split)
qed

lemma pair_read_other:
  assumes w: "write_pair r w p out t d = Inr d'" and k: "(r', w', p') \<noteq> (r, w, p)"
  shows "prev_of_pair r' w' p' d' = prev_of_pair r' w' p' d"
proof -
  let ?s = "\<lparr>rs_ruleId = r, rs_userWalletId = w, rs_poolEntityId = p, rs_status = nextStatus out,
        rs_lastValue = rs_lastValue (nextState out), rs_lastEvaluatedAt = t,
        rs_lastFiredAt = rs_lastFiredAt (nextState out)\<rparr>"
  let ?P = "\<lambda>s. rs_ruleId s = r' \<and> rs_userWalletId s = w' \<and> rs_poolEntityId s = p'"
  have "\<And>x. same_rule_state ?s x \<Longrightarrow> \<not> ?P x \<and> \<not> ?P (merge_rule_state ?s x)" "\<not> ?P ?s"
    using k by (auto simp: same_rule_state_def merge_rule_state_def)
  then have "List.find ?P (rev (if list_ex (same_rule_state ?s) rows
      then map (\<lambda>x. if same_rule_state ?s x then merge_rule_state ?s x else x) rows else rows @ [?s]))
      = List.find ?P (rev rows)" for rows
    by (rule find_upsert_other(2))
  then show ?thesis using w by (auto simp: write_pair_def upsertRuleState_Inr prev_of_pair_find)
qed

lemma subject_read_written:
  assumes w: "write_subject r k out t d = Inr d'" and st: "nextStatus out = rs_status (nextState out)"
  shows "map_option edge_core (prev_of_subject r k d') =
    Some (edge_core (persisted (prev_of_subject r k d) (nextState out)))"
proof -
  let ?s = "\<lparr>ss_ruleId = r, ss_subjectKey = k, ss_status = nextStatus out,
        ss_lastValue = rs_lastValue (nextState out), ss_lastEvaluatedAt = t,
        ss_lastFiredAt = rs_lastFiredAt (nextState out)\<rparr>"
  let ?find = "\<lambda>d. List.find (\<lambda>s. ss_ruleId s = r \<and> ss_subjectKey s = k) (al_subject_state d)"
  have same: "same_subject ?s = (\<lambda>x. ss_ruleId x = r \<and> ss_subjectKey x = k)"
    by (simp add: same_subject_def fun_eq_iff)
  have "?find d' = Some (case ?find d of None \<Rightarrow> ?s | Some x \<Rightarrow> merge_subject ?s x)"
    using w find_upsert(1) [of "same_subject ?s" "merge_subject ?s" ?s "al_subject_state d"]
    by (simp add: write_subject_def upsertSubjectState_Inr same merge_subject_def)
  then show ?thesis
    by (simp add: prev_of_subject_find edge_core_def adapt_subject_def st merge_subject_def carriedFiredAt_def
        split: option.split)
qed

lemma subject_read_other:
  assumes w: "write_subject r k out t d = Inr d'" and k: "(r', k') \<noteq> (r, k)"
  shows "prev_of_subject r' k' d' = prev_of_subject r' k' d"
proof -
  let ?s = "\<lparr>ss_ruleId = r, ss_subjectKey = k, ss_status = nextStatus out,
        ss_lastValue = rs_lastValue (nextState out), ss_lastEvaluatedAt = t,
        ss_lastFiredAt = rs_lastFiredAt (nextState out)\<rparr>"
  let ?P = "\<lambda>s. ss_ruleId s = r' \<and> ss_subjectKey s = k'"
  have "\<And>x. same_subject ?s x \<Longrightarrow> \<not> ?P x \<and> \<not> ?P (merge_subject ?s x)" "\<not> ?P ?s"
    using k by (auto simp: same_subject_def merge_subject_def)
  then have "List.find ?P (if list_ex (same_subject ?s) rows
      then map (\<lambda>x. if same_subject ?s x then merge_subject ?s x else x) rows else rows @ [?s])
      = List.find ?P rows" for rows
    by (rule find_upsert_other(1))
  then show ?thesis using w by (auto simp: write_subject_def upsertSubjectState_Inr prev_of_subject_find)
qed

interpretation pairs: edge_store "\<lambda>(r, w, p). prev_of_pair r w p" "\<lambda>(r, w, p). write_pair r w p"
proof unfold_locales
  fix k k' :: "string \<times> string \<times> string" and out t d d'
  obtain r w p where k: "k = (r, w, p)" by (cases k)
  obtain r' w' p' where k': "k' = (r', w', p')" by (cases k')
  assume wr: "(case k of (r, w, p) \<Rightarrow> write_pair r w p) out t d = Inr d'"
  show "map_option edge_core ((case k of (r, w, p) \<Rightarrow> prev_of_pair r w p) d') =
      Some (edge_core (persisted ((case k of (r, w, p) \<Rightarrow> prev_of_pair r w p) d) (nextState out)))"
    if "nextStatus out = rs_status (nextState out)"
    using pair_read_written [OF _ that] wr by (simp only: k prod.case)
  show "(case k' of (r, w, p) \<Rightarrow> prev_of_pair r w p) d' = (case k' of (r, w, p) \<Rightarrow> prev_of_pair r w p) d"
    if "k' \<noteq> k"
    using pair_read_other [of r w p out t d d' r' w' p'] wr that by (simp add: k k')
qed

interpretation subjects: edge_store "\<lambda>(r, k). prev_of_subject r k" "\<lambda>(r, k). write_subject r k"
proof unfold_locales
  fix k k' :: "string \<times> string" and out t d d'
  obtain r s where k: "k = (r, s)" by (cases k)
  obtain r' s' where k': "k' = (r', s')" by (cases k')
  assume wr: "(case k of (r, k) \<Rightarrow> write_subject r k) out t d = Inr d'"
  show "map_option edge_core ((case k of (r, k) \<Rightarrow> prev_of_subject r k) d') =
      Some (edge_core (persisted ((case k of (r, k) \<Rightarrow> prev_of_subject r k) d) (nextState out)))"
    if "nextStatus out = rs_status (nextState out)"
    using subject_read_written [OF _ that] wr by (simp only: k prod.case)
  show "(case k' of (r, k) \<Rightarrow> prev_of_subject r k) d' = (case k' of (r, k) \<Rightarrow> prev_of_subject r k) d"
    if "k' \<noteq> k"
    using subject_read_other [of r s out t d d' r' s'] wr that by (simp add: k k')
qed

end
