(* ===== verification/Network_Registry.thy ===== *)
theory Network_Registry
  imports Js_Text Process_Env
begin

text \<open>
  \<open>apps/api/src/modules/actions/network-registry.ts\<close> and \<open>testnet-registry.ts\<close>: the pools, assets
  and endpoints of the two networks and the launch controls read from the environment; and the
  client's own registry \<open>apps/web/src/config/blendPools.ts\<close>, which the signing gates pin. A classic
  asset is a code with an issuer. The public network passphrase is a constant of the SDK and enters
  as an argument.
\<close>

datatype ActionNetwork = Testnet | Mainnet

datatype BlendAssetCode = USDC | XLM

fun network_name :: "ActionNetwork \<Rightarrow> string" where
  "network_name Testnet = ''testnet''"
| "network_name Mainnet = ''mainnet''"

fun asset_name :: "BlendAssetCode \<Rightarrow> string" where
  "asset_name USDC = ''USDC''"
| "asset_name XLM = ''XLM''"

datatype ClassicAsset = NativeAsset | IssuedAsset string string

section \<open>testnet-registry.ts\<close>

definition TESTNET_RPC_URL :: string where "TESTNET_RPC_URL = ''https://soroban-testnet.stellar.org''"

definition TESTNET_HORIZON_URL :: string where "TESTNET_HORIZON_URL = ''https://horizon-testnet.stellar.org''"

definition TESTNET_NETWORK_PASSPHRASE :: string where
  "TESTNET_NETWORK_PASSPHRASE = ''Test SDF Network ; September 2015''"

definition TESTNET_BLEND_POOL :: string where
  "TESTNET_BLEND_POOL = ''CCEBVDYM32YNYCVNRXQKDFFPISJJCV557CDZEIRBEE4NCV4KHPQ44HGF''"

definition TESTNET_USDC_SAC :: string where
  "TESTNET_USDC_SAC = ''CAQCFVLOBK5GIULPNZRGATJJMIZL5BSP7X5YJVMGCPTUEPFM4AVSRCJU''"

definition TESTNET_XLM_SAC :: string where
  "TESTNET_XLM_SAC = ''CDLZFC3SYJYDZT7K67VZ75HPJVIEUVNIXF47ZG2FB2RMQQVU2HHGCYSC''"

definition TESTNET_USDC_CLASSIC :: ClassicAsset where
  "TESTNET_USDC_CLASSIC = IssuedAsset ''USDC'' ''GATALTGTWIOT6BUDBCZM3Q4OQ4BO2COLOAZ7IYSKPLC2PMSOPPGF5V56''"

definition TESTNET_USDC_SDEX :: ClassicAsset where
  "TESTNET_USDC_SDEX = IssuedAsset ''USDC'' ''GBBD47IF6LWK7P7MDEVSCWR7DPUWV3NY3DTQEVFL4NAT4AQH3ZLLFLA5''"

definition ASSET_DECIMALS :: "BlendAssetCode \<Rightarrow> nat" where
  "ASSET_DECIMALS a = (case a of USDC \<Rightarrow> 7 | XLM \<Rightarrow> 7)"

section \<open>network-registry.ts: constants\<close>

definition MAINNET_HORIZON_URL :: string where "MAINNET_HORIZON_URL = ''https://horizon.stellar.org''"

definition DEFAULT_MAINNET_RPC_URL :: string where "DEFAULT_MAINNET_RPC_URL = ''https://mainnet.sorobanrpc.com''"

definition MAINNET_USDC_ISSUER :: string where
  "MAINNET_USDC_ISSUER = ''GA5ZSEJYB37JRC5AVCIA5MOP4RHTM335X2KGX3IHOJAPP5RE34K4KZVN''"

definition MAINNET_USDC_SDEX :: ClassicAsset where
  "MAINNET_USDC_SDEX = IssuedAsset ''USDC'' MAINNET_USDC_ISSUER"

definition MAINNET_BLEND_POOL :: string where
  "MAINNET_BLEND_POOL = ''CAJJZSGMMM3PD7N33TAPHGBUGTB43OC73HVIK2L2G6BNGGGYOSSYBXBD''"

definition MAINNET_USDC_SAC :: string where
  "MAINNET_USDC_SAC = ''CCW67TSZV3SSS2HXMBQ5JFGCKJNXKZM7UQUWUZPUTHXSTZLEO7SJMI75''"

definition MAINNET_XLM_SAC :: string where
  "MAINNET_XLM_SAC = ''CAS3J7GYLGXMF6TDJBBYYSE3HQ6BBSMLNUQ34T6TZMYMW2EVH34XOWMA''"

definition MAINNET_USDC_CLASSIC :: ClassicAsset where
  "MAINNET_USDC_CLASSIC = IssuedAsset ''USDC'' MAINNET_USDC_ISSUER"

record BlendPoolEntry =
  pe_slug :: string
  pe_poolId :: string
  pe_label :: string
  pe_assets :: "BlendAssetCode list"

definition MAINNET_BLEND_POOLS :: "BlendPoolEntry list" where
  "MAINNET_BLEND_POOLS =
     [\<lparr>pe_slug = ''blend-fixed-pool'', pe_poolId = MAINNET_BLEND_POOL, pe_label = ''Fixed'', pe_assets = [XLM, USDC]\<rparr>,
      \<lparr>pe_slug = ''blend-yieldblox-pool'', pe_poolId = ''CCCCIQSDILITHMM7PBSLVDT5MISSY7R26MNZXCX4H7J5JQ5FPIYOGYFS'',
       pe_label = ''YieldBlox'', pe_assets = [XLM, USDC]\<rparr>,
      \<lparr>pe_slug = ''blend-orbit-pool'', pe_poolId = ''CAE7QVOMBLZ53CDRGK3UNRRHG5EZ5NQA7HHTFASEMYBWHG6MDFZTYHXC'',
       pe_label = ''Orbit'', pe_assets = [XLM]\<rparr>,
      \<lparr>pe_slug = ''blend-etherfuse-pool'', pe_poolId = ''CDMAVJPFXPADND3YRL4BSM3AKZWCTFMX27GLLXCML3PD62HEQS5FPVAI'',
       pe_label = ''Etherfuse'', pe_assets = [XLM, USDC]\<rparr>]"

definition MAINNET_DEFAULT_BLEND_POOL_SLUG :: string where
  "MAINNET_DEFAULT_BLEND_POOL_SLUG = ''blend-fixed-pool''"

definition TESTNET_DEFAULT_BLEND_POOL_SLUG :: string where
  "TESTNET_DEFAULT_BLEND_POOL_SLUG = ''blend-testnet-pool''"

definition TESTNET_BLEND_POOLS :: "BlendPoolEntry list" where
  "TESTNET_BLEND_POOLS =
     [\<lparr>pe_slug = TESTNET_DEFAULT_BLEND_POOL_SLUG, pe_poolId = TESTNET_BLEND_POOL,
       pe_label = ''Blend Testnet Pool (V2)'', pe_assets = [XLM, USDC]\<rparr>]"

definition MAINNET_ASSET_WHITELIST :: "(string \<times> string) list" where
  "MAINNET_ASSET_WHITELIST =
     [(''USDC'', MAINNET_USDC_ISSUER),
      (''EURC'', ''GDHU6WRG4IEQXM5NZ4BMPKOXHW76MZM4Y2IEMFDVXBSDP6SJY4ITNPP2''),
      (''AQUA'', ''GBNZILSTVQZ4R7IKQDGHYGY2QXL5QOFJYQMXPKWRRM5PAV7Y4M67AQUA''),
      (''yXLM'', ''GARDNV3Q7YGT4AKSDF25LT32YSCCW4EV22Y2TV3I2PU2MMXJTEDL5T55''),
      (''PYUSD'', ''GDQE7IXJ4HUHV6RQHIUPRJSEZE4DRS5WY577O2FY6YQ5LVWZ7JZTU2V5'')]"

section \<open>network-registry.ts: launch controls\<close>

definition isMainnetEnabled :: "Env \<Rightarrow> bool" where
  "isMainnetEnabled env \<longleftrightarrow> env_var env ''ACTIONS_MAINNET_ENABLED'' = Some ''true''"

definition isMainnetBlendEnabled :: "Env \<Rightarrow> bool" where
  "isMainnetBlendEnabled env \<longleftrightarrow> env_var env ''ACTIONS_MAINNET_BLEND_ENABLED'' = Some ''true''"

definition mainnetMaxSendXlm :: "Env \<Rightarrow> jsnum" where
  "mainnetMaxSendXlm env =
     (let parsed = (case env_var env ''ACTIONS_MAINNET_MAX_SEND_XLM'' of None \<Rightarrow> NaN | Some raw \<Rightarrow> parseFloat raw) in
      if isFinite parsed \<and> js_lt (Num 0) parsed then parsed else Num 100)"

definition mainnetRpcUrl :: "Env \<Rightarrow> string" where
  "mainnetRpcUrl env =
     (case env_var env ''ACTIONS_MAINNET_RPC_URL'' of
        None \<Rightarrow> DEFAULT_MAINNET_RPC_URL | Some u \<Rightarrow> if u = [] then DEFAULT_MAINNET_RPC_URL else u)"

section \<open>network-registry.ts: resolution\<close>

record NetworkConfig =
  nc_rpcUrl :: string
  nc_horizonUrl :: string
  nc_passphrase :: string
  nc_label :: ActionNetwork

definition getNetworkConfig :: "Env \<Rightarrow> string \<Rightarrow> ActionNetwork \<Rightarrow> NetworkConfig" where
  "getNetworkConfig env public_passphrase network =
     (case network of
        Testnet \<Rightarrow> \<lparr>nc_rpcUrl = TESTNET_RPC_URL, nc_horizonUrl = TESTNET_HORIZON_URL,
                    nc_passphrase = TESTNET_NETWORK_PASSPHRASE, nc_label = Testnet\<rparr>
      | Mainnet \<Rightarrow> \<lparr>nc_rpcUrl = mainnetRpcUrl env, nc_horizonUrl = MAINNET_HORIZON_URL,
                    nc_passphrase = public_passphrase, nc_label = Mainnet\<rparr>)"

definition vettedUsdcSdex :: "ActionNetwork \<Rightarrow> ClassicAsset" where
  "vettedUsdcSdex network = (case network of Testnet \<Rightarrow> TESTNET_USDC_SDEX | Mainnet \<Rightarrow> MAINNET_USDC_SDEX)"

definition blendPoolsFor :: "ActionNetwork \<Rightarrow> BlendPoolEntry list" where
  "blendPoolsFor network = (case network of Testnet \<Rightarrow> TESTNET_BLEND_POOLS | Mainnet \<Rightarrow> MAINNET_BLEND_POOLS)"

record BlendNetworkConfig =
  bc_poolId :: string
  bc_poolSlug :: string
  bc_poolLabel :: string
  bc_assets :: "BlendAssetCode list"
  bc_passphrase :: string
  bc_rpcUrl :: string
  bc_horizonUrl :: string
  bc_sac :: "BlendAssetCode \<Rightarrow> string"
  bc_usdcClassic :: ClassicAsset

datatype http_error = HttpBadRequest string | HttpForbidden string | HttpUnprocessable string | HttpInternal string

definition wanted_slug :: "ActionNetwork \<Rightarrow> string option \<Rightarrow> string" where
  "wanted_slug network poolSlug =
     (let wanted = (case poolSlug of None \<Rightarrow> [] | Some s \<Rightarrow> trim s) in
      if wanted \<noteq> [] then wanted
      else case network of Testnet \<Rightarrow> TESTNET_DEFAULT_BLEND_POOL_SLUG | Mainnet \<Rightarrow> MAINNET_DEFAULT_BLEND_POOL_SLUG)"

definition join_with :: "string \<Rightarrow> string list \<Rightarrow> string" where
  "join_with sep ts = (case ts of [] \<Rightarrow> [] | t # us \<Rightarrow> foldl (\<lambda>acc u. acc @ sep @ u) t us)"

definition resolveBlendPool ::
  "Env \<Rightarrow> string \<Rightarrow> ActionNetwork \<Rightarrow> string option \<Rightarrow> http_error + BlendNetworkConfig" where
  "resolveBlendPool env public_passphrase network poolSlug =
     (case List.find (\<lambda>p. pe_slug p = wanted_slug network poolSlug) (blendPoolsFor network) of
        None \<Rightarrow> Inl (HttpBadRequest (''unknown Blend pool '' @ [CHR 0x22]
          @ (case poolSlug of None \<Rightarrow> ''undefined'' | Some s \<Rightarrow> s) @ [CHR 0x22] @ '' on '' @ network_name network
          @ '' (known: '' @ join_with '', '' (map pe_slug (blendPoolsFor network)) @ '')''))
      | Some entry \<Rightarrow>
          Inr (case network of
            Testnet \<Rightarrow>
              \<lparr>bc_poolId = pe_poolId entry, bc_poolSlug = pe_slug entry, bc_poolLabel = pe_label entry,
               bc_assets = pe_assets entry, bc_passphrase = TESTNET_NETWORK_PASSPHRASE,
               bc_rpcUrl = TESTNET_RPC_URL, bc_horizonUrl = TESTNET_HORIZON_URL,
               bc_sac = (\<lambda>a. case a of USDC \<Rightarrow> TESTNET_USDC_SAC | XLM \<Rightarrow> TESTNET_XLM_SAC),
               bc_usdcClassic = TESTNET_USDC_CLASSIC\<rparr>
          | Mainnet \<Rightarrow>
              \<lparr>bc_poolId = pe_poolId entry, bc_poolSlug = pe_slug entry, bc_poolLabel = pe_label entry,
               bc_assets = pe_assets entry, bc_passphrase = public_passphrase,
               bc_rpcUrl = mainnetRpcUrl env, bc_horizonUrl = MAINNET_HORIZON_URL,
               bc_sac = (\<lambda>a. case a of USDC \<Rightarrow> MAINNET_USDC_SAC | XLM \<Rightarrow> MAINNET_XLM_SAC),
               bc_usdcClassic = MAINNET_USDC_CLASSIC\<rparr>))"

definition assertPoolSupportsAsset :: "BlendNetworkConfig \<Rightarrow> BlendAssetCode \<Rightarrow> http_error + unit" where
  "assertPoolSupportsAsset cfg asset =
     (if asset \<notin> set (bc_assets cfg)
      then Inl (HttpBadRequest (bc_poolLabel cfg @ '' does not have a '' @ asset_name asset @ '' reserve (supported: ''
        @ join_with '', '' (map asset_name (bc_assets cfg)) @ '')''))
      else Inr ())"

record AssetRef =
  ref_code :: string
  ref_issuer :: "string option"

definition isWhitelistedMainnetAsset :: "AssetRef \<Rightarrow> bool" where
  "isWhitelistedMainnetAsset r \<longleftrightarrow>
     ref_code r = ''XLM'' \<or> ref_code r = ''native''
     \<or> (ref_code r = ''USDC'' \<and> ref_issuer r = None)
     \<or> list_ex (\<lambda>(code, issuer). code = ref_code r \<and> ref_issuer r = Some issuer) MAINNET_ASSET_WHITELIST"

section \<open>The client's registry\<close>

record BlendPoolConfig =
  wp_network :: ActionNetwork
  wp_slug :: string
  wp_poolId :: string
  wp_label :: string
  wp_assets :: "(BlendAssetCode \<times> string \<times> nat) list" \<comment> \<open>code, SAC, decimals\<close>
  wp_usdcClassic :: "string \<times> string"
  wp_rpcUrl :: string
  wp_horizonUrl :: string
  wp_realFunds :: bool

definition web_testnet_assets :: "BlendAssetCode \<Rightarrow> BlendAssetCode \<times> string \<times> nat" where
  "web_testnet_assets a =
     (case a of
        XLM \<Rightarrow> (XLM, ''CDLZFC3SYJYDZT7K67VZ75HPJVIEUVNIXF47ZG2FB2RMQQVU2HHGCYSC'', 7)
      | USDC \<Rightarrow> (USDC, ''CAQCFVLOBK5GIULPNZRGATJJMIZL5BSP7X5YJVMGCPTUEPFM4AVSRCJU'', 7))"

definition web_mainnet_assets :: "BlendAssetCode \<Rightarrow> BlendAssetCode \<times> string \<times> nat" where
  "web_mainnet_assets a =
     (case a of
        XLM \<Rightarrow> (XLM, ''CAS3J7GYLGXMF6TDJBBYYSE3HQ6BBSMLNUQ34T6TZMYMW2EVH34XOWMA'', 7)
      | USDC \<Rightarrow> (USDC, ''CCW67TSZV3SSS2HXMBQ5JFGCKJNXKZM7UQUWUZPUTHXSTZLEO7SJMI75'', 7))"

definition testnetPool :: "string \<Rightarrow> string \<Rightarrow> string \<Rightarrow> BlendAssetCode list \<Rightarrow> BlendPoolConfig" where
  "testnetPool slug poolId label codes =
     \<lparr>wp_network = Testnet, wp_slug = slug, wp_poolId = poolId, wp_label = label,
      wp_assets = map web_testnet_assets codes,
      wp_usdcClassic = (''USDC'', ''GATALTGTWIOT6BUDBCZM3Q4OQ4BO2COLOAZ7IYSKPLC2PMSOPPGF5V56''),
      wp_rpcUrl = ''https://soroban-testnet.stellar.org'',
      wp_horizonUrl = ''https://horizon-testnet.stellar.org'', wp_realFunds = False\<rparr>"

definition mainnetPool :: "string \<Rightarrow> string \<Rightarrow> string \<Rightarrow> BlendAssetCode list \<Rightarrow> BlendPoolConfig" where
  "mainnetPool slug poolId label codes =
     \<lparr>wp_network = Mainnet, wp_slug = slug, wp_poolId = poolId, wp_label = label,
      wp_assets = map web_mainnet_assets codes,
      wp_usdcClassic = (''USDC'', ''GA5ZSEJYB37JRC5AVCIA5MOP4RHTM335X2KGX3IHOJAPP5RE34K4KZVN''),
      wp_rpcUrl = ''https://mainnet.sorobanrpc.com'',
      wp_horizonUrl = ''https://horizon.stellar.org'', wp_realFunds = True\<rparr>"

definition web_testnet_pools :: "BlendPoolConfig list" where
  "web_testnet_pools =
     [testnetPool ''blend-testnet-pool'' ''CCEBVDYM32YNYCVNRXQKDFFPISJJCV557CDZEIRBEE4NCV4KHPQ44HGF''
        ''Blend Testnet Pool (V2)'' [XLM, USDC]]"

definition web_mainnet_pools :: "BlendPoolConfig list" where
  "web_mainnet_pools =
     [mainnetPool ''blend-fixed-pool'' ''CAJJZSGMMM3PD7N33TAPHGBUGTB43OC73HVIK2L2G6BNGGGYOSSYBXBD'' ''Fixed'' [XLM, USDC],
      mainnetPool ''blend-yieldblox-pool'' ''CCCCIQSDILITHMM7PBSLVDT5MISSY7R26MNZXCX4H7J5JQ5FPIYOGYFS''
        ''YieldBlox'' [XLM, USDC],
      mainnetPool ''blend-orbit-pool'' ''CAE7QVOMBLZ53CDRGK3UNRRHG5EZ5NQA7HHTFASEMYBWHG6MDFZTYHXC'' ''Orbit'' [XLM],
      mainnetPool ''blend-etherfuse-pool'' ''CDMAVJPFXPADND3YRL4BSM3AKZWCTFMX27GLLXCML3PD62HEQS5FPVAI''
        ''Etherfuse'' [XLM, USDC]]"

definition web_default_slug :: "ActionNetwork \<Rightarrow> string" where
  "web_default_slug network = (case network of Testnet \<Rightarrow> ''blend-testnet-pool'' | Mainnet \<Rightarrow> ''blend-fixed-pool'')"

definition web_pools_for :: "ActionNetwork \<Rightarrow> BlendPoolConfig list" where
  "web_pools_for network = (case network of Mainnet \<Rightarrow> web_mainnet_pools | Testnet \<Rightarrow> web_testnet_pools)"

definition blendPoolFor :: "ActionNetwork \<Rightarrow> string option \<Rightarrow> BlendPoolConfig option" where
  "blendPoolFor network slug =
     (let wanted = (case slug of None \<Rightarrow> [] | Some s \<Rightarrow> trim s);
          w = (if wanted \<noteq> [] then wanted else web_default_slug network) in
      List.find (\<lambda>p. wp_slug p = w) (web_pools_for network))"

section \<open>The two registries agree\<close>

lemma registry_entries:
  "map wp_slug (web_pools_for n) = map pe_slug (blendPoolsFor n)"
  "map wp_poolId (web_pools_for n) = map pe_poolId (blendPoolsFor n)"
  "map wp_label (web_pools_for n) = map pe_label (blendPoolsFor n)"
  "map (map fst \<circ> wp_assets) (web_pools_for n) = map pe_assets (blendPoolsFor n)"
  by (induction n; code_simp)+

lemma default_slugs: "web_default_slug n = wanted_slug n None"
  by (induction n; code_simp)

text \<open>Two lists with equal keys find entries at the same place.\<close>

lemma find_map_eq:
  "map f xs = map f' ys \<Longrightarrow> map g xs = map g' ys \<Longrightarrow>
     map_option g (List.find (\<lambda>x. f x = w) xs) = map_option g' (List.find (\<lambda>y. f' y = w) ys)"
proof (induction xs arbitrary: ys)
  case (Cons a xs)
  then obtain b zs where ys: "ys = b # zs" by (cases ys) auto
  from Cons.prems have "f a = f' b" "g a = g' b" "map f xs = map f' zs" "map g xs = map g' zs"
    by (simp_all add: ys)
  then show ?case using Cons.IH [of zs] by (simp add: ys)
qed simp

lemma blendPoolFor_wanted: "blendPoolFor n s = List.find (\<lambda>p. wp_slug p = wanted_slug n s) (web_pools_for n)"
  by (cases n)
     (simp_all add: blendPoolFor_def wanted_slug_def Let_def web_default_slug_def TESTNET_DEFAULT_BLEND_POOL_SLUG_def
      MAINNET_DEFAULT_BLEND_POOL_SLUG_def)

end
