(* ===== verification/Alert_Sweep.thy ===== *)
theory Alert_Sweep
  imports Alert_Edges Network_Registry
begin

text \<open>
  One run of \<open>apps/api/src/scripts/83-evaluate-alerts.ts\<close>: the rules are loaded and dispatched by
  family, every rule is evaluated on its subjects, the new edge state is written, and each edge
  appends a notification. The statements of a run share one transaction time (\<open>sw_sql\<close>), the
  evaluator is given the injected \<open>now\<close> (\<open>sw_now\<close>). \<open>sw_faults\<close> says which statements throw; an error
  ends the rule it occurs in and keeps what was written. Log lines are left out, the counters of the
  final summary are \<open>SweepLog\<close>. Rows are keyed by uuids, which contain no colon, so the text key of
  the health family's map is the pair.
\<close>

record Faults =
  ft_read :: "string \<Rightarrow> bool" \<comment> \<open>reading the edge state of a rule\<close>
  ft_write :: "string \<Rightarrow> edge_key \<Rightarrow> bool"
  ft_notify :: "string \<Rightarrow> edge_key \<Rightarrow> bool"
  ft_pool_reads :: bool
  ft_pool_write :: "string \<Rightarrow> bool"
  ft_pool_notify :: "string \<Rightarrow> user_id \<Rightarrow> bool"

record Sweep =
  sw_env :: Env
  sw_now :: ms
  sw_sql :: ms
  sw_pool_load :: "string \<Rightarrow> jsnum option" \<comment> \<open>the status code of a pool, \<open>None\<close> when loading it throws\<close>
  sw_faults :: Faults

record SweepLog =
  rulesEvaluated :: nat
  rowsMatched :: nat
  fired :: nat
  resolved :: nat
  poolStatusChanges :: nat
  poolStatusNotified :: nat

definition count_edge :: "emit_kind \<Rightarrow> SweepLog \<Rightarrow> SweepLog" where
  "count_edge em l = (case em of AlertFired \<Rightarrow> l\<lparr>fired := Suc (fired l)\<rparr> | AlertResolved \<Rightarrow> l\<lparr>resolved := Suc (resolved l)\<rparr>)"

text \<open>Write the state, then append the notification of the edge, if there is one. The boolean says
  that a statement threw.\<close>

definition record_edge ::
  "bool \<Rightarrow> bool \<Rightarrow> (AlertsDb \<Rightarrow> JsError + AlertsDb) \<Rightarrow> (emit_kind \<Rightarrow> AlertsDb \<Rightarrow> JsError + AlertsDb)
    \<Rightarrow> emit_kind option \<Rightarrow> SweepLog \<times> AlertsDb \<Rightarrow> bool \<times> SweepLog \<times> AlertsDb" where
  "record_edge write_fails notify_fails wr notify em s =
     (let (l, d) = s in
      case (if write_fails then Inl () else map_sum (\<lambda>_. ()) id (wr d)) of
        Inl _ \<Rightarrow> (True, l, d)
      | Inr d1 \<Rightarrow>
          (case em of
             None \<Rightarrow> (False, l, d1)
           | Some k \<Rightarrow>
               (case (if notify_fails then Inl () else map_sum (\<lambda>_. ()) id (notify k d1)) of
                  Inl _ \<Rightarrow> (True, l, d1)
                | Inr d2 \<Rightarrow> (False, count_edge k l, d2))))"

section \<open>Health factor\<close>

fun OPERATOR_SYMBOL :: "operator \<Rightarrow> string" where
  "OPERATOR_SYMBOL OpLt = ''<''"
| "OPERATOR_SYMBOL OpLte = ''<=''"
| "OPERATOR_SYMBOL OpGt = ''>''"
| "OPERATOR_SYMBOL OpGte = ''>=''"

definition opt_num_text :: "jsnum option \<Rightarrow> string" where
  "opt_num_text v = (case v of None \<Rightarrow> ''null'' | Some n \<Rightarrow> num_text n)"

definition health_copy :: "AlertRule \<Rightarrow> LatestPoolHealth \<Rightarrow> string \<Rightarrow> ms \<Rightarrow> emit_kind \<Rightarrow> Copy" where
  "health_copy rule row poolLabel now em =
     (let opSym = OPERATOR_SYMBOL (ar_operator rule);
          lowIsBad = (ar_operator rule = OpLt \<or> ar_operator rule = OpLte);
          directionWord = (if lowIsBad then ''dropped to'' else ''rose to'');
          hf3 = (case lh_healthFactor row of None \<Rightarrow> ''n/a'' | Some v \<Rightarrow> toFixed_num 3 v);
          asOfSuffix = '', as of '' @ formatAsOf (lh_snapshotAt row) now in
      case em of
        AlertFired \<Rightarrow>
          \<lparr>cp_title = ''Health factor warning: '' @ poolLabel,
           cp_body = poolLabel @ '' health factor '' @ directionWord @ '' '' @ hf3 @ '' (alert threshold ''
             @ opSym @ '' '' @ opt_num_text (ar_threshold rule) @ '')'' @ asOfSuffix @ ''.''\<rparr>
      | AlertResolved \<Rightarrow>
          \<lparr>cp_title = ''Health factor recovered: '' @ poolLabel,
           cp_body = poolLabel @ '' health factor back to '' @ hf3 @ asOfSuffix @ ''.''\<rparr>)"

definition in_scope :: "AlertRule \<Rightarrow> LatestPoolHealth \<Rightarrow> bool" where
  "in_scope rule row \<longleftrightarrow>
     lh_userId row = ar_userId rule
     \<and> (ar_userWalletId rule = None \<or> ar_userWalletId rule = Some (lh_userWalletId row))
     \<and> (ar_poolEntityId rule = None \<or> ar_poolEntityId rule = Some (lh_poolEntityId row))"

definition prev_in_map :: "AlertRuleState list \<Rightarrow> LatestPoolHealth \<Rightarrow> AlertRuleState option" where
  "prev_in_map prior row =
     List.find (\<lambda>s. rs_userWalletId s = lh_userWalletId row \<and> rs_poolEntityId s = lh_poolEntityId row) (rev prior)"

definition health_row ::
  "Sweep \<Rightarrow> AlertRule \<Rightarrow> (string \<rightharpoonup> PoolLabel) \<Rightarrow> AlertRuleState list \<Rightarrow> LatestPoolHealth \<Rightarrow> SweepLog \<times> AlertsDb
    \<Rightarrow> bool \<times> SweepLog \<times> AlertsDb" where
  "health_row w rule labels prior row s =
     (let (l, d) = s;
          l1 = l\<lparr>rowsMatched := Suc (rowsMatched l)\<rparr>;
          wal = lh_userWalletId row; pool = lh_poolEntityId row;
          out = evaluate rule (lh_healthFactor row) (prev_in_map prior row) (sw_now w);
          poolLabel = formatPoolLabel labels pool;
          payload = HealthPayload wal pool poolLabel (lh_healthFactor row) (ar_threshold rule) (ar_operator rule)
                      (lh_snapshotAt row) in
      record_edge (ft_write (sw_faults w) (ar_id rule) (WalletPool wal pool))
        (ft_notify (sw_faults w) (ar_id rule) (WalletPool wal pool))
        (write_pair (ar_id rule) wal pool out (sw_now w))
        (\<lambda>em. insertNotification (ar_userId rule) (Some (ar_id rule)) em
           (health_copy rule row poolLabel (sw_now w) em) payload (sw_sql w))
        (emit out) (l1, d))"

fun health_rows ::
  "Sweep \<Rightarrow> AlertRule \<Rightarrow> (string \<rightharpoonup> PoolLabel) \<Rightarrow> AlertRuleState list \<Rightarrow> LatestPoolHealth list \<Rightarrow> SweepLog \<times> AlertsDb
    \<Rightarrow> SweepLog \<times> AlertsDb" where
  "health_rows w rule labels prior [] s = s"
| "health_rows w rule labels prior (row # rows) s =
     (case health_row w rule labels prior row s of
        (True, s1) \<Rightarrow> s1
      | (False, s1) \<Rightarrow> health_rows w rule labels prior rows s1)"

definition count_rule :: "SweepLog \<Rightarrow> SweepLog" where
  "count_rule l = l\<lparr>rulesEvaluated := Suc (rulesEvaluated l)\<rparr>"

definition health_rule ::
  "Sweep \<Rightarrow> LatestPoolHealth list \<Rightarrow> (string \<rightharpoonup> PoolLabel) \<Rightarrow> AlertRule \<Rightarrow> SweepLog \<times> AlertsDb \<Rightarrow> SweepLog \<times> AlertsDb" where
  "health_rule w latest labels rule s =
     (let (l, d) = s; matched = filter (in_scope rule) latest in
      if ft_read (sw_faults w) (ar_id rule) then (count_rule l, d)
      else health_rows w rule labels (getRuleState (ar_id rule) d) matched (count_rule l, d))"

section \<open>The families with one subject per rule\<close>

text \<open>Price, TVL drop and APY rules share the tail: read the subject's state, evaluate, write, notify.\<close>

definition subject_edge ::
  "Sweep \<Rightarrow> AlertRule \<Rightarrow> string \<Rightarrow> jsnum \<Rightarrow> (emit_kind \<Rightarrow> Copy) \<Rightarrow> alert_payload \<Rightarrow> SweepLog \<times> AlertsDb \<Rightarrow> SweepLog \<times> AlertsDb" where
  "subject_edge w rule key v copy payload s =
     (if ft_read (sw_faults w) (ar_id rule) then s
      else let out = evaluate rule (Some v) (prev_of_subject (ar_id rule) key (snd s)) (sw_now w) in
        snd (record_edge (ft_write (sw_faults w) (ar_id rule) (Subject key))
          (ft_notify (sw_faults w) (ar_id rule) (Subject key))
          (write_subject (ar_id rule) key out (sw_now w))
          (\<lambda>em. insertNotification (ar_userId rule) (Some (ar_id rule)) em (copy em) payload (sw_sql w))
          (emit out) s))"

definition price_rule ::
  "Sweep \<Rightarrow> (string \<rightharpoonup> LatestAssetPrice) \<Rightarrow> AlertRule \<Rightarrow> SweepLog \<times> AlertsDb \<Rightarrow> SweepLog \<times> AlertsDb" where
  "price_rule w prices rule s =
     (let (l, d) = s; s1 = (count_rule l, d) in
      case (ar_assetId rule, ar_threshold rule) of
        (Some asset, Some threshold) \<Rightarrow>
          (case prices asset of
             None \<Rightarrow> s1
           | Some px \<Rightarrow>
               (case ap_priceUsd px of
                  None \<Rightarrow> s1
                | Some v \<Rightarrow>
                    (let symbol = displaySymbol (ap_symbol px) (ap_name px) (ap_assetId px);
                         l2 = (count_rule l)\<lparr>rowsMatched := Suc (rowsMatched l)\<rparr> in
                     subject_edge w rule asset v
                       (\<lambda>em. buildPriceCopy em symbol (ar_operator rule) threshold v (ap_observedAt px) (sw_now w))
                       (PricePayload asset symbol v threshold (ar_operator rule) (ap_observedAt px)) (l2, d))))
      | _ \<Rightarrow> s1)"

definition stale_by_a_day :: "ms \<Rightarrow> ms \<Rightarrow> bool" where
  "stale_by_a_day asOf now \<longleftrightarrow> 24 * 3600 * 1000 < now - asOf"

definition tvl_rule ::
  "Sweep \<Rightarrow> (string \<rightharpoonup> PoolTvlWindow) \<Rightarrow> (string \<rightharpoonup> PoolLabel) \<Rightarrow> AlertRule \<Rightarrow> SweepLog \<times> AlertsDb \<Rightarrow> SweepLog \<times> AlertsDb" where
  "tvl_rule w windows labels rule s =
     (let (l, d) = s; s1 = (count_rule l, d) in
      case (ar_poolEntityId rule, ar_threshold rule) of
        (Some pool, Some threshold) \<Rightarrow>
          (case windows pool of
             None \<Rightarrow> s1
           | Some win \<Rightarrow>
               (case (tw_latestTvlUsd win, tw_prevTvlUsd win) of
                  (Some latestTvl, Some prevTvl) \<Rightarrow>
                    if stale_by_a_day (tw_latestAt win) (sw_now w) then s1
                    else (case computeTvlDropPct prevTvl latestTvl of
                      None \<Rightarrow> s1
                    | Some dropPct \<Rightarrow>
                        (let poolLabel = formatPoolLabel labels pool;
                             windowHours = Math_round (js_div (jsint (tw_latestAt win - tw_prevAt win)) (jsint 3600000));
                             link = (case labels pool of None \<Rightarrow> None | Some p \<Rightarrow> pl_slug p) in
                         subject_edge w rule pool dropPct
                           (\<lambda>em. buildTvlDropCopy em poolLabel dropPct prevTvl latestTvl threshold windowHours
                              (tw_latestAt win) (sw_now w))
                           (TvlPayload pool poolLabel dropPct threshold (ar_operator rule) prevTvl latestTvl windowHours
                              (tw_latestAt win) link) s1))
                | _ \<Rightarrow> s1))
      | _ \<Rightarrow> s1)"

definition apy_rule ::
  "Sweep \<Rightarrow> (string \<rightharpoonup> PoolApy) \<Rightarrow> (string \<rightharpoonup> PoolLabel) \<Rightarrow> AlertRule \<Rightarrow> SweepLog \<times> AlertsDb \<Rightarrow> SweepLog \<times> AlertsDb" where
  "apy_rule w apys labels rule s =
     (let (l, d) = s; s1 = (count_rule l, d) in
      case (ar_poolEntityId rule, ar_threshold rule) of
        (Some pool, Some threshold) \<Rightarrow>
          (let side = apyRuleSide (ar_metric rule) in
           case apys pool of
             None \<Rightarrow> s1
           | Some a \<Rightarrow>
               (case ((if side = Supply then pa_supplyApy a else pa_borrowApy a), pa_asOf a) of
                  (Some fraction, Some asOf) \<Rightarrow>
                    if stale_by_a_day asOf (sw_now w) then s1
                    else (let valuePct = js_mul fraction (Num 100); poolLabel = formatPoolLabel labels pool;
                              link = (case labels pool of None \<Rightarrow> None | Some p \<Rightarrow> pl_slug p) in
                          subject_edge w rule pool valuePct
                            (\<lambda>em. buildApyCopy em poolLabel side (ar_operator rule) threshold valuePct asOf (sw_now w))
                            (ApyPayload pool poolLabel side valuePct threshold (ar_operator rule) asOf link) s1)
                | _ \<Rightarrow> s1))
      | _ \<Rightarrow> s1)"

section \<open>Pool status\<close>

fun notify_users ::
  "Sweep \<Rightarrow> string \<Rightarrow> emit_kind \<Rightarrow> Copy \<Rightarrow> alert_payload \<Rightarrow> user_id list \<Rightarrow> SweepLog \<times> AlertsDb
    \<Rightarrow> bool \<times> SweepLog \<times> AlertsDb" where
  "notify_users w entity kind copy payload [] s = (False, s)"
| "notify_users w entity kind copy payload (u # us) (l, d) =
     (case (if ft_pool_notify (sw_faults w) entity u then Inl ()
            else map_sum (\<lambda>_. ()) id (insertNotification u None kind copy payload (sw_sql w) d)) of
        Inl _ \<Rightarrow> (True, l, d)
      | Inr d1 \<Rightarrow> notify_users w entity kind copy payload us (l\<lparr>poolStatusNotified := Suc (poolStatusNotified l)\<rparr>, d1))"

definition pool_entry ::
  "Sweep \<Rightarrow> (string \<rightharpoonup> string) \<Rightarrow> (string \<rightharpoonup> PoolStatusState) \<Rightarrow> BlendPoolEntry \<Rightarrow> SweepLog \<times> AlertsDb
    \<Rightarrow> bool \<times> SweepLog \<times> AlertsDb" where
  "pool_entry w slugToEntity prevStates entry s =
     (let (l, d) = s in
      case slugToEntity (pe_slug entry) of
        None \<Rightarrow> (False, s)
      | Some entity \<Rightarrow>
          (case sw_pool_load w (pe_poolId entry) of
             None \<Rightarrow> (False, s)
           | Some code \<Rightarrow>
               (let status = derivePoolStatus code;
                    prev = prevStates entity;
                    outcome = diffPoolStatus (map_option pss_status prev) (bp_label status);
                    changedAt = (case prev of
                        None \<Rightarrow> sw_now w
                      | Some p \<Rightarrow> if outcome = Changed \<or> outcome = Suppressed then sw_now w else pss_changedAt p) in
                if ft_pool_write (sw_faults w) entity then (True, s)
                else let d1 = upsertPoolStatusState
                      \<lparr>pss_entityId = entity, pss_statusCode = bp_code status, pss_status = bp_label status,
                       pss_changedAt = changedAt, pss_seenAt = sw_now w\<rparr> d in
                  case prev of
                    None \<Rightarrow> (False, l, d1)
                  | Some p \<Rightarrow>
                      if outcome \<noteq> Changed then (False, l, d1)
                      else let poolLabel = ''Blend '' @ pe_label entry;
                               (kind, copy) = buildPoolStatusCopy poolLabel (pss_status p) (bp_label status);
                               payload = PoolStatusPayload entity poolLabel (pss_status p) (bp_label status) status
                                           (sw_now w) (pe_slug entry) in
                        notify_users w entity kind copy payload (usersWithPositions entity (sw_sql w) d1)
                          (l\<lparr>poolStatusChanges := Suc (poolStatusChanges l)\<rparr>, d1))))"

fun pool_entries ::
  "Sweep \<Rightarrow> (string \<rightharpoonup> string) \<Rightarrow> (string \<rightharpoonup> PoolStatusState) \<Rightarrow> BlendPoolEntry list \<Rightarrow> SweepLog \<times> AlertsDb
    \<Rightarrow> SweepLog \<times> AlertsDb" where
  "pool_entries w slugs prevs [] s = s"
| "pool_entries w slugs prevs (e # es) s =
     (case pool_entry w slugs prevs e s of (True, s1) \<Rightarrow> s1 | (False, s1) \<Rightarrow> pool_entries w slugs prevs es s1)"

definition pool_status_stage :: "Sweep \<Rightarrow> SweepLog \<times> AlertsDb \<Rightarrow> SweepLog \<times> AlertsDb" where
  "pool_status_stage w s =
     (if ft_pool_reads (sw_faults w) then s
      else pool_entries w (getEntityIdsBySlug (map pe_slug MAINNET_BLEND_POOLS) (snd s)) (getPoolStatusStates (snd s))
        MAINNET_BLEND_POOLS s)"

section \<open>The run\<close>

definition pool_ids :: "AlertRule list \<Rightarrow> string list" where
  "pool_ids rules = remdups (List.map_filter ar_poolEntityId rules)"

definition run_families :: "Sweep \<Rightarrow> SweepLog \<times> AlertsDb \<Rightarrow> SweepLog \<times> AlertsDb" where
  "run_families w s0 =
     (let d0 = snd s0;
          families = partitionRulesByFamily (getEnabledRules d0);
          latest = latestPerKey d0;
          poolLabels = getPoolLabels (map lh_poolEntityId latest) d0;
          s1 = fold (health_rule w latest poolLabels) (healthFactor families) s0;
          prices = latestPricesByAsset (sw_env w) (sw_sql w) (List.map_filter ar_assetId (price families)) (snd s1);
          s2 = fold (price_rule w prices) (price families) s1;
          tvlPoolIds = pool_ids (tvlDrop families);
          s3 = fold (tvl_rule w (getPoolTvlWindows (sw_env w) (sw_sql w) tvlPoolIds (snd s2)) (getPoolLabels tvlPoolIds (snd s2)))
                 (tvlDrop families) s2;
          apyPoolIds = pool_ids (apy families) in
      fold (apy_rule w (getPoolApys apyPoolIds (snd s3)) (getPoolLabels apyPoolIds (snd s3))) (apy families) s3)"

definition empty_log :: SweepLog where
  "empty_log = \<lparr>rulesEvaluated = 0, rowsMatched = 0, fired = 0, resolved = 0, poolStatusChanges = 0, poolStatusNotified = 0\<rparr>"

definition evaluate_alerts :: "Sweep \<Rightarrow> AlertsDb \<Rightarrow> SweepLog \<times> AlertsDb" where
  "evaluate_alerts w d = pool_status_stage w (run_families w (empty_log, d))"

end
