(* ===== verification/Alert_Moves.thy ===== *)
theory Alert_Moves
  imports Alert_Sweep
begin

text \<open>
  A run of the evaluator as a sequence of small moves: an edge move evaluates one enabled rule on one
  subject, writes its state and appends the notification of its edge; the pool-status moves refresh a
  pool's row or notify a user. \<open>evaluate_alerts\<close> is a chain of such moves, so a fact of the tables
  that every move keeps is kept by every run. Rules, wallets and market tables are left alone by all
  of them.
\<close>

section \<open>One store for both edge tables\<close>

fun edge_state :: "string \<Rightarrow> edge_key \<Rightarrow> AlertsDb \<Rightarrow> AlertRuleState option" where
  "edge_state r (WalletPool w p) d = prev_of_pair r w p d"
| "edge_state r (Subject k) d = prev_of_subject r k d"

fun write_edge :: "string \<Rightarrow> edge_key \<Rightarrow> RuleEvalOutput \<Rightarrow> ms \<Rightarrow> AlertsDb \<Rightarrow> JsError + AlertsDb" where
  "write_edge r (WalletPool w p) = write_pair r w p"
| "write_edge r (Subject k) = write_subject r k"

lemma write_pair_frame:
  assumes "write_pair r w p out t d = Inr d'"
  obtains rows where "d' = d\<lparr>al_rule_state := rows\<rparr>"
  using assms by (auto simp: write_pair_def upsertRuleState_Inr)

lemma write_subject_frame:
  assumes "write_subject r k out t d = Inr d'"
  obtains rows where "d' = d\<lparr>al_subject_state := rows\<rparr>"
  using assms by (auto simp: write_subject_def upsertSubjectState_Inr)

lemma pair_of_subject_write [simp]: "prev_of_pair r w p (d\<lparr>al_subject_state := rows\<rparr>) = prev_of_pair r w p d"
  by (simp add: prev_of_pair_find)

lemma subject_of_pair_write [simp]: "prev_of_subject r k (d\<lparr>al_rule_state := rows\<rparr>) = prev_of_subject r k d"
  by (simp add: prev_of_subject_find)

lemma edge_read_written:
  assumes "write_edge r k out t d = Inr d'" "nextStatus out = rs_status (nextState out)"
  shows "map_option edge_core (edge_state r k d') =
    Some (edge_core (persisted (edge_state r k d) (nextState out)))"
  using assms pair_read_written subject_read_written by (cases k) auto

lemma edge_read_other:
  assumes "write_edge r k out t d = Inr d'" "(r', k') \<noteq> (r, k)"
  shows "edge_state r' k' d' = edge_state r' k' d"
proof (cases k)
  case (WalletPool w p)
  with assms(1) have wr: "write_pair r w p out t d = Inr d'" by simp
  show ?thesis
  proof (cases k')
    case (WalletPool w' p')
    with pair_read_other [OF wr, of r' w' p'] assms(2) \<open>k = WalletPool w p\<close> show ?thesis by auto
  next
    case (Subject s)
    with wr show ?thesis by (elim write_pair_frame) simp
  qed
next
  case (Subject s)
  with assms(1) have wr: "write_subject r s out t d = Inr d'" by simp
  show ?thesis
  proof (cases k')
    case (WalletPool w' p')
    with wr show ?thesis by (elim write_subject_frame) simp
  next
    case (Subject s')
    with subject_read_other [OF wr, of r' s'] assms(2) \<open>k = Subject s\<close> show ?thesis by auto
  qed
qed

interpretation edges: edge_store "\<lambda>(r, k). edge_state r k" "\<lambda>(r, k). write_edge r k"
proof unfold_locales
  fix k k' :: "string \<times> edge_key" and out t d d'
  obtain r s where k: "k = (r, s)" by (cases k)
  obtain r' s' where k': "k' = (r', s')" by (cases k')
  assume wr: "(case k of (r, k) \<Rightarrow> write_edge r k) out t d = Inr d'"
  show "map_option edge_core ((case k of (r, k) \<Rightarrow> edge_state r k) d') =
      Some (edge_core (persisted ((case k of (r, k) \<Rightarrow> edge_state r k) d) (nextState out)))"
    if "nextStatus out = rs_status (nextState out)"
    using edge_read_written [OF _ that] wr by (simp only: k prod.case)
  show "(case k' of (r, k) \<Rightarrow> edge_state r k) d' = (case k' of (r, k) \<Rightarrow> edge_state r k) d" if "k' \<noteq> k"
    using edge_read_other [of r s out t d d' r' s'] wr that by (simp add: k k')
qed

section \<open>Moves\<close>

fun payload_key :: "alert_payload \<Rightarrow> edge_key" where
  "payload_key (HealthPayload w p _ _ _ _ _) = WalletPool w p"
| "payload_key (PricePayload a _ _ _ _ _) = Subject a"
| "payload_key (TvlPayload p _ _ _ _ _ _ _ _ _) = Subject p"
| "payload_key (ApyPayload p _ _ _ _ _ _ _) = Subject p"
| "payload_key (PoolStatusPayload e _ _ _ _ _ _) = Subject e"

definition wallet_of_user :: "user_id \<Rightarrow> string \<Rightarrow> AlertsDb \<Rightarrow> bool" where
  "wallet_of_user u w d \<longleftrightarrow> (\<exists>x \<in> set (al_user_wallets d). uw_id x = w \<and> uw_user_id x = u)"

text \<open>The payload of a rule's notification is about a subject of that rule.\<close>

fun payload_about :: "AlertRule \<Rightarrow> AlertsDb \<Rightarrow> alert_payload \<Rightarrow> bool" where
  "payload_about r d (HealthPayload w p _ _ th op _) \<longleftrightarrow>
     ar_metric r = HealthFactor \<and> wallet_of_user (ar_userId r) w d \<and> th = ar_threshold r \<and> op = ar_operator r
     \<and> (ar_userWalletId r = None \<or> ar_userWalletId r = Some w)
     \<and> (ar_poolEntityId r = None \<or> ar_poolEntityId r = Some p)"
| "payload_about r d (PricePayload a _ _ th op _) \<longleftrightarrow>
     ar_metric r = Price \<and> ar_assetId r = Some a \<and> ar_threshold r = Some th \<and> op = ar_operator r"
| "payload_about r d (TvlPayload p _ _ th op _ _ _ _ _) \<longleftrightarrow>
     ar_metric r = TvlDropPct \<and> ar_poolEntityId r = Some p \<and> ar_threshold r = Some th \<and> op = ar_operator r"
| "payload_about r d (ApyPayload p _ side _ th op _ _) \<longleftrightarrow>
     ar_metric r \<in> {SupplyApy, BorrowApy} \<and> side = apyRuleSide (ar_metric r)
     \<and> ar_poolEntityId r = Some p \<and> ar_threshold r = Some th \<and> op = ar_operator r"
| "payload_about r d (PoolStatusPayload _ _ _ _ _ _ _) \<longleftrightarrow> False"

inductive sweep_move :: "Sweep \<Rightarrow> AlertsDb \<Rightarrow> AlertsDb \<Rightarrow> bool" for w where
  quiet: "rule \<in> set (getEnabledRules d) \<Longrightarrow> out = evaluate rule v (edge_state (ar_id rule) key d) (sw_now w) \<Longrightarrow>
    write_edge (ar_id rule) key out (sw_now w) d = Inr d1 \<Longrightarrow> emit out = None \<Longrightarrow> sweep_move w d d1"
| edge: "rule \<in> set (getEnabledRules d) \<Longrightarrow> out = evaluate rule v (edge_state (ar_id rule) key d) (sw_now w) \<Longrightarrow>
    write_edge (ar_id rule) key out (sw_now w) d = Inr d1 \<Longrightarrow> emit out = Some em \<Longrightarrow>
    payload_key payload = key \<Longrightarrow> payload_about rule d payload \<Longrightarrow>
    insertNotification (ar_userId rule) (Some (ar_id rule)) em copy payload (sw_sql w) d1 = Inr d2 \<Longrightarrow>
    sweep_move w d d2"
| lost: "rule \<in> set (getEnabledRules d) \<Longrightarrow> out = evaluate rule v (edge_state (ar_id rule) key d) (sw_now w) \<Longrightarrow>
    write_edge (ar_id rule) key out (sw_now w) d = Inr d1 \<Longrightarrow> emit out = Some em \<Longrightarrow>
    ft_notify (sw_faults w) (ar_id rule) key
      \<or> insertNotification (ar_userId rule) (Some (ar_id rule)) em copy payload (sw_sql w) d1 = Inl err \<Longrightarrow>
    sweep_move w d d1"
| pool: "sweep_move w d (upsertPoolStatusState s d)"
| told: "insertNotification u None em copy (PoolStatusPayload e lbl f t st ts slug) (sw_sql w) d = Inr d1 \<Longrightarrow> sweep_move w d d1"

text \<open>What no move changes.\<close>

definition same_world :: "AlertsDb \<Rightarrow> AlertsDb \<Rightarrow> bool" where
  "same_world d d' \<longleftrightarrow> al_rules d' = al_rules d \<and> al_user_wallets d' = al_user_wallets d \<and> al_uuids d' = al_uuids d
     \<and> al_health d' = al_health d"

lemma same_world_refl [simp]: "same_world d d"
  by (simp add: same_world_def)

lemma same_world_trans: "same_world a b \<Longrightarrow> same_world b c \<Longrightarrow> same_world a c"
  by (simp add: same_world_def)

lemma insertNotification_Inr:
  "insertNotification u r em copy payload t d = Inr d' \<longleftrightarrow>
     \<not> list_ex (\<lambda>n. nt_id n = al_uuids d (al_drawn d)) (al_notifications d)
     \<and> (\<forall>i. r = Some i \<longrightarrow> rule_exists i d)
     \<and> d' = d\<lparr>al_notifications := al_notifications d @
          [\<lparr>nt_id = al_uuids d (al_drawn d), nt_userId = u, nt_ruleId = r, nt_kind = em, nt_title = cp_title copy,
            nt_body = cp_body copy, nt_payload = payload, nt_readAt = None, nt_createdAt = t\<rparr>],
          al_drawn := Suc (al_drawn d)\<rparr>"
  by (auto simp: insertNotification_def Let_def split: option.splits)

lemma write_edge_frame:
  assumes "write_edge r k out t d = Inr d'"
  shows "same_world d d'" "al_notifications d' = al_notifications d" "al_drawn d' = al_drawn d"
  using assms by (cases k; auto elim!: write_pair_frame write_subject_frame simp: same_world_def)+

lemma sweep_move_world: "sweep_move w d d' \<Longrightarrow> same_world d d'"
  by (induction rule: sweep_move.induct)
     (auto dest!: write_edge_frame(1) simp: same_world_def insertNotification_Inr upsertPoolStatusState_def Let_def
        split: option.splits if_splits)

lemma sweep_moves_world: "(sweep_move w)\<^sup>*\<^sup>* d d' \<Longrightarrow> same_world d d'"
  by (induction rule: rtranclp_induct) (auto intro: same_world_trans sweep_move_world)

lemma enabled_world: "same_world d d' \<Longrightarrow> getEnabledRules d' = getEnabledRules d"
  by (simp add: same_world_def getEnabledRules_def)

lemma payload_about_world: "same_world d d' \<Longrightarrow> payload_about r d' p = payload_about r d p"
  by (cases p) (auto simp: same_world_def wallet_of_user_def)

lemma notification_edge_state [simp]:
  "edge_state r k (d\<lparr>al_notifications := ns, al_drawn := n\<rparr>) = edge_state r k d"
  by (cases k) (simp_all add: prev_of_pair_find prev_of_subject_find)

section \<open>A run is a chain of moves\<close>

abbreviation sweep_moves :: "Sweep \<Rightarrow> AlertsDb \<Rightarrow> AlertsDb \<Rightarrow> bool" where
  "sweep_moves w \<equiv> (sweep_move w)\<^sup>*\<^sup>*"

lemma map_sum_unit_Inr: "map_sum (\<lambda>_. ()) id x = Inr y \<longleftrightarrow> x = Inr y"
  by (cases x) auto

text \<open>The tail all rule families share is at most one move, on its own key.\<close>

lemma record_edge_moves:
  assumes "record_edge wfails (ft_notify (sw_faults w) (ar_id rule) key) (write_edge (ar_id rule) key out (sw_now w))
      (\<lambda>em. insertNotification (ar_userId rule) (Some (ar_id rule)) em (copy em) payload (sw_sql w)) (emit out) (l, d)
      = (failed, l', d')"
    and "rule \<in> set (getEnabledRules d)" "out = evaluate rule v (edge_state (ar_id rule) key d) (sw_now w)"
    and "payload_key payload = key" "payload_about rule d payload"
  shows "sweep_moves w d d' \<and> (\<forall>r k. (r, k) \<noteq> (ar_id rule, key) \<longrightarrow> edge_state r k d' = edge_state r k d)"
proof -
  let ?w = "write_edge (ar_id rule) key out (sw_now w) d"
  let ?n = "\<lambda>em. insertNotification (ar_userId rule) (Some (ar_id rule)) em (copy em) payload (sw_sql w)"
  consider (none) "d' = d" | (quiet) "?w = Inr d'" "emit out = None"
    | (lost) em e where "?w = Inr d'" "emit out = Some em" "ft_notify (sw_faults w) (ar_id rule) key \<or> ?n em d' = Inl e"
    | (edge) d1 em where "?w = Inr d1" "emit out = Some em" "?n em d1 = Inr d'"
    using assms(1)
    by (auto simp: record_edge_def map_sum_def Let_def split: if_splits sum.splits option.splits)
  then show ?thesis
  proof cases
    case quiet
    with sweep_move.quiet [OF assms(2,3) quiet] edge_read_other [OF quiet(1)] show ?thesis by auto
  next
    case lost
    with sweep_move.lost [OF assms(2,3) lost] edge_read_other [OF lost(1)] show ?thesis by auto
  next
    case edge
    have "edge_state r k d' = edge_state r k d1" for r k
      using edge(3) by (auto simp: insertNotification_Inr)
    with sweep_move.edge [OF assms(2,3) edge(1,2) assms(4,5) edge(3)] edge_read_other [OF edge(1)] show ?thesis
      by auto
  qed simp
qed

subsection \<open>Health factor\<close>

lemma fold_distinct_on:
  "distinct (map key acc) \<Longrightarrow>
     distinct (map key (fold (\<lambda>r acc. if key r \<in> key ` set acc then acc else r # acc) rows acc))
     \<and> set (fold (\<lambda>r acc. if key r \<in> key ` set acc then acc else r # acc) rows acc) \<subseteq> set acc \<union> set rows"
proof (induction rows arbitrary: acc)
  case (Cons r rows)
  show ?case
    using Cons.IH [of "if key r \<in> key ` set acc then acc else r # acc"] Cons.prems by (auto simp: if_split)
qed simp

lemma distinct_on_key: "distinct (map key (distinct_on key rows))" "set (distinct_on key rows) \<subseteq> set rows"
  using fold_distinct_on [of key "[]" rows] by (simp_all add: distinct_on_def rev_map [symmetric])

definition pair_of :: "LatestPoolHealth \<Rightarrow> string \<times> string" where
  "pair_of row = (lh_userWalletId row, lh_poolEntityId row)"

lemma latestPerKey_distinct: "distinct (map pair_of (latestPerKey d))"
proof -
  have "map pair_of (map (\<lambda>(h, e, v, u). \<lparr>lh_userWalletId = hr_user_wallet_id h, lh_poolEntityId = e, lh_userId = u,
             lh_healthFactor = Some v, lh_snapshotAt = hr_snapshot_at h\<rparr>) rows) =
      map (\<lambda>(h, e, v, u). (hr_user_wallet_id h, e)) rows" for rows :: "(HealthRow \<times> string \<times> jsnum \<times> user_id) list"
    by (simp add: pair_of_def case_prod_unfold)
  then show ?thesis by (simp add: latestPerKey_def Let_def distinct_on_key(1) del: map_map)
qed

lemma latestPerKey_owner:
  assumes "row \<in> set (latestPerKey d)"
  shows "wallet_of_user (lh_userId row) (lh_userWalletId row) d"
  using assms set_mp [OF distinct_on_key(2)]
  by (fastforce simp: latestPerKey_def Let_def wallet_of_user_def)

lemma health_rows_moves:
  assumes "rule \<in> set (getEnabledRules d)" "ar_metric rule = HealthFactor"
    and "distinct (map pair_of rows)"
    and "\<And>row. row \<in> set rows \<Longrightarrow> in_scope rule row \<and> wallet_of_user (lh_userId row) (lh_userWalletId row) d
           \<and> prev_in_map prior row = edge_state (ar_id rule) (WalletPool (lh_userWalletId row) (lh_poolEntityId row)) d"
  shows "sweep_moves w d (snd (health_rows w rule labels prior rows (l, d)))"
  using assms
proof (induction rows arbitrary: l d)
  case (Cons row rows)
  let ?k = "WalletPool (lh_userWalletId row) (lh_poolEntityId row)"
  obtain failed l' d' where r: "health_row w rule labels prior row (l, d) = (failed, l', d')"
    by (metis prod_cases3)
  have own: "in_scope rule row" "wallet_of_user (lh_userId row) (lh_userWalletId row) d"
    "prev_in_map prior row = edge_state (ar_id rule) ?k d"
    using Cons.prems(4) [of row] by auto
  have "sweep_moves w d d' \<and> (\<forall>r k. (r, k) \<noteq> (ar_id rule, ?k) \<longrightarrow> edge_state r k d' = edge_state r k d)"
    by (rule record_edge_moves [OF r [unfolded health_row_def Let_def prod.case, folded write_edge.simps(1)]
          Cons.prems(1) arg_cong [OF own(3), of "\<lambda>p. evaluate rule (lh_healthFactor row) p (sw_now w)"]])
       (use own Cons.prems(2) in \<open>auto simp: in_scope_def\<close>)
  then have m: "sweep_moves w d d'" and other: "\<And>k. k \<noteq> ?k \<Longrightarrow> edge_state (ar_id rule) k d' = edge_state (ar_id rule) k d"
    by auto
  note world = sweep_moves_world [OF m]
  have "sweep_moves w d' (snd (health_rows w rule labels prior rows (l', d')))"
  proof (rule Cons.IH)
    show "rule \<in> set (getEnabledRules d')" using Cons.prems(1) enabled_world [OF world] by simp
    show "ar_metric rule = HealthFactor" by (rule Cons.prems(2))
    show "distinct (map pair_of rows)" using Cons.prems(3) by simp
    fix x assume x: "x \<in> set rows"
    then have "pair_of x \<noteq> pair_of row" using Cons.prems(3) by (metis distinct.simps(2) image_eqI list.simps(9) set_map)
    then have "WalletPool (lh_userWalletId x) (lh_poolEntityId x) \<noteq> ?k" by (auto simp: pair_of_def)
    from other [OF this] Cons.prems(4) [of x] x world
    show "in_scope rule x \<and> wallet_of_user (lh_userId x) (lh_userWalletId x) d'
       \<and> prev_in_map prior x = edge_state (ar_id rule) (WalletPool (lh_userWalletId x) (lh_poolEntityId x)) d'"
      by (auto simp: same_world_def wallet_of_user_def)
  qed
  then show ?case using m by (cases failed) (simp_all add: r)
qed simp

lemma health_rule_moves:
  assumes "rule \<in> set (getEnabledRules d)" "ar_metric rule = HealthFactor"
    and latest: "distinct (map pair_of latest)" "\<And>row. row \<in> set latest \<Longrightarrow> wallet_of_user (lh_userId row) (lh_userWalletId row) d"
  shows "sweep_moves w d (snd (health_rule w latest labels rule (l, d)))"
proof -
  have "sweep_moves w d (snd (health_rows w rule labels (getRuleState (ar_id rule) d) (filter (in_scope rule) latest)
          (count_rule l, d)))"
    by (rule health_rows_moves [OF assms(1,2)])
       (simp_all add: latest distinct_map_filter prev_in_map_def prev_of_pair_def)
  then show ?thesis by (simp add: health_rule_def Let_def)
qed

subsection \<open>The other families\<close>

lemma subject_edge_moves:
  assumes "rule \<in> set (getEnabledRules d)" "payload_key payload = Subject key" "payload_about rule d payload"
  shows "sweep_moves w d (snd (subject_edge w rule key v copy payload (l, d)))"
proof (cases "ft_read (sw_faults w) (ar_id rule)")
  case False
  let ?out = "evaluate rule (Some v) (edge_state (ar_id rule) (Subject key) d) (sw_now w)"
  let ?r = "record_edge (ft_write (sw_faults w) (ar_id rule) (Subject key)) (ft_notify (sw_faults w) (ar_id rule) (Subject key))
      (write_edge (ar_id rule) (Subject key) ?out (sw_now w))
      (\<lambda>em. insertNotification (ar_userId rule) (Some (ar_id rule)) em (copy em) payload (sw_sql w)) (emit ?out) (l, d)"
  obtain failed l' d' where r: "?r = (failed, l', d')" by (rule prod_cases3)
  have "subject_edge w rule key v copy payload (l, d) = snd ?r"
    by (simp only: subject_edge_def False if_False Let_def snd_conv edge_state.simps(2) write_edge.simps(2))
  then have "snd (subject_edge w rule key v copy payload (l, d)) = d'" by (simp only: r snd_conv)
  with record_edge_moves [OF r assms(1) refl assms(2,3)] show ?thesis by (simp only:)
qed (simp add: subject_edge_def)

lemma price_rule_moves:
  assumes "rule \<in> set (getEnabledRules d)" "ar_metric rule = Price"
  shows "sweep_moves w d (snd (price_rule w prices rule (l, d)))"
  by (auto simp: price_rule_def Let_def assms(2) intro!: subject_edge_moves [OF assms(1)]
      split: option.split prod.split)

lemma tvl_rule_moves:
  assumes "rule \<in> set (getEnabledRules d)" "ar_metric rule = TvlDropPct"
  shows "sweep_moves w d (snd (tvl_rule w windows labels rule (l, d)))"
  by (auto simp: tvl_rule_def Let_def assms(2) intro!: subject_edge_moves [OF assms(1)]
      split: option.split prod.split)

lemma apy_rule_moves:
  assumes "rule \<in> set (getEnabledRules d)" "ar_metric rule \<in> {SupplyApy, BorrowApy}"
  shows "sweep_moves w d (snd (apy_rule w apys labels rule (l, d)))"
  using assms(2)
  by (auto simp: apy_rule_def Let_def intro!: subject_edge_moves [OF assms(1)]
      split: option.split prod.split)

lemma fold_rule_moves:
  assumes "\<And>r l d. r \<in> set rs \<Longrightarrow> same_world d0 d \<Longrightarrow> sweep_moves w d (snd (f r (l, d)))" "same_world d0 (snd s)"
  shows "sweep_moves w (snd s) (snd (fold f rs s))"
  using assms
proof (induction rs arbitrary: s)
  case (Cons r rs)
  have m: "sweep_moves w (snd s) (snd (f r s))" using Cons.prems(1) [of r "snd s" "fst s"] Cons.prems(2) by simp
  have "same_world d0 (snd (f r s))" using Cons.prems(2) sweep_moves_world [OF m] by (rule same_world_trans)
  from Cons.IH [OF _ this] Cons.prems(1) have "sweep_moves w (snd (f r s)) (snd (fold f rs (f r s)))" by simp
  with m show ?case by simp
qed simp

subsection \<open>Pool status, and the run\<close>

lemma notify_users_moves:
  assumes "payload = PoolStatusPayload e lbl f t st ts slug"
  shows "sweep_moves w d (snd (snd (notify_users w entity kind copy payload us (l, d))))"
proof (induction us arbitrary: l d)
  case (Cons u us)
  show ?case
  proof (cases "ft_pool_notify (sw_faults w) entity u")
    case False
    show ?thesis
    proof (cases "insertNotification u None kind copy payload (sw_sql w) d")
      case (Inr d1)
      have "sweep_move w d d1" by (rule sweep_move.told [OF Inr [unfolded assms]])
      with Cons.IH [of d1 "l\<lparr>poolStatusNotified := Suc (poolStatusNotified l)\<rparr>"] False Inr
      show ?thesis by (simp add: converse_rtranclp_into_rtranclp)
    qed (simp add: False)
  qed simp
qed simp

lemma pool_entry_moves: "sweep_moves w d (snd (snd (pool_entry w slugs prevs entry (l, d))))"
proof -
  have "sweep_moves w d (upsertPoolStatusState row d)" for row
    by (intro r_into_rtranclp sweep_move.pool)
  moreover have "sweep_moves w d (snd (snd (notify_users w entity kind copy (PoolStatusPayload e lbl f t st ts slug) us
      (l1, upsertPoolStatusState row d))))" for entity kind copy e lbl f t st ts slug us l1 row
    by (rule converse_rtranclp_into_rtranclp [OF sweep_move.pool notify_users_moves [OF refl]])
  ultimately show ?thesis
    by (simp add: pool_entry_def Let_def case_prod_unfold split: option.split)
qed

lemma pool_entries_moves: "sweep_moves w d (snd (pool_entries w slugs prevs es (l, d)))"
proof (induction es arbitrary: l d)
  case (Cons e es)
  obtain failed l1 d1 where r: "pool_entry w slugs prevs e (l, d) = (failed, l1, d1)" by (rule prod_cases3)
  have "sweep_moves w d d1" using pool_entry_moves [of w d slugs prevs e l] by (simp add: r)
  with Cons.IH [of d1 l1] show ?case by (cases failed) (simp_all add: r)
qed simp

lemma run_families_moves: "sweep_moves w d (snd (run_families w (l, d)))"
proof -
  let ?fam = "partitionRulesByFamily (getEnabledRules d)"
  note enabled = enabled_world [of d]
  have hf: "sweep_moves w d1 (snd (health_rule w (latestPerKey d) labels r (l, d1)))"
    if "r \<in> set (healthFactor ?fam)" "same_world d d1" for r l d1 labels
    using that latestPerKey_owner [of _ d] enabled [of d1]
    by (intro health_rule_moves latestPerKey_distinct) (auto simp: partition_families same_world_def wallet_of_user_def)
  have px: "sweep_moves w d1 (snd (price_rule w ps r (l, d1)))" if "r \<in> set (price ?fam)" "same_world d d1" for r l d1 ps
    using that enabled [of d1] by (intro price_rule_moves) (auto simp: partition_families)
  have tv: "sweep_moves w d1 (snd (tvl_rule w ws ls r (l, d1)))" if "r \<in> set (tvlDrop ?fam)" "same_world d d1" for r l d1 ws ls
    using that enabled [of d1] by (intro tvl_rule_moves) (auto simp: partition_families)
  have ap: "sweep_moves w d1 (snd (apy_rule w as ls r (l, d1)))" if "r \<in> set (apy ?fam)" "same_world d d1" for r l d1 as ls
    using that enabled [of d1] by (intro apy_rule_moves) (auto simp: partition_families)
  have step: "sweep_moves w d (snd s) \<Longrightarrow>
      (\<And>r l d1. r \<in> set rs \<Longrightarrow> same_world d d1 \<Longrightarrow> sweep_moves w d1 (snd (f r (l, d1)))) \<Longrightarrow>
      sweep_moves w d (snd (fold f rs s))" for s f rs
    using sweep_moves_world [of w d "snd s"]
    by (auto intro!: rtranclp_trans [of _ d "snd s"] fold_rule_moves [where ?d0.0 = d])
  show ?thesis
    unfolding run_families_def Let_def snd_conv
    by (rule step [OF step [OF step [OF step [OF _ hf] px] tv] ap]) simp_all
qed

theorem evaluate_alerts_moves: "sweep_moves w d (snd (evaluate_alerts w d))"
proof -
  obtain l1 d1 where r: "run_families w (empty_log, d) = (l1, d1)" by (cases "run_families w (empty_log, d)")
  have "sweep_moves w d d1" using run_families_moves [of w d empty_log] by (simp add: r)
  moreover have "sweep_moves w d1 (snd (pool_status_stage w (l1, d1)))"
    by (simp add: pool_status_stage_def pool_entries_moves)
  ultimately show ?thesis by (simp add: evaluate_alerts_def r)
qed

lemma evaluate_alerts_keeps:
  assumes "\<And>a b. sweep_move w a b \<Longrightarrow> I a \<Longrightarrow> I b" "I d"
  shows "I (snd (evaluate_alerts w d))"
  using evaluate_alerts_moves [of w d]
  by (induction rule: rtranclp_induct) (use assms in auto)

end
