(* ===== verification/Alert_Service.thy ===== *)
theory Alert_Service
  imports Alert_Sweep
begin

text \<open>
  \<open>apps/api/src/modules/alerts/alerts.service.ts\<close>: validation and ownership of the rule and
  notification endpoints. A body field is a \<open>jsval\<close>, an absent one \<open>JUndefined\<close>. \<open>before\<close> cursors are
  read with the environment's \<open>Date.parse\<close>.
\<close>

datatype alert_error = BadRequestErr string | NotFoundErr string | DbErr JsError

definition err_bind :: "'e + 'a \<Rightarrow> ('a \<Rightarrow> 'e + 'b) \<Rightarrow> 'e + 'b" where
  "err_bind m f = (case m of Inl e \<Rightarrow> Inl e | Inr a \<Rightarrow> f a)"

lemma err_bind_Inr [simp]: "err_bind m f = Inr b \<longleftrightarrow> (\<exists>a. m = Inr a \<and> f a = Inr b)"
  by (cases m) (auto simp: err_bind_def)

record RuleBody =
  rb_userId :: jsval
  rb_metric :: jsval
  rb_operator :: jsval
  rb_threshold :: jsval
  rb_cooldownSeconds :: jsval
  rb_rearmHysteresis :: jsval
  rb_userWalletId :: jsval
  rb_poolEntityId :: jsval
  rb_assetId :: jsval
  rb_enabled :: jsval

definition DEFAULT_COOLDOWN_SECONDS :: int where
  "DEFAULT_COOLDOWN_SECONDS = 3600"

definition DEMO_USER_ID :: user_id where
  "DEMO_USER_ID = ''00000000-0000-0000-0000-000000000001''"

definition SUPPORTED_METRICS :: "(string \<times> metric) list" where
  "SUPPORTED_METRICS =
     [(''health_factor'', HealthFactor), (''price'', Price), (''tvl_drop_pct'', TvlDropPct),
      (''supply_apy'', SupplyApy), (''borrow_apy'', BorrowApy)]"

definition OPERATORS :: "(string \<times> operator) list" where
  "OPERATORS = [(''lt'', OpLt), (''lte'', OpLte), (''gt'', OpGt), (''gte'', OpGte)]"

definition is_absent :: "jsval \<Rightarrow> bool" where
  "is_absent v \<longleftrightarrow> v = JUndefined"

definition normalizeUserId :: "jsval \<Rightarrow> alert_error + user_id" where
  "normalizeUserId v =
     (if is_nullish v then Inr DEMO_USER_ID
      else map_sum (\<lambda>_. BadRequestErr ''userId must be a UUID'') id (requireUserId v ''userId''))"

definition nullish_or :: "jsval \<Rightarrow> jsval \<Rightarrow> jsval" where
  "nullish_or a b = (if is_nullish a then b else a)"

definition normalize_id :: "string \<Rightarrow> string \<Rightarrow> alert_error + string" where
  "normalize_id what i =
     (let v = trim i in
      if v = [] then Inl (BadRequestErr (what @ '' id is required''))
      else if \<not> UUID_RE v then Inl (BadRequestErr (what @ '' id must be a valid UUID'')) else Inr v)"

definition normalizeRuleId :: "string \<Rightarrow> alert_error + string" where
  "normalizeRuleId i = normalize_id ''rule'' i"

section \<open>Field validators\<close>

definition unsupported_metric :: "alert_error + metric" where
  "unsupported_metric = Inl (BadRequestErr (''Unsupported metric. Supported today: 'health_factor', 'price', ''
     @ [CHR 0x27] @ ''tvl_drop_pct', 'supply_apy', 'borrow_apy'.''))"

definition validateMetric :: "jsval \<Rightarrow> alert_error + metric" where
  "validateMetric v =
     (case v of
        JString s \<Rightarrow> (case map_of SUPPORTED_METRICS s of Some m \<Rightarrow> Inr m | None \<Rightarrow> unsupported_metric)
      | _ \<Rightarrow> unsupported_metric)"

definition validateOperator :: "jsval \<Rightarrow> alert_error + operator" where
  "validateOperator v =
     (case v of
        JString s \<Rightarrow> (case map_of OPERATORS s of Some p \<Rightarrow> Inr p
                      | None \<Rightarrow> Inl (BadRequestErr ''operator must be one of: lt, lte, gt, gte.''))
      | _ \<Rightarrow> Inl (BadRequestErr ''operator must be one of: lt, lte, gt, gte.''))"

definition validateThreshold :: "jsval \<Rightarrow> alert_error + jsnum" where
  "validateThreshold v =
     (case v of
        JNumber n \<Rightarrow> if isFinite n then Inr n else Inl (BadRequestErr ''threshold is required and must be a finite number (recommended HF band ~1.1-1.5).'')
      | _ \<Rightarrow> Inl (BadRequestErr ''threshold is required and must be a finite number (recommended HF band ~1.1-1.5).''))"

definition validateCooldown :: "jsval \<Rightarrow> alert_error + int" where
  "validateCooldown v =
     (case v of
        JNumber (Num q) \<Rightarrow> if of_int \<lfloor>q\<rfloor> = q \<and> 0 < q then Inr \<lfloor>q\<rfloor>
                           else Inl (BadRequestErr ''cooldownSeconds must be a positive integer.'')
      | _ \<Rightarrow> Inl (BadRequestErr ''cooldownSeconds must be a positive integer.''))"

definition validateHysteresis :: "jsval \<Rightarrow> alert_error + jsnum option" where
  "validateHysteresis v =
     (if is_nullish v then Inr None
      else case v of
        JNumber (Num q) \<Rightarrow> if 0 \<le> q then Inr (Some (Num q))
                           else Inl (BadRequestErr ''rearmHysteresis must be a non-negative number or null.'')
      | _ \<Rightarrow> Inl (BadRequestErr ''rearmHysteresis must be a non-negative number or null.''))"

definition validateOptionalUuid :: "jsval \<Rightarrow> string \<Rightarrow> alert_error + string option" where
  "validateOptionalUuid v fld =
     (if is_nullish v then Inr None
      else case v of
        JString s \<Rightarrow> if UUID_RE s then Inr (Some s) else Inl (BadRequestErr (fld @ '' must be a valid UUID or null.''))
      | _ \<Rightarrow> Inl (BadRequestErr (fld @ '' must be a valid UUID or null.'')))"

definition validateEnabled :: "jsval \<Rightarrow> alert_error + bool" where
  "validateEnabled v = (case v of JBool b \<Rightarrow> Inr b | _ \<Rightarrow> Inl (BadRequestErr ''enabled must be a boolean.''))"

definition assertWalletOwned :: "user_id \<Rightarrow> string option \<Rightarrow> AlertsDb \<Rightarrow> alert_error + unit" where
  "assertWalletOwned userId walletId d =
     (case walletId of
        None \<Rightarrow> Inr ()
      | Some w \<Rightarrow> if walletBelongsToUser userId w d then Inr ()
                  else Inl (BadRequestErr ''userWalletId does not belong to this user.''))"

fun metric_name :: "metric \<Rightarrow> string" where
  "metric_name HealthFactor = ''health_factor''"
| "metric_name Price = ''price''"
| "metric_name TvlDropPct = ''tvl_drop_pct''"
| "metric_name SupplyApy = ''supply_apy''"
| "metric_name BorrowApy = ''borrow_apy''"
| "metric_name (OtherMetric m) = m"

definition assertFamilyShape :: "metric \<Rightarrow> string option \<Rightarrow> string option \<Rightarrow> string option \<Rightarrow> alert_error + unit" where
  "assertFamilyShape m userWalletId poolEntityId assetId =
     (if m = Price then
        (if assetId = None then Inl (BadRequestErr ''a price rule requires assetId.'')
         else if userWalletId \<noteq> None \<or> poolEntityId \<noteq> None
         then Inl (BadRequestErr ''a price rule is asset-scoped: userWalletId and poolEntityId must be null.'')
         else Inr ())
      else if m = TvlDropPct \<or> m = SupplyApy \<or> m = BorrowApy then
        (if poolEntityId = None then Inl (BadRequestErr (''a '' @ metric_name m @ '' rule requires poolEntityId (a specific pool).''))
         else if userWalletId \<noteq> None \<or> assetId \<noteq> None
         then Inl (BadRequestErr (''a '' @ metric_name m @ '' rule is pool-scoped: userWalletId and assetId must be null.''))
         else Inr ())
      else if assetId \<noteq> None
      then Inl (BadRequestErr ''assetId only applies to price rules; must be null for health_factor.'')
      else Inr ())"

definition assertTvlDropCondition :: "operator \<Rightarrow> jsnum \<Rightarrow> alert_error + unit" where
  "assertTvlDropCondition op threshold =
     (if op \<noteq> OpGt \<and> op \<noteq> OpGte then Inl (BadRequestErr ''a tvl_drop_pct rule requires operator gt or gte (fires when the drop exceeds the threshold).'')
      else if js_le threshold (Num 0) then Inl (BadRequestErr ''a tvl_drop_pct threshold must be a positive drop percentage.'')
      else Inr ())"

section \<open>Rules\<close>

definition create_input :: "RuleBody \<Rightarrow> alert_error + CreateRuleInput" where
  "create_input b =
     err_bind (validateMetric (rb_metric b)) (\<lambda>m.
     err_bind (validateOperator (rb_operator b)) (\<lambda>op.
     err_bind (validateThreshold (rb_threshold b)) (\<lambda>t.
     err_bind (if is_absent (rb_cooldownSeconds b) then Inr DEFAULT_COOLDOWN_SECONDS
               else validateCooldown (rb_cooldownSeconds b)) (\<lambda>c.
     err_bind (validateHysteresis (rb_rearmHysteresis b)) (\<lambda>h.
     err_bind (validateOptionalUuid (rb_userWalletId b) ''userWalletId'') (\<lambda>w.
     err_bind (validateOptionalUuid (rb_poolEntityId b) ''poolEntityId'') (\<lambda>p.
     err_bind (validateOptionalUuid (rb_assetId b) ''assetId'') (\<lambda>a.
     err_bind (if is_absent (rb_enabled b) then Inr True else validateEnabled (rb_enabled b)) (\<lambda>e.
       Inr \<lparr>ci_metric = m, ci_operator = op, ci_threshold = t, ci_cooldownSeconds = c, ci_rearmHysteresis = h,
            ci_userWalletId = w, ci_poolEntityId = p, ci_assetId = a, ci_enabled = e\<rparr>)))))))))"

definition createRule :: "jsval \<Rightarrow> RuleBody \<Rightarrow> ms \<Rightarrow> AlertsDb \<Rightarrow> alert_error + (AlertRule \<times> AlertsDb)" where
  "createRule rawUserId b now d =
     err_bind (normalizeUserId (nullish_or rawUserId (rb_userId b))) (\<lambda>userId.
     err_bind (create_input b) (\<lambda>c.
     err_bind (assertFamilyShape (ci_metric c) (ci_userWalletId c) (ci_poolEntityId c) (ci_assetId c)) (\<lambda>_.
     err_bind (if ci_metric c = TvlDropPct then assertTvlDropCondition (ci_operator c) (ci_threshold c) else Inr ()) (\<lambda>_.
     err_bind (assertWalletOwned userId (ci_userWalletId c) d) (\<lambda>_.
       map_sum DbErr id (insert_rule userId c now d))))))"

definition listRules :: "jsval \<Rightarrow> AlertsDb \<Rightarrow> alert_error + AlertRule list" where
  "listRules rawUserId d = err_bind (normalizeUserId rawUserId) (\<lambda>userId. Inr (select_rules userId d))"

definition getRule :: "jsval \<Rightarrow> string \<Rightarrow> AlertsDb \<Rightarrow> alert_error + AlertRule" where
  "getRule rawUserId i d =
     err_bind (normalizeUserId rawUserId) (\<lambda>userId.
     err_bind (normalizeRuleId i) (\<lambda>ruleId.
       case select_rule userId ruleId d of None \<Rightarrow> Inl (NotFoundErr ''Alert rule not found.'') | Some r \<Rightarrow> Inr r))"

text \<open>A key of the patch: absent, or validated.\<close>

definition patched :: "jsval \<Rightarrow> (jsval \<Rightarrow> alert_error + 'a) \<Rightarrow> alert_error + 'a option" where
  "patched v f = (if is_absent v then Inr None else map_sum id Some (f v))"

definition patch_of :: "RuleBody \<Rightarrow> alert_error + UpdateRuleInput" where
  "patch_of b =
     (if \<not> is_absent (rb_metric b) then Inl (BadRequestErr ''metric cannot be changed after creation; delete the rule and create a new one.'')
      else
     err_bind (patched (rb_operator b) validateOperator) (\<lambda>op.
     err_bind (patched (rb_threshold b) validateThreshold) (\<lambda>t.
     err_bind (patched (rb_cooldownSeconds b) validateCooldown) (\<lambda>c.
     err_bind (patched (rb_rearmHysteresis b) validateHysteresis) (\<lambda>h.
     err_bind (patched (rb_userWalletId b) (\<lambda>v. validateOptionalUuid v ''userWalletId'')) (\<lambda>w.
     err_bind (patched (rb_poolEntityId b) (\<lambda>v. validateOptionalUuid v ''poolEntityId'')) (\<lambda>p.
     err_bind (patched (rb_assetId b) (\<lambda>v. validateOptionalUuid v ''assetId'')) (\<lambda>a.
     err_bind (patched (rb_enabled b) validateEnabled) (\<lambda>e.
       Inr \<lparr>up_operator = op, up_threshold = t, up_cooldownSeconds = c, up_rearmHysteresis = h,
            up_userWalletId = w, up_poolEntityId = p, up_assetId = a, up_enabled = e\<rparr>)))))))))"

definition needs_recheck :: "UpdateRuleInput \<Rightarrow> bool" where
  "needs_recheck p \<longleftrightarrow> up_userWalletId p \<noteq> None \<or> up_poolEntityId p \<noteq> None \<or> up_assetId p \<noteq> None
     \<or> up_operator p \<noteq> None \<or> up_threshold p \<noteq> None"

text \<open>The patch merged with the current row keeps the shape of the rule's family.\<close>

definition recheck :: "user_id \<Rightarrow> string \<Rightarrow> UpdateRuleInput \<Rightarrow> AlertsDb \<Rightarrow> alert_error + unit" where
  "recheck userId ruleId p d =
     (if \<not> needs_recheck p then Inr ()
      else case select_rule userId ruleId d of
        None \<Rightarrow> Inl (NotFoundErr ''Alert rule not found.'')
      | Some current \<Rightarrow>
          err_bind (assertFamilyShape (ar_metric current)
            (set_or (up_userWalletId p) (ar_userWalletId current))
            (set_or (up_poolEntityId p) (ar_poolEntityId current))
            (set_or (up_assetId p) (ar_assetId current))) (\<lambda>_.
          if ar_metric current = TvlDropPct
          then assertTvlDropCondition (set_or (up_operator p) (ar_operator current))
            (case up_threshold p of Some t \<Rightarrow> t
             | None \<Rightarrow> (case ar_threshold current of Some t \<Rightarrow> t | None \<Rightarrow> NaN))
          else Inr ()))"

definition updateRule :: "jsval \<Rightarrow> string \<Rightarrow> RuleBody \<Rightarrow> ms \<Rightarrow> AlertsDb \<Rightarrow> alert_error + (AlertRule \<times> AlertsDb)" where
  "updateRule rawUserId i b now d =
     err_bind (normalizeUserId (nullish_or rawUserId (rb_userId b))) (\<lambda>userId.
     err_bind (normalizeRuleId i) (\<lambda>ruleId.
     err_bind (patch_of b) (\<lambda>p.
     err_bind (recheck userId ruleId p d) (\<lambda>_.
     err_bind (assertWalletOwned userId (set_or (up_userWalletId p) None) d) (\<lambda>_.
     err_bind (map_sum DbErr id (update_rule userId ruleId p now d)) (\<lambda>(updated, d').
       case updated of None \<Rightarrow> Inl (NotFoundErr ''Alert rule not found.'') | Some r \<Rightarrow> Inr (r, d')))))))"

definition deleteRule :: "jsval \<Rightarrow> string \<Rightarrow> AlertsDb \<Rightarrow> alert_error + (string \<times> AlertsDb)" where
  "deleteRule rawUserId i d =
     err_bind (normalizeUserId rawUserId) (\<lambda>userId.
     err_bind (normalizeRuleId i) (\<lambda>ruleId.
       let (deleted, d') = delete_rule userId ruleId d in
       if deleted then Inr (ruleId, d') else Inl (NotFoundErr ''Alert rule not found.'')))"

section \<open>Notifications\<close>

definition normalizeNotificationId :: "string \<Rightarrow> alert_error + string" where
  "normalizeNotificationId i = normalize_id ''notification'' i"

definition normalizeBefore :: "Env \<Rightarrow> string option \<Rightarrow> alert_error + ms option" where
  "normalizeBefore env before =
     (case before of
        None \<Rightarrow> Inr None
      | Some s \<Rightarrow> if s = [] then Inr None
          else (case env_date env s of None \<Rightarrow> Inl (BadRequestErr ''before must be an ISO timestamp.'') | Some t \<Rightarrow> Inr (Some t)))"

definition listNotifications ::
  "Env \<Rightarrow> jsval \<Rightarrow> jsnum option \<Rightarrow> string option \<Rightarrow> AlertsDb \<Rightarrow> alert_error + Notification list" where
  "listNotifications env rawUserId limit before d =
     err_bind (normalizeUserId rawUserId) (\<lambda>userId.
     err_bind (normalizeBefore env before) (\<lambda>b. Inr (select_notifications userId limit b d)))"

definition getUnreadCount :: "jsval \<Rightarrow> AlertsDb \<Rightarrow> alert_error + nat" where
  "getUnreadCount rawUserId d = err_bind (normalizeUserId rawUserId) (\<lambda>userId. Inr (countUnread userId d))"

record ReadResult =
  rr_id :: string
  rr_alreadyRead :: bool

definition markRead :: "jsval \<Rightarrow> string \<Rightarrow> ms \<Rightarrow> AlertsDb \<Rightarrow> alert_error + (ReadResult \<times> AlertsDb)" where
  "markRead rawUserId i now d =
     err_bind (normalizeUserId rawUserId) (\<lambda>userId.
     err_bind (normalizeNotificationId i) (\<lambda>notifId.
       let (marked, d') = mark_read userId notifId now d in
       if marked then Inr (\<lparr>rr_id = notifId, rr_alreadyRead = False\<rparr>, d')
       else if \<not> notificationExists userId notifId d' then Inl (NotFoundErr ''Notification not found.'')
       else Inr (\<lparr>rr_id = notifId, rr_alreadyRead = True\<rparr>, d')))"

definition markAllRead :: "jsval \<Rightarrow> ms \<Rightarrow> AlertsDb \<Rightarrow> alert_error + (nat \<times> AlertsDb)" where
  "markAllRead rawUserId now d = err_bind (normalizeUserId rawUserId) (\<lambda>userId. Inr (mark_all_read userId now d))"

end
