(* ===== verification/Alert_Invariants.thy ===== *)
theory Alert_Invariants
  imports Alert_Moves Alert_Service
begin

text \<open>
  The alerting database over time: the endpoints of \<open>alerts.service.ts\<close>, the runs of script 83 and
  the growth of the tables other jobs fill, as one step relation. What holds in every reachable state
  is proved by rule induction; for the runs it suffices to look at one move. Wallets are only ever
  added here.
\<close>

section \<open>Reachable states\<close>

definition fresh_alerts :: "AlertsDb \<Rightarrow> bool" where
  "fresh_alerts d \<longleftrightarrow> al_rules d = [] \<and> al_rule_state d = [] \<and> al_subject_state d = [] \<and> al_notifications d = []
     \<and> inj (al_uuids d)"

text \<open>Other jobs add wallets and rewrite the tables of observations.\<close>

definition observed ::
  "UserWallet list \<Rightarrow> HealthRow list \<Rightarrow> EntityRow list \<Rightarrow> PriceRow list \<Rightarrow> ReserveRow list \<Rightarrow> PoolMetricsRow list
    \<Rightarrow> AlertsDb \<Rightarrow> AlertsDb" where
  "observed ws hs es ps rs ms d =
     d\<lparr>al_user_wallets := al_user_wallets d @ ws, al_health := hs, al_entities := es, al_prices := ps,
       al_reserves := rs, al_metrics := ms\<rparr>"

definition announces :: "Sweep \<Rightarrow> bool" where
  "announces w \<longleftrightarrow> (\<forall>r k. \<not> ft_notify (sw_faults w) r k)"

text \<open>The flag says that only runs whose notification inserts do not fail from outside are taken.\<close>

inductive alert_step :: "bool \<Rightarrow> AlertsDb \<Rightarrow> AlertsDb \<Rightarrow> bool" for lossless where
  create: "createRule u b t d = Inr (r, d') \<Longrightarrow> alert_step lossless d d'"
| update: "updateRule u i b t d = Inr (r, d') \<Longrightarrow> alert_step lossless d d'"
| delete: "deleteRule u i d = Inr (i', d') \<Longrightarrow> alert_step lossless d d'"
| read_one: "markRead u i t d = Inr (res, d') \<Longrightarrow> alert_step lossless d d'"
| read_all: "markAllRead u t d = Inr (n, d') \<Longrightarrow> alert_step lossless d d'"
| sweep: "lossless \<longrightarrow> announces w \<Longrightarrow> alert_step lossless d (snd (evaluate_alerts w d))"
| world: "alert_step lossless d (observed ws hs es ps rs ms d)"

inductive alert_reachable :: "bool \<Rightarrow> AlertsDb \<Rightarrow> bool" for lossless where
  start: "fresh_alerts d \<Longrightarrow> alert_reachable lossless d"
| step: "alert_reachable lossless d \<Longrightarrow> alert_step lossless d d' \<Longrightarrow> alert_reachable lossless d'"

text \<open>A fact of the fresh tables that endpoints, moves and observations keep is a fact of every
  reachable state.\<close>

lemma alert_reachable_keeps:
  assumes "alert_reachable lossless d"
    and "\<And>d. fresh_alerts d \<Longrightarrow> I d"
    and "\<And>u b t d r d'. createRule u b t d = Inr (r, d') \<Longrightarrow> I d \<Longrightarrow> I d'"
    and "\<And>u i b t d r d'. updateRule u i b t d = Inr (r, d') \<Longrightarrow> I d \<Longrightarrow> I d'"
    and "\<And>u i i' d d'. deleteRule u i d = Inr (i', d') \<Longrightarrow> I d \<Longrightarrow> I d'"
    and "\<And>u i t d r d'. markRead u i t d = Inr (r, d') \<Longrightarrow> I d \<Longrightarrow> I d'"
    and "\<And>u t d n d'. markAllRead u t d = Inr (n, d') \<Longrightarrow> I d \<Longrightarrow> I d'"
    and "\<And>w a b. lossless \<longrightarrow> announces w \<Longrightarrow> sweep_move w a b \<Longrightarrow> I a \<Longrightarrow> I b"
    and "\<And>ws hs es ps rs ms d. I d \<Longrightarrow> I (observed ws hs es ps rs ms d)"
  shows "I d"
  using assms(1)
proof induction
  case (start d)
  then show ?case by (rule assms(2))
next
  case (step d d')
  from step.hyps(2) show ?case
  proof cases
    case (create u b t r)
    then show ?thesis using step.IH by (rule assms(3))
  next
    case (update u i b t r)
    then show ?thesis using step.IH by (rule assms(4))
  next
    case (delete u i i')
    then show ?thesis using step.IH by (rule assms(5))
  next
    case (read_one u i t res)
    then show ?thesis using step.IH by (rule assms(6))
  next
    case (read_all u t n)
    then show ?thesis using step.IH by (rule assms(7))
  next
    case (sweep w)
    from evaluate_alerts_keeps [of w I, OF assms(8) [OF sweep(2)] step.IH] show ?thesis by (simp add: sweep(1))
  next
    case world
    from assms(9) [OF step.IH] show ?thesis by (simp add: world)
  qed
qed

section \<open>What the writing endpoints do\<close>

lemma map_sum_Inr [simp]: "map_sum f id x = Inr y \<longleftrightarrow> x = Inr y"
  by (cases x) auto

lemma map_sum_Some_Inr [simp]: "map_sum f Some x = Inr (Some y) \<longleftrightarrow> x = Inr y"
  by (cases x) auto

lemma createRule_Inr:
  assumes "createRule u b t d = Inr (r, d')"
  obtains userId c where "create_input b = Inr c" "d' = d\<lparr>al_rules := al_rules d @ [r], al_drawn := Suc (al_drawn d)\<rparr>"
    "r = rule_of_input (al_uuids d (al_drawn d)) userId c t" "normalizeUserId (nullish_or u (rb_userId b)) = Inr userId"
    "assertFamilyShape (ci_metric c) (ci_userWalletId c) (ci_poolEntityId c) (ci_assetId c) = Inr ()"
    "ci_metric c = TvlDropPct \<Longrightarrow> assertTvlDropCondition (ci_operator c) (ci_threshold c) = Inr ()"
    "assertWalletOwned userId (ci_userWalletId c) d = Inr ()"
    "\<not> int4_overflow (ci_cooldownSeconds c)" "\<not> list_ex (\<lambda>x. ar_id x = ar_id r) (al_rules d)"
  using assms by (auto simp: createRule_def insert_rule_def Let_def map_sum_def split: sum.splits if_splits)

lemma updateRule_Inr:
  assumes "updateRule u i b t d = Inr (r, d')"
  obtains userId ruleId p where "normalizeUserId (nullish_or u (rb_userId b)) = Inr userId" "normalizeRuleId i = Inr ruleId"
    "patch_of b = Inr p" "recheck userId ruleId p d = Inr ()" "assertWalletOwned userId (set_or (up_userWalletId p) None) d = Inr ()"
    "update_rule userId ruleId p t d = Inr (Some r, d')"
  using assms by (auto simp: updateRule_def split: option.splits)

lemma update_rule_Inr:
  assumes "update_rule userId i p t d = Inr (Some r, d')"
  obtains "d' = d" | r0 where "select_rule userId i d = Some r0" "\<not> int4_overflow (ar_cooldownSeconds r)"
    "d' = d\<lparr>al_rules := map (\<lambda>x. if owned_rule userId i x then apply_patch p t x else x) (al_rules d)\<rparr>" "r = apply_patch p t r0"
proof (cases "empty_patch p")
  case True
  with assms that(1) show ?thesis by (simp add: update_rule_def)
next
  case False
  with assms obtain r0 where "select_rule userId i d = Some r0" by (cases "select_rule userId i d") (simp_all add: update_rule_def)
  with assms False that(2) [of r0] show ?thesis by (simp add: update_rule_def Let_def split: if_splits)
qed

lemma apply_patch_keeps [simp]:
  "ar_id (apply_patch p t r) = ar_id r" "ar_userId (apply_patch p t r) = ar_userId r"
  "ar_metric (apply_patch p t r) = ar_metric r"
  by (simp_all add: apply_patch_def)

lemma deleteRule_Inr:
  assumes "deleteRule u i d = Inr (i', d')"
  obtains userId ruleId where "normalizeUserId u = Inr userId" "normalizeRuleId i = Inr ruleId"
    "d' = snd (delete_rule userId ruleId d)" "\<exists>r \<in> set (al_rules d). owned_rule userId ruleId r"
  using assms
  by (auto simp: deleteRule_def delete_rule_def Let_def filter_empty_conv split: prod.splits if_splits)

lemma markRead_Inr:
  assumes "markRead u i t d = Inr (r, d')"
  obtains userId n where "normalizeUserId u = Inr userId" "d' = snd (mark_read userId n t d)"
  using assms by (auto simp: markRead_def Let_def case_prod_unfold split: if_splits)

lemma markAllRead_Inr:
  assumes "markAllRead u t d = Inr (n, d')"
  obtains userId where "normalizeUserId u = Inr userId" "d' = snd (mark_all_read userId t d)"
  using assms by (auto simp: markAllRead_def)

section \<open>Well-formed rules\<close>

text \<open>The shape of a rule's family: what it is scoped by, and the condition of a TVL rule.\<close>

definition family_shape :: "AlertRule \<Rightarrow> bool" where
  "family_shape r \<longleftrightarrow>
     (case ar_metric r of
        HealthFactor \<Rightarrow> ar_assetId r = None
      | Price \<Rightarrow> ar_assetId r \<noteq> None \<and> ar_userWalletId r = None \<and> ar_poolEntityId r = None
      | TvlDropPct \<Rightarrow> ar_poolEntityId r \<noteq> None \<and> ar_userWalletId r = None \<and> ar_assetId r = None
          \<and> ar_operator r \<in> {OpGt, OpGte} \<and> (\<forall>t. ar_threshold r = Some t \<longrightarrow> \<not> js_le t (Num 0))
      | OtherMetric m \<Rightarrow> False
      | _ \<Rightarrow> ar_poolEntityId r \<noteq> None \<and> ar_userWalletId r = None \<and> ar_assetId r = None)"

definition rule_ok :: "AlertRule \<Rightarrow> bool" where
  "rule_ok r \<longleftrightarrow> family_shape r \<and> (\<exists>q. ar_threshold r = Some (Num q))
     \<and> 0 < ar_cooldownSeconds r \<and> ar_cooldownSeconds r < 2 ^ 31
     \<and> (\<forall>m. ar_rearmHysteresis r = Some m \<longrightarrow> (\<exists>q\<ge>0. m = Num q))"

lemma validateThreshold_Inr: "validateThreshold v = Inr t \<Longrightarrow> \<exists>q. t = Num q"
  by (cases t) (auto simp: validateThreshold_def split: jsval.splits if_splits)

lemma validateCooldown_Inr: "validateCooldown v = Inr c \<Longrightarrow> 0 < c"
  by (auto simp: validateCooldown_def split: jsval.splits if_splits jsnum.splits)

lemma validateHysteresis_Inr: "validateHysteresis v = Inr (Some m) \<Longrightarrow> \<exists>q\<ge>0. m = Num q"
  by (auto simp: validateHysteresis_def split: jsval.splits if_splits jsnum.splits)

lemma validateMetric_Inr: "validateMetric v = Inr m \<Longrightarrow> m \<in> {HealthFactor, Price, TvlDropPct, SupplyApy, BorrowApy}"
  by (auto simp: validateMetric_def unsupported_metric_def SUPPORTED_METRICS_def split: jsval.splits option.splits if_splits)

lemma assertFamilyShape_Inr:
  "assertFamilyShape m w p a = Inr () \<longleftrightarrow>
     (m = Price \<longrightarrow> a \<noteq> None \<and> w = None \<and> p = None)
     \<and> (m = TvlDropPct \<or> m = SupplyApy \<or> m = BorrowApy \<longrightarrow> p \<noteq> None \<and> w = None \<and> a = None)
     \<and> (m = HealthFactor \<or> (\<exists>x. m = OtherMetric x) \<longrightarrow> a = None)"
  by (cases m) (auto simp: assertFamilyShape_def)

lemma assertTvlDropCondition_Inr:
  "assertTvlDropCondition op t = Inr () \<longleftrightarrow> op \<in> {OpGt, OpGte} \<and> \<not> js_le t (Num 0)"
  by (auto simp: assertTvlDropCondition_def)

lemma create_input_Inr:
  assumes "create_input b = Inr c"
  shows "ci_metric c \<in> {HealthFactor, Price, TvlDropPct, SupplyApy, BorrowApy}" "\<exists>q. ci_threshold c = Num q"
    "0 < ci_cooldownSeconds c" "\<And>m. ci_rearmHysteresis c = Some m \<Longrightarrow> \<exists>q\<ge>0. m = Num q"
proof -
  from assms have v: "validateMetric (rb_metric b) = Inr (ci_metric c)" "validateThreshold (rb_threshold b) = Inr (ci_threshold c)"
    "(if is_absent (rb_cooldownSeconds b) then Inr DEFAULT_COOLDOWN_SECONDS else validateCooldown (rb_cooldownSeconds b))
       = (Inr (ci_cooldownSeconds c) :: alert_error + int)"
    "validateHysteresis (rb_rearmHysteresis b) = Inr (ci_rearmHysteresis c)"
    by (auto simp only: create_input_def err_bind_Inr sum.inject CreateRuleInput.simps)
  from v(1) show "ci_metric c \<in> {HealthFactor, Price, TvlDropPct, SupplyApy, BorrowApy}" by (rule validateMetric_Inr)
  from v(2) show "\<exists>q. ci_threshold c = Num q" by (rule validateThreshold_Inr)
  from v(3) show "0 < ci_cooldownSeconds c"
    by (cases "is_absent (rb_cooldownSeconds b)") (auto simp: DEFAULT_COOLDOWN_SECONDS_def dest: validateCooldown_Inr)
  show "\<exists>q\<ge>0. m = Num q" if "ci_rearmHysteresis c = Some m" for m
    using v(4) that by (auto intro: validateHysteresis_Inr)
qed

lemma patch_of_Inr:
  assumes "patch_of b = Inr p"
  shows "\<And>x. up_threshold p = Some x \<Longrightarrow> \<exists>q. x = Num q" "\<And>x. up_cooldownSeconds p = Some x \<Longrightarrow> 0 < x"
    "\<And>m. up_rearmHysteresis p = Some (Some m) \<Longrightarrow> \<exists>q\<ge>0. m = Num q"
proof -
  from assms have v: "patched (rb_threshold b) validateThreshold = Inr (up_threshold p)"
    "patched (rb_cooldownSeconds b) validateCooldown = Inr (up_cooldownSeconds p)"
    "patched (rb_rearmHysteresis b) validateHysteresis = Inr (up_rearmHysteresis p)"
    by (auto simp only: patch_of_def err_bind_Inr sum.inject UpdateRuleInput.simps split: if_splits)
  show "\<exists>q. x = Num q" if "up_threshold p = Some x" for x
    using v(1) that by (auto simp: patched_def split: if_splits intro: validateThreshold_Inr)
  show "0 < x" if "up_cooldownSeconds p = Some x" for x
    using v(2) that by (auto simp: patched_def split: if_splits intro: validateCooldown_Inr)
  show "\<exists>q\<ge>0. m = Num q" if "up_rearmHysteresis p = Some (Some m)" for m
    using v(3) that by (auto simp: patched_def split: if_splits intro: validateHysteresis_Inr)
qed

lemma created_rule_ok:
  assumes "create_input b = Inr c" "\<not> int4_overflow (ci_cooldownSeconds c)"
    and "assertFamilyShape (ci_metric c) (ci_userWalletId c) (ci_poolEntityId c) (ci_assetId c) = Inr ()"
    and "ci_metric c = TvlDropPct \<Longrightarrow> assertTvlDropCondition (ci_operator c) (ci_threshold c) = Inr ()"
  shows "rule_ok (rule_of_input i u c t)"
proof -
  have v: "ci_metric c \<in> {HealthFactor, Price, TvlDropPct, SupplyApy, BorrowApy}" "\<exists>q. ci_threshold c = Num q"
    "0 < ci_cooldownSeconds c" "\<And>m. ci_rearmHysteresis c = Some m \<Longrightarrow> \<exists>q\<ge>0. m = Num q"
    by (rule create_input_Inr [OF assms(1)])+
  have "family_shape (rule_of_input i u c t)"
    using v(1) assms(3,4)
    by (auto simp: family_shape_def rule_of_input_def assertFamilyShape_Inr assertTvlDropCondition_Inr)
  with v assms(2) show ?thesis by (auto simp: rule_ok_def rule_of_input_def int4_overflow_def)
qed

lemma patched_rule_ok:
  assumes "rule_ok r" "patch_of b = Inr p" "recheck u i p d = Inr ()" "select_rule u i d = Some r"
    and "\<not> int4_overflow (ar_cooldownSeconds (apply_patch p t r))"
  shows "rule_ok (apply_patch p t r)"
proof -
  note v = patch_of_Inr [OF assms(2)]
  have "family_shape (apply_patch p t r)"
  proof (cases "needs_recheck p")
    case False
    with assms(1) show ?thesis
      by (cases "ar_metric r") (auto simp: rule_ok_def needs_recheck_def family_shape_def apply_patch_def set_or_def)
  next
    case True
    have none: "set_or (map_option (map_option uuid_cast) x) y = None \<longleftrightarrow> set_or x y = None" for x y
      by (cases x) (simp_all add: set_or_def)
    have th: "set_or (map_option Some (up_threshold p)) (ar_threshold r) = Some
        (case up_threshold p of Some t \<Rightarrow> t | None \<Rightarrow> (case ar_threshold r of Some t \<Rightarrow> t | None \<Rightarrow> NaN))"
      using assms(1) by (auto simp: rule_ok_def set_or_def split: option.splits)
    show ?thesis
      using True assms(1,3,4)
      by (cases "ar_metric r")
         (simp_all add: recheck_def rule_ok_def family_shape_def apply_patch_def assertFamilyShape_Inr
           assertTvlDropCondition_Inr none th)
  qed
  with v assms(1,5) show ?thesis
    by (auto simp: rule_ok_def apply_patch_def set_or_def int4_overflow_def split: option.splits)
qed

section \<open>Ownership in every reachable state\<close>

text \<open>A notification that still names its rule is its rule's owner's, and one about a wallet is the
  wallet's owner's.\<close>

definition notification_owned :: "AlertsDb \<Rightarrow> Notification \<Rightarrow> bool" where
  "notification_owned d n \<longleftrightarrow>
     (\<forall>i. nt_ruleId n = Some i \<longrightarrow> (\<exists>r \<in> set (al_rules d). ar_id r = i \<and> ar_userId r = nt_userId n))
     \<and> (case nt_payload n of HealthPayload w p l v th op t \<Rightarrow> wallet_of_user (nt_userId n) w d | _ \<Rightarrow> True)"

definition alert_inv :: "AlertsDb \<Rightarrow> bool" where
  "alert_inv d \<longleftrightarrow> distinct (map ar_id (al_rules d))
     \<and> (\<forall>r \<in> set (al_rules d). rule_ok r \<and> (\<forall>w. ar_userWalletId r = Some w \<longrightarrow> wallet_of_user (ar_userId r) w d))
     \<and> (\<forall>n \<in> set (al_notifications d). notification_owned d n)"

lemma alert_invI:
  assumes "distinct (map ar_id (al_rules d))" "\<And>r. r \<in> set (al_rules d) \<Longrightarrow> rule_ok r"
    "\<And>r w. r \<in> set (al_rules d) \<Longrightarrow> ar_userWalletId r = Some w \<Longrightarrow> wallet_of_user (ar_userId r) w d"
    "\<And>n. n \<in> set (al_notifications d) \<Longrightarrow> notification_owned d n"
  shows "alert_inv d"
  using assms by (simp add: alert_inv_def)

lemma alert_invD:
  assumes "alert_inv d"
  shows "distinct (map ar_id (al_rules d))" "\<And>r. r \<in> set (al_rules d) \<Longrightarrow> rule_ok r"
    "\<And>r w. r \<in> set (al_rules d) \<Longrightarrow> ar_userWalletId r = Some w \<Longrightarrow> wallet_of_user (ar_userId r) w d"
    "\<And>n. n \<in> set (al_notifications d) \<Longrightarrow> notification_owned d n"
  using assms by (simp_all add: alert_inv_def)

lemma notification_owned_mono:
  assumes "notification_owned d n" "nt_userId n' = nt_userId n" "nt_payload n' = nt_payload n"
    and "nt_ruleId n' = nt_ruleId n \<or> nt_ruleId n' = None"
    and "\<And>i u. nt_ruleId n' = Some i \<Longrightarrow> \<exists>r \<in> set (al_rules d). ar_id r = i \<and> ar_userId r = u \<Longrightarrow>
           \<exists>r \<in> set (al_rules d'). ar_id r = i \<and> ar_userId r = u"
    and "\<And>u w. wallet_of_user u w d \<Longrightarrow> wallet_of_user u w d'"
  shows "notification_owned d' n'"
  using assms by (auto simp: notification_owned_def split: alert_payload.splits)

lemma assertWalletOwned_Inr:
  "assertWalletOwned u (Some w) d = Inr () \<longleftrightarrow> wallet_of_user (uuid_cast u) (uuid_cast w) d"
  by (auto simp: assertWalletOwned_def walletBelongsToUser_def wallet_of_user_def list_ex_iff)

lemma create_alert_inv:
  assumes "createRule u b t d = Inr (r, d')" "alert_inv d"
  shows "alert_inv d'"
proof -
  from createRule_Inr [OF assms(1)] obtain userId c where c: "create_input b = Inr c"
    and d': "d' = d\<lparr>al_rules := al_rules d @ [r], al_drawn := Suc (al_drawn d)\<rparr>"
    and r: "r = rule_of_input (al_uuids d (al_drawn d)) userId c t"
    and ok: "assertFamilyShape (ci_metric c) (ci_userWalletId c) (ci_poolEntityId c) (ci_assetId c) = Inr ()"
      "ci_metric c = TvlDropPct \<Longrightarrow> assertTvlDropCondition (ci_operator c) (ci_threshold c) = Inr ()"
      "\<not> int4_overflow (ci_cooldownSeconds c)"
    and own: "assertWalletOwned userId (ci_userWalletId c) d = Inr ()"
    and new: "\<not> list_ex (\<lambda>x. ar_id x = ar_id r) (al_rules d)" by blast
  have rok: "rule_ok r" unfolding r by (rule created_rule_ok [OF c ok(3,1,2)])
  have wallet: "wallet_of_user (ar_userId r) w d" if "ar_userWalletId r = Some w" for w
    using that own by (auto simp: r rule_of_input_def assertWalletOwned_Inr)
  have world: "wallet_of_user x w d' = wallet_of_user x w d" for x w by (simp add: d' wallet_of_user_def)
  note inv = alert_invD [OF assms(2)]
  show ?thesis
  proof (rule alert_invI)
    show "distinct (map ar_id (al_rules d'))" using inv(1) new by (auto simp: d' list_ex_iff)
    show "rule_ok x" if "x \<in> set (al_rules d')" for x using that inv(2) rok by (auto simp: d')
    show "wallet_of_user (ar_userId x) w d'" if "x \<in> set (al_rules d')" "ar_userWalletId x = Some w" for x w
      using that inv(3) wallet by (auto simp: d' world [unfolded d'])
    show "notification_owned d' n" if "n \<in> set (al_notifications d')" for n
      by (rule notification_owned_mono [OF inv(4)]) (use that in \<open>auto simp: d' wallet_of_user_def\<close>)
  qed
qed

text \<open>With distinct ids the row a user's statement selects is the only one it changes.\<close>

lemma owned_rule_unique:
  assumes "distinct (map ar_id rows)" "List.find (owned_rule u i) rows = Some r" "x \<in> set rows" "owned_rule u i x"
  shows "x = r"
proof -
  have "r \<in> set rows" "owned_rule u i r" using assms(2) by (auto simp: find_Some_iff)
  with assms show ?thesis by (auto simp: owned_rule_def distinct_map inj_on_def)
qed

lemma update_alert_inv:
  assumes "updateRule u i b t d = Inr (r, d')" "alert_inv d"
  shows "alert_inv d'"
proof -
  from updateRule_Inr [OF assms(1)] obtain userId ruleId p where p: "patch_of b = Inr p"
    and re: "recheck userId ruleId p d = Inr ()" and own: "assertWalletOwned userId (set_or (up_userWalletId p) None) d = Inr ()"
    and up: "update_rule userId ruleId p t d = Inr (Some r, d')" by blast
  note inv = alert_invD [OF assms(2)]
  from up show ?thesis
  proof (rule update_rule_Inr)
    assume "d' = d" then show ?thesis using assms(2) by simp
  next
    fix r0
    assume sel: "select_rule userId ruleId d = Some r0" and rng: "\<not> int4_overflow (ar_cooldownSeconds r)"
      and d': "d' = d\<lparr>al_rules := map (\<lambda>x. if owned_rule userId ruleId x then apply_patch p t x else x) (al_rules d)\<rparr>"
      and r: "r = apply_patch p t r0"
    have world: "wallet_of_user x w d' = wallet_of_user x w d" for x w by (simp add: d' wallet_of_user_def)
    have only: "x = r0" if "x \<in> set (al_rules d)" "owned_rule userId ruleId x" for x
      using owned_rule_unique [OF inv(1) sel [unfolded select_rule_def] that] .
    have r0: "r0 \<in> set (al_rules d)" "owned_rule userId ruleId r0" using sel by (auto simp: select_rule_def find_Some_iff)
    have keep: "\<exists>x \<in> set (al_rules d'). ar_id x = ar_id y \<and> ar_userId x = ar_userId y" if "y \<in> set (al_rules d)" for y
      by (rule bexI [of _ "if owned_rule userId ruleId y then apply_patch p t y else y"]) (use that in \<open>auto simp: d'\<close>)
    have rok: "rule_ok (apply_patch p t r0)"
      by (rule patched_rule_ok [OF inv(2) [OF r0(1)] p re sel rng [unfolded r]])
    have wallet: "wallet_of_user (ar_userId r0) w d" if "ar_userWalletId (apply_patch p t r0) = Some w" for w
      using that own inv(3) [OF r0(1), of w] r0(2)
      by (auto simp: apply_patch_def set_or_def assertWalletOwned_Inr owned_rule_def split: option.splits)
    show ?thesis
    proof (rule alert_invI)
      have "map ar_id (al_rules d') = map ar_id (al_rules d)" by (simp add: d')
      with inv(1) show "distinct (map ar_id (al_rules d'))" by simp
      show "rule_ok x" if "x \<in> set (al_rules d')" for x
        using that inv(2) rok only by (auto simp: d' split: if_splits)
      show "wallet_of_user (ar_userId x) w d'" if "x \<in> set (al_rules d')" "ar_userWalletId x = Some w" for x w
        using that inv(3) wallet only unfolding world by (auto simp: d' split: if_splits)
      show "notification_owned d' n" if "n \<in> set (al_notifications d')" for n
        by (rule notification_owned_mono [OF inv(4)]) (use that keep world in \<open>fastforce simp: d'\<close>)+
    qed
  qed
qed

lemma delete_alert_inv:
  assumes "deleteRule u i d = Inr (i', d')" "alert_inv d"
  shows "alert_inv d'"
proof -
  from deleteRule_Inr [OF assms(1)] obtain userId ruleId where d': "d' = snd (delete_rule userId ruleId d)" by blast
  have world: "wallet_of_user x w d' = wallet_of_user x w d" for x w
    by (simp add: d' delete_rule_def Let_def wallet_of_user_def)
  have rules: "al_rules d' = filter (\<lambda>r. \<not> owned_rule userId ruleId r) (al_rules d)"
    by (simp add: d' delete_rule_def Let_def)
  note inv = alert_invD [OF assms(2)]
  show ?thesis
  proof (rule alert_invI)
    show "distinct (map ar_id (al_rules d'))" using inv(1) by (simp add: rules distinct_map_filter)
    show "rule_ok x" if "x \<in> set (al_rules d')" for x using that inv(2) by (auto simp: rules)
    show "wallet_of_user (ar_userId x) w d'" if "x \<in> set (al_rules d')" "ar_userWalletId x = Some w" for x w
      using that inv(3) by (auto simp: rules world)
    show "notification_owned d' n" if n: "n \<in> set (al_notifications d')" for n
    proof -
      let ?gone = "map ar_id (filter (owned_rule userId ruleId) (al_rules d))"
      from n obtain n0 where n0: "n0 \<in> set (al_notifications d)"
        and nn: "n = (if nt_ruleId n0 \<in> Some ` set ?gone then n0\<lparr>nt_ruleId := None\<rparr> else n0)"
        by (auto simp: d' delete_rule_def Let_def)
      have stays: "r \<in> set (al_rules d')" if "r \<in> set (al_rules d)" "nt_ruleId n = Some (ar_id r)" for r
        using that by (auto simp: nn rules split: if_splits)
      show ?thesis
        by (rule notification_owned_mono [OF inv(4) [OF n0]]) (use stays world in \<open>auto simp: nn\<close>)
    qed
  qed
qed

text \<open>Marking as read changes nothing but \<open>read_at\<close>.\<close>

lemma notifications_marked_inv:
  assumes "alert_inv d" "d' = d\<lparr>al_notifications := map f (al_notifications d)\<rparr>"
    and "\<And>n. nt_userId (f n) = nt_userId n \<and> nt_payload (f n) = nt_payload n \<and> nt_ruleId (f n) = nt_ruleId n"
  shows "alert_inv d'"
proof (rule alert_invI)
  note inv = alert_invD [OF assms(1)]
  have world: "wallet_of_user x w d' = wallet_of_user x w d" for x w by (simp add: assms(2) wallet_of_user_def)
  show "distinct (map ar_id (al_rules d'))" "\<And>r. r \<in> set (al_rules d') \<Longrightarrow> rule_ok r"
    "\<And>r w. r \<in> set (al_rules d') \<Longrightarrow> ar_userWalletId r = Some w \<Longrightarrow> wallet_of_user (ar_userId r) w d'"
    using inv unfolding world by (simp_all add: assms(2))
  show "notification_owned d' n" if "n \<in> set (al_notifications d')" for n
  proof -
    from that obtain n0 where n0: "n0 \<in> set (al_notifications d)" "n = f n0" by (auto simp: assms(2))
    show ?thesis
      by (rule notification_owned_mono [OF inv(4) [OF n0(1)]]) (use assms(3) in \<open>auto simp: n0(2) assms(2) world [unfolded assms(2)]\<close>)
  qed
qed

lemma mark_alert_inv:
  "markRead u i t d = Inr (r, d') \<Longrightarrow> alert_inv d \<Longrightarrow> alert_inv d'"
  by (erule markRead_Inr, erule notifications_marked_inv, simp add: mark_read_def) simp

lemma mark_all_alert_inv:
  "markAllRead u t d = Inr (n, d') \<Longrightarrow> alert_inv d \<Longrightarrow> alert_inv d'"
  by (erule markAllRead_Inr, erule notifications_marked_inv, simp add: mark_all_read_def) simp

lemma observed_alert_inv:
  assumes "alert_inv d"
  shows "alert_inv (observed ws hs es ps rs ms d)"
proof (rule alert_invI)
  note inv = alert_invD [OF assms]
  have world: "wallet_of_user x w d \<Longrightarrow> wallet_of_user x w (observed ws hs es ps rs ms d)" for x w
    by (auto simp: observed_def wallet_of_user_def)
  let ?d = "observed ws hs es ps rs ms d"
  show "distinct (map ar_id (al_rules ?d))" "\<And>r. r \<in> set (al_rules ?d) \<Longrightarrow> rule_ok r"
    using inv by (simp_all add: observed_def)
  show "wallet_of_user (ar_userId r) w ?d" if "r \<in> set (al_rules ?d)" "ar_userWalletId r = Some w" for r w
    using that by (intro world inv(3)) (simp_all add: observed_def)
  show "notification_owned ?d n" if "n \<in> set (al_notifications ?d)" for n
    by (rule notification_owned_mono [OF inv(4)]) (use that world in \<open>auto simp: observed_def\<close>)
qed

text \<open>A row appended to the feed keeps the invariant when it is owned.\<close>

lemma appended_alert_inv:
  assumes "alert_inv d" "same_world d d'" "al_notifications d' = al_notifications d @ ns"
    and "\<And>n. n \<in> set ns \<Longrightarrow> notification_owned d n"
  shows "alert_inv d'"
proof (rule alert_invI)
  note inv = alert_invD [OF assms(1)]
  have rules: "al_rules d' = al_rules d" using assms(2) by (simp add: same_world_def)
  have world: "wallet_of_user x w d' = wallet_of_user x w d" for x w using assms(2) by (simp add: same_world_def wallet_of_user_def)
  show "distinct (map ar_id (al_rules d'))" "\<And>r. r \<in> set (al_rules d') \<Longrightarrow> rule_ok r"
    "\<And>r w. r \<in> set (al_rules d') \<Longrightarrow> ar_userWalletId r = Some w \<Longrightarrow> wallet_of_user (ar_userId r) w d'"
    using inv unfolding world rules by simp_all
  show "notification_owned d' n" if "n \<in> set (al_notifications d')" for n
    by (rule notification_owned_mono [of d n]) (use that inv(4) assms(3,4) rules world in auto)
qed

lemma enabled_rule: "r \<in> set (getEnabledRules d) \<Longrightarrow> r \<in> set (al_rules d)"
  by (simp add: getEnabledRules_def)

text \<open>The row an insert appends.\<close>

definition notification_row ::
  "user_id \<Rightarrow> string option \<Rightarrow> emit_kind \<Rightarrow> Copy \<Rightarrow> alert_payload \<Rightarrow> ms \<Rightarrow> AlertsDb \<Rightarrow> Notification" where
  "notification_row u r em copy payload t d =
     \<lparr>nt_id = al_uuids d (al_drawn d), nt_userId = u, nt_ruleId = r, nt_kind = em, nt_title = cp_title copy,
      nt_body = cp_body copy, nt_payload = payload, nt_readAt = None, nt_createdAt = t\<rparr>"

lemma notification_row_simps [simp]:
  "nt_id (notification_row u r em copy payload t d) = al_uuids d (al_drawn d)"
  "nt_userId (notification_row u r em copy payload t d) = u"
  "nt_ruleId (notification_row u r em copy payload t d) = r"
  "nt_kind (notification_row u r em copy payload t d) = em"
  "nt_payload (notification_row u r em copy payload t d) = payload"
  by (simp_all add: notification_row_def)

lemma inserted:
  assumes "insertNotification u r em copy payload t d = Inr d'"
  shows "d' = d\<lparr>al_notifications := al_notifications d @ [notification_row u r em copy payload t d],
                 al_drawn := Suc (al_drawn d)\<rparr>"
    and "same_world d d'" "al_notifications d' = al_notifications d @ [notification_row u r em copy payload t d]"
  using assms by (simp_all add: insertNotification_Inr notification_row_def same_world_def)

lemma pool_row_frame:
  "same_world d (upsertPoolStatusState s d)" "al_notifications (upsertPoolStatusState s d) = al_notifications d"
  "al_drawn (upsertPoolStatusState s d) = al_drawn d"
  by (simp_all add: upsertPoolStatusState_def same_world_def)

lemma move_alert_inv:
  assumes "sweep_move w d d'" "alert_inv d"
  shows "alert_inv d'"
  using assms
proof cases
  case (quiet rule out v key)
  with write_edge_frame [OF quiet(3)] assms(2) show ?thesis by (intro appended_alert_inv [of d d' "[]"]) simp_all
next
  case (edge rule out v key d1 em payload copy)
  note frame = write_edge_frame [OF edge(3)] and ins = inserted(2,3) [OF edge(7)]
  let ?n = "notification_row (ar_userId rule) (Some (ar_id rule)) em copy payload (sw_sql w) d1"
  have "notification_owned d ?n"
    using edge(6) enabled_rule [OF edge(1)] by (cases payload) (auto simp: notification_owned_def)
  with appended_alert_inv [OF assms(2) same_world_trans [OF frame(1) ins(1)], of "[?n]"] ins(2) frame(2)
  show ?thesis by simp
next
  case (lost rule out v key em copy payload err)
  with write_edge_frame [OF lost(3)] assms(2) show ?thesis by (intro appended_alert_inv [of d d' "[]"]) simp_all
next
  case (pool s)
  with pool_row_frame assms(2) show ?thesis by (intro appended_alert_inv [of d d' "[]"]) simp_all
next
  case (told u em copy e lbl f t st ts slug)
  from appended_alert_inv [OF assms(2) inserted(2,3) [OF told]] show ?thesis by (simp add: notification_owned_def)
qed

theorem reachable_alert_inv: "alert_reachable lossless d \<Longrightarrow> alert_inv d"
proof (erule alert_reachable_keeps)
  show "alert_inv d" if "fresh_alerts d" for d using that by (simp add: fresh_alerts_def alert_inv_def)
qed (rule create_alert_inv update_alert_inv delete_alert_inv mark_alert_inv mark_all_alert_inv move_alert_inv observed_alert_inv; assumption)+

section \<open>The feed agrees with the edge state\<close>

text \<open>What a reader of the feed concludes: run over the kinds of a subject's notifications, oldest
  first, a resolve is only allowed while an alert is open; the result says whether one is open at the
  end.\<close>

fun feed_run :: "bool \<Rightarrow> emit_kind list \<Rightarrow> bool option" where
  "feed_run opened [] = Some opened"
| "feed_run opened (AlertFired # es) = feed_run True es"
| "feed_run opened (AlertResolved # es) = (if opened then feed_run False es else None)"

definition feed_of :: "string \<Rightarrow> edge_key \<Rightarrow> AlertsDb \<Rightarrow> emit_kind list" where
  "feed_of r k d = map nt_kind (filter (\<lambda>n. nt_ruleId n = Some r \<and> payload_key (nt_payload n) = k) (al_notifications d))"

lemma feed_run_snoc:
  "feed_run opened (es @ [e]) = Option.bind (feed_run opened es) (\<lambda>o1. feed_run o1 [e])"
  by (induction opened es rule: feed_run.induct) simp_all

definition feed_agrees :: "AlertsDb \<Rightarrow> bool" where
  "feed_agrees d \<longleftrightarrow> inj (al_uuids d) \<and> (\<forall>n \<in> set (al_notifications d). \<exists>i < al_drawn d. nt_id n = al_uuids d i)
     \<and> (\<forall>r k. feed_run False (feed_of r k d) = Some (prev_breached (edge_state r k d)))"

lemma feed_agreesI:
  assumes "feed_agrees d" "al_uuids d' = al_uuids d" "al_drawn d \<le> al_drawn d'"
    and "\<And>n. n \<in> set (al_notifications d') \<Longrightarrow> \<exists>m \<in> set (al_notifications d). nt_id m = nt_id n"
    and "\<And>r k. (feed_of r k d' = feed_of r k d \<and> edge_state r k d' = edge_state r k d)
           \<or> (feed_of r k d' = [] \<and> edge_state r k d' = None)"
  shows "feed_agrees d'"
proof -
  have "\<exists>i < al_drawn d'. nt_id n = al_uuids d' i" if "n \<in> set (al_notifications d')" for n
    using assms(1-3) assms(4) [OF that] unfolding feed_agrees_def by (metis order_less_le_trans)
  moreover have "feed_run False (feed_of r k d') = Some (prev_breached (edge_state r k d'))" for r k
    using assms(1) assms(5) [of r k] by (auto simp: feed_agrees_def prev_breached_def)
  ultimately show ?thesis using assms(1,2) by (simp add: feed_agrees_def)
qed

lemma edge_state_cong:
  assumes "al_rule_state d' = al_rule_state d" "al_subject_state d' = al_subject_state d"
  shows "edge_state r k d' = edge_state r k d"
  using assms by (cases k) (simp_all add: prev_of_pair_find prev_of_subject_find)

lemma feed_of_cong: "al_notifications d' = al_notifications d \<Longrightarrow> feed_of r k d' = feed_of r k d"
  by (simp add: feed_of_def)

lemma feed_of_map:
  assumes "al_notifications d' = map f (al_notifications d)"
    and "\<And>n. nt_kind (f n) = nt_kind n \<and> nt_payload (f n) = nt_payload n \<and> nt_ruleId (f n) = nt_ruleId n"
  shows "feed_of r k d' = feed_of r k d"
  using assms(2) by (simp add: feed_of_def assms(1) filter_map comp_def)

lemma delete_feed:
  assumes "deleteRule u i d = Inr (i', d')" "feed_agrees d"
  shows "feed_agrees d'"
proof -
  from deleteRule_Inr [OF assms(1)] obtain userId ruleId where d': "d' = snd (delete_rule userId ruleId d)" by blast
  let ?gone = "set (map ar_id (filter (owned_rule userId ruleId) (al_rules d)))"
  have ns: "al_notifications d' = map (\<lambda>n. if nt_ruleId n \<in> Some ` ?gone then n\<lparr>nt_ruleId := None\<rparr> else n) (al_notifications d)"
    and st: "al_rule_state d' = filter (\<lambda>s. rs_ruleId s \<notin> ?gone) (al_rule_state d)"
    and sub: "al_subject_state d' = filter (\<lambda>s. ss_ruleId s \<notin> ?gone) (al_subject_state d)"
    by (simp_all add: d' delete_rule_def Let_def)
  have "feed_of r k d' = feed_of r k d \<and> edge_state r k d' = edge_state r k d" if r: "r \<notin> ?gone" for r k
  proof
    have "filter (\<lambda>n. nt_ruleId n = Some r \<and> payload_key (nt_payload n) = k)
          (map (\<lambda>n. if nt_ruleId n \<in> Some ` ?gone then n\<lparr>nt_ruleId := None\<rparr> else n) rows)
        = filter (\<lambda>n. nt_ruleId n = Some r \<and> payload_key (nt_payload n) = k) rows" for rows :: "Notification list"
      by (induction rows) (use r in auto)
    then show "feed_of r k d' = feed_of r k d" by (simp only: feed_of_def ns)
    have "List.find (\<lambda>s. rs_ruleId s = r \<and> P s) (rev (filter (\<lambda>s. rs_ruleId s \<notin> ?gone) rows)) =
        List.find (\<lambda>s. rs_ruleId s = r \<and> P s) (rev rows)" for rows :: "AlertRuleState list" and P
      using r by (auto simp: rev_filter find_filter intro!: find_cong_set)
    moreover have "List.find (\<lambda>s. ss_ruleId s = r \<and> P s) (filter (\<lambda>s. ss_ruleId s \<notin> ?gone) rows) =
        List.find (\<lambda>s. ss_ruleId s = r \<and> P s) rows" for rows :: "SubjectState list" and P
      using r by (auto simp: find_filter intro!: find_cong_set)
    ultimately show "edge_state r k d' = edge_state r k d"
      by (cases k) (simp_all only: edge_state.simps prev_of_pair_find prev_of_subject_find st sub)
  qed
  moreover have "feed_of r k d' = [] \<and> edge_state r k d' = None" if r: "r \<in> ?gone" for r k
  proof
    show "feed_of r k d' = []" using r by (auto simp: feed_of_def ns filter_empty_conv)
    show "edge_state r k d' = None"
      using r by (cases k) (auto simp: prev_of_pair_find prev_of_subject_find st sub find_None_iff)
  qed
  ultimately have "(feed_of r k d' = feed_of r k d \<and> edge_state r k d' = edge_state r k d)
      \<or> (feed_of r k d' = [] \<and> edge_state r k d' = None)" for r k by blast
  moreover have "\<exists>m \<in> set (al_notifications d). nt_id m = nt_id n" if "n \<in> set (al_notifications d')" for n
    using that by (auto simp: ns)
  moreover have "al_uuids d' = al_uuids d" "al_drawn d' = al_drawn d" by (simp_all add: d' delete_rule_def Let_def)
  ultimately show ?thesis by (intro feed_agreesI [OF assms(2)]) simp_all
qed

lemma same_tables_feed:
  assumes "feed_agrees d" "al_rule_state d' = al_rule_state d" "al_subject_state d' = al_subject_state d"
    and "al_notifications d' = map f (al_notifications d)" "al_uuids d' = al_uuids d" "al_drawn d \<le> al_drawn d'"
    and "\<And>n. nt_id (f n) = nt_id n \<and> nt_kind (f n) = nt_kind n \<and> nt_payload (f n) = nt_payload n \<and> nt_ruleId (f n) = nt_ruleId n"
  shows "feed_agrees d'"
  using edge_state_cong [OF assms(2,3)] feed_of_map [OF assms(4)] assms(4,5,6,7)
  by (intro feed_agreesI [OF assms(1)]) auto

lemma endpoint_feed:
  "createRule u b t d = Inr (r, d') \<Longrightarrow> feed_agrees d \<Longrightarrow> feed_agrees d'"
  "updateRule u i b t d = Inr (r, d') \<Longrightarrow> feed_agrees d \<Longrightarrow> feed_agrees d'"
  "markRead u i t d = Inr (res, d') \<Longrightarrow> feed_agrees d \<Longrightarrow> feed_agrees d'"
  "markAllRead u t d = Inr (n, d') \<Longrightarrow> feed_agrees d \<Longrightarrow> feed_agrees d'"
  "feed_agrees d \<Longrightarrow> feed_agrees (observed ws hs es ps rs ms d)"
  subgoal by (erule createRule_Inr, erule same_tables_feed [where f = id]) auto
  subgoal by (erule updateRule_Inr, erule update_rule_Inr, simp, erule same_tables_feed [where f = id]) auto
  subgoal
    by (erule markRead_Inr, rule same_tables_feed [where f = "\<lambda>x. if unread_owned a b x then x\<lparr>nt_readAt := Some t\<rparr> else x" for a b])
       (auto simp: mark_read_def)
  subgoal
    by (erule markAllRead_Inr,
        rule same_tables_feed [where f = "\<lambda>x. if nt_userId x = uuid_cast a \<and> nt_readAt x = None then x\<lparr>nt_readAt := Some t\<rparr> else x" for a])
       (auto simp: mark_all_read_def)
  subgoal by (erule same_tables_feed [where f = id]) (auto simp: observed_def)
  done

text \<open>An evaluation emits exactly when the open flag of the feed changes or an open alert fires again.\<close>

lemma emitted_feed:
  "feed_run (prev_breached prev) (case emit (evaluate rule v prev t) of None \<Rightarrow> [] | Some e \<Rightarrow> [e]) =
     Some (rs_status (nextState (evaluate rule v prev t)) = StBreached)"
  by (cases rule: evaluate_cases [of rule v prev t]) auto

lemma feed_of_inserted:
  assumes "insertNotification u (Some r) em copy payload t d = Inr d'"
  shows "feed_of r' k d' = feed_of r' k d @ (if r' = r \<and> k = payload_key payload then [em] else [])"
  using inserted(3) [OF assms] by (auto simp: feed_of_def)

lemma written_breached:
  assumes "write_edge r k (evaluate rule v prev t) now d = Inr d'"
  shows "prev_breached (edge_state r k d') \<longleftrightarrow> rs_status (nextState (evaluate rule v prev t)) = StBreached"
  using edge_read_written [OF assms nextStatus_nextState]
  by (cases "edge_state r k d'") (auto simp: prev_breached_def edge_core_def)

lemma fresh_uuid:
  assumes "inj (al_uuids d)" "\<forall>n \<in> set (al_notifications d). \<exists>i < al_drawn d. nt_id n = al_uuids d i"
  shows "\<not> list_ex (\<lambda>n. nt_id n = al_uuids d (al_drawn d)) (al_notifications d)"
  using assms by (fastforce simp: list_ex_iff dest: injD)

lemma insert_succeeds:
  assumes "feed_agrees d" "same_world d d1" "al_notifications d1 = al_notifications d" "al_drawn d1 = al_drawn d"
    and "rule \<in> set (al_rules d)"
  shows "\<exists>d2. insertNotification u (Some (ar_id rule)) em copy payload t d1 = Inr d2"
proof -
  have "\<not> list_ex (\<lambda>n. nt_id n = al_uuids d1 (al_drawn d1)) (al_notifications d1)"
    using assms(1-4) by (intro fresh_uuid) (auto simp: feed_agrees_def same_world_def)
  moreover have "rule_exists (ar_id rule) d1"
    using assms(2,5) by (auto simp: rule_exists_def same_world_def list_ex_iff)
  ultimately show ?thesis by (simp add: insertNotification_Inr)
qed

lemma agreesD:
  assumes "feed_agrees d"
  shows "inj (al_uuids d)" "\<And>n. n \<in> set (al_notifications d) \<Longrightarrow> \<exists>i < al_drawn d. nt_id n = al_uuids d i"
    "feed_run False (feed_of r k d) = Some (prev_breached (edge_state r k d))"
  using assms by (simp_all add: feed_agrees_def)

text \<open>Writing the state of an evaluation and appending what it emits keeps the agreement.\<close>

lemma evaluated_feed:
  assumes "feed_agrees d" "write_edge r0 key (evaluate rule v (edge_state r0 key d) now) now d = Inr d1"
    and st: "\<And>r k. edge_state r k d' = edge_state r k d1"
    and feed: "\<And>r k. feed_of r k d' = feed_of r k d @ (if r = r0 \<and> k = key
        then (case emit (evaluate rule v (edge_state r0 key d) now) of None \<Rightarrow> [] | Some e \<Rightarrow> [e]) else [])"
  shows "feed_run False (feed_of r k d') = Some (prev_breached (edge_state r k d'))"
proof (cases "(r, k) = (r0, key)")
  case True
  let ?out = "evaluate rule v (edge_state r0 key d) now"
  have "feed_run False (feed_of r0 key d @ (case emit ?out of None \<Rightarrow> [] | Some e \<Rightarrow> [e]))
      = feed_run (prev_breached (edge_state r0 key d)) (case emit ?out of None \<Rightarrow> [] | Some e \<Rightarrow> [e])"
    using agreesD(3) [OF assms(1), of r0 key] by (cases "emit ?out") (simp_all add: feed_run_snoc)
  with True show ?thesis by (simp add: feed st written_breached [OF assms(2)] emitted_feed)
next
  case False
  then have "feed_of r k d' = feed_of r k d" using feed [of r k] by auto
  with edge_read_other [OF assms(2) False] agreesD(3) [OF assms(1), of r k] show ?thesis by (simp add: st)
qed

lemma move_feed:
  assumes "sweep_move w d d'" "feed_agrees d" "announces w"
  shows "feed_agrees d'"
  using assms(1)
proof cases
  case (quiet rule out v key)
  note frame = write_edge_frame [OF quiet(3)]
  have "feed_run False (feed_of r k d') = Some (prev_breached (edge_state r k d'))" for r k
    by (rule evaluated_feed [OF assms(2) quiet(3) [unfolded quiet(2)] refl])
       (simp add: quiet(4) [unfolded quiet(2)] feed_of_cong [OF frame(2)])
  with agreesD(1,2) [OF assms(2)] frame show ?thesis by (simp add: feed_agrees_def same_world_def)
next
  case (edge rule out v key d1 em payload copy)
  note frame = write_edge_frame [OF edge(3)] and ins = inserted [OF edge(7)]
  have em: "emit (evaluate rule v (edge_state (ar_id rule) key d) (sw_now w)) = Some em" using edge(2,4) by simp
  have "edge_state r k d' = edge_state r k d1" for r k
    by (rule edge_state_cong) (simp_all add: ins(1))
  then have "feed_run False (feed_of r k d') = Some (prev_breached (edge_state r k d'))" for r k
    by (rule evaluated_feed [OF assms(2) edge(3) [unfolded edge(2)]])
       (simp add: em edge(5) feed_of_inserted [OF edge(7)] feed_of_cong [OF frame(2)])
  moreover have "\<exists>i < al_drawn d'. nt_id n = al_uuids d' i" if "n \<in> set (al_notifications d')" for n
    using that agreesD(2) [OF assms(2), of n] frame ins(1) by (auto simp: same_world_def less_Suc_eq)
  moreover have "inj (al_uuids d')" using agreesD(1) [OF assms(2)] frame ins(2) by (simp add: same_world_def)
  ultimately show ?thesis by (simp add: feed_agrees_def)
next
  case (lost rule out v key em copy payload err)
  note frame = write_edge_frame [OF lost(3)]
  have False
    using lost(5) assms(3) insert_succeeds [OF assms(2) frame enabled_rule [OF lost(1)]]
    unfolding announces_def by (metis sum.distinct(1))
  then show ?thesis ..
next
  case (pool s)
  have "edge_state r k d' = edge_state r k d" for r k
    by (rule edge_state_cong) (simp_all add: pool upsertPoolStatusState_def)
  then show ?thesis
    using pool_row_frame [where d = d and s = s] feed_of_cong [of d' d]
    by (intro feed_agreesI [OF assms(2)]) (auto simp: pool same_world_def)
next
  case (told u em copy e lbl f t st ts slug)
  note ins = inserted [OF told]
  have "feed_of r k d' = feed_of r k d" for r k by (simp add: feed_of_def ins(3))
  moreover have "edge_state r k d' = edge_state r k d" for r k by (rule edge_state_cong) (simp_all add: ins(1))
  moreover have "\<exists>i < al_drawn d'. nt_id n = al_uuids d' i" if "n \<in> set (al_notifications d')" for n
    using that agreesD(2) [OF assms(2), of n] ins(1) by (auto simp: less_Suc_eq)
  moreover have "inj (al_uuids d')" using agreesD(1) [OF assms(2)] ins(2) by (simp add: same_world_def)
  ultimately show ?thesis using agreesD(3) [OF assms(2)] by (simp add: feed_agrees_def)
qed

theorem reachable_feed_agrees: "alert_reachable True d \<Longrightarrow> feed_agrees d"
proof (erule alert_reachable_keeps)
  show "feed_agrees d" if "fresh_alerts d" for d
  proof -
    from that have "edge_state r k d = None" for r k
      by (cases k) (simp_all add: fresh_alerts_def prev_of_pair_find prev_of_subject_find)
    with that show ?thesis by (simp add: feed_agrees_def fresh_alerts_def feed_of_def prev_breached_def)
  qed
  show "True \<longrightarrow> announces w \<Longrightarrow> sweep_move w a b \<Longrightarrow> feed_agrees a \<Longrightarrow> feed_agrees b" for w a b
    by (rule move_feed) simp_all
qed (rule endpoint_feed delete_feed; assumption)+

end
