(* ===== verification/Alert_Example.thy ===== *)
theory Alert_Example
  imports Alert_Invariants
begin

text \<open>
  A concrete trace of alerting: a wallet with a low health factor, a rule on it, a run that fires, a
  run whose notification insert fails. The witnesses of the properties use these states.
\<close>

definition ax_uuid :: "nat \<Rightarrow> string" where
  "ax_uuid n = CHR ''u'' # replicate n (CHR ''x'')"

definition ax_db0 :: AlertsDb where
  "ax_db0 = \<lparr>al_rules = [], al_rule_state = [], al_subject_state = [], al_notifications = [], al_pool_status = [],
     al_user_wallets = [\<lparr>uw_id = ''w1'', uw_user_id = DEMO_USER_ID\<rparr>],
     al_health = [\<lparr>hr_user_wallet_id = ''w1'', hr_entity_id = Some ''p1'', hr_health_factor = Some (Num 1),
                   hr_snapshot_at = 0, hr_created_at = 0\<rparr>],
     al_entities = [], al_prices = [], al_reserves = [], al_metrics = [], al_uuids = ax_uuid, al_drawn = 0\<rparr>"

definition ax_body :: RuleBody where
  "ax_body = \<lparr>rb_userId = JUndefined, rb_metric = JString ''health_factor'', rb_operator = JString ''lt'',
     rb_threshold = JNumber (Num (5/4)), rb_cooldownSeconds = JUndefined, rb_rearmHysteresis = JUndefined,
     rb_userWalletId = JUndefined, rb_poolEntityId = JUndefined, rb_assetId = JUndefined, rb_enabled = JUndefined\<rparr>"

definition ax_rule :: AlertRule where
  "ax_rule = \<lparr>ar_id = ''u'', ar_userId = DEMO_USER_ID, ar_metric = HealthFactor, ar_userWalletId = None,
     ar_poolEntityId = None, ar_assetId = None, ar_operator = OpLt, ar_threshold = Some (Num (5/4)),
     ar_cooldownSeconds = 3600, ar_rearmHysteresis = None, ar_enabled = True, ar_createdAt = 0, ar_updatedAt = 0\<rparr>"

definition ax_db1 :: AlertsDb where
  "ax_db1 = (case createRule JNull ax_body 0 ax_db0 of Inr (r, d) \<Rightarrow> d | Inl e \<Rightarrow> ax_db0)"

definition ax_faults :: "bool \<Rightarrow> Faults" where
  "ax_faults lossy = \<lparr>ft_read = (\<lambda>r. False), ft_write = (\<lambda>r k. False), ft_notify = (\<lambda>r k. lossy), ft_pool_reads = True,
     ft_pool_write = (\<lambda>e. False), ft_pool_notify = (\<lambda>e u. False)\<rparr>"

definition ax_sweep :: "bool \<Rightarrow> ms \<Rightarrow> Sweep" where
  "ax_sweep lossy t = \<lparr>sw_env = \<lparr>env_var = (\<lambda>v. None), env_date = (\<lambda>s. None), env_url = (\<lambda>s. None)\<rparr>, sw_now = t, sw_sql = t,
     sw_pool_load = (\<lambda>p. None), sw_faults = ax_faults lossy\<rparr>"

definition ax_db2 :: AlertsDb where
  "ax_db2 = snd (evaluate_alerts (ax_sweep False 60000) ax_db1)"

lemma ax_create: "createRule JNull ax_body 0 ax_db0 = Inr (ax_rule, ax_db1)"
proof -
  have "map_sum id fst (createRule JNull ax_body 0 ax_db0) = Inr ax_rule" by code_simp
  then show ?thesis
    by (cases "createRule JNull ax_body 0 ax_db0") (auto simp: ax_db1_def split: prod.split)
qed

lemma ax_db1_eq: "ax_db1 = ax_db0\<lparr>al_rules := [ax_rule], al_drawn := 1\<rparr>"
  using ax_create by (elim createRule_Inr) (simp add: ax_db0_def)

lemma ax_fires:
  "al_rule_state ax_db2 = [\<lparr>rs_ruleId = ''u'', rs_userWalletId = ''w1'', rs_poolEntityId = ''p1'', rs_status = StBreached,
     rs_lastValue = Some (Num 1), rs_lastEvaluatedAt = 60000, rs_lastFiredAt = Some 60000\<rparr>]"
  "map (\<lambda>n. (nt_userId n, nt_ruleId n, nt_kind n, nt_payload n)) (al_notifications ax_db2) =
     [(DEMO_USER_ID, Some ''u'', AlertFired, HealthPayload ''w1'' ''p1'' ''pool p1'' (Some (Num 1)) (Some (Num (5/4))) OpLt 0)]"
  by code_simp+

lemma ax_fresh: "fresh_alerts ax_db0"
  by (auto simp: fresh_alerts_def ax_db0_def ax_uuid_def inj_def)

lemma ax_reachable1: "alert_reachable lossless ax_db1"
  by (rule alert_reachable.step [OF alert_reachable.start [OF ax_fresh] alert_step.create [OF ax_create]])

lemma ax_reachable2: "alert_reachable lossless ax_db2"
  unfolding ax_db2_def
  by (rule alert_reachable.step [OF ax_reachable1 alert_step.sweep]) (simp add: announces_def ax_sweep_def ax_faults_def)

end
