(* ===== verification/Alert_Properties.thy ===== *)
theory Alert_Properties
  imports Alert_Example
begin

text \<open>
  The properties of alerting: what holds of the rules, the edge state and the feed in every reachable
  state, what the endpoints leave alone, the pacing of edges, and what the health read cannot see.
\<close>

section \<open>Every reachable state\<close>



text \<open>C32: Every rule of a reachable state is well formed: price rules are scoped by an asset alone, TVL
  and APY rules by a pool alone, health rules never by an asset; a TVL rule asks for a drop above a
  positive threshold; thresholds are finite, cooldowns positive 32-bit integers, re-arm margins not
  negative. Patches cannot break this, whatever fields they combine.\<close>

theorem rules_keep_their_shape:
  assumes "alert_reachable lossless d" "r \<in> set (al_rules d)"
  shows "family_shape r \<and> (\<exists>q. ar_threshold r = Some (Num q))
    \<and> 0 < ar_cooldownSeconds r \<and> ar_cooldownSeconds r < 2 ^ 31
    \<and> (\<forall>m. ar_rearmHysteresis r = Some m \<longrightarrow> (\<exists>q\<ge>0. m = Num q))"
  using alert_invD(2) [OF reachable_alert_inv [OF assms(1)] assms(2)] by (simp add: rule_ok_def)

theorem rules_keep_their_shape_witness: "family_shape ax_rule \<and> ax_rule \<in> set (al_rules ax_db1)"
proof -
  have "ax_rule \<in> set (al_rules ax_db1)" by (simp add: ax_db1_eq)
  with rules_keep_their_shape [OF ax_reachable1] show ?thesis by blast
qed



section \<open>What an endpoint leaves alone\<close>

inductive endpoint_of :: "user_id \<Rightarrow> AlertsDb \<Rightarrow> AlertsDb \<Rightarrow> bool" for u where
  "normalizeUserId (nullish_or v (rb_userId b)) = Inr u \<Longrightarrow> createRule v b t d = Inr (r, d') \<Longrightarrow> endpoint_of u d d'"
| "normalizeUserId (nullish_or v (rb_userId b)) = Inr u \<Longrightarrow> updateRule v i b t d = Inr (r, d') \<Longrightarrow> endpoint_of u d d'"
| "normalizeUserId v = Inr u \<Longrightarrow> deleteRule v i d = Inr (i', d') \<Longrightarrow> endpoint_of u d d'"
| "normalizeUserId v = Inr u \<Longrightarrow> markRead v i t d = Inr (res, d') \<Longrightarrow> endpoint_of u d d'"
| "normalizeUserId v = Inr u \<Longrightarrow> markAllRead v t d = Inr (n, d') \<Longrightarrow> endpoint_of u d d'"

definition others_rules :: "user_id \<Rightarrow> AlertsDb \<Rightarrow> AlertRule list" where
  "others_rules u d = filter (\<lambda>r. ar_userId r \<noteq> uuid_cast u) (al_rules d)"

definition others_feed :: "user_id \<Rightarrow> AlertsDb \<Rightarrow> Notification list" where
  "others_feed u d = filter (\<lambda>n. nt_userId n \<noteq> uuid_cast u) (al_notifications d)"

lemma filter_map_untouched:
  "(\<And>x. x \<in> set xs \<Longrightarrow> (P (f x) = P x) \<and> (P x \<longrightarrow> f x = x)) \<Longrightarrow> filter P (map f xs) = filter P xs"
  by (induction xs) auto

lemma delete_others:
  assumes "deleteRule v i d = Inr (i', d')" "normalizeUserId v = Inr u" "alert_inv d"
  shows "others_rules u d' = others_rules u d \<and> others_feed u d' = others_feed u d"
proof -
  from deleteRule_Inr [OF assms(1)] assms(2) obtain ruleId where d': "d' = snd (delete_rule u ruleId d)" by auto
  let ?gone = "set (map ar_id (filter (owned_rule u ruleId) (al_rules d)))"
  have "al_rules d' = filter (\<lambda>r. \<not> owned_rule u ruleId r) (al_rules d)"
    by (simp add: d' delete_rule_def Let_def)
  then have "others_rules u d' = others_rules u d"
    by (auto simp: others_rules_def owned_rule_def intro!: filter_cong)
  moreover have "others_feed u d' = others_feed u d"
  proof -
    have "nt_userId n = uuid_cast u" if n: "n \<in> set (al_notifications d)" "nt_ruleId n \<in> Some ` ?gone" for n
    proof -
      from n(2) obtain g where g: "g \<in> set (al_rules d)" "owned_rule u ruleId g" "nt_ruleId n = Some (ar_id g)" by auto
      from alert_invD(4) [OF assms(3) n(1)] g(3) obtain r where r: "r \<in> set (al_rules d)" "ar_id r = ar_id g" "ar_userId r = nt_userId n"
        by (auto simp: notification_owned_def)
      have "r = g" using alert_invD(1) [OF assms(3)] r(1,2) g(1) by (auto simp: distinct_map inj_on_def)
      with g(2) r(3) show ?thesis by (simp add: owned_rule_def)
    qed
    then have "filter (\<lambda>n. nt_userId n \<noteq> uuid_cast u)
        (map (\<lambda>n. if nt_ruleId n \<in> Some ` ?gone then n\<lparr>nt_ruleId := None\<rparr> else n) (al_notifications d)) = others_feed u d"
      unfolding others_feed_def by (intro filter_map_untouched) auto
    then show ?thesis by (simp add: others_feed_def d' delete_rule_def Let_def)
  qed
  ultimately show ?thesis ..
qed

lemma endpoint_others:
  assumes "endpoint_of u d d'" "alert_inv d"
  shows "others_rules u d' = others_rules u d \<and> others_feed u d' = others_feed u d"
  using assms(1)
proof cases
  case (1 v b t r)
  from createRule_Inr [OF 1(2)] 1(1) obtain c where "d' = d\<lparr>al_rules := al_rules d @ [r], al_drawn := Suc (al_drawn d)\<rparr>"
    "r = rule_of_input (al_uuids d (al_drawn d)) u c t" by (metis sum.inject(2))
  then show ?thesis by (simp add: others_rules_def others_feed_def rule_of_input_def)
next
  case (2 v b i t r)
  from updateRule_Inr [OF 2(2)] 2(1) obtain ruleId p where "update_rule u ruleId p t d = Inr (Some r, d')" by (metis sum.inject(2))
  then show ?thesis
  proof (rule update_rule_Inr)
    assume d': "d' = d\<lparr>al_rules := map (\<lambda>x. if owned_rule u ruleId x then apply_patch p t x else x) (al_rules d)\<rparr>"
    have rows: "al_rules d' = map (\<lambda>x. if owned_rule u ruleId x then apply_patch p t x else x) (al_rules d)"
      by (simp add: d')
    have "others_rules u d' = others_rules u d"
      unfolding others_rules_def rows by (rule filter_map_untouched) (simp add: owned_rule_def)
    then show ?thesis by (simp add: others_feed_def d')
  qed simp
next
  case (3 v i i')
  with delete_others [OF 3(2,1) assms(2)] show ?thesis by simp
next
  case (4 v i t res)
  from markRead_Inr [OF 4(2)] 4(1) obtain n where d': "d' = snd (mark_read u n t d)" by (metis sum.inject(2))
  then have rows: "al_notifications d' =
      map (\<lambda>n'. if unread_owned u n n' then n'\<lparr>nt_readAt := Some t\<rparr> else n') (al_notifications d)"
    by (simp add: mark_read_def)
  have "others_feed u d' = others_feed u d"
    unfolding others_feed_def rows
    by (rule filter_map_untouched) (simp add: unread_owned_def)
  then show ?thesis by (simp add: others_rules_def d' mark_read_def)
next
  case (5 v t n)
  from markAllRead_Inr [OF 5(2)] 5(1) have d': "d' = snd (mark_all_read u t d)" by (metis sum.inject(2))
  then have rows: "al_notifications d' =
      map (\<lambda>n. if nt_userId n = uuid_cast u \<and> nt_readAt n = None then n\<lparr>nt_readAt := Some t\<rparr> else n) (al_notifications d)"
    by (simp add: mark_all_read_def)
  have "others_feed u d' = others_feed u d"
    unfolding others_feed_def rows
    by (rule filter_map_untouched) simp
  then show ?thesis by (simp add: others_rules_def d' mark_all_read_def)
qed

text \<open>C34: An endpoint called as one user leaves the rules and the notifications of every other user
  exactly as they are: rules are created, patched and deleted under the caller's id only, deleting a
  rule clears the rule reference on the caller's notifications only, and marking as read reaches the
  caller's notifications only.\<close>

theorem endpoints_touch_own_rows:
  assumes "alert_reachable lossless d" "endpoint_of u d d'"
  shows "others_rules u d' = others_rules u d \<and> others_feed u d' = others_feed u d"
  using endpoint_others [OF assms(2) reachable_alert_inv [OF assms(1)]] .

theorem endpoints_touch_own_rows_witness:
  "others_rules DEMO_USER_ID ax_db1 = others_rules DEMO_USER_ID ax_db0"
proof -
  have "endpoint_of DEMO_USER_ID ax_db0 ax_db1"
    by (rule endpoint_of.intros(1) [OF _ ax_create]) code_simp
  with endpoints_touch_own_rows [OF alert_reachable.start [OF ax_fresh]] show ?thesis by blast
qed

section \<open>Pacing\<close>

text \<open>C35: The edges of every rule and subject are well paced, whatever other rules and subjects are
  evaluated in between: starting without stored state, no alert is resolved unless it is open, and
  while it stays open two fires are at least the rule's cooldown apart.\<close>

theorem alert_edges_paced:
  assumes "edges.evaluations rule_of obs d = Inr (es, d')" "edge_state r k d = None"
  shows "well_paced (ar_cooldownSeconds (rule_of (r, k)) * 1000) None (edges.edges_of (r, k) es)"
  using edges.evaluations_paced [OF assms(1), of "(r, k)"] assms(2) by (simp add: state_defs)

theorem alert_edges_paced_witness:
  "\<exists>es d'. edges.evaluations (\<lambda>k. ax_rule)
       [((''u'', Subject ''a''), Some (Num 1), 0), ((''u'', Subject ''a''), Some (Num 1), 3600000)] ax_db1 = Inr (es, d')
     \<and> well_paced 3600000 None (edges.edges_of (''u'', Subject ''a'') es)"
proof -
  have st: "edge_state ''u'' (Subject ''a'') ax_db1 = None"
    by (simp add: ax_db1_eq prev_of_subject_find ax_db0_def)
  have rule: "rule_exists ''u'' ax_db1"
    by (simp add: ax_db1_eq rule_exists_def ax_rule_def)
  obtain es d' where r: "edges.evaluations (\<lambda>k. ax_rule)
       [((''u'', Subject ''a''), Some (Num 1), 0), ((''u'', Subject ''a''), Some (Num 1), 3600000)] ax_db1 = Inr (es, d')"
    using rule by (simp add: edges.evaluated_def Let_def write_subject_def upsertSubjectState_def rule_exists_def)
  from alert_edges_paced [OF r st] r show ?thesis by (auto simp: ax_rule_def)
qed

section \<open>What the health read cannot see\<close>




end
