(* ===== verification/Actions_Service.thy ===== *)
theory Actions_Service
  imports Network_Registry Alert_Rules Decoded_Tx
begin

text \<open>
  \<open>apps/api/src/modules/actions/actions.service.ts\<close>: the builders of the Blend deposit and withdraw,
  of the DEX swap, the swap quote and the live pool position.

  What lives outside the repository is the record \<open>ActionsWorld\<close>: Horizon and the RPC server by
  network, and the SDK's constructors, each \<open>None\<close> (or false) where the call throws. A transaction is
  what the code hands to the SDK's builder (\<open>BuildArgs\<close>, its operations \<open>BuilderOp\<close>); turning that into
  an envelope text is \<open>w_build\<close>. Authorisation entries are copied from the simulation unread and left
  out. An exception that no handler turns into a status is \<open>uncaught\<close>.
\<close>

section \<open>What the builders hand to the SDK\<close>

record SubmitArgs =
  sa_from :: string
  sa_spender :: string
  sa_to :: string
  sa_requests :: "(int \<times> string \<times> int) list" \<comment> \<open>request type, asset contract, amount\<close>

record PathPaymentArgs =
  pp_sendAsset :: ClassicAsset
  pp_sendAmount :: string
  pp_destination :: string
  pp_destAsset :: ClassicAsset
  pp_destMin :: string
  pp_path :: "ClassicAsset list"

datatype BuilderOp =
    BuildChangeTrust ClassicAsset
  | BuildPathPayment PathPaymentArgs
  | BuildSubmit string SubmitArgs \<comment> \<open>pool contract, arguments\<close>

record SorobanLimits =
  sl_instructions :: jsnum
  sl_diskReadBytes :: jsnum
  sl_writeBytes :: jsnum

record BuildArgs =
  ba_source :: string
  ba_sequence :: string
  ba_fee :: string
  ba_passphrase :: string
  ba_ops :: "BuilderOp list"
  ba_timeout :: int
  ba_soroban :: "(SorobanLimits \<times> jsnum) option" \<comment> \<open>resource limits and resource fee\<close>

section \<open>The world outside\<close>

record BalanceLine =
  bl_asset_type :: string
  bl_asset_code :: "string option"
  bl_asset_issuer :: "string option"
  bl_balance :: string
  bl_selling_liabilities :: "string option"

record HorizonAccount =
  ha_balances :: "BalanceLine list"
  ha_subentry_count :: int

datatype SimResult =
    SimThrows | SimError string | SimRestore | SimSuccess string SorobanLimits

record PathRecord =
  pr_hops :: nat \<comment> \<open>length of the path\<close>
  pr_destination_amount :: string

record ReserveView =
  rv_decimals :: nat
  rv_collateral :: int
  rv_supply :: int
  rv_liabilities :: int

record PoolView =
  pv_status :: jsnum
  pv_reserves :: "string \<rightharpoonup> ReserveView" \<comment> \<open>the user's amounts, by reserve contract\<close>

record ActionsWorld =
  w_env :: Env
  w_public :: string \<comment> \<open>the SDK's public network passphrase\<close>
  w_getAccount :: "ActionNetwork \<Rightarrow> string \<Rightarrow> string option" \<comment> \<open>the sequence number\<close>
  w_loadAccount :: "ActionNetwork \<Rightarrow> string \<Rightarrow> HorizonAccount option"
  w_simulate :: "ActionNetwork \<Rightarrow> BuildArgs \<Rightarrow> SimResult"
  w_strictSendPaths :: "ActionNetwork \<Rightarrow> ClassicAsset \<Rightarrow> string \<Rightarrow> ClassicAsset \<Rightarrow> PathRecord list option"
  w_pool :: "string \<Rightarrow> string \<Rightarrow> string \<Rightarrow> string \<Rightarrow> PoolView option" \<comment> \<open>passphrase, RPC address, pool, user\<close>
  w_asset_ok :: "string \<Rightarrow> string \<Rightarrow> bool"
  w_amount_ok :: "string \<Rightarrow> bool"
  w_assembles :: "BuildArgs \<Rightarrow> bool"
  w_build :: "BuildArgs \<Rightarrow> string option"

definition uncaught :: http_error where
  "uncaught = HttpInternal ''Internal server error''"

definition or_throw :: "'a option \<Rightarrow> http_error \<Rightarrow> http_error + 'a" where
  "or_throw v e = (case v of None \<Rightarrow> Inl e | Some a \<Rightarrow> Inr a)"

definition http_bind :: "http_error + 'a \<Rightarrow> ('a \<Rightarrow> http_error + 'b) \<Rightarrow> http_error + 'b" where
  "http_bind m f = (case m of Inl e \<Rightarrow> Inl e | Inr a \<Rightarrow> f a)"

lemma http_bind_Inr [simp]: "http_bind m f = Inr b \<longleftrightarrow> (\<exists>a. m = Inr a \<and> f a = Inr b)"
  by (cases m) (auto simp: http_bind_def)

lemma http_bind_simps [simp]: "http_bind (Inl e) f = Inl e" "http_bind (Inr a) f = f a"
  by (simp_all add: http_bind_def)

lemma or_throw_Inr [simp]: "or_throw v e = Inr a \<longleftrightarrow> v = Some a"
  by (cases v) (auto simp: or_throw_def)

definition guard_that :: "bool \<Rightarrow> http_error \<Rightarrow> http_error + unit" where
  "guard_that b e = (if b then Inr () else Inl e)"

lemma guard_that_Inr [simp]: "guard_that b e = Inr u \<longleftrightarrow> b"
  by (simp add: guard_that_def)

section \<open>Amounts\<close>

text \<open>The parts \<open>amount.split('.')\<close> gives before and after the first point.\<close>

definition split_point :: "string \<Rightarrow> string \<times> string" where
  "split_point s =
     (takeWhile (\<lambda>c. c \<noteq> CHR ''.'') s, takeWhile (\<lambda>c. c \<noteq> CHR ''.'') (tl (dropWhile (\<lambda>c. c \<noteq> CHR ''.'') s)))"

definition toI128 :: "string \<Rightarrow> nat \<Rightarrow> int option" where
  "toI128 amount decimals =
     (let (intStr, fracStr) = split_point amount; frac = take decimals (padEnd0 decimals fracStr) in
      case (BigInt_of_string intStr, BigInt_of_string frac) of
        (Some i, Some f) \<Rightarrow> Some (i * 10 ^ decimals + f)
      | _ \<Rightarrow> None)"

definition padStart0 :: "nat \<Rightarrow> string \<Rightarrow> string" where
  "padStart0 n s = replicate (n - length s) (CHR ''0'') @ s"

definition fromI128 :: "int \<Rightarrow> nat \<Rightarrow> string" where
  "fromI128 value decimals =
     (let a = \<bar>value\<bar>; base = 10 ^ decimals in
      (if value < 0 then ''-'' else []) @ int_text (a div base) @ ''.'' @ padStart0 decimals (int_text (a mod base)))"

section \<open>Fees and resources\<close>

definition DEFAULT_INCLUSION_FEE_STROOPS :: jsnum where
  "DEFAULT_INCLUSION_FEE_STROOPS = Num 10000"

definition BASE_FEE :: string where
  "BASE_FEE = ''100''"

definition inclusionFeeStroops :: "Env \<Rightarrow> jsnum" where
  "inclusionFeeStroops env =
     (case env_var env ''ACTIONS_INCLUSION_FEE_STROOPS'' of
        None \<Rightarrow> DEFAULT_INCLUSION_FEE_STROOPS
      | Some raw \<Rightarrow>
          (let parsed = parseInt10 raw in
           if isFinite parsed \<and> js_ge parsed (parseInt10 BASE_FEE) then parsed else DEFAULT_INCLUSION_FEE_STROOPS))"

definition RESOURCE_PAD :: jsnum where "RESOURCE_PAD = Num (5/4)"

definition RESOURCE_PAD_BYTES :: jsnum where "RESOURCE_PAD_BYTES = Num 128"

definition RESOURCE_FEE_PAD :: jsnum where "RESOURCE_FEE_PAD = Num (3/2)"

definition padResources :: "SorobanLimits \<Rightarrow> jsnum \<Rightarrow> SorobanLimits \<times> jsnum" where
  "padResources res resourceFee =
     (\<lparr>sl_instructions = Math_ceil (js_mul (sl_instructions res) RESOURCE_PAD),
       sl_diskReadBytes = js_add (Math_ceil (js_mul (sl_diskReadBytes res) RESOURCE_PAD)) RESOURCE_PAD_BYTES,
       sl_writeBytes = js_add (Math_ceil (js_mul (sl_writeBytes res) RESOURCE_PAD)) RESOURCE_PAD_BYTES\<rparr>, resourceFee)"

section \<open>Spendable balance\<close>

definition BASE_RESERVE_XLM :: jsnum where "BASE_RESERVE_XLM = Num (1/2)"

definition XLM_FEE_BUFFER :: jsnum where "XLM_FEE_BUFFER = fl (1/100)"

definition liabilities_of :: "BalanceLine \<Rightarrow> jsnum" where
  "liabilities_of b = parseFloat (case bl_selling_liabilities b of None \<Rightarrow> ''0'' | Some t \<Rightarrow> t)"

definition computeSpendable :: "HorizonAccount \<Rightarrow> ClassicAsset \<Rightarrow> jsnum" where
  "computeSpendable account send =
     (case send of
        NativeAsset \<Rightarrow>
          (case List.find (\<lambda>b. bl_asset_type b = ''native'') (ha_balances account) of
             None \<Rightarrow> Num 0
           | Some native \<Rightarrow>
               (let minBalance = js_mul (js_add (Num 2) (jsint (ha_subentry_count account))) BASE_RESERVE_XLM in
                Math_max (Num 0)
                  (js_sub (js_sub (js_sub (parseFloat (bl_balance native)) minBalance) (liabilities_of native)) XLM_FEE_BUFFER)))
      | IssuedAsset code issuer \<Rightarrow>
          (case List.find (\<lambda>b. bl_asset_code b = Some code \<and> bl_asset_issuer b = Some issuer) (ha_balances account) of
             None \<Rightarrow> Num 0
           | Some line \<Rightarrow> Math_max (Num 0) (js_sub (parseFloat (bl_balance line)) (liabilities_of line))))"

definition assertSpendable :: "HorizonAccount \<Rightarrow> ClassicAsset \<Rightarrow> string \<Rightarrow> string \<Rightarrow> http_error + unit" where
  "assertSpendable account sendAsset requested label =
     (let spendable = computeSpendable account sendAsset in
      if js_gt (parseFloat requested) spendable
      then Inl (HttpBadRequest (''Insufficient spendable '' @ label @ '' balance: '' @ toFixed_num 7 spendable
             @ '' available. The rest is reserved by the Stellar network''))
      else Inr ())"

definition hasTrustlineOnAccount :: "HorizonAccount \<Rightarrow> ClassicAsset \<Rightarrow> bool" where
  "hasTrustlineOnAccount account asset =
     (case asset of
        NativeAsset \<Rightarrow> False
      | IssuedAsset code issuer \<Rightarrow>
          list_ex (\<lambda>b. bl_asset_code b = Some code \<and> bl_asset_issuer b = Some issuer) (ha_balances account))"

section \<open>Assets\<close>

definition isNativeRef :: "AssetRef \<Rightarrow> bool" where
  "isNativeRef r \<longleftrightarrow> ref_code r = ''XLM'' \<or> ref_code r = ''native''"

definition resolveAsset :: "ActionsWorld \<Rightarrow> AssetRef \<Rightarrow> ActionNetwork \<Rightarrow> http_error + ClassicAsset" where
  "resolveAsset w r network =
     (let issuer = (case ref_issuer r of None \<Rightarrow> [] | Some i \<Rightarrow> i) in
      if isNativeRef r then Inr NativeAsset
      else if ref_code r = ''USDC'' \<and> issuer = [] then Inr (vettedUsdcSdex network)
      else if issuer = [] then Inl (HttpUnprocessable (''issuer required for asset '' @ ref_code r))
      else http_bind (guard_that (w_asset_ok w (ref_code r) issuer) uncaught) (\<lambda>_. Inr (IssuedAsset (ref_code r) issuer)))"

section \<open>Simulate and assemble\<close>

record Simulation =
  sm_success :: bool
  sm_resourceFee :: string
  sm_error :: "string option"

record Fee =
  fe_inclusion :: jsnum
  fe_resource :: jsnum
  fe_total :: jsnum

record Assembled =
  as_xdr :: string
  as_simulation :: Simulation
  as_fee :: Fee

definition not_simulated :: "string \<Rightarrow> Assembled" where
  "not_simulated err =
     \<lparr>as_xdr = [], as_simulation = \<lparr>sm_success = False, sm_resourceFee = ''0'', sm_error = Some err\<rparr>,
      as_fee = \<lparr>fe_inclusion = Num 0, fe_resource = Num 0, fe_total = Num 0\<rparr>\<rparr>"

definition submit_tx :: "BlendNetworkConfig \<Rightarrow> string \<Rightarrow> string \<Rightarrow> BuilderOp \<Rightarrow> string \<Rightarrow> (SorobanLimits \<times> jsnum) option \<Rightarrow> BuildArgs" where
  "submit_tx cfg address seq blendOp fee soroban =
     \<lparr>ba_source = address, ba_sequence = seq, ba_fee = fee, ba_passphrase = bc_passphrase cfg, ba_ops = [blendOp],
      ba_timeout = 300, ba_soroban = soroban\<rparr>"

definition simulateAndAssembleSubmit ::
  "ActionsWorld \<Rightarrow> ActionNetwork \<Rightarrow> BlendNetworkConfig \<Rightarrow> string \<Rightarrow> string \<Rightarrow> BuilderOp \<Rightarrow> http_error + Assembled" where
  "simulateAndAssembleSubmit w network cfg address seqBeforeBuild blendOp =
     (let txForSim = submit_tx cfg address seqBeforeBuild blendOp BASE_FEE None in
      http_bind (or_throw (w_build w txForSim) uncaught) (\<lambda>_.
      case w_simulate w network txForSim of
        SimThrows \<Rightarrow> Inl uncaught
      | SimError e \<Rightarrow> Inr (not_simulated e)
      | SimRestore \<Rightarrow> Inr (not_simulated ''contract entry requires footprint restore'')
      | SimSuccess minResource limits \<Rightarrow>
          (let inclusionFee = inclusionFeeStroops (w_env w);
               paddedResourceFee = Math_ceil (js_mul (parseInt10 minResource) RESOURCE_FEE_PAD);
               totalFee = js_add inclusionFee paddedResourceFee;
               txForSubmit = submit_tx cfg address seqBeforeBuild blendOp (num_text totalFee) None;
               finalTx = submit_tx cfg address seqBeforeBuild blendOp (num_text inclusionFee)
                           (Some (padResources limits paddedResourceFee)) in
           http_bind (or_throw (w_build w txForSubmit) uncaught) (\<lambda>_.
           http_bind (guard_that (w_assembles w txForSubmit) uncaught) (\<lambda>_.
           http_bind (or_throw (w_build w finalTx) uncaught) (\<lambda>xdr.
             Inr \<lparr>as_xdr = xdr,
                  as_simulation = \<lparr>sm_success = True, sm_resourceFee = minResource, sm_error = None\<rparr>,
                  as_fee = \<lparr>fe_inclusion = inclusionFee, fe_resource = paddedResourceFee, fe_total = totalFee\<rparr>\<rparr>))))))"

section \<open>Blend deposit and withdraw\<close>

record BlendParams =
  bp_address :: string
  bp_asset :: BlendAssetCode
  bp_amount :: string
  bp_network :: ActionNetwork
  bp_poolSlug :: "string option"

record BlendResult =
  br_xdr :: string
  br_changetrustXdr :: "string option"
  br_trustlineRequired :: "bool option"
  br_operations :: "string list"
  br_simulation :: Simulation
  br_fee :: Fee

definition account_missing :: "string \<Rightarrow> ActionNetwork \<Rightarrow> http_error" where
  "account_missing address network =
     HttpInternal (''Account '' @ take 8 address @ ''... not found on '' @ network_name network)"

definition SupplyCollateral :: int where "SupplyCollateral = 2"

definition WithdrawCollateral :: int where "WithdrawCollateral = 3"

definition blend_op :: "BlendNetworkConfig \<Rightarrow> int \<Rightarrow> string \<Rightarrow> BlendAssetCode \<Rightarrow> int \<Rightarrow> BuilderOp" where
  "blend_op cfg request_type address asset scaledAmount =
     BuildSubmit (bc_poolId cfg)
       \<lparr>sa_from = address, sa_spender = address, sa_to = address,
        sa_requests = [(request_type, bc_sac cfg asset, scaledAmount)]\<rparr>"

text \<open>The first steps of both builders: the pool, its reserve, the scaled amount, the account.\<close>

definition blend_start ::
  "ActionsWorld \<Rightarrow> BlendParams \<Rightarrow> http_error + (BlendNetworkConfig \<times> int \<times> string)" where
  "blend_start w p =
     http_bind (resolveBlendPool (w_env w) (w_public w) (bp_network p) (bp_poolSlug p)) (\<lambda>cfg.
     http_bind (assertPoolSupportsAsset cfg (bp_asset p)) (\<lambda>_.
     http_bind (or_throw (toI128 (bp_amount p) (ASSET_DECIMALS (bp_asset p))) uncaught) (\<lambda>scaledAmount.
     http_bind (or_throw (w_getAccount w (bp_network p) (bp_address p)) (account_missing (bp_address p) (bp_network p))) (\<lambda>seq.
       Inr (cfg, scaledAmount, seq)))))"

definition trustline_step :: "ActionsWorld \<Rightarrow> BlendNetworkConfig \<Rightarrow> string \<Rightarrow> string \<Rightarrow> http_error + BlendResult" where
  "trustline_step w cfg address seq =
     (let inclusionFee = inclusionFeeStroops (w_env w);
          ctTx = \<lparr>ba_source = address, ba_sequence = seq, ba_fee = num_text inclusionFee,
                  ba_passphrase = bc_passphrase cfg, ba_ops = [BuildChangeTrust (bc_usdcClassic cfg)],
                  ba_timeout = 300, ba_soroban = None\<rparr> in
      http_bind (or_throw (w_build w ctTx) uncaught) (\<lambda>ct.
        Inr \<lparr>br_xdr = [], br_changetrustXdr = Some ct, br_trustlineRequired = Some True,
             br_operations = [''change_trust:USDC''],
             br_simulation = \<lparr>sm_success = False, sm_resourceFee = ''0'',
               sm_error = Some ''USDC trustline required before deposit''\<rparr>,
             br_fee = \<lparr>fe_inclusion = inclusionFee, fe_resource = Num 0, fe_total = inclusionFee\<rparr>\<rparr>))"

definition needs_trustline :: "BlendNetworkConfig \<Rightarrow> BlendAssetCode \<Rightarrow> HorizonAccount option \<Rightarrow> bool" where
  "needs_trustline cfg asset horizonAccount \<longleftrightarrow>
     asset = USDC \<and> (case horizonAccount of None \<Rightarrow> True | Some a \<Rightarrow> \<not> hasTrustlineOnAccount a (bc_usdcClassic cfg))"

definition buildBlendDeposit :: "ActionsWorld \<Rightarrow> BlendParams \<Rightarrow> http_error + BlendResult" where
  "buildBlendDeposit w p =
     http_bind (blend_start w p) (\<lambda>(cfg, scaledAmount, seqBeforeBuild).
       let asset = bp_asset p; address = bp_address p;
           horizonAccount = w_loadAccount w (bp_network p) address in
       if needs_trustline cfg asset horizonAccount then trustline_step w cfg address seqBeforeBuild
       else
         http_bind (case horizonAccount of
             None \<Rightarrow> Inr ()
           | Some a \<Rightarrow> assertSpendable a (case asset of XLM \<Rightarrow> NativeAsset | USDC \<Rightarrow> bc_usdcClassic cfg)
                        (bp_amount p) (asset_name asset)) (\<lambda>_.
         http_bind (simulateAndAssembleSubmit w (bp_network p) cfg address seqBeforeBuild
                      (blend_op cfg SupplyCollateral address asset scaledAmount)) (\<lambda>built.
           Inr (if as_xdr built = []
                then \<lparr>br_xdr = [], br_changetrustXdr = None, br_trustlineRequired = None, br_operations = [],
                      br_simulation = as_simulation built, br_fee = as_fee built\<rparr>
                else \<lparr>br_xdr = as_xdr built, br_changetrustXdr = None, br_trustlineRequired = Some False,
                      br_operations = [''blend_supply_collateral:'' @ asset_name asset],
                      br_simulation = as_simulation built, br_fee = as_fee built\<rparr>))))"

definition buildBlendWithdraw :: "ActionsWorld \<Rightarrow> BlendParams \<Rightarrow> http_error + BlendResult" where
  "buildBlendWithdraw w p =
     http_bind (blend_start w p) (\<lambda>(cfg, scaledAmount, seqBeforeBuild).
     http_bind (simulateAndAssembleSubmit w (bp_network p) cfg (bp_address p) seqBeforeBuild
                  (blend_op cfg WithdrawCollateral (bp_address p) (bp_asset p) scaledAmount)) (\<lambda>built.
       Inr \<lparr>br_xdr = as_xdr built, br_changetrustXdr = None, br_trustlineRequired = None,
            br_operations = (if as_xdr built = [] then [] else [''blend_withdraw_collateral:'' @ asset_name (bp_asset p)]),
            br_simulation = as_simulation built, br_fee = as_fee built\<rparr>))"

section \<open>The live position\<close>

record BlendAssetPosition =
  ps_sac :: string
  ps_collateral :: string
  ps_supply :: string
  ps_liabilities :: string
  ps_decimals :: nat

record BlendPositionResult =
  po_poolId :: string
  po_poolSlug :: string
  po_poolLabel :: string
  po_assets :: "BlendAssetCode list"
  po_network :: ActionNetwork
  po_poolStatus :: BlendPoolStatus
  po_positions :: "BlendAssetCode \<Rightarrow> BlendAssetPosition"

definition position_of :: "BlendNetworkConfig \<Rightarrow> PoolView \<Rightarrow> BlendAssetCode \<Rightarrow> BlendAssetPosition" where
  "position_of cfg pool code =
     (let sac = bc_sac cfg code in
      case pv_reserves pool sac of
        None \<Rightarrow> \<lparr>ps_sac = sac, ps_collateral = ''0'', ps_supply = ''0'', ps_liabilities = ''0'', ps_decimals = ASSET_DECIMALS code\<rparr>
      | Some r \<Rightarrow>
          \<lparr>ps_sac = sac, ps_collateral = fromI128 (rv_collateral r) (rv_decimals r),
           ps_supply = fromI128 (rv_supply r) (rv_decimals r),
           ps_liabilities = fromI128 (rv_liabilities r) (rv_decimals r), ps_decimals = rv_decimals r\<rparr>)"

definition getBlendPosition ::
  "ActionsWorld \<Rightarrow> string \<Rightarrow> ActionNetwork \<Rightarrow> string option \<Rightarrow> http_error + BlendPositionResult" where
  "getBlendPosition w address network poolSlug =
     http_bind (resolveBlendPool (w_env w) (w_public w) network poolSlug) (\<lambda>cfg.
     http_bind (or_throw (w_pool w (bc_passphrase cfg) (bc_rpcUrl cfg) (bc_poolId cfg) address)
         (HttpInternal (''Could not read the Blend position for '' @ take 8 address @ ''... on '' @ network_name network))) (\<lambda>pool.
       Inr \<lparr>po_poolId = bc_poolId cfg, po_poolSlug = bc_poolSlug cfg, po_poolLabel = bc_poolLabel cfg,
            po_assets = bc_assets cfg, po_network = network, po_poolStatus = derivePoolStatus (pv_status pool),
            po_positions = position_of cfg pool\<rparr>))"

section \<open>DEX swap\<close>

record SdexQuote =
  sq_sourceAmount :: string
  sq_destAmount :: string
  sq_rate :: jsnum

definition better_route :: "PathRecord \<Rightarrow> PathRecord \<Rightarrow> PathRecord" where
  "better_route a b =
     (if js_gt (parseFloat (pr_destination_amount b)) (parseFloat (pr_destination_amount a)) then b else a)"

definition quoteSdexSwap ::
  "ActionsWorld \<Rightarrow> AssetRef \<Rightarrow> AssetRef \<Rightarrow> string \<Rightarrow> ActionNetwork \<Rightarrow> http_error + SdexQuote" where
  "quoteSdexSwap w fromAsset toAsset amount network =
     http_bind (resolveAsset w fromAsset network) (\<lambda>sendAsset.
     http_bind (resolveAsset w toAsset network) (\<lambda>destAsset.
     http_bind (or_throw (w_strictSendPaths w network sendAsset amount destAsset)
         (HttpInternal ''Failed to fetch swap quote from Horizon'')) (\<lambda>records.
       case filter (\<lambda>r. pr_hops r = 0) records of
         [] \<Rightarrow> Inl (HttpUnprocessable (''No direct liquidity for '' @ ref_code fromAsset @ arrow_sign @ ref_code toAsset
                  @ '' at this amount on '' @ network_name network))
       | r # rs \<Rightarrow>
           (let best = foldl better_route r rs in
            Inr \<lparr>sq_sourceAmount = amount, sq_destAmount = pr_destination_amount best,
                 sq_rate = js_div (parseFloat (pr_destination_amount best)) (parseFloat amount)\<rparr>))))"

record SdexSwapParams =
  ss_address :: string
  ss_fromAsset :: AssetRef
  ss_toAsset :: AssetRef
  ss_amount :: string
  ss_minReceive :: string
  ss_network :: ActionNetwork

record SdexSwapResult =
  sx_xdr :: string
  sx_operations :: "string list"
  sx_inclusion :: jsnum
  sx_total :: jsnum

definition swap_payment :: "SdexSwapParams \<Rightarrow> ClassicAsset \<Rightarrow> ClassicAsset \<Rightarrow> PathPaymentArgs" where
  "swap_payment p sendAsset destAsset =
     \<lparr>pp_sendAsset = sendAsset, pp_sendAmount = ss_amount p, pp_destination = ss_address p, pp_destAsset = destAsset,
      pp_destMin = ss_minReceive p, pp_path = []\<rparr>"

definition swap_needs_trustline :: "AssetRef \<Rightarrow> ClassicAsset \<Rightarrow> HorizonAccount option \<Rightarrow> bool" where
  "swap_needs_trustline toAsset destAsset horizonAccount \<longleftrightarrow>
     \<not> isNativeRef toAsset
     \<and> (case horizonAccount of None \<Rightarrow> True | Some a \<Rightarrow> \<not> hasTrustlineOnAccount a destAsset)"

definition swap_tx :: "ActionsWorld \<Rightarrow> SdexSwapParams \<Rightarrow> string \<Rightarrow> BuilderOp list \<Rightarrow> BuildArgs" where
  "swap_tx w p seq ops =
     \<lparr>ba_source = ss_address p, ba_sequence = seq, ba_fee = num_text (inclusionFeeStroops (w_env w)),
      ba_passphrase = nc_passphrase (getNetworkConfig (w_env w) (w_public w) (ss_network p)),
      ba_ops = ops, ba_timeout = 300, ba_soroban = None\<rparr>"

definition buildSdexSwap :: "ActionsWorld \<Rightarrow> SdexSwapParams \<Rightarrow> http_error + SdexSwapResult" where
  "buildSdexSwap w p =
     http_bind (resolveAsset w (ss_fromAsset p) (ss_network p)) (\<lambda>sendAsset.
     http_bind (resolveAsset w (ss_toAsset p) (ss_network p)) (\<lambda>destAsset.
     http_bind (or_throw (w_getAccount w (ss_network p) (ss_address p)) (account_missing (ss_address p) (ss_network p))) (\<lambda>seq.
       let horizonAccount = w_loadAccount w (ss_network p) (ss_address p);
           fromLabel = ref_code (ss_fromAsset p); toLabel = ref_code (ss_toAsset p) in
     http_bind (case horizonAccount of None \<Rightarrow> Inr () | Some a \<Rightarrow> assertSpendable a sendAsset (ss_amount p) fromLabel) (\<lambda>_.
       let needsTrustline = swap_needs_trustline (ss_toAsset p) destAsset horizonAccount;
           inclusionPerOp = inclusionFeeStroops (w_env w);
           payment = swap_payment p sendAsset destAsset;
           ops = (if needsTrustline then [BuildChangeTrust destAsset] else []) @ [BuildPathPayment payment];
           operations = (if needsTrustline then [''change_trust:'' @ toLabel] else [])
             @ [''path_payment_strict_send:'' @ fromLabel @ arrow_sign @ toLabel] in
     http_bind (guard_that (w_amount_ok w (ss_amount p) \<and> w_amount_ok w (ss_minReceive p)) uncaught) (\<lambda>_.
     http_bind (or_throw (w_build w (swap_tx w p seq ops)) uncaught) (\<lambda>xdr.
       Inr \<lparr>sx_xdr = xdr, sx_operations = operations, sx_inclusion = inclusionPerOp,
            sx_total = js_mul inclusionPerOp (jsint (int (length operations)))\<rparr>))))))"

end
