(* ===== verification/Actions_Controller.thy ===== *)
theory Actions_Controller
  imports Actions_Service Request_Validation
begin

text \<open>
  \<open>apps/api/src/modules/actions/actions.controller.ts\<close>: the launch controls, the asset and amount
  guards and the adoption events of the five action endpoints. A body's text field is a text or absent
  (\<open>None\<close>); its network and address are arbitrary JSON. An endpoint returns its answer with the event
  it records, or the HTTP error it throws (which records nothing).
\<close>

section \<open>Requests and events\<close>

datatype AssetField = FieldText string | FieldRef "string option" "string option" | FieldMalformed

record BlendBody =
  bb_address :: jsval
  bb_asset :: "string option"
  bb_amount :: "string option"
  bb_network :: jsval
  bb_pool :: "string option"

record SdexBody =
  xb_address :: jsval
  xb_fromAsset :: AssetField
  xb_toAsset :: AssetField
  xb_amount :: "string option"
  xb_minReceive :: "string option"
  xb_network :: jsval

record ActionEvent =
  ae_kind :: string
  ae_network :: ActionNetwork
  ae_address :: "string option"
  ae_metadata :: "(string \<times> string) list"

section \<open>Guards\<close>

definition MAINNET_ALLOWED_CODES :: string where
  "MAINNET_ALLOWED_CODES = join_with '', '' (''XLM'' # map fst MAINNET_ASSET_WHITELIST)"

definition ascii_alnum :: "char \<Rightarrow> bool" where
  "ascii_alnum c \<longleftrightarrow>
     (let n = (of_char c :: nat) in (48 \<le> n \<and> n \<le> 57) \<or> (65 \<le> n \<and> n \<le> 90) \<or> (97 \<le> n \<and> n \<le> 122))"

definition ASSET_CODE_RE :: "string \<Rightarrow> bool" where
  "ASSET_CODE_RE s \<longleftrightarrow> 1 \<le> length s \<and> length s \<le> 12 \<and> list_all ascii_alnum s"

definition quoted :: "string \<Rightarrow> string" where
  "quoted s = CHR 0x22 # s @ [CHR 0x22]"

definition normalizeAssetField :: "AssetField \<Rightarrow> string \<Rightarrow> http_error + AssetRef" where
  "normalizeAssetField fld label =
     (case fld of
        FieldText s \<Rightarrow>
          if s = ''XLM'' \<or> s = ''USDC'' then Inr \<lparr>ref_code = s, ref_issuer = None\<rparr>
          else Inl (HttpBadRequest (label @ '': unknown asset '' @ quoted s))
      | FieldRef (Some code) issuer \<Rightarrow>
          if code = ''XLM'' \<or> code = ''native'' then Inr \<lparr>ref_code = ''XLM'', ref_issuer = None\<rparr>
          else if \<not> ASSET_CODE_RE code then Inl (HttpBadRequest (label @ '': invalid asset code '' @ quoted code))
          else (case issuer of
                  Some i \<Rightarrow> if STELLAR_PUBKEY_RE i then Inr \<lparr>ref_code = code, ref_issuer = Some i\<rparr>
                            else Inl (HttpBadRequest (label @ '': a valid Stellar issuer is required for '' @ code))
                | None \<Rightarrow> Inl (HttpBadRequest (label @ '': a valid Stellar issuer is required for '' @ code)))
      | _ \<Rightarrow> Inl (HttpBadRequest (label @ '' must be '' @ quoted ''XLM'' @ ''/'' @ quoted ''USDC'' @ '' or { code, issuer }'')))"

definition assetKey :: "AssetRef \<Rightarrow> string" where
  "assetKey r = (case ref_issuer r of None \<Rightarrow> ref_code r | Some i \<Rightarrow> if i = [] then ref_code r else ref_code r @ '':'' @ i)"

definition sameAsset :: "AssetRef \<Rightarrow> AssetRef \<Rightarrow> bool" where
  "sameAsset a b \<longleftrightarrow>
     (let na = isNativeRef a; nb = isNativeRef b in
      if na \<or> nb then na \<and> nb else ref_code a = ref_code b \<and> ref_issuer a = ref_issuer b)"

text \<open>\<open>String(value)\<close> of a JSON value.\<close>

fun jsval_text :: "jsval \<Rightarrow> string" where
  "jsval_text JUndefined = ''undefined''"
| "jsval_text JNull = ''null''"
| "jsval_text (JBool b) = (if b then ''true'' else ''false'')"
| "jsval_text (JNumber n) = num_text n"
| "jsval_text (JString s) = s"
| "jsval_text (JArray vs) = join_comma (map (\<lambda>v. if v = JUndefined \<or> v = JNull then [] else jsval_text v) vs)"
| "jsval_text (JObject fs) = ''[object Object]''"

text \<open>Both resolvers differ in the flag that opens the main network and in the message.\<close>

definition resolve_network :: "bool \<Rightarrow> string \<Rightarrow> jsval \<Rightarrow> http_error + ActionNetwork" where
  "resolve_network enabled refusal network =
     (if is_nullish network \<or> network = JString ''testnet'' then Inr Testnet
      else if network = JString ''mainnet'' then (if \<not> enabled then Inl (HttpForbidden refusal) else Inr Mainnet)
      else Inl (HttpBadRequest (''unknown network '' @ quoted (jsval_text network))))"

definition resolveSwapNetwork :: "Env \<Rightarrow> jsval \<Rightarrow> http_error + ActionNetwork" where
  "resolveSwapNetwork env = resolve_network (isMainnetEnabled env) ''Mainnet actions are not enabled.''"

definition resolveBlendNetwork :: "Env \<Rightarrow> jsval \<Rightarrow> http_error + ActionNetwork" where
  "resolveBlendNetwork env = resolve_network (isMainnetBlendEnabled env) ''Mainnet Blend deposits are not enabled.''"

definition assertMainnetAsset :: "ActionNetwork \<Rightarrow> AssetRef \<Rightarrow> string \<Rightarrow> http_error + unit" where
  "assertMainnetAsset network r label =
     (if network \<noteq> Mainnet then Inr ()
      else guard_that (isWhitelistedMainnetAsset r)
        (HttpBadRequest (label @ '': asset '' @ assetKey r @ '' is not on the mainnet whitelist ('' @ MAINNET_ALLOWED_CODES @ '')'')))"

definition ellipsis_sign :: string where
  "ellipsis_sign = [CHR 0xE2, CHR 0x80, CHR 0xA6]"

definition require_address :: "jsval \<Rightarrow> http_error + string" where
  "require_address v = map_sum (\<lambda>_. HttpBadRequest (''address must be a Stellar public key (G'' @ ellipsis_sign @ '')'')) id (requireAddress v ''address'')"

text \<open>A positive numeric text: the text and its value.\<close>

definition positive_amount :: "string option \<Rightarrow> string \<Rightarrow> http_error + (string \<times> jsnum)" where
  "positive_amount amount label =
     (case amount of
        None \<Rightarrow> Inl (HttpBadRequest (label @ '' must be a positive numeric string''))
      | Some t \<Rightarrow>
          (let parsed = parseFloat t in
           if t = [] \<or> parsed = NaN \<or> js_le parsed (Num 0)
           then Inl (HttpBadRequest (label @ '' must be a positive numeric string'')) else Inr (t, parsed)))"

definition assert_cap :: "Env \<Rightarrow> ActionNetwork \<Rightarrow> jsnum \<Rightarrow> string \<Rightarrow> http_error + unit" where
  "assert_cap env network parsedAmount label =
     (if network \<noteq> Mainnet then Inr ()
      else let cap = mainnetMaxSendXlm env in
        guard_that (\<not> js_gt parsedAmount cap)
          (HttpBadRequest (''amount exceeds the mainnet per-transaction cap of '' @ num_text cap @ '' '' @ label)))"

definition blend_asset :: "string option \<Rightarrow> http_error + BlendAssetCode" where
  "blend_asset v =
     (if v = Some ''USDC'' then Inr USDC else if v = Some ''XLM'' then Inr XLM
      else Inl (HttpBadRequest ''asset must be USDC or XLM''))"

section \<open>Blend endpoints\<close>

definition blend_params :: "string \<Rightarrow> BlendAssetCode \<Rightarrow> string \<Rightarrow> ActionNetwork \<Rightarrow> string option \<Rightarrow> BlendParams" where
  "blend_params address asset amount network pool =
     \<lparr>bp_address = address, bp_asset = asset, bp_amount = amount, bp_network = network, bp_poolSlug = pool\<rparr>"

definition blend_meta :: "string \<Rightarrow> BlendParams \<Rightarrow> (string \<times> string) list" where
  "blend_meta slug p =
     [(''venue'', ''blend''), (''pool'', slug), (''asset'', asset_name (bp_asset p)), (''amount'', bp_amount p)]"

definition blend_event :: "string \<Rightarrow> BlendParams \<Rightarrow> (string \<times> string) list \<Rightarrow> ActionEvent" where
  "blend_event kind p meta =
     \<lparr>ae_kind = kind, ae_network = bp_network p, ae_address = Some (bp_address p), ae_metadata = meta\<rparr>"

definition pool_slug :: "ActionsWorld \<Rightarrow> BlendParams \<Rightarrow> http_error + string" where
  "pool_slug w p = map_sum id bc_poolSlug (resolveBlendPool (w_env w) (w_public w) (bp_network p) (bp_poolSlug p))"

definition blendDeposit :: "ActionsWorld \<Rightarrow> BlendBody \<Rightarrow> http_error + (BlendResult \<times> ActionEvent list)" where
  "blendDeposit w body =
     http_bind (resolveBlendNetwork (w_env w) (bb_network body)) (\<lambda>network.
     http_bind (require_address (bb_address body)) (\<lambda>address.
     http_bind (blend_asset (bb_asset body)) (\<lambda>asset.
     http_bind (positive_amount (bb_amount body) ''amount'') (\<lambda>(amount, parsed).
     http_bind (assert_cap (w_env w) network parsed (asset_name asset)) (\<lambda>_.
       let p = blend_params address asset amount network (bb_pool body) in
     http_bind (buildBlendDeposit w p) (\<lambda>result.
     http_bind (pool_slug w p) (\<lambda>slug.
       Inr (result,
         if br_trustlineRequired result = Some True
         then [blend_event ''trustline-build'' p (blend_meta slug p @ [(''step'', ''trustline'')])]
         else if br_xdr result \<noteq> [] then [blend_event ''blend-deposit-build'' p (blend_meta slug p)]
         else []))))))))"

definition blendWithdraw :: "ActionsWorld \<Rightarrow> BlendBody \<Rightarrow> http_error + (BlendResult \<times> ActionEvent list)" where
  "blendWithdraw w body =
     http_bind (resolveBlendNetwork (w_env w) (bb_network body)) (\<lambda>network.
     http_bind (require_address (bb_address body)) (\<lambda>address.
     http_bind (blend_asset (bb_asset body)) (\<lambda>asset.
     http_bind (positive_amount (bb_amount body) ''amount'') (\<lambda>(amount, parsed).
       let p = blend_params address asset amount network (bb_pool body) in
     http_bind (buildBlendWithdraw w p) (\<lambda>result.
       if br_xdr result = [] then Inr (result, [])
       else http_bind (pool_slug w p) (\<lambda>slug. Inr (result, [blend_event ''blend-withdraw-build'' p (blend_meta slug p)])))))))"

definition blendPosition :: "ActionsWorld \<Rightarrow> BlendBody \<Rightarrow> http_error + BlendPositionResult" where
  "blendPosition w body =
     http_bind (resolveBlendNetwork (w_env w) (bb_network body)) (\<lambda>network.
     http_bind (require_address (bb_address body)) (\<lambda>address.
       getBlendPosition w address network (bb_pool body)))"

section \<open>DEX endpoints\<close>

text \<open>The two assets of a request, normalised, vetted and distinct.\<close>

definition swap_pair :: "ActionNetwork \<Rightarrow> SdexBody \<Rightarrow> http_error + (AssetRef \<times> AssetRef)" where
  "swap_pair network body =
     http_bind (normalizeAssetField (xb_fromAsset body) ''fromAsset'') (\<lambda>frm.
     http_bind (normalizeAssetField (xb_toAsset body) ''toAsset'') (\<lambda>to.
     http_bind (assertMainnetAsset network frm ''fromAsset'') (\<lambda>_.
     http_bind (assertMainnetAsset network to ''toAsset'') (\<lambda>_.
     http_bind (guard_that (\<not> sameAsset frm to) (HttpBadRequest ''fromAsset and toAsset must differ'')) (\<lambda>_.
       Inr (frm, to))))))"

definition sdexQuote :: "ActionsWorld \<Rightarrow> SdexBody \<Rightarrow> http_error + (SdexQuote \<times> ActionEvent list)" where
  "sdexQuote w body =
     http_bind (resolveSwapNetwork (w_env w) (xb_network body)) (\<lambda>network.
     http_bind (swap_pair network body) (\<lambda>(frm, to).
     http_bind (positive_amount (xb_amount body) ''amount'') (\<lambda>(amount, parsed).
     http_bind (quoteSdexSwap w frm to amount network) (\<lambda>result.
       Inr (result,
         [\<lparr>ae_kind = ''sdex-quote'', ae_network = network, ae_address = None,
           ae_metadata = [(''venue'', ''sdex''), (''from'', assetKey frm), (''to'', assetKey to), (''amount'', amount)]\<rparr>])))))"

definition sdexSwap :: "ActionsWorld \<Rightarrow> SdexBody \<Rightarrow> http_error + (SdexSwapResult \<times> ActionEvent list)" where
  "sdexSwap w body =
     http_bind (resolveSwapNetwork (w_env w) (xb_network body)) (\<lambda>network.
     http_bind (require_address (xb_address body)) (\<lambda>address.
     http_bind (swap_pair network body) (\<lambda>(frm, to).
     http_bind (positive_amount (xb_amount body) ''amount'') (\<lambda>(amount, parsed).
     http_bind (assert_cap (w_env w) network parsed (ref_code frm)) (\<lambda>_.
     http_bind (positive_amount (xb_minReceive body) ''minReceive'') (\<lambda>(minReceive, parsedMin).
     http_bind (buildSdexSwap w \<lparr>ss_address = address, ss_fromAsset = frm, ss_toAsset = to, ss_amount = amount,
                                ss_minReceive = minReceive, ss_network = network\<rparr>) (\<lambda>result.
       Inr (result,
         [\<lparr>ae_kind = ''sdex-swap-build'', ae_network = network, ae_address = Some address,
           ae_metadata = [(''venue'', ''sdex''), (''from'', assetKey frm), (''to'', assetKey to), (''amount'', amount),
                          (''minReceive'', minReceive)]\<rparr>]))))))))"

end
