(* ===== verification/Client_Intents.thy ===== *)
theory Client_Intents
  imports Submit_Gate Network_Registry Actions_Controller
begin

text \<open>
  How the web client turns what the user chose into the intents the signing gates check and into the
  bodies it sends: \<open>apps/web/src/composables/useNetwork.ts\<close>, \<open>config/testnetSwapPairs.ts\<close>,
  \<open>config/mainnetSwapPairs.ts\<close>, and the intents built in \<open>components/SdexSwapWidget.vue\<close> and
  \<open>components/BlendDepositCard.vue\<close>. Build-time flags, the passphrases of the wallet kit and the SDK
  are the record \<open>Client\<close>.
\<close>

record Client =
  cl_sdk :: Sdk
  cl_WalletNetwork_TESTNET :: string
  cl_WalletNetwork_PUBLIC :: string
  cl_blend_flag :: "string option" \<comment> \<open>VITE_ACTIONS_MAINNET_BLEND_ENABLED\<close>
  cl_swap_flag :: "string option" \<comment> \<open>VITE_ACTIONS_MAINNET_ENABLED\<close>

definition toWalletNetwork :: "Client \<Rightarrow> ActionNetwork \<Rightarrow> string" where
  "toWalletNetwork cl net = (if net = Testnet then cl_WalletNetwork_TESTNET cl else cl_WalletNetwork_PUBLIC cl)"

definition MAINNET_BLEND_ENABLED :: "Client \<Rightarrow> bool" where
  "MAINNET_BLEND_ENABLED cl \<longleftrightarrow> cl_blend_flag cl = Some ''true''"

definition MAINNET_SWAP_ENABLED :: "Client \<Rightarrow> bool" where
  "MAINNET_SWAP_ENABLED cl \<longleftrightarrow> cl_swap_flag cl = Some ''true''"

section \<open>Swap assets\<close>

text \<open>A target of the vetted pairs: its code and issuer. The asset sold is native XLM in every pair.\<close>

definition TESTNET_SWAP_PAIRS :: "(string \<times> string) list" where
  "TESTNET_SWAP_PAIRS =
     [(''USDC'', ''GBBD47IF6LWK7P7MDEVSCWR7DPUWV3NY3DTQEVFL4NAT4AQH3ZLLFLA5''),
      (''yXLM'', ''GC63WRH6PATVVKZPVJIBSEZ7E5Q4DIRI7LG22YD5MVR4RBFTBS7EZBRN''),
      (''AQUA'', ''GC63WRH6PATVVKZPVJIBSEZ7E5Q4DIRI7LG22YD5MVR4RBFTBS7EZBRN'')]"

definition MAINNET_SWAP_PAIRS :: "(string \<times> string) list" where
  "MAINNET_SWAP_PAIRS =
     [(''USDC'', ''GA5ZSEJYB37JRC5AVCIA5MOP4RHTM335X2KGX3IHOJAPP5RE34K4KZVN''),
      (''EURC'', ''GDHU6WRG4IEQXM5NZ4BMPKOXHW76MZM4Y2IEMFDVXBSDP6SJY4ITNPP2''),
      (''AQUA'', ''GBNZILSTVQZ4R7IKQDGHYGY2QXL5QOFJYQMXPKWRRM5PAV7Y4M67AQUA''),
      (''yXLM'', ''GARDNV3Q7YGT4AKSDF25LT32YSCCW4EV22Y2TV3I2PU2MMXJTEDL5T55''),
      (''PYUSD'', ''GDQE7IXJ4HUHV6RQHIUPRJSEZE4DRS5WY577O2FY6YQ5LVWZ7JZTU2V5'')]"

record SwapAsset =
  sw_code :: string
  sw_issuer :: "string option"

definition swapAssetKey :: "SwapAsset \<Rightarrow> string" where
  "swapAssetKey a =
     (if sw_code a = ''XLM'' then ''XLM''
      else sw_code a @ '':'' @ (case sw_issuer a of None \<Rightarrow> ''undefined'' | Some i \<Rightarrow> i))"

text \<open>The loop that keeps the distinct targets, with the keys it has seen.\<close>

fun distinct_targets :: "string list \<Rightarrow> (string \<times> string) list \<Rightarrow> SwapAsset list" where
  "distinct_targets seen [] = []"
| "distinct_targets seen ((code, issuer) # ps) =
     (let key = code @ '':'' @ issuer in
      if key \<in> set seen then distinct_targets seen ps
      else \<lparr>sw_code = code, sw_issuer = Some issuer\<rparr> # distinct_targets (key # seen) ps)"

definition swap_assets_of :: "(string \<times> string) list \<Rightarrow> SwapAsset list" where
  "swap_assets_of pairs = \<lparr>sw_code = ''XLM'', sw_issuer = None\<rparr> # distinct_targets [''XLM''] pairs"

definition assetsFor :: "ActionNetwork \<Rightarrow> SwapAsset list" where
  "assetsFor net = swap_assets_of (if net = Mainnet then MAINNET_SWAP_PAIRS else TESTNET_SWAP_PAIRS)"

definition toApiRef :: "SwapAsset \<Rightarrow> AssetField" where
  "toApiRef a = (if sw_code a = ''XLM'' then FieldRef (Some ''XLM'') None else FieldRef (Some (sw_code a)) (sw_issuer a))"

definition toAssetId :: "SwapAsset \<Rightarrow> AssetId" where
  "toAssetId a =
     (if sw_code a = ''XLM'' then IdNative
      else IdCredit (sw_code a) (case sw_issuer a of None \<Rightarrow> [] | Some i \<Rightarrow> i))"

text \<open>The body and the intent of one swap.\<close>

definition swap_body :: "string \<Rightarrow> SwapAsset \<Rightarrow> SwapAsset \<Rightarrow> string \<Rightarrow> string \<Rightarrow> ActionNetwork \<Rightarrow> SdexBody" where
  "swap_body address frm to amount minReceive network =
     \<lparr>xb_address = JString address, xb_fromAsset = toApiRef frm, xb_toAsset = toApiRef to, xb_amount = Some amount,
      xb_minReceive = Some minReceive, xb_network = JString (network_name network)\<rparr>"

definition swap_intent :: "string \<Rightarrow> SwapAsset \<Rightarrow> SwapAsset \<Rightarrow> string \<Rightarrow> string \<Rightarrow> string \<Rightarrow> SwapIntent" where
  "swap_intent address frm to amount minReceive passphrase =
     (let destId = toAssetId to in
      \<lparr>s_sourceAccount = address, s_sendAsset = toAssetId frm, s_sendAmount = amount, s_destAsset = destId,
       s_destMin = minReceive, s_networkPassphrase = passphrase,
       allowTrustlineFor = (if destId = IdNative then None else Some destId)\<rparr>)"

section \<open>Blend\<close>

definition blend_body :: "string \<Rightarrow> BlendAssetCode \<Rightarrow> string \<Rightarrow> ActionNetwork \<Rightarrow> string \<Rightarrow> BlendBody" where
  "blend_body address asset amount network slug =
     \<lparr>bb_address = JString address, bb_asset = Some (asset_name asset), bb_amount = Some amount,
      bb_network = JString (network_name network), bb_pool = Some slug\<rparr>"

definition selected_asset :: "BlendPoolConfig \<Rightarrow> BlendAssetCode \<Rightarrow> (BlendAssetCode \<times> string \<times> nat) option" where
  "selected_asset cfg asset = List.find (\<lambda>a. fst a = asset) (wp_assets cfg)"

text \<open>The pool config, or the refusal a path that must never run unvetted throws.\<close>

definition requirePool :: "BlendPoolConfig option \<Rightarrow> string + BlendPoolConfig" where
  "requirePool config =
     (case config of None \<Rightarrow> Inl ''Refused: this pool is not in the vetted registry.'' | Some cfg \<Rightarrow> Inr cfg)"

text \<open>An address that is there: neither absent nor empty.\<close>

definition present :: "string option \<Rightarrow> string option" where
  "present v = (case v of None \<Rightarrow> None | Some a \<Rightarrow> if a = [] then None else Some a)"

definition blendIntent ::
  "BlendPoolConfig option \<Rightarrow> BlendAssetCode \<Rightarrow> string option \<Rightarrow> string \<Rightarrow> string \<Rightarrow> string + BlendSubmitIntent" where
  "blendIntent config asset conn amount passphrase =
     (case requirePool config of
        Inl m \<Rightarrow> Inl m
      | Inr cfg \<Rightarrow>
          (case (selected_asset cfg asset, present conn) of
             (Some (_, sac, decimals), Some address) \<Rightarrow>
               if sac = [] then Inl ''Refused to sign: missing intent.''
               else Inr \<lparr>b_sourceAccount = address, poolId = wp_poolId cfg, assetSac = sac, b_amount = amount,
                         b_decimals = jsint (int decimals), b_networkPassphrase = passphrase\<rparr>
           | _ \<Rightarrow> Inl ''Refused to sign: missing intent.''))"

definition trustlineIntent :: "BlendPoolConfig option \<Rightarrow> string option \<Rightarrow> string \<Rightarrow> string + TrustlineIntent" where
  "trustlineIntent config conn passphrase =
     (case present conn of
        None \<Rightarrow> Inl ''Refused to sign: missing trustline intent.''
      | Some address \<Rightarrow>
          (case requirePool config of
             Inl m \<Rightarrow> Inl m
           | Inr cfg \<Rightarrow>
               Inr \<lparr>t_sourceAccount = address, t_asset_code = fst (wp_usdcClassic cfg),
                    t_asset_issuer = snd (wp_usdcClassic cfg), t_networkPassphrase = passphrase\<rparr>))"

lemma present_Some: "present v = Some a \<longleftrightarrow> v = Some a \<and> a \<noteq> []"
  by (auto simp: present_def split: option.splits)

section \<open>Client and server name the same pools and assets\<close>

text \<open>The pool a slug resolves to on both sides: the same contract, assets, SACs and USDC issuer.\<close>

definition same_pool :: "BlendPoolConfig \<Rightarrow> BlendNetworkConfig \<Rightarrow> bool" where
  "same_pool w s \<longleftrightarrow>
     wp_slug w = bc_poolSlug s \<and> wp_poolId w = bc_poolId s \<and> wp_label w = bc_poolLabel s
     \<and> map fst (wp_assets w) = bc_assets s
     \<and> list_all (\<lambda>(a, sac, d). sac = bc_sac s a \<and> d = ASSET_DECIMALS a) (wp_assets w)
     \<and> IssuedAsset (fst (wp_usdcClassic w)) (snd (wp_usdcClassic w)) = bc_usdcClassic s
     \<and> wp_horizonUrl w = bc_horizonUrl s"

definition server_config :: "Env \<Rightarrow> string \<Rightarrow> ActionNetwork \<Rightarrow> BlendPoolEntry \<Rightarrow> BlendNetworkConfig" where
  "server_config env public_passphrase network entry =
     \<lparr>bc_poolId = pe_poolId entry, bc_poolSlug = pe_slug entry, bc_poolLabel = pe_label entry,
      bc_assets = pe_assets entry,
      bc_passphrase = (case network of Testnet \<Rightarrow> TESTNET_NETWORK_PASSPHRASE | Mainnet \<Rightarrow> public_passphrase),
      bc_rpcUrl = (case network of Testnet \<Rightarrow> TESTNET_RPC_URL | Mainnet \<Rightarrow> mainnetRpcUrl env),
      bc_horizonUrl = (case network of Testnet \<Rightarrow> TESTNET_HORIZON_URL | Mainnet \<Rightarrow> MAINNET_HORIZON_URL),
      bc_sac = (case network of
         Testnet \<Rightarrow> (\<lambda>a. case a of USDC \<Rightarrow> TESTNET_USDC_SAC | XLM \<Rightarrow> TESTNET_XLM_SAC)
       | Mainnet \<Rightarrow> (\<lambda>a. case a of USDC \<Rightarrow> MAINNET_USDC_SAC | XLM \<Rightarrow> MAINNET_XLM_SAC)),
      bc_usdcClassic = (case network of Testnet \<Rightarrow> TESTNET_USDC_CLASSIC | Mainnet \<Rightarrow> MAINNET_USDC_CLASSIC)\<rparr>"

lemma resolveBlendPool_Inr:
  "resolveBlendPool env pp n s = Inr cfg \<longleftrightarrow>
     (\<exists>e. List.find (\<lambda>p. pe_slug p = wanted_slug n s) (blendPoolsFor n) = Some e \<and> cfg = server_config env pp n e)"
  by (cases n) (auto simp: resolveBlendPool_def server_config_def split: option.splits)

lemma registry_pairs:
  "list_all2 (\<lambda>w e. same_pool w (server_config env pp n e)) (web_pools_for n) (blendPoolsFor n)"
  by (cases n)
     (simp_all add: web_pools_for_def blendPoolsFor_def web_testnet_pools_def TESTNET_BLEND_POOLS_def testnetPool_def
       web_testnet_assets_def same_pool_def server_config_def TESTNET_DEFAULT_BLEND_POOL_SLUG_def TESTNET_BLEND_POOL_def
       TESTNET_XLM_SAC_def TESTNET_USDC_SAC_def TESTNET_USDC_CLASSIC_def TESTNET_HORIZON_URL_def ASSET_DECIMALS_def
       web_mainnet_pools_def MAINNET_BLEND_POOLS_def mainnetPool_def web_mainnet_assets_def MAINNET_BLEND_POOL_def
       MAINNET_XLM_SAC_def MAINNET_USDC_SAC_def MAINNET_USDC_CLASSIC_def MAINNET_USDC_ISSUER_def MAINNET_HORIZON_URL_def)

lemma find_list_all2:
  assumes "list_all2 R xs ys" "\<And>x y. R x y \<Longrightarrow> P x = Q y"
  shows "rel_option R (List.find P xs) (List.find Q ys)"
  using assms(1) by (induction) (auto simp: assms(2))

lemma registries_agree_lemma:
  "case blendPoolFor n s of
     None \<Rightarrow> \<exists>m. resolveBlendPool env pp n s = Inl (HttpBadRequest m)
   | Some w \<Rightarrow> \<exists>cfg. resolveBlendPool env pp n s = Inr cfg \<and> same_pool w cfg"
proof -
  have "rel_option (\<lambda>w e. same_pool w (server_config env pp n e)) (blendPoolFor n s)
      (List.find (\<lambda>p. pe_slug p = wanted_slug n s) (blendPoolsFor n))"
    unfolding blendPoolFor_wanted
    by (rule find_list_all2 [OF registry_pairs]) (simp add: same_pool_def server_config_def)
  then show ?thesis
  proof (cases "blendPoolFor n s")
    case None
    then have "List.find (\<lambda>p. pe_slug p = wanted_slug n s) (blendPoolsFor n) = None"
      using \<open>rel_option _ _ _\<close> by simp
    then show ?thesis by (simp add: None resolveBlendPool_def)
  next
    case (Some w)
    then obtain e where "List.find (\<lambda>p. pe_slug p = wanted_slug n s) (blendPoolsFor n) = Some e"
      "same_pool w (server_config env pp n e)" using \<open>rel_option _ _ _\<close> by (auto simp: option_rel_Some1)
    then have "resolveBlendPool env pp n s = Inr (server_config env pp n e)" by (simp add: resolveBlendPool_Inr)
    then show ?thesis using \<open>same_pool _ _\<close> by (simp add: Some)
  qed
qed

text \<open>Every asset the widget offers on the main network is on the server's whitelist.\<close>

lemma offered_assets_whitelisted:
  "list_all (\<lambda>a. isWhitelistedMainnetAsset \<lparr>ref_code = sw_code a, ref_issuer = sw_issuer a\<rparr>) (assetsFor Mainnet)"
  by code_simp

end
