(* ===== verification/Int_Text.thy ===== *)
theory Int_Text
  imports Js_Text Js_Native
begin

text \<open>The text of a whole number below \<open>2^53\<close> is its decimal digits, and reads back as the number.\<close>

lemma digit_char_0: "digit_char 0 = CHR ''0''"
  by code_simp

lemma int_digits_shift: "0 < s \<Longrightarrow> int_digits (s * 10 ^ j) = int_digits s @ replicate j (CHR ''0'')"
proof (induction j)
  case (Suc j)
  have "1 \<le> s * 10 ^ j" using Suc(2) by (metis int_one_le_iff_zero_less mult_pos_pos zero_less_numeral zero_less_power)
  then have big: "\<not> s * 10 ^ Suc j < 10" by (simp add: mult.left_commute)
  have "int_digits (s * 10 ^ Suc j) = int_digits (s * 10 ^ j) @ [digit_char 0]"
    using big by (subst int_digits.simps) (simp add: mult.left_commute)
  then show ?case using Suc by (simp add: digit_char_0 replicate_append_same)
qed simp

lemma dropWhile_pad:
  "replicate (length t - length (dropWhile (\<lambda>c. c = z) t)) z @ dropWhile (\<lambda>c. c = z) t = t"
  using length_dropWhile_le [of "\<lambda>c. c = z"] by (induction t) (auto simp: Suc_diff_le)

lemma strip_zeros_pad: "strip_zeros s @ replicate (length s - length (strip_zeros s)) (CHR ''0'') = s"
  using arg_cong [OF dropWhile_pad [of "rev s" "CHR ''0''"], of rev] by (simp add: strip_zeros_def)

lemma strip_zeros_length: "length (strip_zeros s) \<le> length s"
  using length_dropWhile_le [of _ "rev s"] by (simp add: strip_zeros_def)

lemma int_digits_length: "0 \<le> n \<Longrightarrow> n < 10 ^ d \<Longrightarrow> 0 < d \<Longrightarrow> length (int_digits n) \<le> d"
proof (induction n arbitrary: d rule: int_digits.induct)
  case (1 n)
  show ?case
  proof (cases "n < 10")
    case True
    then show ?thesis using 1 by (simp add: int_digits.simps [of n])
  next
    case False
    obtain d' where d: "d = Suc d'" using 1 by (cases d) auto
    have "0 < d'" using 1(3) False d by (cases d') auto
    moreover have "n div 10 < 10 ^ d'" using 1(3) d by auto
    ultimately have "length (int_digits (n div 10)) \<le> d'" using 1 False by simp
    then show ?thesis using False d by (simp add: int_digits.simps [of n])
  qed
qed

lemma read_back_int:
  assumes n: "0 < n" "n < 2 ^ 53" and k: "int k \<le> L" and s: "read_back (of_int n) L k = Some s"
  shows "0 < s" "s * 10 ^ nat (L - int k) = n"
proof -
  let ?m = "s * 10 ^ nat (L - int k)"
  have u: "(10::rat) powi (L - int k) = of_int (10 ^ nat (L - int k))" using k by (simp add: power_int_def)
  from s have "0 < s" "fl (of_int s * 10 powi (L - int k)) = Num (of_int n)"
    by (auto simp: read_back_def Let_def find_Some_iff)
  then have m: "fl (of_int ?m) = Num (of_int n)" "0 < ?m" by (simp_all add: u)
  have "?m < 2 ^ 53"
  proof (rule ccontr)
    assume "\<not> ?m < 2 ^ 53"
    then have "js_le (fl (of_int (2 ^ 53))) (fl (of_int ?m))" by (intro fl_mono) (simp only: of_int_le_iff not_less)
    moreover have "fl (of_int (2 ^ 53)) = jsint (2 ^ 53)" by (rule fl_of_int) simp
    ultimately have "js_le (jsint (2 ^ 53)) (jsint n)" by (simp only: m)
    then show False using n(2) by simp
  qed
  then have "fl (of_int ?m) = jsint ?m" using m(2) by (intro fl_of_int) simp
  with m(1) have "rat_of_int ?m = of_int n" by (simp only: jsnum.inject)
  then show "?m = n" by (simp only: of_int_eq_iff)
  show "0 < s" by fact
qed

lemma shortest_from_int:
  assumes n: "0 < n" "n < 2 ^ 53" and L: "L = int (length (int_digits n))"
    and "j \<le> length (int_digits n)" "length (int_digits n) < m"
  shows "\<exists>s k. shortest_from (of_int n) L [j..<m] = (s, k) \<and> int k \<le> L \<and> 0 < s \<and> s * 10 ^ nat (L - int k) = n"
  using assms(4)
proof (induction "length (int_digits n) - j" arbitrary: j)
  case 0
  then have j: "int j = L" using L by simp
  have "[j..<m] = j # [Suc j..<m]" using 0 assms(5) by (simp add: upt_conv_Cons)
  moreover have "read_back (of_int n) L j = Some n"
    using n by (simp add: read_back_def j Let_def fl_of_int)
  ultimately show ?case using n j by auto
next
  case (Suc x)
  have u: "[j..<m] = j # [Suc j..<m]" using Suc assms(5) by (simp add: upt_conv_Cons)
  show ?case
  proof (cases "read_back (of_int n) L j")
    case None
    then show ?thesis using Suc(1) [of "Suc j"] Suc(2) by (simp add: u)
  next
    case (Some s)
    have "int j \<le> L" using Suc L by simp
    from read_back_int [OF n this Some] this show ?thesis by (simp add: u Some)
  qed
qed

lemma positional_whole:
  "length t \<le> m \<Longrightarrow> m \<le> 21 \<Longrightarrow> positional t (int m) = t @ replicate (m - length t) (CHR ''0'')"
  by (simp add: positional_def Let_def nat_diff_distrib')

lemma num_text_int:
  assumes "0 \<le> n" "n < 2 ^ 53"
  shows "num_text (jsint n) = int_digits n"
proof (cases "n = 0")
  case True
  have "int_digits 0 = ''0''" by code_simp
  then show ?thesis using True by simp
next
  case False
  let ?L = "length (int_digits n)"
  have n: "0 < n" "n < 2 ^ 53" using assms False by simp_all
  have "n < 10 ^ 16" using assms(2) by simp
  then have len: "?L \<le> 16" using int_digits_length [of n 16] assms(1) by simp
  have pos: "0 < ?L" using int_digits_all [OF assms(1)] by auto
  have e: "dec_exp (of_int n) = int ?L" using n by (simp add: dec_exp_def)
  from shortest_from_int [OF n refl, of 1 18] pos len obtain s k where
    sk: "shortest_from (of_int n) (int ?L) [1..<18] = (s, k)" "int k \<le> int ?L" "0 < s"
      "s * 10 ^ nat (int ?L - int k) = n" by auto
  let ?t = "strip_zeros (int_digits s)"
  have d: "int_digits n = int_digits s @ replicate (?L - k) (CHR ''0'')"
    using int_digits_shift [OF sk(3), of "?L - k"] sk(2,4) by (simp add: nat_diff_distrib')
  then have ls: "length (int_digits s) = k" using sk(2)
    by (metis add_diff_cancel_right' diff_diff_cancel length_append length_replicate of_nat_le_iff)
  have t: "int_digits s = ?t @ replicate (k - length ?t) (CHR ''0'')" using strip_zeros_pad [of "int_digits s"] ls by simp
  have lt: "length ?t \<le> k" using strip_zeros_length [of "int_digits s"] ls by simp
  have "positive_text (of_int n) = ?t @ replicate (?L - length ?t) (CHR ''0'')"
    using lt sk(2) len by (simp add: positive_text_def e sk(1) [unfolded One_nat_def] Let_def ls positional_whole)
  also have "\<dots> = (?t @ replicate (k - length ?t) (CHR ''0'')) @ replicate (?L - k) (CHR ''0'')"
    using lt sk(2) by (simp flip: replicate_add)
  also have "\<dots> = int_digits n" using t d by simp
  finally show ?thesis using n by simp
qed

end
