(* ===== verification/Actions_Amounts.thy ===== *)
theory Actions_Amounts
  imports Actions_Controller Int_Text
begin

text \<open>
  What \<open>toI128\<close>, \<open>fromI128\<close> and \<open>parseFloat\<close> make of a plain decimal text (digits, optionally a point and
  digits), and that the server's scaling agrees with the signing gates' on such a text.
\<close>

lemma amount_text_parts:
  assumes "amount_text t"
  obtains w f where "amount_parts t = (w, f)" "w \<noteq> []" "list_all is_digit w" "list_all is_digit f"
    "t = w \<and> f = [] \<or> t = w @ CHR ''.'' # f \<and> f \<noteq> []"
proof -
  let ?w = "takeWhile is_digit t" and ?f = "tl (dropWhile is_digit t)"
  have t: "t = ?w @ dropWhile is_digit t" by simp
  have ws: "list_all is_digit ?w" by (auto simp: list_all_iff dest: set_takeWhileD)
  show thesis
  proof (cases "dropWhile is_digit t")
    case Nil
    then have f: "?f = []" and w: "t = ?w" using t by (simp_all only: list.sel(2) append_Nil2)
    have "amount_parts t = (?w, ?f)" "?w \<noteq> []"
      using assms Nil by (auto simp: amount_parts_def amount_text_def)
    with ws w f show ?thesis by (intro that [of ?w ?f]) simp_all
  next
    case (Cons c cs)
    with assms have c: "c = CHR ''.''" "cs \<noteq> []" "list_all is_digit cs" by (auto simp: amount_text_def)
    have "t = ?w @ CHR ''.'' # cs" using t Cons c(1) by simp
    with Cons c ws assms show ?thesis by (intro that [of ?w ?f]) (auto simp: amount_parts_def amount_text_def)
  qed
qed

lemma digit_chars: "is_digit c \<Longrightarrow> c \<noteq> CHR ''.'' \<and> \<not> is_space c"
  using digit_not_sign by (auto simp: is_digit_def)

lemma trim_digits: "list_all is_digit s \<Longrightarrow> trim s = s"
  by (rule trim_no_space) (auto simp: list_all_iff digit_chars)

lemma trim_amount_text: "amount_text t \<Longrightarrow> trim t = t"
proof -
  assume "amount_text t"
  then obtain w f where p: "list_all is_digit w" "list_all is_digit f"
    "t = w \<and> f = [] \<or> t = w @ CHR ''.'' # f \<and> f \<noteq> []" by (rule amount_text_parts)
  have "\<not> is_space (CHR ''.'')" by (simp add: is_space_def)
  with p have "list_all (\<lambda>c. \<not> is_space c) t" by (auto simp: list_all_iff digit_chars)
  then show ?thesis by (rule trim_no_space)
qed

lemma split_point_amount:
  assumes "amount_text t" "amount_parts t = (w, f)"
  shows "split_point t = (w, f)"
proof -
  from assms(1) obtain w' f' where p: "amount_parts t = (w', f')" "list_all is_digit w'" "list_all is_digit f'"
    "t = w' \<and> f' = [] \<or> t = w' @ CHR ''.'' # f' \<and> f' \<noteq> []" by (rule amount_text_parts)
  then have e: "w' = w" "f' = f" using assms(2) by auto
  have all: "list_all (\<lambda>c. c \<noteq> CHR ''.'') w'" "list_all (\<lambda>c. c \<noteq> CHR ''.'') f'"
    using p by (auto simp: list_all_iff digit_chars)
  then have tw: "takeWhile (\<lambda>c. c \<noteq> CHR ''.'') w' = w'" "dropWhile (\<lambda>c. c \<noteq> CHR ''.'') w' = []"
    "takeWhile (\<lambda>c. c \<noteq> CHR ''.'') f' = f'"
    "takeWhile (\<lambda>c. c \<noteq> CHR ''.'') (w' @ CHR ''.'' # f') = w'"
    "dropWhile (\<lambda>c. c \<noteq> CHR ''.'') (w' @ CHR ''.'' # f') = CHR ''.'' # f'"
    by (auto simp: list_all_iff takeWhile_eq_all_conv takeWhile_append dropWhile_append)
  from p(4) show ?thesis unfolding e [symmetric] by (auto simp: split_point_def tw)
qed

lemma radix_of_digit: "is_digit c \<Longrightarrow> radix_of c = None"
  by (auto simp: radix_of_def Let_def is_digit_def lower_char_def split: if_splits)

lemma BigInt_of_digits:
  assumes "list_all is_digit ds"
  shows "BigInt_of_string ds = Some (digits_value ds)"
proof (cases ds)
  case Nil
  then show ?thesis by (simp add: BigInt_of_string_def trim_def digits_value_def)
next
  case (Cons c cs)
  have "radix_of (hd cs) = None" if "cs \<noteq> []" using assms that by (cases cs) (auto simp: Cons radix_of_digit)
  then show ?thesis
    using assms split_sign_digit [of c cs] by (auto simp: BigInt_of_string_def trim_digits Cons Let_def)
qed

lemma num_text_reads_back:
  assumes "0 \<le> n" "n < 2 ^ 53"
  shows "BigInt_of_string (num_text (jsint n)) = Some n"
  using assms int_digits_all [OF assms(1)]
  by (simp only: num_text_int BigInt_of_digits int_digits_value)

lemma toI128_amount:
  assumes "amount_text t" "amount_parts t = (w, f)"
  shows "toI128 t d = Some (digits_value w * 10 ^ d + digits_value (take d (padEnd0 d f)))"
proof -
  from assms(1) obtain w' f' where p: "amount_parts t = (w', f')" "list_all is_digit w'" "list_all is_digit f'"
    by (rule amount_text_parts)
  then have all: "list_all is_digit w" "list_all is_digit f" using assms(2) by auto
  have "is_digit (CHR ''0'')" by (simp add: is_digit_def)
  with all have "list_all is_digit (take d (padEnd0 d f))"
    by (auto simp: padEnd0_def list_all_iff dest: in_set_takeD)
  with all show ?thesis by (simp add: toI128_def split_point_amount [OF assms] BigInt_of_digits)
qed

text \<open>Without more decimals than the asset has, the server scales an amount as the gates do.\<close>

lemma toI128_scale_amount:
  assumes "scale_amount t d = Some n" "amount_text t"
  shows "toI128 t d = Some n"
proof -
  obtain w f where p: "amount_parts t = (w, f)" by (cases "amount_parts t")
  have "length f \<le> d" and n: "n = digits_value w * 10 ^ d + digits_value (padEnd0 d f)"
    using assms by (auto simp: scale_amount_def trim_amount_text p split: if_splits)
  then have "take d (padEnd0 d f) = padEnd0 d f" by (simp add: padEnd0_def)
  with n show ?thesis by (simp add: toI128_amount [OF assms(2) p])
qed

text \<open>Further decimals are cut off: the scaled amount is never above what the text writes.\<close>

lemma toI128_below:
  assumes "amount_text t" "toI128 t d = Some n"
  shows "0 \<le> n" "of_int n \<le> amount_value t * 10 ^ d"
proof -
  obtain w f where p: "amount_parts t = (w, f)" by (cases "amount_parts t")
  let ?g = "take d (padEnd0 d f)"
  have n: "n = digits_value w * 10 ^ d + digits_value ?g" using assms toI128_amount [OF assms(1) p] by simp
  then show "0 \<le> n" by (simp add: digits_value_nonneg)
  have v: "amount_value t = of_int (digits_value w) + of_int (digits_value f) / 10 ^ length f"
    by (simp add: amount_value_def trim_amount_text assms(1) p digits_value_append add_divide_distrib)
  have "of_int (digits_value ?g) \<le> (of_int (digits_value f) / 10 ^ length f * 10 ^ d :: rat)"
  proof (cases "length f \<le> d")
    case True
    then have "?g = padEnd0 d f" by (simp add: padEnd0_def)
    moreover have "(10::rat) ^ d = 10 ^ (d - length f) * 10 ^ length f" using True by (simp flip: power_add)
    ultimately show ?thesis by (simp add: digits_value_pad [OF True])
  next
    case False
    then have g: "?g = take d f" by (simp add: padEnd0_def)
    have f: "digits_value f = digits_value (take d f) * 10 ^ (length f - d) + digits_value (drop d f)"
      using digits_value_append [of "take d f" "drop d f"] by simp
    have "(of_int (digits_value (take d f)) :: rat) * 10 ^ (length f - d) \<le> of_int (digits_value f)"
      using f digits_value_nonneg [of "drop d f"] by (metis le_add_same_cancel1 of_int_le_iff of_int_mult of_int_numeral of_int_power)
    moreover have "(10::rat) ^ length f = 10 ^ (length f - d) * 10 ^ d" using False by (simp flip: power_add)
    ultimately show ?thesis by (simp add: g field_simps)
  qed
  then show "of_int n \<le> amount_value t * 10 ^ d" by (simp add: n v algebra_simps)
qed

lemma parseFloat_amount:
  assumes "amount_text t"
  shows "parseFloat t = fl (amount_value t)"
proof -
  from assms obtain w f where p: "amount_parts t = (w, f)" "w \<noteq> []" "list_all is_digit w" "list_all is_digit f"
    "t = w \<and> f = [] \<or> t = w @ CHR ''.'' # f \<and> f \<noteq> []" by (rule amount_text_parts)
  obtain c cs where w: "w = c # cs" using p(2) by (cases w) auto
  have c: "is_digit c" using p(3) w by simp
  then have t: "dropWhile is_space t = t" "split_sign t = (1, t)" "\<not> starts_with ''Infinity'' t"
    using p(5) digit_chars [OF c] split_sign_digit [OF c] c by (auto simp: w is_digit_def)
  have tw: "takeWhile is_digit w = w" "dropWhile is_digit w = []" "takeWhile is_digit f = f" "dropWhile is_digit f = []"
    using p(3,4) by (auto simp: list_all_iff takeWhile_eq_all_conv)
  have dot: "\<not> is_digit (CHR ''.'')" by (simp add: is_digit_def)
  have cut: "takeWhile is_digit (w @ CHR ''.'' # f) = w" "dropWhile is_digit (w @ CHR ''.'' # f) = CHR ''.'' # f"
    using p(3) dot by (auto simp: list_all_iff takeWhile_append dropWhile_append)
  have v: "amount_value t = of_int (digits_value (w @ f)) / 10 ^ length f"
    by (simp add: amount_value_def trim_amount_text [OF assms] p(1))
  have "split_decimal t = Some (of_int (digits_value (w @ f)) / 10 ^ length f, [])"
    using p(5)
  proof
    assume "t = w \<and> f = []"
    then show ?thesis using p(2) by (simp add: split_decimal_def split_exponent_def tw Let_def)
  next
    assume "t = w @ CHR ''.'' # f \<and> f \<noteq> []"
    then show ?thesis using p(2)
      by (simp add: split_decimal_def split_exponent_def tw cut Let_def power_int_minus divide_inverse)
  qed
  then show ?thesis by (simp add: parseFloat_def t signed_decimal_def v)
qed

section \<open>Round trip of a displayed position\<close>

lemma digits_value_padStart: "digits_value (padStart0 n s) = digits_value s"
  by (simp add: padStart0_def digits_value_append)

theorem fromI128_toI128:
  assumes "0 \<le> v" "0 < d"
  shows "amount_text (fromI128 v d) \<and> toI128 (fromI128 v d) d = Some v \<and> scale_amount (fromI128 v d) d = Some v"
proof -
  let ?w = "int_digits (v div 10 ^ d)" and ?f = "padStart0 d (int_digits (v mod 10 ^ d))"
  have nn: "0 \<le> v div 10 ^ d" "0 \<le> v mod 10 ^ d" "v mod 10 ^ d < 10 ^ d" using assms by (simp_all add: pos_imp_zdiv_nonneg_iff)
  have t: "fromI128 v d = ?w @ CHR ''.'' # ?f" using assms nn
    by (simp only: fromI128_def int_text_def Let_def abs_of_nonneg not_less [THEN iffD2] if_False append_Nil
        append_Cons)
  have z: "is_digit (CHR ''0'')" "\<not> is_digit (CHR ''.'')" by (simp_all add: is_digit_def)
  have w: "list_all is_digit ?w" "?w \<noteq> []" using int_digits_all [OF nn(1)] by auto
  have f: "list_all is_digit ?f" "?f \<noteq> []" using int_digits_all [OF nn(2)] z by (auto simp: padStart0_def list_all_iff)
  have len: "length ?f = d" using int_digits_length [OF nn(2,3) assms(2)] by (simp add: padStart0_def)
  have tw: "takeWhile is_digit (?w @ CHR ''.'' # ?f) = ?w" "dropWhile is_digit (?w @ CHR ''.'' # ?f) = CHR ''.'' # ?f"
    using w z(2) by (auto simp: list_all_iff takeWhile_append dropWhile_append)
  have plain: "amount_text (fromI128 v d)" using w f by (simp add: t amount_text_def tw)
  have parts: "amount_parts (fromI128 v d) = (?w, ?f)" by (simp add: t amount_parts_def tw)
  have "padEnd0 d ?f = ?f" using len by (simp add: padEnd0_def)
  moreover have "digits_value ?w * 10 ^ d + digits_value ?f = v"
    by (simp only: digits_value_padStart int_digits_value [OF nn(1)] int_digits_value [OF nn(2)] div_mult_mod_eq)
  ultimately have "toI128 (fromI128 v d) d = Some v" "scale_amount (fromI128 v d) d = Some v"
    using len by (simp_all add: toI128_amount [OF plain parts] scale_amount_def trim_amount_text [OF plain] plain parts)
  with plain show ?thesis by simp
qed

end
