(* ===== verification/Action_Envelopes.thy ===== *)
theory Action_Envelopes
  imports Client_Intents Actions_Amounts
begin

text \<open>
  From a request of the client through the server's builders to the client's signing gates. What the
  SDK does between the two ends is the hypothesis \<open>sdk_reads_back\<close>: an envelope it built is decoded as
  the transaction it was built from (each operation with its own values, amounts as the same numbers
  with at most seven decimals, no operation source, and the documented fee: the fee per operation
  times their number plus the resource fee).
\<close>

section \<open>What the SDK promises\<close>

fun decoded_asset :: "ClassicAsset \<Rightarrow> sdk_asset" where
  "decoded_asset NativeAsset = AssetNative"
| "decoded_asset (IssuedAsset code issuer) = AssetCredit code issuer"

definition decoded_amount :: "string \<Rightarrow> string \<Rightarrow> bool" where
  "decoded_amount given read \<longleftrightarrow>
     (valid_amount 7 given \<longrightarrow> valid_amount 7 read \<and> amount_value read = amount_value given)"

definition request_native :: "int \<times> string \<times> int \<Rightarrow> native" where
  "request_native r =
     (case r of (typ, asset, amount) \<Rightarrow>
       NObject [(''address'', NString asset), (''amount'', NBigInt amount), (''request_type'', NNumber typ)])"

fun decoded_op :: "BuilderOp \<Rightarrow> operation \<Rightarrow> bool" where
  "decoded_op (BuildChangeTrust asset) op =
     (\<exists>ct. op = OpChangeTrust ct \<and> ct_source ct = None \<and> ct_line ct = LineAsset (decoded_asset asset))"
| "decoded_op (BuildPathPayment p) op =
     (\<exists>q. op = OpPathPaymentStrictSend q \<and> p_source q = None
        \<and> p_sendAsset q = decoded_asset (pp_sendAsset p) \<and> p_destAsset q = decoded_asset (pp_destAsset p)
        \<and> p_destination q = pp_destination p
        \<and> decoded_amount (pp_sendAmount p) (p_sendAmount q) \<and> decoded_amount (pp_destMin p) (p_destMin q))"
| "decoded_op (BuildSubmit pool a) op =
     (op = OpInvokeHostFunction \<lparr>ih_source = None, ih_func = Some \<lparr>contractId = pool, fnName = ''submit'',
        call_args = [Some (NString (sa_from a)), Some (NString (sa_spender a)), Some (NString (sa_to a)),
                     Some (NArray (map request_native (sa_requests a)))]\<rparr>\<rparr>)"

text \<open>The fee of the envelope in stroops, when the fee text and the resource fee are whole numbers.\<close>

definition envelope_fee :: "BuildArgs \<Rightarrow> int option" where
  "envelope_fee b =
     (case (BigInt_of_string (ba_fee b), ba_soroban b) of
        (Some f, None) \<Rightarrow> Some (f * int (length (ba_ops b)))
      | (Some f, Some (_, Num r)) \<Rightarrow> if of_int \<lfloor>r\<rfloor> = r then Some (f * int (length (ba_ops b)) + \<lfloor>r\<rfloor>) else None
      | _ \<Rightarrow> None)"

definition decoded_from :: "BuildArgs \<Rightarrow> DecodedTx \<Rightarrow> bool" where
  "decoded_from b tx \<longleftrightarrow>
     tx_source tx = ba_source b
     \<and> list_all2 decoded_op (ba_ops b) (tx_operations tx)
     \<and> (\<forall>f. envelope_fee b = Some f \<longrightarrow> BigInt_of_string (tx_fee tx) = Some f)"

definition sdk_reads_back :: "ActionsWorld \<Rightarrow> Sdk \<Rightarrow> bool" where
  "sdk_reads_back w sdk \<longleftrightarrow>
     (\<forall>b x. w_build w b = Some x \<longrightarrow>
        (\<exists>tx. fromXDR sdk x (ba_passphrase b) = Some (Classic tx) \<and> decoded_from b tx))"

lemma sdk_reads_backD:
  assumes "sdk_reads_back w sdk" "w_build w b = Some x"
  obtains tx where "fromXDR sdk x (ba_passphrase b) = Some (Classic tx)" "tx_source tx = ba_source b"
    "list_all2 decoded_op (ba_ops b) (tx_operations tx)"
    "\<And>f. envelope_fee b = Some f \<Longrightarrow> BigInt_of_string (tx_fee tx) = Some f"
  using assms unfolding sdk_reads_back_def decoded_from_def by blast

lemma sdk_read_fee:
  assumes "sdk_reads_back w sdk" "w_build w b = Some x" "envelope_fee b = Some f"
  shows "\<exists>tx. fromXDR sdk x (ba_passphrase b) = Some (Classic tx) \<and> tx_source tx = ba_source b
    \<and> list_all2 decoded_op (ba_ops b) (tx_operations tx) \<and> BigInt_of_string (tx_fee tx) = Some f"
  using assms unfolding sdk_reads_back_def decoded_from_def by blast

lemma fee_withinI:
  "BigInt_of_string (tx_fee tx) = Some f \<Longrightarrow> 0 \<le> f \<Longrightarrow> f \<le> cap \<Longrightarrow> fee_within cap tx"
  by (simp add: fee_within_def)

section \<open>The amounts of an intent\<close>

lemma valid_amount_text:
  assumes "amount_text t" "length (snd (amount_parts t)) \<le> 7"
  shows "valid_amount 7 t" "\<exists>n. toI128 t 7 = Some n \<and> of_int n = amount_value t * 10 ^ 7"
proof -
  show v: "valid_amount 7 t" using assms by (simp add: valid_amount_def trim_amount_text)
  then obtain n where n: "scale_amount t 7 = Some n" by (auto simp: valid_amount_iff)
  then show "\<exists>n. toI128 t 7 = Some n \<and> of_int n = amount_value t * 10 ^ 7"
    using toI128_scale_amount [OF n assms(1)] scale_amount_Some [OF n] by blast
qed

section \<open>Swap\<close>

lemma offered_ok:
  "list_all (\<lambda>a. sw_code a = ''XLM'' \<and> sw_issuer a = None
      \<or> sw_code a \<noteq> ''XLM'' \<and> sw_code a \<noteq> ''native'' \<and> ASSET_CODE_RE (sw_code a)
        \<and> (case sw_issuer a of None \<Rightarrow> False | Some i \<Rightarrow> STELLAR_PUBKEY_RE i)) (assetsFor n)"
  by (cases n; simp only:; code_simp)

lemma pubkey_nonempty: "STELLAR_PUBKEY_RE i \<Longrightarrow> i \<noteq> []"
  by (auto simp: STELLAR_PUBKEY_RE_def)

lemma offered_asset:
  assumes "a \<in> set (assetsFor n)"
  shows "normalizeAssetField (toApiRef a) l = Inr \<lparr>ref_code = sw_code a, ref_issuer = sw_issuer a\<rparr>"
    and "resolveAsset w \<lparr>ref_code = sw_code a, ref_issuer = sw_issuer a\<rparr> n' = Inr c \<Longrightarrow>
      assetMatches (decoded_asset c) (toAssetId a) \<and> (isNativeRef \<lparr>ref_code = sw_code a, ref_issuer = sw_issuer a\<rparr> \<longleftrightarrow> toAssetId a = IdNative)
      \<and> (toAssetId a \<noteq> IdNative \<longrightarrow> (\<exists>code issuer. toAssetId a = IdCredit code issuer \<and> decoded_asset c = AssetCredit code issuer))"
proof -
  have a: "sw_code a = ''XLM'' \<and> sw_issuer a = None
      \<or> (\<exists>i. sw_code a \<noteq> ''XLM'' \<and> sw_code a \<noteq> ''native'' \<and> ASSET_CODE_RE (sw_code a) \<and> sw_issuer a = Some i
           \<and> STELLAR_PUBKEY_RE i \<and> i \<noteq> [])"
    using bspec [OF offered_ok [of n, unfolded list_all_iff] assms]
    by (cases "sw_issuer a") (auto simp: pubkey_nonempty)
  then show "normalizeAssetField (toApiRef a) l = Inr \<lparr>ref_code = sw_code a, ref_issuer = sw_issuer a\<rparr>"
    by (auto simp: normalizeAssetField_def toApiRef_def)
  show "resolveAsset w \<lparr>ref_code = sw_code a, ref_issuer = sw_issuer a\<rparr> n' = Inr c \<Longrightarrow>
      assetMatches (decoded_asset c) (toAssetId a) \<and> (isNativeRef \<lparr>ref_code = sw_code a, ref_issuer = sw_issuer a\<rparr> \<longleftrightarrow> toAssetId a = IdNative)
      \<and> (toAssetId a \<noteq> IdNative \<longrightarrow> (\<exists>code issuer. toAssetId a = IdCredit code issuer \<and> decoded_asset c = AssetCredit code issuer))"
    using a by (auto simp: resolveAsset_def isNativeRef_def toAssetId_def Let_def)
qed

lemma buildSdexSwap_Inr:
  assumes "buildSdexSwap w p = Inr r"
  obtains sendAsset destAsset seq ops where
    "resolveAsset w (ss_fromAsset p) (ss_network p) = Inr sendAsset"
    "resolveAsset w (ss_toAsset p) (ss_network p) = Inr destAsset"
    "ops = [BuildPathPayment (swap_payment p sendAsset destAsset)]
      \<or> \<not> isNativeRef (ss_toAsset p) \<and> ops = [BuildChangeTrust destAsset, BuildPathPayment (swap_payment p sendAsset destAsset)]"
    "w_build w (swap_tx w p seq ops) = Some (sx_xdr r)"
    "sx_total r = js_mul (inclusionFeeStroops (w_env w)) (jsint (int (length ops)))"
proof -
  let ?needs = "\<lambda>d. swap_needs_trustline (ss_toAsset p) d (w_loadAccount w (ss_network p) (ss_address p))"
  let ?ops = "\<lambda>c d. (if ?needs d then [BuildChangeTrust d] else []) @ [BuildPathPayment (swap_payment p c d)]"
  from assms obtain sendAsset destAsset seq where
    s: "resolveAsset w (ss_fromAsset p) (ss_network p) = Inr sendAsset"
       "resolveAsset w (ss_toAsset p) (ss_network p) = Inr destAsset"
    and b: "w_build w (swap_tx w p seq (?ops sendAsset destAsset)) = Some (sx_xdr r)"
    and f: "sx_total r = js_mul (inclusionFeeStroops (w_env w)) (jsint (int (length (?ops sendAsset destAsset))))"
    by (auto simp: buildSdexSwap_def Let_def if_distrib [of length] cong: if_cong split del: if_split)
  show thesis
  proof (cases "swap_needs_trustline (ss_toAsset p) destAsset (w_loadAccount w (ss_network p) (ss_address p))")
    case True
    then have "\<not> isNativeRef (ss_toAsset p)" by (simp add: swap_needs_trustline_def)
    with True b f s show ?thesis
      by (intro that [of sendAsset destAsset "[BuildChangeTrust destAsset, BuildPathPayment (swap_payment p sendAsset destAsset)]" seq])
         (auto simp: Let_def)
  next
    case False
    with b f s show ?thesis
      by (intro that [of sendAsset destAsset "[BuildPathPayment (swap_payment p sendAsset destAsset)]" seq]) (auto simp: Let_def)
  qed
qed

lemma sdexSwap_Inr:
  assumes "sdexSwap w body = Inr (r, evs)"
  obtains network address frm to amount minReceive where
    "resolveSwapNetwork (w_env w) (xb_network body) = Inr network" "require_address (xb_address body) = Inr address"
    "normalizeAssetField (xb_fromAsset body) ''fromAsset'' = Inr frm"
    "normalizeAssetField (xb_toAsset body) ''toAsset'' = Inr to"
    "xb_amount body = Some amount" "xb_minReceive body = Some minReceive"
    "network = Mainnet \<longrightarrow> isWhitelistedMainnetAsset frm \<and> isWhitelistedMainnetAsset to
       \<and> \<not> js_gt (parseFloat amount) (mainnetMaxSendXlm (w_env w))"
    "\<not> sameAsset frm to"
    "buildSdexSwap w \<lparr>ss_address = address, ss_fromAsset = frm, ss_toAsset = to, ss_amount = amount,
                      ss_minReceive = minReceive, ss_network = network\<rparr> = Inr r"
  using assms
  by (auto simp: sdexSwap_def swap_pair_def positive_amount_def assertMainnetAsset_def assert_cap_def Let_def
      split: option.splits if_splits)

lemma resolve_named_network [simp]:
  "resolveSwapNetwork env (JString (network_name n)) = Inr m \<Longrightarrow> m = n"
  "resolveBlendNetwork env (JString (network_name n)) = Inr m \<Longrightarrow> m = n"
  by (cases n; simp add: resolveSwapNetwork_def resolveBlendNetwork_def resolve_network_def is_nullish_def split: if_splits)+

lemma require_own_address:
  "STELLAR_PUBKEY_RE a \<Longrightarrow> require_address (JString a) = Inr b \<Longrightarrow> b = a"
proof -
  assume a: "STELLAR_PUBKEY_RE a"
  have "list_all (\<lambda>c. \<not> is_space c) a"
    using a by (auto simp: STELLAR_PUBKEY_RE_def list_all_iff base32_char_def in_range_def is_space_def split: list.splits)
  then have "trim a = a" by (rule trim_no_space)
  then show "require_address (JString a) = Inr b \<Longrightarrow> b = a"
    using a by (simp add: require_address_def requireAddress_def asTrimmedString_def)
qed

text \<open>The fee of a classic transaction: the bid per operation times their number.\<close>

lemma swap_fee:
  assumes "inclusionFeeStroops (w_env w) = jsint f" "0 \<le> f" "f < 2 ^ 53"
  shows "envelope_fee (swap_tx w p seq ops) = Some (f * int (length ops))"
  using assms by (simp add: envelope_fee_def swap_tx_def num_text_reads_back del: num_text.simps)

lemma built_swap_accepted:
  assumes sdk: "sdk_reads_back w (cl_sdk cl)"
    and net: "toWalletNetwork cl n = nc_passphrase (getNetworkConfig (w_env w) (w_public w) n)"
      "toWalletNetwork cl n \<in> set (RECOGNIZED_NETWORKS (cl_sdk cl))"
    and addr: "STELLAR_PUBKEY_RE address"
    and offered: "frm \<in> set (assetsFor n)" "to \<in> set (assetsFor n)"
    and amounts: "valid_amount 7 amount" "valid_amount 7 minReceive"
    and fee: "inclusionFeeStroops (w_env w) = jsint f" "0 \<le> f" "f \<le> 50000"
    and built: "sdexSwap w (swap_body address frm to amount minReceive n) = Inr (r, evs)"
  shows "validateSwapXdr (cl_sdk cl) (sx_xdr r)
    (swap_intent address frm to amount minReceive (toWalletNetwork cl n)) = Ok"
proof -
  let ?ref = "\<lambda>a. \<lparr>ref_code = sw_code a, ref_issuer = sw_issuer a\<rparr>"
  let ?p = "\<lparr>ss_address = address, ss_fromAsset = ?ref frm, ss_toAsset = ?ref to, ss_amount = amount,
             ss_minReceive = minReceive, ss_network = n\<rparr>"
  let ?i = "swap_intent address frm to amount minReceive (toWalletNetwork cl n)"
  from built have b: "buildSdexSwap w ?p = Inr r"
    by (rule sdexSwap_Inr)
       (auto simp: swap_body_def offered_asset(1) [OF offered(1)] offered_asset(1) [OF offered(2)]
         dest!: resolve_named_network(1) require_own_address [OF addr])
  from b obtain c d seq ops where
    c: "resolveAsset w (?ref frm) n = Inr c" and d: "resolveAsset w (?ref to) n = Inr d"
    and ops: "ops = [BuildPathPayment (swap_payment ?p c d)]
      \<or> \<not> isNativeRef (?ref to) \<and> ops = [BuildChangeTrust d, BuildPathPayment (swap_payment ?p c d)]"
    and x: "w_build w (swap_tx w ?p seq ops) = Some (sx_xdr r)"
    by (rule buildSdexSwap_Inr) simp
  have pass: "ba_passphrase (swap_tx w ?p seq ops) = toWalletNetwork cl n" by (simp add: swap_tx_def net(1))
  have src: "ba_source (swap_tx w ?p seq ops) = address" "ba_ops (swap_tx w ?p seq ops) = ops"
    by (simp_all add: swap_tx_def)
  have env: "envelope_fee (swap_tx w ?p seq ops) = Some (f * int (length ops))"
    by (rule swap_fee [OF fee(1,2)]) (use fee(3) in simp)
  obtain tx where tx: "fromXDR (cl_sdk cl) (sx_xdr r) (toWalletNetwork cl n) = Some (Classic tx)"
    "tx_source tx = address" "list_all2 decoded_op ops (tx_operations tx)"
    "BigInt_of_string (tx_fee tx) = Some (f * int (length ops))"
    using sdk_reads_backD [OF sdk x, unfolded pass] env src by auto
  have within: "fee_within 100000 tx" using tx(4) ops fee(2,3) by (intro fee_withinI [OF tx(4)]) auto
  note cm = offered_asset(2) [OF offered(1) c] and dm = offered_asset(2) [OF offered(2) d]
  have pay: "payment_intended ?i q" if "decoded_op (BuildPathPayment (swap_payment ?p c d)) (OpPathPaymentStrictSend q)" for q
    using that amounts cm dm
    by (auto simp: payment_intended_def swap_intent_def Let_def swap_payment_def own_source_def decoded_amount_def)
  have trust: "trustline_permitted ?i ct" if "decoded_op (BuildChangeTrust d) (OpChangeTrust ct)" "\<not> isNativeRef (?ref to)" for ct
    using that dm by (auto simp: trustline_permitted_def swap_intent_def Let_def own_source_def)
  have "swap_intended ?i tx"
    using ops
  proof
    assume "ops = [BuildPathPayment (swap_payment ?p c d)]"
    then obtain q where "tx_operations tx = [OpPathPaymentStrictSend q]"
      "decoded_op (BuildPathPayment (swap_payment ?p c d)) (OpPathPaymentStrictSend q)"
      using tx(3) by (auto simp: list_all2_Cons1)
    then show ?thesis using pay by (auto simp: swap_intended_def)
  next
    assume o: "\<not> isNativeRef (?ref to) \<and> ops = [BuildChangeTrust d, BuildPathPayment (swap_payment ?p c d)]"
    then obtain ct q where "tx_operations tx = [OpChangeTrust ct, OpPathPaymentStrictSend q]"
      "decoded_op (BuildChangeTrust d) (OpChangeTrust ct)"
      "decoded_op (BuildPathPayment (swap_payment ?p c d)) (OpPathPaymentStrictSend q)"
      using tx(3) by (auto simp: list_all2_Cons1)
    then show ?thesis using pay trust o by (auto simp: swap_intended_def)
  qed
  then show ?thesis using tx(1,2) within net(2)
    by (simp add: swap.accepts MAX_FEE_STROOPS_def swap_intent_def Let_def)
qed

section \<open>Blend\<close>

definition submit_of :: "ActionsWorld \<Rightarrow> int \<Rightarrow> BlendParams \<Rightarrow> BlendNetworkConfig \<Rightarrow> string \<Rightarrow> Fee \<Rightarrow> BuildArgs \<Rightarrow> bool" where
  "submit_of w typ p cfg seq fee b \<longleftrightarrow>
     resolveBlendPool (w_env w) (w_public w) (bp_network p) (bp_poolSlug p) = Inr cfg
     \<and> bp_asset p \<in> set (bc_assets cfg)
     \<and> (\<exists>scaled limits. toI128 (bp_amount p) (ASSET_DECIMALS (bp_asset p)) = Some scaled
          \<and> b = submit_tx cfg (bp_address p) seq (blend_op cfg typ (bp_address p) (bp_asset p) scaled)
                 (num_text (fe_inclusion fee)) (Some (limits, fe_resource fee)))
     \<and> fe_inclusion fee = inclusionFeeStroops (w_env w)
     \<and> fe_total fee = js_add (fe_inclusion fee) (fe_resource fee)"

lemma assembled_Inr:
  assumes "simulateAndAssembleSubmit w n cfg a seq op = Inr b" "as_xdr b \<noteq> []"
  obtains limits where
    "w_build w (submit_tx cfg a seq op (num_text (fe_inclusion (as_fee b))) (Some (limits, fe_resource (as_fee b)))) = Some (as_xdr b)"
    "fe_inclusion (as_fee b) = inclusionFeeStroops (w_env w)"
    "fe_total (as_fee b) = js_add (fe_inclusion (as_fee b)) (fe_resource (as_fee b))"
  using assms
  by (auto simp: simulateAndAssembleSubmit_def Let_def not_simulated_def padResources_def split: SimResult.splits)

lemma blend_start_Inr:
  "blend_start w p = Inr (cfg, scaled, seq) \<longleftrightarrow>
     resolveBlendPool (w_env w) (w_public w) (bp_network p) (bp_poolSlug p) = Inr cfg
     \<and> bp_asset p \<in> set (bc_assets cfg) \<and> toI128 (bp_amount p) (ASSET_DECIMALS (bp_asset p)) = Some scaled
     \<and> w_getAccount w (bp_network p) (bp_address p) = Some seq"
  by (auto simp: blend_start_def assertPoolSupportsAsset_def split: if_splits)

lemma buildBlendDeposit_Inr:
  assumes "buildBlendDeposit w p = Inr r" "br_xdr r \<noteq> []"
  shows "\<exists>cfg seq b. submit_of w SupplyCollateral p cfg seq (br_fee r) b \<and> w_build w b = Some (br_xdr r)
    \<and> br_trustlineRequired r = Some False \<and> br_changetrustXdr r = None"
proof -
  from assms(1) obtain cfg scaled seq where start: "blend_start w p = Inr (cfg, scaled, seq)"
    by (auto simp: buildBlendDeposit_def)
  have no: "\<not> needs_trustline cfg (bp_asset p) (w_loadAccount w (bp_network p) (bp_address p))"
    using assms start by (auto simp: buildBlendDeposit_def trustline_step_def Let_def split: if_splits)
  from assms start no obtain built where
    b: "simulateAndAssembleSubmit w (bp_network p) cfg (bp_address p) seq
          (blend_op cfg SupplyCollateral (bp_address p) (bp_asset p) scaled) = Inr built"
    and r: "as_xdr built \<noteq> []" "br_xdr r = as_xdr built" "br_fee r = as_fee built"
      "br_trustlineRequired r = Some False" "br_changetrustXdr r = None"
    by (auto simp: buildBlendDeposit_def Let_def split: if_splits)
  from assembled_Inr [OF b r(1)] start r show ?thesis
    unfolding submit_of_def blend_start_Inr by (metis (no_types, lifting))
qed

lemma buildBlendWithdraw_Inr:
  assumes "buildBlendWithdraw w p = Inr r" "br_xdr r \<noteq> []"
  shows "\<exists>cfg seq b. submit_of w WithdrawCollateral p cfg seq (br_fee r) b \<and> w_build w b = Some (br_xdr r)"
proof -
  from assms obtain cfg scaled seq built where start: "blend_start w p = Inr (cfg, scaled, seq)"
    and b: "simulateAndAssembleSubmit w (bp_network p) cfg (bp_address p) seq
          (blend_op cfg WithdrawCollateral (bp_address p) (bp_asset p) scaled) = Inr built"
    and r: "as_xdr built \<noteq> []" "br_xdr r = as_xdr built" "br_fee r = as_fee built"
    by (auto simp: buildBlendWithdraw_def)
  from assembled_Inr [OF b r(1)] start r show ?thesis
    unfolding submit_of_def blend_start_Inr by (metis (no_types, lifting))
qed

text \<open>A trustline step carries one ChangeTrust for the pool's USDC, at the bid of one operation.\<close>

lemma buildBlendDeposit_trustline:
  assumes "buildBlendDeposit w p = Inr r" "br_changetrustXdr r = Some x"
  shows "\<exists>cfg seq. resolveBlendPool (w_env w) (w_public w) (bp_network p) (bp_poolSlug p) = Inr cfg
    \<and> bp_asset p = USDC \<and> br_xdr r = [] \<and> br_trustlineRequired r = Some True
    \<and> w_build w \<lparr>ba_source = bp_address p, ba_sequence = seq, ba_fee = num_text (inclusionFeeStroops (w_env w)),
         ba_passphrase = bc_passphrase cfg, ba_ops = [BuildChangeTrust (bc_usdcClassic cfg)], ba_timeout = 300,
         ba_soroban = None\<rparr> = Some x"
proof -
  from assms(1) obtain cfg scaled seq where start: "blend_start w p = Inr (cfg, scaled, seq)"
    by (auto simp: buildBlendDeposit_def)
  have "needs_trustline cfg (bp_asset p) (w_loadAccount w (bp_network p) (bp_address p))"
    using assms start by (auto simp: buildBlendDeposit_def Let_def split: if_splits)
  then show ?thesis using assms start
    by (auto simp: buildBlendDeposit_def trustline_step_def Let_def needs_trustline_def blend_start_Inr)
qed

end
