(* ===== verification/Blend_Envelopes.thy ===== *)
theory Blend_Envelopes
  imports Action_Envelopes
begin

text \<open>
  The Blend half of the way from a request to the signing gates: the deposit, the withdraw and the
  trustline the server builds for a pool of the client's registry are what the client's gates expect.
\<close>

lemma web_slugs: "list_all (\<lambda>p. trim (wp_slug p) = wp_slug p \<and> wp_slug p \<noteq> []) (web_pools_for n)"
  by (cases n; simp only:; code_simp)

lemma blendPoolFor_slug:
  assumes "blendPoolFor n s = Some pc"
  shows "blendPoolFor n (Some (wp_slug pc)) = Some pc"
proof -
  have f: "List.find (\<lambda>p. wp_slug p = wanted_slug n s) (web_pools_for n) = Some pc"
    using assms by (simp add: blendPoolFor_wanted)
  then have m: "pc \<in> set (web_pools_for n)" "wp_slug pc = wanted_slug n s" by (auto simp: find_Some_iff)
  then have "wanted_slug n (Some (wp_slug pc)) = wp_slug pc"
    using web_slugs [of n] by (auto simp: list_all_iff wanted_slug_def)
  with f m show ?thesis by (simp add: blendPoolFor_wanted)
qed

lemma selected_assetD: "selected_asset cfg a = Some (c, sac, d) \<Longrightarrow> c = a \<and> (a, sac, d) \<in> set (wp_assets cfg)"
  by (auto simp: selected_asset_def find_Some_iff dest: nth_mem) (metis fst_conv nth_mem)+

lemma registry_intent:
  assumes pool: "blendPoolFor n s = Some pc" and cfg: "resolveBlendPool env pp n (Some (wp_slug pc)) = Inr cfg"
    and asset: "asset \<in> set (bc_assets cfg)"
    and i: "blendIntent (Some pc) asset (Some address) amount passphrase = Inr i"
  shows "i = \<lparr>b_sourceAccount = address, poolId = bc_poolId cfg, assetSac = bc_sac cfg asset, b_amount = amount,
              b_decimals = jsint 7, b_networkPassphrase = passphrase\<rparr>"
proof -
  have same: "same_pool pc cfg"
    using registries_agree_lemma [of env pp n "Some (wp_slug pc)"] cfg by (simp add: blendPoolFor_slug [OF pool])
  have d: "ASSET_DECIMALS a = 7" for a by (cases a) (simp_all add: ASSET_DECIMALS_def)
  from i obtain sac k where f: "(asset, sac, k) \<in> set (wp_assets pc)"
    and i': "i = \<lparr>b_sourceAccount = address, poolId = wp_poolId pc, assetSac = sac, b_amount = amount,
              b_decimals = jsint (int k), b_networkPassphrase = passphrase\<rparr>"
    by (auto simp: blendIntent_def requirePool_def present_Some split: option.splits if_splits dest: selected_assetD)
  then have "sac = bc_sac cfg asset" "k = 7" using same by (auto simp: same_pool_def list_all_iff d)
  then show ?thesis using same i' by (simp add: same_pool_def)
qed

lemma submit_fee:
  assumes "fe_inclusion fee = jsint f" "fe_resource fee = jsint g" "0 \<le> f" "f < 2 ^ 53"
  shows "envelope_fee (submit_tx cfg a seq op (num_text (fe_inclusion fee)) (Some (limits, fe_resource fee))) = Some (f + g)"
  using assms by (simp add: envelope_fee_def submit_tx_def num_text_reads_back del: num_text.simps)

lemma blend_op_intended:
  assumes d: "decoded_op (blend_op cfg typ address asset scaled) op"
    and amount: "amount_text amount" "length (snd (amount_parts amount)) \<le> 7" "toI128 amount 7 = Some scaled"
    and i: "i = \<lparr>b_sourceAccount = address, poolId = bc_poolId cfg, assetSac = bc_sac cfg asset, b_amount = amount,
                 b_decimals = jsint 7, b_networkPassphrase = passphrase\<rparr>"
  shows "submit_intended typ i \<lparr>tx_source = a, tx_fee = fee, tx_operations = [op]\<rparr>"
proof -
  have v: "valid_amount 7 amount" "of_int scaled = amount_value amount * 10 ^ 7"
    using valid_amount_text [OF amount(1,2)] amount(3) by auto
  have dec: "decimals_nat (jsint 7) = Some 7" by code_simp
  have "request_intended typ i (request_native (typ, bc_sac cfg asset, scaled))"
    using v dec by (simp add: request_intended_def request_native_def i)
  then show ?thesis using d by (auto simp: submit_intended_def blend_op_def own_source_def i)
qed

lemma submit_accepted:
  assumes sdk: "sdk_reads_back w (cl_sdk cl)"
    and pool: "blendPoolFor n s = Some pc"
    and pass: "toWalletNetwork cl n = bc_passphrase cfg" "toWalletNetwork cl n \<in> set (RECOGNIZED_NETWORKS (cl_sdk cl))"
    and amount: "amount_text amount" "length (snd (amount_parts amount)) \<le> 7"
    and fee: "fe_inclusion fee = jsint f" "fe_resource fee = jsint g" "0 \<le> f" "0 \<le> g" "f + g \<le> 20000000"
    and i: "blendIntent (Some pc) asset (Some address) amount (toWalletNetwork cl n) = Inr i"
    and b: "submit_of w typ (blend_params address asset amount n (Some (wp_slug pc))) cfg seq fee b" "w_build w b = Some x"
  shows "\<exists>tx. fromXDR (cl_sdk cl) x (b_networkPassphrase i) = Some (Classic tx) \<and> tx_source tx = b_sourceAccount i
    \<and> fee_within 20000000 tx \<and> submit_intended typ i tx \<and> b_networkPassphrase i \<in> set (RECOGNIZED_NETWORKS (cl_sdk cl))"
proof -
  let ?p = "blend_params address asset amount n (Some (wp_slug pc))"
  have d: "ASSET_DECIMALS asset = 7" by (cases asset) (simp_all add: ASSET_DECIMALS_def)
  from b(1) obtain scaled limits where cfg: "resolveBlendPool (w_env w) (w_public w) n (Some (wp_slug pc)) = Inr cfg"
    and asset: "asset \<in> set (bc_assets cfg)" and scaled: "toI128 amount 7 = Some scaled"
    and b': "b = submit_tx cfg address seq (blend_op cfg typ address asset scaled) (num_text (fe_inclusion fee))
               (Some (limits, fe_resource fee))"
    by (auto simp: submit_of_def blend_params_def d)
  note i' = registry_intent [OF pool cfg asset i]
  have e: "envelope_fee b = Some (f + g)" unfolding b' by (rule submit_fee [OF fee(1-3)]) (use fee(4,5) in simp)
  have p: "ba_passphrase b = toWalletNetwork cl n" "ba_source b = address" "ba_ops b = [blend_op cfg typ address asset scaled]"
    by (simp_all add: b' submit_tx_def pass)
  obtain tx where
    tx: "fromXDR (cl_sdk cl) x (toWalletNetwork cl n) = Some (Classic tx)" "tx_source tx = address"
      "list_all2 decoded_op [blend_op cfg typ address asset scaled] (tx_operations tx)"
      "BigInt_of_string (tx_fee tx) = Some (f + g)"
    using sdk_read_fee [OF sdk b(2) e, unfolded p] by blast
  from tx(3) obtain op where op: "tx_operations tx = [op]" "decoded_op (blend_op cfg typ address asset scaled) op"
    by (auto simp: list_all2_Cons1)
  have "fee_within 20000000 tx" using fee(3-5) by (intro fee_withinI [OF tx(4)]) simp_all
  moreover have "submit_intended typ i tx"
    using blend_op_intended [OF op(2) amount scaled i', of "tx_source tx" "tx_fee tx"] op(1)
    by (simp add: submit_intended_def)
  ultimately show ?thesis using tx pass i' by simp
qed

lemma trustline_accepted:
  assumes sdk: "sdk_reads_back w (cl_sdk cl)"
    and pool: "blendPoolFor n s = Some pc"
    and cfg: "resolveBlendPool (w_env w) (w_public w) n (Some (wp_slug pc)) = Inr cfg"
    and pass: "toWalletNetwork cl n = bc_passphrase cfg" "toWalletNetwork cl n \<in> set (RECOGNIZED_NETWORKS (cl_sdk cl))"
    and fee: "inclusionFeeStroops (w_env w) = jsint f" "0 \<le> f" "f \<le> 100000"
    and i: "trustlineIntent (Some pc) (Some address) (toWalletNetwork cl n) = Inr i"
    and b: "w_build w \<lparr>ba_source = address, ba_sequence = seq, ba_fee = num_text (inclusionFeeStroops (w_env w)),
         ba_passphrase = bc_passphrase cfg, ba_ops = [BuildChangeTrust (bc_usdcClassic cfg)], ba_timeout = 300,
         ba_soroban = None\<rparr> = Some x"
  shows "validateTrustlineXdr (cl_sdk cl) x i = Ok"
proof -
  let ?b = "\<lparr>ba_source = address, ba_sequence = seq, ba_fee = num_text (inclusionFeeStroops (w_env w)),
         ba_passphrase = bc_passphrase cfg, ba_ops = [BuildChangeTrust (bc_usdcClassic cfg)], ba_timeout = 300,
         ba_soroban = None\<rparr>"
  have same: "same_pool pc cfg"
    using registries_agree_lemma [of "w_env w" "w_public w" n "Some (wp_slug pc)"] cfg
    by (simp add: blendPoolFor_slug [OF pool])
  have i': "i = \<lparr>t_sourceAccount = address, t_asset_code = fst (wp_usdcClassic pc),
      t_asset_issuer = snd (wp_usdcClassic pc), t_networkPassphrase = toWalletNetwork cl n\<rparr>"
    using i by (auto simp: trustlineIntent_def requirePool_def present_Some split: option.splits)
  have e: "envelope_fee ?b = Some f"
    using fee by (simp add: envelope_fee_def num_text_reads_back del: num_text.simps)
  have p: "ba_passphrase ?b = toWalletNetwork cl n" "ba_source ?b = address" "ba_ops ?b = [BuildChangeTrust (bc_usdcClassic cfg)]"
    by (simp_all add: pass)
  obtain tx where
    tx: "fromXDR (cl_sdk cl) x (toWalletNetwork cl n) = Some (Classic tx)" "tx_source tx = address"
      "list_all2 decoded_op [BuildChangeTrust (bc_usdcClassic cfg)] (tx_operations tx)"
      "BigInt_of_string (tx_fee tx) = Some f"
    using sdk_read_fee [OF sdk b e, unfolded p] by blast
  from tx(3) obtain op where op: "tx_operations tx = [op]" "decoded_op (BuildChangeTrust (bc_usdcClassic cfg)) op"
    by (auto simp: list_all2_Cons1)
  have "bc_usdcClassic cfg = IssuedAsset (fst (wp_usdcClassic pc)) (snd (wp_usdcClassic pc))"
    using same by (simp add: same_pool_def)
  then have "trustline_intended i tx" using op by (auto simp: trustline_intended_def own_source_def i')
  moreover have "fee_within 100000 tx" using fee(2,3) by (intro fee_withinI [OF tx(4)]) simp_all
  ultimately show ?thesis using tx(1,2) pass(2) by (simp add: trustline.accepts MAX_TRUSTLINE_FEE_STROOPS_def i')
qed

section \<open>The endpoints\<close>

lemma blend_asset_name [simp]: "blend_asset (Some (asset_name a)) = Inr a"
  by (cases a) (simp_all add: blend_asset_def)

lemma resolveBlend_named:
  "resolveBlendNetwork env (JString (network_name n)) =
     (if n = Mainnet \<and> \<not> isMainnetBlendEnabled env then Inl (HttpForbidden ''Mainnet Blend deposits are not enabled.'') else Inr n)"
  by (cases n) (simp_all add: resolveBlendNetwork_def resolve_network_def is_nullish_def)

lemma resolveBlend_mainnet: "resolveBlendNetwork env v = Inr Mainnet \<Longrightarrow> isMainnetBlendEnabled env"
  by (auto simp: resolveBlendNetwork_def resolve_network_def split: if_splits)

lemma blendDeposit_resolved:
  assumes "blendDeposit w (blend_body address asset amount n slug) = Inr (r, evs)" "STELLAR_PUBKEY_RE address"
  shows "buildBlendDeposit w (blend_params address asset amount n (Some slug)) = Inr r
    \<and> assert_cap (w_env w) n (parseFloat amount) (asset_name asset) = Inr ()
    \<and> resolveBlendNetwork (w_env w) (JString (network_name n)) = Inr n"
  using assms(1)
  by (auto simp: blendDeposit_def blend_body_def positive_amount_def Let_def
      dest!: require_own_address [OF assms(2)] split: if_splits dest: resolve_named_network(2))

lemma blendDeposit_Inr:
  assumes "blendDeposit w (blend_body address asset amount n slug) = Inr (r, evs)" "STELLAR_PUBKEY_RE address"
  shows "buildBlendDeposit w (blend_params address asset amount n (Some slug)) = Inr r"
    and "n = Mainnet \<Longrightarrow> isMainnetBlendEnabled (w_env w) \<and> \<not> js_gt (parseFloat amount) (mainnetMaxSendXlm (w_env w))"
  using blendDeposit_resolved [OF assms]
  by (auto simp: assert_cap_def Let_def split: if_splits dest: resolveBlend_mainnet)

lemma blendWithdraw_Inr:
  assumes "blendWithdraw w (blend_body address asset amount n slug) = Inr (r, evs)" "STELLAR_PUBKEY_RE address"
  shows "buildBlendWithdraw w (blend_params address asset amount n (Some slug)) = Inr r"
  using assms(1)
  by (auto simp: blendWithdraw_def blend_body_def positive_amount_def Let_def
      dest!: require_own_address [OF assms(2)] split: if_splits dest: resolve_named_network(2))

end
