(* ===== verification/Actions_Example.thy ===== *)
theory Actions_Example
  imports Blend_Envelopes
begin

text \<open>
  A concrete world for the action endpoints: one user, an SDK whose envelope text is a letter and the fee,
  a simulation that always succeeds; the deposits and the swap it builds.
\<close>

section \<open>A concrete world\<close>

definition ax_user :: string where "ax_user = CHR ''G'' # replicate 55 (CHR ''A'')"

definition ax_public :: string where "ax_public = ''Public Global Stellar Network ; September 2015''"

definition ax_pass :: "ActionNetwork \<Rightarrow> string" where
  "ax_pass n = (case n of Testnet \<Rightarrow> TESTNET_NETWORK_PASSPHRASE | Mainnet \<Rightarrow> ax_public)"

definition ax_submit :: "ActionNetwork \<Rightarrow> int \<Rightarrow> BuilderOp" where
  "ax_submit n units =
     BuildSubmit (case n of Testnet \<Rightarrow> TESTNET_BLEND_POOL | Mainnet \<Rightarrow> MAINNET_BLEND_POOL)
       \<lparr>sa_from = ax_user, sa_spender = ax_user, sa_to = ax_user,
        sa_requests = [(2, case n of Testnet \<Rightarrow> TESTNET_XLM_SAC | Mainnet \<Rightarrow> MAINNET_XLM_SAC, units)]\<rparr>"

definition ax_swap_ops :: "BuilderOp list" where
  "ax_swap_ops =
     [BuildChangeTrust TESTNET_USDC_SDEX,
      BuildPathPayment \<lparr>pp_sendAsset = NativeAsset, pp_sendAmount = ''10'', pp_destination = ax_user,
        pp_destAsset = TESTNET_USDC_SDEX, pp_destMin = ''18.5'', pp_path = []\<rparr>]"

definition ax_env :: Env where
  "ax_env = \<lparr>env_var = (\<lambda>k. if k = ''ACTIONS_MAINNET_BLEND_ENABLED'' then Some ''true'' else None),
             env_date = (\<lambda>_. None), env_url = (\<lambda>_. None)\<rparr>"

definition ax_env_off :: Env where
  "ax_env_off = \<lparr>env_var = (\<lambda>_. None), env_date = (\<lambda>_. None), env_url = (\<lambda>_. None)\<rparr>"

text \<open>An SDK whose envelope text is a letter and the fee: a deposit of \<open>units\<close> or the swap, of one user.\<close>

definition ax_build :: "ActionNetwork \<Rightarrow> int \<Rightarrow> BuildArgs \<Rightarrow> string option" where
  "ax_build n units b =
     (if ba_source b = ax_user \<and> ba_passphrase b = ax_pass n then
        if ba_ops b = [ax_submit n units] then
          (case ba_soroban b of
             None \<Rightarrow> Some (CHR ''s'' # ba_fee b)
           | Some (_, fee) \<Rightarrow> if ba_fee b = ''10000'' \<and> fee = Num 150000 then Some ''d160000'' else None)
        else if ba_ops b = ax_swap_ops \<and> ba_fee b = ''10000'' \<and> ba_soroban b = None then Some ''w20000''
        else None
      else None)"

definition ax_world :: "Env \<Rightarrow> ActionNetwork \<Rightarrow> int \<Rightarrow> ActionsWorld" where
  "ax_world env n units =
     \<lparr>w_env = env, w_public = ax_public, w_getAccount = (\<lambda>_ _. Some ''7''), w_loadAccount = (\<lambda>_ _. None),
      w_simulate = (\<lambda>_ _. SimSuccess ''100000'' \<lparr>sl_instructions = Num 1000, sl_diskReadBytes = Num 200, sl_writeBytes = Num 100\<rparr>),
      w_strictSendPaths = (\<lambda>_ _ _ _. None), w_pool = (\<lambda>_ _ _ _. None), w_asset_ok = (\<lambda>_ _. True),
      w_amount_ok = (\<lambda>_. True), w_assembles = (\<lambda>_. True), w_build = ax_build n units\<rparr>"

definition ax_decoded_ops :: "ActionNetwork \<Rightarrow> int \<Rightarrow> char \<Rightarrow> operation list" where
  "ax_decoded_ops n units c =
     (if c = CHR ''w'' then
        [OpChangeTrust \<lparr>ct_source = None, ct_line = LineAsset (decoded_asset TESTNET_USDC_SDEX), ct_limit = ''1''\<rparr>,
         OpPathPaymentStrictSend \<lparr>p_source = None, p_sendAsset = AssetNative, p_sendAmount = ''10.0000000'',
           p_destination = ax_user, p_destAsset = decoded_asset TESTNET_USDC_SDEX, p_destMin = ''18.5000000'', p_path = []\<rparr>]
      else
        [OpInvokeHostFunction \<lparr>ih_source = None, ih_func = Some
           \<lparr>contractId = (case n of Testnet \<Rightarrow> TESTNET_BLEND_POOL | Mainnet \<Rightarrow> MAINNET_BLEND_POOL), fnName = ''submit'',
            call_args = [Some (NString ax_user), Some (NString ax_user), Some (NString ax_user),
              Some (NArray [request_native (2, case n of Testnet \<Rightarrow> TESTNET_XLM_SAC | Mainnet \<Rightarrow> MAINNET_XLM_SAC, units)])]\<rparr>\<rparr>])"

definition ax_client :: "ActionNetwork \<Rightarrow> int \<Rightarrow> Client" where
  "ax_client n units =
     \<lparr>cl_sdk = \<lparr>fromXDR = (\<lambda>x p. case x of [] \<Rightarrow> None | c # fee \<Rightarrow>
          Some (Classic \<lparr>tx_source = ax_user, tx_fee = fee, tx_operations = ax_decoded_ops n units c\<rparr>)),
        Networks_TESTNET = TESTNET_NETWORK_PASSPHRASE, Networks_PUBLIC = ax_public\<rparr>,
      cl_WalletNetwork_TESTNET = TESTNET_NETWORK_PASSPHRASE, cl_WalletNetwork_PUBLIC = ax_public,
      cl_blend_flag = None, cl_swap_flag = None\<rparr>"

lemma ax_amounts: "decoded_amount ''10'' ''10.0000000''" "decoded_amount ''18.5'' ''18.5000000''"
  by code_simp+

lemma ax_fees: "BigInt_of_string ''10000'' = Some 10000" "BigInt_of_string ''160000'' = Some 160000"
  "BigInt_of_string ''20000'' = Some 20000"
  by code_simp+

lemma ax_reads_back: "sdk_reads_back (ax_world env n units) (cl_sdk (ax_client n units))"
  unfolding sdk_reads_back_def
proof (intro allI impI)
  fix b x
  assume "w_build (ax_world env n units) b = Some x"
  then have x: "ax_build n units b = Some x" by (simp add: ax_world_def)
  have swap: "list_all2 decoded_op ax_swap_ops (ax_decoded_ops n units (CHR ''w''))"
    by (simp add: ax_swap_ops_def ax_decoded_ops_def ax_amounts)
  have dep: "list_all2 decoded_op [ax_submit n units] (ax_decoded_ops n units c)" if "c \<noteq> CHR ''w''" for c
    using that by (simp add: ax_submit_def ax_decoded_ops_def)
  have len: "length ax_swap_ops = 2" by (simp add: ax_swap_ops_def)
  from x have src: "ba_source b = ax_user" by (simp add: ax_build_def split: if_splits)
  from x consider
      (sim) "ba_ops b = [ax_submit n units]" "ba_soroban b = None" "x = CHR ''s'' # ba_fee b"
    | (dep) l where "ba_ops b = [ax_submit n units]" "ba_soroban b = Some (l, Num 150000)" "ba_fee b = ''10000''" "x = ''d160000''"
    | (swap) "ba_ops b = ax_swap_ops" "ba_soroban b = None" "ba_fee b = ''10000''" "x = ''w20000''"
    unfolding ax_build_def by (fastforce split: if_split_asm option.split_asm)
  then show "\<exists>tx. fromXDR (cl_sdk (ax_client n units)) x (ba_passphrase b) = Some (Classic tx) \<and> decoded_from b tx"
  proof cases
    case sim
    then show ?thesis using dep src
      by (simp add: ax_client_def decoded_from_def envelope_fee_def split: option.split)
  next
    case dep
    then show ?thesis using \<open>\<And>c. c \<noteq> CHR ''w'' \<Longrightarrow> _\<close> src
      by (simp add: ax_client_def decoded_from_def envelope_fee_def ax_fees)
  next
    case swap
    then show ?thesis using \<open>list_all2 decoded_op ax_swap_ops _\<close> src
      by (simp add: ax_client_def decoded_from_def envelope_fee_def ax_fees len)
  qed
qed

text \<open>The client beside that world.\<close>

abbreviation cx_client :: Client where
  "cx_client \<equiv> ax_client Testnet 15000000"

end
