(* ===== verification/Actions_Runs.thy ===== *)
theory Actions_Runs
  imports Actions_Example
begin

text \<open>
  Concrete answers of the action endpoints in the example world: a deposit, a deposit whose amount text evades the
  cap, and a swap.
\<close>

definition ax_blend_body :: "ActionNetwork \<Rightarrow> string \<Rightarrow> BlendBody" where
  "ax_blend_body n amount = blend_body ax_user XLM amount n (web_default_slug n)"

definition ax_deposit :: "ActionNetwork \<Rightarrow> string \<Rightarrow> int \<Rightarrow> BlendResult" where
  "ax_deposit n amount units =
     (case blendDeposit (ax_world ax_env n units) (ax_blend_body n amount) of Inr (r, _) \<Rightarrow> r | Inl _ \<Rightarrow> undefined)"

lemma ax_deposit_Inr:
  "blendDeposit (ax_world ax_env Mainnet 15000000) (ax_blend_body Mainnet ''1.5'') = Inr (ax_deposit Mainnet ''1.5'' 15000000,
     [blend_event ''blend-deposit-build'' (blend_params ax_user XLM ''1.5'' Mainnet (Some ''blend-fixed-pool''))
        [(''venue'', ''blend''), (''pool'', ''blend-fixed-pool''), (''asset'', ''XLM''), (''amount'', ''1.5'')]])"
  "br_xdr (ax_deposit Mainnet ''1.5'' 15000000) = ''d160000''"
  by code_simp+

lemma ax_bypass:
  "blendDeposit (ax_world ax_env Mainnet (10 ^ 13)) (ax_blend_body Mainnet ''1000000.00000000e-9'')
     = Inr (ax_deposit Mainnet ''1000000.00000000e-9'' (10 ^ 13),
     [blend_event ''blend-deposit-build'' (blend_params ax_user XLM ''1000000.00000000e-9'' Mainnet (Some ''blend-fixed-pool''))
        [(''venue'', ''blend''), (''pool'', ''blend-fixed-pool''), (''asset'', ''XLM''), (''amount'', ''1000000.00000000e-9'')]])"
  "br_xdr (ax_deposit Mainnet ''1000000.00000000e-9'' (10 ^ 13)) = ''d160000''"
  by code_simp+

definition ax_usdc :: SwapAsset where
  "ax_usdc = assetsFor Testnet ! 1"

lemma ax_swap_built:
  "\<exists>r evs. sdexSwap (ax_world ax_env_off Testnet 1)
      (swap_body ax_user \<lparr>sw_code = ''XLM'', sw_issuer = None\<rparr> ax_usdc ''10'' ''18.5'' Testnet) = Inr (r, evs) \<and> sx_xdr r = ''w20000''"
proof -
  have "(case sdexSwap (ax_world ax_env_off Testnet 1)
      (swap_body ax_user \<lparr>sw_code = ''XLM'', sw_issuer = None\<rparr> ax_usdc ''10'' ''18.5'' Testnet) of
        Inl _ \<Rightarrow> False | Inr (r, evs) \<Rightarrow> sx_xdr r = ''w20000'')"
    by code_simp
  then show ?thesis by (auto split: sum.splits)
qed

end
