(* ===== verification/Actions_Properties.thy ===== *)
theory Actions_Properties
  imports Actions_Runs
begin

text \<open>
  The properties of the action endpoints: the launch controls, what a returned deposit contains, the
  limits of the amount guards, and that what the server builds is what the client's gates sign.
\<close>

section \<open>The launch controls\<close>

text \<open>Two worlds that differ only in what the main network holds.\<close>

definition same_testnet :: "ActionsWorld \<Rightarrow> ActionsWorld \<Rightarrow> bool" where
  "same_testnet w w' \<longleftrightarrow>
     w_env w = w_env w' \<and> w_public w = w_public w'
     \<and> w_getAccount w Testnet = w_getAccount w' Testnet \<and> w_loadAccount w Testnet = w_loadAccount w' Testnet
     \<and> w_simulate w Testnet = w_simulate w' Testnet \<and> w_strictSendPaths w Testnet = w_strictSendPaths w' Testnet
     \<and> w_pool w TESTNET_NETWORK_PASSPHRASE = w_pool w' TESTNET_NETWORK_PASSPHRASE
     \<and> w_asset_ok w = w_asset_ok w' \<and> w_amount_ok w = w_amount_ok w' \<and> w_assembles w = w_assembles w'
     \<and> w_build w = w_build w'"

lemma resolve_off:
  "\<not> enabled \<Longrightarrow> resolve_network enabled m v = Inr n \<Longrightarrow> n = Testnet"
  "resolve_network False m (JString ''mainnet'') = Inl (HttpForbidden m)"
  by (auto simp: resolve_network_def is_nullish_def split: if_splits)

lemma http_bind_cong:
  "(\<And>a. m = Inr a \<Longrightarrow> f a = g a) \<Longrightarrow> http_bind m f = http_bind m g"
  by (cases m) (simp_all add: http_bind_def)

lemma testnet_pool_passphrase:
  "resolveBlendPool env pp Testnet s = Inr cfg \<Longrightarrow> bc_passphrase cfg = TESTNET_NETWORK_PASSPHRASE"
  by (auto simp: resolveBlendPool_Inr server_config_def)

lemma same_testnetD:
  assumes "same_testnet w w'"
  shows "w_env w' = w_env w" "w_public w' = w_public w" "w_getAccount w' Testnet = w_getAccount w Testnet"
    "w_loadAccount w' Testnet = w_loadAccount w Testnet" "w_simulate w' Testnet = w_simulate w Testnet"
    "w_strictSendPaths w' Testnet = w_strictSendPaths w Testnet"
    "w_pool w' TESTNET_NETWORK_PASSPHRASE = w_pool w TESTNET_NETWORK_PASSPHRASE"
    "w_asset_ok w' = w_asset_ok w" "w_amount_ok w' = w_amount_ok w" "w_assembles w' = w_assembles w"
    "w_build w' = w_build w"
  using assms by (simp_all add: same_testnet_def)

lemma same_testnet_submit:
  assumes same: "same_testnet w w'"
  shows "simulateAndAssembleSubmit w' Testnet = simulateAndAssembleSubmit w Testnet"
  unfolding simulateAndAssembleSubmit_def fun_eq_iff same_testnetD [OF same] by blast

lemma same_testnet_deposit:
  assumes same: "same_testnet w w'" and n: "bp_network p = Testnet"
  shows "buildBlendDeposit w' p = buildBlendDeposit w p"
  unfolding buildBlendDeposit_def blend_start_def trustline_step_def n same_testnetD [OF same]
    same_testnet_submit [OF same] ..

lemma same_testnet_withdraw:
  assumes same: "same_testnet w w'" and n: "bp_network p = Testnet"
  shows "buildBlendWithdraw w' p = buildBlendWithdraw w p"
  unfolding buildBlendWithdraw_def blend_start_def n same_testnetD [OF same] same_testnet_submit [OF same] ..

lemma same_testnet_position:
  assumes same: "same_testnet w w'"
  shows "getBlendPosition w' a Testnet s = getBlendPosition w a Testnet s"
  unfolding getBlendPosition_def same_testnetD [OF same]
  by (rule http_bind_cong) (simp only: testnet_pool_passphrase same_testnetD [OF same])

lemma same_testnet_quote:
  assumes same: "same_testnet w w'"
  shows "quoteSdexSwap w' a b t Testnet = quoteSdexSwap w a b t Testnet"
  unfolding quoteSdexSwap_def resolveAsset_def same_testnetD [OF same] ..

lemma same_testnet_swap:
  assumes same: "same_testnet w w'" and n: "ss_network p = Testnet"
  shows "buildSdexSwap w' p = buildSdexSwap w p"
  unfolding buildSdexSwap_def resolveAsset_def swap_tx_def n same_testnetD [OF same] ..

lemma blend_endpoints_off:
  assumes "\<not> isMainnetBlendEnabled (w_env w)" "same_testnet w w'"
  shows "blendDeposit w body = blendDeposit w' body" "blendWithdraw w body = blendWithdraw w' body"
    "blendPosition w body = blendPosition w' body"
proof -
  have e: "w_env w' = w_env w" "w_public w' = w_public w" using assms(2) by (simp_all add: same_testnet_def)
  have n: "resolveBlendNetwork (w_env w) v = Inr m \<Longrightarrow> m = Testnet" for v m
    using resolve_off(1) [OF assms(1)] by (simp add: resolveBlendNetwork_def)
  have slug: "pool_slug w' p = pool_slug w p" for p by (simp only: pool_slug_def e)
  note same = same_testnet_deposit [OF assms(2)] same_testnet_withdraw [OF assms(2)] same_testnet_position [OF assms(2)]
  show "blendDeposit w body = blendDeposit w' body"
    unfolding blendDeposit_def e slug
    by (intro http_bind_cong) (auto dest!: n simp: same blend_params_def Let_def intro!: http_bind_cong split: prod.splits)
  show "blendWithdraw w body = blendWithdraw w' body"
    unfolding blendWithdraw_def e slug
    by (intro http_bind_cong) (auto dest!: n simp: same blend_params_def Let_def intro!: http_bind_cong split: prod.splits)
  show "blendPosition w body = blendPosition w' body"
    unfolding blendPosition_def e by (intro http_bind_cong) (auto dest!: n simp: same)
qed

lemma swap_endpoints_off:
  assumes "\<not> isMainnetEnabled (w_env w)" "same_testnet w w'"
  shows "sdexQuote w body = sdexQuote w' body" "sdexSwap w body = sdexSwap w' body"
proof -
  have e: "w_env w' = w_env w" using assms(2) by (simp add: same_testnet_def)
  have n: "resolveSwapNetwork (w_env w) v = Inr m \<Longrightarrow> m = Testnet" for v m
    using resolve_off(1) [OF assms(1)] by (simp add: resolveSwapNetwork_def)
  show "sdexQuote w body = sdexQuote w' body"
    unfolding sdexQuote_def e
    by (intro http_bind_cong) (auto dest!: n simp: same_testnet_quote [OF assms(2)] intro!: http_bind_cong split: prod.splits)
  show "sdexSwap w body = sdexSwap w' body"
    unfolding sdexSwap_def e
    by (intro http_bind_cong) (auto dest!: n simp: same_testnet_swap [OF assms(2)] intro!: http_bind_cong split: prod.splits)
qed

text \<open>C23: with both launch controls unset, a request for the main network is refused with 403 by all five
  endpoints, and nothing the main network holds can change any answer: two worlds that agree on the
  test network answer every request alike, whatever its body.\<close>

theorem mainnet_actions_fail_closed:
  assumes off: "env_var (w_env w) ''ACTIONS_MAINNET_ENABLED'' = None"
      "env_var (w_env w) ''ACTIONS_MAINNET_BLEND_ENABLED'' = None"
    and same: "same_testnet w w'"
  shows "(bb_network b = JString ''mainnet'' \<longrightarrow>
      blendDeposit w b = Inl (HttpForbidden ''Mainnet Blend deposits are not enabled.'')
      \<and> blendWithdraw w b = Inl (HttpForbidden ''Mainnet Blend deposits are not enabled.'')
      \<and> blendPosition w b = Inl (HttpForbidden ''Mainnet Blend deposits are not enabled.''))
    \<and> (xb_network x = JString ''mainnet'' \<longrightarrow>
      sdexQuote w x = Inl (HttpForbidden ''Mainnet actions are not enabled.'')
      \<and> sdexSwap w x = Inl (HttpForbidden ''Mainnet actions are not enabled.''))
    \<and> blendDeposit w b = blendDeposit w' b \<and> blendWithdraw w b = blendWithdraw w' b
    \<and> blendPosition w b = blendPosition w' b \<and> sdexQuote w x = sdexQuote w' x \<and> sdexSwap w x = sdexSwap w' x"
proof -
  have no: "\<not> isMainnetEnabled (w_env w)" "\<not> isMainnetBlendEnabled (w_env w)"
    using off by (simp_all add: isMainnetEnabled_def isMainnetBlendEnabled_def)
  show ?thesis
    using blend_endpoints_off [OF no(2) same, of b] swap_endpoints_off [OF no(1) same, of x]
    by (simp add: blendDeposit_def blendWithdraw_def blendPosition_def sdexQuote_def sdexSwap_def no resolve_off(2)
        resolveBlendNetwork_def resolveSwapNetwork_def)
qed

section \<open>What a deposit commits\<close>

lemma blend_asset_Inr: "blend_asset v = Inr a \<longleftrightarrow> v = Some (asset_name a)"
  by (cases a) (auto simp: blend_asset_def)

lemma blendDeposit_parts:
  assumes "blendDeposit w body = Inr (r, evs)"
  obtains n address asset amount where
    "resolveBlendNetwork (w_env w) (bb_network body) = Inr n" "require_address (bb_address body) = Inr address"
    "bb_asset body = Some (asset_name asset)" "bb_amount body = Some amount"
    "assert_cap (w_env w) n (parseFloat amount) (asset_name asset) = Inr ()"
    "buildBlendDeposit w (blend_params address asset amount n (bb_pool body)) = Inr r"
  using assms
  by (auto simp: blendDeposit_def positive_amount_def blend_asset_Inr Let_def split: option.splits if_splits)

lemma mainnet_cap_number: "mainnetMaxSendXlm env \<noteq> NaN"
  by (auto simp: mainnetMaxSendXlm_def Let_def)

lemma fl_number: "fl x \<noteq> NaN"
  using fl_mono [of x x] by auto

text \<open>A deposit envelope the server returns is the one the SDK built from a transaction of the requested
  address whose only operation is a \<open>submit\<close> on the resolved pool, with that address as from, spender and to,
  and one SupplyCollateral request for the asset's own contract; on the main network, for an amount in plain
  decimal notation, the committed amount is within the configured cap.\<close>

theorem deposit_builds_capped_submit:
  assumes "blendDeposit w body = Inr (r, evs)" "br_xdr r \<noteq> []"
  shows "\<exists>n cfg address asset amount units b. resolveBlendNetwork (w_env w) (bb_network body) = Inr n
    \<and> resolveBlendPool (w_env w) (w_public w) n (bb_pool body) = Inr cfg
    \<and> require_address (bb_address body) = Inr address
    \<and> bb_asset body = Some (asset_name asset) \<and> asset \<in> set (bc_assets cfg)
    \<and> bb_amount body = Some amount \<and> toI128 amount 7 = Some units
    \<and> w_build w b = Some (br_xdr r) \<and> ba_source b = address \<and> ba_passphrase b = bc_passphrase cfg
    \<and> ba_ops b = [BuildSubmit (bc_poolId cfg)
         \<lparr>sa_from = address, sa_spender = address, sa_to = address, sa_requests = [(2, bc_sac cfg asset, units)]\<rparr>]
    \<and> (n = Mainnet \<and> amount_text amount \<longrightarrow>
         0 \<le> units \<and> js_le (fl (of_int units / 10 ^ 7)) (mainnetMaxSendXlm (w_env w)))"
proof -
  from assms(1) obtain n address asset amount where
    p: "resolveBlendNetwork (w_env w) (bb_network body) = Inr n" "require_address (bb_address body) = Inr address"
      "bb_asset body = Some (asset_name asset)" "bb_amount body = Some amount"
    and cap: "assert_cap (w_env w) n (parseFloat amount) (asset_name asset) = Inr ()"
    and built: "buildBlendDeposit w (blend_params address asset amount n (bb_pool body)) = Inr r"
    by (rule blendDeposit_parts)
  have d: "ASSET_DECIMALS a = 7" for a by (cases a) (simp_all add: ASSET_DECIMALS_def)
  from buildBlendDeposit_Inr [OF built assms(2)] obtain cfg seq b units limits where
    q: "resolveBlendPool (w_env w) (w_public w) n (bb_pool body) = Inr cfg" "asset \<in> set (bc_assets cfg)"
      "toI128 amount 7 = Some units" "w_build w b = Some (br_xdr r)"
    and b: "b = submit_tx cfg address seq (blend_op cfg SupplyCollateral address asset units)
              (num_text (fe_inclusion (br_fee r))) (Some (limits, fe_resource (br_fee r)))"
    by (auto simp: submit_of_def blend_params_def d)
  have "0 \<le> units \<and> js_le (fl (of_int units / 10 ^ 7)) (mainnetMaxSendXlm (w_env w))"
    if "n = Mainnet" "amount_text amount"
  proof -
    note below = toI128_below [OF that(2) q(3)]
    have "js_le (fl (of_int units / 10 ^ 7)) (parseFloat amount)"
      unfolding parseFloat_amount [OF that(2)] by (rule fl_mono) (use below(2) in \<open>simp add: field_simps\<close>)
    moreover have "js_le (parseFloat amount) (mainnetMaxSendXlm (w_env w))"
      using cap that(1) parseFloat_amount [OF that(2)] fl_number mainnet_cap_number [of "w_env w"]
        js_not_le_lt [of "parseFloat amount" "mainnetMaxSendXlm (w_env w)"]
      by (auto simp: assert_cap_def Let_def)
    ultimately show ?thesis using below(1) js_le_trans by blast
  qed
  with p q show ?thesis
    by (intro exI conjI) (auto simp: b submit_tx_def blend_op_def SupplyCollateral_def)
qed

theorem mainnet_actions_fail_closed_witness:
  "blendDeposit (ax_world ax_env_off Testnet 1) (ax_blend_body Mainnet ''1.5'')
     = Inl (HttpForbidden ''Mainnet Blend deposits are not enabled.'')
   \<and> blendWithdraw (ax_world ax_env_off Testnet 1) (ax_blend_body Testnet ''2'')
     = blendWithdraw (ax_world ax_env_off Testnet 1 \<lparr>w_getAccount := (\<lambda>n _. if n = Testnet then Some ''7'' else None)\<rparr>)
         (ax_blend_body Testnet ''2'')"
proof -
  let ?w = "ax_world ax_env_off Testnet 1"
  let ?w' = "?w \<lparr>w_getAccount := (\<lambda>n _. if n = Testnet then Some ''7'' else None)\<rparr>"
  have off: "env_var (w_env ?w) k = None" for k by (simp add: ax_world_def ax_env_off_def)
  have same: "same_testnet ?w ?w'" by (simp add: same_testnet_def ax_world_def fun_eq_iff)
  have "bb_network (ax_blend_body Mainnet ''1.5'') = JString ''mainnet''" by (simp add: ax_blend_body_def blend_body_def)
  with mainnet_actions_fail_closed [OF off off same, of "ax_blend_body Mainnet ''1.5''"]
    mainnet_actions_fail_closed [OF off off same, of "ax_blend_body Testnet ''2''"]
  show ?thesis by blast
qed

theorem deposit_builds_capped_submit_witness:
  "\<exists>units. toI128 ''1.5'' 7 = Some units \<and> js_le (fl (of_int units / 10 ^ 7)) (mainnetMaxSendXlm ax_env)"
proof -
  have ne: "br_xdr (ax_deposit Mainnet ''1.5'' 15000000) \<noteq> []" by (simp add: ax_deposit_Inr(2))
  have t: "amount_text ''1.5''" by code_simp
  have n: "resolveBlendNetwork ax_env (bb_network (ax_blend_body Mainnet ''1.5'')) = Inr Mainnet" by code_simp
  have e: "w_env (ax_world ax_env Mainnet 15000000) = ax_env" "bb_amount (ax_blend_body Mainnet ''1.5'') = Some ''1.5''"
    by (simp_all add: ax_world_def ax_blend_body_def blend_body_def)
  from deposit_builds_capped_submit [OF ax_deposit_Inr(1) ne, unfolded e n] t show ?thesis by auto
qed

text \<open>C37: the cap on a main-network deposit is applied to what \<open>parseFloat\<close> reads and the committed amount is
  what \<open>toI128\<close> cuts at the first point: for the amount \<open>1000000.00000000e-9\<close> the first is 0.001, within the
  default cap of 100, and the envelope returned commits one million XLM.\<close>

theorem deposit_cap_bypassed:
  "mainnetMaxSendXlm ax_env = Num 100
   \<and> js_lt (parseFloat ''1000000.00000000e-9'') (Num 1)
   \<and> (\<exists>r evs b. blendDeposit (ax_world ax_env Mainnet (10 ^ 13)) (ax_blend_body Mainnet ''1000000.00000000e-9'') = Inr (r, evs)
        \<and> w_build (ax_world ax_env Mainnet (10 ^ 13)) b = Some (br_xdr r)
        \<and> ba_ops b = [BuildSubmit MAINNET_BLEND_POOL
             \<lparr>sa_from = ax_user, sa_spender = ax_user, sa_to = ax_user,
              sa_requests = [(2, MAINNET_XLM_SAC, 1000000 * 10 ^ 7)]\<rparr>])"
proof -
  let ?w = "ax_world ax_env Mainnet (10 ^ 13)" and ?t = "''1000000.00000000e-9''"
  let ?b = "\<lparr>ba_source = ax_user, ba_sequence = [], ba_fee = ''10000'', ba_passphrase = ax_public,
      ba_ops = [ax_submit Mainnet (10 ^ 13)], ba_timeout = 300,
      ba_soroban = Some (\<lparr>sl_instructions = Num 0, sl_diskReadBytes = Num 0, sl_writeBytes = Num 0\<rparr>, Num 150000)\<rparr>"
  have "mainnetMaxSendXlm ax_env = Num 100" "js_lt (parseFloat ?t) (Num 1)" by code_simp+
  moreover have "w_build ?w ?b = Some (br_xdr (ax_deposit Mainnet ?t (10 ^ 13)))"
    unfolding ax_bypass(2) by (simp add: ax_world_def ax_build_def ax_pass_def)
  moreover have "ba_ops ?b = [BuildSubmit MAINNET_BLEND_POOL
             \<lparr>sa_from = ax_user, sa_spender = ax_user, sa_to = ax_user,
              sa_requests = [(2, MAINNET_XLM_SAC, 1000000 * 10 ^ 7)]\<rparr>]"
    by (simp add: ax_submit_def)
  ultimately show ?thesis using ax_bypass(1) by blast
qed

section \<open>Client and server agree\<close>

text \<open>The client's registry and the server's resolve every pool slug, absent ones included, alike: both
  refuse, or both name a pool with the same contract, label, assets, asset contracts, decimals, USDC issuer
  and Horizon; and every asset the client offers for a main-network swap is on the server's whitelist.\<close>

theorem registries_agree:
  "(case blendPoolFor n s of
      None \<Rightarrow> \<exists>m. resolveBlendPool env pp n s = Inl (HttpBadRequest m)
    | Some pool \<Rightarrow> \<exists>cfg. resolveBlendPool env pp n s = Inr cfg \<and> same_pool pool cfg)
   \<and> list_all (\<lambda>a. isWhitelistedMainnetAsset \<lparr>ref_code = sw_code a, ref_issuer = sw_issuer a\<rparr>) (assetsFor Mainnet)"
  by (rule conjI [OF registries_agree_lemma offered_assets_whitelisted])



text \<open>C19: the deposit, the trustline and the withdraw the server builds for a pool of the client's registry
  pass the client's gates for the intents the card derives from the same choice: with an SDK that decodes
  what it built, for an amount in plain notation with at most seven decimals and fees below the ceilings.\<close>

theorem built_blend_passes_gates:
  assumes sdk: "sdk_reads_back w (cl_sdk cl)"
    and pool: "blendPoolFor n s = Some pc"
    and cfg: "resolveBlendPool (w_env w) (w_public w) n (Some (wp_slug pc)) = Inr cfg"
    and net: "toWalletNetwork cl n = bc_passphrase cfg" "toWalletNetwork cl n \<in> set (RECOGNIZED_NETWORKS (cl_sdk cl))"
    and addr: "STELLAR_PUBKEY_RE address"
    and amount: "amount_text amount" "length (snd (amount_parts amount)) \<le> 7"
    and i: "blendIntent (Some pc) asset (Some address) amount (toWalletNetwork cl n) = Inr i"
    and j: "trustlineIntent (Some pc) (Some address) (toWalletNetwork cl n) = Inr j"
    and fee: "inclusionFeeStroops (w_env w) = jsint f" "0 \<le> f" "f \<le> 100000"
  shows "(blendDeposit w (blend_body address asset amount n (wp_slug pc)) = Inr (r, evs) \<longrightarrow>
      (br_xdr r \<noteq> [] \<and> fe_resource (br_fee r) = jsint g \<and> 0 \<le> g \<and> f + g \<le> 20000000 \<longrightarrow>
         validateDepositXdr (cl_sdk cl) (br_xdr r) i = Ok)
      \<and> (br_changetrustXdr r = Some x \<longrightarrow> validateTrustlineXdr (cl_sdk cl) x j = Ok))
    \<and> (blendWithdraw w (blend_body address asset amount n (wp_slug pc)) = Inr (r, evs) \<longrightarrow>
      br_xdr r \<noteq> [] \<and> fe_resource (br_fee r) = jsint g \<and> 0 \<le> g \<and> f + g \<le> 20000000 \<longrightarrow>
         validateWithdrawXdr (cl_sdk cl) (br_xdr r) i = Ok)"
proof (intro conjI impI; (elim conjE)?)
  let ?p = "blend_params address asset amount n (Some (wp_slug pc))"
  have cfg': "cfg' = cfg" if "submit_of w t ?p cfg' seq fe b" for t cfg' seq fe b
    using that cfg by (simp add: submit_of_def blend_params_def)
  have f': "fe_inclusion fe = jsint f" if "submit_of w t ?p cfg' seq fe b" for t cfg' seq fe b
    using that fee(1) by (simp add: submit_of_def)
  note accepted = submit_accepted [OF sdk pool net amount _ _ fee(2) _ _ i]
  {
    assume d: "blendDeposit w (blend_body address asset amount n (wp_slug pc)) = Inr (r, evs)"
    note built = blendDeposit_Inr(1) [OF d addr]
    {
      assume x: "br_xdr r \<noteq> []" and g: "fe_resource (br_fee r) = jsint g" "0 \<le> g" "f + g \<le> 20000000"
      from buildBlendDeposit_Inr [OF built x] obtain c seq b where
        b: "submit_of w SupplyCollateral ?p c seq (br_fee r) b" "w_build w b = Some (br_xdr r)" by blast
      note accepted [OF f' [OF b(1)] g b(1) [unfolded cfg' [OF b(1)]] b(2)]
      then show "validateDepositXdr (cl_sdk cl) (br_xdr r) i = Ok"
        by (auto simp: deposit.accepts MAX_DEPOSIT_FEE_STROOPS_def SUPPLY_COLLATERAL_def SupplyCollateral_def)
    }
    {
      assume x: "br_changetrustXdr r = Some x"
      from buildBlendDeposit_trustline [OF built x] obtain seq where
        "w_build w \<lparr>ba_source = address, ba_sequence = seq, ba_fee = num_text (inclusionFeeStroops (w_env w)),
           ba_passphrase = bc_passphrase cfg, ba_ops = [BuildChangeTrust (bc_usdcClassic cfg)], ba_timeout = 300,
           ba_soroban = None\<rparr> = Some x"
        using cfg by (auto simp: blend_params_def)
      then show "validateTrustlineXdr (cl_sdk cl) x j = Ok"
        by (rule trustline_accepted [OF sdk pool cfg net fee j])
    }
  }
  assume d: "blendWithdraw w (blend_body address asset amount n (wp_slug pc)) = Inr (r, evs)"
    and x: "br_xdr r \<noteq> []" and g: "fe_resource (br_fee r) = jsint g" "0 \<le> g" "f + g \<le> 20000000"
  from buildBlendWithdraw_Inr [OF blendWithdraw_Inr [OF d addr] x] obtain c seq b where
    b: "submit_of w WithdrawCollateral ?p c seq (br_fee r) b" "w_build w b = Some (br_xdr r)" by blast
  note accepted [OF f' [OF b(1)] g b(1) [unfolded cfg' [OF b(1)]] b(2)]
  then show "validateWithdrawXdr (cl_sdk cl) (br_xdr r) i = Ok"
    by (auto simp: withdraw.accepts MAX_DEPOSIT_FEE_STROOPS_def WITHDRAW_COLLATERAL_def WithdrawCollateral_def)
qed

theorem built_blend_passes_gates_witness:
  "\<exists>i. blendIntent (blendPoolFor Mainnet (Some ''blend-fixed-pool'')) XLM (Some ax_user) ''1.5'' ax_public = Inr i
     \<and> validateDepositXdr (cl_sdk (ax_client Mainnet 15000000)) ''d160000'' i = Ok"
proof -
  let ?w = "ax_world ax_env Mainnet 15000000" and ?cl = "ax_client Mainnet 15000000"
  have t: "toWalletNetwork ?cl Mainnet = ax_public" by (simp add: toWalletNetwork_def ax_client_def)
  have "blendPoolFor Mainnet (Some ''blend-fixed-pool'') \<noteq> None" by code_simp
  then obtain pc where pc: "blendPoolFor Mainnet (Some ''blend-fixed-pool'') = Some pc" by blast
  have slug: "wp_slug pc = ''blend-fixed-pool''"
    using pc [symmetric] by (simp add: blendPoolFor_def) (code_simp, simp)
  have "blendIntent (blendPoolFor Mainnet (Some ''blend-fixed-pool'')) XLM (Some ax_user) ''1.5'' ax_public = Inr (projr (blendIntent (blendPoolFor Mainnet (Some ''blend-fixed-pool'')) XLM (Some ax_user) ''1.5'' ax_public))"
    by code_simp
  then obtain i where i: "blendIntent (Some pc) XLM (Some ax_user) ''1.5'' ax_public = Inr i" using pc by auto
  have "trustlineIntent (blendPoolFor Mainnet (Some ''blend-fixed-pool'')) (Some ax_user) ax_public = Inr (projr (trustlineIntent (blendPoolFor Mainnet (Some ''blend-fixed-pool'')) (Some ax_user) ax_public))" by code_simp
  then obtain j where j: "trustlineIntent (Some pc) (Some ax_user) ax_public = Inr j" using pc by auto
  obtain cfg where cfg: "resolveBlendPool (w_env ?w) (w_public ?w) Mainnet (Some (wp_slug pc)) = Inr cfg"
    using registries_agree_lemma [of "w_env ?w" "w_public ?w" Mainnet "Some (wp_slug pc)"]
    by (auto simp: blendPoolFor_slug [OF pc])
  have net: "toWalletNetwork ?cl Mainnet = bc_passphrase cfg" "toWalletNetwork ?cl Mainnet \<in> set (RECOGNIZED_NETWORKS (cl_sdk ?cl))"
    using cfg unfolding t by (auto simp: resolveBlendPool_Inr server_config_def ax_world_def RECOGNIZED_NETWORKS_def ax_client_def)
  have a: "STELLAR_PUBKEY_RE ax_user" "amount_text ''1.5''" "length (snd (amount_parts ''1.5'')) \<le> 7" by code_simp+
  have f: "inclusionFeeStroops (w_env ?w) = jsint 10000"
    by (simp add: inclusionFeeStroops_def ax_world_def ax_env_def DEFAULT_INCLUSION_FEE_STROOPS_def)
  have g: "fe_resource (br_fee (ax_deposit Mainnet ''1.5'' 15000000)) = jsint 150000" by code_simp
  obtain evs where d: "blendDeposit ?w (blend_body ax_user XLM ''1.5'' Mainnet (wp_slug pc)) = Inr (ax_deposit Mainnet ''1.5'' 15000000, evs)"
    using ax_deposit_Inr(1) by (simp add: slug ax_blend_body_def web_default_slug_def)
  note gates = built_blend_passes_gates [OF ax_reads_back pc cfg net a i [folded t] j [folded t] f]
  from gates [of "ax_deposit Mainnet ''1.5'' 15000000" evs 150000] d g
  have "validateDepositXdr (cl_sdk ?cl) (br_xdr (ax_deposit Mainnet ''1.5'' 15000000)) i = Ok"
    by (simp add: ax_deposit_Inr(2))
  then show ?thesis using i by (auto simp: pc ax_deposit_Inr(2))
qed

text \<open>An amount of a live position is shown as a plain decimal text from which the client's gates and the
  server's builders read back exactly that amount, so the Max of a withdraw is the whole position.\<close>

theorem position_amount_roundtrip:
  assumes "0 \<le> v" "0 < d"
  shows "toI128 (fromI128 v d) d = Some v \<and> toScaled (fromI128 v d) (jsint (int d)) = Some v
    \<and> amount_value (fromI128 v d) = of_int v / 10 ^ d"
proof -
  have r: "amount_text (fromI128 v d)" "toI128 (fromI128 v d) d = Some v" "scale_amount (fromI128 v d) d = Some v"
    using fromI128_toI128 [OF assms] by simp_all
  have "of_int v = amount_value (fromI128 v d) * 10 ^ d" using scale_amount_Some [OF r(3)] by simp
  then show ?thesis using r by (simp add: toScaled_def field_simps)
qed

theorem position_amount_roundtrip_witness:
  "fromI128 15000000 7 = ''1.5000000'' \<and> toI128 ''1.5000000'' 7 = Some 15000000"
proof -
  have "fromI128 15000000 7 = ''1.5000000''" by code_simp
  then show ?thesis using position_amount_roundtrip [of 15000000 7] by simp
qed

end
