(* ===== verification/Flow.thy ===== *)
theory Flow
  imports Main
begin

text \<open>
  Asynchronous handlers as state passing with exceptions: a flow takes a state and gives a result or a
  thrown error, with the state after. \<open>wp m Q E s\<close> says that running \<open>m\<close> from \<open>s\<close> ends in \<open>Q\<close> or throws
  into \<open>E\<close>; it is computed along the structure of a flow.
\<close>

type_synonym ('s, 'e, 'a) flow = "'s \<Rightarrow> ('e + 'a) \<times> 's"

named_theorems flow_defs

definition fl_return :: "'a \<Rightarrow> ('s, 'e, 'a) flow" where
  [flow_defs]: "fl_return a = (\<lambda>s. (Inr a, s))"

definition fl_throw :: "'e \<Rightarrow> ('s, 'e, 'a) flow" where
  [flow_defs]: "fl_throw e = (\<lambda>s. (Inl e, s))"

definition fl_bind :: "('s, 'e, 'a) flow \<Rightarrow> ('a \<Rightarrow> ('s, 'e, 'b) flow) \<Rightarrow> ('s, 'e, 'b) flow" where
  [flow_defs]: "fl_bind m f = (\<lambda>s. case m s of (Inl e, t) \<Rightarrow> (Inl e, t) | (Inr a, t) \<Rightarrow> f a t)"

definition fl_read :: "('s \<Rightarrow> 'a) \<Rightarrow> ('s, 'e, 'a) flow" where
  [flow_defs]: "fl_read f = (\<lambda>s. (Inr (f s), s))"

definition fl_modify :: "('s \<Rightarrow> 's) \<Rightarrow> ('s, 'e, unit) flow" where
  [flow_defs]: "fl_modify f = (\<lambda>s. (Inr (), f s))"

definition fl_of :: "'e + 'a \<Rightarrow> ('s, 'e, 'a) flow" where
  [flow_defs]: "fl_of r = (\<lambda>s. (r, s))"

definition fl_catch :: "('s, 'e, 'a) flow \<Rightarrow> ('e \<Rightarrow> ('s, 'e, 'a) flow) \<Rightarrow> ('s, 'e, 'a) flow" where
  [flow_defs]: "fl_catch m h = (\<lambda>s. case m s of (Inl e, t) \<Rightarrow> h e t | (Inr a, t) \<Rightarrow> (Inr a, t))"

definition wp :: "('s, 'e, 'a) flow \<Rightarrow> ('a \<Rightarrow> 's \<Rightarrow> bool) \<Rightarrow> ('e \<Rightarrow> 's \<Rightarrow> bool) \<Rightarrow> 's \<Rightarrow> bool" where
  "wp m Q E s \<longleftrightarrow> (case m s of (Inl e, t) \<Rightarrow> E e t | (Inr a, t) \<Rightarrow> Q a t)"

lemma wp_return [simp]: "wp (fl_return a) Q E s \<longleftrightarrow> Q a s"
  by (auto simp: wp_def flow_defs split: prod.splits sum.splits)

lemma wp_throw [simp]: "wp (fl_throw e) Q E s \<longleftrightarrow> E e s"
  by (auto simp: wp_def flow_defs split: prod.splits sum.splits)

lemma wp_bind [simp]: "wp (fl_bind m f) Q E s \<longleftrightarrow> wp m (\<lambda>a. wp (f a) Q E) E s"
  by (auto simp: wp_def flow_defs split: prod.splits sum.splits)

lemma wp_read [simp]: "wp (fl_read g) Q E s \<longleftrightarrow> Q (g s) s"
  by (auto simp: wp_def flow_defs split: prod.splits sum.splits)

lemma wp_modify [simp]: "wp (fl_modify h) Q E s \<longleftrightarrow> Q () (h s)"
  by (auto simp: wp_def flow_defs split: prod.splits sum.splits)

lemma wp_of [simp]: "wp (fl_of r) Q E s \<longleftrightarrow> (case r of Inl e \<Rightarrow> E e s | Inr a \<Rightarrow> Q a s)"
  by (auto simp: wp_def flow_defs split: prod.splits sum.splits)

lemma wp_catch [simp]: "wp (fl_catch m k) Q E s \<longleftrightarrow> wp m Q (\<lambda>e. wp (k e) Q E) s"
  by (auto simp: wp_def flow_defs split: prod.splits sum.splits)

lemma wp_if [simp]: "wp (if b then m else n) Q E s \<longleftrightarrow> (if b then wp m Q E s else wp n Q E s)"
  by simp

lemma wp_mono:
  assumes "wp m Q E s" "\<And>a t. Q a t \<Longrightarrow> Q' a t" "\<And>e t. E e t \<Longrightarrow> E' e t"
  shows "wp m Q' E' s"
  using assms by (auto simp: wp_def split: prod.splits sum.splits)

lemma wp_run: "wp m Q E s \<Longrightarrow> m s = (r, t) \<Longrightarrow> (case r of Inl e \<Rightarrow> E e t | Inr a \<Rightarrow> Q a t)"
  by (simp add: wp_def split: sum.splits)

text \<open>A flow that keeps a property of the state, whether it ends or throws.\<close>

definition keeps :: "('s \<Rightarrow> bool) \<Rightarrow> ('s, 'e, 'a) flow \<Rightarrow> bool" where
  "keeps I m \<longleftrightarrow> (\<forall>s. I s \<longrightarrow> wp m (\<lambda>_. I) (\<lambda>_. I) s)"

lemma keepsI: "(\<And>s. I s \<Longrightarrow> wp m (\<lambda>_. I) (\<lambda>_. I) s) \<Longrightarrow> keeps I m"
  by (simp add: keeps_def)

lemma keepsD: "keeps I m \<Longrightarrow> I s \<Longrightarrow> I (snd (m s))"
  by (auto simp: keeps_def wp_def split: prod.splits sum.splits) (metis snd_conv surj_pair)

lemma keeps_wp: "keeps I m \<Longrightarrow> I s \<Longrightarrow> (\<And>a t. I t \<Longrightarrow> Q a t) \<Longrightarrow> (\<And>e t. I t \<Longrightarrow> E e t) \<Longrightarrow> wp m Q E s"
  by (auto simp: keeps_def intro: wp_mono)

lemma keeps_return [intro]: "keeps I (fl_return x)"
  by (auto simp: keeps_def split: sum.splits)

lemma keeps_throw [intro]: "keeps I (fl_throw x)"
  by (auto simp: keeps_def split: sum.splits)

lemma keeps_read [intro]: "keeps I (fl_read x)"
  by (auto simp: keeps_def split: sum.splits)

lemma keeps_of [intro]: "keeps I (fl_of x)"
  by (auto simp: keeps_def split: sum.splits)

lemma keeps_bind [intro]:
  assumes "keeps I m" "\<And>a. keeps I (f a)"
  shows "keeps I (fl_bind m f)"
proof (rule keepsI)
  fix s
  assume "I s"
  have "wp m (\<lambda>a. wp (f a) (\<lambda>_. I) (\<lambda>_. I)) (\<lambda>_. I) s"
    by (rule keeps_wp [OF assms(1) \<open>I s\<close>]) (use assms(2) in \<open>auto simp: keeps_def\<close>)
  then show "wp (fl_bind m f) (\<lambda>_. I) (\<lambda>_. I) s" by simp
qed

lemma keeps_catch [intro]:
  assumes "keeps I m" "\<And>e. keeps I (k e)"
  shows "keeps I (fl_catch m k)"
proof (rule keepsI)
  fix s
  assume "I s"
  have "wp m (\<lambda>_. I) (\<lambda>e. wp (k e) (\<lambda>_. I) (\<lambda>_. I)) s"
    by (rule keeps_wp [OF assms(1) \<open>I s\<close>]) (use assms(2) in \<open>auto simp: keeps_def\<close>)
  then show "wp (fl_catch m k) (\<lambda>_. I) (\<lambda>_. I) s" by simp
qed

lemma keeps_modify [intro]: "(\<And>s. I s \<Longrightarrow> I (h s)) \<Longrightarrow> keeps I (fl_modify h)"
  by (simp add: keeps_def)

lemma keeps_if [intro]: "keeps I m \<Longrightarrow> keeps I n \<Longrightarrow> keeps I (if b then m else n)"
  by simp

end
