(* ===== verification/Blend_Card.thy ===== *)
theory Blend_Card
  imports Client_Intents Flow
begin

text \<open>
  \<open>apps/web/src/components/BlendDepositCard.vue\<close> and \<open>lib/blendContractErrors.ts\<close>: the deposit and
  withdraw card. Its reactive inputs are a \<open>CardView\<close>; between two awaits they do not change, at an await
  they may become anything (\<open>o_view\<close> gives them at each point of time, counted by \<open>ca_now\<close>). What the API,
  the wallet and the RPC node answer, and when, is the record \<open>Outside\<close>. The card logs what it sends
  away (\<open>ca_log\<close>). Balances, analytics and rendering are left out.
\<close>

section \<open>lib/blendContractErrors.ts\<close>

definition KNOWN_BLEND_ERRORS :: "(int \<times> string) list" where
  "KNOWN_BLEND_ERRORS =
     [(8, ''The amount must be a positive number.''),
      (10, ''The account's balance can't cover this amount.''),
      (13, ''The account is missing the trustline this asset needs.''),
      (1200, ''The pool rejected this request as malformed.''),
      (1205, ''This action would leave the position below the pool's minimum health factor.''),
      (1206, ''The pool's current status, set by Blend governance, blocks this action.''),
      (1207, ''This action would push the reserve's utilization outside its allowed rate.''),
      (1208, ''This pool's per-account position limit has been reached.''),
      (1210, ''The pool's price oracle is stale, so the pool refuses actions until it updates.''),
      (1220, ''This deposit would exceed the pool's supply cap for this asset.''),
      (1223, ''This reserve is currently disabled in the pool.''),
      (1224, ''This amount is below the pool's minimum collateral requirement.'')]"

text \<open>\<open>/Error\(Contract, #(\d+)\)/\<close> at the front of a text, and its first match in a text: the digits.\<close>

definition contract_error_at :: "string \<Rightarrow> string option" where
  "contract_error_at s =
     (let p = ''Error(Contract, #''; r = drop (length p) s; ds = takeWhile is_digit r in
      if starts_with p s \<and> ds \<noteq> [] \<and> starts_with '')'' (dropWhile is_digit r) then Some ds else None)"

fun CONTRACT_ERROR_RE :: "string \<Rightarrow> string option" where
  "CONTRACT_ERROR_RE [] = None"
| "CONTRACT_ERROR_RE (c # cs) =
     (case contract_error_at (c # cs) of Some ds \<Rightarrow> Some ds | None \<Rightarrow> CONTRACT_ERROR_RE cs)"

record FriendlyContractError =
  fc_message :: string
  fc_code :: jsnum
  fc_raw :: string

definition friendlyContractError :: "string option \<Rightarrow> FriendlyContractError option" where
  "friendlyContractError rawError =
     (case rawError of
        None \<Rightarrow> None
      | Some raw \<Rightarrow>
          (case CONTRACT_ERROR_RE raw of
             None \<Rightarrow> None
           | Some ds \<Rightarrow>
               (let code = parseInt10 ds in
                Some \<lparr>fc_message =
                        (case List.find (\<lambda>(c, m). jsint c = code) KNOWN_BLEND_ERRORS of
                           Some (_, m) \<Rightarrow> m
                         | None \<Rightarrow> ''The pool contract rejected this action (code #'' @ num_text code @ '').''),
                      fc_code = code, fc_raw = raw\<rparr>)))"

section \<open>The reactive inputs\<close>

datatype Mode = Supply | Withdraw

record CardView =
  cv_network :: ActionNetwork
  cv_poolSlug :: "string option"
  cv_address :: "string option" \<comment> \<open>the connected address\<close>
  cv_provider :: "string option"
  cv_activeSigner :: "string option"
  cv_mode :: Mode
  cv_asset :: BlendAssetCode
  cv_amount :: string
  cv_balances :: "string \<Rightarrow> string option"
  cv_position :: "BlendPositionResult option"
  cv_positionLoading :: bool

definition card_config :: "CardView \<Rightarrow> BlendPoolConfig option" where
  "card_config v = blendPoolFor (cv_network v) (cv_poolSlug v)"

text \<open>\<open>parseFloat(text) || 0\<close>\<close>

definition float_or_0 :: "string \<Rightarrow> jsnum" where
  "float_or_0 t = (let n = parseFloat t in if n = NaN then Num 0 else n)"

definition xlmBalance :: "CardView \<Rightarrow> jsnum" where
  "xlmBalance v = float_or_0 (case cv_balances v ''XLM'' of None \<Rightarrow> ''0'' | Some t \<Rightarrow> t)"

definition usdcBalance :: "CardView \<Rightarrow> jsnum" where
  "usdcBalance v =
     (let issuer = (case card_config v of None \<Rightarrow> ''undefined'' | Some cfg \<Rightarrow> snd (wp_usdcClassic cfg)) in
      float_or_0 (case cv_balances v (''USDC:'' @ issuer) of None \<Rightarrow> ''0'' | Some t \<Rightarrow> t))"

definition selectedBalance :: "CardView \<Rightarrow> jsnum" where
  "selectedBalance v = (if cv_asset v = XLM then xlmBalance v else usdcBalance v)"

definition suppliedRaw :: "CardView \<Rightarrow> string" where
  "suppliedRaw v = (case cv_position v of None \<Rightarrow> ''0'' | Some p \<Rightarrow> ps_collateral (po_positions p (cv_asset v)))"

definition supplied :: "CardView \<Rightarrow> jsnum" where
  "supplied v = float_or_0 (suppliedRaw v)"

definition hasNoPosition :: "CardView \<Rightarrow> bool" where
  "hasNoPosition v \<longleftrightarrow> cv_position v \<noteq> None \<and> \<not> cv_positionLoading v \<and> js_le (supplied v) (Num 0)"

definition borrowed :: "CardView \<Rightarrow> jsnum" where
  "borrowed v =
     (case cv_position v of
        None \<Rightarrow> Num 0
      | Some p \<Rightarrow> js_add (float_or_0 (ps_liabilities (po_positions p XLM))) (float_or_0 (ps_liabilities (po_positions p USDC))))"

definition poolStatus :: "CardView \<Rightarrow> BlendPoolStatus option" where
  "poolStatus v = map_option po_poolStatus (cv_position v)"

definition card_supplyBlocked :: "CardView \<Rightarrow> bool" where
  "card_supplyBlocked v \<longleftrightarrow> map_option supplyBlocked (poolStatus v) = Some True"

definition statusBadge :: "CardView \<Rightarrow> string" where
  "statusBadge v = (case poolStatus v of None \<Rightarrow> [] | Some s \<Rightarrow> if bp_label s \<noteq> ''Active'' then bp_label s else [])"

definition supplyBlockedCopy :: "CardView \<Rightarrow> string" where
  "supplyBlockedCopy v =
     (case poolStatus v of
        None \<Rightarrow> []
      | Some s \<Rightarrow>
          if \<not> supplyBlocked s then []
          else (case card_config v of None \<Rightarrow> [] | Some cfg \<Rightarrow> wp_label cfg) @ '' ''
             @ (if bp_label s = ''Frozen'' then ''is frozen by Blend governance''
                else if bp_label s = ''Setup'' then ''is still in setup''
                else ''reports pool status '' @ num_text (bp_code s))
             @ ''. Deposits are disabled. Withdrawals remain available.'')"

section \<open>What the inputs allow\<close>

definition isWithdraw :: "CardView \<Rightarrow> bool" where
  "isWithdraw v \<longleftrightarrow> cv_mode v = Withdraw"

definition mainnetBlendBlocked :: "Client \<Rightarrow> CardView \<Rightarrow> bool" where
  "mainnetBlendBlocked cl v \<longleftrightarrow> cv_network v = Mainnet \<and> \<not> MAINNET_BLEND_ENABLED cl"

definition usdcUnavailable :: "CardView \<Rightarrow> bool" where
  "usdcUnavailable v \<longleftrightarrow>
     \<not> isWithdraw v \<and> \<not> (case card_config v of None \<Rightarrow> False | Some cfg \<Rightarrow> wp_realFunds cfg)
     \<and> cv_asset v = USDC \<and> js_le (usdcBalance v) (Num 0)"

definition signer_connected :: "string option \<Rightarrow> string option \<Rightarrow> bool" where
  "signer_connected conn active \<longleftrightarrow>
     (case (present conn, present active) of
        (Some a, Some b) \<Rightarrow> map lower_char a = map lower_char b
      | _ \<Rightarrow> False)"

definition isActiveSignerConnected :: "CardView \<Rightarrow> bool" where
  "isActiveSignerConnected v \<longleftrightarrow> signer_connected (cv_address v) (cv_activeSigner v)"

definition signerBlockReason :: "CardView \<Rightarrow> string option" where
  "signerBlockReason v =
     (if present (cv_address v) = None then Some ''Connect your active-signer wallet to sign.''
      else if \<not> isActiveSignerConnected v then Some ''Connected wallet is watch-only. Connect your active signer to sign.''
      else None)"

definition parsedAmount :: "CardView \<Rightarrow> jsnum" where
  "parsedAmount v = parseFloat (cv_amount v)"

definition exceedsPosition :: "CardView \<Rightarrow> bool" where
  "exceedsPosition v \<longleftrightarrow>
     isWithdraw v \<and> cv_position v \<noteq> None \<and> js_lt (Num 0) (parsedAmount v) \<and> js_gt (parsedAmount v) (supplied v)"

datatype ActionStatus = Idle | Building | Step1 | Step2 | Success | Pending | Failed

datatype FailureKind = OnChain | RejectedAtSubmit

definition isBusy :: "ActionStatus \<Rightarrow> bool" where
  "isBusy status \<longleftrightarrow> status = Building \<or> status = Step1 \<or> status = Step2"

definition canSubmit :: "Client \<Rightarrow> CardView \<Rightarrow> ActionStatus \<Rightarrow> bool" where
  "canSubmit cl v status \<longleftrightarrow>
     \<not> mainnetBlendBlocked cl v \<and> present (cv_address v) \<noteq> None \<and> isActiveSignerConnected v \<and> \<not> isBusy status
     \<and> \<not> usdcUnavailable v \<and> (isWithdraw v \<or> \<not> card_supplyBlocked v) \<and> js_lt (Num 0) (parsedAmount v)
     \<and> (\<not> isWithdraw v \<or> (\<not> cv_positionLoading v \<and> \<not> hasNoPosition v \<and> \<not> exceedsPosition v))"

end
