(* ===== verification/Blend_Flow.thy ===== *)
theory Blend_Flow
  imports Blend_Card
begin

text \<open>
  The handlers of the Blend card: \<open>onDeposit\<close>, \<open>onWithdraw\<close> and what they share. A handler is a flow over
  the card; a thrown error carries its text and, when the text is JSON with a \<open>message\<close>, that message
  (\<open>readApiError\<close>).
\<close>

section \<open>Errors, the outside, the card\<close>

datatype Thrown = JsError string "string option" | TxPendingTimeout string

record SendResult =
  sr_status :: string
  sr_hash :: string
  sr_errorResultXdr :: "string option"

text \<open>The refs the card renders, and a run with its clock and its log.\<close>

record CardShown =
  ca_status :: ActionStatus
  ca_stepLabel :: string
  ca_txHash :: string
  ca_errorMessage :: string
  ca_errorDetails :: string
  ca_failureKind :: "FailureKind option"

record Outside =
  o_view :: "nat \<Rightarrow> CardView"
  o_shared :: "nat \<Rightarrow> CardShown \<Rightarrow> CardShown" \<comment> \<open>what else happens to the card at an await\<close>
  o_deposit :: "nat \<Rightarrow> BlendBody \<Rightarrow> Thrown + BlendResult"
  o_withdraw :: "nat \<Rightarrow> BlendBody \<Rightarrow> Thrown + BlendResult"
  o_sign :: "nat \<Rightarrow> string \<Rightarrow> string \<Rightarrow> string \<Rightarrow> Thrown + string" \<comment> \<open>envelope, passphrase, address\<close>
  o_send :: "nat \<Rightarrow> string \<Rightarrow> string \<Rightarrow> Thrown + SendResult" \<comment> \<open>RPC address, envelope\<close>
  o_get :: "nat \<Rightarrow> string \<Rightarrow> string \<Rightarrow> Thrown + string" \<comment> \<open>RPC address, hash; the status\<close>

datatype CardEvent =
    AskedBuild BlendBody
  | AskedSignature string string string \<comment> \<open>envelope, passphrase, address\<close>
  | Submitted string
  | Confirmed string
  | Witnessed string

record Card = CardShown +
  ca_now :: nat
  ca_log :: "CardEvent list"

type_synonym 'a card_flow = "(Card, Thrown, 'a) flow"

definition js_error :: "string \<Rightarrow> Thrown" where
  "js_error m = JsError m None"

text \<open>
  The inputs now. At an await the inputs may change, and a change of tab or network resets the card, after which
  another handler may run: the refs may hold anything afterwards.
\<close>

definition shown :: "Card \<Rightarrow> CardShown" where
  "shown s = \<lparr>ca_status = ca_status s, ca_stepLabel = ca_stepLabel s, ca_txHash = ca_txHash s,
     ca_errorMessage = ca_errorMessage s, ca_errorDetails = ca_errorDetails s, ca_failureKind = ca_failureKind s\<rparr>"

definition resumed :: "Outside \<Rightarrow> Card \<Rightarrow> Card" where
  "resumed o1 s =
     (let v = o_shared o1 (ca_now s) (shown s) in
      \<lparr>ca_status = ca_status v, ca_stepLabel = ca_stepLabel v, ca_txHash = ca_txHash v,
       ca_errorMessage = ca_errorMessage v, ca_errorDetails = ca_errorDetails v, ca_failureKind = ca_failureKind v,
       ca_now = Suc (ca_now s), ca_log = ca_log s\<rparr>)"

lemma resumed_simps [simp]: "ca_now (resumed o1 s) = Suc (ca_now s)" "ca_log (resumed o1 s) = ca_log s"
  by (simp_all add: resumed_def Let_def)

definition view_now :: "Outside \<Rightarrow> CardView card_flow" where
  "view_now o1 = fl_read (\<lambda>s. o_view o1 (ca_now s))"

definition await :: "Outside \<Rightarrow> (nat \<Rightarrow> Thrown + 'a) \<Rightarrow> 'a card_flow" where
  "await o1 f = (\<lambda>s. (f (ca_now s), resumed o1 s))"

definition log_event :: "CardEvent \<Rightarrow> unit card_flow" where
  "log_event e = fl_modify (\<lambda>s. s\<lparr>ca_log := ca_log s @ [e]\<rparr>)"

definition of_text :: "string + 'a \<Rightarrow> 'a card_flow" where
  "of_text r = fl_of (map_sum js_error id r)"

section \<open>The gates\<close>

definition violations_text :: "ValidationResult \<Rightarrow> string" where
  "violations_text r = (case r of Ok \<Rightarrow> [] | Rejected vs \<Rightarrow> join_with ''; '' vs)"

definition assert_ok :: "string \<Rightarrow> ValidationResult \<Rightarrow> unit card_flow" where
  "assert_ok what r =
     (if r = Ok then fl_return ()
      else fl_throw (js_error (''Refused to sign. The '' @ what @ '' XDR did not match your request: '' @ violations_text r)))"

definition assertDepositXdr :: "Client \<Rightarrow> Outside \<Rightarrow> string \<Rightarrow> string \<Rightarrow> unit card_flow" where
  "assertDepositXdr cl o1 xdr passphrase =
     fl_bind (view_now o1) (\<lambda>v.
     fl_bind (of_text (blendIntent (card_config v) (cv_asset v) (cv_address v) (cv_amount v) passphrase)) (\<lambda>intent.
       assert_ok ''deposit'' (validateDepositXdr (cl_sdk cl) xdr intent)))"

definition assertWithdrawXdr :: "Client \<Rightarrow> Outside \<Rightarrow> string \<Rightarrow> string \<Rightarrow> unit card_flow" where
  "assertWithdrawXdr cl o1 xdr passphrase =
     fl_bind (view_now o1) (\<lambda>v.
     fl_bind (of_text (blendIntent (card_config v) (cv_asset v) (cv_address v) (cv_amount v) passphrase)) (\<lambda>intent.
       assert_ok ''withdraw'' (validateWithdrawXdr (cl_sdk cl) xdr intent)))"

definition assertTrustlineXdr :: "Client \<Rightarrow> Outside \<Rightarrow> string \<Rightarrow> string \<Rightarrow> unit card_flow" where
  "assertTrustlineXdr cl o1 xdr passphrase =
     fl_bind (view_now o1) (\<lambda>v.
     fl_bind (of_text (trustlineIntent (card_config v) (cv_address v) passphrase)) (\<lambda>intent.
       assert_ok ''trustline'' (validateTrustlineXdr (cl_sdk cl) xdr intent)))"

section \<open>Signing and submitting\<close>

text \<open>\<open>signTransaction\<close> of \<open>useWalletSession.ts\<close>.\<close>

definition signTransaction :: "Outside \<Rightarrow> string \<Rightarrow> string \<Rightarrow> string card_flow" where
  "signTransaction o1 xdr passphrase =
     fl_bind (view_now o1) (\<lambda>v.
       case present (cv_address v) of
         None \<Rightarrow> fl_throw (js_error ''No wallet connected.'')
       | Some address \<Rightarrow>
           if present (cv_provider v) = None then fl_throw (js_error ''No wallet provider selected.'')
           else fl_bind (log_event (AskedSignature xdr passphrase address)) (\<lambda>_.
                  await o1 (\<lambda>t. o_sign o1 t xdr passphrase address)))"

definition pool_now :: "Outside \<Rightarrow> BlendPoolConfig card_flow" where
  "pool_now o1 = fl_bind (view_now o1) (\<lambda>v. of_text (requirePool (card_config v)))"

definition set_failureKind :: "FailureKind \<Rightarrow> unit card_flow" where
  "set_failureKind k = fl_modify (\<lambda>s. s\<lparr>ca_failureKind := Some k\<rparr>)"

text \<open>The polling loop with \<open>n\<close> rounds left: a timer, then one \<open>getTransaction\<close>.\<close>

fun poll :: "Outside \<Rightarrow> string \<Rightarrow> nat \<Rightarrow> string card_flow" where
  "poll o1 hash 0 = fl_throw (TxPendingTimeout hash)"
| "poll o1 hash (Suc n) =
     fl_bind (await o1 (\<lambda>_. Inr ())) (\<lambda>_.
     fl_bind (pool_now o1) (\<lambda>cfg.
     fl_bind (await o1 (\<lambda>t. o_get o1 t (wp_rpcUrl cfg) hash)) (\<lambda>status.
       if status = ''SUCCESS'' then fl_bind (log_event (Confirmed hash)) (\<lambda>_. fl_return hash)
       else if status = ''FAILED'' then
         fl_bind (set_failureKind OnChain) (\<lambda>_. fl_throw (js_error (''Transaction failed on-chain ('' @ hash @ '').'')))
       else poll o1 hash n)))"

definition submitAndConfirm :: "Outside \<Rightarrow> string \<Rightarrow> string card_flow" where
  "submitAndConfirm o1 signedXdr =
     fl_bind (pool_now o1) (\<lambda>cfg.
     fl_bind (log_event (Submitted signedXdr)) (\<lambda>_.
     fl_bind (await o1 (\<lambda>t. o_send o1 t (wp_rpcUrl cfg) signedXdr)) (\<lambda>sent.
       if sr_status sent = ''ERROR'' then
         fl_bind (set_failureKind RejectedAtSubmit) (\<lambda>_. fl_throw (js_error
           (case present (sr_errorResultXdr sent) of
              Some e \<Rightarrow> ''The network rejected the transaction (result XDR: '' @ e @ '').''
            | None \<Rightarrow> ''The network rejected the transaction.'')))
       else if sr_status sent = ''SUCCESS'' then
         fl_bind (log_event (Confirmed (sr_hash sent))) (\<lambda>_. fl_return (sr_hash sent))
       else poll o1 (sr_hash sent) 12)))"

section \<open>The handlers\<close>

definition set_step :: "ActionStatus \<Rightarrow> string \<Rightarrow> unit card_flow" where
  "set_step status label = fl_modify (\<lambda>s. s\<lparr>ca_status := status, ca_stepLabel := label\<rparr>)"

definition set_error :: "string \<Rightarrow> unit card_flow" where
  "set_error m = fl_modify (\<lambda>s. s\<lparr>ca_errorMessage := m, ca_status := Failed\<rparr>)"

definition startAction :: "Client \<Rightarrow> Outside \<Rightarrow> (string \<times> string) option card_flow" where
  "startAction cl o1 =
     fl_bind (view_now o1) (\<lambda>v.
       if mainnetBlendBlocked cl v then fl_return None
       else case signerBlockReason v of
         Some m \<Rightarrow> fl_bind (set_error m) (\<lambda>_. fl_return None)
       | None \<Rightarrow>
           fl_bind (fl_read ca_status) (\<lambda>status.
             case (canSubmit cl v status, present (cv_address v)) of
               (True, Some address) \<Rightarrow>
                 fl_bind (fl_modify (\<lambda>s. s\<lparr>ca_status := Building, ca_txHash := [], ca_errorMessage := [],
                            ca_errorDetails := [], ca_stepLabel := [], ca_failureKind := None\<rparr>)) (\<lambda>_.
                   fl_return (Some (address, toWalletNetwork cl (cv_network v))))
             | _ \<Rightarrow> fl_return None))"

definition ask_build :: "Outside \<Rightarrow> (nat \<Rightarrow> BlendBody \<Rightarrow> Thrown + BlendResult) \<Rightarrow> string \<Rightarrow> BlendResult card_flow" where
  "ask_build o1 endpoint address =
     fl_bind (view_now o1) (\<lambda>v.
     fl_bind (pool_now o1) (\<lambda>cfg.
       let body = blend_body address (cv_asset v) (cv_amount v) (cv_network v) (wp_slug cfg) in
     fl_bind (log_event (AskedBuild body)) (\<lambda>_. await o1 (\<lambda>t. endpoint t body))))"

definition showSimulationError :: "string option \<Rightarrow> string \<Rightarrow> unit card_flow" where
  "showSimulationError rawError fallback =
     fl_modify (\<lambda>s.
       case friendlyContractError rawError of
         Some f \<Rightarrow> s\<lparr>ca_errorMessage := fc_message f, ca_errorDetails := fc_raw f, ca_status := Failed\<rparr>
       | None \<Rightarrow> s\<lparr>ca_errorMessage := (case present rawError of None \<Rightarrow> fallback | Some m \<Rightarrow> m), ca_status := Failed\<rparr>)"

definition readApiError :: "string \<Rightarrow> string option \<Rightarrow> string \<Rightarrow> string" where
  "readApiError text json_message fallback =
     (case json_message of Some m \<Rightarrow> m | None \<Rightarrow> if text = [] then fallback else text)"

definition reportTxWitness :: "string \<Rightarrow> unit card_flow" where
  "reportTxWitness hash = log_event (Witnessed hash)"

text \<open>The \<open>catch\<close> of both handlers.\<close>

definition on_thrown :: "string \<Rightarrow> Thrown \<Rightarrow> unit card_flow" where
  "on_thrown fallback e =
     (case e of
        TxPendingTimeout hash \<Rightarrow>
          fl_bind (fl_modify (\<lambda>s. s\<lparr>ca_txHash := hash, ca_status := Pending\<rparr>)) (\<lambda>_. reportTxWitness hash)
      | JsError text json_message \<Rightarrow> set_error (readApiError text json_message fallback))"

definition succeeded :: "string \<Rightarrow> unit card_flow" where
  "succeeded hash = fl_modify (\<lambda>s. s\<lparr>ca_txHash := hash, ca_status := Success\<rparr>)"

definition sign_and_submit :: "Outside \<Rightarrow> string \<Rightarrow> string \<Rightarrow> string card_flow" where
  "sign_and_submit o1 xdr passphrase = fl_bind (signTransaction o1 xdr passphrase) (submitAndConfirm o1)"

text \<open>Step 1 of 2: the trustline, signed and confirmed, then a second build.\<close>

definition trustline_first :: "Client \<Rightarrow> Outside \<Rightarrow> string \<Rightarrow> string \<Rightarrow> BlendResult \<Rightarrow> BlendResult card_flow" where
  "trustline_first cl o1 address passphrase built =
     (case present (br_changetrustXdr built) of
        None \<Rightarrow> fl_throw (js_error ''Trustline required but no ChangeTrust was returned.'')
      | Some ct \<Rightarrow>
          fl_bind (set_step Step1 ''1/2 Approve trustline'') (\<lambda>_.
          fl_bind (assertTrustlineXdr cl o1 ct passphrase) (\<lambda>_.
          fl_bind (sign_and_submit o1 ct passphrase) (\<lambda>_.
          fl_bind (set_step Building []) (\<lambda>_.
          fl_bind (ask_build o1 (o_deposit o1) address) (\<lambda>again.
            if br_trustlineRequired again = Some True
            then fl_throw (js_error ''Trustline not visible yet. Give it a few seconds and try again.'')
            else fl_return again))))))"

definition onDeposit_body :: "Client \<Rightarrow> Outside \<Rightarrow> string \<Rightarrow> string \<Rightarrow> unit card_flow" where
  "onDeposit_body cl o1 address passphrase =
     fl_bind (ask_build o1 (o_deposit o1) address) (\<lambda>first.
       let twoStep = (br_trustlineRequired first = Some True) in
     fl_bind (if twoStep then trustline_first cl o1 address passphrase first else fl_return first) (\<lambda>built.
       if \<not> sm_success (br_simulation built) \<or> br_xdr built = []
       then showSimulationError (sm_error (br_simulation built))
              ''Deposit simulation failed. Ensure the account holds this asset.''
       else
         fl_bind (set_step Step2 (if twoStep then ''2/2 Sign deposit'' else ''Sign deposit'')) (\<lambda>_.
         fl_bind (assertDepositXdr cl o1 (br_xdr built) passphrase) (\<lambda>_.
         fl_bind (sign_and_submit o1 (br_xdr built) passphrase) (\<lambda>hash.
         fl_bind (succeeded hash) (\<lambda>_.
         fl_bind (pool_now o1) (\<lambda>_. reportTxWitness hash)))))))"

definition onDeposit :: "Client \<Rightarrow> Outside \<Rightarrow> unit card_flow" where
  "onDeposit cl o1 =
     fl_bind (startAction cl o1) (\<lambda>started.
       case started of
         None \<Rightarrow> fl_return ()
       | Some (address, passphrase) \<Rightarrow> fl_catch (onDeposit_body cl o1 address passphrase) (on_thrown ''Deposit failed.''))"

definition onWithdraw_body :: "Client \<Rightarrow> Outside \<Rightarrow> string \<Rightarrow> string \<Rightarrow> unit card_flow" where
  "onWithdraw_body cl o1 address passphrase =
     fl_bind (ask_build o1 (o_withdraw o1) address) (\<lambda>built.
       if \<not> sm_success (br_simulation built) \<or> br_xdr built = []
       then showSimulationError (sm_error (br_simulation built))
              ''Withdraw simulation failed. Your position may not cover this amount.''
       else
         fl_bind (set_step Step2 ''Sign withdraw'') (\<lambda>_.
         fl_bind (assertWithdrawXdr cl o1 (br_xdr built) passphrase) (\<lambda>_.
         fl_bind (sign_and_submit o1 (br_xdr built) passphrase) (\<lambda>hash.
         fl_bind (succeeded hash) (\<lambda>_. reportTxWitness hash)))))"

definition onWithdraw :: "Client \<Rightarrow> Outside \<Rightarrow> unit card_flow" where
  "onWithdraw cl o1 =
     fl_bind (startAction cl o1) (\<lambda>started.
       case started of
         None \<Rightarrow> fl_return ()
       | Some (address, passphrase) \<Rightarrow> fl_catch (onWithdraw_body cl o1 address passphrase) (on_thrown ''Withdraw failed.''))"

definition onSubmit :: "Client \<Rightarrow> Outside \<Rightarrow> unit card_flow" where
  "onSubmit cl o1 = fl_bind (view_now o1) (\<lambda>v. if isWithdraw v then onWithdraw cl o1 else onDeposit cl o1)"

definition card_reset :: "unit card_flow" where
  "card_reset = fl_modify (\<lambda>s. s\<lparr>ca_status := Idle, ca_txHash := [], ca_errorMessage := [], ca_errorDetails := [],
                                 ca_stepLabel := [], ca_failureKind := None\<rparr>)"

end
