(* ===== verification/Blend_Safety.thy ===== *)
theory Blend_Safety
  imports Blend_Flow
begin

text \<open>
  What holds of every run of the Blend card, whatever the API, the wallet and the node answer and
  whatever happens to the inputs meanwhile: what is handed to the wallet, when the card says success,
  and that a handler ends.
\<close>

lemmas card_steps = view_now_def log_event_def of_text_def pool_now_def set_step_def set_error_def set_failureKind_def
  succeeded_def reportTxWitness_def

lemma wp_await [simp]:
  "wp (await o1 f) Q E s \<longleftrightarrow>
     (case f (ca_now s) of Inl e \<Rightarrow> E e (resumed o1 s) | Inr a \<Rightarrow> Q a (resumed o1 s))"
  by (auto simp: wp_def await_def split: sum.splits)

section \<open>Properties of the log\<close>

text \<open>
  A property of the log that only a request for a signature can break: every flow that asks for none keeps it.
\<close>

definition quiet :: "CardEvent \<Rightarrow> bool" where
  "quiet e \<longleftrightarrow> (\<forall>x p a. e \<noteq> AskedSignature x p a)"

definition on_log :: "(CardEvent list \<Rightarrow> bool) \<Rightarrow> Card \<Rightarrow> bool" where
  "on_log I s \<longleftrightarrow> I (ca_log s)"

locale log_property =
  fixes I :: "CardEvent list \<Rightarrow> bool"
  assumes quiet_log: "I es \<Longrightarrow> quiet e \<Longrightarrow> I (es @ [e])"
begin

lemma await: "keeps (on_log I) (await o1 f)"
  by (auto simp: keeps_def on_log_def split: sum.splits)

lemma log: "quiet e \<Longrightarrow> keeps (on_log I) (log_event e)"
  by (auto simp: keeps_def on_log_def log_event_def intro: quiet_log)

lemma modify: "(\<And>s. ca_log (h s) = ca_log s) \<Longrightarrow> keeps (on_log I) (fl_modify h)"
  by (auto simp: keeps_def on_log_def)

lemma steps:
  "keeps (on_log I) (view_now o1)" "keeps (on_log I) (pool_now o1)" "keeps (on_log I) (set_step st l)"
  "keeps (on_log I) (set_error m)" "keeps (on_log I) (set_failureKind k)" "keeps (on_log I) (succeeded h)"
  "keeps (on_log I) (reportTxWitness h)" "keeps (on_log I) (ask_build o1 ep ad)"
  "keeps (on_log I) (showSimulationError r fb)" "keeps (on_log I) (on_thrown fb e)"
  "keeps (on_log I) (of_text t)" "keeps (on_log I) (assert_ok what q)"
proof -
  show v: "keeps (on_log I) (view_now o1)" unfolding view_now_def by (rule keeps_read)
  show p: "keeps (on_log I) (pool_now o1)" unfolding pool_now_def of_text_def
    by (rule keeps_bind [OF v]) (rule keeps_of)
  show "keeps (on_log I) (set_step st l)" unfolding set_step_def by (rule modify) simp
  show err: "keeps (on_log I) (set_error m)" for m unfolding set_error_def by (rule modify) simp
  show "keeps (on_log I) (set_failureKind k)" unfolding set_failureKind_def by (rule modify) simp
  show "keeps (on_log I) (succeeded h)" unfolding succeeded_def by (rule modify) simp
  show w: "keeps (on_log I) (reportTxWitness h)" for h unfolding reportTxWitness_def by (rule log) (simp add: quiet_def)
  show "keeps (on_log I) (ask_build o1 ep ad)" unfolding ask_build_def Let_def
    by (intro keeps_bind v p await log) (simp add: quiet_def)
  show "keeps (on_log I) (showSimulationError r fb)" unfolding showSimulationError_def
    by (rule modify) (simp split: option.split)
  show "keeps (on_log I) (on_thrown fb e)" unfolding on_thrown_def
    by (cases e) (auto intro!: keeps_bind err w modify)
  show "keeps (on_log I) (of_text t)" unfolding of_text_def by (rule keeps_of)
  show "keeps (on_log I) (assert_ok what q)" unfolding assert_ok_def by (intro keeps_if keeps_return keeps_throw)
qed

lemma polling: "keeps (on_log I) (poll o1 h n)"
  by (induction n) (auto intro!: keeps_bind keeps_if keeps_throw keeps_return await log steps simp: quiet_def)

lemma submit: "keeps (on_log I) (submitAndConfirm o1 x)"
  unfolding submitAndConfirm_def
  by (intro keeps_bind keeps_if keeps_throw keeps_return await log steps polling) (simp_all add: quiet_def)

lemma start: "keeps (on_log I) (startAction cl o1)"
  unfolding startAction_def
  by (auto intro!: keeps_bind keeps_return keeps_read steps modify split: option.split bool.split)

lemma asserts:
  "keeps (on_log I) (assertTrustlineXdr cl o1 x p)" "keeps (on_log I) (assertDepositXdr cl o1 x p)"
  "keeps (on_log I) (assertWithdrawXdr cl o1 x p)"
  unfolding assertTrustlineXdr_def assertDepositXdr_def assertWithdrawXdr_def by (intro keeps_bind steps)+

end

section \<open>Signatures\<close>

text \<open>Every envelope handed to the wallet satisfies \<open>G\<close>.\<close>

definition signed_log :: "(string \<Rightarrow> string \<Rightarrow> string \<Rightarrow> bool) \<Rightarrow> CardEvent list \<Rightarrow> bool" where
  "signed_log G es \<longleftrightarrow> (\<forall>x p a. AskedSignature x p a \<in> set es \<longrightarrow> G x p a)"

abbreviation signed_ok :: "(string \<Rightarrow> string \<Rightarrow> string \<Rightarrow> bool) \<Rightarrow> Card \<Rightarrow> bool" where
  "signed_ok G \<equiv> on_log (signed_log G)"

interpretation signed: log_property "signed_log G" for G
  by unfold_locales (auto simp: signed_log_def quiet_def)

lemmas signed_ok_def = on_log_def signed_log_def

text \<open>An envelope that satisfies \<open>G\<close> for the address connected now may be handed to the wallet.\<close>

lemma signed_ok_sign:
  assumes "signed_ok G s" "\<And>a. present (cv_address (o_view o1 (ca_now s))) = Some a \<Longrightarrow> G x p a"
  shows "wp (sign_and_submit o1 x p) (\<lambda>_. signed_ok G) (\<lambda>_. signed_ok G) s"
proof -
  have "signed_ok G t \<Longrightarrow> wp (submitAndConfirm o1 y) (\<lambda>_. signed_ok G) (\<lambda>_. signed_ok G) t" for y t
    by (rule keeps_wp [OF signed.submit])
  moreover have "signed_ok G (resumed o1 (s\<lparr>ca_log := ca_log s @ [AskedSignature x p a]\<rparr>))"
    if "present (cv_address (o_view o1 (ca_now s))) = Some a" for a
    using assms that by (auto simp: signed_ok_def)
  ultimately show ?thesis using assms(1)
    by (auto simp: sign_and_submit_def signTransaction_def view_now_def log_event_def split: option.split sum.split)
qed

text \<open>The gate and the signing that follows it, at the same inputs.\<close>

definition trustline_gated :: "Client \<Rightarrow> Outside \<Rightarrow> string \<Rightarrow> string \<Rightarrow> string \<Rightarrow> bool" where
  "trustline_gated cl o1 x p a \<longleftrightarrow>
     (\<exists>t i. let v = o_view o1 t in present (cv_address v) = Some a
        \<and> trustlineIntent (card_config v) (cv_address v) p = Inr i \<and> validateTrustlineXdr (cl_sdk cl) x i = Ok)"

definition submit_gated :: "(Sdk \<Rightarrow> string \<Rightarrow> BlendSubmitIntent \<Rightarrow> ValidationResult) \<Rightarrow> Client \<Rightarrow> Outside \<Rightarrow> string \<Rightarrow> string \<Rightarrow> string \<Rightarrow> bool" where
  "submit_gated gate cl o1 x p a \<longleftrightarrow>
     (\<exists>t i. let v = o_view o1 t in present (cv_address v) = Some a
        \<and> blendIntent (card_config v) (cv_asset v) (cv_address v) (cv_amount v) p = Inr i \<and> gate (cl_sdk cl) x i = Ok)"

lemma keeps_gated:
  assumes g: "\<And>t i a. present (cv_address (o_view o1 t)) = Some a \<Longrightarrow> intent (o_view o1 t) = Inr i \<Longrightarrow> gate i = Ok \<Longrightarrow> G x p a"
    and k: "\<And>h. keeps (signed_ok G) (k h)"
  shows "keeps (signed_ok G)
    (fl_bind (fl_bind (view_now o1) (\<lambda>v. fl_bind (of_text (intent v)) (\<lambda>i. assert_ok what (gate i))))
      (\<lambda>_. fl_bind (sign_and_submit o1 x p) k))"
proof (rule keepsI)
  fix s
  assume s: "signed_ok G s"
  let ?v = "o_view o1 (ca_now s)"
  have go: "wp (sign_and_submit o1 x p) (\<lambda>h. wp (k h) (\<lambda>_. signed_ok G) (\<lambda>_. signed_ok G)) (\<lambda>_. signed_ok G) s"
    if "intent ?v = Inr i" "gate i = Ok" for i
    by (rule wp_mono [OF signed_ok_sign [OF s]]) (use g that k in \<open>auto simp: keeps_def\<close>)
  show "wp (fl_bind (fl_bind (view_now o1) (\<lambda>v. fl_bind (of_text (intent v)) (\<lambda>i. assert_ok what (gate i))))
      (\<lambda>_. fl_bind (sign_and_submit o1 x p) k)) (\<lambda>_. signed_ok G) (\<lambda>_. signed_ok G) s"
    using go s by (cases "intent ?v") (auto simp: view_now_def of_text_def assert_ok_def)
qed

lemma keeps_gated_trustline:
  assumes "\<And>a. trustline_gated cl o1 x p a \<Longrightarrow> G x p a" "\<And>h. keeps (signed_ok G) (k h)"
  shows "keeps (signed_ok G) (fl_bind (assertTrustlineXdr cl o1 x p) (\<lambda>_. fl_bind (sign_and_submit o1 x p) k))"
  unfolding assertTrustlineXdr_def
  by (rule keeps_gated [OF _ assms(2)]) (rule assms(1), auto simp: trustline_gated_def Let_def)

lemma keeps_gated_deposit:
  assumes "\<And>a. submit_gated validateDepositXdr cl o1 x p a \<Longrightarrow> G x p a" "\<And>h. keeps (signed_ok G) (k h)"
  shows "keeps (signed_ok G) (fl_bind (assertDepositXdr cl o1 x p) (\<lambda>_. fl_bind (sign_and_submit o1 x p) k))"
  unfolding assertDepositXdr_def
  by (rule keeps_gated [OF _ assms(2)]) (rule assms(1), auto simp: submit_gated_def Let_def)

lemma keeps_gated_withdraw:
  assumes "\<And>a. submit_gated validateWithdrawXdr cl o1 x p a \<Longrightarrow> G x p a" "\<And>h. keeps (signed_ok G) (k h)"
  shows "keeps (signed_ok G) (fl_bind (assertWithdrawXdr cl o1 x p) (\<lambda>_. fl_bind (sign_and_submit o1 x p) k))"
  unfolding assertWithdrawXdr_def
  by (rule keeps_gated [OF _ assms(2)]) (rule assms(1), auto simp: submit_gated_def Let_def)

lemma keeps_case_pair: "(\<And>a b. keeps I (f a b)) \<Longrightarrow> keeps I (case r of (a, b) \<Rightarrow> f a b)"
  by (cases r) simp

lemma keeps_case_option: "keeps I n \<Longrightarrow> (\<And>a. keeps I (f a)) \<Longrightarrow> keeps I (case r of None \<Rightarrow> n | Some a \<Rightarrow> f a)"
  by (cases r) simp_all

lemma deposit_signs:
  assumes t: "\<And>x a. trustline_gated cl o1 x p a \<Longrightarrow> G x p a"
    and d: "\<And>x a. submit_gated validateDepositXdr cl o1 x p a \<Longrightarrow> G x p a"
  shows "keeps (signed_ok G) (onDeposit_body cl o1 address p)"
proof -
  have first: "keeps (signed_ok G) (trustline_first cl o1 address p b)" for b
    unfolding trustline_first_def
    by (intro keeps_case_option keeps_throw keeps_bind [OF signed.steps(3)] keeps_gated_trustline t
        keeps_bind [OF signed.steps(8)] keeps_if keeps_return)
  show ?thesis
    unfolding onDeposit_body_def Let_def
    by (intro keeps_bind [OF signed.steps(8)] keeps_bind [OF keeps_if [OF first keeps_return]] keeps_if
        keeps_bind [OF signed.steps(3)] keeps_gated_deposit d keeps_bind [OF signed.steps(6)]
        keeps_bind [OF signed.steps(2)] signed.steps)
qed

lemma withdraw_signs:
  assumes d: "\<And>x a. submit_gated validateWithdrawXdr cl o1 x p a \<Longrightarrow> G x p a"
  shows "keeps (signed_ok G) (onWithdraw_body cl o1 address p)"
  unfolding onWithdraw_body_def
  by (intro keeps_bind [OF signed.steps(8)] keeps_if keeps_bind [OF signed.steps(3)] keeps_gated_withdraw d
      keeps_bind [OF signed.steps(6)] signed.steps)

text \<open>What the wallet is asked to sign in a run of either handler.\<close>

lemma onDeposit_signs:
  assumes "\<And>x p a. trustline_gated cl o1 x p a \<or> submit_gated validateDepositXdr cl o1 x p a \<Longrightarrow> G x p a"
  shows "keeps (signed_ok G) (onDeposit cl o1)"
  unfolding onDeposit_def
  by (intro keeps_bind [OF signed.start] keeps_case_option keeps_return keeps_case_pair keeps_catch deposit_signs
      signed.steps) (use assms in blast)+

lemma onWithdraw_signs:
  assumes "\<And>x p a. submit_gated validateWithdrawXdr cl o1 x p a \<Longrightarrow> G x p a"
  shows "keeps (signed_ok G) (onWithdraw cl o1)"
  unfolding onWithdraw_def
  by (intro keeps_bind [OF signed.start] keeps_case_option keeps_return keeps_case_pair keeps_catch withdraw_signs
      signed.steps) (use assms in blast)+

lemma onSubmit_signs:
  assumes "\<And>x p a. trustline_gated cl o1 x p a \<or> submit_gated validateDepositXdr cl o1 x p a
      \<or> submit_gated validateWithdrawXdr cl o1 x p a \<Longrightarrow> G x p a"
  shows "keeps (signed_ok G) (onSubmit cl o1)"
  unfolding onSubmit_def
  by (intro keeps_bind [OF signed.steps(1)] keeps_if onDeposit_signs onWithdraw_signs) (use assms in blast)+

section \<open>What the signed transactions are\<close>

text \<open>The inputs at some moment and a decoded transaction that is what they ask for.\<close>

definition intended_now :: "int \<Rightarrow> Client \<Rightarrow> CardView \<Rightarrow> string \<Rightarrow> string \<Rightarrow> DecodedTx \<Rightarrow> bool" where
  "intended_now typ cl v p a tx \<longleftrightarrow>
     (\<exists>cfg sac d. card_config v = Some cfg \<and> (cv_asset v, sac, d) \<in> set (wp_assets cfg)
        \<and> fee_within MAX_DEPOSIT_FEE_STROOPS tx
        \<and> submit_intended typ \<lparr>b_sourceAccount = a, poolId = wp_poolId cfg, assetSac = sac, b_amount = cv_amount v,
              b_decimals = jsint (int d), b_networkPassphrase = p\<rparr> tx)"

definition usdc_trustline_now :: "CardView \<Rightarrow> string \<Rightarrow> DecodedTx \<Rightarrow> bool" where
  "usdc_trustline_now v a tx \<longleftrightarrow>
     (\<exists>cfg ct. card_config v = Some cfg \<and> fee_within MAX_TRUSTLINE_FEE_STROOPS tx
        \<and> tx_operations tx = [OpChangeTrust ct] \<and> own_source (ct_source ct) a
        \<and> ct_line ct = LineAsset (AssetCredit (fst (wp_usdcClassic cfg)) (snd (wp_usdcClassic cfg))))"

text \<open>An envelope decodes, under a recognised passphrase, to a transaction of the address connected at that moment.\<close>

definition own_tx :: "Client \<Rightarrow> CardView \<Rightarrow> string \<Rightarrow> string \<Rightarrow> string \<Rightarrow> DecodedTx \<Rightarrow> bool" where
  "own_tx cl v x p a tx \<longleftrightarrow>
     cv_address v = Some a \<and> p \<in> set (RECOGNIZED_NETWORKS (cl_sdk cl))
     \<and> fromXDR (cl_sdk cl) x p = Some (Classic tx) \<and> tx_source tx = a"

lemma blendIntent_Inr:
  assumes "blendIntent config asset conn amount p = Inr i"
  obtains cfg a sac d where "config = Some cfg" "conn = Some a" "(asset, sac, d) \<in> set (wp_assets cfg)"
    "i = \<lparr>b_sourceAccount = a, poolId = wp_poolId cfg, assetSac = sac, b_amount = amount,
           b_decimals = jsint (int d), b_networkPassphrase = p\<rparr>"
  using assms
  by (auto simp: blendIntent_def requirePool_def present_Some selected_asset_def find_Some_iff
      split: option.splits if_splits) (metis fst_conv nth_mem)

lemma trustline_gated_tx:
  "trustline_gated cl o1 x p a \<Longrightarrow> \<exists>t tx. own_tx cl (o_view o1 t) x p a tx \<and> usdc_trustline_now (o_view o1 t) a tx"
  by (fastforce simp: trustline_gated_def Let_def trustlineIntent_def requirePool_def present_Some trustline.accepts
      own_tx_def usdc_trustline_now_def trustline_intended_def split: option.splits sum.splits)

lemma submit_gated_tx:
  assumes g: "submit_gated gate cl o1 x p a"
    and acc: "\<And>i. gate (cl_sdk cl) x i = Ok \<Longrightarrow> b_networkPassphrase i \<in> set (RECOGNIZED_NETWORKS (cl_sdk cl)) \<and>
      (\<exists>tx. fromXDR (cl_sdk cl) x (b_networkPassphrase i) = Some (Classic tx) \<and> tx_source tx = b_sourceAccount i
         \<and> fee_within MAX_DEPOSIT_FEE_STROOPS tx \<and> submit_intended typ i tx)"
  shows "\<exists>t tx. own_tx cl (o_view o1 t) x p a tx \<and> intended_now typ cl (o_view o1 t) p a tx"
proof -
  from g obtain t i where v: "cv_address (o_view o1 t) = Some a"
    and i: "blendIntent (card_config (o_view o1 t)) (cv_asset (o_view o1 t)) (cv_address (o_view o1 t)) (cv_amount (o_view o1 t)) p = Inr i"
    and ok: "gate (cl_sdk cl) x i = Ok"
    by (auto simp: submit_gated_def Let_def present_Some)
  from acc [OF ok] obtain tx where p: "b_networkPassphrase i \<in> set (RECOGNIZED_NETWORKS (cl_sdk cl))"
    and tx: "fromXDR (cl_sdk cl) x (b_networkPassphrase i) = Some (Classic tx)" "tx_source tx = b_sourceAccount i"
      "fee_within MAX_DEPOSIT_FEE_STROOPS tx" "submit_intended typ i tx" by blast
  from i obtain cfg a' sac d where c: "card_config (o_view o1 t) = Some cfg" "cv_address (o_view o1 t) = Some a'"
    "(cv_asset (o_view o1 t), sac, d) \<in> set (wp_assets cfg)"
    and i': "i = \<lparr>b_sourceAccount = a', poolId = wp_poolId cfg, assetSac = sac, b_amount = cv_amount (o_view o1 t),
           b_decimals = jsint (int d), b_networkPassphrase = p\<rparr>" by (rule blendIntent_Inr)
  have "a' = a" using c(2) v by simp
  then have "own_tx cl (o_view o1 t) x p a tx" using p tx v by (simp add: own_tx_def i')
  moreover have "intended_now typ cl (o_view o1 t) p a tx"
    unfolding intended_now_def using c(1,3) tx(3,4) i' \<open>a' = a\<close> by blast
  ultimately show ?thesis by blast
qed

lemma deposit_gated_tx:
  "submit_gated validateDepositXdr cl o1 x p a \<Longrightarrow>
     \<exists>t tx. own_tx cl (o_view o1 t) x p a tx \<and> intended_now 2 cl (o_view o1 t) p a tx"
  by (erule submit_gated_tx) (simp add: deposit.accepts SUPPLY_COLLATERAL_def)

lemma withdraw_gated_tx:
  "submit_gated validateWithdrawXdr cl o1 x p a \<Longrightarrow>
     \<exists>t tx. own_tx cl (o_view o1 t) x p a tx \<and> intended_now 3 cl (o_view o1 t) p a tx"
  by (erule submit_gated_tx) (simp add: withdraw.accepts WITHDRAW_COLLATERAL_def)

section \<open>Success, rest and the number of awaits\<close>

definition success_confirmed :: "Card \<Rightarrow> bool" where
  "success_confirmed s \<longleftrightarrow> (ca_status s = Success \<longrightarrow> Confirmed (ca_txHash s) \<in> set (ca_log s))"

lemma wp_weak: "(\<And>a t. Q a t) \<Longrightarrow> (\<And>e t. E e t) \<Longrightarrow> wp m Q E s"
  by (auto simp: wp_def split: prod.splits sum.splits)

lemma wp_poll: "wp (poll o1 h n) (\<lambda>r t. Confirmed r \<in> set (ca_log t)) (\<lambda>_ _. True) s"
proof (induction n arbitrary: s)
  case (Suc n)
  then show ?case
    by (auto simp: pool_now_def view_now_def of_text_def log_event_def set_failureKind_def split: sum.split)
qed simp

lemma wp_submit: "wp (submitAndConfirm o1 x) (\<lambda>r t. Confirmed r \<in> set (ca_log t)) (\<lambda>_ _. True) s"
  using wp_poll
  by (auto simp: submitAndConfirm_def pool_now_def view_now_def of_text_def log_event_def set_failureKind_def
      split: sum.split)

lemma wp_sign_and_submit: "wp (sign_and_submit o1 x p) (\<lambda>r t. Confirmed r \<in> set (ca_log t)) (\<lambda>_ _. True) s"
  unfolding sign_and_submit_def wp_bind by (rule wp_weak) (simp_all add: wp_submit)

text \<open>How a handler's body and its \<open>catch\<close> leave the card.\<close>

definition at_rest :: "Card \<Rightarrow> bool" where
  "at_rest s \<longleftrightarrow> \<not> isBusy (ca_status s) \<and> success_confirmed s"

lemma rest_submit:
  "wp (fl_bind (sign_and_submit o1 x p) (\<lambda>hash. fl_bind (succeeded hash) (\<lambda>_. fl_bind (pool_now o1) (\<lambda>_. reportTxWitness hash))))
     (\<lambda>_. at_rest) (\<lambda>_ _. True) s"
  "wp (fl_bind (sign_and_submit o1 x p) (\<lambda>hash. fl_bind (succeeded hash) (\<lambda>_. reportTxWitness hash)))
     (\<lambda>_. at_rest) (\<lambda>_ _. True) s"
  unfolding wp_bind
  by (rule wp_mono [OF wp_sign_and_submit];
      auto simp: succeeded_def pool_now_def view_now_def of_text_def reportTxWitness_def log_event_def at_rest_def
        success_confirmed_def isBusy_def split: sum.split)+

lemma rest_error: "wp (showSimulationError r fb) (\<lambda>_. at_rest) (\<lambda>_ _. True) s"
  by (auto simp: showSimulationError_def at_rest_def success_confirmed_def isBusy_def split: option.split)

lemma rest_thrown: "wp (on_thrown fb e) (\<lambda>_. at_rest) (\<lambda>_ _. False) s"
  by (cases e) (auto simp: on_thrown_def reportTxWitness_def log_event_def set_error_def at_rest_def success_confirmed_def isBusy_def)

lemma rest_deposit: "wp (onDeposit_body cl o1 address p) (\<lambda>_. at_rest) (\<lambda>_ _. True) s"
  unfolding onDeposit_body_def Let_def
  by (subst wp_bind, rule wp_weak, subst wp_bind, rule wp_weak)
     (auto simp del: wp_bind simp: rest_error intro!: wp_bind [THEN iffD2] wp_weak rest_submit(1))

lemma rest_withdraw: "wp (onWithdraw_body cl o1 address p) (\<lambda>_. at_rest) (\<lambda>_ _. True) s"
  unfolding onWithdraw_body_def
  by (subst wp_bind, rule wp_weak)
     (auto simp del: wp_bind simp: rest_error intro!: wp_bind [THEN iffD2] wp_weak rest_submit(2))

lemma rest_start:
  assumes "at_rest s" "\<And>a p t. wp (f a p) (\<lambda>_. at_rest) (\<lambda>_ _. False) t"
  shows "wp (fl_bind (startAction cl o1) (\<lambda>started. case started of None \<Rightarrow> fl_return () | Some (a, p) \<Rightarrow> f a p))
    (\<lambda>_. at_rest) (\<lambda>_ _. False) s"
  using assms
  by (auto simp: startAction_def view_now_def set_error_def at_rest_def success_confirmed_def isBusy_def
      split: option.split bool.split)

lemma rest_handlers:
  assumes "at_rest s"
  shows "wp (onDeposit cl o1) (\<lambda>_. at_rest) (\<lambda>_ _. False) s" "wp (onWithdraw cl o1) (\<lambda>_. at_rest) (\<lambda>_ _. False) s"
    "wp (onSubmit cl o1) (\<lambda>_. at_rest) (\<lambda>_ _. False) s"
proof -
  show d: "wp (onDeposit cl o1) (\<lambda>_. at_rest) (\<lambda>_ _. False) s"
    unfolding onDeposit_def
    by (rule rest_start [OF assms], subst wp_catch, rule wp_mono [OF rest_deposit]) (simp_all add: rest_thrown)
  show w: "wp (onWithdraw cl o1) (\<lambda>_. at_rest) (\<lambda>_ _. False) s"
    unfolding onWithdraw_def
    by (rule rest_start [OF assms], subst wp_catch, rule wp_mono [OF rest_withdraw]) (simp_all add: rest_thrown)
  show "wp (onSubmit cl o1) (\<lambda>_. at_rest) (\<lambda>_ _. False) s" using d w by (simp add: onSubmit_def view_now_def)
qed

text \<open>A flow that passes at most \<open>n\<close> awaits.\<close>

definition takes :: "nat \<Rightarrow> 'a card_flow \<Rightarrow> bool" where
  "takes n m \<longleftrightarrow> (\<forall>s. ca_now (snd (m s)) \<le> ca_now s + n)"

lemma takes_bind: "takes a m \<Longrightarrow> (\<And>x. takes b (f x)) \<Longrightarrow> takes (a + b) (fl_bind m f)"
proof -
  assume m: "takes a m" and f: "\<And>x. takes b (f x)"
  show "takes (a + b) (fl_bind m f)"
    unfolding takes_def
  proof
    fix s
    obtain r t where mt: "m s = (r, t)" by (cases "m s")
    have t: "ca_now t \<le> ca_now s + a" using m mt by (simp add: takes_def) (metis snd_conv)
    show "ca_now (snd (fl_bind m f s)) \<le> ca_now s + (a + b)"
    proof (cases r)
      case (Inr x)
      have "ca_now (snd (f x t)) \<le> ca_now t + b" using f by (simp add: takes_def)
      then show ?thesis using t by (simp add: fl_bind_def mt Inr)
    qed (use t in \<open>simp add: fl_bind_def mt\<close>)
  qed
qed

lemma takes_mono: "takes a m \<Longrightarrow> a \<le> b \<Longrightarrow> takes b m"
  unfolding takes_def by (meson add_left_mono order_trans)

lemma takes_catch:
  assumes "takes a m" "\<And>e. takes 0 (k e)"
  shows "takes a (fl_catch m k)"
  unfolding takes_def
proof
  fix s
  obtain r t where mt: "m s = (r, t)" by (cases "m s")
  have t: "ca_now t \<le> ca_now s + a" using assms(1) mt by (simp add: takes_def) (metis snd_conv)
  have "ca_now (snd (k e t)) \<le> ca_now t" for e using assms(2) by (simp add: takes_def)
  with t show "ca_now (snd (fl_catch m k s)) \<le> ca_now s + a"
    by (cases r) (auto simp: fl_catch_def mt intro: order_trans)
qed

lemma takes_if: "takes a m \<Longrightarrow> takes a n \<Longrightarrow> takes a (if c then m else n)"
  by simp

lemma takes_Suc_bind: "takes a m \<Longrightarrow> (\<And>x. takes b (f x)) \<Longrightarrow> n = a + b \<Longrightarrow> takes n (fl_bind m f)"
  using takes_bind by blast

lemma takes_0_bind: "takes 0 m \<Longrightarrow> (\<And>x. takes b (f x)) \<Longrightarrow> takes b (fl_bind m f)"
  using takes_bind [of 0 m b f] by simp

lemma takes_basic:
  "takes 0 (fl_return b)" "takes 0 (fl_throw e)" "takes 0 (fl_read r)" "takes 0 (fl_of q)" "takes 1 (await o1 g)"
  by (simp_all add: takes_def flow_defs await_def)

lemma takes_modify: "(\<And>s. ca_now (h s) = ca_now s) \<Longrightarrow> takes 0 (fl_modify h)"
  by (simp add: takes_def fl_modify_def)

lemma takes_steps:
  "takes 0 (view_now o1)" "takes 0 (pool_now o1)" "takes 0 (log_event ev)" "takes 0 (set_step st l)"
  "takes 0 (set_error m)" "takes 0 (set_failureKind k)" "takes 0 (succeeded h)" "takes 0 (reportTxWitness h)"
  "takes 0 (showSimulationError raw fb)"
  unfolding view_now_def pool_now_def log_event_def set_step_def set_error_def set_failureKind_def succeeded_def
    reportTxWitness_def showSimulationError_def of_text_def
  by (intro takes_basic takes_modify takes_0_bind; simp split: option.split)+

lemma takes_thrown: "takes 0 (on_thrown fb th)"
  unfolding on_thrown_def by (cases th) (auto intro!: takes_steps takes_0_bind takes_modify)

lemma takes_assert:
  "takes 0 (assertTrustlineXdr cl o1 x p)" "takes 0 (assertDepositXdr cl o1 x p)" "takes 0 (assertWithdrawXdr cl o1 x p)"
  unfolding assertTrustlineXdr_def assertDepositXdr_def assertWithdrawXdr_def assert_ok_def of_text_def
  by (intro takes_0_bind takes_steps takes_basic takes_if)+

lemma takes_start: "takes 0 (startAction cl o1)"
  unfolding startAction_def
  by (intro takes_0_bind takes_steps takes_if takes_basic)
     (auto intro!: takes_0_bind takes_steps takes_basic takes_modify split: option.split bool.split)

lemmas takes_0 = takes_basic takes_steps(1-8) takes_steps(9) takes_thrown takes_assert takes_start

lemma takes_poll: "takes (2 * n) (poll o1 h n)"
proof (induction n)
  case (Suc n)
  have last: "takes (2 * n) (if st = ''SUCCESS'' then fl_bind (log_event (Confirmed h)) (\<lambda>_. fl_return h)
      else if st = ''FAILED'' then
        fl_bind (set_failureKind OnChain) (\<lambda>_. fl_throw (js_error (''Transaction failed on-chain ('' @ h @ '').'')))
      else poll o1 h n)" for st
    by (intro takes_if takes_mono [OF takes_0_bind, of _ 0] takes_0 Suc) simp_all
  show ?case
    unfolding poll.simps
    by (rule takes_Suc_bind [OF takes_0(5) takes_0_bind [OF takes_0(7) takes_Suc_bind [OF takes_0(5) last refl]]]) simp
qed (simp add: takes_0)

lemma takes_submit: "takes 25 (submitAndConfirm o1 x)"
proof -
  have poll: "takes 24 (poll o1 h 12)" for h using takes_poll [of 12 o1 h] by simp
  have branch: "takes 24 (if a then fl_bind (set_failureKind RejectedAtSubmit) (\<lambda>_. fl_throw e)
      else if b then fl_bind (log_event (Confirmed h)) (\<lambda>_. fl_return h) else poll o1 h 12)" for a b e h
    by (intro takes_if takes_mono [OF takes_0_bind, of _ 0] takes_0 poll) simp_all
  show ?thesis
    unfolding submitAndConfirm_def
    by (rule takes_0_bind [OF takes_0(7) takes_0_bind [OF takes_0(8) takes_Suc_bind [OF takes_0(5) branch]]]) simp
qed

lemma takes_sign: "takes 1 (signTransaction o1 x p)"
  by (auto simp: takes_def flow_defs await_def card_steps signTransaction_def split: option.split)

lemma takes_sign_submit: "takes 26 (sign_and_submit o1 x p)"
  unfolding sign_and_submit_def by (rule takes_Suc_bind [OF takes_sign takes_submit]) simp

lemma takes_build: "takes 1 (ask_build o1 ep a)"
  unfolding ask_build_def Let_def by (intro takes_0_bind [OF takes_0(6)] takes_0_bind [OF takes_0(7)] takes_0_bind [OF takes_0(8)] takes_0)

lemma takes_trustline: "takes 27 (trustline_first cl o1 a p b)"
proof -
  have last: "takes 0 (if c then fl_throw e else fl_return r)" for c e r by (intro takes_if takes_0)
  show ?thesis
    unfolding trustline_first_def
    by (cases "present (br_changetrustXdr b)")
       (auto intro!: takes_mono [OF takes_0(2)] takes_0_bind [OF takes_0(9)] takes_0_bind [OF takes_0(16)]
         takes_Suc_bind [OF takes_sign_submit takes_0_bind [OF takes_0(9) takes_Suc_bind [OF takes_build last refl]]])
qed

lemma takes_deposit: "takes 54 (onDeposit cl o1)"
proof -
  have mid: "takes 27 (if c then trustline_first cl o1 a p b else fl_return b)" for a p b c
    by (intro takes_if takes_trustline takes_mono [OF takes_0(1)]) simp
  have rest: "takes 0 (fl_bind (succeeded h) (\<lambda>_. fl_bind (pool_now o1) (\<lambda>_. reportTxWitness h)))" for h
    by (intro takes_0_bind [OF takes_0(12)] takes_0_bind [OF takes_0(7)] takes_0)
  have sign: "takes 26 (fl_bind (set_step st l) (\<lambda>_. fl_bind (assertDepositXdr cl o1 x p) (\<lambda>_.
      fl_bind (sign_and_submit o1 x p) (\<lambda>h. fl_bind (succeeded h) (\<lambda>_. fl_bind (pool_now o1) (\<lambda>_. reportTxWitness h))))))" for st l x p
    by (rule takes_0_bind [OF takes_0(9) takes_0_bind [OF takes_0(17) takes_Suc_bind [OF takes_sign_submit rest]]]) simp
  have body: "takes 54 (onDeposit_body cl o1 a p)" for a p
    unfolding onDeposit_body_def Let_def
    by (rule takes_Suc_bind [OF takes_build takes_Suc_bind [OF mid takes_if [OF takes_mono [OF takes_0(14)] sign] refl]]) simp_all
  show ?thesis
    unfolding onDeposit_def
    by (intro takes_0_bind [OF takes_0(19)]) (auto intro!: takes_mono [OF takes_0(1)] takes_catch [OF body takes_0(15)] split: option.split)
qed

lemma takes_withdraw: "takes 27 (onWithdraw cl o1)"
proof -
  have rest: "takes 0 (fl_bind (succeeded h) (\<lambda>_. reportTxWitness h))" for h
    by (intro takes_0_bind [OF takes_0(12)] takes_0)
  have sign: "takes 26 (fl_bind (set_step st l) (\<lambda>_. fl_bind (assertWithdrawXdr cl o1 x p) (\<lambda>_.
      fl_bind (sign_and_submit o1 x p) (\<lambda>h. fl_bind (succeeded h) (\<lambda>_. reportTxWitness h)))))" for st l x p
    by (rule takes_0_bind [OF takes_0(9) takes_0_bind [OF takes_0(18) takes_Suc_bind [OF takes_sign_submit rest]]]) simp
  have body: "takes 27 (onWithdraw_body cl o1 a p)" for a p
    unfolding onWithdraw_body_def
    by (rule takes_Suc_bind [OF takes_build takes_if [OF takes_mono [OF takes_0(14)] sign]]) simp_all
  show ?thesis
    unfolding onWithdraw_def
    by (intro takes_0_bind [OF takes_0(19)]) (auto intro!: takes_mono [OF takes_0(1)] takes_catch [OF body takes_0(15)] split: option.split)
qed

end
