(* ===== verification/Blend_Pacing.thy ===== *)
theory Blend_Pacing
  imports Blend_Safety
begin

text \<open>
  The order of what the Blend card sends away: a second signature is asked only after the transaction signed
  before it was confirmed. \<open>paced\<close> reads a log; its first argument says whether a signed transaction is
  still open.
\<close>

fun paced :: "bool \<Rightarrow> CardEvent list \<Rightarrow> bool" where
  "paced pending [] \<longleftrightarrow> True"
| "paced pending (AskedSignature x p a # es) \<longleftrightarrow> \<not> pending \<and> paced True es"
| "paced pending (Confirmed h # es) \<longleftrightarrow> paced False es"
| "paced pending (AskedBuild b # es) \<longleftrightarrow> paced pending es"
| "paced pending (Submitted y # es) \<longleftrightarrow> paced pending es"
| "paced pending (Witnessed h # es) \<longleftrightarrow> paced pending es"

fun left_open :: "bool \<Rightarrow> CardEvent list \<Rightarrow> bool" where
  "left_open pending [] \<longleftrightarrow> pending"
| "left_open pending (AskedSignature x p a # es) \<longleftrightarrow> left_open True es"
| "left_open pending (Confirmed h # es) \<longleftrightarrow> left_open False es"
| "left_open pending (AskedBuild b # es) \<longleftrightarrow> left_open pending es"
| "left_open pending (Submitted y # es) \<longleftrightarrow> left_open pending es"
| "left_open pending (Witnessed h # es) \<longleftrightarrow> left_open pending es"

lemma paced_append [simp]: "paced b (xs @ ys) \<longleftrightarrow> paced b xs \<and> paced (left_open b xs) ys"
  by (induction b xs rule: paced.induct) auto

lemma left_open_append [simp]: "left_open b (xs @ ys) = left_open (left_open b xs) ys"
  by (induction b xs rule: paced.induct) auto

text \<open>What pacing says of two signatures of one log.\<close>

lemma paced_between:
  assumes "paced b (xs @ AskedSignature x p a # ys @ AskedSignature x' p' a' # zs)"
  shows "\<exists>h. Confirmed h \<in> set ys"
proof (rule ccontr)
  assume none: "\<nexists>h. Confirmed h \<in> set ys"
  have "left_open True ys" using none
  proof (induction ys)
    case (Cons e es)
    then show ?case by (cases e) auto
  qed simp
  with assms show False by simp
qed

section \<open>Flows that start and end with nothing open\<close>

definition settled_log :: "CardEvent list \<Rightarrow> bool" where
  "settled_log es \<longleftrightarrow> paced False es \<and> \<not> left_open False es"

lemma quiet_event:
  assumes "quiet e"
  shows "paced b [e]" "\<not> left_open False [e]"
  using assms by (cases e; simp add: quiet_def)+

interpretation paced: log_property "paced False"
  by unfold_locales (simp add: quiet_event)

interpretation settled: log_property settled_log
  by unfold_locales (simp add: settled_log_def quiet_event)

text \<open>A flow that, from a settled log, ends in a settled one, and if it throws leaves a paced one.\<close>

definition settles :: "'a card_flow \<Rightarrow> bool" where
  "settles m \<longleftrightarrow> (\<forall>s. on_log settled_log s \<longrightarrow> wp m (\<lambda>_. on_log settled_log) (\<lambda>_. on_log (paced False)) s)"

lemma settled_paced: "on_log settled_log s \<Longrightarrow> on_log (paced False) s"
  by (simp add: on_log_def settled_log_def)

lemma settles_keeps: "keeps (on_log settled_log) m \<Longrightarrow> settles m"
  by (auto simp: settles_def intro: keeps_wp settled_paced)

lemma settles_bind: "settles m \<Longrightarrow> (\<And>a. settles (k a)) \<Longrightarrow> settles (fl_bind m k)"
  unfolding settles_def wp_bind by (blast intro: wp_mono)

lemma settles_if: "settles m \<Longrightarrow> settles n \<Longrightarrow> settles (if b then m else n)"
  by simp

lemma settles_case: "settles m \<Longrightarrow> (\<And>a. settles (k a)) \<Longrightarrow> settles (case q of None \<Rightarrow> m | Some a \<Rightarrow> k a)"
  by (simp split: option.split)

lemma poll_settles:
  "on_log (paced False) s \<Longrightarrow> wp (poll o1 h n) (\<lambda>_. on_log settled_log) (\<lambda>_. on_log (paced False)) s"
  unfolding on_log_def
proof (induction n arbitrary: s)
  case (Suc n)
  then show ?case
    by (auto simp: pool_now_def view_now_def of_text_def log_event_def set_failureKind_def settled_log_def split: sum.split)
qed simp

lemma submit_settles:
  assumes "on_log (paced False) s"
  shows "wp (submitAndConfirm o1 x) (\<lambda>_. on_log settled_log) (\<lambda>_. on_log (paced False)) s"
  using assms poll_settles [unfolded on_log_def] unfolding on_log_def
  by (auto simp: submitAndConfirm_def pool_now_def view_now_def of_text_def log_event_def set_failureKind_def settled_log_def
      split: sum.split)

lemma sign_settles: "settles (sign_and_submit o1 x p)"
proof -
  have "on_log (paced False) (resumed o1 (s\<lparr>ca_log := ca_log s @ [AskedSignature x p a]\<rparr>))" if "on_log settled_log s" for s a
    using that by (simp add: on_log_def settled_log_def)
  then show ?thesis
    by (auto simp: settles_def sign_and_submit_def signTransaction_def view_now_def log_event_def
        intro: submit_settles settled_paced split: option.split sum.split)
qed

section \<open>The handlers\<close>

lemmas settled_steps = settles_keeps [OF settled.steps(2)] settles_keeps [OF settled.steps(3)]
  settles_keeps [OF settled.steps(6)] settles_keeps [OF settled.steps(7)] settles_keeps [OF settled.steps(8)]
  settles_keeps [OF settled.steps(9)] settles_keeps [OF settled.asserts(1)] settles_keeps [OF settled.asserts(2)]
  settles_keeps [OF settled.asserts(3)] settles_keeps [OF keeps_return] settles_keeps [OF keeps_throw] sign_settles

lemma deposit_settles: "settles (onDeposit_body cl o1 address p)"
  unfolding onDeposit_body_def trustline_first_def Let_def
  by (intro settles_bind settles_if settles_case settled_steps)

lemma withdraw_settles: "settles (onWithdraw_body cl o1 address p)"
  unfolding onWithdraw_body_def by (intro settles_bind settles_if settled_steps)

lemma started_paced:
  assumes "on_log settled_log s" "\<And>a p. settles (body a p)"
  shows "wp (fl_bind (startAction cl o1) (\<lambda>started. case started of None \<Rightarrow> fl_return ()
      | Some (a, p) \<Rightarrow> fl_catch (body a p) (on_thrown fb))) (\<lambda>_. on_log (paced False)) (\<lambda>_. on_log (paced False)) s"
proof -
  have thrown: "wp (on_thrown fb e) (\<lambda>_. on_log (paced False)) (\<lambda>_. on_log (paced False)) t" if "on_log (paced False) t" for e t
    by (rule keeps_wp [OF paced.steps(10) that])
  have run: "wp (fl_catch (body a p) (on_thrown fb)) (\<lambda>_. on_log (paced False)) (\<lambda>_. on_log (paced False)) t"
    if "on_log settled_log t" for a p t
    unfolding wp_catch
    by (rule wp_mono [OF assms(2) [unfolded settles_def, rule_format, OF that]]) (auto intro: thrown settled_paced)
  show ?thesis
    unfolding wp_bind
    by (rule keeps_wp [OF settled.start assms(1)])
       (auto simp del: wp_catch intro: run settled_paced split: option.split)
qed

lemma handlers_paced:
  assumes "on_log settled_log s"
  shows "on_log (paced False) (snd (onDeposit cl o1 s))" "on_log (paced False) (snd (onWithdraw cl o1 s))"
    "on_log (paced False) (snd (onSubmit cl o1 s))"
proof -
  have end_of: "on_log (paced False) (snd (m s))" if "wp m (\<lambda>_. on_log (paced False)) (\<lambda>_. on_log (paced False)) s"
    for m :: "unit card_flow"
    using that by (auto simp: wp_def split: prod.splits sum.splits)
  show d: "on_log (paced False) (snd (onDeposit cl o1 s))"
    unfolding onDeposit_def by (rule end_of [OF started_paced [OF assms deposit_settles]])
  show w: "on_log (paced False) (snd (onWithdraw cl o1 s))"
    unfolding onWithdraw_def by (rule end_of [OF started_paced [OF assms withdraw_settles]])
  show "on_log (paced False) (snd (onSubmit cl o1 s))"
    using d w by (auto simp: onSubmit_def view_now_def fl_bind_def fl_read_def)
qed

end
