(* ===== verification/Card_Example.thy ===== *)
theory Card_Example
  imports Actions_Example Blend_Pacing
begin

text \<open>
  Concrete runs of the Blend card: a deposit of XLM with one signature and a deposit of USDC with its trustline
  first.
\<close>

definition cx_view :: CardView where
  "cx_view = \<lparr>cv_network = Testnet, cv_poolSlug = None, cv_address = Some ax_user, cv_provider = Some ''xbull'',
     cv_activeSigner = Some ax_user, cv_mode = Supply, cv_asset = XLM, cv_amount = ''1.5'', cv_balances = (\<lambda>_. None),
     cv_position = None, cv_positionLoading = False\<rparr>"

definition cx_built :: BlendResult where
  "cx_built = \<lparr>br_xdr = ''d160000'', br_changetrustXdr = None, br_trustlineRequired = None, br_operations = [],
     br_simulation = \<lparr>sm_success = True, sm_resourceFee = ''150000'', sm_error = None\<rparr>,
     br_fee = \<lparr>fe_inclusion = Num 10000, fe_resource = Num 150000, fe_total = Num 160000\<rparr>\<rparr>"

text \<open>The node sees the transaction in its third answer.\<close>

definition cx_outside :: Outside where
  "cx_outside = \<lparr>o_view = (\<lambda>_. cx_view), o_shared = (\<lambda>_ v. v), o_deposit = (\<lambda>_ _. Inr cx_built),
     o_withdraw = (\<lambda>_ _. Inl (js_error ''no position'')), o_sign = (\<lambda>_ x _ _. Inr (''signed '' @ x)),
     o_send = (\<lambda>_ _ _. Inr \<lparr>sr_status = ''PENDING'', sr_hash = ''abc'', sr_errorResultXdr = None\<rparr>),
     o_get = (\<lambda>t _ _. Inr (if t < 8 then ''NOT_FOUND'' else ''SUCCESS''))\<rparr>"

definition cx_start :: Card where
  "cx_start = \<lparr>ca_status = Idle, ca_stepLabel = [], ca_txHash = [], ca_errorMessage = [], ca_errorDetails = [],
     ca_failureKind = None, ca_now = 0, ca_log = []\<rparr>"

definition cx_body :: BlendBody where
  "cx_body = blend_body ax_user XLM ''1.5'' Testnet (web_default_slug Testnet)"

lemma cx_can: "canSubmit cx_client cx_view Idle" "mainnetBlendBlocked cx_client cx_view = False" "signerBlockReason cx_view = None"
  "present (Some ax_user) = Some ax_user" "present (cv_provider cx_view) = Some ''xbull''"
proof -
  have "(canSubmit cx_client cx_view Idle)
    \<and> (mainnetBlendBlocked cx_client cx_view = False)
    \<and> (signerBlockReason cx_view = None)
    \<and> (present (Some ax_user) = Some ax_user)
    \<and> (present (cv_provider cx_view) = Some ''xbull'')"
    by code_simp
  then show "canSubmit cx_client cx_view Idle" "mainnetBlendBlocked cx_client cx_view = False" "signerBlockReason cx_view = None" "present (Some ax_user) = Some ax_user" "present (cv_provider cx_view) = Some ''xbull''"
    by - (elim conjE; assumption)+
qed

definition cx_pool :: BlendPoolConfig where
  "cx_pool = projr (requirePool (card_config cx_view))"

lemma cx_pool: "requirePool (card_config cx_view) = Inr cx_pool" "wp_slug cx_pool = web_default_slug Testnet"
proof -
  have "(requirePool (card_config cx_view) = Inr cx_pool)
    \<and> (wp_slug cx_pool = web_default_slug Testnet)"
    by code_simp
  then show "requirePool (card_config cx_view) = Inr cx_pool" "wp_slug cx_pool = web_default_slug Testnet"
    by - (elim conjE; assumption)+
qed

definition cx_intent :: BlendSubmitIntent where
  "cx_intent = projr (blendIntent (card_config cx_view) XLM (Some ax_user) ''1.5'' TESTNET_NETWORK_PASSPHRASE)"

lemma cx_intent: "blendIntent (card_config cx_view) XLM (Some ax_user) ''1.5'' TESTNET_NETWORK_PASSPHRASE = Inr cx_intent"
  by code_simp

lemma cx_gate: "validateDepositXdr (cl_sdk cx_client) ''d160000'' cx_intent = Ok"
  by code_simp

lemma cx_view_fields: "cv_network cx_view = Testnet" "cv_asset cx_view = XLM" "cv_address cx_view = Some ax_user"
  "cv_amount cx_view = ''1.5''" "toWalletNetwork cx_client Testnet = TESTNET_NETWORK_PASSPHRASE"
  by (simp_all add: cx_view_def toWalletNetwork_def ax_client_def)

lemma cx_outside_fields: "o_view cx_outside t = cx_view" "resumed cx_outside s = s\<lparr>ca_now := Suc (ca_now s)\<rparr>"
  "o_deposit cx_outside = (\<lambda>_ _. Inr cx_built)" "o_sign cx_outside = (\<lambda>_ x _ _. Inr (''signed '' @ x))"
  "o_send cx_outside = (\<lambda>_ _ _. Inr \<lparr>sr_status = ''PENDING'', sr_hash = ''abc'', sr_errorResultXdr = None\<rparr>)"
  "o_get cx_outside = (\<lambda>t _ _. Inr (if t < 8 then ''NOT_FOUND'' else ''SUCCESS''))"
  by (simp_all add: cx_outside_def resumed_def shown_def Let_def)

lemma cx_poll:
  "ca_now s = 3 \<Longrightarrow> poll cx_outside ''abc'' 12 s = (Inr ''abc'', s\<lparr>ca_now := 9, ca_log := ca_log s @ [Confirmed ''abc'']\<rparr>)"
  by (simp add: eval_nat_numeral flow_defs await_def card_steps cx_outside_fields cx_pool(1) cong: if_cong)

lemma cx_run:
  "onDeposit cx_client cx_outside cx_start =
     (Inr (), \<lparr>ca_status = Success, ca_stepLabel = ''Sign deposit'', ca_txHash = ''abc'', ca_errorMessage = [],
        ca_errorDetails = [], ca_failureKind = None, ca_now = 9,
        ca_log = [AskedBuild cx_body, AskedSignature ''d160000'' TESTNET_NETWORK_PASSPHRASE ax_user,
          Submitted ''signed d160000'', Confirmed ''abc'', Witnessed ''abc'']\<rparr>)"
  by (simp add: onDeposit_def onDeposit_body_def startAction_def ask_build_def flow_defs await_def card_steps cx_outside_fields
      cx_can cx_pool cx_view_fields cx_start_def cx_intent cx_gate assertDepositXdr_def assert_ok_def cx_built_def Let_def
      sign_and_submit_def signTransaction_def submitAndConfirm_def cx_body_def cx_poll)

text \<open>A deposit of USDC whose trustline is missing: two signatures.\<close>

definition cy_view :: CardView where
  "cy_view = cx_view\<lparr>cv_asset := USDC, cv_balances := (\<lambda>_. Some ''5'')\<rparr>"

definition cy_pool :: BlendPoolConfig where
  "cy_pool = projr (requirePool (card_config cy_view))"

definition cy_client :: Client where
  "cy_client = cx_client\<lparr>cl_sdk := (cl_sdk cx_client)\<lparr>fromXDR := (\<lambda>x p.
     Some (Classic \<lparr>tx_source = ax_user, tx_fee = ''10000'', tx_operations =
       (if x = ''t'' then [OpChangeTrust \<lparr>ct_source = None,
            ct_line = LineAsset (AssetCredit (fst (wp_usdcClassic cy_pool)) (snd (wp_usdcClassic cy_pool))), ct_limit = ''1''\<rparr>]
        else [OpInvokeHostFunction \<lparr>ih_source = None, ih_func = Some \<lparr>contractId = wp_poolId cy_pool, fnName = ''submit'',
            call_args = [Some (NString ax_user), Some (NString ax_user), Some (NString ax_user),
              Some (NArray [request_native (2, fst (snd (wp_assets cy_pool ! 1)), 15000000)])]\<rparr>\<rparr>])\<rparr>))\<rparr>\<rparr>"

definition cy_first :: BlendResult where
  "cy_first = cx_built\<lparr>br_xdr := [], br_changetrustXdr := Some ''t'', br_trustlineRequired := Some True\<rparr>"

definition cy_outside :: Outside where
  "cy_outside = cx_outside\<lparr>o_view := (\<lambda>_. cy_view), o_deposit := (\<lambda>t _. Inr (if t = 0 then cy_first else cx_built)),
     o_get := (\<lambda>_ _ _. Inr ''SUCCESS'')\<rparr>"

definition cy_body :: BlendBody where
  "cy_body = blend_body ax_user USDC ''1.5'' Testnet (web_default_slug Testnet)"

definition cy_intent :: BlendSubmitIntent where
  "cy_intent = projr (blendIntent (card_config cy_view) USDC (Some ax_user) ''1.5'' TESTNET_NETWORK_PASSPHRASE)"

definition cy_trust :: TrustlineIntent where
  "cy_trust = projr (trustlineIntent (card_config cy_view) (Some ax_user) TESTNET_NETWORK_PASSPHRASE)"

lemma cy_facts:
  "canSubmit cy_client cy_view Idle" "mainnetBlendBlocked cy_client cy_view = False" "signerBlockReason cy_view = None"
  "present (Some ax_user) = Some ax_user" "present (cv_provider cy_view) = Some ''xbull''"
  "requirePool (card_config cy_view) = Inr cy_pool" "wp_slug cy_pool = web_default_slug Testnet"
  "blendIntent (card_config cy_view) USDC (Some ax_user) ''1.5'' TESTNET_NETWORK_PASSPHRASE = Inr cy_intent"
  "trustlineIntent (card_config cy_view) (Some ax_user) TESTNET_NETWORK_PASSPHRASE = Inr cy_trust"
  "present (Some ''t'') = Some ''t''" "isWithdraw cy_view = False"
proof -
  have "(canSubmit cy_client cy_view Idle)
    \<and> (mainnetBlendBlocked cy_client cy_view = False)
    \<and> (signerBlockReason cy_view = None)
    \<and> (present (Some ax_user) = Some ax_user)
    \<and> (present (cv_provider cy_view) = Some ''xbull'')
    \<and> (requirePool (card_config cy_view) = Inr cy_pool)
    \<and> (wp_slug cy_pool = web_default_slug Testnet)
    \<and> (blendIntent (card_config cy_view) USDC (Some ax_user) ''1.5'' TESTNET_NETWORK_PASSPHRASE = Inr cy_intent)
    \<and> (trustlineIntent (card_config cy_view) (Some ax_user) TESTNET_NETWORK_PASSPHRASE = Inr cy_trust)
    \<and> (present (Some ''t'') = Some ''t'')
    \<and> (isWithdraw cy_view = False)"
    by code_simp
  then show "canSubmit cy_client cy_view Idle" "mainnetBlendBlocked cy_client cy_view = False" "signerBlockReason cy_view = None" "present (Some ax_user) = Some ax_user" "present (cv_provider cy_view) = Some ''xbull''" "requirePool (card_config cy_view) = Inr cy_pool" "wp_slug cy_pool = web_default_slug Testnet" "blendIntent (card_config cy_view) USDC (Some ax_user) ''1.5'' TESTNET_NETWORK_PASSPHRASE = Inr cy_intent" "trustlineIntent (card_config cy_view) (Some ax_user) TESTNET_NETWORK_PASSPHRASE = Inr cy_trust" "present (Some ''t'') = Some ''t''" "isWithdraw cy_view = False"
    by - (elim conjE; assumption)+
qed

lemma cy_gates: "validateTrustlineXdr (cl_sdk cy_client) ''t'' cy_trust = Ok" "validateDepositXdr (cl_sdk cy_client) ''d160000'' cy_intent = Ok"
proof -
  have "(validateTrustlineXdr (cl_sdk cy_client) ''t'' cy_trust = Ok)
    \<and> (validateDepositXdr (cl_sdk cy_client) ''d160000'' cy_intent = Ok)"
    by code_simp
  then show "validateTrustlineXdr (cl_sdk cy_client) ''t'' cy_trust = Ok" "validateDepositXdr (cl_sdk cy_client) ''d160000'' cy_intent = Ok"
    by - (elim conjE; assumption)+
qed

lemma cy_fields:
  "cv_network cy_view = Testnet" "cv_asset cy_view = USDC" "cv_address cy_view = Some ax_user"
  "cv_amount cy_view = ''1.5''" "toWalletNetwork cy_client Testnet = TESTNET_NETWORK_PASSPHRASE"
  "o_view cy_outside t = cy_view" "resumed cy_outside s = s\<lparr>ca_now := Suc (ca_now s)\<rparr>"
  "o_deposit cy_outside = (\<lambda>t _. Inr (if t = 0 then cy_first else cx_built))" "o_sign cy_outside = (\<lambda>_ x _ _. Inr (''signed '' @ x))"
  "o_send cy_outside = (\<lambda>_ _ _. Inr \<lparr>sr_status = ''PENDING'', sr_hash = ''abc'', sr_errorResultXdr = None\<rparr>)"
  "o_get cy_outside = (\<lambda>_ _ _. Inr ''SUCCESS'')"
  by (simp_all add: cy_view_def cx_view_def cy_client_def toWalletNetwork_def ax_client_def cy_outside_def cx_outside_def
      resumed_def shown_def Let_def)

lemma cy_poll:
  "poll cy_outside h 12 s = (Inr h, s\<lparr>ca_now := ca_now s + 2, ca_log := ca_log s @ [Confirmed h]\<rparr>)"
  by (simp add: eval_nat_numeral flow_defs await_def card_steps cy_fields cy_facts)

lemma cy_run:
  "ca_log (snd (onSubmit cy_client cy_outside cx_start)) =
     [AskedBuild cy_body] @ AskedSignature ''t'' TESTNET_NETWORK_PASSPHRASE ax_user #
     [Submitted ''signed t'', Confirmed ''abc'', AskedBuild cy_body] @ AskedSignature ''d160000'' TESTNET_NETWORK_PASSPHRASE ax_user #
     [Submitted ''signed d160000'', Confirmed ''abc'', Witnessed ''abc'']"
  by (simp add: onSubmit_def onDeposit_def onDeposit_body_def startAction_def ask_build_def flow_defs await_def card_steps cy_fields
      cy_facts cx_start_def cy_gates assertDepositXdr_def assertTrustlineXdr_def trustline_first_def assert_ok_def cx_built_def
      cy_first_def Let_def sign_and_submit_def signTransaction_def submitAndConfirm_def cy_body_def cy_poll)

end
