(* ===== verification/Swap_Widget.thy ===== *)
theory Swap_Widget
  imports Client_Intents
begin

text \<open>
  \<open>apps/web/src/components/SdexSwapWidget.vue\<close>: the inputs of the swap widget, what it derives from them
  and its live quote. The state machine takes one event at a time (a choice of the user, the debounce timer,
  an answer of the API) together with the watchers it sets off. \<open>clearTimeout\<close> and \<open>setTimeout\<close> are one pending
  timer, with the sequence number and the amount it captured; the pair and the network are read when it fires.
  Balances are an input; locale formatting is left out.
\<close>

section \<open>State\<close>

datatype QuoteStatus = QuoteIdle | QuoteLoading | QuoteOk | QuoteEmpty | QuoteError

datatype SwapStatus = SwapIdle | SwapLoading | SwapSuccess | SwapFailed

record Widget =
  wi_network :: ActionNetwork
  wi_address :: "string option" \<comment> \<open>the connected address\<close>
  wi_provider :: "string option"
  wi_activeSigner :: "string option"
  wi_balances :: "string \<Rightarrow> string option"
  wi_fromKey :: string
  wi_toKey :: string
  wi_amount :: string
  wi_quoteStatus :: QuoteStatus
  wi_estimate :: "jsnum option"
  wi_rate :: "jsnum option"
  wi_quoteError :: string
  wi_quoteSeq :: nat
  wi_timer :: "(nat \<times> string) option"
  wi_status :: SwapStatus

section \<open>Derived values\<close>

definition find_asset :: "ActionNetwork \<Rightarrow> string \<Rightarrow> SwapAsset" where
  "find_asset n key =
     (case List.find (\<lambda>a. swapAssetKey a = key) (assetsFor n) of Some a \<Rightarrow> a | None \<Rightarrow> hd (assetsFor n))"

definition fromAsset :: "Widget \<Rightarrow> SwapAsset" where
  "fromAsset w = find_asset (wi_network w) (wi_fromKey w)"

definition toAsset :: "Widget \<Rightarrow> SwapAsset" where
  "toAsset w = find_asset (wi_network w) (wi_toKey w)"

definition mainnetBlocked :: "Client \<Rightarrow> Widget \<Rightarrow> bool" where
  "mainnetBlocked cl w \<longleftrightarrow> wi_network w = Mainnet \<and> \<not> MAINNET_SWAP_ENABLED cl"

definition swap_signer_connected :: "Widget \<Rightarrow> bool" where
  "swap_signer_connected w \<longleftrightarrow>
     (case (present (wi_address w), present (wi_activeSigner w)) of
        (Some a, Some b) \<Rightarrow> map lower_char a = map lower_char b
      | _ \<Rightarrow> False)"

definition swap_signerBlockReason :: "Widget \<Rightarrow> string option" where
  "swap_signerBlockReason w =
     (if present (wi_address w) = None then Some ''Connect your active-signer wallet to sign.''
      else if \<not> swap_signer_connected w
      then Some ''You're connected with a watch-only wallet. Connect your active signer to sign.''
      else None)"

definition canSwap :: "Client \<Rightarrow> Widget \<Rightarrow> bool" where
  "canSwap cl w \<longleftrightarrow>
     \<not> mainnetBlocked cl w \<and> present (wi_address w) \<noteq> None \<and> swap_signer_connected w \<and> wi_status w \<noteq> SwapLoading
     \<and> js_lt (Num 0) (parseFloat (wi_amount w))
     \<and> js_lt (Num 0) (case wi_estimate w of None \<Rightarrow> Num 0 | Some e \<Rightarrow> e)"

text \<open>\<open>text.replace(/\.?0+$/, "")\<close>\<close>

definition strip_trailing_zeros :: "string \<Rightarrow> string" where
  "strip_trailing_zeros s =
     (let zs = takeWhile (\<lambda>c. c = CHR ''0'') (rev s); r = dropWhile (\<lambda>c. c = CHR ''0'') (rev s) in
      if zs = [] then s else rev (if r \<noteq> [] \<and> hd r = CHR ''.'' then tl r else r))"

definition formatAmount :: "jsnum \<Rightarrow> string" where
  "formatAmount value =
     (if \<not> isFinite value \<or> js_le value (Num 0) then [] else strip_trailing_zeros (toFixed_num 7 value))"

definition SLIPPAGE :: jsnum where
  "SLIPPAGE = fl (5/100)"

definition minReceiveDisplay :: "Widget \<Rightarrow> string" where
  "minReceiveDisplay w =
     (case wi_estimate w of None \<Rightarrow> [] | Some e \<Rightarrow> formatAmount (js_mul e (js_sub (Num 1) SLIPPAGE)))"

definition balanceFor :: "Widget \<Rightarrow> SwapAsset \<Rightarrow> string" where
  "balanceFor w a = (case wi_balances w (swapAssetKey a) of None \<Rightarrow> ''0'' | Some b \<Rightarrow> b)"

definition XLM_RESERVE :: jsnum where
  "XLM_RESERVE = Num 1"

definition max_amount :: "Widget \<Rightarrow> string" where
  "max_amount w =
     (let b = parseFloat (balanceFor w (fromAsset w)); bal = (if b = NaN then Num 0 else b);
          reserve = (if sw_code (fromAsset w) = ''XLM'' then XLM_RESERVE else Num 0);
          m = Math_max (Num 0) (js_sub bal reserve) in
      if js_lt (Num 0) m then formatAmount m else ''0'')"

section \<open>Events and watchers\<close>

datatype WidgetEvent =
    PickFrom string | PickTo string | Invert | TypeAmount string | SetMax | SwitchNetwork ActionNetwork
  | TimerFires
  | QuoteAnswer nat "string + string \<times> jsnum" \<comment> \<open>sequence number; the error text, or amount and rate\<close>

definition clearQuote :: "Widget \<Rightarrow> Widget" where
  "clearQuote w = w\<lparr>wi_estimate := None, wi_rate := None, wi_quoteError := [], wi_quoteStatus := QuoteIdle\<rparr>"

text \<open>The watcher of both keys: when they collide, the side the user did not touch moves to a free asset.\<close>

definition watch_keys :: "string \<Rightarrow> Widget \<Rightarrow> Widget" where
  "watch_keys pf w =
     (if wi_fromKey w \<noteq> wi_toKey w then w
      else case List.find (\<lambda>a. swapAssetKey a \<noteq> wi_fromKey w) (assetsFor (wi_network w)) of
        None \<Rightarrow> w
      | Some free \<Rightarrow>
          if wi_fromKey w \<noteq> pf then w\<lparr>wi_toKey := swapAssetKey free\<rparr> else w\<lparr>wi_fromKey := swapAssetKey free\<rparr>)"

text \<open>The watcher of the keys and the amount: it drops the pending timer, then clears the quote or asks anew.\<close>

definition watch_quote :: "Client \<Rightarrow> Widget \<Rightarrow> Widget" where
  "watch_quote cl w =
     (let w1 = w\<lparr>wi_timer := None\<rparr>; parsed = parseFloat (wi_amount w) in
      if parsed = NaN \<or> js_le parsed (Num 0) \<or> mainnetBlocked cl w then clearQuote w1
      else w1\<lparr>wi_quoteStatus := QuoteLoading, wi_quoteError := [], wi_quoteSeq := Suc (wi_quoteSeq w),
             wi_timer := Some (Suc (wi_quoteSeq w), wi_amount w)\<rparr>)"

definition after_change :: "Client \<Rightarrow> Widget \<Rightarrow> Widget \<Rightarrow> Widget" where
  "after_change cl old w =
     (let keys = wi_fromKey w \<noteq> wi_fromKey old \<or> wi_toKey w \<noteq> wi_toKey old;
          w1 = (if keys then watch_keys (wi_fromKey old) w else w) in
      if keys \<or> wi_amount w1 \<noteq> wi_amount old then watch_quote cl w1 else w1)"

text \<open>\<open>/liquidity/i\<close>\<close>

fun mentions_liquidity :: "string \<Rightarrow> bool" where
  "mentions_liquidity [] = False"
| "mentions_liquidity (c # cs) \<longleftrightarrow> starts_with ''liquidity'' (map lower_char (c # cs)) \<or> mentions_liquidity cs"

definition invert :: "Widget \<Rightarrow> Widget" where
  "invert w = w\<lparr>wi_fromKey := wi_toKey w, wi_toKey := wi_fromKey w\<rparr>"

text \<open>The watcher of the network.\<close>

definition network_changed :: "ActionNetwork \<Rightarrow> Widget \<Rightarrow> Widget" where
  "network_changed n w =
     (let as = assetsFor n in
      clearQuote (w\<lparr>wi_network := n, wi_fromKey := swapAssetKey (as ! 0),
        wi_toKey := swapAssetKey (if 1 < length as then as ! 1 else as ! 0), wi_amount := []\<rparr>))"

text \<open>An answer is dropped when a newer request was numbered since.\<close>

definition quote_answered :: "nat \<Rightarrow> string + string \<times> jsnum \<Rightarrow> Widget \<Rightarrow> Widget" where
  "quote_answered seq r w =
     (if seq \<noteq> wi_quoteSeq w then w
      else case r of
        Inr (destAmount, rate) \<Rightarrow>
          w\<lparr>wi_estimate := Some (parseFloat destAmount), wi_rate := Some rate, wi_quoteStatus := QuoteOk\<rparr>
      | Inl message \<Rightarrow>
          (if mentions_liquidity message
           then w\<lparr>wi_estimate := None, wi_rate := None, wi_quoteStatus := QuoteEmpty,
                  wi_quoteError := ''No liquidity for this direction on '' @ network_name (wi_network w) @ ''.''\<rparr>
           else w\<lparr>wi_estimate := None, wi_rate := None, wi_quoteStatus := QuoteError, wi_quoteError := message\<rparr>))"

text \<open>The state after an event, and the quote request it sends, with its sequence number.\<close>

definition quote_body :: "Widget \<Rightarrow> string \<Rightarrow> SdexBody" where
  "quote_body w amt =
     \<lparr>xb_address = JUndefined, xb_fromAsset = toApiRef (fromAsset w), xb_toAsset = toApiRef (toAsset w),
      xb_amount = Some amt, xb_minReceive = None, xb_network = JString (network_name (wi_network w))\<rparr>"

fun widget_step :: "Client \<Rightarrow> Widget \<Rightarrow> WidgetEvent \<Rightarrow> Widget \<times> (nat \<times> SdexBody) option" where
  "widget_step cl w (PickFrom k) = (after_change cl w (w\<lparr>wi_fromKey := k\<rparr>), None)"
| "widget_step cl w (PickTo k) = (after_change cl w (w\<lparr>wi_toKey := k\<rparr>), None)"
| "widget_step cl w Invert = (after_change cl w (invert w), None)"
| "widget_step cl w (TypeAmount t) = (after_change cl w (w\<lparr>wi_amount := t\<rparr>), None)"
| "widget_step cl w SetMax = (after_change cl w (w\<lparr>wi_amount := max_amount w\<rparr>), None)"
| "widget_step cl w (SwitchNetwork n) =
     (if n = wi_network w then (w, None) else (after_change cl w (network_changed n w), None))"
| "widget_step cl w TimerFires =
     (case wi_timer w of
        None \<Rightarrow> (w, None)
      | Some (seq, amt) \<Rightarrow> (w\<lparr>wi_timer := None\<rparr>, Some (seq, quote_body w amt)))"
| "widget_step cl w (QuoteAnswer seq r) = (quote_answered seq r w, None)"

definition widget_run :: "Client \<Rightarrow> Widget \<Rightarrow> WidgetEvent list \<Rightarrow> Widget" where
  "widget_run cl w evs = foldl (\<lambda>u e. fst (widget_step cl u e)) w evs"

text \<open>The widget as it is mounted.\<close>

definition widget_start :: "ActionNetwork \<Rightarrow> string option \<Rightarrow> string option \<Rightarrow> string option \<Rightarrow> (string \<Rightarrow> string option) \<Rightarrow> Widget" where
  "widget_start n address provider active balances =
     \<lparr>wi_network = n, wi_address = address, wi_provider = provider, wi_activeSigner = active, wi_balances = balances,
      wi_fromKey = swapAssetKey (assetsFor n ! 0), wi_toKey = swapAssetKey (assetsFor n ! 1), wi_amount = [],
      wi_quoteStatus = QuoteIdle, wi_estimate = None, wi_rate = None, wi_quoteError = [], wi_quoteSeq = 0,
      wi_timer = None, wi_status = SwapIdle\<rparr>"

end
