(* ===== verification/Swap_Flow.thy ===== *)
theory Swap_Flow
  imports Swap_Widget Flow
begin

text \<open>
  \<open>onSwap\<close> of \<open>SdexSwapWidget.vue\<close>: build, gate, sign, submit. As on the Blend card the inputs may change at
  every await (\<open>p_view\<close>, by the number of awaits passed), and what the API, the wallet and the node answer
  is arbitrary. An API error is its text with the fields of its JSON body, when it is one.
\<close>

record ErrorBody =
  eb_code :: "string option"
  eb_spendable :: "string option"
  eb_message :: "string option"

datatype SwapThrown = SwapError string "ErrorBody option"

record SubmitResult =
  su_status :: "string option"
  su_hash :: "string option"
  su_errorResultXdr :: "string option"

text \<open>The refs the widget renders, and a run with its clock and its log.\<close>

record SwapShown =
  sr_state :: SwapStatus
  sr_txHash :: string
  sr_error :: string
  sr_rejectedBeforeInclusion :: bool

record SwapOutside =
  p_view :: "nat \<Rightarrow> Widget"
  p_shared :: "nat \<Rightarrow> SwapShown \<Rightarrow> SwapShown" \<comment> \<open>what else happens to the refs at an await\<close>
  p_build :: "nat \<Rightarrow> SdexBody \<Rightarrow> SwapThrown + string" \<comment> \<open>the envelope text\<close>
  p_sign :: "nat \<Rightarrow> string \<Rightarrow> string \<Rightarrow> string \<Rightarrow> SwapThrown + string"
  p_submit :: "nat \<Rightarrow> string \<Rightarrow> string \<Rightarrow> SwapThrown + SubmitResult" \<comment> \<open>RPC address, envelope\<close>
  p_display :: "string \<Rightarrow> string" \<comment> \<open>\<open>displayBalance\<close>, in the user's locale\<close>

datatype SwapEvent =
    SwapAskedBuild SdexBody
  | SwapAskedSignature string string string \<comment> \<open>envelope, passphrase, address\<close>
  | SwapSubmitted string
  | SwapWitnessed string

record SwapRun = SwapShown +
  sr_now :: nat
  sr_log :: "SwapEvent list"

type_synonym 'a swap_flow = "(SwapRun, SwapThrown, 'a) flow"

definition swap_view :: "SwapOutside \<Rightarrow> Widget swap_flow" where
  "swap_view o1 = fl_read (\<lambda>s. p_view o1 (sr_now s))"

definition swap_resumed :: "SwapOutside \<Rightarrow> SwapRun \<Rightarrow> SwapRun" where
  "swap_resumed o1 s =
     (let v = p_shared o1 (sr_now s) \<lparr>sr_state = sr_state s, sr_txHash = sr_txHash s, sr_error = sr_error s,
            sr_rejectedBeforeInclusion = sr_rejectedBeforeInclusion s\<rparr> in
      \<lparr>sr_state = sr_state v, sr_txHash = sr_txHash v, sr_error = sr_error v,
       sr_rejectedBeforeInclusion = sr_rejectedBeforeInclusion v, sr_now = Suc (sr_now s), sr_log = sr_log s\<rparr>)"

lemma swap_resumed_simps [simp]: "sr_now (swap_resumed o1 s) = Suc (sr_now s)" "sr_log (swap_resumed o1 s) = sr_log s"
  by (simp_all add: swap_resumed_def Let_def)

definition swap_await :: "SwapOutside \<Rightarrow> (nat \<Rightarrow> SwapThrown + 'a) \<Rightarrow> 'a swap_flow" where
  "swap_await o1 f = (\<lambda>s. (f (sr_now s), swap_resumed o1 s))"

definition swap_log :: "SwapEvent \<Rightarrow> unit swap_flow" where
  "swap_log e = fl_modify (\<lambda>s. s\<lparr>sr_log := sr_log s @ [e]\<rparr>)"

definition swap_fail :: "string \<Rightarrow> unit swap_flow" where
  "swap_fail m = fl_modify (\<lambda>s. s\<lparr>sr_error := m, sr_state := SwapFailed\<rparr>)"

definition swap_rpcUrl :: "Widget \<Rightarrow> string" where
  "swap_rpcUrl w =
     (if wi_network w = Testnet then ''https://soroban-testnet.stellar.org'' else ''https://mainnet.sorobanrpc.com'')"

text \<open>The gate on the inputs of this moment. No address any more is a source no transaction has.\<close>

definition swap_check :: "Client \<Rightarrow> Widget \<Rightarrow> string \<Rightarrow> string \<Rightarrow> ValidationResult" where
  "swap_check cl w minReceive xdr =
     (let gate = (\<lambda>a. validateSwapXdr (cl_sdk cl) xdr
            (swap_intent a (fromAsset w) (toAsset w) (wi_amount w) minReceive (toWalletNetwork cl (wi_network w)))) in
      case present (wi_address w) of
        Some a \<Rightarrow> gate a
      | None \<Rightarrow> Rejected (case gate ''null'' of Ok \<Rightarrow> [] | Rejected vs \<Rightarrow> vs))"

definition swap_violations :: "ValidationResult \<Rightarrow> string" where
  "swap_violations r = (case r of Ok \<Rightarrow> [] | Rejected vs \<Rightarrow> join_with ''; '' vs)"

definition swap_sign :: "SwapOutside \<Rightarrow> string \<Rightarrow> string \<Rightarrow> string swap_flow" where
  "swap_sign o1 xdr passphrase =
     fl_bind (swap_view o1) (\<lambda>w.
       case present (wi_address w) of
         None \<Rightarrow> fl_throw (SwapError ''No wallet connected.'' None)
       | Some address \<Rightarrow>
           if present (wi_provider w) = None then fl_throw (SwapError ''No wallet provider selected.'' None)
           else fl_bind (swap_log (SwapAskedSignature xdr passphrase address)) (\<lambda>_.
                  swap_await o1 (\<lambda>t. p_sign o1 t xdr passphrase address)))"

definition submitToRpc :: "SwapOutside \<Rightarrow> string \<Rightarrow> SubmitResult swap_flow" where
  "submitToRpc o1 signedTxXdr =
     fl_bind (swap_view o1) (\<lambda>w.
     fl_bind (swap_log (SwapSubmitted signedTxXdr)) (\<lambda>_.
       swap_await o1 (\<lambda>t. p_submit o1 t (swap_rpcUrl w) signedTxXdr)))"

text \<open>What the widget shows of the node's answer.\<close>

definition swap_settle :: "SubmitResult \<Rightarrow> unit swap_flow" where
  "swap_settle r =
     (if su_status r = Some ''PENDING'' \<or> su_status r = Some ''SUCCESS'' then
        let hash = (case su_hash r of None \<Rightarrow> [] | Some h \<Rightarrow> h) in
        fl_bind (fl_modify (\<lambda>s. s\<lparr>sr_txHash := hash, sr_state := SwapSuccess\<rparr>)) (\<lambda>_.
          if hash = [] then fl_return () else swap_log (SwapWitnessed hash))
      else
        let m = (case present (su_errorResultXdr r) of
                   Some e \<Rightarrow> e
                 | None \<Rightarrow> ''Transaction rejected (status: '' @ (case su_status r of None \<Rightarrow> ''unknown'' | Some t \<Rightarrow> t) @ '').'') in
        fl_modify (\<lambda>s. s\<lparr>sr_error := m, sr_rejectedBeforeInclusion := True, sr_state := SwapFailed\<rparr>))"

definition friendlyBuildError :: "SwapOutside \<Rightarrow> Widget \<Rightarrow> SwapThrown \<Rightarrow> string" where
  "friendlyBuildError o1 w e =
     (case e of SwapError text body \<Rightarrow>
        (case body of
           None \<Rightarrow> text
         | Some b \<Rightarrow>
             if eb_code b = Some ''INSUFFICIENT_SPENDABLE_BALANCE'' then
               ''Insufficient balance: '' @ (case eb_spendable b of None \<Rightarrow> ''0'' | Some v \<Rightarrow> p_display o1 v) @ '' ''
               @ sw_code (fromAsset w) @ '' available. The rest is reserved by the Stellar network.''
             else (case eb_message b of Some m \<Rightarrow> m | None \<Rightarrow> text)))"

definition onSwap_body :: "Client \<Rightarrow> SwapOutside \<Rightarrow> Widget \<Rightarrow> string \<Rightarrow> string \<Rightarrow> unit swap_flow" where
  "onSwap_body cl o1 w0 address minReceive =
     (let body = swap_body address (fromAsset w0) (toAsset w0) (wi_amount w0) minReceive (wi_network w0) in
      fl_bind (swap_log (SwapAskedBuild body)) (\<lambda>_.
      fl_bind (swap_await o1 (\<lambda>t. p_build o1 t body)) (\<lambda>xdr.
      fl_bind (swap_view o1) (\<lambda>w.
        let check = swap_check cl w minReceive xdr in
        if check \<noteq> Ok then
          swap_fail (''Refused to sign. The XDR did not match your request: '' @ swap_violations check)
        else
          fl_bind (swap_sign o1 xdr (toWalletNetwork cl (wi_network w))) (\<lambda>signedTxXdr.
          fl_bind (submitToRpc o1 signedTxXdr) swap_settle)))))"

definition onSwap :: "Client \<Rightarrow> SwapOutside \<Rightarrow> unit swap_flow" where
  "onSwap cl o1 =
     fl_bind (swap_view o1) (\<lambda>w.
       if mainnetBlocked cl w then fl_return ()
       else case swap_signerBlockReason w of
         Some m \<Rightarrow> swap_fail m
       | None \<Rightarrow>
           fl_bind (fl_read sr_state) (\<lambda>status.
             case (canSwap cl (w\<lparr>wi_status := status\<rparr>), present (wi_address w)) of
               (True, Some address) \<Rightarrow>
                 (let minReceive = minReceiveDisplay w in
                  if minReceive = [] \<or> js_le (parseFloat minReceive) (Num 0) then fl_return ()
                  else
                    fl_bind (fl_modify (\<lambda>s. s\<lparr>sr_state := SwapLoading, sr_txHash := [], sr_error := [],
                               sr_rejectedBeforeInclusion := False\<rparr>)) (\<lambda>_.
                    fl_catch (onSwap_body cl o1 w address minReceive)
                      (\<lambda>e. fl_bind (swap_view o1) (\<lambda>u. swap_fail (friendlyBuildError o1 u e)))))
             | _ \<Rightarrow> fl_return ()))"

section \<open>What the wallet is asked to sign\<close>

lemma wp_swap_await [simp]:
  "wp (swap_await o1 f) Q E s \<longleftrightarrow>
     (case f (sr_now s) of Inl e \<Rightarrow> E e (swap_resumed o1 s) | Inr a \<Rightarrow> Q a (swap_resumed o1 s))"
  by (auto simp: wp_def swap_await_def split: sum.splits)

definition swap_signed_ok :: "(string \<Rightarrow> string \<Rightarrow> string \<Rightarrow> bool) \<Rightarrow> SwapRun \<Rightarrow> bool" where
  "swap_signed_ok G s \<longleftrightarrow> (\<forall>x p a. SwapAskedSignature x p a \<in> set (sr_log s) \<longrightarrow> G x p a)"

text \<open>An envelope that passed the gate on the inputs of one moment, with the minimum shown at an earlier one.\<close>

definition swap_gated :: "Client \<Rightarrow> SwapOutside \<Rightarrow> string \<Rightarrow> string \<Rightarrow> string \<Rightarrow> bool" where
  "swap_gated cl o1 x p a \<longleftrightarrow>
     (\<exists>t0 t. let w = p_view o1 t in present (wi_address w) = Some a \<and> p = toWalletNetwork cl (wi_network w)
        \<and> validateSwapXdr (cl_sdk cl) x
            (swap_intent a (fromAsset w) (toAsset w) (wi_amount w) (minReceiveDisplay (p_view o1 t0)) p) = Ok)"

lemma swap_settle_keeps: "swap_signed_ok G s \<Longrightarrow> wp (swap_settle r) (\<lambda>_. swap_signed_ok G) (\<lambda>_. swap_signed_ok G) s"
  by (auto simp: swap_settle_def swap_log_def swap_signed_ok_def Let_def)

lemma swap_sign_keeps:
  assumes s: "swap_signed_ok G s" and g: "\<And>a. present (wi_address (p_view o1 (sr_now s))) = Some a \<Longrightarrow> G x p a"
  shows "wp (fl_bind (swap_sign o1 x p) (\<lambda>y. fl_bind (submitToRpc o1 y) swap_settle))
    (\<lambda>_. swap_signed_ok G) (\<lambda>_. swap_signed_ok G) s"
proof -
  have "swap_signed_ok G t"
    if "present (wi_address (p_view o1 (sr_now s))) = Some a"
      "sr_log t = sr_log s @ [SwapAskedSignature x p a] \<or> sr_log t = sr_log s @ [SwapAskedSignature x p a, SwapSubmitted y]" for a y t
    using s g [OF that(1)] that(2) by (auto simp: swap_signed_ok_def)
  then show ?thesis using s
    by (auto simp: swap_sign_def submitToRpc_def swap_view_def swap_log_def intro!: swap_settle_keeps
        split: option.split sum.split)
qed

lemma onSwap_body_keeps:
  assumes s: "swap_signed_ok G s" and m: "minReceive = minReceiveDisplay (p_view o1 t0)"
    and g: "\<And>x p a. swap_gated cl o1 x p a \<Longrightarrow> G x p a"
  shows "wp (onSwap_body cl o1 w0 address minReceive) (\<lambda>_. swap_signed_ok G) (\<lambda>_. swap_signed_ok G) s"
proof -
  have ok: "G x (toWalletNetwork cl (wi_network w)) a"
    if "swap_check cl w minReceive x = Ok" "w = p_view o1 t" "present (wi_address w) = Some a" for x w t a
    using that by (intro g) (auto simp: swap_gated_def swap_check_def m Let_def)
  have s1: "swap_signed_ok G (swap_resumed o1 (s\<lparr>sr_log := sr_log s @ [SwapAskedBuild b]\<rparr>))" for b
    using s by (auto simp: swap_signed_ok_def)
  have "swap_signed_ok G (t\<lparr>sr_error := e, sr_state := SwapFailed\<rparr>)" if "swap_signed_ok G t" for t e
    using that by (simp add: swap_signed_ok_def)
  with s1 ok show ?thesis
    by (auto simp: onSwap_body_def swap_log_def swap_view_def swap_fail_def Let_def simp del: wp_bind
        intro!: wp_bind [THEN iffD2] swap_sign_keeps [simplified wp_bind] split: sum.split)
qed

lemma wp_swap_view [simp]: "wp (swap_view o1) Q E s \<longleftrightarrow> Q (p_view o1 (sr_now s)) s"
  by (simp add: swap_view_def)

lemma wp_swap_fail [simp]: "wp (swap_fail m) Q E s \<longleftrightarrow> Q () (s\<lparr>sr_error := m, sr_state := SwapFailed\<rparr>)"
  by (simp add: swap_fail_def)

lemma onSwap_keeps:
  assumes "\<And>x p a. swap_gated cl o1 x p a \<Longrightarrow> G x p a"
  shows "keeps (swap_signed_ok G) (onSwap cl o1)"
proof (rule keepsI)
  fix s
  assume s: "swap_signed_ok G s"
  have fail: "swap_signed_ok G (t\<lparr>sr_error := e, sr_state := SwapFailed\<rparr>)" if "swap_signed_ok G t" for t e
    using that by (simp add: swap_signed_ok_def)
  have s1: "swap_signed_ok G (s\<lparr>sr_state := SwapLoading, sr_txHash := [], sr_error := [], sr_rejectedBeforeInclusion := False\<rparr>)"
    using s by (simp add: swap_signed_ok_def)
  have body: "wp (fl_catch (onSwap_body cl o1 w0 address (minReceiveDisplay (p_view o1 t0)))
        (\<lambda>e. fl_bind (swap_view o1) (\<lambda>u. swap_fail (friendlyBuildError o1 u e))))
      (\<lambda>_. swap_signed_ok G) (\<lambda>_. swap_signed_ok G)
      (s\<lparr>sr_state := SwapLoading, sr_txHash := [], sr_error := [], sr_rejectedBeforeInclusion := False\<rparr>)" for w0 address t0
    unfolding wp_catch
    by (rule wp_mono [OF onSwap_body_keeps [OF s1 refl assms]]) (auto intro: fail)
  show "wp (onSwap cl o1) (\<lambda>_. swap_signed_ok G) (\<lambda>_. swap_signed_ok G) s"
    using s fail [OF s] body
    by (auto simp: onSwap_def Let_def simp del: wp_catch split: option.split bool.split)
qed

lemma swap_gated_tx:
  assumes "swap_gated cl o1 x p a"
  shows "\<exists>t0 t tx. (let w = p_view o1 t in wi_address w = Some a \<and> p = toWalletNetwork cl (wi_network w)
      \<and> p \<in> set (RECOGNIZED_NETWORKS (cl_sdk cl)) \<and> fromXDR (cl_sdk cl) x p = Some (Classic tx) \<and> tx_source tx = a
      \<and> fee_within 100000 tx
      \<and> swap_intended (swap_intent a (fromAsset w) (toAsset w) (wi_amount w) (minReceiveDisplay (p_view o1 t0)) p) tx)"
  using assms
  by (fastforce simp: swap_gated_def swap.accepts present_Some Let_def swap_intent_def MAX_FEE_STROOPS_def)

section \<open>The two sides of the pair\<close>

definition offered_keys :: "ActionNetwork \<Rightarrow> string list" where
  "offered_keys n = map swapAssetKey (assetsFor n)"

definition pair_ok :: "Widget \<Rightarrow> bool" where
  "pair_ok w \<longleftrightarrow>
     wi_fromKey w \<in> set (offered_keys (wi_network w)) \<and> wi_toKey w \<in> set (offered_keys (wi_network w))
     \<and> wi_fromKey w \<noteq> wi_toKey w"

text \<open>The pickers emit only keys of the assets they list.\<close>

fun from_pickers :: "Widget \<Rightarrow> WidgetEvent \<Rightarrow> bool" where
  "from_pickers w (PickFrom k) = (k \<in> set (offered_keys (wi_network w)))"
| "from_pickers w (PickTo k) = (k \<in> set (offered_keys (wi_network w)))"
| "from_pickers w e = True"

lemma offered_distinct: "distinct (offered_keys n)" "3 \<le> length (offered_keys n)"
  by (cases n; simp only:; code_simp)+

lemma free_asset:
  "\<exists>a. List.find (\<lambda>a. swapAssetKey a \<noteq> k) (assetsFor n) = Some a \<and> swapAssetKey a \<noteq> k \<and> swapAssetKey a \<in> set (offered_keys n)"
proof (cases "List.find (\<lambda>a. swapAssetKey a \<noteq> k) (assetsFor n)")
  case None
  then have "set (offered_keys n) \<subseteq> {k}" by (auto simp: find_None_iff offered_keys_def)
  then have "card (set (offered_keys n)) \<le> 1" by (metis card.empty card.insert card_mono empty_iff finite.emptyI finite.insertI One_nat_def)
  then show ?thesis using offered_distinct [of n] by (simp add: distinct_card)
next
  case (Some a)
  then show ?thesis by (auto simp: find_Some_iff offered_keys_def)
qed

definition in_list :: "Widget \<Rightarrow> bool" where
  "in_list w \<longleftrightarrow> wi_fromKey w \<in> set (offered_keys (wi_network w)) \<and> wi_toKey w \<in> set (offered_keys (wi_network w))"

lemma watch_keys_pair: "in_list w \<Longrightarrow> pair_ok (watch_keys pf w)"
  using free_asset [of "wi_fromKey w" "wi_network w"]
  by (auto simp: in_list_def pair_ok_def watch_keys_def split: if_splits)

lemma watch_quote_pair [simp]: "pair_ok (watch_quote cl w) \<longleftrightarrow> pair_ok w" "pair_ok (clearQuote w) \<longleftrightarrow> pair_ok w"
  by (auto simp: pair_ok_def watch_quote_def clearQuote_def Let_def)

lemma after_change_pair:
  "in_list w \<Longrightarrow> (wi_fromKey w = wi_fromKey old \<and> wi_toKey w = wi_toKey old \<longrightarrow> pair_ok w) \<Longrightarrow> pair_ok (after_change cl old w)"
  by (auto simp: after_change_def Let_def watch_keys_pair)

lemma switch_pair:
  assumes "w1 = network_changed n w"
  shows "in_list w1 \<and> pair_ok w1"
proof -
  have len: "0 < length (offered_keys n)" "1 < length (offered_keys n)" using offered_distinct(2) [of n] by linarith+
  have k: "offered_keys n ! 0 \<in> set (offered_keys n)" "offered_keys n ! 1 \<in> set (offered_keys n)"
    using len by (simp_all only: nth_mem)
  have k': "offered_keys n ! 0 \<noteq> offered_keys n ! 1"
    using nth_eq_iff_index_eq [OF offered_distinct(1) len] by simp
  have l: "0 < length (assetsFor n)" "1 < length (assetsFor n)" using len by (simp_all only: offered_keys_def length_map)
  have w: "wi_fromKey w1 = offered_keys n ! 0" "wi_toKey w1 = offered_keys n ! 1" "wi_network w1 = n"
    unfolding assms network_changed_def Let_def clearQuote_def offered_keys_def nth_map [OF l(1)] nth_map [OF l(2)] by (simp_all add: l(2) [unfolded One_nat_def])
  show ?thesis unfolding in_list_def pair_ok_def w using k k' by blast
qed

lemma step_pair_quote:
  "pair_ok w \<Longrightarrow> pair_ok (fst (widget_step cl w TimerFires))"
  "pair_ok w \<Longrightarrow> pair_ok (fst (widget_step cl w (QuoteAnswer q r)))"
  by (auto simp: pair_ok_def quote_answered_def split: option.split sum.split)

lemma step_pair_edit:
  "pair_ok w \<Longrightarrow> pair_ok (fst (widget_step cl w Invert))"
  "pair_ok w \<Longrightarrow> pair_ok (fst (widget_step cl w (TypeAmount t)))"
  "pair_ok w \<Longrightarrow> pair_ok (fst (widget_step cl w SetMax))"
  unfolding widget_step.simps invert_def fst_conv
  by (rule after_change_pair; auto simp: in_list_def pair_ok_def)+

lemma step_pair_pick:
  assumes "pair_ok w" "k \<in> set (offered_keys (wi_network w))"
  shows "pair_ok (fst (widget_step cl w (PickFrom k)))" "pair_ok (fst (widget_step cl w (PickTo k)))"
  unfolding widget_step.simps fst_conv
  by (rule after_change_pair; use assms in \<open>auto simp: in_list_def pair_ok_def\<close>)+

lemma step_pair_switch:
  assumes "pair_ok w"
  shows "pair_ok (fst (widget_step cl w (SwitchNetwork n)))"
proof (cases "n = wi_network w")
  case False
  show ?thesis unfolding widget_step.simps if_not_P [OF False] fst_conv
    by (rule after_change_pair) (use switch_pair [OF refl] in blast)+
qed (use assms in simp)

lemma widget_step_pair:
  assumes "pair_ok w" "from_pickers w e"
  shows "pair_ok (fst (widget_step cl w e))"
  using assms
  by (cases e) (simp_all only: from_pickers.simps step_pair_quote step_pair_edit step_pair_pick step_pair_switch)

lemma widget_run_snoc: "widget_run cl w (evs @ [e]) = fst (widget_step cl (widget_run cl w evs) e)"
  by (simp add: widget_run_def)

end
