(* ===== verification/Swap_Quotes.thy ===== *)
theory Swap_Quotes
  imports Swap_Flow
begin

text \<open>
  The runs of the swap widget against a quote API: which states are reachable, and what the quote on show
  has to do with the inputs. \<open>api seq body\<close> is the answer to the quote request with that number; an answer
  comes after its request, and the pickers emit keys they list.
\<close>

fun allowed :: "(nat \<Rightarrow> SdexBody \<Rightarrow> string + string \<times> jsnum) \<Rightarrow> (nat \<times> SdexBody) list \<Rightarrow> Widget \<Rightarrow> WidgetEvent \<Rightarrow> bool" where
  "allowed api sent w (QuoteAnswer q r) = list_ex (\<lambda>(q', b). q' = q \<and> r = api q b) sent"
| "allowed api sent w e = from_pickers w e"

definition sent_after :: "Client \<Rightarrow> Widget \<Rightarrow> WidgetEvent \<Rightarrow> (nat \<times> SdexBody) list \<Rightarrow> (nat \<times> SdexBody) list" where
  "sent_after cl w e sent = sent @ (case snd (widget_step cl w e) of None \<Rightarrow> [] | Some q \<Rightarrow> [q])"

inductive widget_reach ::
  "Client \<Rightarrow> (nat \<Rightarrow> SdexBody \<Rightarrow> string + string \<times> jsnum) \<Rightarrow> Widget \<Rightarrow> Widget \<Rightarrow> (nat \<times> SdexBody) list \<Rightarrow> bool"
  for cl api w0 where
  reach_start: "widget_reach cl api w0 w0 []"
| reach_step: "widget_reach cl api w0 w sent \<Longrightarrow> allowed api sent w e \<Longrightarrow>
    widget_reach cl api w0 (fst (widget_step cl w e)) (sent_after cl w e sent)"

inductive_cases widget_reachE: "widget_reach cl api w0 w sent"

lemma allowed_pickers: "allowed api sent w e \<Longrightarrow> from_pickers w e"
  by (cases e) auto

lemma start_pair: "pair_ok (widget_start n a p s b)"
proof -
  have len: "0 < length (offered_keys n)" "1 < length (offered_keys n)" using offered_distinct(2) [of n] by linarith+
  have k: "offered_keys n ! 0 \<in> set (offered_keys n)" "offered_keys n ! 1 \<in> set (offered_keys n)"
    using len by (simp_all only: nth_mem)
  have k': "offered_keys n ! 0 \<noteq> offered_keys n ! 1"
    using nth_eq_iff_index_eq [OF offered_distinct(1) len] by simp
  have l: "0 < length (assetsFor n)" "1 < length (assetsFor n)" using len by (simp_all only: offered_keys_def length_map)
  show ?thesis using k k' unfolding offered_keys_def nth_map [OF l(1)] nth_map [OF l(2)]
    by (simp add: pair_ok_def widget_start_def offered_keys_def)
qed

lemma reach_pair: "widget_reach cl api w0 w sent \<Longrightarrow> pair_ok w0 \<Longrightarrow> pair_ok w"
  by (induction rule: widget_reach.induct) (simp_all add: widget_step_pair allowed_pickers)

lemma offered_found:
  assumes "k \<in> set (offered_keys n)"
  shows "find_asset n k \<in> set (assetsFor n) \<and> swapAssetKey (find_asset n k) = k"
proof (cases "List.find (\<lambda>a. swapAssetKey a = k) (assetsFor n)")
  case None
  with assms show ?thesis by (auto simp: find_None_iff offered_keys_def)
next
  case (Some a)
  then have "a \<in> set (assetsFor n) \<and> swapAssetKey a = k" by (auto simp: find_Some_iff)
  with Some show ?thesis by (simp add: find_asset_def)
qed

lemma pair_ok_assets:
  assumes "pair_ok w"
  shows "fromAsset w \<in> set (assetsFor (wi_network w)) \<and> toAsset w \<in> set (assetsFor (wi_network w))
    \<and> swapAssetKey (fromAsset w) \<noteq> swapAssetKey (toAsset w)"
  using assms offered_found [of "wi_fromKey w" "wi_network w"] offered_found [of "wi_toKey w" "wi_network w"]
  by (auto simp: pair_ok_def fromAsset_def toAsset_def)

section \<open>The quote on show\<close>

definition quotable :: "Client \<Rightarrow> Widget \<Rightarrow> bool" where
  "quotable cl w \<longleftrightarrow> \<not> (parseFloat (wi_amount w) = NaN \<or> js_le (parseFloat (wi_amount w)) (Num 0) \<or> mainnetBlocked cl w)"

definition quote_inv ::
  "Client \<Rightarrow> (nat \<Rightarrow> SdexBody \<Rightarrow> string + string \<times> jsnum) \<Rightarrow> Widget \<Rightarrow> (nat \<times> SdexBody) list \<Rightarrow> bool" where
  "quote_inv cl api w sent \<longleftrightarrow>
     (\<forall>q a. wi_timer w = Some (q, a) \<longrightarrow> q = wi_quoteSeq w \<and> a = wi_amount w)
     \<and> (\<forall>q b. (q, b) \<in> set sent \<longrightarrow> q \<le> wi_quoteSeq w)
     \<and> (quotable cl w \<longrightarrow> (\<forall>b. (wi_quoteSeq w, b) \<in> set sent \<longrightarrow> b = quote_body w (wi_amount w)))
     \<and> (quotable cl w \<and> wi_quoteStatus w = QuoteOk \<longrightarrow>
          (\<exists>dest rate. (wi_quoteSeq w, quote_body w (wi_amount w)) \<in> set sent
             \<and> api (wi_quoteSeq w) (quote_body w (wi_amount w)) = Inr (dest, rate)
             \<and> wi_estimate w = Some (parseFloat dest) \<and> wi_rate w = Some rate))"

lemma quotable_cong: "wi_amount w = wi_amount u \<Longrightarrow> wi_network w = wi_network u \<Longrightarrow> quotable cl w = quotable cl u"
  by (simp add: quotable_def mainnetBlocked_def)

lemma quote_body_cong:
  "wi_fromKey w = wi_fromKey u \<Longrightarrow> wi_toKey w = wi_toKey u \<Longrightarrow> wi_network w = wi_network u \<Longrightarrow> quote_body w a = quote_body u a"
  by (simp add: quote_body_def fromAsset_def toAsset_def)

lemma quotable_fields [simp]:
  "quotable cl (w\<lparr>wi_timer := t\<rparr>) = quotable cl w" "quotable cl (w\<lparr>wi_estimate := e\<rparr>) = quotable cl w"
  "quotable cl (w\<lparr>wi_rate := e\<rparr>) = quotable cl w" "quotable cl (w\<lparr>wi_quoteStatus := st\<rparr>) = quotable cl w"
  "quotable cl (w\<lparr>wi_quoteError := er\<rparr>) = quotable cl w" "quotable cl (w\<lparr>wi_quoteSeq := q\<rparr>) = quotable cl w"
  by (rule quotable_cong; simp)+

lemma quote_body_fields [simp]:
  "quote_body (w\<lparr>wi_timer := t\<rparr>) a = quote_body w a" "quote_body (w\<lparr>wi_estimate := e\<rparr>) a = quote_body w a"
  "quote_body (w\<lparr>wi_rate := e\<rparr>) a = quote_body w a" "quote_body (w\<lparr>wi_quoteStatus := st\<rparr>) a = quote_body w a"
  "quote_body (w\<lparr>wi_quoteError := er\<rparr>) a = quote_body w a" "quote_body (w\<lparr>wi_quoteSeq := q\<rparr>) a = quote_body w a"
  by (rule quote_body_cong; simp)+

lemma quote_invI:
  assumes "\<And>q a. wi_timer w = Some (q, a) \<Longrightarrow> q = wi_quoteSeq w \<and> a = wi_amount w"
    and "\<And>q b. (q, b) \<in> set sent \<Longrightarrow> q \<le> wi_quoteSeq w"
    and "\<And>b. quotable cl w \<Longrightarrow> (wi_quoteSeq w, b) \<in> set sent \<Longrightarrow> b = quote_body w (wi_amount w)"
    and "quotable cl w \<Longrightarrow> wi_quoteStatus w = QuoteOk \<Longrightarrow>
          \<exists>dest rate. (wi_quoteSeq w, quote_body w (wi_amount w)) \<in> set sent
             \<and> api (wi_quoteSeq w) (quote_body w (wi_amount w)) = Inr (dest, rate)
             \<and> wi_estimate w = Some (parseFloat dest) \<and> wi_rate w = Some rate"
  shows "quote_inv cl api w sent"
  unfolding quote_inv_def using assms by blast

lemma quote_invD:
  assumes "quote_inv cl api w sent"
  shows "wi_timer w = Some (q, a) \<Longrightarrow> q = wi_quoteSeq w \<and> a = wi_amount w"
    and "(q, b) \<in> set sent \<Longrightarrow> q \<le> wi_quoteSeq w"
    and "quotable cl w \<Longrightarrow> (wi_quoteSeq w, b) \<in> set sent \<Longrightarrow> b = quote_body w (wi_amount w)"
    and "quotable cl w \<Longrightarrow> wi_quoteStatus w = QuoteOk \<Longrightarrow>
          \<exists>dest rate. (wi_quoteSeq w, quote_body w (wi_amount w)) \<in> set sent
             \<and> api (wi_quoteSeq w) (quote_body w (wi_amount w)) = Inr (dest, rate)
             \<and> wi_estimate w = Some (parseFloat dest) \<and> wi_rate w = Some rate"
  using assms unfolding quote_inv_def by blast+

text \<open>After a change of the inputs the quote is asked anew, or there is none to show.\<close>

lemma quote_inv_asked:
  assumes "\<And>q b. (q, b) \<in> set sent \<Longrightarrow> q < wi_quoteSeq w" "wi_timer w = Some (wi_quoteSeq w, wi_amount w)"
    "wi_quoteStatus w = QuoteLoading"
  shows "quote_inv cl api w sent"
  by (rule quote_invI) (use assms in \<open>fastforce simp: less_imp_le\<close>)+

lemma quote_inv_none:
  assumes "\<And>q b. (q, b) \<in> set sent \<Longrightarrow> q \<le> wi_quoteSeq w" "wi_timer w = None \<or> wi_timer w = Some (wi_quoteSeq w, wi_amount w)"
    "\<not> quotable cl w"
  shows "quote_inv cl api w sent"
  by (rule quote_invI) (use assms in auto)

lemma watch_quote_inv:
  assumes s: "\<And>q b. (q, b) \<in> set sent \<Longrightarrow> q \<le> wi_quoteSeq w"
  shows "quote_inv cl api (watch_quote cl w) sent"
proof (cases "quotable cl w")
  case True
  then have "watch_quote cl w = w\<lparr>wi_timer := Some (Suc (wi_quoteSeq w), wi_amount w), wi_quoteStatus := QuoteLoading,
      wi_quoteError := [], wi_quoteSeq := Suc (wi_quoteSeq w)\<rparr>"
    by (simp add: watch_quote_def quotable_def Let_def)
  then show ?thesis by (simp only:) (rule quote_inv_asked; simp add: le_imp_less_Suc s)
next
  case False
  then have w: "watch_quote cl w = clearQuote (w\<lparr>wi_timer := None\<rparr>)" by (auto simp: watch_quote_def quotable_def Let_def)
  have "\<not> quotable cl (watch_quote cl w)" using False unfolding w clearQuote_def by simp
  then show ?thesis by (rule quote_inv_none [rotated 2]) (auto simp: w clearQuote_def dest: s)
qed

lemma after_change_inv:
  assumes old: "\<And>q b. (q, b) \<in> set sent \<Longrightarrow> q \<le> wi_quoteSeq w"
    and same: "wi_fromKey w = wi_fromKey old \<and> wi_toKey w = wi_toKey old \<and> wi_amount w = wi_amount old \<Longrightarrow> quote_inv cl api w sent"
  shows "quote_inv cl api (after_change cl old w) sent"
proof -
  have w1: "wi_quoteSeq (watch_keys pf w) = wi_quoteSeq w" for pf by (simp add: watch_keys_def split: option.split)
  show ?thesis
  proof (cases "wi_fromKey w = wi_fromKey old \<and> wi_toKey w = wi_toKey old")
    case True
    show ?thesis
    proof (cases "wi_amount w = wi_amount old")
      case True
      with \<open>wi_fromKey w = _ \<and> _\<close> show ?thesis using same by (simp add: after_change_def)
    next
      case False
      with True show ?thesis using watch_quote_inv [OF old] by (simp add: after_change_def)
    qed
  next
    case False
    then have "after_change cl old w = watch_quote cl (watch_keys (wi_fromKey old) w)" by (auto simp: after_change_def Let_def)
    then show ?thesis using watch_quote_inv [of sent "watch_keys (wi_fromKey old) w"] old by (simp add: w1)
  qed
qed

lemma quote_inv_same:
  assumes "quote_inv cl api w sent" "wi_fromKey u = wi_fromKey w" "wi_toKey u = wi_toKey w" "wi_amount u = wi_amount w"
    "wi_network u = wi_network w" "wi_timer u = wi_timer w" "wi_quoteSeq u = wi_quoteSeq w"
    "wi_quoteStatus u = wi_quoteStatus w" "wi_estimate u = wi_estimate w" "wi_rate u = wi_rate w"
  shows "quote_inv cl api u sent"
  using assms(1) quote_body_cong [OF assms(2,3,5)] quotable_cong [OF assms(4,5)] unfolding quote_inv_def assms by simp

lemma quote_inv_edited:
  assumes inv: "quote_inv cl api w sent" and u: "wi_network u = wi_network w" "wi_timer u = wi_timer w"
    "wi_quoteSeq u = wi_quoteSeq w" "wi_quoteStatus u = wi_quoteStatus w" "wi_estimate u = wi_estimate w" "wi_rate u = wi_rate w"
  shows "quote_inv cl api (after_change cl w u) sent"
proof (rule after_change_inv)
  show "q \<le> wi_quoteSeq u" if "(q, b) \<in> set sent" for q b
    using quote_invD(2) [OF inv that] by (simp only: u(3))
  show "quote_inv cl api u sent" if "wi_fromKey u = wi_fromKey w \<and> wi_toKey u = wi_toKey w \<and> wi_amount u = wi_amount w"
    by (rule quote_inv_same [OF inv]) (use that u in blast)+
qed

lemma quote_inv_edit:
  assumes inv: "quote_inv cl api w sent"
  shows "quote_inv cl api (fst (widget_step cl w (PickFrom k))) sent" "quote_inv cl api (fst (widget_step cl w (PickTo k))) sent"
    "quote_inv cl api (fst (widget_step cl w Invert)) sent" "quote_inv cl api (fst (widget_step cl w (TypeAmount k))) sent"
    "quote_inv cl api (fst (widget_step cl w SetMax)) sent"
  unfolding widget_step.simps invert_def fst_conv by (rule quote_inv_edited [OF inv]; simp)+

lemma quote_inv_cleared:
  assumes inv: "quote_inv cl api w sent" and u: "wi_amount u = []" "wi_timer u = wi_timer w" "wi_quoteSeq u = wi_quoteSeq w"
  shows "quote_inv cl api (after_change cl w u) sent"
proof (rule after_change_inv)
  show s: "q \<le> wi_quoteSeq u" if "(q, b) \<in> set sent" for q b
    using quote_invD(2) [OF inv that] by (simp only: u(3))
  assume same: "wi_fromKey u = wi_fromKey w \<and> wi_toKey u = wi_toKey w \<and> wi_amount u = wi_amount w"
  have "wi_timer u = None \<or> wi_timer u = Some (wi_quoteSeq u, wi_amount u)"
  proof (cases "wi_timer w")
    case None
    then show ?thesis by (simp only: u(2) simp_thms)
  next
    case (Some t)
    then have "wi_timer w = Some (wi_quoteSeq w, wi_amount w)" using quote_invD(1) [OF inv, of "fst t" "snd t"] by (cases t) simp
    then show ?thesis using same by (simp only: u(2,3) simp_thms)
  qed
  moreover have "parseFloat [] = NaN" by code_simp
  then have "\<not> quotable cl u" by (simp add: quotable_def u(1))
  ultimately show "quote_inv cl api u sent" by (intro quote_inv_none s)
qed

lemma quote_inv_switch:
  assumes inv: "quote_inv cl api w sent"
  shows "quote_inv cl api (fst (widget_step cl w (SwitchNetwork n))) sent"
proof (cases "n = wi_network w")
  case False
  show ?thesis unfolding widget_step.simps if_not_P [OF False] fst_conv
    by (rule quote_inv_cleared [OF inv]) (simp_all add: network_changed_def Let_def clearQuote_def)
qed (use inv in simp)

lemma quote_inv_timer:
  assumes inv: "quote_inv cl api w sent"
  shows "quote_inv cl api (fst (widget_step cl w TimerFires)) (sent_after cl w TimerFires sent)"
proof (cases "wi_timer w")
  case (Some t)
  obtain q a where t: "wi_timer w = Some (q, a)" using Some by (cases t) auto
  then have q: "q = wi_quoteSeq w" "a = wi_amount w" using quote_invD(1) [OF inv] by blast+
  let ?u = "w\<lparr>wi_timer := None\<rparr>" and ?sent = "sent @ [(wi_quoteSeq w, quote_body w (wi_amount w))]"
  have "quote_inv cl api ?u ?sent"
  proof (rule quote_invI)
    show "q' \<le> wi_quoteSeq ?u" if "(q', b) \<in> set ?sent" for q' b
      using that quote_invD(2) [OF inv, of q' b] by auto
    show "b = quote_body ?u (wi_amount ?u)" if "quotable cl ?u" "(wi_quoteSeq ?u, b) \<in> set ?sent" for b
      using that quote_invD(3) [OF inv, of b] by auto
    show "\<exists>dest rate. (wi_quoteSeq ?u, quote_body ?u (wi_amount ?u)) \<in> set ?sent
        \<and> api (wi_quoteSeq ?u) (quote_body ?u (wi_amount ?u)) = Inr (dest, rate)
        \<and> wi_estimate ?u = Some (parseFloat dest) \<and> wi_rate ?u = Some rate"
      if "quotable cl ?u" "wi_quoteStatus ?u = QuoteOk"
      using that quote_invD(4) [OF inv] by simp
  qed simp
  then show ?thesis by (simp add: sent_after_def t q)
qed (use inv in \<open>simp add: sent_after_def\<close>)

lemma quote_inv_answer:
  assumes inv: "quote_inv cl api w sent" and a: "(q, b) \<in> set sent" "r = api q b"
  shows "quote_inv cl api (fst (widget_step cl w (QuoteAnswer q r))) sent"
proof (cases "q = wi_quoteSeq w")
  case True
  have b: "quotable cl w \<Longrightarrow> b = quote_body w (wi_amount w)" using quote_invD(3) [OF inv] a(1) True by blast
  have idle: "quote_inv cl api u sent"
    if "wi_timer u = wi_timer w" "wi_quoteSeq u = wi_quoteSeq w" "wi_amount u = wi_amount w" "quotable cl u = quotable cl w"
      "quote_body u (wi_amount w) = quote_body w (wi_amount w)" "wi_quoteStatus u \<noteq> QuoteOk" for u
    by (rule quote_invI; unfold that(1-5)) (use that(6) quote_invD(1,2,3) [OF inv] in blast)+
  show ?thesis
  proof (cases r)
    case (Inl m)
    then show ?thesis using True by (auto simp: quote_answered_def intro!: idle)
  next
    case (Inr z)
    obtain dest rate where z: "z = (dest, rate)" by (cases z)
    have shown: "quote_inv cl api u sent"
      if "wi_timer u = wi_timer w" "wi_quoteSeq u = wi_quoteSeq w" "wi_amount u = wi_amount w" "quotable cl u = quotable cl w"
        "quote_body u (wi_amount w) = quote_body w (wi_amount w)" "wi_estimate u = Some (parseFloat dest)" "wi_rate u = Some rate" for u
      by (rule quote_invI; unfold that) (use quote_invD(1,2,3) [OF inv] a b True Inr z in blast)+
    show ?thesis using True Inr z by (auto simp: quote_answered_def intro!: shown)
  qed
qed (use inv in \<open>simp add: quote_answered_def\<close>)

lemma sent_after_quiet: "e \<noteq> TimerFires \<Longrightarrow> sent_after cl w e sent = sent"
  by (cases e) (simp_all add: sent_after_def Let_def split: sum.split)

lemma quote_inv_step:
  assumes "quote_inv cl api w sent" "allowed api sent w e"
  shows "quote_inv cl api (fst (widget_step cl w e)) (sent_after cl w e sent)"
proof (cases "e = TimerFires")
  case True
  show ?thesis unfolding True by (rule quote_inv_timer [OF assms(1)])
next
  case False
  have "quote_inv cl api (fst (widget_step cl w e)) sent"
  proof (cases e)
    case (QuoteAnswer q r)
    with assms(2) obtain b where "(q, b) \<in> set sent" "r = api q b" by (auto simp: list_ex_iff)
    then show ?thesis using quote_inv_answer [OF assms(1)] unfolding QuoteAnswer by blast
  qed (use False quote_inv_edit [OF assms(1)] quote_inv_switch [OF assms(1)] in blast)+
  then show ?thesis by (simp only: sent_after_quiet [OF False])
qed

lemma start_quote_inv: "quote_inv cl api (widget_start n a p s b) []"
  by (simp add: quote_inv_def widget_start_def)

lemma reach_quote_inv: "widget_reach cl api w0 w sent \<Longrightarrow> quote_inv cl api w0 [] \<Longrightarrow> quote_inv cl api w sent"
  by (induction rule: widget_reach.induct) (simp_all add: quote_inv_step)

text \<open>A list of events as a run.\<close>

fun run_allowed ::
  "Client \<Rightarrow> (nat \<Rightarrow> SdexBody \<Rightarrow> string + string \<times> jsnum) \<Rightarrow> (nat \<times> SdexBody) list \<Rightarrow> Widget \<Rightarrow> WidgetEvent list \<Rightarrow> bool" where
  "run_allowed cl api sent w [] \<longleftrightarrow> True"
| "run_allowed cl api sent w (e # es) \<longleftrightarrow>
     allowed api sent w e \<and> run_allowed cl api (sent_after cl w e sent) (fst (widget_step cl w e)) es"

lemma run_reach:
  "widget_reach cl api w0 w sent \<Longrightarrow> run_allowed cl api sent w evs \<Longrightarrow> \<exists>sent'. widget_reach cl api w0 (widget_run cl w evs) sent'"
proof (induction evs arbitrary: w sent)
  case (Cons e es)
  then show ?case using reach_step [of cl api w0 w sent e] by (auto simp: widget_run_def)
qed (auto simp: widget_run_def)

end
