(* ===== verification/Swap_Example.thy ===== *)
theory Swap_Example
  imports Actions_Example Swap_Quotes
begin

text \<open>
  Concrete runs of the swap widget: a swap, and a quote that goes stale.
\<close>

text \<open>A swap of ten XLM for USDC, at an estimate that gives the minimum 18.5.\<close>

definition cx_widget :: Widget where
  "cx_widget = (widget_start Testnet (Some ax_user) (Some ''xbull'') (Some ax_user) (\<lambda>_. None))
     \<lparr>wi_amount := ''10'', wi_quoteStatus := QuoteOk, wi_estimate := Some (parseFloat ''19.473684210526315'')\<rparr>"

definition cx_swap :: SwapOutside where
  "cx_swap = \<lparr>p_view = (\<lambda>_. cx_widget), p_shared = (\<lambda>_ v. v), p_build = (\<lambda>_ _. Inr ''w20000''),
     p_sign = (\<lambda>_ x _ _. Inr (''signed '' @ x)),
     p_submit = (\<lambda>_ _ _. Inr \<lparr>su_status = Some ''PENDING'', su_hash = Some ''def'', su_errorResultXdr = None\<rparr>),
     p_display = (\<lambda>v. v)\<rparr>"

definition cx_swap_start :: SwapRun where
  "cx_swap_start = \<lparr>sr_state = SwapIdle, sr_txHash = [], sr_error = [], sr_rejectedBeforeInclusion = False, sr_now = 0, sr_log = []\<rparr>"

lemma cx_min: "minReceiveDisplay cx_widget = ''18.5''"
  by code_simp

lemma cx_can_swap: "canSwap cx_client cx_widget" "mainnetBlocked cx_client cx_widget = False" "swap_signerBlockReason cx_widget = None"
  "js_le (parseFloat ''18.5'') (Num 0) = False"
proof -
  have "(canSwap cx_client cx_widget)
    \<and> (mainnetBlocked cx_client cx_widget = False)
    \<and> (swap_signerBlockReason cx_widget = None)
    \<and> (js_le (parseFloat ''18.5'') (Num 0) = False)"
    by code_simp
  then show "canSwap cx_client cx_widget" "mainnetBlocked cx_client cx_widget = False" "swap_signerBlockReason cx_widget = None" "js_le (parseFloat ''18.5'') (Num 0) = False"
    by - (elim conjE; assumption)+
qed

lemma cx_swap_gate: "swap_check cx_client cx_widget ''18.5'' ''w20000'' = Ok"
  by code_simp

lemma cx_swap_run:
  "SwapAskedSignature ''w20000'' TESTNET_NETWORK_PASSPHRASE ax_user \<in> set (sr_log (snd (onSwap cx_client cx_swap cx_swap_start)))"
proof -
  have w: "wi_network cx_widget = Testnet" "wi_address cx_widget = Some ax_user" "wi_provider cx_widget = Some ''xbull''"
    "wi_status cx_widget = SwapIdle" "present (Some ax_user) = Some ax_user" "present (Some ''xbull'') = Some ''xbull''"
    by (simp_all add: cx_widget_def widget_start_def present_def) (simp add: ax_user_def)
  have u: "cx_widget\<lparr>wi_status := SwapIdle\<rparr> = cx_widget" by (simp add: cx_widget_def widget_start_def)
  have n: "toWalletNetwork cx_client Testnet = TESTNET_NETWORK_PASSPHRASE" by (simp add: toWalletNetwork_def ax_client_def)
  have o: "p_view cx_swap t = cx_widget" "p_build cx_swap = (\<lambda>_ _. Inr ''w20000'')" "p_sign cx_swap = (\<lambda>_ x _ _. Inr (''signed '' @ x))"
    "p_submit cx_swap = (\<lambda>_ _ _. Inr \<lparr>su_status = Some ''PENDING'', su_hash = Some ''def'', su_errorResultXdr = None\<rparr>)" for t
    by (simp_all add: cx_swap_def)
  show ?thesis
    by (simp add: onSwap_def onSwap_body_def swap_view_def swap_await_def swap_log_def swap_sign_def submitToRpc_def
        swap_settle_def flow_defs cx_swap_start_def o w u n cx_min cx_can_swap cx_swap_gate Let_def)
qed

text \<open>A quote for one XLM, then the amount becomes a hundred.\<close>

definition cz_events :: "WidgetEvent list" where
  "cz_events = [TypeAmount ''1'', TimerFires, QuoteAnswer 1 (Inr (''0.2'', Num 2))]"

definition cz_start :: Widget where
  "cz_start = widget_start Testnet (Some ax_user) (Some ''xbull'') (Some ax_user) (\<lambda>_. None)"

definition cz_stale :: Widget where
  "cz_stale = widget_run cx_client cz_start (cz_events @ [TypeAmount ''100''])"

lemma cz_run: "quotable cx_client (widget_run cx_client cz_start cz_events)"
  "wi_quoteStatus (widget_run cx_client cz_start cz_events) = QuoteOk"
proof -
  have "(quotable cx_client (widget_run cx_client cz_start cz_events))
    \<and> (wi_quoteStatus (widget_run cx_client cz_start cz_events) = QuoteOk)"
    by code_simp
  then show "quotable cx_client (widget_run cx_client cz_start cz_events)" "wi_quoteStatus (widget_run cx_client cz_start cz_events) = QuoteOk"
    by - (elim conjE; assumption)+
qed

lemma cz_stale_all: "(canSwap cx_client cz_stale)
    \<and> (minReceiveDisplay cz_stale = ''0.19'')
    \<and> (wi_quoteStatus cz_stale = QuoteLoading)
    \<and> (wi_amount cz_stale = ''100'')
    \<and> (mainnetBlocked cx_client cz_stale = False)
    \<and> (swap_signerBlockReason cz_stale = None)
    \<and> (js_le (parseFloat ''0.19'') (Num 0) = False)
    \<and> (wi_network cz_stale = Testnet)
    \<and> (wi_status cz_stale = SwapIdle)
    \<and> (present (wi_address cz_stale) = Some ax_user)
    \<and> (present (wi_provider cz_stale) = Some ''xbull'')
    \<and> (swap_check cx_client cz_stale ''0.19'' ''w20000'' \<noteq> Ok)"
  by code_simp

lemma cz_stale: "canSwap cx_client cz_stale"
  "minReceiveDisplay cz_stale = ''0.19''"
  "wi_quoteStatus cz_stale = QuoteLoading"
  "wi_amount cz_stale = ''100''"
  using cz_stale_all by - (elim conjE; assumption)+

lemma cz_stale_inputs: "mainnetBlocked cx_client cz_stale = False"
  "swap_signerBlockReason cz_stale = None"
  "js_le (parseFloat ''0.19'') (Num 0) = False"
  "wi_network cz_stale = Testnet"
  "wi_status cz_stale = SwapIdle"
  "present (wi_address cz_stale) = Some ax_user"
  "present (wi_provider cz_stale) = Some ''xbull''"
  "swap_check cx_client cz_stale ''0.19'' ''w20000'' \<noteq> Ok"
  using cz_stale_all by - (elim conjE; assumption)+

lemma cz_allowed: "run_allowed cx_client (\<lambda>_ _. Inr (''0.2'', Num 2)) [] cz_start cz_events"
  by code_simp

lemma cz_invert: "run_allowed cx_client (\<lambda>_ _. Inr (''0.2'', Num 2)) [] cz_start [Invert, TypeAmount ''3'']"
  by code_simp

end
