(* ===== verification/Client_Properties.thy ===== *)
theory Client_Properties
  imports Card_Example Swap_Example
begin

text \<open>
  The properties of the client's two cards, for every behaviour of the API, the wallet and the node and
  every change of the inputs at the awaits, each with a concrete run.
\<close>

section \<open>The Blend card\<close>

text \<open>C17: whatever the API, the wallet and the node answer and however the inputs change at the awaits, every
  envelope the deposit handler hands to the wallet decodes, under a recognised passphrase, to a transaction of
  the connected address that is either the trustline for the USDC of the chosen pool or the deposit of the amount
  and asset on the card into that pool, within the fee ceiling; the withdraw handler only ever hands over such a
  withdraw.\<close>

theorem card_signs_only_intended:
  assumes "ca_log s = []"
  shows "(AskedSignature x p a \<in> set (ca_log (snd (onDeposit cl o1 s))) \<longrightarrow>
      (\<exists>t tx. own_tx cl (o_view o1 t) x p a tx
         \<and> (usdc_trustline_now (o_view o1 t) a tx \<or> intended_now SUPPLY_COLLATERAL cl (o_view o1 t) p a tx)))
    \<and> (AskedSignature x p a \<in> set (ca_log (snd (onWithdraw cl o1 s))) \<longrightarrow>
      (\<exists>t tx. own_tx cl (o_view o1 t) x p a tx \<and> intended_now WITHDRAW_COLLATERAL cl (o_view o1 t) p a tx))"
proof -
  let ?D = "\<lambda>x p a. \<exists>t tx. own_tx cl (o_view o1 t) x p a tx
         \<and> (usdc_trustline_now (o_view o1 t) a tx \<or> intended_now SUPPLY_COLLATERAL cl (o_view o1 t) p a tx)"
  let ?W = "\<lambda>x p a. \<exists>t tx. own_tx cl (o_view o1 t) x p a tx \<and> intended_now WITHDRAW_COLLATERAL cl (o_view o1 t) p a tx"
  have start: "signed_ok G s" for G using assms by (simp add: signed_ok_def)
  have "keeps (signed_ok ?D) (onDeposit cl o1)"
    by (rule onDeposit_signs) (use trustline_gated_tx deposit_gated_tx [folded SUPPLY_COLLATERAL_def] in blast)
  from keepsD [OF this start] have d: "signed_ok ?D (snd (onDeposit cl o1 s))" .
  have "keeps (signed_ok ?W) (onWithdraw cl o1)"
    by (rule onWithdraw_signs) (use withdraw_gated_tx [folded WITHDRAW_COLLATERAL_def] in blast)
  from keepsD [OF this start] have "signed_ok ?W (snd (onWithdraw cl o1 s))" .
  with d show ?thesis unfolding signed_ok_def by blast
qed

theorem card_signs_only_intended_witness:
  "\<exists>t tx. own_tx cx_client (o_view cx_outside t) ''d160000'' TESTNET_NETWORK_PASSPHRASE ax_user tx
     \<and> (usdc_trustline_now (o_view cx_outside t) ax_user tx
         \<or> intended_now SUPPLY_COLLATERAL cx_client (o_view cx_outside t) TESTNET_NETWORK_PASSPHRASE ax_user tx)"
proof -
  have s: "ca_log cx_start = []" by (simp add: cx_start_def)
  have "AskedSignature ''d160000'' TESTNET_NETWORK_PASSPHRASE ax_user \<in> set (ca_log (snd (onDeposit cx_client cx_outside cx_start)))"
    by (simp add: cx_run)
  then show ?thesis
    by (rule card_signs_only_intended [OF s, of "''d160000''" TESTNET_NETWORK_PASSPHRASE ax_user cx_client cx_outside,
          THEN conjunct1, THEN mp])
qed



text \<open>C22: both handlers end: started from a card at rest they return without an exception after at most 54 and 27
  awaits, leave the card at rest again (not busy), and show success only with the hash of a transaction the node
  has confirmed.\<close>

theorem card_comes_to_rest:
  assumes "at_rest s"
  shows "(case onDeposit cl o1 s of (r, t) \<Rightarrow> r = Inr () \<and> at_rest t \<and> ca_now t \<le> ca_now s + 54)
    \<and> (case onWithdraw cl o1 s of (r, t) \<Rightarrow> r = Inr () \<and> at_rest t \<and> ca_now t \<le> ca_now s + 27)"
proof
  show "case onDeposit cl o1 s of (r, t) \<Rightarrow> r = Inr () \<and> at_rest t \<and> ca_now t \<le> ca_now s + 54"
    using rest_handlers(1) [OF assms, of cl o1] takes_deposit [of cl o1]
    by (auto simp: wp_def takes_def split: prod.splits sum.splits) (metis snd_conv)
  show "case onWithdraw cl o1 s of (r, t) \<Rightarrow> r = Inr () \<and> at_rest t \<and> ca_now t \<le> ca_now s + 27"
    using rest_handlers(2) [OF assms, of cl o1] takes_withdraw [of cl o1]
    by (auto simp: wp_def takes_def split: prod.splits sum.splits) (metis snd_conv)
qed

theorem card_comes_to_rest_witness:
  "at_rest (snd (onDeposit cx_client cx_outside cx_start)) \<and> ca_status (snd (onDeposit cx_client cx_outside cx_start)) = Success"
proof -
  have "at_rest cx_start" by (simp add: at_rest_def cx_start_def isBusy_def success_confirmed_def)
  from card_comes_to_rest [OF this, of cx_client cx_outside] show ?thesis by (simp add: cx_run)
qed

section \<open>The swap widget\<close>



text \<open>A quote the widget shows for a usable amount is the API's answer to a request for exactly the pair, the
  network and the amount on show; answers to older requests never replace it.\<close>

theorem shown_quote_is_current:
  assumes "widget_reach cl api (widget_start n a p s b) w sent" "quotable cl w" "wi_quoteStatus w = QuoteOk"
  shows "\<exists>dest rate. (wi_quoteSeq w, quote_body w (wi_amount w)) \<in> set sent
      \<and> api (wi_quoteSeq w) (quote_body w (wi_amount w)) = Inr (dest, rate)
      \<and> wi_estimate w = Some (parseFloat dest) \<and> wi_rate w = Some rate"
  by (rule quote_invD(4) [OF reach_quote_inv [OF assms(1) start_quote_inv] assms(2,3)])

theorem shown_quote_is_current_witness:
  "wi_estimate (widget_run cx_client cz_start cz_events) = Some (parseFloat ''0.2'')"
proof -
  obtain sent where "widget_reach cx_client (\<lambda>_ _. Inr (''0.2'', Num 2)) cz_start (widget_run cx_client cz_start cz_events) sent"
    using run_reach [OF reach_start cz_allowed] by blast
  from shown_quote_is_current [OF this [unfolded cz_start_def], folded cz_start_def, OF cz_run] show ?thesis by auto
qed

text \<open>On every path the two sides of the widget are different assets of the whitelist of the network on show.\<close>

theorem widget_pair_whitelisted:
  assumes "widget_reach cl api (widget_start n a p s b) w sent"
  shows "fromAsset w \<in> set (assetsFor (wi_network w)) \<and> toAsset w \<in> set (assetsFor (wi_network w))
    \<and> swapAssetKey (fromAsset w) \<noteq> swapAssetKey (toAsset w)"
  by (rule pair_ok_assets [OF reach_pair [OF assms start_pair]])

theorem widget_pair_whitelisted_witness:
  "swapAssetKey (fromAsset (widget_run cx_client cz_start [Invert, TypeAmount ''3''])) \<noteq>
     swapAssetKey (toAsset (widget_run cx_client cz_start [Invert, TypeAmount ''3'']))"
proof -
  obtain sent where "widget_reach cx_client (\<lambda>_ _. Inr (''0.2'', Num 2)) cz_start
      (widget_run cx_client cz_start [Invert, TypeAmount ''3'']) sent"
    using run_reach [OF reach_start cz_invert] by blast
  from widget_pair_whitelisted [OF this [unfolded cz_start_def], folded cz_start_def] show ?thesis by blast
qed

text \<open>C38: after a change of the amount the old estimate stays until the new quote arrives, and the swap may be started
  meanwhile: with a quote of 0.2 for 1 XLM and the amount changed to 100, the widget asks for a swap of 100 XLM
  whose minimum is 0.19, so the slippage bound of five percent is lost.\<close>

theorem stale_quote_sets_minimum:
  "let w = widget_run cx_client (widget_start Testnet (Some ax_user) (Some ''xbull'') (Some ax_user) (\<lambda>_. None))
        [TypeAmount ''1'', TimerFires, QuoteAnswer 1 (Inr (''0.2'', Num 2)), TypeAmount ''100''] in
     wi_quoteStatus w = QuoteLoading \<and> canSwap cx_client w \<and>
     SwapAskedBuild (swap_body ax_user (fromAsset w) (toAsset w) ''100'' ''0.19'' Testnet)
       \<in> set (sr_log (snd (onSwap cx_client (cx_swap\<lparr>p_view := (\<lambda>_. w)\<rparr>) cx_swap_start)))"
proof -
  note w = cz_stale_inputs
  have u: "cz_stale\<lparr>wi_status := SwapIdle\<rparr> = cz_stale" using w(5) by simp
  have o: "p_build (cx_swap\<lparr>p_view := v\<rparr>) = (\<lambda>_ _. Inr ''w20000'')" for v by (simp add: cx_swap_def)
  have "SwapAskedBuild (swap_body ax_user (fromAsset cz_stale) (toAsset cz_stale) ''100'' ''0.19'' Testnet)
       \<in> set (sr_log (snd (onSwap cx_client (cx_swap\<lparr>p_view := (\<lambda>_. cz_stale)\<rparr>) cx_swap_start)))"
    by (simp add: onSwap_def onSwap_body_def swap_view_def swap_await_def swap_log_def swap_sign_def swap_fail_def
        flow_defs cx_swap_start_def o w u cz_stale Let_def)
  then show ?thesis using cz_stale
    by (simp only: Let_def cz_stale_def cz_start_def cz_events_def append.simps simp_thms)
qed

end
