(* ===== verification/Witness_Verify.thy ===== *)
theory Witness_Verify
  imports Network_Registry Request_Validation
begin

text \<open>
  \<open>apps/api/src/modules/actions/witness-verify.ts\<close>: the pure rules of the execution witness. Which
  operation of an executed transaction counts as an action of a wallet, and how its size is measured in
  XLM. An absent field of a Horizon record is \<open>None\<close>. The contract address the SDK derives for an asset
  is the parameter \<open>contractId\<close> (\<open>None\<close> where it throws).
\<close>

section \<open>Records\<close>

datatype WitnessKind = SdexSwapKind | BlendDepositKind | BlendWithdrawKind

fun kind_text :: "WitnessKind \<Rightarrow> string" where
  "kind_text SdexSwapKind = ''sdex-swap''"
| "kind_text BlendDepositKind = ''blend-deposit''"
| "kind_text BlendWithdrawKind = ''blend-withdraw''"

record WitnessAsset =
  wa_native :: bool
  wa_code :: "string option"
  wa_issuer :: "string option"

record WitnessLeg =
  wl_label :: string
  wl_asset :: WitnessAsset
  wl_amount :: jsnum

record QualifyingOp =
  qo_kind :: WitnessKind
  qo_opIndex :: nat
  qo_legs :: "WitnessLeg list"
  qo_summary :: "(string \<times> jsval) list"

record BalanceChange =
  bc_type :: "string option"
  bc_asset_type :: "string option"
  bc_asset_code :: "string option"
  bc_asset_issuer :: "string option"
  bc_from :: "string option"
  bc_to :: "string option"
  bc_amount :: "string option"

record HorizonOpRecordLike =
  op_type :: string
  op_source_account :: "string option"
  op_amount :: "string option"
  op_asset_type :: "string option"
  op_asset_code :: "string option"
  op_asset_issuer :: "string option"
  op_source_amount :: "string option"
  op_source_asset_type :: "string option"
  op_source_asset_code :: "string option"
  op_source_asset_issuer :: "string option"
  op_buying_asset_type :: "string option"
  op_buying_asset_code :: "string option"
  op_buying_asset_issuer :: "string option"
  op_asset_balance_changes :: "BalanceChange list option"

section \<open>Assets\<close>

text \<open>\<open>value ?? fallback\<close>, and \<open>!value\<close> of a text.\<close>

definition or_text :: "string option \<Rightarrow> string \<Rightarrow> string" where
  "or_text v fallback = (case v of None \<Rightarrow> fallback | Some s \<Rightarrow> s)"

definition blank :: "string option \<Rightarrow> bool" where
  "blank v \<longleftrightarrow> or_text v [] = []"

definition assetFrom :: "string option \<Rightarrow> string option \<Rightarrow> string option \<Rightarrow> WitnessAsset" where
  "assetFrom assetType code issuer =
     (if assetType = Some ''native'' \<or> (blank code \<and> blank issuer)
      then \<lparr>wa_native = True, wa_code = None, wa_issuer = None\<rparr>
      else \<lparr>wa_native = False, wa_code = code, wa_issuer = issuer\<rparr>)"

definition assetLabel :: "WitnessAsset \<Rightarrow> string" where
  "assetLabel a = (if wa_native a then ''XLM'' else or_text (wa_code a) ''?'' @ '':'' @ or_text (wa_issuer a) ''?'')"

section \<open>The qualifying operation\<close>

definition json_text :: "string option \<Rightarrow> jsval" where
  "json_text v = (case v of None \<Rightarrow> JUndefined | Some s \<Rightarrow> JString s)"

definition positive :: "jsnum \<Rightarrow> bool" where
  "positive n \<longleftrightarrow> js_lt (Num 0) n"

definition offer_action :: "nat \<Rightarrow> HorizonOpRecordLike \<Rightarrow> QualifyingOp option" where
  "offer_action i rec =
     (let buying = assetFrom (op_buying_asset_type rec) (op_buying_asset_code rec) (op_buying_asset_issuer rec);
          amount = js_Number (or_text (op_amount rec) ''0'') in
      if \<not> positive amount then None
      else Some \<lparr>qo_kind = SdexSwapKind, qo_opIndex = i,
             qo_legs = [\<lparr>wl_label = ''buying'', wl_asset = buying, wl_amount = amount\<rparr>],
             qo_summary = [(''opType'', JString (op_type rec)), (''opIndex'', JNumber (jsint (int i))),
               (''buyingAsset'', JString (assetLabel buying)), (''buyingAmount'', json_text (op_amount rec))]\<rparr>)"

definition path_payment_action :: "nat \<Rightarrow> HorizonOpRecordLike \<Rightarrow> QualifyingOp option" where
  "path_payment_action i rec =
     (let sourceAsset = assetFrom (op_source_asset_type rec) (op_source_asset_code rec) (op_source_asset_issuer rec);
          destAsset = assetFrom (op_asset_type rec) (op_asset_code rec) (op_asset_issuer rec);
          sourceAmount = js_Number (or_text (op_source_amount rec) ''0'');
          destAmount = js_Number (or_text (op_amount rec) ''0'');
          legs = (if positive sourceAmount then [\<lparr>wl_label = ''source'', wl_asset = sourceAsset, wl_amount = sourceAmount\<rparr>] else [])
               @ (if positive destAmount then [\<lparr>wl_label = ''dest'', wl_asset = destAsset, wl_amount = destAmount\<rparr>] else []) in
      if legs = [] then None
      else Some \<lparr>qo_kind = SdexSwapKind, qo_opIndex = i, qo_legs = legs,
             qo_summary = [(''opType'', JString (op_type rec)), (''opIndex'', JNumber (jsint (int i))),
               (''sourceAsset'', JString (assetLabel sourceAsset)), (''sourceAmount'', json_text (op_source_amount rec)),
               (''destAsset'', JString (assetLabel destAsset)), (''destAmount'', json_text (op_amount rec))]\<rparr>)"

definition is_deposit :: "string \<Rightarrow> string list \<Rightarrow> BalanceChange \<Rightarrow> bool" where
  "is_deposit wallet pools c \<longleftrightarrow>
     bc_type c = Some ''transfer'' \<and> toUpperCase (or_text (bc_from c) []) = wallet \<and> or_text (bc_to c) [] \<in> set pools"

definition is_withdraw :: "string \<Rightarrow> string list \<Rightarrow> BalanceChange \<Rightarrow> bool" where
  "is_withdraw wallet pools c \<longleftrightarrow>
     bc_type c = Some ''transfer'' \<and> or_text (bc_from c) [] \<in> set pools \<and> toUpperCase (or_text (bc_to c) []) = wallet"

definition transfer_action :: "nat \<Rightarrow> HorizonOpRecordLike \<Rightarrow> bool \<Rightarrow> BalanceChange \<Rightarrow> QualifyingOp option" where
  "transfer_action i rec deposit c =
     (let label = (if deposit then ''deposit'' else ''withdraw'');
          asset = assetFrom (bc_asset_type c) (bc_asset_code c) (bc_asset_issuer c);
          amount = js_Number (or_text (bc_amount c) ''0'') in
      if \<not> positive amount then None
      else Some \<lparr>qo_kind = (if deposit then BlendDepositKind else BlendWithdrawKind), qo_opIndex = i,
             qo_legs = [\<lparr>wl_label = label, wl_asset = asset, wl_amount = amount\<rparr>],
             qo_summary = [(''opType'', JString (op_type rec)), (''opIndex'', JNumber (jsint (int i))),
               (''pool'', json_text (if deposit then bc_to c else bc_from c)),
               (label @ ''Asset'', JString (assetLabel asset)), (label @ ''Amount'', json_text (bc_amount c))]\<rparr>)"

definition invoke_action :: "string \<Rightarrow> string list \<Rightarrow> nat \<Rightarrow> HorizonOpRecordLike \<Rightarrow> QualifyingOp option" where
  "invoke_action wallet pools i rec =
     (let changes = (case op_asset_balance_changes rec of None \<Rightarrow> [] | Some cs \<Rightarrow> cs) in
      case List.find (is_deposit wallet pools) changes of
        Some c \<Rightarrow> transfer_action i rec True c
      | None \<Rightarrow>
          (case List.find (is_withdraw wallet pools) changes of
             Some c \<Rightarrow> transfer_action i rec False c
           | None \<Rightarrow> None))"

definition SWAP_OP_TYPES :: "string list" where
  "SWAP_OP_TYPES = [''path_payment_strict_send'', ''path_payment_strict_receive'', ''manage_buy_offer'']"

text \<open>One round of the loop: the action of an operation, if it is one of this wallet.\<close>

definition op_action :: "string \<Rightarrow> string list \<Rightarrow> nat \<Rightarrow> HorizonOpRecordLike \<Rightarrow> QualifyingOp option" where
  "op_action wallet pools i rec =
     (if toUpperCase (or_text (op_source_account rec) []) \<noteq> wallet then None
      else if op_type rec \<in> set SWAP_OP_TYPES then
        (if op_type rec = ''manage_buy_offer'' then offer_action i rec else path_payment_action i rec)
      else if op_type rec = ''invoke_host_function'' then invoke_action wallet pools i rec
      else None)"

fun first_action :: "string \<Rightarrow> string list \<Rightarrow> nat \<Rightarrow> HorizonOpRecordLike list \<Rightarrow> QualifyingOp option" where
  "first_action wallet pools i [] = None"
| "first_action wallet pools i (rec # recs) =
     (case op_action wallet pools i rec of Some q \<Rightarrow> Some q | None \<Rightarrow> first_action wallet pools (Suc i) recs)"

definition findQualifyingOp :: "HorizonOpRecordLike list \<Rightarrow> string \<Rightarrow> string list \<Rightarrow> QualifyingOp option" where
  "findQualifyingOp records walletAddress blendPoolIds = first_action (toUpperCase walletAddress) blendPoolIds 0 records"

section \<open>The size of an action\<close>

type_synonym contract_ids = "WitnessAsset \<Rightarrow> string \<Rightarrow> string option" \<comment> \<open>asset, passphrase\<close>

definition contractIdFor :: "contract_ids \<Rightarrow> WitnessAsset \<Rightarrow> string \<Rightarrow> string option" where
  "contractIdFor contractId a passphrase =
     (if \<not> wa_native a \<and> (blank (wa_code a) \<or> blank (wa_issuer a)) then None else contractId a passphrase)"

record NotionalResult =
  nr_notionalXlm :: "jsnum option"
  nr_pricing :: "(string \<times> jsval) list"

definition native_asset :: WitnessAsset where
  "native_asset = \<lparr>wa_native = True, wa_code = None, wa_issuer = None\<rparr>"

fun price_legs :: "contract_ids \<Rightarrow> (string \<Rightarrow> jsnum option) \<Rightarrow> string \<Rightarrow> jsnum option \<Rightarrow> WitnessLeg list \<Rightarrow> NotionalResult" where
  "price_legs contractId prices passphrase xlmUsd [] =
     \<lparr>nr_notionalXlm = None, nr_pricing = [(''pricedLeg'', JNull), (''method'', JString ''unpriceable'')]\<rparr>"
| "price_legs contractId prices passphrase xlmUsd (leg # legs) =
     (if wa_native (wl_asset leg) then
        \<lparr>nr_notionalXlm = Some (wl_amount leg),
         nr_pricing = [(''pricedLeg'', JString (wl_label leg)), (''method'', JString ''native-direct'')]\<rparr>
      else
        case (Option.bind (contractIdFor contractId (wl_asset leg) passphrase) prices, xlmUsd) of
          (Some priceUsd, Some xlm) \<Rightarrow>
            (if positive priceUsd \<and> positive xlm then
               \<lparr>nr_notionalXlm = Some (js_div (js_mul (wl_amount leg) priceUsd) xlm),
                nr_pricing = [(''pricedLeg'', JString (wl_label leg)), (''method'', JString ''usd-cross''),
                  (''assetPriceUsd'', JNumber priceUsd), (''xlmPriceUsd'', JNumber xlm)]\<rparr>
             else price_legs contractId prices passphrase xlmUsd legs)
        | _ \<Rightarrow> price_legs contractId prices passphrase xlmUsd legs)"

text \<open>\<open>Asset.native().contractId(passphrase)\<close> does not throw: \<open>xlmContract\<close> is its value.\<close>

definition computeNotionalXlm :: "contract_ids \<Rightarrow> WitnessLeg list \<Rightarrow> (string \<Rightarrow> jsnum option) \<Rightarrow> string \<Rightarrow> NotionalResult" where
  "computeNotionalXlm contractId legs prices passphrase =
     price_legs contractId prices passphrase (Option.bind (contractId native_asset passphrase) prices) legs"

section \<open>What qualifies\<close>

text \<open>The rule in one sentence each: an own trade of a positive size, or an own transfer of a positive amount
  between the wallet and a pool of the registry.\<close>

definition moves_to :: "(BalanceChange \<Rightarrow> bool) \<Rightarrow> HorizonOpRecordLike \<Rightarrow> bool" where
  "moves_to dir rec \<longleftrightarrow>
     (\<exists>cs c. op_asset_balance_changes rec = Some cs \<and> c \<in> set cs \<and> dir c \<and> positive (js_Number (or_text (bc_amount c) ''0'')))"

fun shows_kind :: "WitnessKind \<Rightarrow> string \<Rightarrow> string list \<Rightarrow> HorizonOpRecordLike \<Rightarrow> bool" where
  "shows_kind SdexSwapKind wallet pools rec \<longleftrightarrow>
     op_type rec \<in> set SWAP_OP_TYPES
     \<and> (positive (js_Number (or_text (op_amount rec) ''0''))
        \<or> op_type rec \<noteq> ''manage_buy_offer'' \<and> positive (js_Number (or_text (op_source_amount rec) ''0'')))"
| "shows_kind BlendDepositKind wallet pools rec \<longleftrightarrow>
     op_type rec = ''invoke_host_function'' \<and> moves_to (is_deposit wallet pools) rec"
| "shows_kind BlendWithdrawKind wallet pools rec \<longleftrightarrow>
     op_type rec = ''invoke_host_function'' \<and> moves_to (is_withdraw wallet pools) rec"

definition own_action :: "WitnessKind \<Rightarrow> address \<Rightarrow> string list \<Rightarrow> HorizonOpRecordLike \<Rightarrow> bool" where
  "own_action k wallet pools rec \<longleftrightarrow>
     toUpperCase (or_text (op_source_account rec) []) = toUpperCase wallet \<and> shows_kind k (toUpperCase wallet) pools rec"

lemma transfer_action_Some:
  "transfer_action i rec dep c = Some q \<Longrightarrow>
     positive (js_Number (or_text (bc_amount c) ''0'')) \<and> qo_kind q = (if dep then BlendDepositKind else BlendWithdrawKind)
     \<and> qo_opIndex q = i \<and> qo_legs q \<noteq> [] \<and> (\<forall>l \<in> set (qo_legs q). positive (wl_amount l))"
  by (auto simp: transfer_action_def Let_def split: if_splits)

lemma op_action_Some:
  assumes "op_action (toUpperCase wallet) pools i rec = Some q"
  shows "own_action (qo_kind q) wallet pools rec \<and> qo_opIndex q = i \<and> qo_legs q \<noteq> []
    \<and> (\<forall>l \<in> set (qo_legs q). positive (wl_amount l))"
proof -
  have own: "toUpperCase (or_text (op_source_account rec) []) = toUpperCase wallet"
    using assms by (auto simp: op_action_def split: if_splits)
  have invoke: ?thesis if i: "invoke_action (toUpperCase wallet) pools i rec = Some q" and t: "op_type rec = ''invoke_host_function''"
  proof -
    obtain cs where cs: "op_asset_balance_changes rec = Some cs"
      using i by (auto simp: invoke_action_def split: option.splits)
    show ?thesis
    proof (cases "List.find (is_deposit (toUpperCase wallet) pools) cs")
      case (Some c)
      then have "c \<in> set cs" "is_deposit (toUpperCase wallet) pools c" by (auto simp: find_Some_iff)
      with Some i cs t own show ?thesis
        by (auto simp: invoke_action_def own_action_def moves_to_def dest!: transfer_action_Some)
    next
      case None
      with i cs obtain c where c: "List.find (is_withdraw (toUpperCase wallet) pools) cs = Some c"
        "transfer_action i rec False c = Some q"
        by (auto simp: invoke_action_def split: option.splits)
      then have "c \<in> set cs" "is_withdraw (toUpperCase wallet) pools c" by (auto simp: find_Some_iff)
      with c(2) cs t own show ?thesis by (auto simp: own_action_def moves_to_def dest!: transfer_action_Some)
    qed
  qed
  show ?thesis
  proof (cases "op_type rec = ''invoke_host_function''")
    case True
    then have "op_type rec \<notin> set SWAP_OP_TYPES" by (simp add: SWAP_OP_TYPES_def)
    with True assms own invoke show ?thesis by (simp add: op_action_def)
  next
    case False
    with assms own show ?thesis
      by (auto simp: op_action_def own_action_def offer_action_def path_payment_action_def Let_def split: if_splits)
  qed
qed

lemma first_action_Some:
  "first_action wallet pools i recs = Some q \<Longrightarrow>
     \<exists>n < length recs. op_action wallet pools (i + n) (recs ! n) = Some q
       \<and> (\<forall>m < n. op_action wallet pools (i + m) (recs ! m) = None)"
proof (induction recs arbitrary: i)
  case (Cons rec recs)
  show ?case
  proof (cases "op_action wallet pools i rec")
    case None
    with Cons obtain n where n: "n < length recs" "op_action wallet pools (Suc i + n) (recs ! n) = Some q"
      "\<forall>m < n. op_action wallet pools (Suc i + m) (recs ! m) = None" by fastforce
    have "op_action wallet pools (i + m) ((rec # recs) ! m) = None" if "m < Suc n" for m
      using that None n(3) by (cases m) auto
    with n show ?thesis by (intro exI [of _ "Suc n"]) simp
  qed (use Cons in \<open>auto intro: exI [of _ 0]\<close>)
qed simp

lemma findQualifyingOp_Some:
  assumes "findQualifyingOp recs wallet pools = Some q"
  shows "qo_opIndex q < length recs \<and> own_action (qo_kind q) wallet pools (recs ! qo_opIndex q)
    \<and> qo_legs q \<noteq> [] \<and> (\<forall>l \<in> set (qo_legs q). positive (wl_amount l))"
proof -
  from first_action_Some [OF assms [unfolded findQualifyingOp_def]] obtain n where
    "n < length recs" "op_action (toUpperCase wallet) pools n (recs ! n) = Some q" by auto
  with op_action_Some [OF this(2)] show ?thesis by auto
qed

lemma first_action_None:
  "first_action wallet pools i recs = None \<longleftrightarrow> (\<forall>n < length recs. op_action wallet pools (i + n) (recs ! n) = None)"
proof (induction recs arbitrary: i)
  case (Cons rec recs)
  then show ?case by (auto simp: less_Suc_eq_0_disj split: option.split)
qed simp

end
