(* ===== verification/Witness_Service.thy ===== *)
theory Witness_Service
  imports Witness_Verify Faucet_Rules Keyed_Table "HOL-Library.List_Lexorder" "HOL-Library.Product_Lexorder"
begin

text \<open>
  \<open>apps/api/src/modules/actions/witness.service.ts\<close> and \<open>witness.controller.ts\<close>: a submitted transaction
  hash is checked against Horizon, the wallets and the recorded builds, and stored once in
  \<open>action_witnesses\<close> (\<open>stellar_v1_action_witness.sql\<close>).

  A request reads the tables at four different awaits before it inserts, so \<open>witness_check\<close> takes a database
  for each read and \<open>witness_store\<close> the one it inserts into. What the network has executed is the record
  \<open>Ledger\<close>; an outage, or a transaction Horizon does not show yet, is an answer of \<open>WitnessOutside\<close>.
\<close>

section \<open>Tables\<close>

record KnownWallet =
  kw_id :: string
  kw_user_id :: user_id
  kw_chain :: string
  kw_address :: address
  kw_is_active_signer :: bool
  kw_updated_at :: ms

record BuildEvent =
  be_id :: int
  be_kind :: string
  be_network :: string
  be_address :: "address option"
  be_created_at :: ms

record AssetRow =
  at_id :: string
  at_contract_address :: "string option"

record PriceObservation =
  ap_asset_id :: string
  ap_price_usd :: "rat option"
  ap_observed_at :: ms

record ActionWitness =
  aw_tx_hash :: tx_hash
  aw_network :: ActionNetwork
  aw_wallet :: address
  aw_user :: user_id
  aw_kind :: WitnessKind
  aw_op_summary :: "(string \<times> jsval) list"
  aw_notional :: "jsnum option"
  aw_min_notional :: jsnum
  aw_meets :: bool
  aw_event_id :: int
  aw_closed_at :: ms
  aw_verified_at :: ms

record WitnessDb =
  wd_wallets :: "KnownWallet list"
  wd_events :: "BuildEvent list"
  wd_assets :: "AssetRow list"
  wd_prices :: "PriceObservation list"
  wd_witnesses :: "ActionWitness list"

section \<open>The outside\<close>

record TxRecord =
  tr_successful :: bool
  tr_source_account :: address
  tr_created_at :: ms

record Ledger =
  lg_transaction :: "ActionNetwork \<Rightarrow> tx_hash \<Rightarrow> TxRecord option"
  lg_operations :: "ActionNetwork \<Rightarrow> tx_hash \<Rightarrow> HorizonOpRecordLike list"

record HorizonFailure =
  hf_name :: "string option"
  hf_status :: "nat option"

datatype WitnessStatement = ReadExisting | ReadWallet | ReadBuild | ReadPrices | InsertWitness | ReadRaced

record WitnessOutside =
  wo_contractId :: contract_ids
  wo_public_passphrase :: string
  wo_tx_failure :: "HorizonFailure option"
  wo_ops_failure :: bool
  wo_fails :: "WitnessStatement \<Rightarrow> JsError option"

section \<open>Answers\<close>

datatype WitnessFailureReason = TxNotFound | TxNotSuccessful | UnknownWallet | NoQualifyingOp | NoMatchingBuild

record WitnessFacts =
  wi_txHash :: tx_hash
  wi_network :: ActionNetwork
  wi_kind :: WitnessKind
  wi_walletAddress :: address
  wi_notionalXlm :: "jsnum option"
  wi_minNotionalXlm :: "jsnum option"
  wi_meetsMinNotional :: bool

datatype WitnessResponse =
    NotWitnessed tx_hash ActionNetwork WitnessFailureReason
  | Witnessed bool WitnessFacts \<comment> \<open>with \<open>alreadyWitnessed\<close>\<close>

datatype WitnessError = WitnessBadRequest string | WitnessUnavailable | WitnessDbError JsError

definition BUILD_WINDOW_BEFORE_MIN :: int where
  "BUILD_WINDOW_BEFORE_MIN = 60"

definition BUILD_WINDOW_AFTER_MIN :: int where
  "BUILD_WINDOW_AFTER_MIN = 5"

definition PRICE_MAX_AGE :: ms where
  "PRICE_MAX_AGE = 24 * 60 * 60 * 1000"

fun BUILD_KIND_FOR :: "WitnessKind \<Rightarrow> string" where
  "BUILD_KIND_FOR SdexSwapKind = ''sdex-swap-build''"
| "BUILD_KIND_FOR BlendDepositKind = ''blend-deposit-build''"
| "BUILD_KIND_FOR BlendWithdrawKind = ''blend-withdraw-build''"

definition toNum :: "jsnum option \<Rightarrow> jsnum option" where
  "toNum v = (case v of None \<Rightarrow> None | Some n \<Rightarrow> if isFinite n then Some n else None)"

definition isHorizonNotFound :: "HorizonFailure \<Rightarrow> bool" where
  "isHorizonNotFound err \<longleftrightarrow> hf_name err = Some ''NotFoundError'' \<or> hf_status err = Some 404"

section \<open>Statements\<close>

definition stored_facts :: "ActionWitness \<Rightarrow> WitnessFacts" where
  "stored_facts r =
     \<lparr>wi_txHash = aw_tx_hash r, wi_network = aw_network r, wi_kind = aw_kind r, wi_walletAddress = aw_wallet r,
      wi_notionalXlm = toNum (aw_notional r), wi_minNotionalXlm = toNum (Some (aw_min_notional r)),
      wi_meetsMinNotional = aw_meets r\<rparr>"

definition findExisting :: "tx_hash \<Rightarrow> WitnessDb \<Rightarrow> WitnessResponse option" where
  "findExisting txHash d =
     map_option (\<lambda>r. Witnessed True (stored_facts r)) (List.find (\<lambda>r. aw_tx_hash r = txHash) (wd_witnesses d))"

definition known_wallet :: "address \<Rightarrow> KnownWallet \<Rightarrow> bool" where
  "known_wallet address w \<longleftrightarrow> toLowerCase (kw_chain w) = ''stellar'' \<and> lower_eq (kw_address w) address"

definition findKnownWallet :: "address \<Rightarrow> user_id option \<Rightarrow> WitnessDb \<Rightarrow> KnownWallet option" where
  "findKnownWallet address userId d =
     (case sort_key (\<lambda>w. (if map_option uuid_cast userId = Some (kw_user_id w) then 0 else 1 :: nat,
                         if kw_is_active_signer w then 0 else 1 :: nat, - kw_updated_at w, kw_id w))
        (filter (known_wallet address) (wd_wallets d)) of
        [] \<Rightarrow> None | w # _ \<Rightarrow> Some w)"

definition matching_build :: "string \<Rightarrow> address \<Rightarrow> ActionNetwork \<Rightarrow> ms \<Rightarrow> BuildEvent \<Rightarrow> bool" where
  "matching_build buildKind address network txClosedAt e \<longleftrightarrow>
     be_kind e = buildKind
     \<and> (case be_address e of None \<Rightarrow> False | Some a \<Rightarrow> lower_eq a address)
     \<and> be_network e = network_name network
     \<and> txClosedAt - BUILD_WINDOW_BEFORE_MIN * 60000 \<le> be_created_at e
     \<and> be_created_at e \<le> txClosedAt + BUILD_WINDOW_AFTER_MIN * 60000"

definition findMatchingBuild :: "string \<Rightarrow> address \<Rightarrow> ActionNetwork \<Rightarrow> ms \<Rightarrow> WitnessDb \<Rightarrow> int option" where
  "findMatchingBuild buildKind address network txClosedAt d =
     (case sort_key (\<lambda>e. - be_created_at e) (filter (matching_build buildKind address network txClosedAt) (wd_events d)) of
        [] \<Rightarrow> None | e # _ \<Rightarrow> Some (be_id e))"

definition fresh_price :: "ms \<Rightarrow> string \<Rightarrow> WitnessDb \<Rightarrow> PriceObservation option" where
  "fresh_price now assetId d =
     (case sort_key (\<lambda>p. - ap_observed_at p)
        (filter (\<lambda>p. ap_asset_id p = assetId \<and> now - PRICE_MAX_AGE < ap_observed_at p) (wd_prices d)) of
        [] \<Rightarrow> None | p # _ \<Rightarrow> Some p)"

definition wanted_ids :: "contract_ids \<Rightarrow> WitnessLeg list \<Rightarrow> string \<Rightarrow> string list" where
  "wanted_ids contractId legs passphrase =
     filter (\<lambda>i. i \<noteq> []) (List.map_filter (\<lambda>a. contractIdFor contractId a passphrase) (native_asset # map wl_asset legs))"

definition keep_price :: "string \<times> PriceObservation \<Rightarrow> (string \<Rightarrow> jsnum option) \<Rightarrow> string \<Rightarrow> jsnum option" where
  "keep_price row m =
     (case toNum (map_option fl (ap_price_usd (snd row))) of
        None \<Rightarrow> m | Some price \<Rightarrow> if positive price then m(fst row \<mapsto> price) else m)"

definition loadPrices :: "contract_ids \<Rightarrow> WitnessLeg list \<Rightarrow> string \<Rightarrow> ms \<Rightarrow> WitnessDb \<Rightarrow> string \<Rightarrow> jsnum option" where
  "loadPrices contractId legs passphrase now d =
     (let ids = wanted_ids contractId legs passphrase in
      fold keep_price
        (List.map_filter (\<lambda>a.
           (case at_contract_address a of
              None \<Rightarrow> None
            | Some c \<Rightarrow> if c \<in> set ids then map_option (Pair c) (fresh_price now (at_id a) d) else None))
         (wd_assets d))
        Map.empty)"

section \<open>The checks\<close>

datatype CheckResult = Refused WitnessError | Answered WitnessResponse | Verified ActionWitness

definition attempt :: "JsError option \<Rightarrow> CheckResult \<Rightarrow> CheckResult" where
  "attempt err rest = (case err of Some e \<Rightarrow> Refused (WitnessDbError e) | None \<Rightarrow> rest)"

text \<open>\<open>JSON.stringify\<close> leaves out the fields that are undefined.\<close>

definition stored_summary :: "(string \<times> jsval) list \<Rightarrow> (string \<times> jsval) list \<Rightarrow> (string \<times> jsval) list" where
  "stored_summary summary pricing = filter (\<lambda>f. snd f \<noteq> JUndefined) summary @ [(''pricing'', JObject pricing)]"

definition witness_row ::
    "Env \<Rightarrow> WitnessOutside \<Rightarrow> tx_hash \<Rightarrow> ActionNetwork \<Rightarrow> TxRecord \<Rightarrow> KnownWallet \<Rightarrow> QualifyingOp \<Rightarrow> int \<Rightarrow> ms \<Rightarrow> WitnessDb
     \<Rightarrow> ActionWitness" where
  "witness_row env w txHash network tx wallet q eventId now d =
     (let passphrase = nc_passphrase (getNetworkConfig env (wo_public_passphrase w) network);
          prices = loadPrices (wo_contractId w) (qo_legs q) passphrase now d;
          notional = computeNotionalXlm (wo_contractId w) (qo_legs q) prices passphrase;
          minNotional = faucetMinNotionalXlm env;
          meetsMin = (case nr_notionalXlm notional of None \<Rightarrow> False | Some n \<Rightarrow> js_le minNotional n) in
      \<lparr>aw_tx_hash = txHash, aw_network = network, aw_wallet = tr_source_account tx, aw_user = kw_user_id wallet,
       aw_kind = qo_kind q, aw_op_summary = stored_summary (qo_summary q) (nr_pricing notional),
       aw_notional = nr_notionalXlm notional, aw_min_notional = minNotional, aw_meets = meetsMin,
       aw_event_id = eventId, aw_closed_at = tr_created_at tx, aw_verified_at = now\<rparr>)"

text \<open>Everything up to the insert, over the database each read sees: the stored row (\<open>d0\<close>), the wallet
  (\<open>d1\<close>), the build (\<open>d2\<close>), the prices (\<open>d3\<close>).\<close>

definition witness_check ::
    "Env \<Rightarrow> Ledger \<Rightarrow> WitnessOutside \<Rightarrow> string \<Rightarrow> ActionNetwork \<Rightarrow> string option \<Rightarrow> ms
     \<Rightarrow> WitnessDb \<Rightarrow> WitnessDb \<Rightarrow> WitnessDb \<Rightarrow> WitnessDb \<Rightarrow> CheckResult" where
  "witness_check env ledger w hash network userId now d0 d1 d2 d3 =
     (let txHash = toLowerCase hash;
          fail = (\<lambda>reason. Answered (NotWitnessed txHash network reason)) in
      attempt (wo_fails w ReadExisting)
      (case findExisting txHash d0 of
         Some existing \<Rightarrow> Answered existing
       | None \<Rightarrow>
      (case wo_tx_failure w of
         Some err \<Rightarrow> if isHorizonNotFound err then fail TxNotFound else Refused WitnessUnavailable
       | None \<Rightarrow>
      (case lg_transaction ledger network txHash of
         None \<Rightarrow> fail TxNotFound
       | Some tx \<Rightarrow>
      if \<not> tr_successful tx then fail TxNotSuccessful
      else
      attempt (wo_fails w ReadWallet)
      (case findKnownWallet (tr_source_account tx) userId d1 of
         None \<Rightarrow> fail UnknownWallet
       | Some wallet \<Rightarrow>
      if wo_ops_failure w then Refused WitnessUnavailable
      else
      (case findQualifyingOp (lg_operations ledger network txHash) (tr_source_account tx)
              (map pe_poolId (blendPoolsFor network)) of
         None \<Rightarrow> fail NoQualifyingOp
       | Some q \<Rightarrow>
      attempt (wo_fails w ReadBuild)
      (case findMatchingBuild (BUILD_KIND_FOR (qo_kind q)) (tr_source_account tx) network (tr_created_at tx) d2 of
         None \<Rightarrow> fail NoMatchingBuild
       | Some eventId \<Rightarrow>
      attempt (wo_fails w ReadPrices)
        (Verified (witness_row env w txHash network tx wallet q eventId now d3)))))))))"

section \<open>The insert\<close>

definition witness_key :: "ActionWitness \<Rightarrow> tx_hash option" where
  "witness_key r = Some (aw_tx_hash r)"

definition insert_witness :: "ActionWitness \<times> ms \<Rightarrow> WitnessDb \<Rightarrow> unit + WitnessDb" where
  "insert_witness p d =
     (if conflicts witness_key (wd_witnesses d) (fst p) then Inl ()
      else Inr (d\<lparr>wd_witnesses := wd_witnesses d @ [(fst p)\<lparr>aw_verified_at := snd p\<rparr>]\<rparr>))"

interpretation witnesses: unique_index wd_witnesses witness_key "\<lambda>p d. (fst p)\<lparr>aw_verified_at := snd p\<rparr>" insert_witness
  by unfold_locales (auto simp: insert_witness_def conflicts_iff witness_key_def split: if_splits)

definition fresh_facts :: "ActionWitness \<Rightarrow> WitnessFacts" where
  "fresh_facts r =
     \<lparr>wi_txHash = aw_tx_hash r, wi_network = aw_network r, wi_kind = aw_kind r, wi_walletAddress = aw_wallet r,
      wi_notionalXlm = aw_notional r, wi_minNotionalXlm = Some (aw_min_notional r), wi_meetsMinNotional = aw_meets r\<rparr>"

text \<open>On a conflict nothing is inserted and the row of the concurrent request answers.\<close>

definition witness_store ::
    "WitnessOutside \<Rightarrow> ActionWitness \<Rightarrow> ms \<Rightarrow> WitnessDb \<Rightarrow> (WitnessError + WitnessResponse) \<times> WitnessDb" where
  "witness_store w row now d =
     (case wo_fails w InsertWitness of
        Some e \<Rightarrow> (Inl (WitnessDbError e), d)
      | None \<Rightarrow>
          (case insert_witness (row, now) d of
             Inr d' \<Rightarrow> (Inr (Witnessed False (fresh_facts row)), d')
           | Inl _ \<Rightarrow>
               (case wo_fails w ReadRaced of
                  Some e \<Rightarrow> (Inl (WitnessDbError e), d)
                | None \<Rightarrow>
                    (case findExisting (aw_tx_hash row) d of
                       Some raced \<Rightarrow> (Inr raced, d)
                     | None \<Rightarrow> (Inr (Witnessed False (fresh_facts row)), d)))))"

text \<open>A request that nothing interleaves with.\<close>

definition witness ::
    "Env \<Rightarrow> Ledger \<Rightarrow> WitnessOutside \<Rightarrow> string \<Rightarrow> ActionNetwork \<Rightarrow> string option \<Rightarrow> ms \<Rightarrow> WitnessDb
     \<Rightarrow> (WitnessError + WitnessResponse) \<times> WitnessDb" where
  "witness env ledger w hash network userId now d =
     (case witness_check env ledger w hash network userId now d d d d of
        Refused e \<Rightarrow> (Inl e, d)
      | Answered r \<Rightarrow> (Inr r, d)
      | Verified row \<Rightarrow> witness_store w row now d)"

section \<open>witness.controller.ts\<close>

definition TX_HASH_RE :: "string \<Rightarrow> bool" where
  "TX_HASH_RE s \<longleftrightarrow> length s = 64 \<and> list_all hex_char s"

text \<open>Unlike the campaign's, this pattern takes any version and variant digit.\<close>

definition ANY_UUID_RE :: "string \<Rightarrow> bool" where
  "ANY_UUID_RE s \<longleftrightarrow>
     length s = 36 \<and> s ! 8 = CHR ''-'' \<and> s ! 13 = CHR ''-'' \<and> s ! 18 = CHR ''-'' \<and> s ! 23 = CHR ''-''
     \<and> list_all hex_char (take 8 s) \<and> list_all hex_char (take 4 (drop 9 s)) \<and> list_all hex_char (take 4 (drop 14 s))
     \<and> list_all hex_char (take 4 (drop 19 s)) \<and> list_all hex_char (drop 24 s)"

definition resolveWitnessNetwork :: "jsval \<Rightarrow> WitnessError + ActionNetwork" where
  "resolveWitnessNetwork network =
     (if is_nullish network \<or> network = JString ''testnet'' then Inr Testnet
      else if network = JString ''mainnet'' then Inr Mainnet
      else Inl (WitnessBadRequest ''network''))"

record WitnessBody =
  wb_txHash :: jsval
  wb_network :: jsval
  wb_userId :: jsval

definition witness_request :: "WitnessBody \<Rightarrow> WitnessError + (string \<times> ActionNetwork \<times> string option)" where
  "witness_request body =
     (case wb_txHash body of
        JString txHash \<Rightarrow>
          if \<not> TX_HASH_RE txHash then Inl (WitnessBadRequest ''txHash'')
          else
            (case resolveWitnessNetwork (wb_network body) of
               Inl e \<Rightarrow> Inl e
             | Inr network \<Rightarrow>
                 if is_nullish (wb_userId body) then Inr (txHash, network, None)
                 else
                   (case wb_userId body of
                      JString userId \<Rightarrow>
                        if ANY_UUID_RE userId then Inr (txHash, network, Some userId) else Inl (WitnessBadRequest ''userId'')
                    | _ \<Rightarrow> Inl (WitnessBadRequest ''userId'')))
      | _ \<Rightarrow> Inl (WitnessBadRequest ''txHash''))"

definition witness_endpoint ::
    "Env \<Rightarrow> Ledger \<Rightarrow> WitnessOutside \<Rightarrow> WitnessBody \<Rightarrow> ms \<Rightarrow> WitnessDb \<Rightarrow> (WitnessError + WitnessResponse) \<times> WitnessDb" where
  "witness_endpoint env ledger w body now d =
     (case witness_request body of
        Inl e \<Rightarrow> (Inl e, d)
      | Inr (txHash, network, userId) \<Rightarrow> witness env ledger w txHash network userId now d)"

end
