(* ===== verification/Witness_Steps.thy ===== *)
theory Witness_Steps
  imports Witness_Service
begin

text \<open>
  Witness requests as they interleave. A state is the database, every database there has been, and the rows
  that have passed their checks and are about to be inserted. The reads of one request may each have seen any
  earlier database; the other writers (wallets, builds, prices) change anything but the witness table. The
  invariant says what a stored row is worth.
\<close>

section \<open>Steps\<close>

record WitnessSystem =
  ws_db :: WitnessDb
  ws_seen :: "WitnessDb list"
  ws_checked :: "ActionWitness list"

definition move_to :: "WitnessDb \<Rightarrow> WitnessSystem \<Rightarrow> WitnessSystem" where
  "move_to d s = s\<lparr>ws_db := d, ws_seen := d # ws_seen s\<rparr>"

inductive witness_step :: "Ledger \<Rightarrow> WitnessSystem \<Rightarrow> WitnessSystem \<Rightarrow> bool" for ledger where
  checked: "\<lbrakk>{d0, d1, d2, d3} \<subseteq> set (ws_seen s);
      witness_check env ledger w hash network userId now d0 d1 d2 d3 = Verified row\<rbrakk>
    \<Longrightarrow> witness_step ledger s (s\<lparr>ws_checked := row # ws_checked s\<rparr>)"
| stored: "row \<in> set (ws_checked s) \<Longrightarrow> witness_step ledger s (move_to (snd (witness_store w row now (ws_db s))) s)"
| others: "wd_witnesses d = wd_witnesses (ws_db s) \<Longrightarrow> witness_step ledger s (move_to d s)"

inductive witness_reachable :: "Ledger \<Rightarrow> WitnessSystem \<Rightarrow> bool" for ledger where
  start: "wd_witnesses d = [] \<Longrightarrow> witness_reachable ledger \<lparr>ws_db = d, ws_seen = [d], ws_checked = []\<rparr>"
| step: "\<lbrakk>witness_reachable ledger s; witness_step ledger s s'\<rbrakk> \<Longrightarrow> witness_reachable ledger s'"

inductive witness_steps :: "Ledger \<Rightarrow> WitnessSystem \<Rightarrow> WitnessSystem \<Rightarrow> bool" for ledger where
  none: "witness_steps ledger s s"
| more: "\<lbrakk>witness_steps ledger s s'; witness_step ledger s' s''\<rbrakk> \<Longrightarrow> witness_steps ledger s s''"

section \<open>What a row is worth\<close>

text \<open>The transaction is executed and successful, one of its operations is an action of the wallet that is its
  source, that wallet was known, and a build of that action for that wallet was recorded within the window.\<close>

definition backed :: "Ledger \<Rightarrow> WitnessDb list \<Rightarrow> ActionWitness \<Rightarrow> bool" where
  "backed ledger seen row \<longleftrightarrow>
     (\<exists>tx. lg_transaction ledger (aw_network row) (aw_tx_hash row) = Some tx \<and> tr_successful tx
        \<and> tr_source_account tx = aw_wallet row \<and> tr_created_at tx = aw_closed_at row)
     \<and> (\<exists>rec \<in> set (lg_operations ledger (aw_network row) (aw_tx_hash row)).
          own_action (aw_kind row) (aw_wallet row) (map pe_poolId (blendPoolsFor (aw_network row))) rec)
     \<and> (\<exists>d \<in> set seen. \<exists>u \<in> set (wd_wallets d). toLowerCase (kw_chain u) = ''stellar''
          \<and> lower_eq (kw_address u) (aw_wallet row) \<and> kw_user_id u = aw_user row)
     \<and> (\<exists>d \<in> set seen. \<exists>e \<in> set (wd_events d). be_id e = aw_event_id row
          \<and> be_kind e = BUILD_KIND_FOR (aw_kind row) \<and> be_network e = network_name (aw_network row)
          \<and> (\<exists>a. be_address e = Some a \<and> lower_eq a (aw_wallet row))
          \<and> aw_closed_at row - 60 * 60000 \<le> be_created_at e \<and> be_created_at e \<le> aw_closed_at row + 5 * 60000)"

definition measured :: "ActionWitness \<Rightarrow> bool" where
  "measured row \<longleftrightarrow>
     positive (aw_min_notional row)
     \<and> (aw_meets row \<longleftrightarrow> (\<exists>n. aw_notional row = Some n \<and> js_le (aw_min_notional row) n))"

lemma sort_key_first:
  assumes "(case sort_key f (filter P xs) of [] \<Rightarrow> None | x # _ \<Rightarrow> Some (g x)) = Some y"
  shows "\<exists>x \<in> set xs. P x \<and> g x = y"
proof -
  obtain x rest where x: "sort_key f (filter P xs) = x # rest" "g x = y" using assms by (auto split: list.splits)
  then have "x \<in> set (filter P xs)" by (metis list.set_intros(1) set_sort)
  with x show ?thesis by auto
qed

lemma findKnownWallet_Some:
  "findKnownWallet a u d = Some k \<Longrightarrow>
     k \<in> set (wd_wallets d) \<and> toLowerCase (kw_chain k) = ''stellar'' \<and> lower_eq (kw_address k) a"
  unfolding findKnownWallet_def by (drule sort_key_first [where g = "\<lambda>x. x"]) (auto simp: known_wallet_def)

lemma findMatchingBuild_Some:
  "findMatchingBuild kind a n t d = Some i \<Longrightarrow> \<exists>e \<in> set (wd_events d). be_id e = i \<and> be_kind e = kind \<and> be_network e = network_name n
     \<and> (\<exists>b. be_address e = Some b \<and> lower_eq b a)
     \<and> t - 60 * 60000 \<le> be_created_at e \<and> be_created_at e \<le> t + 5 * 60000"
  unfolding findMatchingBuild_def
  by (drule sort_key_first)
     (auto simp: matching_build_def BUILD_WINDOW_BEFORE_MIN_def BUILD_WINDOW_AFTER_MIN_def split: option.splits)

lemma attempt_Verified: "attempt err r = Verified row \<longleftrightarrow> err = None \<and> r = Verified row"
  by (auto simp: attempt_def split: option.splits)

lemma witness_row_simps:
  "aw_tx_hash (witness_row env w h n tx k q i now d) = h" "aw_network (witness_row env w h n tx k q i now d) = n"
  "aw_wallet (witness_row env w h n tx k q i now d) = tr_source_account tx"
  "aw_user (witness_row env w h n tx k q i now d) = kw_user_id k" "aw_kind (witness_row env w h n tx k q i now d) = qo_kind q"
  "aw_event_id (witness_row env w h n tx k q i now d) = i" "aw_closed_at (witness_row env w h n tx k q i now d) = tr_created_at tx"
  by (simp_all add: witness_row_def Let_def)

lemma witness_row_measured: "measured (witness_row env w h n tx k q i now d)"
proof -
  obtain x where "faucetMinNotionalXlm env = Num x" "0 < x"
    unfolding faucetMinNotionalXlm_def by (rule positive_or_cases [of 1]) auto
  then show ?thesis by (auto simp: measured_def witness_row_def Let_def positive_def split: option.splits)
qed

lemma witness_check_Verified:
  assumes "witness_check env ledger w hash network userId now d0 d1 d2 d3 = Verified row"
  obtains tx k q i where "lg_transaction ledger network (toLowerCase hash) = Some tx" "tr_successful tx"
    "findKnownWallet (tr_source_account tx) userId d1 = Some k"
    "findQualifyingOp (lg_operations ledger network (toLowerCase hash)) (tr_source_account tx)
       (map pe_poolId (blendPoolsFor network)) = Some q"
    "findMatchingBuild (BUILD_KIND_FOR (qo_kind q)) (tr_source_account tx) network (tr_created_at tx) d2 = Some i"
    "row = witness_row env w (toLowerCase hash) network tx k q i now d3"
  using assms unfolding witness_check_def Let_def attempt_Verified
  by (auto simp: attempt_Verified split: option.splits if_splits)

lemma witness_check_backed:
  assumes check: "witness_check env ledger w hash network userId now d0 d1 d2 d3 = Verified row"
    and seen: "{d0, d1, d2, d3} \<subseteq> set seen"
  shows "backed ledger seen row \<and> measured row"
proof -
  from check obtain tx k q i where tx: "lg_transaction ledger network (toLowerCase hash) = Some tx" "tr_successful tx"
    and k: "findKnownWallet (tr_source_account tx) userId d1 = Some k"
    and q: "findQualifyingOp (lg_operations ledger network (toLowerCase hash)) (tr_source_account tx)
       (map pe_poolId (blendPoolsFor network)) = Some q"
    and i: "findMatchingBuild (BUILD_KIND_FOR (qo_kind q)) (tr_source_account tx) network (tr_created_at tx) d2 = Some i"
    and row: "row = witness_row env w (toLowerCase hash) network tx k q i now d3"
    by (rule witness_check_Verified)
  from findQualifyingOp_Some [OF q] have op: "\<exists>rec \<in> set (lg_operations ledger network (toLowerCase hash)).
      own_action (qo_kind q) (tr_source_account tx) (map pe_poolId (blendPoolsFor network)) rec"
    by (metis nth_mem)
  have d: "d1 \<in> set seen" "d2 \<in> set seen" using seen by auto
  show ?thesis unfolding backed_def row witness_row_simps
    using d findKnownWallet_Some [OF k] findMatchingBuild_Some [OF i] tx op witness_row_measured by blast
qed

lemma backed_mono: "backed ledger seen row \<Longrightarrow> set seen \<subseteq> set seen' \<Longrightarrow> backed ledger seen' row"
  unfolding backed_def by blast

lemma worth_verified_at [simp]:
  "backed ledger seen (row\<lparr>aw_verified_at := t\<rparr>) = backed ledger seen row" "measured (row\<lparr>aw_verified_at := t\<rparr>) = measured row"
  by (simp_all add: backed_def measured_def)

section \<open>The invariant\<close>

definition witness_inv :: "Ledger \<Rightarrow> WitnessSystem \<Rightarrow> bool" where
  "witness_inv ledger s \<longleftrightarrow>
     ws_db s \<in> set (ws_seen s)
     \<and> unique_on witness_key (wd_witnesses (ws_db s))
     \<and> (\<forall>row \<in> set (wd_witnesses (ws_db s)) \<union> set (ws_checked s). backed ledger (ws_seen s) row \<and> measured row)"

text \<open>An insert adds the checked row, or nothing.\<close>

lemma witness_store_db:
  "snd (witness_store w row now d) = d
   \<or> (insert_witness (row, now) d = Inr (snd (witness_store w row now d))
      \<and> wd_witnesses (snd (witness_store w row now d)) = wd_witnesses d @ [row\<lparr>aw_verified_at := now\<rparr>])"
proof (cases "insert_witness (row, now) d")
  case (Inl u)
  then show ?thesis by (auto simp: witness_store_def split: option.splits)
next
  case (Inr d')
  then show ?thesis using witnesses.ins_ok [OF Inr] by (auto simp: witness_store_def split: option.splits)
qed

lemma witness_inv_step: "witness_step ledger s s' \<Longrightarrow> witness_inv ledger s \<Longrightarrow> witness_inv ledger s'"
proof (induction rule: witness_step.induct)
  case (checked d0 d1 d2 d3 s env w hash network userId now row)
  with witness_check_backed [OF checked(2,1)] show ?case by (auto simp: witness_inv_def)
next
  case (stored row s w now)
  let ?d = "snd (witness_store w row now (ws_db s))"
  have grow: "backed ledger (ws_seen (move_to ?d s)) r" if "backed ledger (ws_seen s) r" for r
    using that by (rule backed_mono) (auto simp: move_to_def)
  show ?case
  proof (cases "?d = ws_db s")
    case True
    with stored grow show ?thesis by (auto simp: witness_inv_def move_to_def)
  next
    case False
    then have ins: "insert_witness (row, now) (ws_db s) = Inr ?d"
        and rows: "wd_witnesses ?d = wd_witnesses (ws_db s) @ [row\<lparr>aw_verified_at := now\<rparr>]"
      using witness_store_db [of w row now "ws_db s"] by auto
    from stored have "unique_on witness_key (wd_witnesses ?d)"
      by (intro witnesses.keeps_unique [OF _ ins]) (simp add: witness_inv_def)
    with stored grow show ?thesis by (auto simp: witness_inv_def move_to_def rows)
  qed
next
  case (others d s)
  have "backed ledger (d # ws_seen s) r" if "backed ledger (ws_seen s) r" for r
    using that by (rule backed_mono) auto
  with others show ?case by (auto simp: witness_inv_def move_to_def)
qed

lemma witness_inv_reachable: "witness_reachable ledger s \<Longrightarrow> witness_inv ledger s"
proof (induction rule: witness_reachable.induct)
  case (step s s')
  then show ?case by (blast intro: witness_inv_step)
qed (simp add: witness_inv_def)

section \<open>Stored for good\<close>

lemma step_keeps_rows:
  "witness_step ledger s s' \<Longrightarrow> row \<in> set (wd_witnesses (ws_db s)) \<Longrightarrow> row \<in> set (wd_witnesses (ws_db s'))"
proof (induction rule: witness_step.induct)
  case (stored r s w now)
  then show ?case using witness_store_db [of w r now "ws_db s"] by (auto simp: move_to_def)
qed (auto simp: move_to_def)

lemma steps_keep_rows:
  "witness_steps ledger s s' \<Longrightarrow> row \<in> set (wd_witnesses (ws_db s)) \<Longrightarrow> row \<in> set (wd_witnesses (ws_db s'))"
  by (induction rule: witness_steps.induct) (auto intro: step_keeps_rows)

lemma steps_reachable: "witness_steps ledger s s' \<Longrightarrow> witness_reachable ledger s \<Longrightarrow> witness_reachable ledger s'"
  by (induction rule: witness_steps.induct) (auto intro: witness_reachable.step)

text \<open>A stored row is the one its hash finds, and it answers without asking Horizon.\<close>

lemma stored_row_found:
  assumes u: "unique_on witness_key (wd_witnesses d)" and row: "row \<in> set (wd_witnesses d)"
  shows "findExisting (aw_tx_hash row) d = Some (Witnessed True (stored_facts row))"
proof (cases "List.find (\<lambda>r. aw_tx_hash r = aw_tx_hash row) (wd_witnesses d)")
  case None
  with row show ?thesis by (auto simp: find_None_iff)
next
  case (Some r)
  then have r: "r \<in> set (wd_witnesses d)" "aw_tx_hash r = aw_tx_hash row" by (auto simp: find_Some_iff)
  then have "r = row" by (intro unique_onD [OF u _ row, of _ "aw_tx_hash row"]) (simp_all add: witness_key_def)
  with Some show ?thesis by (simp add: findExisting_def)
qed

lemma existing_answers:
  assumes "findExisting (toLowerCase hash) d = Some r" "wo_fails w ReadExisting = None"
  shows "witness env ledger w hash network userId now d = (Inr r, d)"
  using assms by (simp add: witness_def witness_check_def attempt_def)

end
