(* ===== verification/Witness_Properties.thy ===== *)
theory Witness_Properties
  imports Witness_Steps Faucet_Properties
begin

text \<open>
  What a stored witness proves, and what a paid reward therefore rests on: the faucet reads the witness table
  and nothing else of the chain. Witnessed on a run in which one swap is checked, stored and rewarded.
\<close>

section \<open>The faucet's view of the table\<close>




section \<open>A concrete run\<close>

definition wx_op :: HorizonOpRecordLike where
  "wx_op = \<lparr>op_type = ''path_payment_strict_send'', op_source_account = Some fx_a, op_amount = Some ''1.9'',
     op_asset_type = Some ''credit_alphanum4'', op_asset_code = Some ''USDC'', op_asset_issuer = Some ''GI'',
     op_source_amount = Some ''20'', op_source_asset_type = Some ''native'', op_source_asset_code = None,
     op_source_asset_issuer = None, op_buying_asset_type = None, op_buying_asset_code = None,
     op_buying_asset_issuer = None, op_asset_balance_changes = None\<rparr>"

definition wx_tx :: TxRecord where
  "wx_tx = \<lparr>tr_successful = True, tr_source_account = fx_a, tr_created_at = 1500000\<rparr>"

definition wx_ledger :: Ledger where
  "wx_ledger = \<lparr>lg_transaction = (\<lambda>n h. if n = Testnet \<and> h = fx_hash then Some wx_tx else None),
     lg_operations = (\<lambda>n h. if n = Testnet \<and> h = fx_hash then [wx_op] else [])\<rparr>"

definition wx_out :: WitnessOutside where
  "wx_out = \<lparr>wo_contractId = (\<lambda>a p. Some (assetLabel a)), wo_public_passphrase = ''P'', wo_tx_failure = None,
     wo_ops_failure = False, wo_fails = (\<lambda>s. None)\<rparr>"

definition wx_wallet :: KnownWallet where
  "wx_wallet = \<lparr>kw_id = ''w1'', kw_user_id = ''u1'', kw_chain = ''Stellar'', kw_address = fx_a, kw_is_active_signer = True,
     kw_updated_at = 0\<rparr>"

definition wx_event :: BuildEvent where
  "wx_event = \<lparr>be_id = 7, be_kind = ''sdex-swap-build'', be_network = ''testnet'', be_address = Some fx_a, be_created_at = 1400000\<rparr>"

definition wx_db0 :: WitnessDb where
  "wx_db0 = \<lparr>wd_wallets = [wx_wallet], wd_events = [wx_event], wd_assets = [], wd_prices = [], wd_witnesses = []\<rparr>"

definition wx_row :: ActionWitness where
  "wx_row = \<lparr>aw_tx_hash = fx_hash, aw_network = Testnet, aw_wallet = fx_a, aw_user = ''u1'', aw_kind = SdexSwapKind,
     aw_op_summary = [(''opType'', JString ''path_payment_strict_send''), (''opIndex'', JNumber (Num 0)),
       (''sourceAsset'', JString ''XLM''), (''sourceAmount'', JString ''20''), (''destAsset'', JString ''USDC:GI''),
       (''destAmount'', JString ''1.9''),
       (''pricing'', JObject [(''pricedLeg'', JString ''source''), (''method'', JString ''native-direct'')])],
     aw_notional = Some (Num 20), aw_min_notional = Num 1, aw_meets = True, aw_event_id = 7, aw_closed_at = 1500000,
     aw_verified_at = 1600000\<rparr>"

definition wx_db1 :: WitnessDb where
  "wx_db1 = wx_db0\<lparr>wd_witnesses := [wx_row]\<rparr>"

definition wx_s0 :: WitnessSystem where
  "wx_s0 = \<lparr>ws_db = wx_db0, ws_seen = [wx_db0], ws_checked = []\<rparr>"

definition wx_s1 :: WitnessSystem where
  "wx_s1 = \<lparr>ws_db = wx_db1, ws_seen = [wx_db1, wx_db0], ws_checked = [wx_row]\<rparr>"

lemma wx_check: "witness_check fx_env wx_ledger wx_out fx_hash Testnet None 1600000 wx_db0 wx_db0 wx_db0 wx_db0 = Verified wx_row"
  by code_simp

lemma wx_store: "snd (witness_store wx_out wx_row 1600000 wx_db0) = wx_db1"
  by (simp add: witness_store_def insert_witness_def conflicts_iff wx_out_def wx_db0_def wx_db1_def wx_row_def)

lemma wx_reachable: "witness_reachable wx_ledger wx_s1"
proof -
  have "witness_reachable wx_ledger wx_s0"
    unfolding wx_s0_def by (rule witness_reachable.start) (simp add: wx_db0_def)
  from witness_reachable.step [OF this witness_step.checked [OF _ wx_check]]
  have "witness_reachable wx_ledger (wx_s0\<lparr>ws_checked := [wx_row]\<rparr>)" by (simp add: wx_s0_def)
  from witness_reachable.step [OF this witness_step.stored [of wx_row _ _ wx_out 1600000]]
  show ?thesis by (simp add: move_to_def wx_s0_def wx_s1_def wx_store)
qed

section \<open>Properties\<close>



text \<open>C12: witnessing is idempotent for good: once a transaction is stored, any later request for its hash, in
  any letter case, naming any network or user, whatever happened in between and whatever Horizon says,
  changes nothing and answers the stored facts as already witnessed.\<close>

theorem rewitnessing_answers_stored_row:
  assumes reach: "witness_reachable ledger s" and row: "row \<in> set (wd_witnesses (ws_db s))"
    and later: "witness_steps ledger s s'" and hash: "toLowerCase hash = aw_tx_hash row"
    and up: "wo_fails w ReadExisting = None"
  shows "witness env ledger' w hash network userId now (ws_db s') = (Inr (Witnessed True (stored_facts row)), ws_db s')"
proof -
  have "unique_on witness_key (wd_witnesses (ws_db s'))"
    using witness_inv_reachable [OF steps_reachable [OF later reach]] by (simp add: witness_inv_def)
  from stored_row_found [OF this steps_keep_rows [OF later row]] show ?thesis
    by (intro existing_answers) (simp_all add: hash up)
qed

theorem rewitnessing_answers_stored_row_witness:
  "witness fx_env wx_ledger (wx_out\<lparr>wo_tx_failure := Some \<lparr>hf_name = None, hf_status = Some 503\<rparr>\<rparr>)
     (replicate 64 (CHR ''A'')) Mainnet None 9000000 wx_db1 = (Inr (Witnessed True (stored_facts wx_row)), wx_db1)"
proof -
  have row: "wx_row \<in> set (wd_witnesses (ws_db wx_s1))" by (simp add: wx_s1_def wx_db1_def)
  have "toLowerCase (replicate 64 (CHR ''A'')) = aw_tx_hash wx_row" by code_simp
  from rewitnessing_answers_stored_row [OF wx_reachable row witness_steps.none this] show ?thesis
    by (simp add: wx_s1_def wx_out_def)
qed



end
