(* ===== verification/Refresh_Limiter.thy ===== *)
theory Refresh_Limiter
  imports Dig_Prelude
begin

text \<open>
  \<open>apps/api/src/modules/wallets/refresh-limiter.ts\<close>: which wallet refreshes are admitted. The state is the
  set of running refreshes (\<open>inFlight\<close>) and the start of the last one of each wallet. A grant's \<open>release\<close>
  frees its wallet once.
\<close>

section \<open>Admission\<close>

definition REFRESH_COOLDOWN_MS :: ms where
  "REFRESH_COOLDOWN_MS = 60000"

definition REFRESH_MAX_CONCURRENT :: nat where
  "REFRESH_MAX_CONCURRENT = 2"

record RefreshLimiter =
  lim_inFlight :: "string list"
  lim_lastStartedAt :: "string \<Rightarrow> ms option"

datatype RefreshDenialReason = InFlight | Cooldown | Capacity

record RefreshDenial =
  lim_reason :: RefreshDenialReason
  lim_retryAfterSeconds :: int

definition new_limiter :: RefreshLimiter where
  "new_limiter = \<lparr>lim_inFlight = [], lim_lastStartedAt = (\<lambda>w. None)\<rparr>"

definition ceil_div :: "int \<Rightarrow> int \<Rightarrow> int" where
  "ceil_div a b = - ((- a) div b)"

definition secondsLeft :: "ms \<Rightarrow> RefreshLimiter \<Rightarrow> string \<Rightarrow> ms \<Rightarrow> int" where
  "secondsLeft cooldown l walletId now =
     (let last = (case lim_lastStartedAt l walletId of None \<Rightarrow> now | Some t \<Rightarrow> t) in
      max 1 (ceil_div (last + cooldown - now) 1000))"

definition prune :: "ms \<Rightarrow> ms \<Rightarrow> RefreshLimiter \<Rightarrow> RefreshLimiter" where
  "prune cooldown now l =
     l\<lparr>lim_lastStartedAt := (\<lambda>w.
        case lim_lastStartedAt l w of
          None \<Rightarrow> None
        | Some t \<Rightarrow> if cooldown \<le> now - t \<and> w \<notin> set (lim_inFlight l) then None else Some t)\<rparr>"

definition tryAcquire :: "ms \<Rightarrow> nat \<Rightarrow> ms \<Rightarrow> string \<Rightarrow> RefreshLimiter \<Rightarrow> (RefreshDenial + unit) \<times> RefreshLimiter" where
  "tryAcquire cooldown maxConcurrent now walletId l0 =
     (let l = prune cooldown now l0 in
      if walletId \<in> set (lim_inFlight l) then
        (Inl \<lparr>lim_reason = InFlight, lim_retryAfterSeconds = secondsLeft cooldown l walletId now\<rparr>, l)
      else if (case lim_lastStartedAt l walletId of None \<Rightarrow> False | Some t \<Rightarrow> now - t < cooldown) then
        (Inl \<lparr>lim_reason = Cooldown, lim_retryAfterSeconds = secondsLeft cooldown l walletId now\<rparr>, l)
      else if maxConcurrent \<le> length (lim_inFlight l) then
        (Inl \<lparr>lim_reason = Capacity, lim_retryAfterSeconds = 5\<rparr>, l)
      else
        (Inr (), l\<lparr>lim_inFlight := walletId # lim_inFlight l, lim_lastStartedAt := (lim_lastStartedAt l)(walletId \<mapsto> now)\<rparr>))"

definition release :: "string \<Rightarrow> RefreshLimiter \<Rightarrow> RefreshLimiter" where
  "release walletId l = l\<lparr>lim_inFlight := filter (\<lambda>w. w \<noteq> walletId) (lim_inFlight l)\<rparr>"

section \<open>Runs\<close>

text \<open>The limiter, the clock, and the starts so far, the newest first.\<close>

record LimiterRun =
  lim_state :: RefreshLimiter
  lim_clock :: ms
  lim_starts :: "(string \<times> ms) list"

inductive limiter_step :: "ms \<Rightarrow> nat \<Rightarrow> LimiterRun \<Rightarrow> LimiterRun \<Rightarrow> bool" for cooldown maxConcurrent where
  request: "lim_clock r \<le> now \<Longrightarrow> tryAcquire cooldown maxConcurrent now w (lim_state r) = (res, l) \<Longrightarrow>
     limiter_step cooldown maxConcurrent r
       \<lparr>lim_state = l, lim_clock = now, lim_starts = (if res = Inr () then (w, now) # lim_starts r else lim_starts r)\<rparr>"
| finish: "w \<in> set (lim_inFlight (lim_state r)) \<Longrightarrow>
     limiter_step cooldown maxConcurrent r (r\<lparr>lim_state := release w (lim_state r)\<rparr>)"

inductive limiter_reachable :: "ms \<Rightarrow> nat \<Rightarrow> LimiterRun \<Rightarrow> bool" for cooldown maxConcurrent where
  start: "limiter_reachable cooldown maxConcurrent \<lparr>lim_state = new_limiter, lim_clock = t, lim_starts = []\<rparr>"
| step: "\<lbrakk>limiter_reachable cooldown maxConcurrent r; limiter_step cooldown maxConcurrent r r'\<rbrakk>
    \<Longrightarrow> limiter_reachable cooldown maxConcurrent r'"

section \<open>The invariant\<close>

fun spaced :: "ms \<Rightarrow> (string \<times> ms) list \<Rightarrow> bool" where
  "spaced cooldown [] = True"
| "spaced cooldown (s # starts) =
     ((\<forall>s' \<in> set starts. fst s' = fst s \<longrightarrow> cooldown \<le> snd s - snd s') \<and> spaced cooldown starts)"

text \<open>Every start is either remembered, by itself or a later one, or a cooldown ago.\<close>

definition remembered :: "ms \<Rightarrow> ms \<Rightarrow> RefreshLimiter \<Rightarrow> string \<times> ms \<Rightarrow> bool" where
  "remembered cooldown now l s \<longleftrightarrow>
     cooldown \<le> now - snd s \<or> (\<exists>t. lim_lastStartedAt l (fst s) = Some t \<and> snd s \<le> t)"

definition limiter_inv :: "ms \<Rightarrow> nat \<Rightarrow> LimiterRun \<Rightarrow> bool" where
  "limiter_inv cooldown maxConcurrent r \<longleftrightarrow>
     distinct (lim_inFlight (lim_state r)) \<and> length (lim_inFlight (lim_state r)) \<le> maxConcurrent
     \<and> spaced cooldown (lim_starts r)
     \<and> (\<forall>s \<in> set (lim_starts r). remembered cooldown (lim_clock r) (lim_state r) s)"

lemma prune_simps [simp]: "lim_inFlight (prune cooldown now l) = lim_inFlight l"
  by (simp add: prune_def)

lemma remembered_prune:
  assumes "remembered cooldown t l s" "t \<le> now"
  shows "remembered cooldown now (prune cooldown now l) s"
  using assms by (auto simp: remembered_def prune_def split: if_splits)

lemma limiter_inv_step:
  "limiter_step cooldown maxConcurrent r r' \<Longrightarrow> limiter_inv cooldown maxConcurrent r \<Longrightarrow> limiter_inv cooldown maxConcurrent r'"
proof (induction rule: limiter_step.induct)
  case (request r now w res l)
  let ?p = "prune cooldown now (lim_state r)"
  have rem: "remembered cooldown now ?p s" if "s \<in> set (lim_starts r)" for s
    using that request by (auto simp: limiter_inv_def intro: remembered_prune)
  show ?case
  proof (cases "res = Inr ()")
    case False
    then have "l = ?p" using request(2) by (auto simp: tryAcquire_def Let_def split: if_splits)
    with request rem False show ?thesis by (auto simp: limiter_inv_def)
  next
    case True
    then have l: "w \<notin> set (lim_inFlight (lim_state r))" "length (lim_inFlight (lim_state r)) < maxConcurrent"
        "\<And>t. lim_lastStartedAt ?p w = Some t \<Longrightarrow> cooldown \<le> now - t"
        "l = ?p\<lparr>lim_inFlight := w # lim_inFlight (lim_state r), lim_lastStartedAt := (lim_lastStartedAt ?p)(w \<mapsto> now)\<rparr>"
      using request(2) by (auto simp: tryAcquire_def Let_def split: if_splits option.splits)
    have gap: "cooldown \<le> now - snd s" if "s \<in> set (lim_starts r)" "fst s = w" for s
      using rem [OF that(1)] l(3) that(2) by (auto simp: remembered_def)
    have rem': "remembered cooldown now l s" if "s \<in> set (lim_starts r)" for s
      using rem [OF that] gap [OF that] by (auto simp: remembered_def l(4))
    have "remembered cooldown now l (w, now)" by (simp add: remembered_def l(4))
    with request True l(1,2) gap rem' show ?thesis by (auto simp: limiter_inv_def l(4))
  qed
next
  case (finish w r)
  then have "length (filter (\<lambda>x. x \<noteq> w) (lim_inFlight (lim_state r))) \<le> maxConcurrent"
    by (meson length_filter_le limiter_inv_def order_trans)
  with finish show ?case by (auto simp: limiter_inv_def release_def remembered_def)
qed

lemma limiter_inv_reachable: "limiter_reachable cooldown maxConcurrent r \<Longrightarrow> limiter_inv cooldown maxConcurrent r"
proof (induction rule: limiter_reachable.induct)
  case (step r r')
  then show ?case by (blast intro: limiter_inv_step)
qed (simp add: limiter_inv_def new_limiter_def)

lemma spaced_nth:
  "spaced cooldown starts \<Longrightarrow> i < j \<Longrightarrow> j < length starts \<Longrightarrow> fst (starts ! i) = fst (starts ! j) \<Longrightarrow>
     cooldown \<le> snd (starts ! i) - snd (starts ! j)"
proof (induction starts arbitrary: i j)
  case (Cons s starts)
  show ?case
  proof (cases i)
    case 0
    with Cons.prems obtain k where "j = Suc k" "k < length starts" by (cases j) auto
    with Cons.prems 0 show ?thesis using nth_mem [of k starts] by auto
  next
    case (Suc k)
    with Cons.prems obtain m where "j = Suc m" by (cases j) auto
    with Cons Suc show ?thesis by auto
  qed
qed simp

end
