(* ===== verification/Wallets_Store.thy ===== *)
theory Wallets_Store
  imports Refresh_Limiter Campaign_Db
begin

text \<open>
  The table \<open>user_wallets\<close> (\<open>stellar_v2_multiwallet.sql\<close>) and the statements of
  \<open>apps/api/src/modules/wallets/wallets.service.ts\<close> that read or write it. The identifier of a new row is an
  argument; \<open>metadata\<close> is always the empty object and left out. Where an ordering leaves rows tied, the earlier
  row of the table comes first.
\<close>

record WalletRow =
  ur_id :: string
  ur_user_id :: user_id
  ur_chain :: string
  ur_address :: address
  ur_label :: "string option"
  ur_is_primary :: bool
  ur_is_active :: bool
  ur_is_active_signer :: bool
  ur_created_at :: ms
  ur_updated_at :: ms

type_synonym wallets = "WalletRow list"

definition update_where :: "(WalletRow \<Rightarrow> bool) \<Rightarrow> (WalletRow \<Rightarrow> WalletRow) \<Rightarrow> wallets \<Rightarrow> wallets" where
  "update_where P f rows = map (\<lambda>r. if P r then f r else r) rows"

section \<open>Reads\<close>

definition own_wallet :: "string \<Rightarrow> string \<Rightarrow> WalletRow \<Rightarrow> bool" where
  "own_wallet walletId userId r \<longleftrightarrow> ur_id r = uuid_cast walletId \<and> ur_user_id r = uuid_cast userId"

definition find_wallet :: "string \<Rightarrow> string \<Rightarrow> wallets \<Rightarrow> WalletRow option" where
  "find_wallet walletId userId rows = List.find (own_wallet walletId userId) rows"

definition getWalletByAddressForUser :: "string \<Rightarrow> string \<Rightarrow> address \<Rightarrow> wallets \<Rightarrow> WalletRow option" where
  "getWalletByAddressForUser userId chain address rows =
     List.find (\<lambda>r. ur_user_id r = uuid_cast userId \<and> lower_eq (ur_chain r) chain \<and> lower_eq (ur_address r) address) rows"

definition findSignerWalletByAddress :: "string \<Rightarrow> address \<Rightarrow> wallets \<Rightarrow> WalletRow option" where
  "findSignerWalletByAddress chain address rows =
     (case sort_key (\<lambda>r. (- ur_updated_at r, ur_id r))
        (filter (\<lambda>r. lower_eq (ur_chain r) chain \<and> lower_eq (ur_address r) address \<and> ur_is_active_signer r) rows) of
        [] \<Rightarrow> None | r # _ \<Rightarrow> Some r)"

definition count_wallets :: "string \<Rightarrow> wallets \<Rightarrow> nat" where
  "count_wallets userId rows = length (filter (\<lambda>r. ur_user_id r = uuid_cast userId) rows)"

definition other_active :: "string \<Rightarrow> string \<Rightarrow> wallets \<Rightarrow> WalletRow option" where
  "other_active walletId userId rows =
     (case sort_key ur_created_at
        (filter (\<lambda>r. ur_user_id r = uuid_cast userId \<and> ur_id r \<noteq> uuid_cast walletId \<and> ur_is_active r) rows) of
        [] \<Rightarrow> None | r # _ \<Rightarrow> Some r)"

definition list_wallets :: "string \<Rightarrow> wallets \<Rightarrow> wallets" where
  "list_wallets userId rows =
     sort_key (\<lambda>r. (\<not> ur_is_primary r, - ur_created_at r, ur_address r)) (filter (\<lambda>r. ur_user_id r = uuid_cast userId) rows)"

section \<open>Writes\<close>

definition wallet_id_key :: "WalletRow \<Rightarrow> string option" where
  "wallet_id_key r = Some (ur_id r)"

definition wallet_address_key :: "WalletRow \<Rightarrow> (user_id \<times> string \<times> address) option" where
  "wallet_address_key r = Some (ur_user_id r, ur_chain r, ur_address r)"

definition new_wallet :: "ms \<Rightarrow> string \<Rightarrow> string \<Rightarrow> string \<Rightarrow> address \<Rightarrow> string option \<Rightarrow> bool \<Rightarrow> WalletRow" where
  "new_wallet now i userId chain address label isPrimary =
     \<lparr>ur_id = i, ur_user_id = uuid_cast userId, ur_chain = chain, ur_address = address, ur_label = label,
      ur_is_primary = isPrimary, ur_is_active = True, ur_is_active_signer = False, ur_created_at = now, ur_updated_at = now\<rparr>"

definition insert_wallet :: "WalletRow \<Rightarrow> wallets \<Rightarrow> JsError + wallets" where
  "insert_wallet r rows =
     (if conflicts wallet_id_key rows r then Inl (unique_violation ''id'')
      else if conflicts wallet_address_key rows r then Inl (unique_violation ''user_id, chain, address'')
      else Inr (rows @ [r]))"

interpretation wallet_ids: unique_index "\<lambda>rows. rows" wallet_id_key "\<lambda>r rows. r" insert_wallet
  by unfold_locales (auto simp: insert_wallet_def split: if_splits)

interpretation wallet_addresses: unique_index "\<lambda>rows. rows" wallet_address_key "\<lambda>r rows. r" insert_wallet
  by unfold_locales (auto simp: insert_wallet_def split: if_splits)

definition demote_primaries :: "ms \<Rightarrow> string \<Rightarrow> wallets \<Rightarrow> wallets" where
  "demote_primaries now userId =
     update_where (\<lambda>r. ur_user_id r = uuid_cast userId \<and> ur_is_primary r) (\<lambda>r. r\<lparr>ur_is_primary := False, ur_updated_at := now\<rparr>)"

definition make_primary :: "ms \<Rightarrow> string \<Rightarrow> string \<Rightarrow> wallets \<Rightarrow> wallets" where
  "make_primary now walletId userId =
     update_where (own_wallet walletId userId) (\<lambda>r. r\<lparr>ur_is_primary := True, ur_is_active := True, ur_updated_at := now\<rparr>)"

definition promote_other :: "ms \<Rightarrow> string \<Rightarrow> wallets \<Rightarrow> wallets" where
  "promote_other now i = update_where (\<lambda>r. ur_id r = i) (\<lambda>r. r\<lparr>ur_is_primary := True, ur_updated_at := now\<rparr>)"

definition demote_signers :: "ms \<Rightarrow> string \<Rightarrow> string \<Rightarrow> wallets \<Rightarrow> wallets" where
  "demote_signers now userId walletId =
     update_where (\<lambda>r. ur_user_id r = uuid_cast userId \<and> ur_is_active_signer r \<and> ur_id r \<noteq> uuid_cast walletId)
       (\<lambda>r. r\<lparr>ur_is_active_signer := False, ur_updated_at := now\<rparr>)"

text \<open>The partial index \<open>user_wallets_one_signer_per_user\<close> refuses a second signer.\<close>

definition make_signer :: "ms \<Rightarrow> string \<Rightarrow> string \<Rightarrow> wallets \<Rightarrow> JsError + wallets" where
  "make_signer now walletId userId rows =
     (if list_ex (own_wallet walletId userId) rows
         \<and> list_ex (\<lambda>r. ur_user_id r = uuid_cast userId \<and> ur_is_active_signer r \<and> ur_id r \<noteq> uuid_cast walletId) rows
      then Inl (unique_violation ''user_id'')
      else Inr (update_where (own_wallet walletId userId)
             (\<lambda>r. r\<lparr>ur_is_active_signer := True, ur_is_active := True, ur_updated_at := now\<rparr>) rows))"

definition relabel :: "ms \<Rightarrow> string \<Rightarrow> string \<Rightarrow> string option \<Rightarrow> wallets \<Rightarrow> wallets" where
  "relabel now walletId userId label =
     update_where (own_wallet walletId userId) (\<lambda>r. r\<lparr>ur_label := label, ur_updated_at := now\<rparr>)"

definition set_active :: "ms \<Rightarrow> string \<Rightarrow> string \<Rightarrow> bool \<Rightarrow> wallets \<Rightarrow> wallets" where
  "set_active now walletId userId isActive =
     update_where (own_wallet walletId userId)
       (\<lambda>r. r\<lparr>ur_is_active := isActive, ur_is_primary := (if \<not> isActive then False else ur_is_primary r), ur_updated_at := now\<rparr>)"

text \<open>A watched address tracked again: \<open>coalesce($2, label)\<close>.\<close>

definition revive :: "ms \<Rightarrow> string \<Rightarrow> string option \<Rightarrow> wallets \<Rightarrow> wallets" where
  "revive now i label =
     update_where (\<lambda>r. ur_id r = i)
       (\<lambda>r. r\<lparr>ur_label := (case label of None \<Rightarrow> ur_label r | Some t \<Rightarrow> Some t), ur_is_active := True, ur_updated_at := now\<rparr>)"

definition delete_wallet :: "string \<Rightarrow> string \<Rightarrow> wallets \<Rightarrow> wallets" where
  "delete_wallet walletId userId rows = filter (\<lambda>r. \<not> own_wallet walletId userId r) rows"

end
