(* ===== verification/Wallets_Service.thy ===== *)
theory Wallets_Service
  imports Wallets_Store Campaign_Challenge Request_Validation
begin

text \<open>
  The wallet endpoints of \<open>wallets.service.ts\<close>: connecting (with account recovery), tracking, the primary and
  signer designations, labels, pausing, deleting, and the admission of a refresh. A body field or parameter is a
  \<open>jsval\<close>. The state is the wallet table with the campaign's database, which holds the ownership proofs, and the
  refresh limiter. An endpoint returns its answer with the state it leaves, the statements before a refusal
  included. Identifiers drawn by \<open>randomUUID\<close> and the database are arguments. The portfolio part of an answer is
  left out.
\<close>

section \<open>Requests\<close>

record WalletsState =
  us_wallets :: wallets
  us_campaign :: Db
  us_limiter :: RefreshLimiter

datatype WalletError =
    WalletBadRequest string
  | WalletNotFound
  | WalletTooMany RefreshDenial
  | WalletInternal
  | WalletDbError JsError

definition DEMO_USER_ID :: user_id where
  "DEMO_USER_ID = ''00000000-0000-0000-0000-000000000001''"

definition MAX_LABEL_CHARS :: nat where
  "MAX_LABEL_CHARS = 64"

definition or_bad_request :: "bad_request + 'a \<Rightarrow> WalletError + 'a" where
  "or_bad_request r = map_sum (\<lambda>e. case e of BadRequest f \<Rightarrow> WalletBadRequest f) id r"

definition normalizeUserId :: "jsval \<Rightarrow> WalletError + string" where
  "normalizeUserId userId = (if is_nullish userId then Inr DEMO_USER_ID else or_bad_request (requireUserId userId ''userId''))"

definition normalizeOptionalUserId :: "jsval \<Rightarrow> WalletError + string option" where
  "normalizeOptionalUserId userId = or_bad_request (optionalUserId userId ''userId'')"

definition normalizeWalletId :: "jsval \<Rightarrow> WalletError + string" where
  "normalizeWalletId walletId = or_bad_request (requireUuid walletId ''walletId'')"

definition normalizeChain :: "jsval \<Rightarrow> WalletError + string" where
  "normalizeChain chain =
     (case optionalKeyword chain ''chain'' ''stellar'' of
        Inl (BadRequest f) \<Rightarrow> Inl (WalletBadRequest f)
      | Inr value \<Rightarrow> if value = ''stellar'' then Inr value else Inl (WalletBadRequest ''chain''))"

definition normalizeAddress :: "jsval \<Rightarrow> WalletError + address" where
  "normalizeAddress address = or_bad_request (requireAddress address ''address'')"

definition normalizeLabel :: "jsval \<Rightarrow> WalletError + string option" where
  "normalizeLabel label = or_bad_request (optionalText label ''label'' MAX_LABEL_CHARS)"

record ConnectParams =
  pcon_userId :: jsval
  pcon_chain :: jsval
  pcon_address :: jsval
  pcon_label :: jsval

definition connect_inputs :: "ConnectParams \<Rightarrow> WalletError + (string option \<times> string \<times> address \<times> string option)" where
  "connect_inputs p =
     (case normalizeOptionalUserId (pcon_userId p) of Inl e \<Rightarrow> Inl e | Inr userId \<Rightarrow>
     (case normalizeChain (pcon_chain p) of Inl e \<Rightarrow> Inl e | Inr chain \<Rightarrow>
     (case normalizeAddress (pcon_address p) of Inl e \<Rightarrow> Inl e | Inr address \<Rightarrow>
     (case normalizeLabel (pcon_label p) of Inl e \<Rightarrow> Inl e | Inr label \<Rightarrow> Inr (userId, chain, address, label)))))"

definition wallet_inputs :: "jsval \<Rightarrow> jsval \<Rightarrow> WalletError + (string \<times> string)" where
  "wallet_inputs userId walletId =
     (case normalizeUserId userId of Inl e \<Rightarrow> Inl e | Inr u \<Rightarrow>
     (case normalizeWalletId walletId of Inl e \<Rightarrow> Inl e | Inr w \<Rightarrow> Inr (u, w)))"

section \<open>Shared steps\<close>

definition createWalletForUser ::
    "ms \<Rightarrow> string \<Rightarrow> string \<Rightarrow> string \<Rightarrow> address \<Rightarrow> string option \<Rightarrow> wallets \<Rightarrow> WalletError + WalletRow \<times> wallets" where
  "createWalletForUser now i userId chain address label rows =
     (let r = new_wallet now i userId chain address label (count_wallets userId rows = 0) in
      case insert_wallet r rows of
        Inl e \<Rightarrow> Inl (WalletDbError e)
      | Inr rows' \<Rightarrow> Inr (r, rows'))"

text \<open>\<open>mapWallet(undefined)\<close> throws: the updated row is gone.\<close>

definition promoteToActiveSigner ::
    "ms \<Rightarrow> string \<Rightarrow> string \<Rightarrow> wallets \<Rightarrow> (WalletError + WalletRow) \<times> wallets" where
  "promoteToActiveSigner now userId walletId rows =
     (let rows1 = demote_signers now userId walletId rows in
      case make_signer now walletId userId rows1 of
        Inl e \<Rightarrow> (Inl (WalletDbError e), rows1)
      | Inr rows2 \<Rightarrow>
          (case find_wallet walletId userId rows2 of
             None \<Rightarrow> (Inl WalletInternal, rows2)
           | Some r \<Rightarrow> (Inr r, rows2)))"

section \<open>Connecting\<close>

datatype ConnectAnswer =
    Connected bool bool WalletRow user_id \<comment> \<open>createdUser, createdWallet, wallet, the account of the overview\<close>
  | OwnershipProofRequired

definition connect_promote ::
    "ms \<Rightarrow> string \<Rightarrow> string \<Rightarrow> bool \<Rightarrow> bool \<Rightarrow> WalletsState \<Rightarrow> (WalletError + ConnectAnswer) \<times> WalletsState" where
  "connect_promote now userId walletId createdUser createdWallet st =
     (let (r, rows) = promoteToActiveSigner now userId walletId (us_wallets st) in
      (map_sum id (\<lambda>row. Connected createdUser createdWallet row userId) r, st\<lparr>us_wallets := rows\<rparr>))"

definition connect_create ::
    "ms \<Rightarrow> string \<Rightarrow> string \<Rightarrow> string \<Rightarrow> address \<Rightarrow> string option \<Rightarrow> bool \<Rightarrow> WalletsState
     \<Rightarrow> (WalletError + ConnectAnswer) \<times> WalletsState" where
  "connect_create now i userId chain address label createdUser st =
     (case createWalletForUser now i userId chain address label (us_wallets st) of
        Inl e \<Rightarrow> (Inl e, st)
      | Inr (row, rows) \<Rightarrow> connect_promote now userId (ur_id row) createdUser True (st\<lparr>us_wallets := rows\<rparr>))"

definition connectWallet ::
    "ms \<Rightarrow> string \<Rightarrow> string \<Rightarrow> ConnectParams \<Rightarrow> WalletsState \<Rightarrow> (WalletError + ConnectAnswer) \<times> WalletsState" where
  "connectWallet now newUser i p st =
     (case connect_inputs p of
        Inl e \<Rightarrow> (Inl e, st)
      | Inr (Some session, chain, address, label) \<Rightarrow>
          (case getWalletByAddressForUser session chain address (us_wallets st) of
             Some existing \<Rightarrow> connect_promote now session (ur_id existing) False False st
           | None \<Rightarrow> connect_create now i session chain address label False st)
      | Inr (None, chain, address, label) \<Rightarrow>
          (case findSignerWalletByAddress chain address (us_wallets st) of
             Some signer \<Rightarrow>
               (case consumeUnboundProof now address (ur_user_id signer) RECOVERY_PROOF_MAX_AGE_SECONDS (us_campaign st) of
                  Inl e \<Rightarrow> (Inl (WalletDbError e), st)
                | Inr (None, d) \<Rightarrow> (Inr OwnershipProofRequired, st\<lparr>us_campaign := d\<rparr>)
                | Inr (Some proof, d) \<Rightarrow>
                    connect_promote now (ur_user_id signer) (ur_id signer) False False (st\<lparr>us_campaign := d\<rparr>))
           | None \<Rightarrow> connect_create now i newUser chain address label True st))"

section \<open>Tracking\<close>

record CreateAnswer =
  can_created :: bool
  can_createdUser :: bool
  can_userId :: string
  can_wallet :: WalletRow

definition create_new ::
    "ms \<Rightarrow> string \<Rightarrow> string \<Rightarrow> string \<Rightarrow> address \<Rightarrow> string option \<Rightarrow> bool \<Rightarrow> WalletsState
     \<Rightarrow> (WalletError + CreateAnswer) \<times> WalletsState" where
  "create_new now i userId chain address label createdUser st =
     (case createWalletForUser now i userId chain address label (us_wallets st) of
        Inl e \<Rightarrow> (Inl e, st)
      | Inr (row, rows) \<Rightarrow>
          (Inr \<lparr>can_created = True, can_createdUser = createdUser, can_userId = userId, can_wallet = row\<rparr>,
           st\<lparr>us_wallets := rows\<rparr>))"

definition createWallet ::
    "ms \<Rightarrow> string \<Rightarrow> string \<Rightarrow> ConnectParams \<Rightarrow> WalletsState \<Rightarrow> (WalletError + CreateAnswer) \<times> WalletsState" where
  "createWallet now newUser i p st =
     (case connect_inputs p of
        Inl e \<Rightarrow> (Inl e, st)
      | Inr (None, chain, address, label) \<Rightarrow> create_new now i newUser chain address label True st
      | Inr (Some userId, chain, address, label) \<Rightarrow>
          (case getWalletByAddressForUser userId chain address (us_wallets st) of
             None \<Rightarrow> create_new now i userId chain address label False st
           | Some existing \<Rightarrow>
               (let rows = revive now (ur_id existing) label (us_wallets st) in
                case List.find (\<lambda>r. ur_id r = ur_id existing) rows of
                  None \<Rightarrow> (Inl WalletInternal, st\<lparr>us_wallets := rows\<rparr>)
                | Some row \<Rightarrow>
                    (Inr \<lparr>can_created = False, can_createdUser = False, can_userId = userId, can_wallet = row\<rparr>,
                     st\<lparr>us_wallets := rows\<rparr>))))"

definition getWallets :: "jsval \<Rightarrow> WalletsState \<Rightarrow> WalletError + (string \<times> WalletRow list)" where
  "getWallets userId st = map_sum id (\<lambda>u. (u, list_wallets u (us_wallets st))) (normalizeUserId userId)"

section \<open>Designations\<close>

text \<open>\<open>getWalletOrThrow\<close>, then the endpoint's own part on the caller's wallet.\<close>

definition with_own_wallet ::
    "jsval \<Rightarrow> jsval \<Rightarrow> WalletsState \<Rightarrow> (string \<Rightarrow> string \<Rightarrow> WalletRow \<Rightarrow> (WalletError + 'a) \<times> WalletsState)
     \<Rightarrow> (WalletError + 'a) \<times> WalletsState" where
  "with_own_wallet userId walletId st body =
     (case wallet_inputs userId walletId of
        Inl e \<Rightarrow> (Inl e, st)
      | Inr (u, w) \<Rightarrow>
          (case find_wallet w u (us_wallets st) of
             None \<Rightarrow> (Inl WalletNotFound, st)
           | Some current \<Rightarrow> body u w current))"

definition updated_wallet :: "string \<Rightarrow> string \<Rightarrow> wallets \<Rightarrow> WalletError + WalletRow" where
  "updated_wallet walletId userId rows =
     (case find_wallet walletId userId rows of None \<Rightarrow> Inl WalletInternal | Some r \<Rightarrow> Inr r)"

definition setPrimaryWallet :: "ms \<Rightarrow> jsval \<Rightarrow> jsval \<Rightarrow> WalletsState \<Rightarrow> (WalletError + WalletRow) \<times> WalletsState" where
  "setPrimaryWallet now userId walletId st =
     with_own_wallet userId walletId st (\<lambda>u w current.
       let rows = make_primary now w u (demote_primaries now u (us_wallets st)) in
       (updated_wallet w u rows, st\<lparr>us_wallets := rows\<rparr>))"

definition setActiveSigner :: "ms \<Rightarrow> jsval \<Rightarrow> jsval \<Rightarrow> WalletsState \<Rightarrow> (WalletError + WalletRow) \<times> WalletsState" where
  "setActiveSigner now userId walletId st =
     with_own_wallet userId walletId st (\<lambda>u w current.
       let (r, rows) = promoteToActiveSigner now u w (us_wallets st) in (r, st\<lparr>us_wallets := rows\<rparr>))"

definition updateWalletLabel :: "ms \<Rightarrow> jsval \<Rightarrow> jsval \<Rightarrow> jsval \<Rightarrow> WalletsState \<Rightarrow> (WalletError + WalletRow) \<times> WalletsState" where
  "updateWalletLabel now userId walletId label st =
     (case wallet_inputs userId walletId of
        Inl e \<Rightarrow> (Inl e, st)
      | Inr _ \<Rightarrow>
          (case normalizeLabel label of
             Inl e \<Rightarrow> (Inl e, st)
           | Inr t \<Rightarrow>
               with_own_wallet userId walletId st (\<lambda>u w current.
                 let rows = relabel now w u t (us_wallets st) in (updated_wallet w u rows, st\<lparr>us_wallets := rows\<rparr>))))"

definition setWalletActive :: "ms \<Rightarrow> jsval \<Rightarrow> jsval \<Rightarrow> jsval \<Rightarrow> WalletsState \<Rightarrow> (WalletError + WalletRow) \<times> WalletsState" where
  "setWalletActive now userId walletId isActive st =
     (case wallet_inputs userId walletId of
        Inl e \<Rightarrow> (Inl e, st)
      | Inr _ \<Rightarrow>
          (case isActive of
             JBool active \<Rightarrow>
               with_own_wallet userId walletId st (\<lambda>u w current.
                 let finish = (\<lambda>rows. let rows' = set_active now w u active rows in
                                (updated_wallet w u rows', st\<lparr>us_wallets := rows'\<rparr>)) in
                 if \<not> active \<and> ur_is_primary current then
                   (case other_active w u (us_wallets st) of
                      None \<Rightarrow> (Inl (WalletBadRequest ''isActive''), st)
                    | Some other \<Rightarrow> finish (promote_other now (ur_id other) (us_wallets st)))
                 else finish (us_wallets st))
           | _ \<Rightarrow> (Inl (WalletBadRequest ''isActive''), st)))"

definition deleteWallet :: "ms \<Rightarrow> jsval \<Rightarrow> jsval \<Rightarrow> WalletsState \<Rightarrow> (WalletError + address) \<times> WalletsState" where
  "deleteWallet now userId walletId st =
     with_own_wallet userId walletId st (\<lambda>u w current.
       let finish = (\<lambda>rows. (Inr (ur_address current), st\<lparr>us_wallets := delete_wallet w u rows\<rparr>)) in
       if ur_is_primary current then
         (case other_active w u (us_wallets st) of
            None \<Rightarrow> (Inl (WalletBadRequest ''walletId''), st)
          | Some other \<Rightarrow> finish (promote_other now (ur_id other) (us_wallets st)))
       else finish (us_wallets st))"

section \<open>Refreshing\<close>

text \<open>Up to the start of the child processes, and from their end: the scripts run in between, the balance
  script with success or not.\<close>

definition refresh_begin :: "ms \<Rightarrow> jsval \<Rightarrow> jsval \<Rightarrow> WalletsState \<Rightarrow> (WalletError + string \<times> WalletRow) \<times> WalletsState" where
  "refresh_begin now userId walletId st =
     with_own_wallet userId walletId st (\<lambda>u w current.
       let (admission, l) = tryAcquire REFRESH_COOLDOWN_MS REFRESH_MAX_CONCURRENT now w (us_limiter st) in
       (map_sum WalletTooMany (\<lambda>_. (w, current)) admission, st\<lparr>us_limiter := l\<rparr>))"

definition refresh_end :: "string \<times> WalletRow \<Rightarrow> bool \<Rightarrow> WalletsState \<Rightarrow> (WalletError + WalletRow) \<times> WalletsState" where
  "refresh_end started balances_ok st =
     (if balances_ok then Inr (snd started) else Inl WalletInternal,
      st\<lparr>us_limiter := release (fst started) (us_limiter st)\<rparr>)"

end
