(* ===== verification/Wallets_Invariants.thy ===== *)
theory Wallets_Invariants
  imports Wallets_Service
begin

text \<open>
  The wallet endpoints as steps, and what they keep: every account with wallets has exactly one primary wallet,
  which is active, and at most one signer; an endpoint touches the caller's rows only. Requests run one at a
  time here: the designations are moved by two statements outside a transaction.
\<close>

section \<open>Steps\<close>

inductive wallet_step :: "WalletsState \<Rightarrow> WalletsState \<Rightarrow> bool" where
  connect: "wallet_step st (snd (connectWallet now newUser i p st))"
| track: "wallet_step st (snd (createWallet now newUser i p st))"
| primary: "wallet_step st (snd (setPrimaryWallet now u w st))"
| signer: "wallet_step st (snd (setActiveSigner now u w st))"
| label: "wallet_step st (snd (updateWalletLabel now u w t st))"
| active: "wallet_step st (snd (setWalletActive now u w b st))"
| delete: "wallet_step st (snd (deleteWallet now u w st))"
| refresh: "wallet_step st (snd (refresh_begin now u w st))"
| refreshed: "wallet_step st (snd (refresh_end started ok st))"
| campaign: "wallet_step st (st\<lparr>us_campaign := d\<rparr>)"

inductive wallets_reachable :: "WalletsState \<Rightarrow> bool" where
  start: "wallets_reachable \<lparr>us_wallets = [], us_campaign = d, us_limiter = new_limiter\<rparr>"
| step: "\<lbrakk>wallets_reachable st; wallet_step st st'\<rbrakk> \<Longrightarrow> wallets_reachable st'"

section \<open>The table\<close>

definition one_each :: "(WalletRow \<Rightarrow> bool) \<Rightarrow> wallets \<Rightarrow> bool" where
  "one_each P rows \<longleftrightarrow>
     (\<forall>x \<in> set rows. \<forall>y \<in> set rows. ur_user_id x = ur_user_id y \<and> P x \<and> P y \<longrightarrow> ur_id x = ur_id y)"

definition has_primary :: "wallets \<Rightarrow> bool" where
  "has_primary rows \<longleftrightarrow>
     (\<forall>x \<in> set rows. \<exists>p \<in> set rows. ur_user_id p = ur_user_id x \<and> ur_is_primary p \<and> ur_is_active p)"

definition wallets_ok :: "wallets \<Rightarrow> bool" where
  "wallets_ok rows \<longleftrightarrow> unique_on wallet_id_key rows \<and> unique_on wallet_address_key rows
     \<and> one_each ur_is_primary rows \<and> one_each ur_is_active_signer rows \<and> has_primary rows"

lemma ids_inj: "unique_on wallet_id_key rows \<Longrightarrow> x \<in> set rows \<Longrightarrow> y \<in> set rows \<Longrightarrow> ur_id x = ur_id y \<Longrightarrow> x = y"
  by (erule unique_onD [where k = "ur_id x"]) (simp_all add: wallet_id_key_def)

text \<open>Updates of designations and labels keep the identity of every row.\<close>

definition same_wallet :: "WalletRow \<Rightarrow> WalletRow \<Rightarrow> bool" where
  "same_wallet r r' \<longleftrightarrow> ur_id r' = ur_id r \<and> ur_user_id r' = ur_user_id r \<and> ur_chain r' = ur_chain r \<and> ur_address r' = ur_address r"

definition keeps_wallets :: "(WalletRow \<Rightarrow> WalletRow) \<Rightarrow> bool" where
  "keeps_wallets g \<longleftrightarrow> (\<forall>r. same_wallet r (g r))"

definition altered :: "(WalletRow \<Rightarrow> bool) \<Rightarrow> (WalletRow \<Rightarrow> WalletRow) \<Rightarrow> WalletRow \<Rightarrow> WalletRow" where
  "altered P f r = (if P r then f r else r)"

lemma update_where_map: "update_where P f rows = map (altered P f) rows"
  by (simp add: update_where_def altered_def [abs_def])

lemma keeps_wallets_altered: "(\<And>r. same_wallet r (f r)) \<Longrightarrow> keeps_wallets (altered P f)"
  by (simp add: keeps_wallets_def altered_def same_wallet_def)

lemma keeps_walletsD:
  "keeps_wallets g \<Longrightarrow> ur_id (g r) = ur_id r \<and> ur_user_id (g r) = ur_user_id r \<and> ur_chain (g r) = ur_chain r \<and> ur_address (g r) = ur_address r"
  by (simp add: keeps_wallets_def same_wallet_def)

lemma keys_map:
  assumes "keeps_wallets g"
  shows "unique_on wallet_id_key rows \<Longrightarrow> unique_on wallet_id_key (map g rows)"
    and "unique_on wallet_address_key rows \<Longrightarrow> unique_on wallet_address_key (map g rows)"
  by (erule unique_on_map, simp add: wallet_id_key_def wallet_address_key_def keeps_walletsD [OF assms])+

lemma one_each_map:
  assumes "keeps_wallets g"
    "\<And>x y. x \<in> set rows \<Longrightarrow> y \<in> set rows \<Longrightarrow> ur_user_id x = ur_user_id y \<Longrightarrow> Q (g x) \<Longrightarrow> Q (g y) \<Longrightarrow> ur_id x = ur_id y"
  shows "one_each Q (map g rows)"
  unfolding one_each_def set_map
proof (intro ballI impI)
  fix x' y' assume "x' \<in> g ` set rows" "y' \<in> g ` set rows" and q: "ur_user_id x' = ur_user_id y' \<and> Q x' \<and> Q y'"
  then obtain x y where xy: "x \<in> set rows" "x' = g x" "y \<in> set rows" "y' = g y" by blast
  from q xy(2,4) keeps_walletsD [OF assms(1)] have "ur_user_id x = ur_user_id y" "Q (g x)" "Q (g y)" by simp_all
  from assms(2) [OF xy(1,3) this] show "ur_id x' = ur_id y'" using xy(2,4) keeps_walletsD [OF assms(1)] by simp
qed

lemma has_primary_map:
  assumes "keeps_wallets g"
    "\<And>x. x \<in> set rows \<Longrightarrow> \<exists>p \<in> set rows. ur_user_id p = ur_user_id x \<and> ur_is_primary (g p) \<and> ur_is_active (g p)"
  shows "has_primary (map g rows)"
  unfolding has_primary_def set_map
proof (rule ballI)
  fix x' assume "x' \<in> g ` set rows"
  then obtain x where x: "x \<in> set rows" "x' = g x" by blast
  from assms(2) [OF x(1)] obtain p where "p \<in> set rows" "ur_user_id p = ur_user_id x" "ur_is_primary (g p)" "ur_is_active (g p)"
    by blast
  then show "\<exists>p \<in> g ` set rows. ur_user_id p = ur_user_id x' \<and> ur_is_primary p \<and> ur_is_active p"
    using x(2) keeps_walletsD [OF assms(1)] by (intro bexI [of _ "g p"]) simp_all
qed

lemma ok_map:
  assumes ok: "wallets_ok rows" and g: "keeps_wallets g"
    and p: "\<And>x y. x \<in> set rows \<Longrightarrow> y \<in> set rows \<Longrightarrow> ur_user_id x = ur_user_id y \<Longrightarrow> ur_is_primary (g x) \<Longrightarrow> ur_is_primary (g y)
      \<Longrightarrow> ur_id x = ur_id y"
    and s: "\<And>x y. x \<in> set rows \<Longrightarrow> y \<in> set rows \<Longrightarrow> ur_user_id x = ur_user_id y \<Longrightarrow> ur_is_active_signer (g x)
      \<Longrightarrow> ur_is_active_signer (g y) \<Longrightarrow> ur_id x = ur_id y"
    and h: "\<And>x. x \<in> set rows \<Longrightarrow> \<exists>p \<in> set rows. ur_user_id p = ur_user_id x \<and> ur_is_primary (g p) \<and> ur_is_active (g p)"
  shows "wallets_ok (map g rows)"
  unfolding wallets_ok_def
proof (intro conjI)
  show "unique_on wallet_id_key (map g rows)" "unique_on wallet_address_key (map g rows)"
    using ok by (simp_all add: wallets_ok_def keys_map [OF g])
qed (rule one_each_map [OF g p] one_each_map [OF g s] has_primary_map [OF g h]; assumption)+

lemma okD:
  assumes ok: "wallets_ok rows"
  shows "x \<in> set rows \<Longrightarrow> y \<in> set rows \<Longrightarrow> ur_user_id x = ur_user_id y \<Longrightarrow> ur_is_primary x \<Longrightarrow> ur_is_primary y \<Longrightarrow> ur_id x = ur_id y"
    and "x \<in> set rows \<Longrightarrow> y \<in> set rows \<Longrightarrow> ur_user_id x = ur_user_id y \<Longrightarrow> ur_is_active_signer x \<Longrightarrow> ur_is_active_signer y
      \<Longrightarrow> ur_id x = ur_id y"
    and "x \<in> set rows \<Longrightarrow> \<exists>p \<in> set rows. ur_user_id p = ur_user_id x \<and> ur_is_primary p \<and> ur_is_active p"
    and "x \<in> set rows \<Longrightarrow> y \<in> set rows \<Longrightarrow> ur_id x = ur_id y \<Longrightarrow> x = y"
proof -
  show "x \<in> set rows \<Longrightarrow> y \<in> set rows \<Longrightarrow> ur_user_id x = ur_user_id y \<Longrightarrow> ur_is_primary x \<Longrightarrow> ur_is_primary y \<Longrightarrow> ur_id x = ur_id y"
    and "x \<in> set rows \<Longrightarrow> y \<in> set rows \<Longrightarrow> ur_user_id x = ur_user_id y \<Longrightarrow> ur_is_active_signer x \<Longrightarrow> ur_is_active_signer y
      \<Longrightarrow> ur_id x = ur_id y"
    and "x \<in> set rows \<Longrightarrow> \<exists>p \<in> set rows. ur_user_id p = ur_user_id x \<and> ur_is_primary p \<and> ur_is_active p"
    using ok unfolding wallets_ok_def one_each_def has_primary_def by blast+
  show "x \<in> set rows \<Longrightarrow> y \<in> set rows \<Longrightarrow> ur_id x = ur_id y \<Longrightarrow> x = y"
    using ok by (intro ids_inj [of rows]) (simp_all add: wallets_ok_def)
qed

lemma find_wallet_mem: "find_wallet w u rows = Some r \<Longrightarrow> r \<in> set rows \<and> own_wallet w u r"
  by (auto simp: find_wallet_def find_Some_iff)

lemma other_active_mem:
  assumes "other_active w u rows = Some r"
  shows "r \<in> set rows \<and> ur_user_id r = uuid_cast u \<and> ur_id r \<noteq> uuid_cast w \<and> ur_is_active r"
proof -
  obtain rest where "sort_key ur_created_at
      (filter (\<lambda>r. ur_user_id r = uuid_cast u \<and> ur_id r \<noteq> uuid_cast w \<and> ur_is_active r) rows) = r # rest"
    using assms by (auto simp: other_active_def split: list.splits)
  then have "r \<in> set (filter (\<lambda>r. ur_user_id r = uuid_cast u \<and> ur_id r \<noteq> uuid_cast w \<and> ur_is_active r) rows)"
    by (metis list.set_intros(1) set_sort)
  then show ?thesis by simp
qed

section \<open>Each write\<close>

text \<open>An update that makes nobody primary or signer and pauses no primary.\<close>

lemma ok_mild:
  assumes ok: "wallets_ok rows" and keep: "\<And>r. same_wallet r (f r)"
    "\<And>r. ur_is_primary (f r) = ur_is_primary r" "\<And>r. ur_is_active_signer (f r) \<Longrightarrow> ur_is_active_signer r"
    "\<And>r. ur_is_active r \<Longrightarrow> ur_is_active (f r)"
  shows "wallets_ok (update_where P f rows)"
  unfolding update_where_map
proof (rule ok_map [OF ok keeps_wallets_altered [OF keep(1)]])
  fix x assume "x \<in> set rows"
  from okD(3) [OF ok this] show "\<exists>p \<in> set rows. ur_user_id p = ur_user_id x \<and> ur_is_primary (altered P f p) \<and> ur_is_active (altered P f p)"
    by (auto simp: altered_def keep)
next
  fix x y assume "x \<in> set rows" "y \<in> set rows" "ur_user_id x = ur_user_id y"
      "ur_is_primary (altered P f x)" "ur_is_primary (altered P f y)"
    then show "ur_id x = ur_id y" using okD(1) [OF ok, of x y] keep by (simp add: altered_def split: if_splits)
next
    fix x y assume "x \<in> set rows" "y \<in> set rows" "ur_user_id x = ur_user_id y"
      "ur_is_active_signer (altered P f x)" "ur_is_active_signer (altered P f y)"
    then show "ur_id x = ur_id y" using okD(2) [OF ok, of x y] keep by (simp add: altered_def split: if_splits)
qed

lemma ok_relabel: "wallets_ok rows \<Longrightarrow> wallets_ok (relabel now w u t rows)"
  unfolding relabel_def by (rule ok_mild) (simp_all add: same_wallet_def)

lemma ok_revive: "wallets_ok rows \<Longrightarrow> wallets_ok (revive now i t rows)"
  unfolding revive_def by (rule ok_mild) (simp_all add: same_wallet_def)

lemma ok_demote_signers: "wallets_ok rows \<Longrightarrow> wallets_ok (demote_signers now u w rows)"
  unfolding demote_signers_def by (rule ok_mild) (simp_all add: same_wallet_def)

text \<open>Accepted by the index, a promotion leaves one signer.\<close>

lemma ok_make_signer:
  assumes ok: "wallets_ok rows" and run: "make_signer now w u rows = Inr rows'"
  shows "wallets_ok rows'"
proof -
  let ?f = "\<lambda>r. r\<lparr>ur_is_active_signer := True, ur_is_active := True, ur_updated_at := now\<rparr>"
  have rows': "rows' = map (altered (own_wallet w u) ?f) rows"
      and single: "\<And>x y. x \<in> set rows \<Longrightarrow> own_wallet w u x \<Longrightarrow> y \<in> set rows \<Longrightarrow> ur_user_id y = uuid_cast u \<Longrightarrow>
          ur_is_active_signer y \<Longrightarrow> ur_id y = uuid_cast w"
    using run by (auto simp: make_signer_def list_ex_iff update_where_map split: if_splits)
  show ?thesis unfolding rows'
  proof (rule ok_map [OF ok keeps_wallets_altered])
    fix x y assume "x \<in> set rows" "y \<in> set rows" "ur_user_id x = ur_user_id y"
      "ur_is_active_signer (altered (own_wallet w u) ?f x)" "ur_is_active_signer (altered (own_wallet w u) ?f y)"
    then show "ur_id x = ur_id y"
      using single [of x y] single [of y x] okD(2) [OF ok, of x y] by (auto simp: altered_def own_wallet_def split: if_splits)
  next
    fix x assume "x \<in> set rows"
    from okD(3) [OF ok this] show "\<exists>p \<in> set rows. ur_user_id p = ur_user_id x
        \<and> ur_is_primary (altered (own_wallet w u) ?f p) \<and> ur_is_active (altered (own_wallet w u) ?f p)"
      by (auto simp: altered_def)
  next
    fix x y assume "x \<in> set rows" "y \<in> set rows" "ur_user_id x = ur_user_id y"
      "ur_is_primary (altered (own_wallet w u) ?f x)" "ur_is_primary (altered (own_wallet w u) ?f y)"
    then show "ur_id x = ur_id y" using okD(1) [OF ok, of x y]  by (simp add: altered_def split: if_splits)
  qed (simp add: same_wallet_def)
qed

lemma ok_set_primary:
  assumes ok: "wallets_ok rows" and r: "r \<in> set rows" "own_wallet w u r"
  shows "wallets_ok (make_primary now w u (demote_primaries now u rows))"
proof -
  let ?g1 = "altered (\<lambda>r. ur_user_id r = uuid_cast u \<and> ur_is_primary r) (\<lambda>r. r\<lparr>ur_is_primary := False, ur_updated_at := now\<rparr>)"
  let ?g2 = "altered (own_wallet w u) (\<lambda>r. r\<lparr>ur_is_primary := True, ur_is_active := True, ur_updated_at := now\<rparr>)"
  define g where "g = ?g2 \<circ> ?g1"
  have g: "same_wallet x (g x)"
      "ur_is_primary (g x) \<longleftrightarrow> own_wallet w u x \<or> ur_user_id x \<noteq> uuid_cast u \<and> ur_is_primary x"
      "ur_is_active (g x) \<longleftrightarrow> own_wallet w u x \<or> ur_is_active x" "ur_is_active_signer (g x) = ur_is_active_signer x" for x
    by (auto simp: g_def altered_def own_wallet_def same_wallet_def)
  have "wallets_ok (map g rows)"
  proof (rule ok_map [OF ok])
    show "keeps_wallets g" by (simp add: keeps_wallets_def g(1))
  next
    fix x assume x: "x \<in> set rows"
    show "\<exists>p \<in> set rows. ur_user_id p = ur_user_id x \<and> ur_is_primary (g p) \<and> ur_is_active (g p)"
    proof (cases "ur_user_id x = uuid_cast u")
      case True
      with r show ?thesis by (intro bexI [of _ r]) (simp_all add: g own_wallet_def)
    next
      case False
      with okD(3) [OF ok x] show ?thesis by (auto simp: g)
    qed
  next
    fix x y assume "x \<in> set rows" "y \<in> set rows" "ur_user_id x = ur_user_id y" "ur_is_primary (g x)" "ur_is_primary (g y)"
    then show "ur_id x = ur_id y" using okD(1) [OF ok, of x y] by (auto simp: g own_wallet_def)
  next
    fix x y assume "x \<in> set rows" "y \<in> set rows" "ur_user_id x = ur_user_id y" "ur_is_active_signer (g x)" "ur_is_active_signer (g y)"
    then show "ur_id x = ur_id y" using okD(2) [OF ok, of x y] by (simp add: g)
  qed
  then show ?thesis by (simp add: make_primary_def demote_primaries_def update_where_map g_def)
qed

text \<open>Pausing: a wallet that is not primary, or after another active wallet of the account was made primary.\<close>

lemma ok_set_active:
  assumes ok: "wallets_ok rows" and r: "r \<in> set rows" "own_wallet w u r" and np: "active \<or> \<not> ur_is_primary r"
  shows "wallets_ok (set_active now w u active rows)"
proof -
  have own: "x = r" if "x \<in> set rows" "own_wallet w u x" for x
    using okD(4) [OF ok that(1) r(1)] that(2) r(2) by (simp add: own_wallet_def)
  let ?f = "(\<lambda>r. r\<lparr>ur_is_active := active, ur_is_primary := (if \<not> active then False else ur_is_primary r), ur_updated_at := now\<rparr>)"
  show ?thesis unfolding set_active_def update_where_map
  proof (rule ok_map [OF ok keeps_wallets_altered])
    fix x assume "x \<in> set rows"
    from okD(3) [OF ok this] obtain p where p: "p \<in> set rows" "ur_user_id p = ur_user_id x" "ur_is_primary p" "ur_is_active p" by auto
    with own [OF p(1)] np show "\<exists>p \<in> set rows. ur_user_id p = ur_user_id x
        \<and> ur_is_primary (altered (own_wallet w u) ?f p) \<and> ur_is_active (altered (own_wallet w u) ?f p)"
      by (intro bexI [of _ p]) (auto simp: altered_def)
  next
    fix x y assume "x \<in> set rows" "y \<in> set rows" "ur_user_id x = ur_user_id y"
      "ur_is_primary (altered (own_wallet w u) ?f x)" "ur_is_primary (altered (own_wallet w u) ?f y)"
    then show "ur_id x = ur_id y" using okD(1) [OF ok, of x y]  by (simp add: altered_def split: if_splits)
  next
    fix x y assume "x \<in> set rows" "y \<in> set rows" "ur_user_id x = ur_user_id y"
      "ur_is_active_signer (altered (own_wallet w u) ?f x)" "ur_is_active_signer (altered (own_wallet w u) ?f y)"
    then show "ur_id x = ur_id y" using okD(2) [OF ok, of x y]  by (simp add: altered_def split: if_splits)
  qed (simp add: same_wallet_def)
qed

lemma ok_delete:
  assumes ok: "wallets_ok rows" and np: "\<And>x. x \<in> set rows \<Longrightarrow> own_wallet w u x \<Longrightarrow> \<not> ur_is_primary x"
  shows "wallets_ok (delete_wallet w u rows)"
proof -
  let ?rows = "delete_wallet w u rows"
  have "has_primary ?rows" unfolding has_primary_def
  proof (rule ballI)
    fix x assume "x \<in> set ?rows"
    then have "x \<in> set rows" by (simp add: delete_wallet_def)
    from okD(3) [OF ok this] obtain p where "p \<in> set rows" "ur_user_id p = ur_user_id x" "ur_is_primary p" "ur_is_active p" by blast
    with np show "\<exists>p \<in> set ?rows. ur_user_id p = ur_user_id x \<and> ur_is_primary p \<and> ur_is_active p"
      by (intro bexI [of _ p]) (auto simp: delete_wallet_def)
  qed
  moreover have "one_each Q ?rows" if "one_each Q rows" for Q
    using that by (simp add: one_each_def delete_wallet_def)
  ultimately show ?thesis using ok by (simp add: wallets_ok_def delete_wallet_def unique_on_filter)
qed

lemma delete_paused: "delete_wallet w u (set_active now w u active rows) = delete_wallet w u rows"
  unfolding delete_wallet_def set_active_def update_where_def
  by (induction rows) (simp_all add: own_wallet_def)

lemma paused_not_primary: "x \<in> set (set_active now w u False rows) \<Longrightarrow> own_wallet w u x \<Longrightarrow> \<not> ur_is_primary x"
  by (auto simp: set_active_def update_where_def own_wallet_def split: if_splits)

text \<open>The primary wallet is paused or deleted after another active wallet of the account took over.\<close>

lemma ok_hand_over:
  assumes ok: "wallets_ok rows" and r: "r \<in> set rows" "own_wallet w u r" "ur_is_primary r"
    and other: "other_active w u rows = Some o1"
  shows "wallets_ok (set_active now w u False (promote_other now (ur_id o1) rows))"
    and "wallets_ok (delete_wallet w u (promote_other now (ur_id o1) rows))"
proof -
  note o1 = other_active_mem [OF other]
  have own: "x = r" if "x \<in> set rows" "own_wallet w u x" for x
    using okD(4) [OF ok that(1) r(1)] that(2) r(2) by (simp add: own_wallet_def)
  have oid: "x = o1" if "x \<in> set rows" "ur_id x = ur_id o1" for x
    using okD(4) [OF ok that(1)] o1 that(2) by blast
  let ?g1 = "altered (\<lambda>x. ur_id x = ur_id o1) (\<lambda>r. r\<lparr>ur_is_primary := True, ur_updated_at := now\<rparr>)"
  let ?g2 = "altered (own_wallet w u) (\<lambda>r. r\<lparr>ur_is_active := False, ur_is_primary := (if \<not> False then False else ur_is_primary r), ur_updated_at := now\<rparr>)"
  define g where "g = ?g2 \<circ> ?g1"
  have no: "\<not> own_wallet w u o1" using o1 by (simp add: own_wallet_def)
  have pr: "ur_is_primary (g x) \<longleftrightarrow> x = o1 \<or> x \<noteq> r \<and> ur_is_primary x" if "x \<in> set rows" for x
    using own [OF that] oid [OF that] r no by (auto simp: g_def altered_def own_wallet_def)
  have g: "same_wallet x (g x)" "ur_is_active_signer (g x) = ur_is_active_signer x"
      "\<not> own_wallet w u x \<Longrightarrow> ur_is_active (g x) = ur_is_active x" for x
    by (auto simp: g_def altered_def own_wallet_def same_wallet_def)
  have u: "ur_user_id r = uuid_cast u" using r by (simp add: own_wallet_def)
  have okg: "wallets_ok (map g rows)"
  proof (rule ok_map [OF ok])
    show "keeps_wallets g" by (simp add: keeps_wallets_def g(1))
  next
    fix x assume x: "x \<in> set rows"
    show "\<exists>p \<in> set rows. ur_user_id p = ur_user_id x \<and> ur_is_primary (g p) \<and> ur_is_active (g p)"
    proof (cases "ur_user_id x = uuid_cast u")
      case True
      with o1 no pr show ?thesis by (intro bexI [of _ o1]) (auto simp: g)
    next
      case False
      from okD(3) [OF ok x] obtain p where p: "p \<in> set rows" "ur_user_id p = ur_user_id x" "ur_is_primary p" "ur_is_active p" by auto
      with False u have "\<not> own_wallet w u p" "p \<noteq> r" by (auto simp: own_wallet_def)
      with p pr show ?thesis by (intro bexI [of _ p]) (auto simp: g)
    qed
  next
    fix x y assume "x \<in> set rows" "y \<in> set rows" "ur_user_id x = ur_user_id y" "ur_is_primary (g x)" "ur_is_primary (g y)"
    then show "ur_id x = ur_id y"
      using okD(1) [OF ok, of x y] okD(1) [OF ok _ r(1) _ _ r(3), of x] okD(1) [OF ok _ r(1) _ _ r(3), of y]
        okD(4) [OF ok _ r(1)] o1 u by (auto simp: pr)
  next
    fix x y assume "x \<in> set rows" "y \<in> set rows" "ur_user_id x = ur_user_id y" "ur_is_active_signer (g x)" "ur_is_active_signer (g y)"
    then show "ur_id x = ur_id y" using okD(2) [OF ok, of x y] by (simp add: g)
  qed
  then show paused: "wallets_ok (set_active now w u False (promote_other now (ur_id o1) rows))"
    by (simp add: set_active_def promote_other_def update_where_map g_def)
  have "wallets_ok (delete_wallet w u (set_active now w u False (promote_other now (ur_id o1) rows)))"
    by (rule ok_delete [OF paused]) (rule paused_not_primary)
  then show "wallets_ok (delete_wallet w u (promote_other now (ur_id o1) rows))" by (simp only: delete_paused)
qed

lemma ok_insert:
  assumes ok: "wallets_ok rows" and run: "createWalletForUser now i u chain a label rows = Inr (r, rows')"
  shows "wallets_ok rows'"
proof -
  let ?first = "count_wallets u rows = 0"
  have r: "r = new_wallet now i u chain a label ?first" and ins: "insert_wallet r rows = Inr rows'"
    using run by (auto simp: createWalletForUser_def Let_def split: sum.splits)
  note rows' = wallet_ids.ins_ok [OF ins]
  have none: "?first \<longleftrightarrow> (\<forall>x \<in> set rows. ur_user_id x \<noteq> uuid_cast u)"
    by (auto simp: count_wallets_def filter_empty_conv)
  have new: "ur_user_id r = uuid_cast u" "ur_is_primary r \<longleftrightarrow> ?first" "ur_is_active r" "\<not> ur_is_active_signer r"
    by (simp_all add: r new_wallet_def)
  have "\<exists>p \<in> set rows'. ur_user_id p = ur_user_id r \<and> ur_is_primary p \<and> ur_is_active p"
  proof (cases ?first)
    case True
    with new show ?thesis by (intro bexI [of _ r]) (simp_all add: rows')
  next
    case False
    then obtain y where y: "y \<in> set rows" "ur_user_id y = uuid_cast u" using none by metis
    from okD(3) [OF ok y(1)] show ?thesis unfolding y(2) new(1) rows' by auto
  qed
  moreover have "\<exists>p \<in> set rows'. ur_user_id p = ur_user_id x \<and> ur_is_primary p \<and> ur_is_active p" if "x \<in> set rows" for x
    using okD(3) [OF ok that] unfolding rows' by auto
  ultimately have "has_primary rows'" unfolding has_primary_def by (simp add: rows')
  moreover have "one_each Q rows'" if q: "one_each Q rows" and n: "\<And>x. x \<in> set rows \<Longrightarrow> ur_user_id x = uuid_cast u \<Longrightarrow> \<not> Q r" for Q
    unfolding one_each_def
  proof (intro ballI impI)
    fix x y assume "x \<in> set rows'" "y \<in> set rows'" and xy: "ur_user_id x = ur_user_id y \<and> Q x \<and> Q y"
    then have "x \<in> set rows \<or> x = r" "y \<in> set rows \<or> y = r" by (auto simp: rows')
    then show "ur_id x = ur_id y" using q n [of x] n [of y] xy new(1) unfolding one_each_def by metis
  qed
  note this [of ur_is_primary] this [of ur_is_active_signer]
  moreover have "unique_on wallet_id_key rows'" "unique_on wallet_address_key rows'"
    using ok wallet_ids.keeps_unique [OF _ ins] wallet_addresses.keeps_unique [OF _ ins] by (simp_all add: wallets_ok_def)
  ultimately show ?thesis using ok none new(2,4) unfolding wallets_ok_def by metis
qed

section \<open>Each endpoint\<close>

lemma ok_promote: "wallets_ok rows \<Longrightarrow> wallets_ok (snd (promoteToActiveSigner now u w rows))"
  by (auto simp: promoteToActiveSigner_def Let_def ok_demote_signers split: sum.splits option.splits
      intro: ok_make_signer [OF ok_demote_signers])

lemma ok_connect_promote: "wallets_ok (us_wallets st) \<Longrightarrow> wallets_ok (us_wallets (snd (connect_promote now u w b c st)))"
  using ok_promote [of "us_wallets st" now u w]
  by (cases "promoteToActiveSigner now u w (us_wallets st)") (simp add: connect_promote_def)

lemma ok_connect_create: "wallets_ok (us_wallets st) \<Longrightarrow> wallets_ok (us_wallets (snd (connect_create now i u c a l b st)))"
  by (auto simp: connect_create_def split: sum.splits intro!: ok_connect_promote dest: ok_insert)

lemma ok_connect: "wallets_ok (us_wallets st) \<Longrightarrow> wallets_ok (us_wallets (snd (connectWallet now n i p st)))"
  by (auto simp: connectWallet_def ok_connect_promote ok_connect_create split: sum.splits option.splits prod.splits)

lemma ok_create_new: "wallets_ok (us_wallets st) \<Longrightarrow> wallets_ok (us_wallets (snd (create_new now i u c a l b st)))"
  by (auto simp: create_new_def split: sum.splits dest: ok_insert)

lemma ok_create: "wallets_ok (us_wallets st) \<Longrightarrow> wallets_ok (us_wallets (snd (createWallet now n i p st)))"
  by (auto simp: createWallet_def ok_create_new ok_revive Let_def split: sum.splits option.splits prod.splits)

lemma with_own_wallet_cases:
  assumes "\<And>u' w' r. r \<in> set (us_wallets st) \<Longrightarrow> own_wallet w' u' r \<Longrightarrow> find_wallet w' u' (us_wallets st) = Some r \<Longrightarrow> Q (snd (body u' w' r))"
    and "Q st"
  shows "Q (snd (with_own_wallet u w st body))"
  using assms by (auto simp: with_own_wallet_def split: sum.splits option.splits prod.splits dest: find_wallet_mem)

lemma ok_primary: "wallets_ok (us_wallets st) \<Longrightarrow> wallets_ok (us_wallets (snd (setPrimaryWallet now u w st)))"
  unfolding setPrimaryWallet_def Let_def by (rule with_own_wallet_cases) (simp_all add: ok_set_primary)

lemma ok_signer: "wallets_ok (us_wallets st) \<Longrightarrow> wallets_ok (us_wallets (snd (setActiveSigner now u w st)))"
  unfolding setActiveSigner_def
proof (rule with_own_wallet_cases)
  fix u' w' r assume ok: "wallets_ok (us_wallets st)"
  show "wallets_ok (us_wallets (snd (let (r, rows) = promoteToActiveSigner now u' w' (us_wallets st) in (r, st\<lparr>us_wallets := rows\<rparr>))))"
    using ok_promote [OF ok, of now u' w'] by (cases "promoteToActiveSigner now u' w' (us_wallets st)") simp
qed

lemma ok_label: "wallets_ok (us_wallets st) \<Longrightarrow> wallets_ok (us_wallets (snd (updateWalletLabel now u w t st)))"
  by (cases "wallet_inputs u w"; cases "normalizeLabel t")
     (simp_all add: updateWalletLabel_def Let_def, rule with_own_wallet_cases, simp_all add: ok_relabel)

lemma ok_active:
  assumes ok: "wallets_ok (us_wallets st)"
  shows "wallets_ok (us_wallets (snd (setWalletActive now u w b st)))"
proof (cases "\<exists>e. wallet_inputs u w = Inl e \<or> (\<nexists>active. b = JBool active)")
  case True
  with ok show ?thesis by (auto simp: setWalletActive_def split: sum.splits jsval.splits)
next
  case False
  then obtain x active where x: "wallet_inputs u w = Inr x" and b: "b = JBool active" by (cases "wallet_inputs u w") auto
  show ?thesis unfolding setWalletActive_def x b sum.case jsval.case
  proof (rule with_own_wallet_cases [where Q = "\<lambda>st. wallets_ok (us_wallets st)"])
    fix u' w' r assume r: "r \<in> set (us_wallets st)" "own_wallet w' u' r"
    show "wallets_ok (us_wallets (snd (let finish = \<lambda>rows. let rows' = set_active now w' u' active rows in
          (updated_wallet w' u' rows', st\<lparr>us_wallets := rows'\<rparr>) in
        if \<not> active \<and> ur_is_primary r then case other_active w' u' (us_wallets st) of
            None \<Rightarrow> (Inl (WalletBadRequest ''isActive''), st)
          | Some other \<Rightarrow> finish (promote_other now (ur_id other) (us_wallets st))
        else finish (us_wallets st))))"
    proof (cases "\<not> active \<and> ur_is_primary r")
      case True
      with ok ok_hand_over(1) [OF ok r] show ?thesis by (simp add: Let_def split: option.split)
    next
      case False
      with ok_set_active [OF ok r, of active now] show ?thesis by (auto simp: Let_def)
    qed
  qed (rule ok)
qed

lemma ok_delete_endpoint: "wallets_ok (us_wallets st) \<Longrightarrow> wallets_ok (us_wallets (snd (deleteWallet now u w st)))"
  unfolding deleteWallet_def
proof (rule with_own_wallet_cases)
  fix u' w' r assume ok: "wallets_ok (us_wallets st)" and r: "r \<in> set (us_wallets st)" "own_wallet w' u' r"
  have "\<not> ur_is_primary r \<Longrightarrow> wallets_ok (delete_wallet w' u' (us_wallets st))"
    using okD(4) [OF ok _ r(1)] r(2) by (intro ok_delete [OF ok]) (metis own_wallet_def)
  with ok r show "wallets_ok (us_wallets (snd (let finish = \<lambda>rows. (Inr (ur_address r), st\<lparr>us_wallets := delete_wallet w' u' rows\<rparr>) in
      if ur_is_primary r then case other_active w' u' (us_wallets st) of
          None \<Rightarrow> (Inl (WalletBadRequest ''walletId''), st)
        | Some other \<Rightarrow> finish (promote_other now (ur_id other) (us_wallets st))
      else finish (us_wallets st))))"
    by (auto simp: Let_def ok_hand_over split: option.splits)
qed

lemma refresh_wallets: "us_wallets (snd (refresh_begin now u w st)) = us_wallets st" "us_wallets (snd (refresh_end s b st)) = us_wallets st"
proof -
  show "us_wallets (snd (refresh_begin now u w st)) = us_wallets st"
    unfolding refresh_begin_def by (rule with_own_wallet_cases) (auto simp: Let_def split: prod.splits)
qed (simp add: refresh_end_def)

lemma wallets_ok_step: "wallet_step st st' \<Longrightarrow> wallets_ok (us_wallets st) \<Longrightarrow> wallets_ok (us_wallets st')"
  by (induction rule: wallet_step.induct)
     (simp_all add: ok_connect ok_create ok_primary ok_signer ok_label ok_active ok_delete_endpoint refresh_wallets)

lemma wallets_ok_reachable: "wallets_reachable st \<Longrightarrow> wallets_ok (us_wallets st)"
proof (induction rule: wallets_reachable.induct)
  case (step st st')
  then show ?case by (blast intro: wallets_ok_step)
qed (simp add: wallets_ok_def one_each_def has_primary_def)

end
