(* ===== verification/Wallets_Example.thy ===== *)
theory Wallets_Example
  imports Wallets_Invariants Campaign_Steps
begin

text \<open>
  A concrete run: an owner connects an address and gets an account, a stranger with a session of its own connects
  the same address, and the owner, having lost the session, recovers with a proof of ownership.
\<close>

definition vx_a :: address where
  "vx_a = CHR ''G'' # replicate 55 (CHR ''A'')"

definition vx_owner :: string where
  "vx_owner = ''11111111-1111-4111-8111-111111111111''"

definition vx_stranger :: string where
  "vx_stranger = ''22222222-2222-4222-8222-222222222222''"

definition vx_w1 :: string where
  "vx_w1 = ''aaaaaaaa-aaaa-4aaa-8aaa-aaaaaaaaaaaa''"

definition vx_w2 :: string where
  "vx_w2 = ''bbbbbbbb-bbbb-4bbb-8bbb-bbbbbbbbbbbb''"

definition vx_proof :: ProofRow where
  "vx_proof = \<lparr>pf_id = ''p1'', pf_address = vx_a, pf_user_id = None, pf_provider = None, pf_nonce = ''n1'',
     pf_signature_variant = Sep53, pf_verified_at = 2500, pf_consumed_at = None\<rparr>"

definition vx_none :: ConnectParams where
  "vx_none = \<lparr>pcon_userId = JUndefined, pcon_chain = JUndefined, pcon_address = JString vx_a, pcon_label = JNull\<rparr>"

definition vx_session :: ConnectParams where
  "vx_session = \<lparr>pcon_userId = JString vx_stranger, pcon_chain = JUndefined, pcon_address = JString vx_a, pcon_label = JNull\<rparr>"

definition vx_s0 :: WalletsState where
  "vx_s0 = \<lparr>us_wallets = [], us_campaign = empty_db\<lparr>db_proofs := [vx_proof]\<rparr>, us_limiter = new_limiter\<rparr>"

definition vx_row1 :: WalletRow where
  "vx_row1 = \<lparr>ur_id = vx_w1, ur_user_id = vx_owner, ur_chain = ''stellar'', ur_address = vx_a, ur_label = None,
     ur_is_primary = True, ur_is_active = True, ur_is_active_signer = True, ur_created_at = 1000, ur_updated_at = 1000\<rparr>"

definition vx_row2 :: WalletRow where
  "vx_row2 = \<lparr>ur_id = vx_w2, ur_user_id = vx_stranger, ur_chain = ''stellar'', ur_address = vx_a, ur_label = None,
     ur_is_primary = True, ur_is_active = True, ur_is_active_signer = True, ur_created_at = 2000, ur_updated_at = 2000\<rparr>"

definition vx_s1 :: WalletsState where
  "vx_s1 = vx_s0\<lparr>us_wallets := [vx_row1]\<rparr>"

definition vx_s2 :: WalletsState where
  "vx_s2 = vx_s0\<lparr>us_wallets := [vx_row1, vx_row2]\<rparr>"

definition vx_s3 :: WalletsState where
  "vx_s3 = snd (connectWallet 3000 [] [] vx_none vx_s2)"

lemma vx_inputs:
  "connect_inputs vx_none = Inr (None, ''stellar'', vx_a, None)"
  "connect_inputs vx_session = Inr (Some vx_stranger, ''stellar'', vx_a, None)"
  "normalizeUserId (JString vx_stranger) = Inr vx_stranger"
  by code_simp+

lemma vx_ids: "uuid_cast vx_owner = vx_owner" "uuid_cast vx_stranger = vx_stranger" "uuid_cast vx_w1 = vx_w1" "uuid_cast vx_w2 = vx_w2"
  "vx_owner \<noteq> vx_stranger" "vx_stranger \<noteq> vx_owner" "vx_w1 \<noteq> vx_w2" "vx_w2 \<noteq> vx_w1"
  by code_simp+

lemmas vx_steps = connectWallet_def vx_inputs connect_create_def connect_promote_def createWalletForUser_def new_wallet_def
  insert_wallet_def conflicts_def wallet_id_key_def wallet_address_key_def count_wallets_def promoteToActiveSigner_def
  demote_signers_def make_signer_def update_where_def own_wallet_def find_wallet_def findSignerWalletByAddress_def
  getWalletByAddressForUser_def lower_eq_def vx_ids Let_def

lemma vx_runs:
  "connectWallet 1000 vx_owner vx_w1 vx_none vx_s0 = (Inr (Connected True True vx_row1 vx_owner), vx_s1)"
  "connectWallet 2000 [] vx_w2 vx_session vx_s1 = (Inr (Connected False True vx_row2 vx_stranger), vx_s2)"
  by (simp_all add: vx_steps vx_s0_def vx_s1_def vx_s2_def vx_row1_def vx_row2_def)

lemma vx_recovery:
  "connectWallet 3000 [] [] vx_none vx_s2 = (Inr (Connected False False (vx_row2\<lparr>ur_updated_at := 3000\<rparr>) vx_stranger), vx_s3)"
proof -
  have "fst (connectWallet 3000 [] [] vx_none vx_s2) = Inr (Connected False False (vx_row2\<lparr>ur_updated_at := 3000\<rparr>) vx_stranger)"
    by (simp add: vx_steps vx_s0_def vx_s2_def vx_row1_def vx_row2_def consumeUnboundProof_def fresh_unbound_def vx_proof_def
        conflicts_iff proof_bound_key_def RECOVERY_PROOF_MAX_AGE_SECONDS_def empty_db_def)
  then show ?thesis by (simp add: vx_s3_def prod_eq_iff)
qed

lemma vx_reachable: "wallets_reachable vx_s1" "wallets_reachable vx_s2"
proof -
  have "wallets_reachable vx_s0" unfolding vx_s0_def by (rule wallets_reachable.start)
  from wallets_reachable.step [OF this wallet_step.connect [of _ 1000 vx_owner vx_w1 vx_none]]
  show 1: "wallets_reachable vx_s1" by (simp only: vx_runs snd_conv)
  from wallets_reachable.step [OF 1 wallet_step.connect [of _ 2000 "[]" vx_w2 vx_session]]
  show "wallets_reachable vx_s2" by (simp only: vx_runs snd_conv)
qed

definition vx_l1 :: LimiterRun where
  "vx_l1 = \<lparr>lim_state = snd (tryAcquire REFRESH_COOLDOWN_MS REFRESH_MAX_CONCURRENT 5 vx_w1 new_limiter), lim_clock = 5,
     lim_starts = [(vx_w1, 5)]\<rparr>"

lemma vx_l1_reachable: "limiter_reachable REFRESH_COOLDOWN_MS REFRESH_MAX_CONCURRENT vx_l1"
proof -
  let ?r = "\<lparr>lim_state = new_limiter, lim_clock = 0, lim_starts = []\<rparr>"
  have granted: "fst (tryAcquire REFRESH_COOLDOWN_MS REFRESH_MAX_CONCURRENT 5 vx_w1 new_limiter) = Inr ()" by code_simp
  have "limiter_step REFRESH_COOLDOWN_MS REFRESH_MAX_CONCURRENT ?r
      \<lparr>lim_state = snd (tryAcquire REFRESH_COOLDOWN_MS REFRESH_MAX_CONCURRENT 5 vx_w1 new_limiter), lim_clock = 5,
       lim_starts = (if fst (tryAcquire REFRESH_COOLDOWN_MS REFRESH_MAX_CONCURRENT 5 vx_w1 new_limiter) = Inr ()
         then (vx_w1, 5) # lim_starts ?r else lim_starts ?r)\<rparr>"
    by (rule limiter_step.request) simp_all
  then have "limiter_step REFRESH_COOLDOWN_MS REFRESH_MAX_CONCURRENT ?r vx_l1" by (simp add: granted vx_l1_def)
  then show ?thesis by (rule limiter_reachable.step [OF limiter_reachable.start])
qed

lemma vx_refresh:
  "refresh_begin 5000 (JString vx_owner) (JString vx_w1) vx_s1
     = (Inr (vx_w1, vx_row1), snd (refresh_begin 5000 (JString vx_owner) (JString vx_w1) vx_s1))"
  "requireUuid (JString (toUpperCase vx_w1)) ''walletId'' = Inr (toUpperCase vx_w1)"
  "toLowerCase (toUpperCase vx_w1) = toLowerCase vx_w1" "toUpperCase vx_w1 \<noteq> vx_w1"
proof -
  have "fst (refresh_begin 5000 (JString vx_owner) (JString vx_w1) vx_s1) = Inr (vx_w1, vx_row1)" by code_simp
  then show "refresh_begin 5000 (JString vx_owner) (JString vx_w1) vx_s1
     = (Inr (vx_w1, vx_row1), snd (refresh_begin 5000 (JString vx_owner) (JString vx_w1) vx_s1))" by (simp add: prod_eq_iff)
  show "requireUuid (JString (toUpperCase vx_w1)) ''walletId'' = Inr (toUpperCase vx_w1)"
    "toLowerCase (toUpperCase vx_w1) = toLowerCase vx_w1" "toUpperCase vx_w1 \<noteq> vx_w1" by code_simp+
qed

lemma vx_limiter: "us_limiter vx_s1 = new_limiter"
  by (simp add: vx_s1_def vx_s0_def)

end
