(* ===== verification/Wallets_Properties.thy ===== *)
theory Wallets_Properties
  imports Wallets_Example
begin

text \<open>
  The wallet accounts' properties: designations, separation of accounts, recovery by proof of ownership, and the
  refresh brake; with two behaviours the rules do not intend. Witnessed on a run of two accounts that name the same
  address.
\<close>

section \<open>Separation\<close>

lemma others_update:
  assumes "\<And>r. r \<in> set rows \<Longrightarrow> P r \<Longrightarrow> ur_user_id r = v" "\<And>r. ur_user_id (f r) = ur_user_id r"
  shows "filter (\<lambda>r. ur_user_id r \<noteq> v) (update_where P f rows) = filter (\<lambda>r. ur_user_id r \<noteq> v) rows"
  using assms(1) by (induction rows) (auto simp: update_where_def assms(2))

definition others :: "string \<Rightarrow> wallets \<Rightarrow> wallets" where
  "others u rows = filter (\<lambda>r. ur_user_id r \<noteq> uuid_cast u) rows"

lemma others_statements:
  "others u (demote_primaries now u rows) = others u rows" "others u (make_primary now w u rows) = others u rows"
  "others u (demote_signers now u w rows) = others u rows" "others u (relabel now w u t rows) = others u rows"
  "others u (set_active now w u b rows) = others u rows" "others u (delete_wallet w u rows) = others u rows"
  "make_signer now w u rows = Inr rows' \<Longrightarrow> others u rows' = others u rows"
proof -
  show "make_signer now w u rows = Inr rows' \<Longrightarrow> others u rows' = others u rows"
    by (auto simp: make_signer_def others_def own_wallet_def split: if_splits intro!: others_update)
  show "others u (delete_wallet w u rows) = others u rows"
    by (auto simp: others_def delete_wallet_def own_wallet_def intro: filter_cong)
qed (auto simp: demote_primaries_def make_primary_def demote_signers_def relabel_def set_active_def others_def own_wallet_def
    intro!: others_update)

lemma others_by_id:
  assumes ok: "wallets_ok rows" and r: "r \<in> set rows" "ur_user_id r = uuid_cast u"
  shows "others u (promote_other now (ur_id r) rows) = others u rows" "others u (revive now (ur_id r) t rows) = others u rows"
  using okD(4) [OF ok _ r(1)] r(2) by (auto simp: promote_other_def revive_def others_def intro!: others_update)

lemma others_promote: "others u (snd (promoteToActiveSigner now u w rows)) = others u rows"
  by (auto simp: promoteToActiveSigner_def Let_def others_statements split: sum.splits option.splits)

lemma others_create:
  "createWalletForUser now i u c a l rows = Inr (r, rows') \<Longrightarrow> others u rows' = others u rows"
  by (auto simp: createWalletForUser_def Let_def insert_wallet_def new_wallet_def others_def split: sum.splits if_splits)

lemma others_connect_promote: "others u (us_wallets (snd (connect_promote now u w b c st))) = others u (us_wallets st)"
  using others_promote [of u now w "us_wallets st"]
  by (cases "promoteToActiveSigner now u w (us_wallets st)") (simp add: connect_promote_def)

lemma others_connect_create: "others u (us_wallets (snd (connect_create now i u c a l b st))) = others u (us_wallets st)"
  by (auto simp: connect_create_def others_connect_promote split: sum.splits dest: others_create)

lemma by_address_mem: "getWalletByAddressForUser u c a rows = Some r \<Longrightarrow>
    r \<in> set rows \<and> ur_user_id r = uuid_cast u \<and> lower_eq (ur_chain r) c \<and> lower_eq (ur_address r) a"
  by (auto simp: getWalletByAddressForUser_def find_Some_iff)

lemma connect_promote_account: "fst (connect_promote now u w b c st) = Inr (Connected b' c' row v) \<Longrightarrow> v = u \<and> b' = b \<and> c' = c"
  by (cases "promoteToActiveSigner now u w (us_wallets st)") (auto simp: connect_promote_def map_sum_def split: sum.splits)

lemma connect_create_account:
  "fst (connect_create now i u c a l b st) = Inr (Connected b' c' row v) \<Longrightarrow> v = u \<and> b' = b"
  by (auto simp: connect_create_def split: sum.splits dest: connect_promote_account)

lemma with_own_wallet_account:
  assumes "normalizeUserId v = Inr u" "Q st"
    "\<And>w' r. r \<in> set (us_wallets st) \<Longrightarrow> own_wallet w' u r \<Longrightarrow> Q (snd (body u w' r))"
  shows "Q (snd (with_own_wallet v w st body))"
  using assms by (auto simp: with_own_wallet_def wallet_inputs_def split: sum.splits option.splits dest: find_wallet_mem)

lemma others_hand_over:
  "wallets_ok rows \<Longrightarrow> other_active w u rows = Some r \<Longrightarrow> others u (promote_other now (ur_id r) rows) = others u rows"
  using other_active_mem by (intro others_by_id) blast+

lemma others_active:
  assumes ok: "wallets_ok (us_wallets st)" and user: "normalizeUserId v = Inr u"
  shows "others u (us_wallets (snd (setWalletActive now v w b st))) = others u (us_wallets st)"
proof (cases "\<exists>e. wallet_inputs v w = Inl e \<or> (\<nexists>active. b = JBool active)")
  case True
  then show ?thesis by (auto simp: setWalletActive_def split: sum.splits jsval.splits)
next
  case False
  then obtain x active where x: "wallet_inputs v w = Inr x" and b: "b = JBool active" by (cases "wallet_inputs v w") auto
  show ?thesis unfolding setWalletActive_def x b sum.case jsval.case
    by (rule with_own_wallet_account [where Q = "\<lambda>st'. others u (us_wallets st') = others u (us_wallets st)", OF user refl])
       (auto simp: Let_def others_statements others_hand_over [OF ok] split: option.split)
qed

section \<open>The signer of an address\<close>

lemma signer_found:
  assumes "findSignerWalletByAddress c a rows = Some s"
  shows "s \<in> set rows \<and> lower_eq (ur_chain s) c \<and> lower_eq (ur_address s) a \<and> ur_is_active_signer s
    \<and> (\<forall>r \<in> set rows. lower_eq (ur_chain r) c \<and> lower_eq (ur_address r) a \<and> ur_is_active_signer r \<longrightarrow> ur_updated_at r \<le> ur_updated_at s)"
proof -
  let ?P = "\<lambda>r. lower_eq (ur_chain r) c \<and> lower_eq (ur_address r) a \<and> ur_is_active_signer r"
  let ?k = "\<lambda>r. (- ur_updated_at r, ur_id r)"
  obtain rest where sorted: "sort_key ?k (filter ?P rows) = s # rest"
    using assms by (auto simp: findSignerWalletByAddress_def split: list.splits)
  have mem: "set (filter ?P rows) = insert s (set rest)" using arg_cong [OF sorted, of set] by (simp only: set_sort list.set)
  have "sorted (map ?k (s # rest))" by (simp only: sorted [symmetric] sorted_sort_key)
  then have key: "?k s \<le> ?k r" if "r \<in> set rest" for r using that unfolding list.map sorted_simps by (simp only: set_map ball_simps)
  have le: "ur_updated_at r \<le> ur_updated_at s" if "r \<in> set rows" "?P r" for r
  proof -
    have "r = s \<or> r \<in> set rest" using that mem by (simp add: set_eq_iff) blast
    then show ?thesis using key [of r] by (auto simp: less_eq_prod_def)
  qed
  have "s \<in> set (filter ?P rows)" by (simp only: mem insert_iff) simp
  then have "s \<in> set rows \<and> ?P s" by (simp only: set_filter mem_Collect_eq)
  with le show ?thesis by simp
qed

lemma consume_Some:
  assumes "consumeUnboundProof now a u age d = Inr (Some x', d')"
  shows "\<exists>x \<in> set (db_proofs d). fresh_unbound now a age x \<and> x' = x\<lparr>pf_consumed_at := Some now, pf_user_id := Some (uuid_cast u)\<rparr>
    \<and> db_proofs d' = map (\<lambda>y. if pf_id y = pf_id x then x' else y) (db_proofs d)"
proof -
  obtain x rest where x: "sort_key (\<lambda>x. - pf_verified_at x) (filter (fresh_unbound now a age) (db_proofs d)) = x # rest"
      "x' = x\<lparr>pf_consumed_at := Some now, pf_user_id := Some (uuid_cast u)\<rparr>"
      "db_proofs d' = map (\<lambda>y. if pf_id y = pf_id x then x' else y) (db_proofs d)"
    using assms by (auto simp: consumeUnboundProof_def Let_def split: list.splits if_splits)
  then have "x \<in> set (filter (fresh_unbound now a age) (db_proofs d))" by (metis list.set_intros(1) set_sort)
  with x show ?thesis by auto
qed

text \<open>Without a session, an existing account is answered only by way of the proof.\<close>

lemma recovery_branch:
  assumes inputs: "connect_inputs p = Inr (None, chain, a, l)"
    and signer: "findSignerWalletByAddress chain a (us_wallets st) = Some s"
    and run: "connectWallet now nu i p st = (Inr (Connected cu cw row v), st')"
  obtains pr d where "consumeUnboundProof now a (ur_user_id s) RECOVERY_PROOF_MAX_AGE_SECONDS (us_campaign st) = Inr (Some pr, d)"
    "v = ur_user_id s" "us_campaign st' = d"
proof -
  from run obtain pr d where c: "consumeUnboundProof now a (ur_user_id s) RECOVERY_PROOF_MAX_AGE_SECONDS (us_campaign st) = Inr (Some pr, d)"
      and k: "connect_promote now (ur_user_id s) (ur_id s) False False (st\<lparr>us_campaign := d\<rparr>) = (Inr (Connected cu cw row v), st')"
    by (auto simp: connectWallet_def inputs signer split: sum.splits option.splits prod.splits)
  have "us_campaign (snd (connect_promote now u w b b' st1)) = us_campaign st1" for u w b b' st1
    by (cases "promoteToActiveSigner now u w (us_wallets st1)") (simp add: connect_promote_def)
  with k have "us_campaign st' = d" by (metis WalletsState.select_convs(2) WalletsState.surjective WalletsState.update_convs(2) snd_conv)
  with that [OF c] connect_promote_account [of now "ur_user_id s" "ur_id s" False False "st\<lparr>us_campaign := d\<rparr>"] k show ?thesis by simp
qed

section \<open>Naming an address as one's own\<close>

lemma set_update: "set (update_where P f rows) = (\<lambda>r. if P r then f r else r) ` set rows"
  by (simp add: update_where_def)

lemma promote_row:
  assumes ok: "wallets_ok rows" and e: "e \<in> set rows" "uuid_cast (ur_id e) = ur_id e"
    and run: "fst (promoteToActiveSigner now u (ur_id e) rows) = Inr r"
  shows "r \<in> set (snd (promoteToActiveSigner now u (ur_id e) rows)) \<and> ur_user_id r = uuid_cast u \<and> ur_is_active_signer r
    \<and> ur_updated_at r = now \<and> ur_chain r = ur_chain e \<and> ur_address r = ur_address e"
proof -
  let ?w = "ur_id e"
  let ?rows1 = "demote_signers now u ?w rows"
  let ?f = "\<lambda>r. r\<lparr>ur_is_active_signer := True, ur_is_active := True, ur_updated_at := now\<rparr>"
  from run obtain rows2 where rows2: "make_signer now ?w u ?rows1 = Inr rows2" "find_wallet ?w u rows2 = Some r"
      "snd (promoteToActiveSigner now u ?w rows) = rows2"
    by (auto simp: promoteToActiveSigner_def Let_def split: sum.splits option.splits)
  then have map: "rows2 = update_where (own_wallet ?w u) ?f ?rows1" by (auto simp: make_signer_def split: if_splits)
  from find_wallet_mem [OF rows2(2)] have r: "r \<in> set rows2" "own_wallet ?w u r" by auto
  then obtain r1 where r1: "r1 \<in> set ?rows1" "r = (if own_wallet ?w u r1 then ?f r1 else r1)"
    unfolding map set_update by blast
  with r(2) have own: "own_wallet ?w u r1" "r = ?f r1" by (auto simp: own_wallet_def split: if_splits)
  from r1(1) obtain r0 where r0: "r0 \<in> set rows" "ur_id r1 = ur_id r0" "ur_chain r1 = ur_chain r0" "ur_address r1 = ur_address r0"
    by (auto simp: demote_signers_def set_update)
  have "ur_id r0 = ur_id e" using own(1) r0(2) e(2) by (simp add: own_wallet_def)
  from okD(4) [OF ok r0(1) e(1) this] r0 own r(1) rows2(3) show ?thesis by (simp add: own_wallet_def)
qed

lemma connect_names_signer:
  assumes ok: "wallets_ok (us_wallets st)" and inputs: "connect_inputs p = Inr (Some m, c, a, l)"
    and canonical: "\<And>r. r \<in> set (us_wallets st) \<Longrightarrow> uuid_cast (ur_id r) = ur_id r" "uuid_cast i = i"
    and run: "connectWallet now n i p st = (Inr ans, st')"
  shows "\<exists>r \<in> set (us_wallets st'). ur_user_id r = uuid_cast m \<and> ur_is_active_signer r \<and> ur_updated_at r = now
    \<and> lower_eq (ur_chain r) c \<and> lower_eq (ur_address r) a"
proof -
  have promoted: ?thesis if ok: "wallets_ok rows" and e: "e \<in> set rows" "uuid_cast (ur_id e) = ur_id e"
      "lower_eq (ur_chain e) c" "lower_eq (ur_address e) a"
      and k: "connect_promote now m (ur_id e) b b' (st1\<lparr>us_wallets := rows\<rparr>) = (Inr ans, st')" for rows e b b' st1
  proof -
    obtain x rows2 where x: "promoteToActiveSigner now m (ur_id e) rows = (x, rows2)" by fastforce
    with k obtain r where "x = Inr r" "us_wallets st' = rows2" by (cases x) (auto simp: connect_promote_def)
    with promote_row [OF ok e(1,2), of now m r] x e(3,4) show ?thesis by auto
  qed
  show ?thesis
  proof (cases "getWalletByAddressForUser m c a (us_wallets st)")
    case (Some e)
    with run have "connect_promote now m (ur_id e) False False (st\<lparr>us_wallets := us_wallets st\<rparr>) = (Inr ans, st')"
      by (simp add: connectWallet_def inputs)
    from promoted [OF ok _ _ _ _ this] by_address_mem [OF Some] canonical(1) show ?thesis by blast
  next
    case None
    with run obtain row rows where create: "createWalletForUser now i m c a l (us_wallets st) = Inr (row, rows)"
        and k: "connect_promote now m (ur_id row) False True (st\<lparr>us_wallets := rows\<rparr>) = (Inr ans, st')"
      by (auto simp: connectWallet_def inputs connect_create_def split: sum.splits)
    have row: "row \<in> set rows" "ur_id row = i" "ur_chain row = c" "ur_address row = a"
      using create by (auto simp: createWalletForUser_def Let_def insert_wallet_def new_wallet_def split: sum.splits if_splits)
    from promoted [OF ok_insert [OF ok create] row(1) _ _ _ k] row canonical(2) show ?thesis by (simp add: lower_eq_def)
  qed
qed

lemma uuid_cast_idem: "uuid_cast (uuid_cast u) = uuid_cast u"
  by (simp add: uuid_cast_def)

section \<open>Properties\<close>

text \<open>C14: in every state the wallet endpoints can reach, one request at a time, an account that has a wallet has
  exactly one primary wallet, which is not paused, and at most one signer; no account tracks an address of a
  chain twice.\<close>

theorem account_keeps_one_primary:
  assumes reach: "wallets_reachable st" and r: "r \<in> set (us_wallets st)"
  shows "(\<exists>!p. p \<in> set (us_wallets st) \<and> ur_user_id p = ur_user_id r \<and> ur_is_primary p)
    \<and> (\<forall>p \<in> set (us_wallets st). ur_is_primary p \<longrightarrow> ur_is_active p)
    \<and> (\<forall>x \<in> set (us_wallets st). \<forall>y \<in> set (us_wallets st). ur_user_id x = ur_user_id y \<and> x \<noteq> y \<longrightarrow>
         \<not> (ur_is_active_signer x \<and> ur_is_active_signer y) \<and> (ur_chain x, ur_address x) \<noteq> (ur_chain y, ur_address y))"
proof -
  note ok = wallets_ok_reachable [OF reach]
  have one: "x = y" if "x \<in> set (us_wallets st)" "y \<in> set (us_wallets st)" "ur_user_id x = ur_user_id y"
      "ur_is_primary x" "ur_is_primary y" for x y
    using okD(4) [OF ok that(1,2) okD(1) [OF ok that]] .
  have address: "x = y" if "x \<in> set (us_wallets st)" "y \<in> set (us_wallets st)" "wallet_address_key x = wallet_address_key y" for x y
    using ok that by (intro unique_onD [of wallet_address_key "us_wallets st" x y]) (auto simp: wallets_ok_def wallet_address_key_def)
  have active: "ur_is_active p" if p: "p \<in> set (us_wallets st)" "ur_is_primary p" for p
  proof -
    obtain q where "q \<in> set (us_wallets st)" "ur_user_id q = ur_user_id p" "ur_is_primary q" "ur_is_active q"
      using okD(3) [OF ok p(1)] by blast
    with one [of p q] p show ?thesis by simp
  qed
  show ?thesis
  proof (intro conjI ballI impI)
    obtain p where "p \<in> set (us_wallets st)" "ur_user_id p = ur_user_id r" "ur_is_primary p"
      using okD(3) [OF ok r] by blast
    with one show "\<exists>!p. p \<in> set (us_wallets st) \<and> ur_user_id p = ur_user_id r \<and> ur_is_primary p" by metis
  next
    fix x y assume xy: "x \<in> set (us_wallets st)" "y \<in> set (us_wallets st)" "ur_user_id x = ur_user_id y \<and> x \<noteq> y"
    then show "\<not> (ur_is_active_signer x \<and> ur_is_active_signer y)" using okD(2,4) [OF ok xy(1,2)] by blast
    show "(ur_chain x, ur_address x) \<noteq> (ur_chain y, ur_address y)"
      using address [OF xy(1,2)] xy(3) by (auto simp: wallet_address_key_def)
  qed (rule active)
qed

theorem account_keeps_one_primary_witness:
  "\<exists>!p. p \<in> set (us_wallets vx_s2) \<and> ur_user_id p = vx_owner \<and> ur_is_primary p"
  using account_keeps_one_primary [OF vx_reachable(2), of vx_row1] by (simp add: vx_s2_def vx_row1_def)

text \<open>C15: a request that names an account changes no row of any other account, and connecting with a session
  answers that session's account, whoever else holds the address.\<close>

theorem endpoints_keep_other_accounts:
  assumes reach: "wallets_reachable st" and user: "normalizeUserId v = Inr u"
    and named: "connect_inputs p = Inr (Some u, c, a, l)"
  shows "others u (us_wallets (snd (setPrimaryWallet now v w st))) = others u (us_wallets st)
    \<and> others u (us_wallets (snd (setActiveSigner now v w st))) = others u (us_wallets st)
    \<and> others u (us_wallets (snd (updateWalletLabel now v w t st))) = others u (us_wallets st)
    \<and> others u (us_wallets (snd (setWalletActive now v w b st))) = others u (us_wallets st)
    \<and> others u (us_wallets (snd (deleteWallet now v w st))) = others u (us_wallets st)
    \<and> others u (us_wallets (snd (createWallet now n i p st))) = others u (us_wallets st)
    \<and> others u (us_wallets (snd (connectWallet now n i p st))) = others u (us_wallets st)
    \<and> (\<forall>cu cw row x. fst (connectWallet now n i p st) = Inr (Connected cu cw row x) \<longrightarrow> x = u \<and> \<not> cu)"
proof -
  note ok = wallets_ok_reachable [OF reach]
  note account = with_own_wallet_account [where Q = "\<lambda>st'. others u (us_wallets st') = others u (us_wallets st)", OF user refl]
  have "others u (us_wallets (snd (setPrimaryWallet now v w st))) = others u (us_wallets st)"
    unfolding setPrimaryWallet_def by (rule account) (simp add: Let_def others_statements)
  moreover have "others u (us_wallets (snd (setActiveSigner now v w st))) = others u (us_wallets st)"
    unfolding setActiveSigner_def
  proof (rule account)
    fix w' show "others u (us_wallets (snd (let (r, rows) = promoteToActiveSigner now u w' (us_wallets st) in (r, st\<lparr>us_wallets := rows\<rparr>))))
        = others u (us_wallets st)"
      using others_promote [of u now w' "us_wallets st"] by (cases "promoteToActiveSigner now u w' (us_wallets st)") simp
  qed
  moreover have "others u (us_wallets (snd (updateWalletLabel now v w t st))) = others u (us_wallets st)"
    by (cases "wallet_inputs v w"; cases "normalizeLabel t")
       (simp_all add: updateWalletLabel_def, rule account, simp add: Let_def others_statements)
  moreover have "others u (us_wallets (snd (setWalletActive now v w b st))) = others u (us_wallets st)"
    by (rule others_active [OF ok user])
  moreover have "others u (us_wallets (snd (deleteWallet now v w st))) = others u (us_wallets st)"
    unfolding deleteWallet_def
    by (rule account) (auto simp: Let_def others_statements others_hand_over [OF ok] split: option.split)
  moreover have "others u (us_wallets (snd (createWallet now n i p st))) = others u (us_wallets st)"
    by (auto simp: createWallet_def named create_new_def Let_def others_by_id [OF ok] split: option.splits sum.splits
        dest: others_create by_address_mem)
  moreover have "others u (us_wallets (snd (connectWallet now n i p st))) = others u (us_wallets st)"
    by (simp add: connectWallet_def named others_connect_promote others_connect_create split: option.split)
  moreover have "x = u \<and> \<not> cu" if "fst (connectWallet now n i p st) = Inr (Connected cu cw row x)" for cu cw row x
    using that by (auto simp: connectWallet_def named split: option.splits dest: connect_promote_account connect_create_account)
  ultimately show ?thesis by blast
qed

theorem endpoints_keep_other_accounts_witness:
  "others vx_stranger (us_wallets (snd (deleteWallet 3000 (JString vx_stranger) (JString vx_w2) vx_s2))) = others vx_stranger (us_wallets vx_s2)"
  using endpoints_keep_other_accounts [OF vx_reachable(2) vx_inputs(3,2)] by blast

text \<open>C13: without a session nobody is handed an existing account except by a proof of ownership of the address:
  verified within the last ten minutes, bound to nobody and not used before; it is used up with the answer, and
  the account has that address as its signer.\<close>

theorem recovery_needs_fresh_proof:
  assumes inputs: "connect_inputs p = Inr (None, chain, a, l)"
    and run: "connectWallet now newUser i p st = (Inr (Connected createdUser createdWallet row v), st')"
    and existing: "\<not> createdUser"
  shows "(\<exists>s \<in> set (us_wallets st). ur_user_id s = v \<and> lower_eq (ur_address s) a \<and> ur_is_active_signer s)
    \<and> (\<exists>x \<in> set (db_proofs (us_campaign st)). lower_eq (pf_address x) a \<and> pf_user_id x = None \<and> pf_consumed_at x = None
         \<and> now - 600000 \<le> pf_verified_at x
         \<and> (\<forall>y \<in> set (db_proofs (us_campaign st')). pf_id y = pf_id x \<longrightarrow>
              pf_consumed_at y = Some now \<and> pf_user_id y = Some (uuid_cast v)))"
proof (cases "findSignerWalletByAddress chain a (us_wallets st)")
  case None
  with run existing show ?thesis
    by (auto simp: connectWallet_def inputs dest!: arg_cong [where f = fst] dest: connect_create_account)
next
  case (Some s)
  from recovery_branch [OF inputs Some run] obtain pr d where
    c: "consumeUnboundProof now a (ur_user_id s) RECOVERY_PROOF_MAX_AGE_SECONDS (us_campaign st) = Inr (Some pr, d)"
    and v: "v = ur_user_id s" "us_campaign st' = d" by blast
  from consume_Some [OF c] obtain x where x: "x \<in> set (db_proofs (us_campaign st))"
      "fresh_unbound now a RECOVERY_PROOF_MAX_AGE_SECONDS x"
      "pr = x\<lparr>pf_consumed_at := Some now, pf_user_id := Some (uuid_cast (ur_user_id s))\<rparr>"
      "db_proofs d = map (\<lambda>y. if pf_id y = pf_id x then pr else y) (db_proofs (us_campaign st))" by blast
  have "pf_consumed_at y = Some now \<and> pf_user_id y = Some (uuid_cast v)" if "y \<in> set (db_proofs d)" "pf_id y = pf_id x" for y
    using that unfolding x(4) set_map by (auto simp: x(3) v(1) split: if_splits)
  moreover have "lower_eq (pf_address x) a \<and> pf_user_id x = None \<and> pf_consumed_at x = None \<and> now - 600000 \<le> pf_verified_at x"
    using x(2) by (simp add: fresh_unbound_def RECOVERY_PROOF_MAX_AGE_SECONDS_def)
  ultimately show ?thesis using signer_found [OF Some] x(1) v by blast
qed

theorem recovery_needs_fresh_proof_witness:
  "\<exists>x \<in> set (db_proofs (us_campaign vx_s2)). lower_eq (pf_address x) vx_a \<and> pf_user_id x = None \<and> 2400 \<le> pf_verified_at x"
  using recovery_needs_fresh_proof [OF vx_inputs(1) vx_recovery] by (auto simp: vx_s2_def vx_s0_def vx_proof_def)

text \<open>C16: the refresh brake: whatever requests come and go, at most two refreshes run at a time, of different
  wallet identifiers, and two starts of the same identifier are at least a minute apart.\<close>

theorem refreshes_limited:
  assumes reach: "limiter_reachable REFRESH_COOLDOWN_MS REFRESH_MAX_CONCURRENT r"
  shows "length (lim_inFlight (lim_state r)) \<le> 2 \<and> distinct (lim_inFlight (lim_state r))
    \<and> (\<forall>i j. i < j \<and> j < length (lim_starts r) \<and> fst (lim_starts r ! i) = fst (lim_starts r ! j) \<longrightarrow>
         60000 \<le> snd (lim_starts r ! i) - snd (lim_starts r ! j))"
proof -
  from limiter_inv_reachable [OF reach] have inv: "distinct (lim_inFlight (lim_state r))"
    "length (lim_inFlight (lim_state r)) \<le> REFRESH_MAX_CONCURRENT" "spaced REFRESH_COOLDOWN_MS (lim_starts r)"
    by (simp_all add: limiter_inv_def)
  from spaced_nth [OF inv(3)] inv(1,2) show ?thesis
    unfolding REFRESH_MAX_CONCURRENT_def REFRESH_COOLDOWN_MS_def by blast
qed

theorem refreshes_limited_witness: "length (lim_inFlight (lim_state vx_l1)) \<le> 2"
  using refreshes_limited [OF vx_l1_reachable] by blast

section \<open>What the rules do not intend\<close>

text \<open>C39: connecting with a session makes an address the account's signer without any proof, and recovery goes to
  the account that did so last: when the owner of the address then recovers with a fresh proof, the owner is
  handed that account, and the owner's proof of ownership is bound to it.\<close>

theorem recovery_follows_last_claim:
  assumes reach: "wallets_reachable st"
    and canonical: "\<forall>r \<in> set (us_wallets st). uuid_cast (ur_id r) = ur_id r" "uuid_cast i = i"
    and older: "\<forall>r \<in> set (us_wallets st). ur_updated_at r < t1"
    and session: "connect_inputs p = Inr (Some stranger, c, a, l)"
    and claimed: "connectWallet t1 n i p st = (Inr ans, st1)"
    and none: "connect_inputs p' = Inr (None, c, a, l')"
    and recovered: "connectWallet t2 n' i' p' st1 = (Inr (Connected cu cw row v), st2)"
  shows "v = uuid_cast stranger \<and> hasBoundProof a stranger (us_campaign st2)"
proof -
  note ok = wallets_ok_reachable [OF reach]
  from connect_names_signer [OF ok session _ canonical(2) claimed] canonical(1) obtain r where
    r: "r \<in> set (us_wallets st1)" "ur_is_active_signer r" "ur_updated_at r = t1" "lower_eq (ur_chain r) c" "lower_eq (ur_address r) a"
    by blast
  have kept: "others stranger (us_wallets st1) = others stranger (us_wallets st)"
    using claimed others_connect_promote [of stranger t1] others_connect_create [of stranger t1]
    by (simp add: connectWallet_def session split: option.splits) (metis snd_conv)+
  have rest: "ur_updated_at x < t1" if "x \<in> set (us_wallets st1)" "ur_user_id x \<noteq> uuid_cast stranger" for x
  proof -
    have "x \<in> set (others stranger (us_wallets st1))" using that by (simp add: others_def)
    then have "x \<in> set (others stranger (us_wallets st))" unfolding kept .
    with older show ?thesis by (simp add: others_def)
  qed
  have "findSignerWalletByAddress c a (us_wallets st1) \<noteq> None"
    using r by (auto simp: findSignerWalletByAddress_def filter_empty_conv split: list.splits dest!: arg_cong [where f = set])
  then obtain s where s: "findSignerWalletByAddress c a (us_wallets st1) = Some s" by auto
  from signer_found [OF s] r have "s \<in> set (us_wallets st1)" "t1 \<le> ur_updated_at s" by auto
  with rest have su: "ur_user_id s = uuid_cast stranger" by force
  from recovery_branch [OF none s recovered] obtain pr d where
    pr: "consumeUnboundProof t2 a (ur_user_id s) RECOVERY_PROOF_MAX_AGE_SECONDS (us_campaign st1) = Inr (Some pr, d)"
    "v = ur_user_id s" "us_campaign st2 = d" by blast
  from consume_Some [OF pr(1)] obtain x where x: "x \<in> set (db_proofs (us_campaign st1))" "fresh_unbound t2 a RECOVERY_PROOF_MAX_AGE_SECONDS x"
      "pr = x\<lparr>pf_consumed_at := Some t2, pf_user_id := Some (uuid_cast (ur_user_id s))\<rparr>"
      "db_proofs d = map (\<lambda>y. if pf_id y = pf_id x then pr else y) (db_proofs (us_campaign st1))" by blast
  have "pr \<in> set (db_proofs d)" using x(1) unfolding x(4) set_map by (rule rev_image_eqI) simp
  moreover have "lower_eq (pf_address pr) a \<and> pf_user_id pr = Some (uuid_cast stranger)"
    using x(2) by (simp add: x(3) fresh_unbound_def su uuid_cast_idem)
  ultimately have "hasBoundProof a stranger (us_campaign st2)" by (auto simp: hasBoundProof_def list_ex_iff pr(3))
  with pr(2) su show ?thesis by simp
qed

theorem recovery_follows_last_claim_witness: "hasBoundProof vx_a vx_stranger (us_campaign vx_s3)"
proof -
  have rows: "\<forall>r \<in> set (us_wallets vx_s1). uuid_cast (ur_id r) = ur_id r" "uuid_cast vx_w2 = vx_w2"
      "\<forall>r \<in> set (us_wallets vx_s1). ur_updated_at r < 2000"
    by (simp_all add: vx_s1_def vx_row1_def vx_ids)
  show ?thesis
    using recovery_follows_last_claim [OF vx_reachable(1) rows vx_inputs(2) vx_runs(2) vx_inputs(1) vx_recovery] by blast
qed

text \<open>C40: the brake counts spellings, not wallets: while a refresh of a wallet runs, the same wallet is refreshed
  again at once when its identifier is written in other letter case.\<close>

theorem same_wallet_refreshed_twice:
  assumes first: "refresh_begin now u (JString w) st = (Inr (k, row), st1)"
    and spelling: "requireUuid (JString w') ''walletId'' = Inr k'" "toLowerCase k' = toLowerCase k" "k' \<noteq> k"
    and idle: "us_limiter st = new_limiter"
  shows "\<exists>st2. refresh_begin now u (JString w') st1 = (Inr (k', row), st2) \<and> lim_inFlight (us_limiter st2) = [k', k]"
proof -
  from first obtain u' where in1: "wallet_inputs u (JString w) = Inr (u', k)" and row: "find_wallet k u' (us_wallets st) = Some row"
    and st1: "st1 = st\<lparr>us_limiter := \<lparr>lim_inFlight = [k], lim_lastStartedAt = (\<lambda>x. None)(k \<mapsto> now)\<rparr>\<rparr>"
    by (auto simp: refresh_begin_def with_own_wallet_def idle new_limiter_def tryAcquire_def prune_def REFRESH_MAX_CONCURRENT_def
        Let_def split: sum.splits option.splits)
  have in2: "wallet_inputs u (JString w') = Inr (u', k')"
    using in1 spelling(1) by (auto simp: wallet_inputs_def normalizeWalletId_def or_bad_request_def split: sum.splits)
  have row2: "find_wallet k' u' (us_wallets st) = Some row"
    using row spelling(2) by (simp add: find_wallet_def own_wallet_def [abs_def] uuid_cast_def)
  have "tryAcquire REFRESH_COOLDOWN_MS REFRESH_MAX_CONCURRENT now k' (us_limiter st1)
      = (Inr (), (us_limiter st1)\<lparr>lim_inFlight := [k', k], lim_lastStartedAt := [k \<mapsto> now, k' \<mapsto> now]\<rparr>)"
    using spelling(3) by (simp add: st1 tryAcquire_def prune_def REFRESH_MAX_CONCURRENT_def REFRESH_COOLDOWN_MS_def Let_def fun_eq_iff)
  then show ?thesis by (simp add: refresh_begin_def with_own_wallet_def in2 row2 st1)
qed

theorem same_wallet_refreshed_twice_witness:
  "\<exists>st2. refresh_begin 5000 (JString vx_owner) (JString (toUpperCase vx_w1))
       (snd (refresh_begin 5000 (JString vx_owner) (JString vx_w1) vx_s1)) = (Inr (toUpperCase vx_w1, vx_row1), st2)
     \<and> lim_inFlight (us_limiter st2) = [toUpperCase vx_w1, vx_w1]"
  by (rule same_wallet_refreshed_twice [OF vx_refresh(1) vx_refresh(2,3,4) vx_limiter])

text \<open>A signer can be paused: \<open>setWalletActive\<close> keeps the designation.\<close>

lemma signer_can_be_paused:
  assumes inputs: "wallet_inputs u w = Inr (u', w')" and r: "find_wallet w' u' (us_wallets st) = Some r"
    "ur_is_active_signer r" "\<not> ur_is_primary r"
  shows "\<exists>r'. fst (setWalletActive now u w (JBool False) st) = Inr r' \<and> ur_is_active_signer r' \<and> \<not> ur_is_active r'"
proof -
  let ?f = "\<lambda>r. r\<lparr>ur_is_active := False, ur_is_primary := False, ur_updated_at := now\<rparr>"
  have "find_wallet w' u' (set_active now w' u' False rows) = map_option ?f (find_wallet w' u' rows)" for rows
    by (induction rows) (auto simp: find_wallet_def set_active_def update_where_def own_wallet_def)
  then show ?thesis using r(2,3) by (simp add: setWalletActive_def inputs with_own_wallet_def r(1) updated_wallet_def Let_def)
qed

end
