(* ===== verification/Spec2Isabelle.thy ===== *)
theory Spec2Isabelle
  imports Campaign_Properties Faucet_Properties Gate_Properties Alert_Properties Actions_Properties Client_Properties
    Witness_Properties Wallets_Properties
begin

text \<open>
  Dig Stellar: the parts of the program that hold points, money, signatures, alerts and accounts.

  \<^bold>\<open>The program.\<close> A web application (\<open>apps/web\<close>) shows market data and lets a user swap on the Stellar exchange
  or supply to a Blend pool from a wallet of the user's own. The API (\<open>apps/api\<close>) builds the unsigned
  transactions, verifies executed ones, runs a points campaign and a reward faucet, evaluates alerts and keeps
  the wallet accounts. An indexer (\<open>apps/indexer\<close>) fills the observation tables. The parts meet in Postgres: an
  action endpoint records a build event; the witness endpoint checks an executed transaction against it and
  stores a witness; the campaign's award job and the faucet read the witnesses; the campaign and the recovery of
  an account read the ownership proofs.

  \<^bold>\<open>Foundations.\<close> Dig_Prelude (text functions, shared lemmas), Js_Number, Js_Parse, Js_Text, Int_Text (binary64
  numbers as rationals with rounding to nearest even; reading and printing them), Js_Native (values the SDK
  decodes), Utc_Day, Process_Env, Driver_Errors, Request_Validation (\<open>common/request-validation.ts\<close>), Freshness
  (\<open>common/freshness.ts\<close>), Keyed_Table (tables with unique indexes: the locale \<open>unique_index\<close>, interpreted at
  every guarded insert), Flow (asynchronous handlers as state passing with exceptions).

  \<^bold>\<open>Campaign\<close> (\<open>modules/campaign\<close>, \<open>scripts/84-campaign-award\<close>, \<open>db/stellar_v6\<close> to \<open>v8\<close>). Campaign_Rules,
  Campaign_Db, Campaign_Ledger, Campaign_Aggregates, Campaign_Challenge, Campaign_Service, Campaign_Reads and
  Campaign_Award model rules, tables with their constraints, statements, endpoints and the job. Campaign_Steps is
  the step relation; Campaign_Points, Campaign_Caps, Campaign_Ownership, Campaign_Checkin, Campaign_Streaks,
  Campaign_Board and Campaign_Rerun carry the invariants; Campaign_Properties states them: balances, append-only
  ledger, daily caps, nonces used once, proofs that stand for signatures, an idempotent award run.

  \<^bold>\<open>Faucet\<close> (\<open>modules/faucet\<close>). Faucet_Rules (configuration, eligibility), Faucet_Service (claim and payout),
  Faucet_Invariants, Faucet_Properties: bounded payments, never two for a wallet and family, what an answer means.

  \<^bold>\<open>Witness\<close> (\<open>modules/actions/witness-verify.ts\<close>, \<open>witness.service.ts\<close>, \<open>witness.controller.ts\<close>).
  Witness_Verify, Witness_Service, Witness_Steps (requests interleaved at their awaits), Witness_Properties: a row
  is evidence of an executed action, witnessing is idempotent, and a paid reward rests on such an action.

  \<^bold>\<open>Actions\<close> (\<open>actions.controller.ts\<close>, \<open>actions.service.ts\<close>, \<open>network-registry.ts\<close>). Network_Registry,
  Actions_Amounts, Actions_Service, Actions_Controller; Action_Envelopes and Blend_Envelopes follow what is built
  through the SDK to the client's gates; Actions_Properties: the launch controls fail closed, and an envelope the
  server builds for a client's request passes that client's gate.

  \<^bold>\<open>Signing gates\<close> (\<open>lib/validateSwapXdr.ts\<close>, \<open>lib/validateDepositXdr.ts\<close>). Decoded_Tx, Swap_Gate,
  Submit_Gate, Gate_Properties: an envelope is accepted exactly when it is what the user intended.

  \<^bold>\<open>Client\<close> (\<open>BlendDepositCard.vue\<close>, \<open>SdexSwapWidget.vue\<close>, \<open>useWalletSession.ts\<close>). Client_Intents, Blend_Card,
  Blend_Flow, Blend_Safety, Blend_Pacing, Swap_Widget, Swap_Flow, Swap_Quotes, Client_Properties: nothing reaches
  the wallet but what passed its gate, one signature at a time, and every handler ends. The locale \<open>log_property\<close>
  (Blend_Safety) is the contract of a property that only a signature request can break.

  \<^bold>\<open>Alerts\<close> (\<open>modules/alerts\<close>, \<open>scripts/83-evaluate-alerts.ts\<close>). Alert_Rules, Alert_Store, Alert_Market,
  Alert_Edges, Alert_Service, Alert_Sweep; Alert_Moves (a run as small moves), Alert_Invariants, Alert_Properties:
  the feed agrees with the edge state, edges are paced, notifications and endpoints stay with their owner.

  \<^bold>\<open>Wallet accounts\<close> (\<open>modules/wallets\<close>). Refresh_Limiter, Wallets_Store, Wallets_Service, Wallets_Invariants,
  Wallets_Properties: one active primary wallet per account, accounts stay apart, recovery needs a fresh proof,
  refreshes are limited.

  \<^bold>\<open>Reading the models.\<close> An endpoint is a function from the outside's answers, the request and the state to an
  answer and the state it leaves; failures are values of a sum type. Instants are milliseconds. A table is the
  list of its rows; a unique index is a key function. \<open>now()\<close>, drawn identifiers and the answers of Horizon, the
  RPC node, the wallet and the SDK are arguments. Campaign_Example, Alert_Example, Actions_Example,
  Actions_Runs, Card_Example, Swap_Example and Wallets_Example are concrete runs on which the hypotheses of the properties hold.

  \<^bold>\<open>Bounds and fuel.\<close> Loops are structural recursion. The poll of a confirmation has the code's twelve rounds as
  its fuel; a deposit ends within 54 awaits and a withdrawal within 27, so the outside supplies an answer for
  every await a run can reach. Numbers follow binary64; \<open>BigInt\<close> is \<open>int\<close>.

  \<^bold>\<open>Assumptions.\<close> A statement is atomic. Campaign requests read other wallets' social claims from a snapshot of
  their own, since the lock is per wallet. Claims of the faucet are serialised by the code. Wallet requests run
  one at a time, since the two statements of a designation are not a transaction. The reads of a witness request
  may each see an older state. Statements of an alert run may throw. The inputs of a card change only at awaits.
  A transaction the network has executed does not change. That the SDK decodes an envelope it built as it was
  built is the hypothesis \<open>sdk_reads_back\<close> of the two refinement properties. Text is one byte per character where
  the code inspects it; numeric columns hold the number they are given.

  \<^bold>\<open>What the model showed.\<close> Two wallets can share a handle under concurrent claims of different tasks. A repaid debt
  hides behind the snapshot before it. An exponent in the amount text evades the mainnet deposit cap. A swap can
  take its minimum from the estimate of earlier inputs. An address named without proof by another account
  captures its owner's recovery. The refresh brake counts spellings of an identifier. A signer can be paused.

  \<^bold>\<open>Not modelled.\<close> The dashboards' SQL aggregates (\<open>modules/stellar\<close>, \<open>network\<close>, \<open>bridge\<close>, \<open>ops\<close>, the overview
  reads of \<open>wallets.service.ts\<close>), the indexer, rendering and composables of the web application, the HTTP layer,
  the generated SDK: queries, presentation and I/O over external formats without state of their own. Whatever the
  indexer writes is arbitrary in the models that read it.
\<close>

end
